(* ===== verification/Prelude.thy ===== *)
theory Prelude
  imports Complex_Main "HOL-Library.Char_ord" "HOL-Library.List_Lexorder"
begin

section \<open>Shared vocabulary: errors, results, actions over a state, lists\<close>

text \<open>
  The generic part of the library. Every Python exception is a value of \<open>err\<close>: the
  application's own \<open>Problem(code, status)\<close>, or a named exception of the runtime that the
  source lets escape (\<open>TypeError\<close>, \<open>IntegrityError\<close>, \<dots>). A pure function that may raise returns
  \<open>'a res\<close>; a method that also reads and writes state is an action \<open>('s, 'a) act\<close>, which
  returns the new state even when it raises (so that what an exception does \<^emph>\<open>not\<close> undo is
  visible). \<open>holds_after\<close> and \<open>keeps\<close> are the two judgements the component proofs use, with one
  rule per combinator in the collection \<open>act_rules\<close>.
\<close>

named_theorems act_simps \<open>unfolding of the action combinators\<close>
named_theorems keeps_intros \<open>invariant preservation, one rule per combinator and operation\<close>

datatype err = Problem string nat | Raised string

type_synonym 'a res = "err + 'a"

definition bad :: "string \<Rightarrow> 'a res" where
  "bad c = Inl (Problem c 400)"

definition rbind :: "'a res \<Rightarrow> ('a \<Rightarrow> 'b res) \<Rightarrow> 'b res" where
  "rbind m f = (case m of Inl e \<Rightarrow> Inl e | Inr x \<Rightarrow> f x)"

definition ensure :: "bool \<Rightarrow> string \<Rightarrow> nat \<Rightarrow> unit res" where
  "ensure b c s = (if b then Inr () else Inl (Problem c s))"

text \<open>\<open>expect\<close> raises unless the optional value is there: the usual type test of a field.\<close>

definition expect :: "'a option \<Rightarrow> string \<Rightarrow> nat \<Rightarrow> 'a res" where
  "expect v c s = (case v of None \<Rightarrow> Inl (Problem c s) | Some x \<Rightarrow> Inr x)"

text \<open>\<open>present\<close> raises a runtime exception instead (a row that is used without a check).\<close>

definition present :: "'a option \<Rightarrow> string \<Rightarrow> 'a res" where
  "present v exc = (case v of None \<Rightarrow> Inl (Raised exc) | Some x \<Rightarrow> Inr x)"

fun each :: "('a \<Rightarrow> 'b res) \<Rightarrow> 'a list \<Rightarrow> unit res" where
  "each f [] = Inr ()"
| "each f (x # xs) = (case f x of Inl e \<Rightarrow> Inl e | Inr _ \<Rightarrow> each f xs)"

fun collect :: "('a \<Rightarrow> 'b res) \<Rightarrow> 'a list \<Rightarrow> 'b list res" where
  "collect f [] = Inr []"
| "collect f (x # xs) =
     (case f x of Inl e \<Rightarrow> Inl e
      | Inr y \<Rightarrow> (case collect f xs of Inl e \<Rightarrow> Inl e | Inr ys \<Rightarrow> Inr (y # ys)))"

definition is_ok :: "'a res \<Rightarrow> bool" where
  "is_ok r = (case r of Inl _ \<Rightarrow> False | Inr _ \<Rightarrow> True)"

lemma is_ok_simps [simp]: "is_ok (Inr x)" "\<not> is_ok (Inl e)"
  by (simp_all add: is_ok_def)

lemma is_ok_conv: "is_ok r \<longleftrightarrow> (\<exists>x. r = Inr x)"
  by (cases r) auto

lemma if_Inr_eq [simp]:
  "(if b then Inl e else r) = Inr x \<longleftrightarrow> \<not> b \<and> r = Inr x"
  "(if b then r else Inl e) = Inr x \<longleftrightarrow> b \<and> r = Inr x"
  by simp_all

lemma rbind_simps [simp]: "rbind (Inl e) f = Inl e" "rbind (Inr x) f = f x"
  by (simp_all add: rbind_def)

lemma rbind_Inr [simp]: "rbind m f = Inr y \<longleftrightarrow> (\<exists>x. m = Inr x \<and> f x = Inr y)"
  by (cases m) auto

lemma ensure_Inr [simp]: "ensure b c s = Inr u \<longleftrightarrow> b"
  by (simp add: ensure_def)

lemma expect_Inr [simp]: "expect v c s = Inr x \<longleftrightarrow> v = Some x"
  by (cases v) (auto simp: expect_def)

lemma expect_simps [simp]: "expect None c s = Inl (Problem c s)" "expect (Some x) c s = Inr x"
  by (simp_all add: expect_def)

lemma present_Inr [simp]: "present v e = Inr x \<longleftrightarrow> v = Some x"
  by (cases v) (auto simp: present_def)

lemma present_simps [simp]: "present None e = Inl (Raised e)" "present (Some x) e = Inr x"
  by (simp_all add: present_def)

lemma bad_simps [simp]: "bad c \<noteq> Inr x" "Inr x \<noteq> bad c" "\<not> is_ok (bad c)"
  by (simp_all add: bad_def is_ok_def)

lemma ensure_simps [simp]: "ensure True c s = Inr ()" "ensure False c s = Inl (Problem c s)"
  by (simp_all add: ensure_def)

lemma each_Inr [simp]: "each f xs = Inr u \<longleftrightarrow> (\<forall>x\<in>set xs. is_ok (f x))"
  by (induction xs) (auto split: sum.splits)

lemma collect_Inr_length: "collect f xs = Inr ys \<Longrightarrow> length ys = length xs"
  by (induction xs arbitrary: ys) (auto split: sum.splits)

lemma collect_Inr_nth:
  "collect f xs = Inr ys \<Longrightarrow> i < length xs \<Longrightarrow> f (xs ! i) = Inr (ys ! i)"
proof (induction xs arbitrary: ys i)
  case Nil
  then show ?case by simp
next
  case (Cons x xs)
  then show ?case by (cases i) (auto split: sum.splits)
qed

lemma collect_cong_all: "(\<And>x. x \<in> set xs \<Longrightarrow> f x = Inr (g x)) \<Longrightarrow> collect f xs = Inr (map g xs)"
  by (induction xs) auto

subsection \<open>Actions\<close>

type_synonym ('s, 'a) act = "'s \<Rightarrow> 'a res \<times> 's"

definition ret :: "'a \<Rightarrow> ('s, 'a) act" where "ret x s = (Inr x, s)"
definition fail :: "err \<Rightarrow> ('s, 'a) act" where "fail e s = (Inl e, s)"
definition abind :: "('s, 'a) act \<Rightarrow> ('a \<Rightarrow> ('s, 'b) act) \<Rightarrow> ('s, 'b) act" where
  "abind m f s = (case m s of (Inl e, s') \<Rightarrow> (Inl e, s') | (Inr x, s') \<Rightarrow> f x s')"
definition lift :: "'a res \<Rightarrow> ('s, 'a) act" where "lift r s = (r, s)"
definition gets :: "('s \<Rightarrow> 'a) \<Rightarrow> ('s, 'a) act" where "gets f s = (Inr (f s), s)"
definition modify :: "('s \<Rightarrow> 's) \<Rightarrow> ('s, unit) act" where "modify g s = (Inr (), g s)"
definition require :: "bool \<Rightarrow> string \<Rightarrow> nat \<Rightarrow> ('s, unit) act" where
  "require b c n = lift (ensure b c n)"

text \<open>\<open>row = ...fetchone(); if row is None: raise Problem(c, n)\<close>.\<close>

definition found :: "'a option \<Rightarrow> string \<Rightarrow> nat \<Rightarrow> ('s, 'a) act" where
  "found v c n = lift (expect v c n)"

fun foreach :: "('a \<Rightarrow> ('s, unit) act) \<Rightarrow> 'a list \<Rightarrow> ('s, unit) act" where
  "foreach f [] s = (Inr (), s)"
| "foreach f (x # xs) s = (case f x s of (Inl e, s') \<Rightarrow> (Inl e, s') | (Inr _, s') \<Rightarrow> foreach f xs s')"

fun mapA :: "('a \<Rightarrow> ('s, 'b) act) \<Rightarrow> 'a list \<Rightarrow> ('s, 'b list) act" where
  "mapA f [] s = (Inr [], s)"
| "mapA f (x # xs) s =
     (case f x s of (Inl e, s') \<Rightarrow> (Inl e, s')
      | (Inr y, s') \<Rightarrow> (case mapA f xs s' of (Inl e, s'') \<Rightarrow> (Inl e, s'') | (Inr ys, s'') \<Rightarrow> (Inr (y # ys), s'')))"

lemmas act_defs [act_simps] = ret_def fail_def lift_def gets_def modify_def require_def found_def

lemma act_Inr [act_simps]:
  "require b c n s = (Inr u, s') \<longleftrightarrow> b \<and> s' = s"
  "found v c n s = (Inr x, s') \<longleftrightarrow> v = Some x \<and> s' = s"
  by (auto simp: act_defs)

lemma abind_Inr [act_simps]:
  "abind m f s = (Inr y, s') \<longleftrightarrow> (\<exists>x s1. m s = (Inr x, s1) \<and> f x s1 = (Inr y, s'))"
  by (auto simp: abind_def split: prod.splits sum.splits)

lemma abind_Inl:
  "abind m f s = (Inl e, s') \<longleftrightarrow> m s = (Inl e, s') \<or> (\<exists>x s1. m s = (Inr x, s1) \<and> f x s1 = (Inl e, s'))"
  by (auto simp: abind_def split: prod.splits sum.splits)

lemma abind_run [simp]:
  "m s = (Inr x, s1) \<Longrightarrow> abind m f s = f x s1"
  "m s = (Inl e, s1) \<Longrightarrow> abind m f s = (Inl e, s1)"
  by (simp_all add: abind_def)

definition keeps :: "('s \<Rightarrow> bool) \<Rightarrow> ('s, 'a) act \<Rightarrow> bool" where
  "keeps P m \<longleftrightarrow> (\<forall>s. P s \<longrightarrow> P (snd (m s)))"

definition holds_after :: "('s \<Rightarrow> bool) \<Rightarrow> ('s, 'a) act \<Rightarrow> ('a \<Rightarrow> 's \<Rightarrow> bool) \<Rightarrow> bool" where
  "holds_after P m Q \<longleftrightarrow> (\<forall>s x s'. P s \<longrightarrow> m s = (Inr x, s') \<longrightarrow> Q x s')"

lemma keepsD: "keeps P m \<Longrightarrow> P s \<Longrightarrow> m s = (r, s') \<Longrightarrow> P s'"
  by (metis keeps_def snd_conv)

lemma keepsI: "(\<And>s r s'. P s \<Longrightarrow> m s = (r, s') \<Longrightarrow> P s') \<Longrightarrow> keeps P m"
  by (metis keeps_def prod.collapse)

lemma keeps_ret [keeps_intros]: "keeps P (ret x)"
  and keeps_fail [keeps_intros]: "keeps P (fail e)"
  and keeps_lift [keeps_intros]: "keeps P (lift r)"
  and keeps_gets [keeps_intros]: "keeps P (gets f)"
  and keeps_require [keeps_intros]: "keeps P (require b c n)"
  and keeps_found [keeps_intros]: "keeps P (found v c n)"
  by (simp_all add: keeps_def act_simps)

lemma keeps_modify: "(\<And>s. P s \<Longrightarrow> P (g s)) \<Longrightarrow> keeps P (modify g)"
  by (simp add: keeps_def modify_def)

lemma keeps_abind [keeps_intros]:
  assumes "keeps P m" and "\<And>x. keeps P (f x)"
  shows "keeps P (abind m f)"
proof (rule keepsI)
  fix s r s'
  assume P: "P s" and run: "abind m f s = (r, s')"
  show "P s'"
  proof (cases "m s")
    case (Pair r1 s1)
    with assms(1) P have "P s1" by (metis keepsD)
    with run Pair assms(2) show ?thesis
      by (cases r1) (auto simp: abind_def dest: keepsD)
  qed
qed

lemma keeps_if [keeps_intros]: "keeps P m1 \<Longrightarrow> keeps P m2 \<Longrightarrow> keeps P (if b then m1 else m2)"
  by simp

lemma keeps_foreach [keeps_intros]:
  assumes "\<And>x. x \<in> set xs \<Longrightarrow> keeps P (f x)"
  shows "keeps P (foreach f xs)"
proof (rule keepsI)
  fix s r s'
  assume "P s" and "foreach f xs s = (r, s')"
  then show "P s'" using assms
  proof (induction xs arbitrary: s)
    case Nil
    then show ?case by simp
  next
    case (Cons x xs)
    obtain r1 s1 where r1: "f x s = (r1, s1)" by fastforce
    with Cons.prems have "P s1" by (metis keepsD list.set_intros(1))
    with Cons r1 show ?case by (cases r1) auto
  qed
qed

lemma keeps_mapA [keeps_intros]:
  assumes "\<And>x. x \<in> set xs \<Longrightarrow> keeps P (f x)"
  shows "keeps P (mapA f xs)"
proof (rule keepsI)
  fix s r s'
  assume "P s" and "mapA f xs s = (r, s')"
  then show "P s'" using assms
  proof (induction xs arbitrary: s r s')
    case Nil
    then show ?case by simp
  next
    case (Cons x xs)
    obtain r1 s1 where r1: "f x s = (r1, s1)" by fastforce
    with Cons.prems have "P s1" by (metis keepsD list.set_intros(1))
    with Cons r1 show ?case by (cases r1) (auto split: prod.splits sum.splits)
  qed
qed

subsection \<open>Rows: tables are lists in insertion order\<close>

definition update_where :: "('r \<Rightarrow> bool) \<Rightarrow> ('r \<Rightarrow> 'r) \<Rightarrow> 'r list \<Rightarrow> 'r list" where
  "update_where P f rs = map (\<lambda>r. if P r then f r else r) rs"

lemma update_where_Nil [simp]: "update_where P f [] = []"
  by (simp add: update_where_def)

lemma length_update_where [simp]: "length (update_where P f rs) = length rs"
  by (simp add: update_where_def)

lemma set_update_where: "set (update_where P f rs) = (\<lambda>r. if P r then f r else r) ` set rs"
  by (simp add: update_where_def)

lemma map_update_where:
  "(\<And>r. r \<in> set rs \<Longrightarrow> P r \<Longrightarrow> g (f r) = g r) \<Longrightarrow> map g (update_where P f rs) = map g rs"
  by (simp add: update_where_def)

lemma update_where_none: "(\<And>r. r \<in> set rs \<Longrightarrow> \<not> P r) \<Longrightarrow> update_where P f rs = rs"
  by (simp add: update_where_def map_idI)

lemma find_Some_iff': "List.find P xs = Some x \<Longrightarrow> x \<in> set xs \<and> P x"
  by (auto simp: find_Some_iff)

lemma find_key_unique:
  "distinct (map k xs) \<Longrightarrow> x \<in> set xs \<Longrightarrow> k x = i \<Longrightarrow> List.find (\<lambda>y. k y = i) xs = Some x"
  by (induction xs) (auto simp: rev_image_eqI)

lemma distinct_map_eq:
  "distinct (map k xs) \<Longrightarrow> x \<in> set xs \<Longrightarrow> y \<in> set xs \<Longrightarrow> k x = k y \<Longrightarrow> x = y"
  by (meson distinct_map inj_onD)

end
