(* ===== verification/PyValue.thy ===== *)
theory PyValue
  imports Prelude
begin

section \<open>Python values, strings and canonical JSON\<close>

text \<open>
  The values that cross the program's wire boundaries: what \<open>json.loads\<close> can produce and
  \<open>json.dumps\<close> can print. \<open>bool\<close>, \<open>int\<close> and \<open>float\<close> are different constructors, because the source
  tells them apart (\<open>type(x) is int\<close>, \<open>isinstance(x, bool)\<close>); a finite float is the rational it
  denotes (no rounding of sums is modelled), and the three non-finite floats are constructors. A
  dict is the list of its items in insertion order; the keys of a dict the program has decoded are
  distinct, those of a JSON text not yet checked need not be.

  \<open>str\<close> and \<open>bytes\<close> are both \<^typ>\<open>string\<close>: for \<open>bytes\<close> a character is a byte, for \<open>str\<close> a code point
  below 256 (no surrogates, so \<open>str.encode("utf-8")\<close> cannot fail on them).
\<close>

datatype flt = Fin rat | PInf | NInf | NaN

datatype val =
    VNull
  | VBool bool
  | VInt int
  | VFloat flt
  | VStr string
  | VList "val list"
  | VDict "(string \<times> val) list"

type_synonym dict = "(string \<times> val) list"

definition keys :: "dict \<Rightarrow> string list" where "keys d = map fst d"

definition get_or_none :: "dict \<Rightarrow> string \<Rightarrow> val" where
  "get_or_none d k = (case map_of d k of None \<Rightarrow> VNull | Some v \<Rightarrow> v)"

lemma get_or_none_eq [simp]:
  "get_or_none d k = VInt i \<longleftrightarrow> map_of d k = Some (VInt i)"
  "get_or_none d k = VStr s \<longleftrightarrow> map_of d k = Some (VStr s)"
  "get_or_none d k = VBool b \<longleftrightarrow> map_of d k = Some (VBool b)"
  "get_or_none d k = VList xs \<longleftrightarrow> map_of d k = Some (VList xs)"
  "get_or_none d k = VDict e \<longleftrightarrow> map_of d k = Some (VDict e)"
  by (auto simp: get_or_none_def split: option.splits)

definition item :: "dict \<Rightarrow> string \<Rightarrow> val res" where
  "item d k = (case map_of d k of None \<Rightarrow> Inl (Raised ''KeyError'') | Some v \<Rightarrow> Inr v)"

definition pop_key :: "string \<Rightarrow> dict \<Rightarrow> dict" where
  "pop_key k d = filter (\<lambda>p. fst p \<noteq> k) d"

fun put_key :: "string \<Rightarrow> val \<Rightarrow> dict \<Rightarrow> dict" where
  "put_key k v [] = [(k, v)]"
| "put_key k v ((k', v') # d) = (if k = k' then (k, v) # d else (k', v') # put_key k v d)"

lemma map_of_put_key: "map_of (put_key k v d) = (map_of d)(k \<mapsto> v)"
  by (induction d) auto

lemma map_of_pop_key: "map_of (pop_key k d) = (map_of d)(k := None)"
  by (induction d) (auto simp: pop_key_def fun_eq_iff)

subsection \<open>Numbers\<close>

fun is_finite :: "flt \<Rightarrow> bool" where
  "is_finite (Fin _) = True"
| "is_finite _ = False"

fun flt_le :: "flt \<Rightarrow> flt \<Rightarrow> bool" where
  "flt_le (Fin x) (Fin y) = (x \<le> y)"
| "flt_le NaN _ = False"
| "flt_le _ NaN = False"
| "flt_le NInf _ = True"
| "flt_le _ PInf = True"
| "flt_le _ _ = False"

definition flt_less :: "flt \<Rightarrow> flt \<Rightarrow> bool" where
  "flt_less x y = (flt_le x y \<and> \<not> flt_le y x)"

fun flt_eq :: "flt \<Rightarrow> flt \<Rightarrow> bool" where
  "flt_eq NaN _ = False"
| "flt_eq _ NaN = False"
| "flt_eq x y = (x = y)"

text \<open>\<open>isinstance(v, (int, float))\<close> holds of a bool too; \<open>number_of\<close> is its numeric value.\<close>

fun number_of :: "val \<Rightarrow> flt option" where
  "number_of (VBool b) = Some (Fin (if b then 1 else 0))"
| "number_of (VInt i) = Some (Fin (of_int i))"
| "number_of (VFloat f) = Some f"
| "number_of _ = None"

text \<open>\<open>type(v) in (int, float)\<close>.\<close>

fun strict_number :: "val \<Rightarrow> flt option" where
  "strict_number (VInt i) = Some (Fin (of_int i))"
| "strict_number (VFloat f) = Some f"
| "strict_number _ = None"

text \<open>
  \<open>isinstance\<close> / \<open>type(v) is int\<close> tests as partial projections: a case split on the projection
  replaces one on all the constructors of \<^typ>\<open>val\<close>.
\<close>

fun as_int :: "val \<Rightarrow> int option" where
  "as_int (VInt i) = Some i"
| "as_int _ = None"

fun as_str :: "val \<Rightarrow> string option" where
  "as_str (VStr s) = Some s"
| "as_str _ = None"

fun as_list :: "val \<Rightarrow> val list option" where
  "as_list (VList xs) = Some xs"
| "as_list _ = None"

fun as_dict :: "val \<Rightarrow> dict option" where
  "as_dict (VDict d) = Some d"
| "as_dict _ = None"

fun as_bool :: "val \<Rightarrow> bool option" where
  "as_bool (VBool b) = Some b"
| "as_bool _ = None"

lemma as_Some [simp]:
  "as_int v = Some i \<longleftrightarrow> v = VInt i" "as_str v = Some s \<longleftrightarrow> v = VStr s"
  "as_list v = Some xs \<longleftrightarrow> v = VList xs" "as_dict v = Some d \<longleftrightarrow> v = VDict d"
  "as_bool v = Some b \<longleftrightarrow> v = VBool b"
  by (cases v; simp)+

text \<open>Equality of Python values: numbers by value across types, dicts regardless of order.\<close>

fun py_eq :: "val \<Rightarrow> val \<Rightarrow> bool"
  and py_eq_list :: "val list \<Rightarrow> val list \<Rightarrow> bool"
  and py_eq_items :: "(string \<times> val) list \<Rightarrow> (string \<times> val) list \<Rightarrow> bool" where
  "py_eq (VStr s) w = (case w of VStr t \<Rightarrow> s = t | _ \<Rightarrow> False)"
| "py_eq VNull w = (case w of VNull \<Rightarrow> True | _ \<Rightarrow> False)"
| "py_eq (VList xs) w = (case w of VList ys \<Rightarrow> py_eq_list xs ys | _ \<Rightarrow> False)"
| "py_eq (VDict d) w =
     (case w of VDict e \<Rightarrow> length d = length e \<and> py_eq_items d e | _ \<Rightarrow> False)"
| "py_eq v w =
     (case (number_of v, number_of w) of (Some x, Some y) \<Rightarrow> flt_eq x y | _ \<Rightarrow> False)"
| "py_eq_list [] ys = (ys = [])"
| "py_eq_list (x # xs) ys =
     (case ys of [] \<Rightarrow> False | y # ys' \<Rightarrow> py_eq x y \<and> py_eq_list xs ys')"
| "py_eq_items [] e = True"
| "py_eq_items ((k, v) # d) e =
     ((case map_of e k of None \<Rightarrow> False | Some w \<Rightarrow> py_eq v w) \<and> py_eq_items d e)"

fun truthy :: "val \<Rightarrow> bool" where
  "truthy VNull = False"
| "truthy (VBool b) = b"
| "truthy (VInt i) = (i \<noteq> 0)"
| "truthy (VFloat f) = (f \<noteq> Fin 0)"
| "truthy (VStr s) = (s \<noteq> [])"
| "truthy (VList xs) = (xs \<noteq> [])"
| "truthy (VDict d) = (d \<noteq> [])"

subsection \<open>Characters and strings\<close>

definition ord :: "char \<Rightarrow> nat" where "ord c = of_char c"
definition is_digit :: "char \<Rightarrow> bool" where "is_digit c = (48 \<le> ord c \<and> ord c \<le> 57)"
definition is_lower :: "char \<Rightarrow> bool" where "is_lower c = (97 \<le> ord c \<and> ord c \<le> 122)"
definition is_upper :: "char \<Rightarrow> bool" where "is_upper c = (65 \<le> ord c \<and> ord c \<le> 90)"
definition is_letter :: "char \<Rightarrow> bool" where "is_letter c = (is_lower c \<or> is_upper c)"
definition is_hex :: "char \<Rightarrow> bool" where "is_hex c = (is_digit c \<or> (97 \<le> ord c \<and> ord c \<le> 102))"
definition is_space :: "char \<Rightarrow> bool" where
  "is_space c = ((9 \<le> ord c \<and> ord c \<le> 13) \<or> (28 \<le> ord c \<and> ord c \<le> 32) \<or> ord c = 133 \<or> ord c = 160)"

definition hex_string :: "nat \<Rightarrow> string \<Rightarrow> bool" where
  "hex_string n s = (length s = n \<and> list_all is_hex s)"

definition starts_with :: "string \<Rightarrow> string \<Rightarrow> bool" where
  "starts_with p s = (take (length p) s = p)"

definition ends_with :: "string \<Rightarrow> string \<Rightarrow> bool" where
  "ends_with p s = (length p \<le> length s \<and> drop (length s - length p) s = p)"

definition lstrip :: "string \<Rightarrow> string" where "lstrip s = dropWhile is_space s"
definition strip :: "string \<Rightarrow> string" where "strip s = rev (lstrip (rev (lstrip s)))"

fun split_on :: "char \<Rightarrow> string \<Rightarrow> string list" where
  "split_on c [] = [[]]"
| "split_on c (x # xs) =
     (if x = c then [] # split_on c xs
      else (case split_on c xs of [] \<Rightarrow> [[x]] | y # ys \<Rightarrow> (x # y) # ys))"

fun join_with :: "string \<Rightarrow> string list \<Rightarrow> string" where
  "join_with sep [] = []"
| "join_with sep [x] = x"
| "join_with sep (x # xs) = x @ sep @ join_with sep xs"

definition last_part :: "char \<Rightarrow> string \<Rightarrow> string" where
  "last_part c s = last (split_on c s)"

definition lower_char :: "char \<Rightarrow> char" where
  "lower_char c = (if is_upper c \<or> (192 \<le> ord c \<and> ord c \<le> 222 \<and> ord c \<noteq> 215)
                   then char_of (ord c + 32) else c)"

definition lower :: "string \<Rightarrow> string" where "lower s = map lower_char s"

definition upper_ascii :: "string \<Rightarrow> string" where
  "upper_ascii s = map (\<lambda>c. if is_lower c then char_of (ord c - 32) else c) s"

lemma split_on_nonempty [simp]: "split_on c s \<noteq> []"
  by (induction s) (auto split: list.splits)

lemma split_on_append: "split_on c (a @ c # b) = split_on c a @ split_on c b"
  by (induction a) (auto split: list.splits)

lemma split_on_single: "c \<notin> set a \<Longrightarrow> split_on c a = [a]"
  by (induction a) auto

lemma join_split_on: "join_with [c] (split_on c s) = s"
proof (induction s)
  case Nil
  then show ?case by simp
next
  case (Cons x xs)
  obtain y ys where "split_on c xs = y # ys"
    by (metis split_on_nonempty neq_Nil_conv)
  with Cons show ?case by (cases ys) auto
qed

fun nat_digits :: "nat \<Rightarrow> string" where
  "nat_digits n = (if n < 10 then [char_of (48 + n)] else nat_digits (n div 10) @ [char_of (48 + n mod 10)])"

declare nat_digits.simps [simp del]

definition int_str :: "int \<Rightarrow> string" where
  "int_str i = (if i < 0 then ''-'' @ nat_digits (nat (- i)) else nat_digits (nat i))"

fun digits_value :: "nat \<Rightarrow> string \<Rightarrow> nat" where
  "digits_value acc [] = acc"
| "digits_value acc (c # cs) = digits_value (acc * 10 + (ord c - 48)) cs"

definition nat_of_digits :: "string \<Rightarrow> nat" where "nat_of_digits s = digits_value 0 s"

lemma digits_value_append: "digits_value a (xs @ ys) = digits_value (digits_value a xs) ys"
  by (induction xs arbitrary: a) auto

lemma ord_char_of: "n < 256 \<Longrightarrow> ord (char_of n) = n"
  by (simp add: ord_def)

lemma nat_of_nat_digits [simp]: "nat_of_digits (nat_digits n) = n"
proof (induction n rule: nat_digits.induct)
  case (1 n)
  then show ?case
    by (subst nat_digits.simps) (auto simp: nat_of_digits_def digits_value_append ord_char_of)
qed

lemma is_digit_char_of: "(n::nat) < 10 \<Longrightarrow> is_digit (char_of (48 + n))"
  by (simp add: is_digit_def ord_char_of)

lemma nat_digits_are_digits: "list_all is_digit (nat_digits n)"
proof (induction n rule: nat_digits.induct)
  case (1 n)
  then show ?case
    by (subst nat_digits.simps) (auto intro: is_digit_char_of)
qed

lemma nat_digits_nonempty [simp]: "nat_digits n \<noteq> []"
  by (subst nat_digits.simps) simp

subsection \<open>UTF-8 and canonical JSON\<close>

definition utf8 :: "string \<Rightarrow> string" where
  "utf8 s = concat (map (\<lambda>c. if ord c < 128 then [c]
                            else [char_of (192 + ord c div 64), char_of (128 + ord c mod 64)]) s)"

definition hex_digit :: "nat \<Rightarrow> char" where
  "hex_digit n = (if n < 10 then char_of (48 + n) else char_of (87 + n))"

definition escape_char :: "char \<Rightarrow> string" where
  "escape_char c =
     (if c = CHR 0x22 then [CHR 0x5C, CHR 0x22]
      else if c = CHR 0x5C then [CHR 0x5C, CHR 0x5C]
      else if ord c = 10 then [CHR 0x5C, CHR ''n'']
      else if ord c = 13 then [CHR 0x5C, CHR ''r'']
      else if ord c = 9 then [CHR 0x5C, CHR ''t'']
      else if ord c = 8 then [CHR 0x5C, CHR ''b'']
      else if ord c = 12 then [CHR 0x5C, CHR ''f'']
      else if ord c < 32 then [CHR 0x5C] @ ''u00'' @ [hex_digit (ord c div 16), hex_digit (ord c mod 16)]
      else [c])"

definition quote :: "string \<Rightarrow> string" where
  "quote s = [CHR 0x22] @ concat (map escape_char s) @ [CHR 0x22]"

text \<open>
  \<open>json.dumps(value, ensure_ascii=False, sort_keys=True, separators=(",", ":"), allow_nan=False)\<close>.
  The text of a finite float is the runtime's \<open>float.__repr__\<close>, a parameter.
\<close>

fun canon :: "(rat \<Rightarrow> string) \<Rightarrow> val \<Rightarrow> string res"
  and canon_list :: "(rat \<Rightarrow> string) \<Rightarrow> val list \<Rightarrow> string list res"
  and canon_items :: "(rat \<Rightarrow> string) \<Rightarrow> (string \<times> val) list \<Rightarrow> (string \<times> string) list res" where
  "canon fr VNull = Inr ''null''"
| "canon fr (VBool b) = Inr (if b then ''true'' else ''false'')"
| "canon fr (VInt i) = Inr (int_str i)"
| "canon fr (VFloat f) = (case f of Fin r \<Rightarrow> Inr (fr r) | _ \<Rightarrow> Inl (Raised ''ValueError''))"
| "canon fr (VStr s) = Inr (quote s)"
| "canon fr (VList xs) =
     (case canon_list fr xs of Inl e \<Rightarrow> Inl e | Inr ss \<Rightarrow> Inr (''['' @ join_with '','' ss @ '']''))"
| "canon fr (VDict d) =
     (case canon_items fr d of Inl e \<Rightarrow> Inl e
      | Inr ps \<Rightarrow> Inr (''{'' @ join_with '','' (map (\<lambda>(k, s). quote k @ '':'' @ s) (sort_key fst ps)) @ ''}''))"
| "canon_list fr [] = Inr []"
| "canon_list fr (x # xs) =
     (case canon fr x of Inl e \<Rightarrow> Inl e
      | Inr s \<Rightarrow> (case canon_list fr xs of Inl e \<Rightarrow> Inl e | Inr ss \<Rightarrow> Inr (s # ss)))"
| "canon_items fr [] = Inr []"
| "canon_items fr ((k, v) # d) =
     (case canon fr v of Inl e \<Rightarrow> Inl e
      | Inr s \<Rightarrow> (case canon_items fr d of Inl e \<Rightarrow> Inl e | Inr ps \<Rightarrow> Inr ((k, s) # ps)))"

text \<open>Values \<open>json.dumps\<close> accepts: no non-finite float, and (as in every Python dict) no repeated key.\<close>

fun plain :: "val \<Rightarrow> bool"
  and plain_list :: "val list \<Rightarrow> bool"
  and plain_items :: "(string \<times> val) list \<Rightarrow> bool" where
  "plain (VFloat f) = is_finite f"
| "plain (VList xs) = plain_list xs"
| "plain (VDict d) = (distinct (map fst d) \<and> plain_items d)"
| "plain _ = True"
| "plain_list [] = True"
| "plain_list (x # xs) = (plain x \<and> plain_list xs)"
| "plain_items [] = True"
| "plain_items ((k, v) # d) = (plain v \<and> plain_items d)"

lemma plain_list_iff: "plain_list xs \<longleftrightarrow> (\<forall>x\<in>set xs. plain x)"
  by (induction xs) auto

lemma plain_items_iff: "plain_items d \<longleftrightarrow> (\<forall>(k, v)\<in>set d. plain v)"
  by (induction d) auto

lemma canon_total:
  "plain v \<Longrightarrow> \<exists>s. canon fr v = Inr s"
  "plain_list xs \<Longrightarrow> \<exists>ss. canon_list fr xs = Inr ss"
  "plain_items d \<Longrightarrow> \<exists>ps. canon_items fr d = Inr ps"
proof (induction v and xs and d rule: plain_plain_list_plain_items.induct)
  case (1 f)
  then show ?case by (cases f) auto
qed auto

lemma canon_items_keys: "canon_items fr d = Inr ps \<Longrightarrow> map fst ps = map fst d"
proof (induction d arbitrary: ps)
  case Nil
  then show ?case by simp
next
  case (Cons kv d)
  then show ?case by (cases kv) (auto split: sum.splits)
qed

end
