(* ===== verification/Contracts.thy ===== *)
theory Contracts
  imports PyValue
begin

section \<open>control_plane/contracts.py and capabilities.py: wire primitives and contracts\<close>

text \<open>
  The bounded wire primitives (\<open>fields\<close>, \<open>text\<close>, \<open>identifier\<close>, \<open>operation_id\<close>, \<open>timestamp\<close>), the
  mission life cycle (\<open>STATES\<close>, \<open>TRANSITIONS\<close>), the dataclasses that cross the HTTP boundary with
  their \<open>to_dict\<close>, and \<open>ExecutionResult.from_dict\<close>. A life-cycle state is a datatype;
  \<open>state_name\<close> gives its column text.
\<close>

subsection \<open>Wire primitives\<close>

text \<open>
  The hooks \<open>decode_json\<close> gives to \<open>json.loads\<close>, run over the tree the parser reads (in which a
  repeated key is still visible and a number may be non-finite): both are \<open>invalid_json\<close>.
\<close>

definition decode_tree :: "val \<Rightarrow> val res" where
  "decode_tree t = (if plain t then Inr t else bad ''invalid_json'')"

definition dict_fields :: "val \<Rightarrow> string list \<Rightarrow> string list \<Rightarrow> dict res" where
  "dict_fields data required opt =
     (case as_dict data of
        Some d \<Rightarrow>
          (if set required \<subseteq> set (keys d) \<and> set (keys d) - set required - set opt = {}
           then Inr d else bad ''invalid_fields'')
      | None \<Rightarrow> bad ''invalid_fields'')"

text \<open>Every string of the model has a UTF-8 encoding, so the last check of \<open>text\<close> cannot fail on it.\<close>

definition text_value :: "val \<Rightarrow> nat \<Rightarrow> string res" where
  "text_value v maximum =
     rbind (expect (as_str v) ''invalid_text'' 400) (\<lambda>s.
     rbind (ensure (strip s \<noteq> [] \<and> length s \<le> maximum \<and> CHR 0x00 \<notin> set s) ''invalid_text'' 400) (\<lambda>_.
     Inr s))"

definition is_uuid :: "string \<Rightarrow> bool" where
  "is_uuid s =
     (case split_on (CHR ''-'') s of
        [a, b, c, d, e] \<Rightarrow> hex_string 8 a \<and> hex_string 4 b \<and> hex_string 4 c \<and> hex_string 4 d \<and> hex_string 12 e
      | _ \<Rightarrow> False)"

definition operation_id :: "val \<Rightarrow> string res" where
  "operation_id v =
     rbind (expect (as_str v) ''invalid_operation_id'' 400) (\<lambda>s.
     rbind (ensure (is_uuid s) ''invalid_operation_id'' 400) (\<lambda>_. Inr s))"

definition is_identifier :: "string \<Rightarrow> bool" where
  "is_identifier s =
     (case s of p # u # r \<Rightarrow> is_lower p \<and> u = CHR ''_'' \<and> hex_string 32 r | _ \<Rightarrow> False)"

definition identifier_value :: "val \<Rightarrow> string res" where
  "identifier_value v =
     rbind (expect (as_str v) ''invalid_identifier'' 400) (\<lambda>s.
     rbind (ensure (is_identifier s) ''invalid_identifier'' 400) (\<lambda>_. Inr s))"

text \<open>
  \<open>datetime.fromtimestamp(epoch, utc).isoformat(timespec="microseconds")\<close>: the epoch rounded to
  microseconds (half to even), the proleptic Gregorian date of its day, years up to 9999.
\<close>

definition round_half_even :: "rat \<Rightarrow> int" where
  "round_half_even x =
     (let n = floor x; r = x - of_int n
      in if r < 1/2 then n else if r > 1/2 then n + 1 else if even n then n else n + 1)"

definition civil_of_days :: "int \<Rightarrow> int \<times> int \<times> int" where
  "civil_of_days z0 =
     (let z = z0 + 719468;
          era = z div 146097;
          doe = z mod 146097;
          yoe = (doe - doe div 1460 + doe div 36524 - doe div 146096) div 365;
          doy = doe - (365 * yoe + yoe div 4 - yoe div 100);
          mp = (5 * doy + 2) div 153;
          d = doy - (153 * mp + 2) div 5 + 1;
          m = (if mp < 10 then mp + 3 else mp - 9);
          y = yoe + era * 400 + (if m \<le> 2 then 1 else 0)
      in (y, m, d))"

definition pad :: "nat \<Rightarrow> int \<Rightarrow> string" where
  "pad n i = (let s = int_str i in replicate (n - length s) (CHR ''0'') @ s)"

definition isoformat :: "int \<Rightarrow> string res" where
  "isoformat us =
     (let days = us div 86400000000; t = us mod 86400000000; (y, m, d) = civil_of_days days
      in if 9999 < y then Inl (Raised ''ValueError'')
         else Inr (pad 4 y @ ''-'' @ pad 2 m @ ''-'' @ pad 2 d @ ''T''
                   @ pad 2 (t div 3600000000) @ '':'' @ pad 2 (t div 60000000 mod 60) @ '':''
                   @ pad 2 (t div 1000000 mod 60) @ ''.'' @ pad 6 (t mod 1000000) @ ''+00:00''))"

definition timestamp :: "val \<Rightarrow> string res" where
  "timestamp epoch =
     (case strict_number epoch of
        Some (Fin r) \<Rightarrow> (if r < 0 then Inl (Problem ''invalid_clock'' 500)
                        else isoformat (round_half_even (r * 1000000)))
      | _ \<Rightarrow> Inl (Problem ''invalid_clock'' 500))"

subsection \<open>The mission life cycle\<close>

datatype lifecycle =
  Draft | Approved | Queued | Running | Completed | Failed | CancelRequested | Cancelled | Interrupted

definition STATES :: "lifecycle list" where
  "STATES = [Draft, Approved, Queued, Running, Completed, Failed, CancelRequested, Cancelled, Interrupted]"

fun state_name :: "lifecycle \<Rightarrow> string" where
  "state_name Draft = ''draft''"
| "state_name Approved = ''approved''"
| "state_name Queued = ''queued''"
| "state_name Running = ''running''"
| "state_name Completed = ''completed''"
| "state_name Failed = ''failed''"
| "state_name CancelRequested = ''cancel_requested''"
| "state_name Cancelled = ''cancelled''"
| "state_name Interrupted = ''interrupted''"

fun TRANSITIONS :: "lifecycle \<Rightarrow> lifecycle list" where
  "TRANSITIONS Draft = [Approved, Cancelled]"
| "TRANSITIONS Approved = [Queued, Cancelled]"
| "TRANSITIONS Queued = [Running, Cancelled]"
| "TRANSITIONS Running = [Completed, Failed, CancelRequested, Interrupted]"
| "TRANSITIONS CancelRequested = [Cancelled, Interrupted]"
| "TRANSITIONS Failed = [Queued]"
| "TRANSITIONS Interrupted = [Queued, Cancelled]"
| "TRANSITIONS Completed = []"
| "TRANSITIONS Cancelled = []"

definition active :: "lifecycle \<Rightarrow> bool" where
  "active s = (s = Running \<or> s = CancelRequested)"

lemma active_simps [simp]:
  "active Running" "active CancelRequested" "\<not> active Draft" "\<not> active Approved" "\<not> active Queued"
  "\<not> active Completed" "\<not> active Failed" "\<not> active Cancelled" "\<not> active Interrupted"
  by (simp_all add: active_def)

lemma state_name_inj: "state_name s = state_name t \<Longrightarrow> s = t"
  by (cases s; cases t) simp_all

subsection \<open>Dataclasses and their wire form\<close>

record principal =
  identity :: string
  role :: string
  credential_epoch :: "int option"

definition schema_of :: "string \<Rightarrow> val" where
  "schema_of kind = VStr (''pepeuch.control-plane/'' @ kind @ ''/v1'')"

definition opt_str :: "string option \<Rightarrow> val" where
  "opt_str s = (case s of None \<Rightarrow> VNull | Some x \<Rightarrow> VStr x)"

definition workspace_reference :: "string \<Rightarrow> string \<Rightarrow> val" where
  "workspace_reference i project =
     VDict [(''schema'', schema_of ''workspace-reference''), (''id'', VStr i), (''project'', VStr project)]"

definition mission_dict :: "string \<Rightarrow> string \<Rightarrow> string \<Rightarrow> val \<Rightarrow> string \<Rightarrow> string \<Rightarrow> lifecycle \<Rightarrow> string
    \<Rightarrow> val \<Rightarrow> val \<Rightarrow> dict" where
  "mission_dict i owner project workspace title objective st created files provenance =
     [(''schema'', schema_of ''mission''), (''id'', VStr i), (''owner'', VStr owner), (''project'', VStr project),
      (''workspace'', workspace), (''title'', VStr title), (''objective'', VStr objective),
      (''state'', VStr (state_name st)), (''created_at'', VStr created), (''authorized_files'', files),
      (''provenance'', provenance)]"

definition task_dict :: "string \<Rightarrow> string \<Rightarrow> string \<Rightarrow> string \<Rightarrow> string \<Rightarrow> lifecycle \<Rightarrow> val \<Rightarrow> val" where
  "task_dict i mission rl capability worker st simulated =
     VDict [(''schema'', schema_of ''task''), (''id'', VStr i), (''mission_id'', VStr mission), (''role'', VStr rl),
            (''capability'', VStr capability), (''worker_id'', VStr worker), (''state'', VStr (state_name st)),
            (''simulated'', simulated)]"

definition attempt_dict :: "string \<Rightarrow> string \<Rightarrow> int \<Rightarrow> string \<Rightarrow> lifecycle \<Rightarrow> string \<Rightarrow> rat \<Rightarrow> string option \<Rightarrow> val" where
  "attempt_dict i task number worker st started deadline error =
     VDict [(''schema'', schema_of ''attempt''), (''id'', VStr i), (''task_id'', VStr task), (''number'', VInt number),
            (''worker_id'', VStr worker), (''state'', VStr (state_name st)), (''started_at'', VStr started),
            (''deadline'', VFloat (Fin deadline)), (''error_code'', opt_str error)]"

definition audit_event_dict :: "string \<Rightarrow> int \<Rightarrow> string option \<Rightarrow> string \<Rightarrow> string \<Rightarrow> string \<Rightarrow> string \<Rightarrow> val \<Rightarrow> val" where
  "audit_event_dict i sequence mission workspace actor stamp type details =
     VDict [(''schema'', schema_of ''audit-event''), (''id'', VStr i), (''sequence'', VInt sequence),
            (''mission_id'', opt_str mission), (''workspace_id'', VStr workspace), (''actor'', VStr actor),
            (''at'', VStr stamp), (''type'', VStr type), (''details'', details)]"

text \<open>\<open>ExecutionResult\<close>: its \<open>status\<close> is one of four life-cycle states once \<open>from_dict\<close> accepts it.\<close>

record execution_result =
  r_attempt :: string
  r_generation :: string
  r_status :: lifecycle
  r_outputs :: "val list"
  r_error :: "string option"

definition result_states :: "(string \<times> lifecycle) list" where
  "result_states = [(''completed'', Completed), (''failed'', Failed), (''interrupted'', Interrupted),
                    (''cancelled'', Cancelled)]"

definition result_errors :: "string list" where
  "result_errors = [''simulated_failure'', ''simulated_interruption'', ''cpu_execution_failed'',
                    ''cpu_interrupted'', ''cpu_deadline_exceeded'']"

definition result_to_dict :: "execution_result \<Rightarrow> val" where
  "result_to_dict r =
     VDict [(''schema'', schema_of ''execution-result''), (''attempt_id'', VStr (r_attempt r)),
            (''generation'', VStr (r_generation r)), (''status'', VStr (state_name (r_status r))),
            (''outputs'', VList (r_outputs r)), (''error_code'', opt_str (r_error r))]"

definition result_from_dict :: "val \<Rightarrow> execution_result res" where
  "result_from_dict v =
     rbind (dict_fields v [''schema'', ''attempt_id'', ''generation'', ''status'', ''outputs'', ''error_code''] []) (\<lambda>d.
     rbind (ensure (get_or_none d ''schema'' = schema_of ''execution-result'') ''invalid_schema'' 400) (\<lambda>_.
     rbind (identifier_value (get_or_none d ''attempt_id'')) (\<lambda>attempt.
     rbind (identifier_value (get_or_none d ''generation'')) (\<lambda>generation.
     rbind (expect (as_str (get_or_none d ''status'')) ''invalid_result_state'' 400) (\<lambda>name.
     rbind (expect (map_of result_states name) ''invalid_result_state'' 400) (\<lambda>status.
     rbind (expect (as_list (get_or_none d ''outputs'')) ''invalid_outputs'' 400) (\<lambda>outputs.
     rbind (ensure (length outputs \<le> 1) ''invalid_outputs'' 400) (\<lambda>_.
     rbind (if get_or_none d ''error_code'' = VNull then Inr None
            else rbind (expect (as_str (get_or_none d ''error_code'')) ''invalid_error_code'' 400) (\<lambda>s.
                 rbind (ensure (s \<in> set result_errors) ''invalid_error_code'' 400) (\<lambda>_. Inr (Some s)))) (\<lambda>error.
     Inr \<lparr>r_attempt = attempt, r_generation = generation, r_status = status, r_outputs = outputs,
          r_error = error\<rparr>)))))))))"

subsection \<open>Capabilities\<close>

definition DEMO :: string where "DEMO = ''demo.report.v1''"
definition CPU_DIGEST :: string where "CPU_DIGEST = ''cpu.text.sha256.v1''"

definition SPECS :: "string \<Rightarrow> dict option" where
  "SPECS c =
     (if c = DEMO then
        Some [(''role'', VStr ''demo-report''), (''instruction'', VStr ''produce_deterministic_report''),
              (''simulated'', VBool True)]
      else if c = CPU_DIGEST then
        Some [(''role'', VStr ''cpu-text-digest''), (''instruction'', VStr ''hash_authorized_objective_utf8''),
              (''simulated'', VBool False)]
      else None)"

definition spec_of :: "string \<Rightarrow> dict res" where
  "spec_of c = (case SPECS c of None \<Rightarrow> Inl (Raised ''KeyError'') | Some d \<Rightarrow> Inr d)"

text \<open>A worker as \<open>public_worker\<close> shows it, and the two fixed coordinators over a list of them.\<close>

definition declares :: "string \<Rightarrow> val \<Rightarrow> bool" where
  "declares c w =
     (case as_dict w of
        Some d \<Rightarrow> (case as_list (get_or_none d ''capabilities'') of Some cs \<Rightarrow> VStr c \<in> set cs | None \<Rightarrow> False)
      | None \<Rightarrow> False)"

definition worker_field :: "string \<Rightarrow> val \<Rightarrow> val" where
  "worker_field k w = (case as_dict w of Some d \<Rightarrow> get_or_none d k | None \<Rightarrow> VNull)"

definition fake_plan :: "val list \<Rightarrow> val res" where
  "fake_plan workers =
     (case List.find (declares DEMO) workers of
        None \<Rightarrow> Inl (Problem ''no_declared_capability'' 409)
      | Some w \<Rightarrow> Inr (VDict [(''schema'', schema_of ''plan''), (''simulated'', VBool True),
           (''role'', VStr ''demo-report''), (''capability'', VStr DEMO), (''worker_id'', worker_field ''id'' w),
           (''instruction'', VStr ''produce_deterministic_report''), (''outputs'', VList [VStr ''resultat.md''])]))"

definition coordinator_plan :: "dict \<Rightarrow> val list \<Rightarrow> val res" where
  "coordinator_plan mission workers =
     (let capability = (case map_of mission ''required_capability'' of None \<Rightarrow> VStr DEMO | Some c \<Rightarrow> c)
      in if capability = VStr DEMO then fake_plan workers
         else if capability \<noteq> VStr CPU_DIGEST \<or> truthy (get_or_none mission ''authorized_files'')
         then Inl (Problem ''unsupported_cpu_inputs'' 409)
         else (case List.find (declares CPU_DIGEST) workers of
                 None \<Rightarrow> Inl (Problem ''no_declared_capability'' 409)
               | Some w \<Rightarrow>
                   rbind (spec_of CPU_DIGEST) (\<lambda>spec.
                   Inr (VDict ([(''schema'', schema_of ''plan'')] @ spec
                        @ [(''capability'', VStr CPU_DIGEST), (''worker_id'', worker_field ''id'' w),
                           (''outputs'', VList [VStr ''resultat.md''])])))))"

subsection \<open>What the primitives guarantee\<close>

lemma fields_Inr:
  "dict_fields v req opt = Inr d \<longleftrightarrow> v = VDict d \<and> set req \<subseteq> set (keys d) \<and> set (keys d) \<subseteq> set req \<union> set opt"
  by (auto simp: dict_fields_def bad_def split: option.splits)

lemma fields_map_of:
  assumes "dict_fields v req opt = Inr d" and "k \<in> set req"
  shows "\<exists>x. map_of d k = Some x"
proof -
  from assms have "k \<in> set (map fst d)" by (auto simp: fields_Inr keys_def)
  then show ?thesis by (metis image_set map_of_eq_None_iff not_None_eq)
qed

lemma text_value_Inr:
  "text_value v n = Inr s \<longleftrightarrow> v = VStr s \<and> strip s \<noteq> [] \<and> length s \<le> n \<and> CHR 0x00 \<notin> set s"
  by (auto simp: text_value_def)

lemma identifier_Inr: "identifier_value v = Inr s \<longleftrightarrow> v = VStr s \<and> is_identifier s"
  by (auto simp: identifier_value_def)

lemma operation_id_Inr: "operation_id v = Inr s \<longleftrightarrow> v = VStr s \<and> is_uuid s"
  by (auto simp: operation_id_def)

lemma result_status:
  assumes "result_from_dict v = Inr r"
  shows "r_status r \<in> {Completed, Failed, Interrupted, Cancelled}"
proof -
  from assms obtain name where "map_of result_states name = Some (r_status r)"
    by (auto simp: result_from_dict_def)
  from map_of_SomeD [OF this] show ?thesis by (auto simp: result_states_def)
qed

end
