(* ===== verification/Database.thy ===== *)
theory Database
  imports Contracts
begin

section \<open>control_plane/storage.py: settings, the index, transactions\<close>

text \<open>
  The SQLite index of the control plane (the schema of \<open>control_plane/migrations\<close>): one record
  per row, one list per table in rowid order, and an insert per table that checks the constraints
  the schema declares (primary keys, \<open>UNIQUE\<close>, foreign keys, \<open>CHECK\<close>) and raises
  \<open>IntegrityError\<close> as SQLite does. A column that holds canonical JSON text is kept as the value
  it encodes. \<open>world\<close> adds what the process itself owns: settings, object files on disk, the
  clock readings and random identifiers still to come, the hash function. \<open>transaction\<close> restores
  the database when its body raises; object files, clock and identifiers are not rolled back.
\<close>

record settings =
  max_file_bytes :: int
  quota_bytes :: int
  attempt_seconds :: int

definition default_settings :: settings where
  "default_settings = \<lparr>max_file_bytes = 1048576, quota_bytes = 16777216, attempt_seconds = 60\<rparr>"

definition make_settings :: "val \<Rightarrow> val \<Rightarrow> val \<Rightarrow> settings res" where
  "make_settings f q s =
     rbind (expect (as_int f) ''invalid_settings'' 400) (\<lambda>f'.
     rbind (expect (as_int q) ''invalid_settings'' 400) (\<lambda>q'.
     rbind (expect (as_int s) ''invalid_settings'' 400) (\<lambda>s'.
     rbind (ensure (0 < f' \<and> 0 < q' \<and> 0 < s' \<and> f' \<le> 1048576 \<and> q' \<le> 1073741824 \<and> s' \<le> 3600)
       ''invalid_settings'' 400) (\<lambda>_.
     Inr \<lparr>max_file_bytes = f', quota_bytes = q', attempt_seconds = s'\<rparr>))))"

record workspace_row =
  ws_id :: string
  ws_owner :: string
  ws_project :: string

record mission_row =
  m_id :: string
  m_owner :: string
  m_project :: string
  m_workspace :: string
  m_title :: string
  m_objective :: string
  m_state :: lifecycle
  m_created :: string
  m_files :: "string list"

record task_row =
  t_id :: string
  t_mission :: string
  t_role :: string
  t_capability :: string
  t_worker :: string
  t_state :: lifecycle
  t_plan :: val

record attempt_row =
  a_id :: string
  a_task :: string
  a_number :: int
  a_worker :: string
  a_state :: lifecycle
  a_generation :: string
  a_started :: string
  a_deadline :: rat
  a_expected :: "string option"
  a_result :: "string option"
  a_error :: "string option"

record file_row =
  f_id :: string
  f_workspace :: string
  f_name :: string

record version_row =
  v_id :: string
  v_file :: string
  v_number :: int
  v_size :: int
  v_sha :: string
  v_created :: string
  v_mission :: "string option"
  v_attempt :: "string option"

record result_row =
  res_id :: string
  res_attempt :: string
  res_version :: string
  res_provenance :: val

record event_row =
  e_seq :: int
  e_id :: string
  e_mission :: "string option"
  e_workspace :: string
  e_actor :: string
  e_at :: string
  e_type :: string
  e_details :: dict

record operation_row =
  o_actor :: string
  o_id :: string
  o_hash :: string
  o_response :: val

datatype worker_status = Active | Revoked

record worker_row =
  k_id :: string
  k_status :: worker_status
  k_credential :: string
  k_epoch :: int
  k_capabilities :: val
  k_limits :: val
  k_created :: string
  k_updated :: string

record database =
  d_workspaces :: "workspace_row list"
  d_missions :: "mission_row list"
  d_tasks :: "task_row list"
  d_attempts :: "attempt_row list"
  d_files :: "file_row list"
  d_versions :: "version_row list"
  d_results :: "result_row list"
  d_events :: "event_row list"
  d_operations :: "operation_row list"
  d_workers :: "worker_row list"
  d_epochs :: "(string \<times> int) list"

record world =
  db :: database
  w_settings :: settings
  w_objects :: "(string \<times> string) list"
  w_secrets :: "(string \<times> string) list"
  w_ticks :: nat
  w_draws :: nat
  w_clock :: "nat \<Rightarrow> rat"
  w_uuid :: "nat \<Rightarrow> string"
  w_token :: "nat \<Rightarrow> string"
  w_sha :: "string \<Rightarrow> string"
  w_frepr :: "rat \<Rightarrow> string"

type_synonym 'a app = "(world, 'a) act"

subsection \<open>Transactions and the process environment\<close>

definition transaction :: "'a app \<Rightarrow> 'a app" where
  "transaction m w =
     (case m w of (Inr x, w') \<Rightarrow> (Inr x, w') | (Inl e, w') \<Rightarrow> (Inl e, w'\<lparr>db := db w\<rparr>))"

definition clock_now :: "rat app" where
  "clock_now w = (Inr (w_clock w (w_ticks w)), w\<lparr>w_ticks := Suc (w_ticks w)\<rparr>)"

definition stamp_now :: "string app" where
  "stamp_now = abind clock_now (\<lambda>t. lift (timestamp (VFloat (Fin t))))"

definition new_id :: "string \<Rightarrow> string app" where
  "new_id prefix w = (Inr (prefix @ ''_'' @ w_uuid w (w_draws w)), w\<lparr>w_draws := Suc (w_draws w)\<rparr>)"

definition select :: "(database \<Rightarrow> 'a) \<Rightarrow> 'a app" where
  "select q = gets (\<lambda>w. q (db w))"

definition execute :: "(database \<Rightarrow> database) \<Rightarrow> unit app" where
  "execute u = modify (\<lambda>w. w\<lparr>db := u (db w)\<rparr>)"

definition insert_checked :: "(database \<Rightarrow> bool) \<Rightarrow> (database \<Rightarrow> database) \<Rightarrow> unit app" where
  "insert_checked c u w =
     (if c (db w) then (Inr (), w\<lparr>db := u (db w)\<rparr>) else (Inl (Raised ''IntegrityError''), w))"

subsection \<open>Lookups and constrained inserts\<close>

definition mission_by_id :: "database \<Rightarrow> string \<Rightarrow> mission_row option" where
  "mission_by_id d i = List.find (\<lambda>m. m_id m = i) (d_missions d)"

definition task_by_id :: "database \<Rightarrow> string \<Rightarrow> task_row option" where
  "task_by_id d i = List.find (\<lambda>t. t_id t = i) (d_tasks d)"

definition worker_by_id :: "database \<Rightarrow> string \<Rightarrow> worker_row option" where
  "worker_by_id d i = List.find (\<lambda>k. k_id k = i) (d_workers d)"

definition file_by_name :: "database \<Rightarrow> string \<Rightarrow> string \<Rightarrow> file_row option" where
  \<comment> \<open>\<open>COLLATE NOCASE\<close>: ASCII case is ignored\<close>
  "file_by_name d ws n =
     List.find (\<lambda>f. f_workspace f = ws \<and> upper_ascii (f_name f) = upper_ascii n) (d_files d)"

fun fk :: "string option \<Rightarrow> string list \<Rightarrow> bool" where
  "fk None ids = True"
| "fk (Some i) ids = (i \<in> set ids)"

definition insert_mission :: "mission_row \<Rightarrow> unit app" where
  "insert_mission r = insert_checked
     (\<lambda>d. m_id r \<notin> set (map m_id (d_missions d)) \<and> m_workspace r \<in> set (map ws_id (d_workspaces d)))
     (\<lambda>d. d\<lparr>d_missions := d_missions d @ [r]\<rparr>)"

definition insert_task :: "task_row \<Rightarrow> unit app" where
  "insert_task r = insert_checked
     (\<lambda>d. t_id r \<notin> set (map t_id (d_tasks d)) \<and> t_mission r \<notin> set (map t_mission (d_tasks d))
          \<and> t_mission r \<in> set (map m_id (d_missions d)))
     (\<lambda>d. d\<lparr>d_tasks := d_tasks d @ [r]\<rparr>)"

definition insert_attempt :: "attempt_row \<Rightarrow> unit app" where
  "insert_attempt r = insert_checked
     (\<lambda>d. a_id r \<notin> set (map a_id (d_attempts d)) \<and> a_generation r \<notin> set (map a_generation (d_attempts d))
          \<and> (a_task r, a_number r) \<notin> set (map (\<lambda>a. (a_task a, a_number a)) (d_attempts d))
          \<and> a_task r \<in> set (map t_id (d_tasks d)))
     (\<lambda>d. d\<lparr>d_attempts := d_attempts d @ [r]\<rparr>)"

definition insert_epoch :: "string \<Rightarrow> int \<Rightarrow> unit app" where
  "insert_epoch i e = insert_checked
     (\<lambda>d. i \<notin> set (map fst (d_epochs d)) \<and> i \<in> set (map a_id (d_attempts d)))
     (\<lambda>d. d\<lparr>d_epochs := d_epochs d @ [(i, e)]\<rparr>)"

definition insert_file :: "file_row \<Rightarrow> unit app" where
  "insert_file r = insert_checked
     (\<lambda>d. f_id r \<notin> set (map f_id (d_files d)) \<and> f_workspace r \<in> set (map ws_id (d_workspaces d))
          \<and> file_by_name d (f_workspace r) (f_name r) = None)
     (\<lambda>d. d\<lparr>d_files := d_files d @ [r]\<rparr>)"

definition insert_version :: "version_row \<Rightarrow> unit app" where
  "insert_version r = insert_checked
     (\<lambda>d. v_id r \<notin> set (map v_id (d_versions d)) \<and> v_file r \<in> set (map f_id (d_files d)) \<and> 0 \<le> v_size r
          \<and> (v_file r, v_number r) \<notin> set (map (\<lambda>v. (v_file v, v_number v)) (d_versions d))
          \<and> fk (v_mission r) (map m_id (d_missions d)) \<and> fk (v_attempt r) (map a_id (d_attempts d)))
     (\<lambda>d. d\<lparr>d_versions := d_versions d @ [r]\<rparr>)"

definition insert_result :: "result_row \<Rightarrow> unit app" where
  "insert_result r = insert_checked
     (\<lambda>d. res_id r \<notin> set (map res_id (d_results d)) \<and> res_attempt r \<notin> set (map res_attempt (d_results d))
          \<and> res_attempt r \<in> set (map a_id (d_attempts d)) \<and> res_version r \<in> set (map v_id (d_versions d)))
     (\<lambda>d. d\<lparr>d_results := d_results d @ [r]\<rparr>)"

definition next_sequence :: "database \<Rightarrow> int" where
  "next_sequence d = foldr max (map e_seq (d_events d)) 0 + 1"

definition insert_event :: "string \<Rightarrow> string option \<Rightarrow> string \<Rightarrow> string \<Rightarrow> string \<Rightarrow> string \<Rightarrow> dict \<Rightarrow> unit app" where
  "insert_event i mission ws actor stamp type details = insert_checked
     (\<lambda>d. i \<notin> set (map e_id (d_events d)) \<and> fk mission (map m_id (d_missions d))
          \<and> ws \<in> set (map ws_id (d_workspaces d)))
     (\<lambda>d. d\<lparr>d_events := d_events d @ [\<lparr>e_seq = next_sequence d, e_id = i, e_mission = mission,
            e_workspace = ws, e_actor = actor, e_at = stamp, e_type = type, e_details = details\<rparr>]\<rparr>)"

definition insert_operation :: "operation_row \<Rightarrow> unit app" where
  "insert_operation r = insert_checked
     (\<lambda>d. (o_actor r, o_id r) \<notin> set (map (\<lambda>x. (o_actor x, o_id x)) (d_operations d)))
     (\<lambda>d. d\<lparr>d_operations := d_operations d @ [r]\<rparr>)"

definition insert_worker :: "worker_row \<Rightarrow> unit app" where
  "insert_worker r = insert_checked
     (\<lambda>d. k_id r \<notin> set (map k_id (d_workers d)) \<and> 1 \<le> k_epoch r)
     (\<lambda>d. d\<lparr>d_workers := d_workers d @ [r]\<rparr>)"

subsection \<open>Laws\<close>

lemma transaction_error: "transaction m w = (Inl e, w') \<Longrightarrow> db w' = db w"
  by (auto simp: transaction_def split: prod.splits sum.splits)

lemma transaction_Inr: "transaction m w = (Inr x, w') \<longleftrightarrow> m w = (Inr x, w')"
  by (auto simp: transaction_def split: prod.splits sum.splits)

text \<open>
  Preservation of a property of the database needs only be shown for a successful run of the body
  of a transaction: \<open>commits\<close> is that obligation.
\<close>

definition commits :: "(database \<Rightarrow> bool) \<Rightarrow> 'a app \<Rightarrow> bool" where
  "commits P m \<longleftrightarrow> (\<forall>w x w'. P (db w) \<longrightarrow> m w = (Inr x, w') \<longrightarrow> P (db w'))"

definition keeps_db :: "(database \<Rightarrow> bool) \<Rightarrow> 'a app \<Rightarrow> bool" where
  "keeps_db P m \<longleftrightarrow> keeps (\<lambda>w. P (db w)) m"

lemma keeps_db_transaction: "commits P m \<Longrightarrow> keeps_db P (transaction m)"
  unfolding keeps_db_def commits_def
  by (rule keepsI) (metis transaction_Inr transaction_error sum.exhaust)

lemma commitsD: "commits P m \<Longrightarrow> m w = (Inr x, w') \<Longrightarrow> P (db w) \<Longrightarrow> P (db w')"
  by (auto simp: commits_def)

lemma commits_abind:
  "commits P m \<Longrightarrow> (\<And>x. commits P (f x)) \<Longrightarrow> commits P (abind m f)"
  unfolding commits_def by (metis abind_Inr)

lemma keeps_db_commits: "keeps_db P m \<Longrightarrow> commits P m"
  by (auto simp: keeps_db_def commits_def dest: keepsD)

text \<open>Actions that leave the database as it is.\<close>

definition reads :: "'a app \<Rightarrow> bool" where
  "reads m \<longleftrightarrow> (\<forall>w. db (snd (m w)) = db w)"

named_theorems reads_intros \<open>actions that do not write the database\<close>

lemma readsD: "reads m \<Longrightarrow> m w = (r, w') \<Longrightarrow> db w' = db w"
  by (metis reads_def snd_conv)

lemma reads_ret [reads_intros]: "reads (ret x)"
  and reads_fail [reads_intros]: "reads (fail e)"
  and reads_lift [reads_intros]: "reads (lift r)"
  and reads_gets [reads_intros]: "reads (gets f)"
  and reads_require [reads_intros]: "reads (require b c n)"
  and reads_found [reads_intros]: "reads (found v c n)"
  and reads_select [reads_intros]: "reads (select q)"
  and reads_clock [reads_intros]: "reads clock_now"
  and reads_new_id [reads_intros]: "reads (new_id p)"
  by (simp_all add: reads_def act_simps select_def clock_now_def new_id_def)

lemma reads_abind [reads_intros]:
  assumes "reads m" and "\<And>x. reads (f x)"
  shows "reads (abind m f)"
  unfolding reads_def
proof
  fix w
  show "db (snd (abind m f w)) = db w"
    using assms by (auto simp: abind_def reads_def split: prod.splits sum.splits) (metis snd_conv)+
qed

lemma reads_if [reads_intros]: "reads m1 \<Longrightarrow> reads m2 \<Longrightarrow> reads (if b then m1 else m2)"
  by simp

lemma reads_stamp [reads_intros]: "reads stamp_now"
  unfolding stamp_now_def by (intro reads_intros)

lemma reads_commits: "reads m \<Longrightarrow> commits P m"
  unfolding commits_def reads_def by (metis snd_conv)

text \<open>
  Actions that leave a projection of the database as it is, whether they succeed or raise: frame
  conditions for the tables an action does not write.
\<close>

definition preserves :: "(database \<Rightarrow> 'x) \<Rightarrow> 'a app \<Rightarrow> bool" where
  "preserves f m \<longleftrightarrow> (\<forall>w. f (db (snd (m w))) = f (db w))"

named_theorems frame_intros \<open>actions that leave a projection of the database as it is\<close>

lemma preservesD: "preserves f m \<Longrightarrow> m w = (r, w') \<Longrightarrow> f (db w') = f (db w)"
  by (metis preserves_def snd_conv)

lemma frame_reads: "reads m \<Longrightarrow> preserves f m"
  by (simp add: reads_def preserves_def)

lemmas frame_atoms [frame_intros] =
  reads_ret [THEN frame_reads] reads_fail [THEN frame_reads] reads_lift [THEN frame_reads]
  reads_gets [THEN frame_reads] reads_require [THEN frame_reads] reads_found [THEN frame_reads]
  reads_select [THEN frame_reads] reads_clock [THEN frame_reads] reads_new_id [THEN frame_reads]
  reads_stamp [THEN frame_reads]

lemma frame_abind [frame_intros]:
  assumes "preserves f m" and "\<And>x. preserves f (g x)"
  shows "preserves f (abind m g)"
  unfolding preserves_def
proof
  fix w
  show "f (db (snd (abind m g w))) = f (db w)"
    using assms by (auto simp: abind_def preserves_def split: prod.splits sum.splits) (metis snd_conv)+
qed

lemma frame_if [frame_intros]: "preserves f m1 \<Longrightarrow> preserves f m2 \<Longrightarrow> preserves f (if b then m1 else m2)"
  by simp

lemma frame_transaction [frame_intros]: "preserves f m \<Longrightarrow> preserves f (transaction m)"
  by (auto simp: preserves_def transaction_def split: prod.splits sum.splits) (metis snd_conv)

lemma frame_insert [frame_intros]: "(\<And>d. f (u d) = f d) \<Longrightarrow> preserves f (insert_checked c u)"
  by (simp add: preserves_def insert_checked_def)

lemma frame_execute [frame_intros]: "(\<And>d. f (u d) = f d) \<Longrightarrow> preserves f (execute u)"
  by (simp add: preserves_def execute_def modify_def)

lemma frame_foreach [frame_intros]:
  assumes "\<And>x. preserves f (g x)"
  shows "preserves f (foreach g xs)"
  unfolding preserves_def
proof
  fix w
  show "f (db (snd (foreach g xs w))) = f (db w)"
  proof (induction xs arbitrary: w)
    case Nil
    then show ?case by simp
  next
    case (Cons x xs)
    obtain r w1 where r: "g x w = (r, w1)" by fastforce
    with preservesD [OF assms r] Cons show ?case by (cases r) auto
  qed
qed

text \<open>Actions whose errors leave the database as it was.\<close>

definition atomic :: "'a app \<Rightarrow> bool" where
  "atomic m \<longleftrightarrow> (\<forall>w e w'. m w = (Inl e, w') \<longrightarrow> db w' = db w)"

lemma atomicD: "atomic m \<Longrightarrow> m w = (Inl e, w') \<Longrightarrow> db w' = db w"
  by (simp add: atomic_def)

lemma atomic_transaction: "atomic (transaction m)"
  by (auto simp: atomic_def dest: transaction_error)

lemma atomic_reads: "reads m \<Longrightarrow> atomic m"
  by (auto simp: atomic_def dest: readsD)

lemma atomic_read_then:
  assumes "reads m" and "\<And>x. atomic (f x)"
  shows "atomic (abind m f)"
  unfolding atomic_def
proof (intro allI impI)
  fix w e w'
  assume run: "abind m f w = (Inl e, w')"
  show "db w' = db w"
  proof (cases "m w")
    case (Pair r w1)
    then have "db w1 = db w" by (rule readsD [OF assms(1)])
    with run Pair assms(2) show ?thesis by (cases r) (auto simp: atomic_def)
  qed
qed

lemma atomic_then_reads: 
  assumes "atomic m" and "\<And>x. \<exists>y. f x = ret y"
  shows "atomic (abind m f)"
  unfolding atomic_def
proof (intro allI impI)
  fix w e w'
  assume run: "abind m f w = (Inl e, w')"
  obtain r w1 where r: "m w = (r, w1)" by fastforce
  show "db w' = db w"
  proof (cases r)
    case (Inl e1)
    with run r assms(1) show ?thesis by (auto dest: atomicD)
  next
    case (Inr x)
    with assms(2) [of x] run r show ?thesis by (auto simp: ret_def)
  qed
qed

lemma select_run [simp]: "select q w = (Inr (q (db w)), w)"
  by (simp add: select_def gets_def)

lemma execute_run [simp]: "execute u w = (Inr (), w\<lparr>db := u (db w)\<rparr>)"
  by (simp add: execute_def modify_def)

lemma insert_checked_Inr:
  "insert_checked c u w = (Inr x, w') \<longleftrightarrow> c (db w) \<and> w' = w\<lparr>db := u (db w)\<rparr>"
  by (auto simp: insert_checked_def)

lemma commits_insert: "(\<And>d. P d \<Longrightarrow> c d \<Longrightarrow> P (u d)) \<Longrightarrow> commits P (insert_checked c u)"
  by (auto simp: commits_def insert_checked_Inr)


lemma commits_execute: "(\<And>d. P d \<Longrightarrow> P (u d)) \<Longrightarrow> commits P (execute u)"
  by (auto simp: commits_def)

lemma make_settings_bounds:
  "make_settings f q s = Inr st \<Longrightarrow>
     0 < max_file_bytes st \<and> max_file_bytes st \<le> 1048576 \<and> 0 < quota_bytes st \<and> quota_bytes st \<le> 1073741824
     \<and> 0 < attempt_seconds st \<and> attempt_seconds st \<le> 3600"
  by (auto simp: make_settings_def)

end
