(* ===== verification/Registry.thy ===== *)
theory Registry
  imports Database "HOL-Library.Product_Lexorder"
begin

section \<open>control_plane/worker_registry.py and auth.py: identities and credentials\<close>

text \<open>
  Worker identities, their declared policy, the credential epoch that revocation and rotation
  advance, and the two authentications (administrator token file, worker credential digest).
  Methods that take the open connection are actions on \<open>world\<close>; \<open>enroll\<close> and \<open>rotate\<close> open their own
  transaction, and the credential file they write stays on disk if that transaction fails.
\<close>

definition worker_id :: "string \<Rightarrow> string res" where
  "worker_id v =
     (if v = ''fake-cpu'' then Inr v
      else if \<not> is_identifier v then bad ''invalid_identifier''
      else if \<not> starts_with ''n_'' v then bad ''invalid_worker_id''
      else Inr v)"

definition default_limits :: "settings \<Rightarrow> val" where
  "default_limits st =
     VDict [(''max_concurrent_tasks'', VInt 1), (''lease_seconds'', VInt (attempt_seconds st)),
            (''max_output_bytes'', VInt (min (max_file_bytes st) 65536))]"

definition policy :: "val \<Rightarrow> val \<Rightarrow> settings \<Rightarrow> (val \<times> val) res" where
  "policy capabilities limits st =
     rbind (ensure (capabilities = VList [VStr DEMO] \<or> capabilities = VList [VStr CPU_DIGEST])
       ''unsupported_worker_capabilities'' 400) (\<lambda>_.
     rbind (dict_fields limits [''max_concurrent_tasks'', ''lease_seconds'', ''max_output_bytes''] []) (\<lambda>d.
     rbind (expect (as_int (get_or_none d ''max_concurrent_tasks'')) ''unsupported_worker_limits'' 400) (\<lambda>tasks.
     rbind (expect (as_int (get_or_none d ''lease_seconds'')) ''unsupported_worker_limits'' 400) (\<lambda>lease.
     rbind (expect (as_int (get_or_none d ''max_output_bytes'')) ''unsupported_worker_limits'' 400) (\<lambda>out.
     rbind (ensure (tasks = 1 \<and> 1 \<le> lease \<and> lease \<le> attempt_seconds st
                    \<and> 1 \<le> out \<and> out \<le> min 65536 (max_file_bytes st)) ''unsupported_worker_limits'' 400) (\<lambda>_.
     Inr (capabilities, limits)))))))"

fun status_name :: "worker_status \<Rightarrow> string" where
  "status_name Active = ''active''"
| "status_name Revoked = ''revoked''"

definition public_worker :: "worker_row \<Rightarrow> val" where
  "public_worker r =
     (let simulated = (k_capabilities r = VList [VStr DEMO])
      in VDict [(''schema'', schema_of ''worker-identity''), (''id'', VStr (k_id r)),
           (''status'', VStr (status_name (k_status r))), (''credential_epoch'', VInt (k_epoch r)),
           (''capabilities'', k_capabilities r), (''limits'', k_limits r), (''capacity'', VInt 1),
           (''simulated'', VBool simulated), (''hardware_verified'', VBool False), (''gpu'', VNull),
           (''isolation'',
             if simulated then VDict [(''mode'', VStr ''same_os_account''), (''enforced'', VBool False)]
             else VDict [(''mode'', VStr ''independent_worker''), (''declared'', VStr ''linux-systemd-cpu/v1''),
                         (''enforced'', VNull), (''verified'', VBool False)])])"

definition authenticate_worker :: "string \<Rightarrow> principal app" where
  "authenticate_worker credential =
     abind (gets (\<lambda>w. w_sha w credential)) (\<lambda>digest.
     abind (select (\<lambda>d. List.find (\<lambda>r. k_credential r = digest \<and> k_status r = Active) (d_workers d))) (\<lambda>row.
     abind (found row ''authentication_required'' 401) (\<lambda>r.
     ret \<lparr>identity = k_id r, role = ''worker'', credential_epoch = Some (k_epoch r)\<rparr>)))"

definition ADMIN :: principal where
  "ADMIN = \<lparr>identity = ''local-admin'', role = ''admin'', credential_epoch = None\<rparr>"

definition is_token :: "string \<Rightarrow> bool" where
  "is_token t = (length t = 43 \<and> list_all (\<lambda>c. is_letter c \<or> is_digit c \<or> c = CHR ''_'' \<or> c = CHR ''-'') t)"

definition load_credentials :: "string \<Rightarrow> (string \<times> principal) list res" where
  "load_credentials raw =
     (let token = strip raw
      in if is_token token then Inr [(token, ADMIN)] else Inl (Problem ''invalid_local_credential'' 500))"

definition authenticate :: "(string \<times> principal) list \<Rightarrow> val \<Rightarrow> principal app" where
  "authenticate credentials authorization =
     (case as_str authorization of
        Some s \<Rightarrow>
          (if \<not> starts_with ''Bearer '' s then fail (Problem ''authentication_required'' 401)
           else let token = drop 7 s
                in if \<not> list_all (\<lambda>c. ord c < 128) token \<or> \<not> is_token token
                   then fail (Problem ''authentication_required'' 401)
                   else (case List.find (\<lambda>p. fst p = token) (rev credentials) of
                           Some (_, p) \<Rightarrow> ret p
                         | None \<Rightarrow> authenticate_worker token))
      | None \<Rightarrow> fail (Problem ''authentication_required'' 401))"

definition require_role :: "principal \<Rightarrow> string \<Rightarrow> unit res" where
  "require_role p r = ensure (role p = r) ''access_denied'' 403"

definition workspace_access :: "principal \<Rightarrow> string \<Rightarrow> workspace_row app" where
  "workspace_access p ws =
     abind (lift (require_role p ''admin'')) (\<lambda>_.
     abind (select (\<lambda>d. List.find (\<lambda>r. ws_id r = ws \<and> ws_owner r = identity p) (d_workspaces d))) (\<lambda>row.
     found row ''not_found'' 404))"

definition list_workers :: "bool \<Rightarrow> database \<Rightarrow> val list" where
  "list_workers active_only d =
     map public_worker (filter (\<lambda>r. \<not> active_only \<or> k_status r = Active)
       (sort_key (\<lambda>r. (k_created r, k_id r)) (d_workers d)))"

definition authorize :: "principal \<Rightarrow> worker_row app" where
  "authorize p =
     abind (require (role p = ''worker'') ''access_denied'' 403) (\<lambda>_.
     abind (select (\<lambda>d. worker_by_id d (identity p))) (\<lambda>row.
     abind (found row ''worker_revoked_or_rotated'' 403) (\<lambda>r.
     abind (require (k_status r = Active \<and> credential_epoch p = Some (k_epoch r))
             ''worker_revoked_or_rotated'' 403) (\<lambda>_.
     abind (gets w_settings) (\<lambda>st.
     abind (lift (policy (k_capabilities r) (k_limits r) st)) (\<lambda>_. ret r))))))"

definition registry_audit :: "string \<Rightarrow> string \<Rightarrow> unit app" where
  "registry_audit worker reason =
     abind (select (\<lambda>d. List.find (\<lambda>_. True) (sort (map ws_id (d_workspaces d))))) (\<lambda>first.
     abind (lift (present first ''TypeError'')) (\<lambda>ws.
     abind (new_id ''e'') (\<lambda>i.
     abind stamp_now (\<lambda>stamp.
     insert_event i None ws ''local-maintenance'' stamp ''worker_identity''
       [(''worker_id'', VStr worker), (''reason'', VStr reason)]))))"

text \<open>\<open>write_new\<close> opens with \<open>O_EXCL\<close>: an existing credential file is never replaced.\<close>

definition issue_credential :: "string \<Rightarrow> int \<Rightarrow> (string \<times> string) app" where
  "issue_credential worker epoch w =
     (let raw = w_token w (w_draws w);
          path = ''secrets/workers/'' @ worker @ ''.'' @ int_str epoch @ ''.token'';
          w' = w\<lparr>w_draws := Suc (w_draws w)\<rparr>
      in if map_of (w_secrets w) path \<noteq> None then (Inl (Raised ''FileExistsError''), w')
         else (Inr (w_sha w raw, path), w'\<lparr>w_secrets := w_secrets w @ [(path, raw @ [CHR 0x0A])]\<rparr>))"

definition refetch_worker :: "string \<Rightarrow> val app" where
  "refetch_worker i =
     abind (select (\<lambda>d. worker_by_id d i)) (\<lambda>row.
     abind (lift (present row ''TypeError'')) (\<lambda>r. ret (public_worker r)))"

definition enroll :: "val \<Rightarrow> val \<Rightarrow> val app" where
  "enroll capabilities limits =
     abind (gets w_settings) (\<lambda>st.
     abind (lift (policy (if capabilities = VNull then VList [VStr DEMO] else capabilities)
                         (if limits = VNull then default_limits st else limits) st)) (\<lambda>(caps, lims).
     abind (new_id ''n'') (\<lambda>i.
     abind (transaction (
       abind (issue_credential i 1) (\<lambda>(digest, path).
       abind stamp_now (\<lambda>stamp.
       abind (insert_worker \<lparr>k_id = i, k_status = Active, k_credential = digest, k_epoch = 1,
                k_capabilities = caps, k_limits = lims, k_created = stamp, k_updated = stamp\<rparr>) (\<lambda>_.
       abind (registry_audit i ''explicit_enrollment'') (\<lambda>_.
       abind (refetch_worker i) (\<lambda>public. ret (public, path)))))))) (\<lambda>(public, path).
     ret (VDict [(''worker'', public), (''credential_file'', VStr path)])))))"

definition rotate :: "string \<Rightarrow> bool \<Rightarrow> val app" where
  "rotate worker reactivate =
     abind (lift (worker_id worker)) (\<lambda>_.
     abind (transaction (
       abind (select (\<lambda>d. worker_by_id d worker)) (\<lambda>row.
       abind (found row ''not_found'' 404) (\<lambda>r.
       abind (require (\<not> (k_status r = Revoked \<and> \<not> reactivate)) ''explicit_reactivation_required'' 409) (\<lambda>_.
       abind (issue_credential worker (k_epoch r + 1)) (\<lambda>(digest, path).
       abind stamp_now (\<lambda>stamp.
       abind (execute (\<lambda>d. d\<lparr>d_workers := update_where (\<lambda>x. k_id x = worker)
               (\<lambda>x. x\<lparr>k_credential := digest, k_epoch := k_epoch r + 1, k_status := Active, k_updated := stamp\<rparr>)
               (d_workers d)\<rparr>)) (\<lambda>_.
       abind (registry_audit worker (if reactivate then ''explicit_reactivation'' else ''credential_rotation'')) (\<lambda>_.
       abind (refetch_worker worker) (\<lambda>public. ret (public, path))))))))))) (\<lambda>(public, path).
     ret (VDict [(''worker'', public), (''credential_file'', VStr path)])))"

definition revoke :: "string \<Rightarrow> val app" where
  "revoke worker =
     abind (lift (worker_id worker)) (\<lambda>_.
     abind (select (\<lambda>d. worker_by_id d worker)) (\<lambda>row.
     abind (found row ''not_found'' 404) (\<lambda>r.
     abind (if k_status r \<noteq> Revoked
            then abind stamp_now (\<lambda>stamp. execute (\<lambda>d. d\<lparr>d_workers := update_where (\<lambda>x. k_id x = worker)
                   (\<lambda>x. x\<lparr>k_status := Revoked, k_epoch := k_epoch x + 1, k_updated := stamp\<rparr>) (d_workers d)\<rparr>))
            else ret ()) (\<lambda>_.
     refetch_worker worker))))"

subsection \<open>Facts the other components use\<close>

lemma worker_by_id_Some: "worker_by_id d i = Some r \<Longrightarrow> r \<in> set (d_workers d) \<and> k_id r = i"
  by (auto simp: worker_by_id_def dest: find_Some_iff')

lemma find_update_where:
  assumes "\<And>r. k (f r) = k r"
  shows "List.find (\<lambda>r. k r = i) (update_where (\<lambda>r. k r = i) f rs) = map_option f (List.find (\<lambda>r. k r = i) rs)"
  by (induction rs) (auto simp: update_where_def assms)

lemma authorize_Inr:
  "authorize p w = (Inr r, w') \<longleftrightarrow>
     w' = w \<and> role p = ''worker'' \<and> worker_by_id (db w) (identity p) = Some r \<and> k_status r = Active
     \<and> credential_epoch p = Some (k_epoch r) \<and> is_ok (policy (k_capabilities r) (k_limits r) (w_settings w))"
  by (auto simp: authorize_def act_simps is_ok_conv)

lemma policy_Inr:
  "policy c l st = Inr (c', l') \<Longrightarrow>
     c' = c \<and> l' = l \<and> (c = VList [VStr DEMO] \<or> c = VList [VStr CPU_DIGEST]) \<and>
     (\<exists>d lease out. l = VDict d \<and> map_of d ''lease_seconds'' = Some (VInt lease) \<and> 1 \<le> lease
        \<and> lease \<le> attempt_seconds st \<and> map_of d ''max_output_bytes'' = Some (VInt out)
        \<and> 1 \<le> out \<and> out \<le> 65536 \<and> out \<le> max_file_bytes st)"
  by (auto simp: policy_def fields_Inr)

lemma reads_authorize [reads_intros]: "reads (authorize p)"
  unfolding authorize_def by (intro reads_intros)

lemma reads_workspace_access [reads_intros]: "reads (workspace_access p ws)"
  unfolding workspace_access_def by (intro reads_intros)

lemma reads_authenticate_worker: "reads (authenticate_worker t)"
  unfolding authenticate_worker_def by (intro reads_intros)

lemma workspace_access_Inr:
  "workspace_access p ws w = (Inr r, w') \<Longrightarrow>
     w' = w \<and> role p = ''admin'' \<and> r \<in> set (d_workspaces (db w)) \<and> ws_id r = ws \<and> ws_owner r = identity p"
  by (auto simp: workspace_access_def act_simps require_role_def dest: find_Some_iff')

end
