(* ===== verification/Service.thy ===== *)
theory Service
  imports Registry
begin

section \<open>control_plane/service.py: missions, audit, transitions, idempotent operations\<close>

text \<open>
  The application boundary's shared methods: \<open>_mission\<close> (ownership check), \<open>_required_capability\<close>
  and \<open>_view\<close> (read models), \<open>_audit\<close> (append-only ledger), \<open>_transition\<close> (the only writer of
  \<open>missions.state\<close>) and \<open>_operate\<close> (one transaction per operation id, replayed from the ledger).
\<close>

definition fetch_mission :: "principal \<Rightarrow> string \<Rightarrow> mission_row app" where
  "fetch_mission p i =
     abind (lift (require_role p ''admin'')) (\<lambda>_.
     abind (lift (identifier_value (VStr i))) (\<lambda>_.
     abind (select (\<lambda>d. List.find (\<lambda>m. m_id m = i \<and> m_owner m = identity p) (d_missions d))) (\<lambda>row.
     found row ''not_found'' 404)))"

definition CONTRACT_EVENT :: string where "CONTRACT_EVENT = ''mission_execution_contract_v1''"

definition required_capability :: "database \<Rightarrow> string \<Rightarrow> string res" where
  "required_capability d i =
     (let rows = filter (\<lambda>e. e_mission e = Some i \<and> e_type e = CONTRACT_EVENT) (d_events d)
      in if rows = [] then Inr DEMO
         else rbind (ensure (length rows = 1 \<and> map e_details rows = [[(''capability'', VStr CPU_DIGEST)]])
                ''invalid_mission_contract'' 409) (\<lambda>_. Inr CPU_DIGEST))"

definition tasks_of :: "database \<Rightarrow> string \<Rightarrow> task_row list" where
  "tasks_of d i = filter (\<lambda>t. t_mission t = i) (d_tasks d)"

definition attempts_of_mission :: "database \<Rightarrow> string \<Rightarrow> attempt_row list" where
  "attempts_of_mission d i =
     filter (\<lambda>a. \<exists>t\<in>set (d_tasks d). t_id t = a_task a \<and> t_mission t = i) (d_attempts d)"

definition task_view :: "task_row \<Rightarrow> val res" where
  "task_view t =
     rbind (spec_of (t_capability t)) (\<lambda>spec.
     Inr (task_dict (t_id t) (t_mission t) (t_role t) (t_capability t) (t_worker t) (t_state t)
            (get_or_none spec ''simulated'')))"

definition attempt_view :: "attempt_row \<Rightarrow> val" where
  "attempt_view a = attempt_dict (a_id a) (a_task a) (a_number a) (a_worker a) (a_state a) (a_started a)
     (a_deadline a) (a_error a)"

definition results_of_mission :: "database \<Rightarrow> string \<Rightarrow> val list" where
  "results_of_mission d i =
     concat (map (\<lambda>r. map (\<lambda>v. VDict [(''id'', VStr (res_id r)), (''attempt_id'', VStr (res_attempt r)),
          (''version_id'', VStr (res_version r)), (''provenance'', res_provenance r), (''file_id'', VStr (v_file v))])
        (filter (\<lambda>v. v_id v = res_version r \<and> v_mission v = Some i) (d_versions d))) (d_results d))"

definition view :: "database \<Rightarrow> mission_row \<Rightarrow> dict res" where
  "view d m =
     rbind (collect task_view (tasks_of d (m_id m))) (\<lambda>tasks.
     rbind (required_capability d (m_id m)) (\<lambda>capability.
     Inr (let base = mission_dict (m_id m) (m_owner m) (m_project m)
                (workspace_reference (m_workspace m) (m_project m)) (m_title m) (m_objective m) (m_state m)
                (m_created m) (VList (map VStr (m_files m)))
                (VDict [(''input'', VStr ''local_user''), (''execution'', VStr ''simulation_only'')])
              @ [(''tasks'', VList tasks)];
              base = (if capability \<noteq> DEMO then
                put_key ''provenance'' (VDict [(''input'', VStr ''local_user''), (''execution'', VStr ''deterministic_cpu''),
                    (''ai_inference'', VBool False), (''os_isolation'', VStr ''NOT VERIFIED'')])
                  (put_key ''required_capability'' (VStr capability) base) else base)
          in base @ [(''plan'', case tasks_of d (m_id m) of [] \<Rightarrow> VNull | t # _ \<Rightarrow> t_plan t),
                (''attempts'', VList (map attempt_view (sort_key a_number (attempts_of_mission d (m_id m))))),
                (''results'', VList (results_of_mission d (m_id m)))])))"

definition view_of :: "mission_row \<Rightarrow> dict app" where
  "view_of m = abind (select (\<lambda>d. view d m)) lift"

definition allowed_details :: "string list" where
  "allowed_details = [''state'', ''reason'', ''file_id'', ''version_id'', ''task_id'', ''attempt_id'', ''worker_id'', ''capability'']"

definition audit :: "principal \<Rightarrow> string \<Rightarrow> string option \<Rightarrow> string \<Rightarrow> dict \<Rightarrow> unit app" where
  "audit p ws mission type details =
     abind (require (set (keys details) \<subseteq> set allowed_details) ''unsafe_audit_details'' 500) (\<lambda>_.
     abind (new_id ''e'') (\<lambda>i.
     abind stamp_now (\<lambda>stamp.
     insert_event i mission ws (identity p) stamp type details)))"

definition set_mission_state :: "string \<Rightarrow> lifecycle \<Rightarrow> database \<Rightarrow> database" where
  "set_mission_state i s d =
     d\<lparr>d_missions := update_where (\<lambda>m. m_id m = i) (\<lambda>m. m\<lparr>m_state := s\<rparr>) (d_missions d)\<rparr>"

definition transition_details :: "lifecycle \<Rightarrow> string option \<Rightarrow> dict" where
  "transition_details target reason =
     (''state'', VStr (state_name target)) # (case reason of None \<Rightarrow> [] | Some r \<Rightarrow> [(''reason'', VStr r)])"

definition transition :: "principal \<Rightarrow> mission_row \<Rightarrow> lifecycle \<Rightarrow> string option \<Rightarrow> mission_row app" where
  "transition p row target reason =
     abind (require (target \<in> set (TRANSITIONS (m_state row))) ''invalid_transition'' 409) (\<lambda>_.
     abind (execute (set_mission_state (m_id row) target)) (\<lambda>_.
     abind (audit p (m_workspace row) (Some (m_id row)) ''mission_state'' (transition_details target reason)) (\<lambda>_.
     abind (select (\<lambda>d. mission_by_id d (m_id row))) (\<lambda>row'.
     lift (present row' ''TypeError'')))))"

definition request_hash :: "string \<Rightarrow> val \<Rightarrow> string app" where
  "request_hash action payload =
     abind (gets (\<lambda>w. canon (w_frepr w) (VDict [(''action'', VStr action), (''payload'', payload)]))) (\<lambda>r.
     abind (lift r) (\<lambda>s.
     gets (\<lambda>w. w_sha w (utf8 s))))"

definition operation_actor :: "string \<Rightarrow> principal \<Rightarrow> string app" where
  "operation_actor rl p =
     (if rl = ''worker''
      then abind (authorize p) (\<lambda>k. ret (identity p @ ''@'' @ int_str (k_epoch k)))
      else ret (identity p))"

definition recorded :: "database \<Rightarrow> string \<Rightarrow> string \<Rightarrow> operation_row option" where
  "recorded d actor i = List.find (\<lambda>x. o_actor x = actor \<and> o_id x = i) (d_operations d)"

definition operate :: "principal \<Rightarrow> val \<Rightarrow> string \<Rightarrow> val \<Rightarrow> val app \<Rightarrow> string \<Rightarrow> val app" where
  "operate p operation action payload effect rl =
     abind (lift (require_role p rl)) (\<lambda>_.
     abind (lift (operation_id operation)) (\<lambda>oid.
     abind (request_hash action payload) (\<lambda>h.
     transaction (
       abind (operation_actor rl p) (\<lambda>actor.
       abind (select (\<lambda>d. recorded d actor oid)) (\<lambda>old.
       case old of
         Some x \<Rightarrow> abind (require (o_hash x = h) ''operation_conflict'' 409) (\<lambda>_. ret (o_response x))
       | None \<Rightarrow>
           abind effect (\<lambda>response.
           abind (insert_operation \<lparr>o_actor = actor, o_id = oid, o_hash = h, o_response = response\<rparr>) (\<lambda>_.
           ret response))))))))"

subsection \<open>What they write\<close>

lemma reads_fetch_mission [reads_intros]: "reads (fetch_mission p i)"
  unfolding fetch_mission_def by (intro reads_intros)

lemma reads_view_of [reads_intros]: "reads (view_of m)"
  unfolding view_of_def by (intro reads_intros)

lemma reads_request_hash [reads_intros]: "reads (request_hash a v)"
  unfolding request_hash_def by (intro reads_intros)

lemma reads_operation_actor [reads_intros]: "reads (operation_actor rl p)"
  unfolding operation_actor_def by (intro reads_intros)

lemma frame_audit [frame_intros]:
  "(\<And>d x. f (d\<lparr>d_events := x\<rparr>) = f d) \<Longrightarrow> preserves f (audit p ws m ty ds)"
  unfolding audit_def insert_event_def by (intro frame_intros) auto

lemma frame_transition [frame_intros]:
  "(\<And>d x. f (d\<lparr>d_events := x\<rparr>) = f d) \<Longrightarrow> (\<And>d x. f (d\<lparr>d_missions := x\<rparr>) = f d) \<Longrightarrow>
     preserves f (transition p row s reason)"
  unfolding transition_def set_mission_state_def by (intro frame_intros) auto

lemma fetch_mission_Inr:
  "fetch_mission p i w = (Inr m, w') \<Longrightarrow>
     w' = w \<and> role p = ''admin'' \<and> m \<in> set (d_missions (db w)) \<and> m_id m = i \<and> m_owner m = identity p"
  by (auto simp: fetch_mission_def act_simps require_role_def dest: find_Some_iff')

text \<open>\<open>audit\<close> changes the events table only, and only by appending one row.\<close>

lemma audit_Inr:
  assumes "audit p ws m ty ds w = (Inr u, w')"
  shows "\<exists>e. db w' = (db w)\<lparr>d_events := d_events (db w) @ [e]\<rparr> \<and> e_mission e = m \<and> e_workspace e = ws
           \<and> e_actor e = identity p \<and> e_type e = ty \<and> e_details e = ds \<and> e_seq e = next_sequence (db w)
           \<and> fk m (map m_id (d_missions (db w)))"
  using assms
  by (auto simp: audit_def act_simps insert_event_def insert_checked_Inr stamp_now_def clock_now_def new_id_def)

lemma transition_Inr:
  assumes "transition p row s reason w = (Inr row', w')"
  shows "s \<in> set (TRANSITIONS (m_state row)) \<and> mission_by_id (db w') (m_id row) = Some row' \<and>
     (\<exists>e. db w' = (set_mission_state (m_id row) s (db w))\<lparr>d_events := d_events (db w) @ [e]\<rparr>
          \<and> e_mission e = Some (m_id row) \<and> e_type e = ''mission_state''
          \<and> e_details e = transition_details s reason \<and> e_actor e = identity p)"
  using assms
  by (auto simp: transition_def act_simps set_mission_state_def dest!: audit_Inr)

lemma operate_Inr:
  assumes "operate p oper action payload effect rl w = (Inr r, w')"
  shows "role p = rl \<and> (db w' = db w \<or>
     (\<exists>w1 w2 x. db w1 = db w \<and> effect w1 = (Inr r, w2) \<and> db w' = (db w2)\<lparr>d_operations := d_operations (db w2) @ [x]\<rparr>))"
proof -
  from assms obtain oid h w0 where rl: "role p = rl" and w0: "db w0 = db w"
    and run: "abind (operation_actor rl p) (\<lambda>actor.
       abind (select (\<lambda>d. recorded d actor oid)) (\<lambda>old.
       case old of
         Some x \<Rightarrow> abind (require (o_hash x = h) ''operation_conflict'' 409) (\<lambda>_. ret (o_response x))
       | None \<Rightarrow>
           abind effect (\<lambda>response.
           abind (insert_operation \<lparr>o_actor = actor, o_id = oid, o_hash = h, o_response = response\<rparr>) (\<lambda>_.
           ret response)))) w0 = (Inr r, w')"
    by (auto simp: operate_def abind_Inr act_defs require_role_def transaction_Inr
        dest: readsD [OF reads_request_hash])
  from run obtain actor w1 where a: "operation_actor rl p w0 = (Inr actor, w1)" and
    rest: "(case recorded (db w1) actor oid of
         Some x \<Rightarrow> abind (require (o_hash x = h) ''operation_conflict'' 409) (\<lambda>_. ret (o_response x))
       | None \<Rightarrow>
           abind effect (\<lambda>response.
           abind (insert_operation \<lparr>o_actor = actor, o_id = oid, o_hash = h, o_response = response\<rparr>) (\<lambda>_.
           ret response))) w1 = (Inr r, w')"
    by (auto simp: abind_Inr)
  from readsD [OF reads_operation_actor a] w0 have w1: "db w1 = db w" by simp
  show ?thesis
  proof (cases "recorded (db w1) actor oid")
    case None
    with rest obtain w2 where e: "effect w1 = (Inr r, w2)"
      and d: "db w' = (db w2)\<lparr>d_operations := d_operations (db w2) @
                [\<lparr>o_actor = actor, o_id = oid, o_hash = h, o_response = r\<rparr>]\<rparr>"
      by (auto simp: act_simps insert_operation_def insert_checked_Inr)
    from e d w1 rl show ?thesis by blast
  next
    case (Some x)
    with rest w1 rl show ?thesis by (auto simp: act_simps)
  qed
qed

lemma atomic_operate: "atomic (operate p oper action payload effect rl)"
  unfolding operate_def
  by (intro atomic_read_then atomic_transaction reads_intros)

lemma commits_operate:
  assumes "commits P effect"
    and "\<And>d x. P d \<Longrightarrow> P (d\<lparr>d_operations := d_operations d @ [x]\<rparr>)"
  shows "keeps_db P (operate p oper action payload effect rl)"
  unfolding keeps_db_def
proof (rule keepsI)
  fix w r w'
  assume P: "P (db w)" and run: "operate p oper action payload effect rl w = (r, w')"
  show "P (db w')"
  proof (cases r)
    case (Inr x)
    from operate_Inr [OF run [unfolded Inr]] P show ?thesis
      by (elim conjE disjE exE) (auto intro!: assms(2) dest: commitsD [OF assms(1)])
  next
    case (Inl e)
    from atomicD [OF atomic_operate run [unfolded Inl]] P show ?thesis by simp
  qed
qed

end
