(* ===== verification/Base64.thy ===== *)
theory Base64
  imports PyValue
begin

section \<open>base64, as the file transfer uses it\<close>

text \<open>
  \<open>base64.b64encode\<close> and the strict \<open>base64.b64decode(..., validate=True)\<close>: whole quanta of four
  characters, padding only at the end of the last one. Bytes are characters. \<open>sext1\<close> to \<open>sext4\<close> are
  the four sextets of three octets, \<open>oct1\<close> to \<open>oct3\<close> the octets read back from four sextets.
\<close>

definition b64_char :: "nat \<Rightarrow> char" where
  "b64_char i =
     (if i < 26 then char_of (65 + i) else if i < 52 then char_of (71 + i)
      else if i < 62 then char_of (i - 4) else if i = 62 then CHR ''+'' else CHR 0x2F)"

definition b64_value :: "char \<Rightarrow> nat option" where
  "b64_value c =
     (if is_upper c then Some (ord c - 65) else if is_lower c then Some (ord c - 71)
      else if is_digit c then Some (ord c + 4) else if c = CHR ''+'' then Some 62
      else if c = CHR 0x2F then Some 63 else None)"

definition sext1 :: "nat \<Rightarrow> nat" where "sext1 a = a div 4"
definition sext2 :: "nat \<Rightarrow> nat \<Rightarrow> nat" where "sext2 a b = a mod 4 * 16 + b div 16"
definition sext3 :: "nat \<Rightarrow> nat \<Rightarrow> nat" where "sext3 b c = b mod 16 * 4 + c div 64"
definition sext4 :: "nat \<Rightarrow> nat" where "sext4 c = c mod 64"
definition oct1 :: "nat \<Rightarrow> nat \<Rightarrow> char" where "oct1 i j = char_of (i * 4 + j div 16)"
definition oct2 :: "nat \<Rightarrow> nat \<Rightarrow> char" where "oct2 j k = char_of (j mod 16 * 16 + k div 4)"
definition oct3 :: "nat \<Rightarrow> nat \<Rightarrow> char" where "oct3 k l = char_of (k mod 4 * 64 + l)"

fun b64encode :: "string \<Rightarrow> string" where
  "b64encode [] = []"
| "b64encode [a] = [b64_char (sext1 (ord a)), b64_char (sext2 (ord a) 0), CHR ''='', CHR ''='']"
| "b64encode [a, b] =
     [b64_char (sext1 (ord a)), b64_char (sext2 (ord a) (ord b)), b64_char (sext3 (ord b) 0), CHR ''='']"
| "b64encode (a # b # c # r) =
     [b64_char (sext1 (ord a)), b64_char (sext2 (ord a) (ord b)), b64_char (sext3 (ord b) (ord c)),
      b64_char (sext4 (ord c))] @ b64encode r"

fun b64decode :: "string \<Rightarrow> string option" where
  "b64decode [] = Some []"
| "b64decode (w # x # y # z # r) =
     (case (b64_value w, b64_value x) of
        (Some i, Some j) \<Rightarrow>
          (if r = [] \<and> z = CHR ''='' then
             (if y = CHR ''='' then Some [oct1 i j]
              else case b64_value y of None \<Rightarrow> None | Some k \<Rightarrow> Some [oct1 i j, oct2 j k])
           else (case (b64_value y, b64_value z, b64decode r) of
                   (Some k, Some l, Some t) \<Rightarrow> Some (oct1 i j # oct2 j k # oct3 k l # t)
                 | _ \<Rightarrow> None))
      | _ \<Rightarrow> None)"
| "b64decode _ = None"

lemma b64_value_char: "i < 64 \<Longrightarrow> b64_value (b64_char i) = Some i"
  by (auto simp: b64_value_def b64_char_def is_upper_def is_lower_def is_digit_def ord_char_of)
     (auto simp: ord_def)

lemma b64_value_pad: "b64_value (CHR ''='') = None"
  by (simp add: b64_value_def is_upper_def is_lower_def is_digit_def ord_def)

lemma b64_char_not_pad: "i < 64 \<Longrightarrow> b64_char i \<noteq> CHR ''=''"
  using b64_value_char [of i] b64_value_pad by auto

lemma ord_bound: "ord c < 256"
  by (simp add: ord_def)

lemma char_of_ord [simp]: "char_of (ord c) = c"
  by (simp add: ord_def)

lemma sext_bounds:
  "a < 256 \<Longrightarrow> sext1 a < 64" "b < 256 \<Longrightarrow> sext2 a b < 64" "c < 256 \<Longrightarrow> sext3 b c < 64" "sext4 c < 64"
proof -
  show "a < 256 \<Longrightarrow> sext1 a < 64" "sext4 c < 64" by (simp_all add: sext1_def sext4_def)
  have "a mod 4 \<le> 3" "b mod 16 \<le> 15" by linarith+
  moreover have "b < 256 \<Longrightarrow> b div 16 \<le> 15" "c < 256 \<Longrightarrow> c div 64 \<le> 3" by linarith+
  ultimately show "b < 256 \<Longrightarrow> sext2 a b < 64" "c < 256 \<Longrightarrow> sext3 b c < 64"
    by (simp_all add: sext2_def sext3_def)
qed

lemma oct1_sext: "b < 256 \<Longrightarrow> oct1 (sext1 a) (sext2 a b) = char_of a"
  by (simp add: oct1_def sext1_def sext2_def)

lemma oct2_sext:
  assumes "b < 256" "c < 256"
  shows "oct2 (sext2 a b) (sext3 b c) = char_of b"
proof -
  have lt: "b div 16 < 16" "c div 64 < 4" using assms by linarith+
  then have "(a mod 4 * 16 + b div 16) mod 16 = b div 16" "(b mod 16 * 4 + c div 64) div 4 = b mod 16" by simp_all
  then have "(a mod 4 * 16 + b div 16) mod 16 * 16 + (b mod 16 * 4 + c div 64) div 4 = b"
    by presburger
  then show ?thesis by (simp only: oct2_def sext2_def sext3_def)
qed

lemma oct3_sext:
  assumes "c < 256"
  shows "oct3 (sext3 b c) (sext4 c) = char_of c"
proof -
  have "c div 64 < 4" using assms by linarith
  then have "(b mod 16 * 4 + c div 64) mod 4 = c div 64" by simp
  then have "(b mod 16 * 4 + c div 64) mod 4 * 64 + c mod 64 = c" by presburger
  then show ?thesis by (simp only: oct3_def sext3_def sext4_def)
qed

lemmas b64_facts = b64_value_char b64_value_pad b64_char_not_pad sext_bounds oct1_sext oct2_sext oct3_sext ord_bound

lemma b64_roundtrip: "b64decode (b64encode s) = Some s"
  by (induction s rule: b64encode.induct) (simp_all add: b64_facts)

lemma length_b64encode: "length (b64encode s) = (length s + 2) div 3 * 4"
proof (induction s rule: b64encode.induct)
  case (4 a b c r)
  have "length (a # b # c # r) + 2 = (length r + 2) + 3" by simp
  then have "(length (a # b # c # r) + 2) div 3 = (length r + 2) div 3 + 1" by presburger
  with 4 show ?case by simp
qed auto

lemma length_b64decode: "b64decode s = Some t \<Longrightarrow> length t * 4 \<le> length s * 3"
  by (induction s arbitrary: t rule: b64decode.induct) (auto split: option.splits if_splits prod.splits)

end
