(* ===== verification/Workspace.thy ===== *)
theory Workspace
  imports Service Base64
begin

section \<open>control_plane/workspace.py: content-addressed objects and logical versions\<close>

text \<open>
  File names and declared uploads (\<open>file_name\<close>, \<open>output_data\<close>), the object store (\<open>store_object\<close> for
  \<open>_object\<close>: staged, read back, then named by its digest; never replaced), the publication of a
  version under optimistic concurrency and quota, and the two read paths. Staging files are
  removed in the \<open>finally\<close> of the source and are not part of the state; permissions and symbolic
  links are outside the model, the size limit of \<open>read_private\<close> is inside.
\<close>

definition RESERVED :: "string list" where
  "RESERVED = [''CON'', ''PRN'', ''AUX'', ''NUL''] @ map (\<lambda>n. ''COM'' @ nat_digits n) [1..<10]
              @ map (\<lambda>n. ''LPT'' @ nat_digits n) [1..<10]"

definition name_char :: "char \<Rightarrow> bool" where
  "name_char c = (is_letter c \<or> is_digit c \<or> c = CHR ''.'' \<or> c = CHR ''_'' \<or> c = CHR ''-'')"

definition safe_name :: "string \<Rightarrow> bool" where
  "safe_name s =
     (s \<noteq> [] \<and> (is_letter (hd s) \<or> is_digit (hd s)) \<and> length s \<le> 120 \<and> list_all name_char s
      \<and> last s \<noteq> CHR ''.'' \<and> upper_ascii (hd (split_on (CHR ''.'') s)) \<notin> set RESERVED)"

definition file_name :: "val \<Rightarrow> string res" where
  "file_name v =
     rbind (expect (as_str v) ''unsafe_file_name'' 400) (\<lambda>s.
     rbind (ensure (safe_name s) ''unsafe_file_name'' 400) (\<lambda>_. Inr s))"

definition output_fields :: "string list" where
  "output_fields = [''name'', ''content_base64'', ''size'', ''sha256'', ''expected_version'']"

definition optional_identifier :: "val \<Rightarrow> unit res" where
  "optional_identifier v = (if v = VNull then Inr () else rbind (identifier_value v) (\<lambda>_. Inr ()))"

definition decoded_output :: "(string \<Rightarrow> string) \<Rightarrow> dict \<Rightarrow> int \<Rightarrow> int \<Rightarrow> string \<Rightarrow> string res" where
  "decoded_output sha d limit n digest =
     rbind (expect (as_str (get_or_none d ''content_base64'')) ''file_too_large'' 413) (\<lambda>encoded.
     rbind (ensure (int (length encoded) \<le> (limit + 2) div 3 * 4) ''file_too_large'' 413) (\<lambda>_.
     rbind (expect (b64decode encoded) ''invalid_file_encoding'' 400) (\<lambda>raw.
     rbind (ensure (int (length raw) = n \<and> sha raw = digest) ''file_integrity_mismatch'' 400) (\<lambda>_.
     Inr raw))))"

definition output_data :: "(string \<Rightarrow> string) \<Rightarrow> val \<Rightarrow> int \<Rightarrow> (string \<times> string) res" where
  "output_data sha v limit =
     rbind (dict_fields v output_fields []) (\<lambda>d.
     rbind (file_name (get_or_none d ''name'')) (\<lambda>name.
     rbind (expect (as_int (get_or_none d ''size'')) ''invalid_file_size'' 400) (\<lambda>n.
     rbind (ensure (0 \<le> n) ''invalid_file_size'' 400) (\<lambda>_.
     rbind (ensure (n \<le> limit) ''file_too_large'' 413) (\<lambda>_.
     rbind (optional_identifier (get_or_none d ''expected_version'')) (\<lambda>_.
     rbind (expect (as_str (get_or_none d ''sha256'')) ''invalid_file_digest'' 400) (\<lambda>digest.
     rbind (ensure (hex_string 64 digest) ''invalid_file_digest'' 400) (\<lambda>_.
     rbind (decoded_output sha d limit n digest) (\<lambda>raw.
     Inr (name, raw))))))))))"

subsection \<open>The object store\<close>

definition read_object :: "string \<Rightarrow> string app" where
  "read_object digest =
     abind (gets (\<lambda>w. map_of (w_objects w) digest)) (\<lambda>content.
     abind (lift (present content ''FileNotFoundError'')) (\<lambda>raw.
     abind (gets (\<lambda>w. max_file_bytes (w_settings w))) (\<lambda>limit.
     abind (require (int (length raw) \<le> limit) ''unsafe_local_file'' 500) (\<lambda>_.
     ret raw))))"

definition put_object :: "string \<Rightarrow> string \<Rightarrow> unit app" where
  "put_object digest raw = modify (\<lambda>w. w\<lparr>w_objects := w_objects w @ [(digest, raw)]\<rparr>)"

definition place_object :: "string \<Rightarrow> string \<Rightarrow> unit app" where
  "place_object digest raw =
     abind (gets (\<lambda>w. map_of (w_objects w) digest)) (\<lambda>existing.
     if existing \<noteq> None
     then abind (read_object digest) (\<lambda>content. require (content = raw) ''object_corrupted'' 500)
     else put_object digest raw)"

definition store_object :: "string \<Rightarrow> string app" where
  "store_object raw =
     abind (new_id ''p'') (\<lambda>_.
     abind (gets (\<lambda>w. w_sha w raw)) (\<lambda>digest.
     abind (gets (\<lambda>w. max_file_bytes (w_settings w))) (\<lambda>limit.
     abind (require (int (length raw) \<le> limit) ''unsafe_local_file'' 500) (\<lambda>_.
     abind (place_object digest raw) (\<lambda>_.
     abind (read_object digest) (\<lambda>content.
     abind (require (content = raw) ''object_corrupted'' 500) (\<lambda>_.
     ret digest)))))))"

subsection \<open>Versions\<close>

definition versions_of :: "database \<Rightarrow> string \<Rightarrow> version_row list" where
  \<comment> \<open>\<open>ORDER BY number DESC\<close>\<close>
  "versions_of d file = rev (sort_key v_number (filter (\<lambda>v. v_file v = file) (d_versions d)))"

definition latest :: "database \<Rightarrow> string \<Rightarrow> version_row option" where
  "latest d file = List.find (\<lambda>_. True) (versions_of d file)"

definition workspace_versions :: "database \<Rightarrow> string \<Rightarrow> version_row list" where
  "workspace_versions d ws =
     filter (\<lambda>v. \<exists>f\<in>set (d_files d). f_id f = v_file v \<and> f_workspace f = ws) (d_versions d)"

definition used_bytes :: "database \<Rightarrow> string \<Rightarrow> int" where
  "used_bytes d ws = sum_list (map v_size (workspace_versions d ws))"

definition previous_version :: "database \<Rightarrow> file_row option \<Rightarrow> version_row option" where
  "previous_version d file = (case file of None \<Rightarrow> None | Some f \<Rightarrow> latest d (f_id f))"

definition check_publish :: "string \<Rightarrow> string \<Rightarrow> string \<Rightarrow> string option \<Rightarrow> (file_row option \<times> version_row option) app" where
  "check_publish ws name raw expected =
     abind (select (\<lambda>d. file_by_name d ws name)) (\<lambda>file.
     abind (select (\<lambda>d. previous_version d file)) (\<lambda>previous.
     abind (require (expected = map_option v_id previous) ''version_conflict'' 409) (\<lambda>_.
     abind (select (\<lambda>d. used_bytes d ws)) (\<lambda>used.
     abind (gets (\<lambda>w. quota_bytes (w_settings w))) (\<lambda>quota.
     abind (require (used + int (length raw) \<le> quota) ''workspace_quota_exceeded'' 413) (\<lambda>_.
     abind (select (\<lambda>d. length (filter (\<lambda>f. f_workspace f = ws) (d_files d)))) (\<lambda>count.
     abind (require (\<not> (file = None \<and> 100 \<le> count)) ''file_count_limit'' 413) (\<lambda>_.
     abind (require (\<forall>v\<in>set_option previous. v_number v < 100) ''version_count_limit'' 413) (\<lambda>_.
     ret (file, previous))))))))))"

definition file_for :: "string \<Rightarrow> string \<Rightarrow> file_row option \<Rightarrow> string app" where
  "file_for ws name file =
     (case file of
        Some f \<Rightarrow> ret (f_id f)
      | None \<Rightarrow>
          abind (new_id ''f'') (\<lambda>i.
          abind (insert_file \<lparr>f_id = i, f_workspace = ws, f_name = name\<rparr>) (\<lambda>_. ret i)))"

definition published_dict :: "string \<Rightarrow> string \<Rightarrow> string \<Rightarrow> string \<Rightarrow> dict" where
  "published_dict file version digest raw =
     [(''file_id'', VStr file), (''version_id'', VStr version), (''sha256'', VStr digest),
      (''size'', VInt (int (length raw)))]"

definition publish :: "principal \<Rightarrow> string \<Rightarrow> string \<Rightarrow> string \<Rightarrow> string option \<Rightarrow> string option \<Rightarrow> string option
    \<Rightarrow> (string \<times> dict) app" where
  "publish p ws name raw expected mission attempt =
     abind (check_publish ws name raw expected) (\<lambda>(file, previous).
     abind (store_object raw) (\<lambda>digest.
     abind (file_for ws name file) (\<lambda>fid.
     abind (new_id ''v'') (\<lambda>vid.
     abind stamp_now (\<lambda>stamp.
     abind (insert_version \<lparr>v_id = vid, v_file = fid,
              v_number = (case previous of None \<Rightarrow> 1 | Some v \<Rightarrow> v_number v + 1), v_size = int (length raw),
              v_sha = digest, v_created = stamp, v_mission = mission, v_attempt = attempt\<rparr>) (\<lambda>_.
     abind (audit p ws mission ''file_published'' [(''file_id'', VStr fid), (''version_id'', VStr vid)]) (\<lambda>_.
     ret (vid, published_dict fid vid digest raw))))))))"

definition upload_fields :: "string list" where
  "upload_fields = ''operation_id'' # output_fields"

definition upload :: "principal \<Rightarrow> string \<Rightarrow> val \<Rightarrow> val app" where
  "upload p ws data =
     abind (lift (require_role p ''admin'')) (\<lambda>_.
     abind (lift (dict_fields data upload_fields [])) (\<lambda>d.
     abind (gets (\<lambda>w. output_data (w_sha w) (VDict (pop_key ''operation_id'' d)) (max_file_bytes (w_settings w)))) (\<lambda>out.
     abind (lift out) (\<lambda>(name, raw).
     operate p (get_or_none d ''operation_id'') (''upload:'' @ ws) data
       (abind (workspace_access p ws) (\<lambda>_.
        abind (publish p ws name raw (as_str (get_or_none d ''expected_version'')) None None) (\<lambda>(_, r).
        ret (VDict r)))) ''admin''))))"

definition worker_limit :: "worker_row \<Rightarrow> string \<Rightarrow> int res" where
  "worker_limit k f =
     rbind (present (as_dict (k_limits k)) ''TypeError'') (\<lambda>d.
     rbind (item d f) (\<lambda>v.
     present (as_int v) ''TypeError''))"

definition result_provenance :: "string \<Rightarrow> val" where
  "result_provenance capability =
     (if capability = DEMO
      then VDict [(''simulated'', VBool True), (''capability'', VStr ''demo.report.v1''),
                  (''verification'', VStr ''deterministic_demo_only'')]
      else VDict [(''ai_inference'', VBool False), (''capability'', VStr CPU_DIGEST),
                  (''os_isolation'', VStr ''NOT VERIFIED''), (''simulated'', VBool False),
                  (''verification'', VStr ''worker_reported_cpu_digest'')])"

definition publish_result :: "principal \<Rightarrow> mission_row \<Rightarrow> attempt_row \<Rightarrow> string \<Rightarrow> val \<Rightarrow> dict app" where
  "publish_result p mission attempt capability output =
     abind (lift (require_role p ''worker'')) (\<lambda>_.
     abind (require (identity p = a_worker attempt) ''access_denied'' 403) (\<lambda>_.
     abind (authorize p) (\<lambda>worker.
     abind (lift (worker_limit worker ''max_output_bytes'')) (\<lambda>limit.
     abind (gets (\<lambda>w. output_data (w_sha w) output (min 65536 (min (max_file_bytes (w_settings w)) limit)))) (\<lambda>out.
     abind (lift out) (\<lambda>(name, raw).
     abind (require (name = ''resultat.md''
              \<and> worker_field ''expected_version'' output = opt_str (a_expected attempt)) ''result_contract_mismatch'' 409) (\<lambda>_.
     abind (publish p (m_workspace mission) name raw (a_expected attempt) (Some (m_id mission)) (Some (a_id attempt))) (\<lambda>(vid, published).
     abind (new_id ''r'') (\<lambda>rid.
     abind (insert_result \<lparr>res_id = rid, res_attempt = a_id attempt, res_version = vid,
              res_provenance = result_provenance capability\<rparr>) (\<lambda>_.
     ret published))))))))))"

subsection \<open>Reading\<close>

definition version_view :: "version_row \<Rightarrow> val" where
  "version_view v =
     VDict [(''id'', VStr (v_id v)), (''file_id'', VStr (v_file v)), (''number'', VInt (v_number v)),
            (''size'', VInt (v_size v)), (''sha256'', VStr (v_sha v)), (''created_at'', VStr (v_created v)),
            (''mission_id'', opt_str (v_mission v)), (''attempt_id'', opt_str (v_attempt v))]"

definition file_view :: "database \<Rightarrow> file_row \<Rightarrow> val res" where
  "file_view d f =
     rbind (present (latest d (f_id f)) ''IndexError'') (\<lambda>current.
     Inr (VDict [(''id'', VStr (f_id f)), (''name'', VStr (f_name f)), (''current_version'', VStr (v_id current)),
                 (''versions'', VList (map version_view (versions_of d (f_id f))))]))"

definition files_of :: "database \<Rightarrow> string \<Rightarrow> file_row list" where
  "files_of d ws = sort_key (\<lambda>f. upper_ascii (f_name f)) (filter (\<lambda>f. f_workspace f = ws) (d_files d))"

definition list_files :: "principal \<Rightarrow> string \<Rightarrow> val app" where
  "list_files p ws = transaction (
     abind (workspace_access p ws) (\<lambda>_.
     abind (select (\<lambda>d. collect (file_view d) (files_of d ws))) (\<lambda>r.
     abind (lift r) (\<lambda>files.
     abind (select (\<lambda>d. sum_list (map v_size (concat (map (\<lambda>f. versions_of d (f_id f)) (files_of d ws)))))) (\<lambda>used.
     abind (gets w_settings) (\<lambda>st.
     ret (VDict [(''schema'', schema_of ''workspace-files''), (''workspace_id'', VStr ws), (''files'', VList files),
            (''used_bytes'', VInt used), (''quota_bytes'', VInt (quota_bytes st)),
            (''max_file_bytes'', VInt (max_file_bytes st))])))))))"

definition wanted_version :: "database \<Rightarrow> string \<Rightarrow> string option \<Rightarrow> version_row option" where
  "wanted_version d file version =
     List.find (\<lambda>v. case version of None \<Rightarrow> True | Some i \<Rightarrow> v_id v = i) (versions_of d file)"

definition download :: "principal \<Rightarrow> string \<Rightarrow> val \<Rightarrow> val \<Rightarrow> (string \<times> string \<times> string) app" where
  "download p ws file version =
     abind (lift (identifier_value file)) (\<lambda>fid.
     abind (lift (optional_identifier version)) (\<lambda>_.
     transaction (
       abind (workspace_access p ws) (\<lambda>_.
       abind (select (\<lambda>d. List.find (\<lambda>f. f_id f = fid \<and> f_workspace f = ws) (d_files d))) (\<lambda>row.
       abind (found row ''not_found'' 404) (\<lambda>f.
       abind (select (\<lambda>d. wanted_version d fid (as_str version))) (\<lambda>vrow.
       abind (found vrow ''not_found'' 404) (\<lambda>v.
       abind (require (hex_string 64 (v_sha v)) ''object_corrupted'' 500) (\<lambda>_.
       abind (read_object (v_sha v)) (\<lambda>raw.
       abind (gets (\<lambda>w. w_sha w raw)) (\<lambda>digest.
       abind (require (int (length raw) = v_size v \<and> digest = v_sha v) ''object_corrupted'' 500) (\<lambda>_.
       ret (raw, f_name f, v_sha v)))))))))))))"

subsection \<open>What they write\<close>

lemma reads_read_object [reads_intros]: "reads (read_object digest)"
  unfolding read_object_def by (intro reads_intros)

lemma reads_put_object [reads_intros]: "reads (put_object digest raw)"
  by (simp add: reads_def put_object_def modify_def)

lemma reads_store_object [reads_intros]: "reads (store_object raw)"
  unfolding store_object_def place_object_def by (intro reads_intros)

lemma reads_check_publish [reads_intros]: "reads (check_publish ws name raw expected)"
  unfolding check_publish_def by (intro reads_intros)

lemma frame_file_for [frame_intros]:
  "(\<And>d x. f (d\<lparr>d_files := x\<rparr>) = f d) \<Longrightarrow> preserves f (file_for ws name file)"
  unfolding file_for_def insert_file_def
  by (auto intro!: frame_intros split: option.split)

lemma frame_publish [frame_intros]:
  assumes "\<And>d x. f (d\<lparr>d_files := x\<rparr>) = f d" "\<And>d x. f (d\<lparr>d_versions := x\<rparr>) = f d" "\<And>d x. f (d\<lparr>d_events := x\<rparr>) = f d"
  shows "preserves f (publish p ws name raw expected m a)"
  unfolding publish_def insert_version_def split_beta
  by (intro frame_intros frame_reads [OF reads_check_publish] frame_reads [OF reads_store_object] assms)

lemma frame_publish_result [frame_intros]:
  assumes "\<And>d x. f (d\<lparr>d_files := x\<rparr>) = f d" "\<And>d x. f (d\<lparr>d_versions := x\<rparr>) = f d" "\<And>d x. f (d\<lparr>d_events := x\<rparr>) = f d"
    "\<And>d x. f (d\<lparr>d_results := x\<rparr>) = f d"
  shows "preserves f (publish_result p m a c out)"
  unfolding publish_result_def insert_result_def split_beta
  by (intro frame_intros frame_reads [OF reads_authorize] assms)

subsection \<open>The object store is content addressed\<close>

definition well_stored :: "world \<Rightarrow> bool" where
  "well_stored w \<longleftrightarrow> (\<forall>(digest, raw)\<in>set (w_objects w). digest = w_sha w raw)"

text \<open>What stays of a world's environment; the object files only grow.\<close>

definition same_env :: "world \<Rightarrow> world \<Rightarrow> bool" where
  "same_env w w' \<longleftrightarrow> w_sha w' = w_sha w \<and> w_settings w' = w_settings w \<and> w_clock w' = w_clock w \<and> w_frepr w' = w_frepr w"

lemma same_env_refl [simp]: "same_env w w"
  by (simp add: same_env_def)

lemma store_object_Inr:
  assumes "store_object raw w = (Inr digest, w')"
  shows "digest = w_sha w raw \<and> map_of (w_objects w') digest = Some raw \<and> db w' = db w \<and> same_env w w'
    \<and> int (length raw) \<le> max_file_bytes (w_settings w)
    \<and> (w_objects w' = w_objects w \<or> map_of (w_objects w) digest = None \<and> w_objects w' = w_objects w @ [(digest, raw)])"
  using assms
  by (auto simp: store_object_def place_object_def read_object_def put_object_def abind_Inr act_defs new_id_def
      same_env_def split: if_splits)

subsection \<open>Publishing a version\<close>

definition next_version_number :: "version_row option \<Rightarrow> int" where
  "next_version_number previous = (case previous of None \<Rightarrow> 1 | Some v \<Rightarrow> v_number v + 1)"

lemma check_publish_Inr:
  assumes "check_publish ws name raw expected w = (Inr (file, previous), w')"
  shows "w' = w \<and> file = file_by_name (db w) ws name \<and> previous = previous_version (db w) file
    \<and> expected = map_option v_id previous
    \<and> used_bytes (db w) ws + int (length raw) \<le> quota_bytes (w_settings w)
    \<and> (file = None \<longrightarrow> length (filter (\<lambda>f. f_workspace f = ws) (d_files (db w))) < 100)
    \<and> (\<forall>v. previous = Some v \<longrightarrow> v_number v < 100)"
  using assms by (auto simp: check_publish_def abind_Inr act_defs split: if_splits)

lemma file_for_Inr:
  assumes "file_for ws name file w = (Inr fid, w')"
  shows "same_env w w' \<and> w_objects w' = w_objects w \<and>
    (case file of Some f \<Rightarrow> fid = f_id f \<and> db w' = db w
     | None \<Rightarrow> fid \<notin> set (map f_id (d_files (db w)))
        \<and> db w' = (db w)\<lparr>d_files := d_files (db w) @ [\<lparr>f_id = fid, f_workspace = ws, f_name = name\<rparr>]\<rparr>)"
  using assms
  by (auto simp: file_for_def abind_Inr act_defs new_id_def insert_file_def insert_checked_Inr same_env_def
      split: option.splits)

definition files_after :: "database \<Rightarrow> string \<Rightarrow> string \<Rightarrow> string \<Rightarrow> file_row list" where
  "files_after d ws name fid =
     (if file_by_name d ws name = None then d_files d @ [\<lparr>f_id = fid, f_workspace = ws, f_name = name\<rparr>] else d_files d)"

lemma publish_Inr:
  assumes "publish p ws name raw expected m a w = (Inr (vid, out), w')"
  shows "\<exists>fid v e. let d = db w; previous = previous_version d (file_by_name d ws name) in
      db w' = d\<lparr>d_files := files_after d ws name fid, d_versions := d_versions d @ [v], d_events := d_events d @ [e]\<rparr>
    \<and> (case file_by_name d ws name of Some f \<Rightarrow> fid = f_id f | None \<Rightarrow> fid \<notin> set (map f_id (d_files d)))
    \<and> fid \<in> set (map f_id (files_after d ws name fid))
    \<and> v_id v = vid \<and> v_file v = fid \<and> v_number v = next_version_number previous \<and> v_size v = int (length raw)
    \<and> v_sha v = w_sha w raw \<and> v_mission v = m \<and> v_attempt v = a \<and> vid \<notin> set (map v_id (d_versions d))
    \<and> e_seq e = next_sequence d \<and> e_type e = ''file_published'' \<and> e_mission e = m
    \<and> expected = map_option v_id previous
    \<and> used_bytes d ws + int (length raw) \<le> quota_bytes (w_settings w)
    \<and> (\<forall>u. previous = Some u \<longrightarrow> v_number u < 100)
    \<and> map_of (w_objects w') (w_sha w raw) = Some raw \<and> int (length raw) \<le> max_file_bytes (w_settings w)
    \<and> out = published_dict fid vid (w_sha w raw) raw"
proof -
  let ?d = "db w"
  let ?file = "file_by_name ?d ws name"
  let ?previous = "previous_version ?d ?file"
  from assms obtain fl previous w1 digest w2 fid w3 w4 stamp w5 w6 where
    chk0: "check_publish ws name raw expected w = (Inr (fl, previous), w1)"
    and st: "store_object raw w1 = (Inr digest, w2)" and ff0: "file_for ws name fl w2 = (Inr fid, w3)"
    and ni: "new_id ''v'' w3 = (Inr vid, w4)" and tm: "stamp_now w4 = (Inr stamp, w5)"
    and iv0: "insert_version \<lparr>v_id = vid, v_file = fid, v_number = next_version_number previous,
       v_size = int (length raw), v_sha = digest, v_created = stamp, v_mission = m, v_attempt = a\<rparr> w5 = (Inr (), w6)"
    and au: "audit p ws m ''file_published'' [(''file_id'', VStr fid), (''version_id'', VStr vid)] w6 = (Inr (), w')"
    and out: "out = published_dict fid vid digest raw"
    unfolding publish_def next_version_number_def [symmetric]
    by (auto simp: abind_Inr act_defs)
  from check_publish_Inr [OF chk0] have fp: "fl = ?file" "previous = ?previous" by auto
  note chk = chk0 [unfolded fp] and ff = ff0 [unfolded fp] and iv = iv0 [unfolded fp]
  let ?v = "\<lparr>v_id = vid, v_file = fid, v_number = next_version_number ?previous,
       v_size = int (length raw), v_sha = digest, v_created = stamp, v_mission = m, v_attempt = a\<rparr>"
  note C = check_publish_Inr [OF chk]
  note S = store_object_Inr [OF st]
  note F = file_for_Inr [OF ff]
  have d5: "db w5 = db w3" "w_objects w5 = w_objects w3"
    using ni tm by (auto simp: new_id_def stamp_now_def clock_now_def abind_Inr lift_def)
  have V: "db w6 = (db w5)\<lparr>d_versions := d_versions (db w5) @ [?v]\<rparr>" "w_objects w6 = w_objects w5"
    "vid \<notin> set (map v_id (d_versions (db w5)))" "fid \<in> set (map f_id (d_files (db w5)))"
    using iv by (auto simp: insert_version_def insert_checked_Inr)
  from audit_Inr [OF au] obtain e where e: "db w' = (db w6)\<lparr>d_events := d_events (db w6) @ [e]\<rparr>"
    "e_mission e = m" "e_type e = ''file_published''" "e_seq e = next_sequence (db w6)" by blast
  have ob: "w_objects w' = w_objects w6"
    using au by (auto simp: audit_def abind_Inr act_defs new_id_def stamp_now_def clock_now_def insert_event_def insert_checked_Inr)
  have d3: "db w3 = ?d\<lparr>d_files := files_after ?d ws name fid\<rparr>"
    using F C S by (auto simp: files_after_def split: option.splits)
  show ?thesis
    using C S F V e ob out d3 d5
    by (intro exI [of _ fid] exI [of _ ?v] exI [of _ e]) (auto simp: Let_def next_sequence_def split: option.splits)
qed

end
