(* ===== verification/Execution.thy ===== *)
theory Execution
  imports Workspace
begin

section \<open>control_plane/execution.py: the task and attempt manager\<close>

text \<open>
  Fencing of lost or expired attempts (\<open>_fence\<close>), the operator's commands \<open>approve\<close>, \<open>cancel\<close> and
  \<open>retry\<close>, and the worker's side: \<open>claim\<close>, \<open>finish\<close>, \<open>state\<close>. The coordinator is the parameter the
  constructor takes; \<open>coordinator_plan\<close> of \<open>Contracts\<close> is its default. An SQL \<open>UPDATE\<close> is an
  \<open>update_where\<close> of the table, a \<open>SELECT\<close> a filter of it.
\<close>

definition SYSTEM :: principal where
  "SYSTEM = \<lparr>identity = ''local-system'', role = ''system'', credential_epoch = None\<rparr>"

definition set_attempts :: "(attempt_row \<Rightarrow> bool) \<Rightarrow> (attempt_row \<Rightarrow> attempt_row) \<Rightarrow> database \<Rightarrow> database" where
  "set_attempts P f d = d\<lparr>d_attempts := update_where P f (d_attempts d)\<rparr>"

definition set_tasks :: "(task_row \<Rightarrow> bool) \<Rightarrow> lifecycle \<Rightarrow> database \<Rightarrow> database" where
  "set_tasks P s d = d\<lparr>d_tasks := update_where P (\<lambda>t. t\<lparr>t_state := s\<rparr>) (d_tasks d)\<rparr>"

subsection \<open>Fencing\<close>

definition fence_rows :: "string option \<Rightarrow> database \<Rightarrow> (attempt_row \<times> task_row) list" where
  "fence_rows worker d =
     concat (map (\<lambda>a. map (Pair a) (filter (\<lambda>t. t_id t = a_task a) (d_tasks d)))
       (filter (\<lambda>a. active (a_state a) \<and> (worker = None \<or> worker = Some (a_worker a))) (d_attempts d)))"

definition fence_due :: "bool \<Rightarrow> rat \<Rightarrow> bool app" where
  "fence_due expired_only deadline =
     (if expired_only then abind clock_now (\<lambda>now. ret (\<not> now < deadline)) else ret True)"

definition interrupt :: "string \<Rightarrow> attempt_row \<Rightarrow> task_row \<Rightarrow> unit app" where
  "interrupt reason a t =
     abind (execute (set_attempts (\<lambda>x. a_id x = a_id a) (\<lambda>x. x\<lparr>a_state := Interrupted, a_error := Some reason\<rparr>))) (\<lambda>_.
     abind (execute (set_tasks (\<lambda>x. t_id x = a_task a) Interrupted)) (\<lambda>_.
     abind (select (\<lambda>d. mission_by_id d (t_mission t))) (\<lambda>mission.
     abind (lift (present mission ''TypeError'')) (\<lambda>m.
     abind (transition SYSTEM m Interrupted (Some reason)) (\<lambda>_. ret ())))))"

definition fence :: "string \<Rightarrow> bool \<Rightarrow> string option \<Rightarrow> unit app" where
  "fence reason expired_only worker =
     abind (select (fence_rows worker)) (\<lambda>rows.
     foreach (\<lambda>(a, t). abind (fence_due expired_only (a_deadline a)) (\<lambda>due.
                if due then interrupt reason a t else ret ())) rows)"

definition recover :: "unit app" where
  "recover = transaction (fence ''backend_restart'' False None)"

definition expire :: "unit app" where
  "expire = transaction (fence ''attempt_expired'' True None)"

subsection \<open>Operator commands\<close>

type_synonym coordinator = "dict \<Rightarrow> val list \<Rightarrow> val res"

definition plan_fields :: "string list" where
  "plan_fields = [''schema'', ''simulated'', ''role'', ''capability'', ''worker_id'', ''instruction'', ''outputs'']"

definition valid_plan :: "string \<Rightarrow> dict \<Rightarrow> val list \<Rightarrow> dict \<Rightarrow> bool" where
  "valid_plan capability expected workers plan =
     (get_or_none plan ''schema'' = schema_of ''plan''
      \<and> get_or_none plan ''capability'' = VStr capability
      \<and> list_all (\<lambda>(k, v). get_or_none plan k = v) expected
      \<and> get_or_none plan ''outputs'' = VList [VStr ''resultat.md'']
      \<and> list_ex (\<lambda>w. worker_field ''id'' w = get_or_none plan ''worker_id'' \<and> declares capability w) workers)"

definition task_of_plan :: "string \<Rightarrow> string \<Rightarrow> dict \<Rightarrow> task_row res" where
  "task_of_plan tid mission plan =
     rbind (present (as_str (get_or_none plan ''role'')) ''InterfaceError'') (\<lambda>rl.
     rbind (present (as_str (get_or_none plan ''capability'')) ''InterfaceError'') (\<lambda>capability.
     rbind (present (as_str (get_or_none plan ''worker_id'')) ''InterfaceError'') (\<lambda>worker.
     Inr \<lparr>t_id = tid, t_mission = mission, t_role = rl, t_capability = capability, t_worker = worker,
          t_state = Queued, t_plan = VDict plan\<rparr>)))"

definition checked_plan :: "coordinator \<Rightarrow> mission_row \<Rightarrow> dict app" where
  "checked_plan coord mission =
     abind (select (list_workers True)) (\<lambda>workers.
     abind (view_of mission) (\<lambda>v.
     abind (lift (coord v workers)) (\<lambda>proposal.
     abind (lift (dict_fields proposal plan_fields [])) (\<lambda>plan.
     abind (select (\<lambda>d. required_capability d (m_id mission))) (\<lambda>r.
     abind (lift r) (\<lambda>capability.
     abind (lift (spec_of capability)) (\<lambda>expected.
     abind (require (valid_plan capability expected workers plan) ''invalid_plan'' 409) (\<lambda>_.
     ret plan))))))))"

definition approve_effect :: "coordinator \<Rightarrow> principal \<Rightarrow> string \<Rightarrow> val app" where
  "approve_effect coord p i =
     abind (fetch_mission p i) (\<lambda>mission.
     abind (require (m_state mission = Draft) ''invalid_transition'' 409) (\<lambda>_.
     abind (checked_plan coord mission) (\<lambda>plan.
     abind (transition p mission Approved None) (\<lambda>mission.
     abind (new_id ''t'') (\<lambda>tid.
     abind (lift (task_of_plan tid i plan)) (\<lambda>task.
     abind (insert_task task) (\<lambda>_.
     abind (transition p mission Queued None) (\<lambda>mission.
     abind (view_of mission) (\<lambda>v. ret (VDict v))))))))))"

definition approve :: "coordinator \<Rightarrow> principal \<Rightarrow> string \<Rightarrow> val \<Rightarrow> val app" where
  "approve coord p i data =
     abind (lift (dict_fields data [''operation_id''] [])) (\<lambda>d.
     operate p (get_or_none d ''operation_id'') (''approve:'' @ i) data (approve_effect coord p i) ''admin'')"

definition cancel_effect :: "principal \<Rightarrow> string \<Rightarrow> val app" where
  "cancel_effect p i =
     abind (fetch_mission p i) (\<lambda>mission.
     if m_state mission = CancelRequested then abind (view_of mission) (\<lambda>v. ret (VDict v))
     else (let target = (if m_state mission = Running then CancelRequested else Cancelled) in
       abind (transition p mission target None) (\<lambda>mission.
       abind (execute (set_tasks (\<lambda>t. t_mission t = i) target)) (\<lambda>_.
       abind (execute (\<lambda>d. set_attempts (\<lambda>a. a_task a \<in> set (map t_id (tasks_of d i)) \<and> a_state a = Running)
                             (\<lambda>a. a\<lparr>a_state := target\<rparr>) d)) (\<lambda>_.
       abind (view_of mission) (\<lambda>v. ret (VDict v)))))))"

definition cancel :: "principal \<Rightarrow> string \<Rightarrow> val \<Rightarrow> val app" where
  "cancel p i data =
     abind (lift (require_role p ''admin'')) (\<lambda>_.
     abind (lift (dict_fields data [''operation_id''] [])) (\<lambda>d.
     abind expire (\<lambda>_.
     operate p (get_or_none d ''operation_id'') (''cancel:'' @ i) data (cancel_effect p i) ''admin'')))"

definition retry_effect :: "principal \<Rightarrow> string \<Rightarrow> val app" where
  "retry_effect p i =
     abind (fetch_mission p i) (\<lambda>mission.
     abind (require (m_state mission \<in> {Failed, Interrupted}) ''invalid_transition'' 409) (\<lambda>_.
     abind (transition p mission Queued (Some ''explicit_retry'')) (\<lambda>mission.
     abind (execute (set_tasks (\<lambda>t. t_mission t = i) Queued)) (\<lambda>_.
     abind (view_of mission) (\<lambda>v. ret (VDict v))))))"

definition retry :: "principal \<Rightarrow> string \<Rightarrow> val \<Rightarrow> val app" where
  "retry p i data =
     abind (lift (require_role p ''admin'')) (\<lambda>_.
     abind (lift (dict_fields data [''operation_id''] [])) (\<lambda>d.
     abind expire (\<lambda>_.
     operate p (get_or_none d ''operation_id'') (''retry:'' @ i) data (retry_effect p i) ''admin'')))"

subsection \<open>Claiming work\<close>

definition busy :: "database \<Rightarrow> string \<Rightarrow> bool" where
  "busy d worker = list_ex (\<lambda>a. a_worker a = worker \<and> active (a_state a)) (d_attempts d)"

definition next_task :: "database \<Rightarrow> string \<Rightarrow> task_row option" where
  "next_task d worker =
     List.find (\<lambda>_. True) (concat (map
       (\<lambda>m. filter (\<lambda>t. t_mission t = m_id m \<and> t_state t = Queued \<and> t_worker t = worker) (d_tasks d))
       (sort_key (\<lambda>m. (m_created m, m_id m)) (filter (\<lambda>m. m_state m = Queued) (d_missions d)))))"

definition next_number :: "database \<Rightarrow> string \<Rightarrow> int" where
  "next_number d task =
     (let ns = map a_number (filter (\<lambda>a. a_task a = task) (d_attempts d))
      in (if ns = [] then 0 else Max (set ns)) + 1)"

definition no_request :: val where "no_request = VDict [(''request'', VNull)]"

definition request_dict :: "mission_row \<Rightarrow> val \<Rightarrow> attempt_row \<Rightarrow> val \<Rightarrow> val" where
  "request_dict mission tview a authorized =
     VDict [(''request'', VDict [(''schema'', schema_of ''execution-request''), (''attempt_id'', VStr (a_id a)),
       (''generation'', VStr (a_generation a)), (''task'', tview),
       (''mission'', VDict [(''id'', VStr (m_id mission)), (''title'', VStr (m_title mission)),
                            (''objective'', VStr (m_objective mission))]),
       (''authorized_files'', authorized), (''started_at'', VStr (a_started a)),
       (''deadline'', VFloat (Fin (a_deadline a))), (''expected_version'', opt_str (a_expected a))])]"

definition new_attempt :: "principal \<Rightarrow> worker_row \<Rightarrow> task_row \<Rightarrow> mission_row \<Rightarrow> attempt_row app" where
  "new_attempt p worker task mission =
     abind (select (\<lambda>d. previous_version d (file_by_name d (m_workspace mission) ''resultat.md''))) (\<lambda>current.
     abind (new_id ''a'') (\<lambda>i.
     abind (new_id ''g'') (\<lambda>generation.
     abind (select (\<lambda>d. next_number d (t_id task))) (\<lambda>number.
     abind clock_now (\<lambda>now.
     abind (lift (timestamp (VFloat (Fin now)))) (\<lambda>started.
     abind (lift (worker_limit worker ''lease_seconds'')) (\<lambda>lease.
     abind (gets (\<lambda>w. attempt_seconds (w_settings w))) (\<lambda>secs.
     ret \<lparr>a_id = i, a_task = t_id task, a_number = number, a_worker = identity p, a_state = Running,
          a_generation = generation, a_started = started, a_deadline = now + of_int (min secs lease),
          a_expected = map_option v_id current, a_result = None, a_error = None\<rparr>))))))))"

definition start_attempt :: "principal \<Rightarrow> worker_row \<Rightarrow> task_row \<Rightarrow> val app" where
  "start_attempt p worker task =
     abind (select (\<lambda>d. mission_by_id d (t_mission task))) (\<lambda>row.
     abind (lift (present row ''TypeError'')) (\<lambda>mission.
     abind (new_attempt p worker task mission) (\<lambda>a.
     abind (insert_attempt a) (\<lambda>_.
     abind (lift (present (credential_epoch p) ''IntegrityError'')) (\<lambda>epoch.
     abind (insert_epoch (a_id a) epoch) (\<lambda>_.
     abind (execute (set_tasks (\<lambda>t. t_id t = t_id task) Running)) (\<lambda>_.
     abind (transition p mission Running None) (\<lambda>_.
     abind (audit p (m_workspace mission) (Some (m_id mission)) ''attempt_started''
             [(''attempt_id'', VStr (a_id a)), (''task_id'', VStr (t_id task)), (''worker_id'', VStr (identity p))]) (\<lambda>_.
     abind (lift (task_view (task\<lparr>t_state := Running\<rparr>))) (\<lambda>tview.
     abind (view_of mission) (\<lambda>v.
     ret (request_dict mission tview a (get_or_none v ''authorized_files'')))))))))))))"

definition claim_effect :: "principal \<Rightarrow> val app" where
  "claim_effect p =
     abind (authorize p) (\<lambda>worker.
     abind (fence ''attempt_expired'' True None) (\<lambda>_.
     abind (select (\<lambda>d. busy d (identity p))) (\<lambda>occupied.
     if occupied then ret no_request
     else abind (select (\<lambda>d. next_task d (identity p))) (\<lambda>task.
       case task of None \<Rightarrow> ret no_request | Some t \<Rightarrow> start_attempt p worker t))))"

definition claim :: "principal \<Rightarrow> val \<Rightarrow> val app" where
  "claim p data =
     abind (lift (require_role p ''worker'')) (\<lambda>_.
     abind (lift (dict_fields data [''operation_id''] [])) (\<lambda>d.
     operate p (get_or_none d ''operation_id'') ''claim'' data (claim_effect p) ''worker''))"

subsection \<open>Finishing an attempt\<close>

definition attempt_of_worker :: "database \<Rightarrow> string \<Rightarrow> string \<Rightarrow> (attempt_row \<times> task_row) option" where
  "attempt_of_worker d i worker =
     List.find (\<lambda>_. True) (concat (map (\<lambda>a. map (Pair a) (filter (\<lambda>t. t_id t = a_task a) (d_tasks d)))
       (filter (\<lambda>a. a_id a = i \<and> a_worker a = worker) (d_attempts d))))"

definition check_epoch :: "principal \<Rightarrow> string \<Rightarrow> unit app" where
  "check_epoch p i =
     abind (select (\<lambda>d. map_of (d_epochs d) i)) (\<lambda>epoch.
     require (epoch \<noteq> None \<and> epoch = credential_epoch p) ''stale_attempt'' 409)"

definition check_state :: "attempt_row \<Rightarrow> mission_row \<Rightarrow> execution_result \<Rightarrow> unit res" where
  "check_state a mission r =
     rbind (ensure (active (a_state a)) ''stale_attempt'' 409) (\<lambda>_.
     if m_state mission = CancelRequested
     then ensure (r_status r = Cancelled \<and> r_outputs r = [] \<and> r_error r = None) ''cancellation_pending'' 409
     else ensure (r_status r \<noteq> Cancelled) ''invalid_transition'' 409)"

definition failure_codes :: "string \<Rightarrow> lifecycle \<Rightarrow> string option list" where
  "failure_codes capability s =
     (if s = Cancelled then [None]
      else if capability = DEMO
      then (if s = Failed then [Some ''simulated_failure''] else [Some ''simulated_interruption''])
      else (if s = Failed then [Some ''cpu_execution_failed'']
            else [Some ''cpu_interrupted'', Some ''cpu_deadline_exceeded'']))"

definition accept_outputs :: "principal \<Rightarrow> mission_row \<Rightarrow> attempt_row \<Rightarrow> string \<Rightarrow> execution_result \<Rightarrow> unit app" where
  "accept_outputs p mission a capability r =
     (if r_status r = Completed
      then abind (require (r_error r = None) ''invalid_outputs'' 400) (\<lambda>_.
           abind (found (case r_outputs r of [x] \<Rightarrow> Some x | _ \<Rightarrow> None) ''invalid_outputs'' 400) (\<lambda>out.
           abind (publish_result p mission a capability out) (\<lambda>_. ret ())))
      else require (r_outputs r = [] \<and> r_error r \<in> set (failure_codes capability (r_status r)))
             ''invalid_failure_result'' 400)"

definition accepted :: "bool \<Rightarrow> string \<Rightarrow> val" where
  "accepted duplicate mission =
     VDict [(''accepted'', VBool True), (''duplicate'', VBool duplicate), (''mission_id'', VStr mission)]"

definition record_result :: "principal \<Rightarrow> attempt_row \<Rightarrow> task_row \<Rightarrow> execution_result \<Rightarrow> string \<Rightarrow> val app" where
  "record_result p a t r content_hash =
     abind (select (\<lambda>d. mission_by_id d (t_mission t))) (\<lambda>row.
     abind (lift (present row ''TypeError'')) (\<lambda>mission.
     abind (lift (check_state a mission r)) (\<lambda>_.
     abind (accept_outputs p mission a (t_capability t) r) (\<lambda>_.
     abind clock_now (\<lambda>now.
     abind (require (now < a_deadline a) ''stale_attempt'' 409) (\<lambda>_.
     abind (execute (set_attempts (\<lambda>x. a_id x = a_id a)
             (\<lambda>x. x\<lparr>a_state := r_status r, a_result := Some content_hash, a_error := r_error r\<rparr>))) (\<lambda>_.
     abind (execute (set_tasks (\<lambda>x. t_id x = a_task a) (r_status r))) (\<lambda>_.
     abind (transition p mission (r_status r) None) (\<lambda>_.
     ret (accepted False (m_id mission)))))))))))"

definition finish_body :: "principal \<Rightarrow> string \<Rightarrow> execution_result \<Rightarrow> string \<Rightarrow> val app" where
  "finish_body p i r content_hash =
     abind (authorize p) (\<lambda>_.
     abind (select (\<lambda>d. attempt_of_worker d i (identity p))) (\<lambda>row.
     abind (found row ''not_found'' 404) (\<lambda>(a, t).
     abind (require (a_generation a = r_generation r) ''stale_attempt'' 409) (\<lambda>_.
     abind (check_epoch p i) (\<lambda>_.
     if a_result a \<noteq> None
     then abind (require (a_result a = Some content_hash) ''result_conflict'' 409) (\<lambda>_.
          ret (accepted True (t_mission t)))
     else record_result p a t r content_hash)))))"

definition result_hash :: "execution_result \<Rightarrow> string app" where
  "result_hash r =
     abind (gets (\<lambda>w. canon (w_frepr w) (result_to_dict r))) (\<lambda>c.
     abind (lift c) (\<lambda>s. gets (\<lambda>w. w_sha w (utf8 s))))"

definition finish :: "principal \<Rightarrow> string \<Rightarrow> execution_result \<Rightarrow> val app" where
  "finish p i r0 =
     abind (lift (require_role p ''worker'')) (\<lambda>_.
     abind (lift (result_from_dict (result_to_dict r0))) (\<lambda>r.
     abind (lift (identifier_value (VStr i))) (\<lambda>_.
     abind (require (r_attempt r = i) ''attempt_mismatch'' 409) (\<lambda>_.
     abind expire (\<lambda>_.
     abind (result_hash r) (\<lambda>h.
     transaction (finish_body p i r h)))))))"

subsection \<open>Read models\<close>

definition node_entry :: "database \<Rightarrow> worker_row \<Rightarrow> val" where
  "node_entry d k =
     (let simulated = (worker_field ''simulated'' (public_worker k) = VBool True);
          verified = length (filter (\<lambda>r. list_ex (\<lambda>a. a_id a = res_attempt r \<and> a_worker a = k_id k) (d_attempts d))
                       (d_results d));
          state = (if k_status k = Revoked then ''revoked''
                   else if busy d (k_id k) then (if simulated then ''simulated_busy'' else ''cpu_busy'')
                   else ''manual_idle'')
      in VDict ((case as_dict (public_worker k) of Some e \<Rightarrow> e | None \<Rightarrow> [])
           @ [(''state'', VStr state),
              (''verified_simulated_executions'', VInt (if simulated then int verified else 0)),
              (''online_verified'', VBool False)]
           @ (if simulated then [] else [(''accepted_cpu_results'', VInt (int verified))])))"

definition nodes :: "principal \<Rightarrow> val list app" where
  "nodes p =
     abind (lift (require_role p ''admin'')) (\<lambda>_.
     abind expire (\<lambda>_.
     transaction (select (\<lambda>d. map (node_entry d) (sort_key (\<lambda>r. (k_created r, k_id r)) (d_workers d))))))"

definition attempt_state :: "principal \<Rightarrow> string \<Rightarrow> val app" where
  "attempt_state p i =
     abind (lift (require_role p ''worker'')) (\<lambda>_.
     abind (lift (identifier_value (VStr i))) (\<lambda>_.
     abind expire (\<lambda>_.
     transaction (
       abind (authorize p) (\<lambda>_.
       abind (select (\<lambda>d. List.find (\<lambda>a. a_id a = i \<and> a_worker a = identity p) (d_attempts d))) (\<lambda>row.
       abind (found row ''not_found'' 404) (\<lambda>a.
       abind (check_epoch p i) (\<lambda>_.
       ret (VDict [(''schema'', schema_of ''attempt-state''), (''state'', VStr (state_name (a_state a))),
                   (''deadline'', VFloat (Fin (a_deadline a)))]))))))))) "

end
