(* ===== verification/Missions.thy ===== *)
theory Missions
  imports Execution
begin

section \<open>control_plane/service.py: mission commands and read models\<close>

text \<open>
  The public methods of \<open>ControlPlane\<close>: creation of demo and CPU missions, the lists and the
  dashboard, and the revocation of a worker, which fences its attempts in the same transaction.
  Where SQL leaves the choice of a \<open>LIMIT 1\<close> row open, the model takes the first in table order.
\<close>

definition create_fields :: "string list" where
  "create_fields = [''operation_id'', ''title'', ''objective'', ''workspace_id'']"

definition reference_list :: "val \<Rightarrow> string list res" where
  "reference_list v =
     rbind (expect (as_list v) ''invalid_file_references'' 400) (\<lambda>refs.
     rbind (ensure (length refs \<le> 32) ''invalid_file_references'' 400) (\<lambda>_.
     rbind (collect identifier_value refs) (\<lambda>ids.
     rbind (ensure (distinct ids) ''invalid_file_references'' 400) (\<lambda>_.
     Inr ids))))"

definition has_version :: "database \<Rightarrow> string \<Rightarrow> string \<Rightarrow> bool" where
  "has_version d ws i = list_ex (\<lambda>v. v_id v = i) (workspace_versions d ws)"

definition create_effect :: "principal \<Rightarrow> string \<Rightarrow> string \<Rightarrow> string \<Rightarrow> string \<Rightarrow> string list \<Rightarrow> val app" where
  "create_effect p capability title objective ws refs =
     abind (workspace_access p ws) (\<lambda>workspace.
     abind (select (\<lambda>d. list_all (has_version d (ws_id workspace)) refs)) (\<lambda>known.
     abind (require known ''not_found'' 404) (\<lambda>_.
     abind (new_id ''m'') (\<lambda>i.
     abind stamp_now (\<lambda>stamp.
     abind (insert_mission \<lparr>m_id = i, m_owner = identity p, m_project = ws_project workspace,
              m_workspace = ws_id workspace, m_title = title, m_objective = objective, m_state = Draft,
              m_created = stamp, m_files = refs\<rparr>) (\<lambda>_.
     abind (audit p (ws_id workspace) (Some i) ''mission_created'' [(''state'', VStr ''draft'')]) (\<lambda>_.
     abind (if capability \<noteq> DEMO
            then audit p (ws_id workspace) (Some i) ''mission_execution_contract_v1''
                   [(''capability'', VStr capability)]
            else ret ()) (\<lambda>_.
     abind (fetch_mission p i) (\<lambda>row.
     abind (view_of row) (\<lambda>v. ret (VDict v)))))))))))"

definition create_with :: "principal \<Rightarrow> val \<Rightarrow> string \<Rightarrow> val app" where
  "create_with p data capability =
     abind (lift (dict_fields data create_fields [''authorized_files''])) (\<lambda>d.
     abind (lift (text_value (get_or_none d ''title'') 160)) (\<lambda>title.
     abind (lift (text_value (get_or_none d ''objective'') 4000)) (\<lambda>objective.
     abind (lift (identifier_value (get_or_none d ''workspace_id''))) (\<lambda>ws.
     abind (lift (reference_list (case map_of d ''authorized_files'' of None \<Rightarrow> VList [] | Some v \<Rightarrow> v))) (\<lambda>refs.
     abind (require (\<not> (capability = CPU_DIGEST \<and> refs \<noteq> [])) ''unsupported_cpu_inputs'' 400) (\<lambda>_.
     operate p (get_or_none d ''operation_id'')
       (if capability = DEMO then ''create_mission'' else ''create_cpu_mission'') data
       (create_effect p capability title objective ws refs) ''admin''))))))"

definition create_mission :: "principal \<Rightarrow> val \<Rightarrow> val app" where
  "create_mission p data = create_with p data DEMO"

definition create_cpu_mission :: "principal \<Rightarrow> val \<Rightarrow> val app" where
  "create_cpu_mission p data = create_with p data CPU_DIGEST"

definition workspaces :: "principal \<Rightarrow> val list app" where
  "workspaces p =
     abind (lift (require_role p ''admin'')) (\<lambda>_.
     transaction (select (\<lambda>d. map (\<lambda>r. workspace_reference (ws_id r) (ws_project r))
       (filter (\<lambda>r. ws_owner r = identity p) (d_workspaces d)))))"

definition get_mission :: "principal \<Rightarrow> string \<Rightarrow> val app" where
  "get_mission p i =
     abind (lift (require_role p ''admin'')) (\<lambda>_.
     abind expire (\<lambda>_.
     transaction (abind (fetch_mission p i) (\<lambda>row. abind (view_of row) (\<lambda>v. ret (VDict v))))))"

definition newest_missions :: "database \<Rightarrow> string \<Rightarrow> mission_row list" where
  "newest_missions d owner =
     take 200 (rev (sort_key (\<lambda>m. (m_created m, m_id m)) (filter (\<lambda>m. m_owner m = owner) (d_missions d))))"

definition list_missions :: "principal \<Rightarrow> val list app" where
  "list_missions p =
     abind (lift (require_role p ''admin'')) (\<lambda>_.
     abind expire (\<lambda>_.
     transaction (
       abind (select (\<lambda>d. newest_missions d (identity p))) (\<lambda>rows.
       mapA (\<lambda>row. abind (view_of row) (\<lambda>v. ret (VDict v))) rows))))"

definition event_view :: "event_row \<Rightarrow> val" where
  "event_view e = audit_event_dict (e_id e) (e_seq e) (e_mission e) (e_workspace e) (e_actor e) (e_at e)
     (e_type e) (VDict (e_details e))"

definition events :: "principal \<Rightarrow> string \<Rightarrow> val list app" where
  "events p i = transaction (
     abind (fetch_mission p i) (\<lambda>_.
     select (\<lambda>d. map event_view (sort_key e_seq (filter (\<lambda>e. e_mission e = Some i) (d_events d))))))"

definition cpu_present :: "database \<Rightarrow> string \<Rightarrow> bool" where
  "cpu_present d owner =
     list_ex (\<lambda>e. e_type e = CONTRACT_EVENT
       \<and> list_ex (\<lambda>m. e_mission e = Some (m_id m) \<and> m_owner m = owner) (d_missions d)) (d_events d)"

definition count_state :: "database \<Rightarrow> string \<Rightarrow> lifecycle \<Rightarrow> int" where
  "count_state d owner s = int (length (filter (\<lambda>m. m_owner m = owner \<and> m_state m = s) (d_missions d)))"

definition active_summary :: "database \<Rightarrow> string \<Rightarrow> val res" where
  "active_summary d owner =
     (case List.find (\<lambda>m. m_owner m = owner \<and> active (m_state m)) (d_missions d) of
        None \<Rightarrow> Inr VNull
      | Some m \<Rightarrow>
          rbind (required_capability d (m_id m)) (\<lambda>capability.
          Inr (VDict ([(''id'', VStr (m_id m)), (''title'', VStr (m_title m)),
                       (''state'', VStr (state_name (m_state m)))]
                 @ (if capability \<noteq> DEMO then [(''required_capability'', VStr CPU_DIGEST)] else [])))))"

definition dashboard :: "principal \<Rightarrow> val app" where
  "dashboard p =
     abind (lift (require_role p ''admin'')) (\<lambda>_.
     abind expire (\<lambda>_.
     abind (transaction (
       abind (select (\<lambda>d. active_summary d (identity p))) (\<lambda>r.
       abind (lift r) (\<lambda>summary.
       select (\<lambda>d. (sum_list (map (count_state d (identity p)) STATES), count_state d (identity p) Queued,
                    count_state d (identity p) Completed, summary, cpu_present d (identity p))))))) (\<lambda>(total, queued, completed, summary, cpu).
     abind (nodes p) (\<lambda>ns.
     ret (VDict [(''mission_count'', VInt total), (''queued_tasks'', VInt queued),
                 (''completed_tasks'', VInt completed), (''active_mission'', summary), (''nodes'', VList ns),
                 (''simulation_only'', VBool (\<not> cpu))])))))"

definition simulation_only :: "principal \<Rightarrow> bool app" where
  "simulation_only p =
     abind (lift (require_role p ''admin'')) (\<lambda>_.
     transaction (select (\<lambda>d. \<not> cpu_present d (identity p))))"

definition revoke_effect :: "principal \<Rightarrow> string \<Rightarrow> val app" where
  "revoke_effect p worker =
     abind (revoke worker) (\<lambda>public.
     abind (fence ''worker_revoked'' False (Some worker)) (\<lambda>_.
     abind (select (\<lambda>d. List.find (\<lambda>r. ws_owner r = identity p) (d_workspaces d))) (\<lambda>row.
     abind (lift (present row ''TypeError'')) (\<lambda>ws.
     abind (audit p (ws_id ws) None ''worker_revoked'' [(''worker_id'', VStr worker)]) (\<lambda>_.
     ret public)))))"

definition revoke_worker :: "principal \<Rightarrow> string \<Rightarrow> val \<Rightarrow> val app" where
  "revoke_worker p worker data =
     abind (lift (dict_fields data [''operation_id''] [])) (\<lambda>d.
     operate p (get_or_none d ''operation_id'') (''revoke_worker:'' @ worker) data (revoke_effect p worker) ''admin'')"

end
