(* ===== verification/Lifecycle.thy ===== *)
theory Lifecycle
  imports Missions
begin

section \<open>Coherence of missions, tasks and attempts\<close>

text \<open>
  The three tables that hold a mission's progress agree at every commit: a task has the state of
  its mission, an active attempt has the state of its task, an active task has an active attempt
  on the worker of its plan, and no worker has two active attempts. \<open>coherent\<close> states this on the
  database; \<open>coh\<close> is the same on the three tables alone, so that writes to the other tables are
  invisible to it. \<open>shift\<close> is the common shape of every state change.
\<close>

definition coh :: "mission_row list \<Rightarrow> task_row list \<Rightarrow> attempt_row list \<Rightarrow> bool" where
  "coh ms ts as \<longleftrightarrow>
     distinct (map m_id ms) \<and> distinct (map t_id ts) \<and> distinct (map t_mission ts) \<and> distinct (map a_id as) \<and>
     (\<forall>t\<in>set ts. \<exists>m\<in>set ms. m_id m = t_mission t \<and> m_state m = t_state t) \<and>
     (\<forall>m\<in>set ms. m_state m \<in> {Draft, Cancelled} \<or> (\<exists>t\<in>set ts. t_mission t = m_id m)) \<and>
     (\<forall>m\<in>set ms. m_state m \<noteq> Approved) \<and> (\<forall>t\<in>set ts. t_state t \<noteq> Draft) \<and>
     (\<forall>a\<in>set as. \<exists>t\<in>set ts. t_id t = a_task a \<and> t_worker t = a_worker a \<and> (active (a_state a) \<longrightarrow> a_state a = t_state t)) \<and>
     (\<forall>t\<in>set ts. active (t_state t) \<longrightarrow> (\<exists>a\<in>set as. a_task a = t_id t \<and> active (a_state a))) \<and>
     (\<forall>a\<in>set as. \<forall>b\<in>set as. active (a_state a) \<longrightarrow> active (a_state b) \<longrightarrow> a_worker a = a_worker b \<longrightarrow> a = b)"

definition coherent :: "database \<Rightarrow> bool" where
  "coherent d \<longleftrightarrow> coh (d_missions d) (d_tasks d) (d_attempts d)"

lemma cohD:
  assumes "coh ms ts as"
  shows "distinct (map m_id ms)" "distinct (map t_id ts)" "distinct (map t_mission ts)" "distinct (map a_id as)"
    and "\<And>t. t \<in> set ts \<Longrightarrow> \<exists>m\<in>set ms. m_id m = t_mission t \<and> m_state m = t_state t"
    and "\<And>m. m \<in> set ms \<Longrightarrow> m_state m \<in> {Draft, Cancelled} \<or> (\<exists>t\<in>set ts. t_mission t = m_id m)"
    and "\<And>m. m \<in> set ms \<Longrightarrow> m_state m \<noteq> Approved" and "\<And>t. t \<in> set ts \<Longrightarrow> t_state t \<noteq> Draft"
    and "\<And>a. a \<in> set as \<Longrightarrow> \<exists>t\<in>set ts. t_id t = a_task a \<and> t_worker t = a_worker a
           \<and> (active (a_state a) \<longrightarrow> a_state a = t_state t)"
    and "\<And>t. t \<in> set ts \<Longrightarrow> active (t_state t) \<Longrightarrow> \<exists>a\<in>set as. a_task a = t_id t \<and> active (a_state a)"
    and "\<And>a b. a \<in> set as \<Longrightarrow> b \<in> set as \<Longrightarrow> active (a_state a) \<Longrightarrow> active (a_state b)
           \<Longrightarrow> a_worker a = a_worker b \<Longrightarrow> a = b"
  using assms unfolding coh_def by simp_all

subsection \<open>Consequences on three tables\<close>

lemma in_set_map: "(i \<in> f ` set xs) = (\<exists>x\<in>set xs. f x = i)"
  by auto

lemma coh_task_mission:
  assumes "coh ms ts as" "t \<in> set ts" "m \<in> set ms" "m_id m = t_mission t"
  shows "m_state m = t_state t"
proof -
  obtain m' where "m' \<in> set ms" "m_id m' = t_mission t" "m_state m' = t_state t"
    using cohD(5) [OF assms(1,2)] by blast
  with distinct_map_eq [OF cohD(1) [OF assms(1)], of m' m] assms(3,4) show ?thesis by simp
qed

lemma coh_attempt_task:
  assumes "coh ms ts as" "a \<in> set as" "t \<in> set ts" "t_id t = a_task a"
  shows "t_worker t = a_worker a" "active (a_state a) \<Longrightarrow> t_state t = a_state a"
proof -
  obtain t' where t': "t' \<in> set ts" "t_id t' = a_task a" "t_worker t' = a_worker a"
    "active (a_state a) \<longrightarrow> a_state a = t_state t'"
    using cohD(9) [OF assms(1,2)] by blast
  with distinct_map_eq [OF cohD(2) [OF assms(1)], of t' t] assms(3,4) have "t' = t" by simp
  with t' show "t_worker t = a_worker a" "active (a_state a) \<Longrightarrow> t_state t = a_state a" by simp_all
qed

lemma coh_active_unique:
  assumes "coh ms ts as" "a \<in> set as" "b \<in> set as" "active (a_state a)" "active (a_state b)" "a_task a = a_task b"
  shows "a = b"
proof -
  obtain t where "t \<in> set ts" "t_id t = a_task a" using cohD(9) [OF assms(1,2)] by blast
  then have "a_worker a = a_worker b"
    using coh_attempt_task(1) [OF assms(1,2)] coh_attempt_task(1) [OF assms(1,3)] assms(6) by metis
  then show ?thesis by (rule cohD(11) [OF assms(1-5)])
qed

subsection \<open>Moving one mission\<close>

definition shift_missions :: "string \<Rightarrow> lifecycle \<Rightarrow> mission_row list \<Rightarrow> mission_row list" where
  "shift_missions i s ms = update_where (\<lambda>m. m_id m = i) (\<lambda>m. m\<lparr>m_state := s\<rparr>) ms"

definition shift_tasks :: "string \<Rightarrow> lifecycle \<Rightarrow> task_row list \<Rightarrow> task_row list" where
  "shift_tasks i s ts = update_where (\<lambda>t. t_mission t = i) (\<lambda>t. t\<lparr>t_state := s\<rparr>) ts"

definition of_mission :: "task_row list \<Rightarrow> string \<Rightarrow> attempt_row \<Rightarrow> bool" where
  "of_mission ts i a \<longleftrightarrow> (\<exists>t\<in>set ts. t_mission t = i \<and> t_id t = a_task a)"

lemma of_mission_task:
  assumes "distinct (map t_id ts)" "t \<in> set ts" "t_id t = a_task a"
  shows "of_mission ts i a \<longleftrightarrow> t_mission t = i"
proof
  assume "of_mission ts i a"
  then obtain u where "u \<in> set ts" "t_mission u = i" "t_id u = a_task a" by (auto simp: of_mission_def)
  with distinct_map_eq [OF assms(1), of u t] assms(2,3) show "t_mission t = i" by simp
next
  assume "t_mission t = i"
  with assms(2,3) show "of_mission ts i a" by (auto simp: of_mission_def)
qed

definition shift_attempts :: "task_row list \<Rightarrow> string \<Rightarrow> (attempt_row \<Rightarrow> attempt_row) \<Rightarrow> attempt_row list \<Rightarrow> attempt_row list" where
  "shift_attempts ts i f as = update_where (\<lambda>a. of_mission ts i a \<and> active (a_state a)) f as"

definition same_keys :: "(attempt_row \<Rightarrow> attempt_row) \<Rightarrow> bool" where
  "same_keys f \<longleftrightarrow> (\<forall>a. a_id (f a) = a_id a \<and> a_task (f a) = a_task a \<and> a_worker (f a) = a_worker a)"

lemma coh_shift:
  assumes c: "coh ms ts as" and f: "same_keys f" and fs: "\<And>a. a_state (f a) = s"
    and task: "s = Cancelled \<or> (\<exists>t\<in>set ts. t_mission t = i)" and s: "s \<noteq> Approved" "s \<noteq> Draft"
    and act: "active s \<Longrightarrow> \<exists>t\<in>set ts. t_mission t = i \<and> active (t_state t)"
  shows "coh (shift_missions i s ms) (shift_tasks i s ts) (shift_attempts ts i f as)" (is "coh ?ms ?ts ?as")
proof -
  note D = cohD [OF c]
  have fk: "a_id (f a) = a_id a" "a_task (f a) = a_task a" "a_worker (f a) = a_worker a" for a
    using f by (simp_all add: same_keys_def)
  have mids: "map m_id ?ms = map m_id ms" and tids: "map t_id ?ts = map t_id ts"
    and tms: "map t_mission ?ts = map t_mission ts" and aids: "map a_id ?as = map a_id as"
    by (simp_all add: shift_missions_def shift_tasks_def shift_attempts_def map_update_where fk)
  have ms: "\<exists>m\<in>set ?ms. m_id m = t_mission t \<and> m_state m = t_state t" if t: "t \<in> set ?ts" for t
  proof -
    from t obtain u where u: "u \<in> set ts" "t = (if t_mission u = i then u\<lparr>t_state := s\<rparr> else u)"
      by (auto simp: shift_tasks_def set_update_where)
    from D(5) [OF u(1)] obtain m where m: "m \<in> set ms" "m_id m = t_mission u" "m_state m = t_state u" by blast
    have "(if m_id m = i then m\<lparr>m_state := s\<rparr> else m) \<in> set ?ms"
      using m(1) by (auto simp: shift_missions_def set_update_where)
    with m u(2) show ?thesis by (intro bexI [of _ "if m_id m = i then m\<lparr>m_state := s\<rparr> else m"]) auto
  qed
  have keep_task: "\<exists>t'\<in>set ?ts. t_mission t' = t_mission t" if "t \<in> set ts" for t
    using that by (intro bexI [of _ "if t_mission t = i then t\<lparr>t_state := s\<rparr> else t"])
      (auto simp: shift_tasks_def set_update_where)
  have has: "m_state m \<in> {Draft, Cancelled} \<or> (\<exists>t\<in>set ?ts. t_mission t = m_id m)" if m: "m \<in> set ?ms" for m
  proof -
    from m obtain n where n: "n \<in> set ms" "m = (if m_id n = i then n\<lparr>m_state := s\<rparr> else n)"
      by (auto simp: shift_missions_def set_update_where)
    have other: "m_id m = m_id n" "m_state m = m_state n \<or> m_id n = i \<and> m_state m = s" using n(2) by auto
    from other(2) D(6) [OF n(1)] task have "m_state m \<in> {Draft, Cancelled} \<or> (\<exists>t\<in>set ts. t_mission t = m_id n)"
      by (elim disjE conjE) auto
    with keep_task other(1) show ?thesis by metis
  qed
  have app: "m_state m \<noteq> Approved" if "m \<in> set ?ms" for m
    using that D(7) s by (auto simp: shift_missions_def set_update_where split: if_splits)
  have dra: "t_state t \<noteq> Draft" if "t \<in> set ?ts" for t
    using that D(8) s by (auto simp: shift_tasks_def set_update_where split: if_splits)
  have att: "\<exists>t\<in>set ?ts. t_id t = a_task a \<and> t_worker t = a_worker a \<and> (active (a_state a) \<longrightarrow> a_state a = t_state t)"
    if a: "a \<in> set ?as" for a
  proof -
    from a obtain b where b: "b \<in> set as" "a = (if of_mission ts i b \<and> active (a_state b) then f b else b)"
      by (auto simp: shift_attempts_def set_update_where)
    from D(9) [OF b(1)] obtain t where t: "t \<in> set ts" "t_id t = a_task b" "t_worker t = a_worker b"
      "active (a_state b) \<longrightarrow> a_state b = t_state t" by blast
    let ?t = "if t_mission t = i then t\<lparr>t_state := s\<rparr> else t"
    have "of_mission ts i b \<longleftrightarrow> t_mission t = i" by (rule of_mission_task [OF D(2) t(1,2)])
    then show ?thesis using t b(2) fk fs
      by (intro bexI [of _ ?t]) (auto simp: shift_tasks_def set_update_where)
  qed
  have ex: "\<exists>a\<in>set ?as. a_task a = t_id t \<and> active (a_state a)" if t: "t \<in> set ?ts" "active (t_state t)" for t
  proof -
    from t(1) obtain u where u: "u \<in> set ts" "t = (if t_mission u = i then u\<lparr>t_state := s\<rparr> else u)"
      by (auto simp: shift_tasks_def set_update_where)
    have "active (t_state u)"
    proof (cases "t_mission u = i")
      case True
      with u t(2) have "active s" by simp
      from act [OF this] obtain v where "v \<in> set ts" "t_mission v = i" "active (t_state v)" by blast
      with distinct_map_eq [OF D(3), of v u] True u(1) show ?thesis by auto
    next
      case False
      with u t(2) show ?thesis by simp
    qed
    from D(10) [OF u(1) this] obtain a where a: "a \<in> set as" "a_task a = t_id u" "active (a_state a)" by blast
    let ?a = "if of_mission ts i a \<and> active (a_state a) then f a else a"
    have "of_mission ts i a \<longleftrightarrow> t_mission u = i" by (rule of_mission_task [OF D(2) u(1) a(2) [symmetric]])
    then show ?thesis using a u(2) t(2) fk fs
      by (intro bexI [of _ ?a]) (auto simp: shift_attempts_def set_update_where)
  qed
  have uni: "a = b" if a: "a \<in> set ?as" and b: "b \<in> set ?as" and ac: "active (a_state a)" "active (a_state b)"
    and w: "a_worker a = a_worker b" for a b
  proof -
    have old: "\<exists>x\<in>set as. active (a_state x) \<and> a_worker x = a_worker y
        \<and> y = (if of_mission ts i x \<and> active (a_state x) then f x else x)"
      if "y \<in> set ?as" "active (a_state y)" for y
      using that fk by (auto simp: shift_attempts_def set_update_where split: if_splits)
    from old [OF a ac(1)] old [OF b ac(2)] w show ?thesis using D(11) by metis
  qed
  show ?thesis unfolding coh_def using D(1-4) mids tids tms aids ms has app dra att ex uni by (intro conjI) simp_all
qed

subsection \<open>New rows\<close>

lemma coh_add_mission:
  assumes c: "coh ms ts as" and m: "m_id m \<notin> set (map m_id ms)" "m_state m = Draft"
  shows "coh (ms @ [m]) ts as"
proof -
  note D = cohD [OF c]
  have mine: "\<exists>n\<in>set (ms @ [m]). m_id n = t_mission t \<and> m_state n = t_state t" if "t \<in> set ts" for t
    using D(5) [OF that] by auto
  have "distinct (map m_id (ms @ [m]))" using D(1) m(1) by auto
  then show ?thesis unfolding coh_def using D(2-4,6-11) mine m(2) by (intro conjI) auto
qed

lemma shift_missions_other: "m \<in> set ms \<Longrightarrow> m_id m \<noteq> i \<Longrightarrow> m \<in> set (shift_missions i s ms)"
  and shift_missions_self: "m \<in> set ms \<Longrightarrow> m_id m = i \<Longrightarrow> m\<lparr>m_state := s\<rparr> \<in> set (shift_missions i s ms)"
  and shift_missions_in: "m \<in> set (shift_missions i s ms) \<Longrightarrow>
        \<exists>n\<in>set ms. m_id m = m_id n \<and> (m_id n = i \<and> m_state m = s \<or> m_id n \<noteq> i \<and> m = n)"
  and shift_missions_ids: "map m_id (shift_missions i s ms) = map m_id ms"
  by (auto simp: shift_missions_def set_update_where image_iff map_update_where intro: rev_bexI)

lemma shift_tasks_in: "t \<in> set (shift_tasks i s ts) \<Longrightarrow>
        \<exists>u\<in>set ts. t_mission t = t_mission u \<and> t_id t = t_id u \<and> t_worker t = t_worker u
          \<and> (t_mission u = i \<and> t_state t = s \<or> t_mission u \<noteq> i \<and> t = u)"
  and shift_tasks_other: "t \<in> set ts \<Longrightarrow> t_mission t \<noteq> i \<Longrightarrow> t \<in> set (shift_tasks i s ts)"
  and shift_tasks_self: "t \<in> set ts \<Longrightarrow> t_mission t = i \<Longrightarrow> t\<lparr>t_state := s\<rparr> \<in> set (shift_tasks i s ts)"
  and shift_tasks_ids: "map t_id (shift_tasks i s ts) = map t_id ts"
      "map t_mission (shift_tasks i s ts) = map t_mission ts"
  by (auto simp: shift_tasks_def set_update_where image_iff map_update_where intro: rev_bexI)

lemma draft_no_task:
  assumes "coh ms ts as" "m \<in> set ms" "m_state m = Draft"
  shows "m_id m \<notin> set (map t_mission ts)"
proof
  assume "m_id m \<in> set (map t_mission ts)"
  then obtain t where t: "t \<in> set ts" "m_id m = t_mission t" by auto
  with coh_task_mission [OF assms(1) t(1) assms(2) t(2)] cohD(8) [OF assms(1) t(1)] assms(3) show False by simp
qed

lemma coh_add_task:
  assumes c: "coh ms ts as" and m: "m \<in> set ms" "m_state m = Draft"
    and t: "t_id t \<notin> set (map t_id ts)" "t_mission t = m_id m" "t_state t = Queued"
  shows "coh (shift_missions (m_id m) Queued ms) (ts @ [t]) as" (is "coh ?ms _ _")
proof -
  note D = cohD [OF c]
  have fresh: "m_id m \<notin> set (map t_mission ts)" by (rule draft_no_task [OF c m])
  have mine: "\<exists>n\<in>set ?ms. m_id n = t_mission u \<and> m_state n = t_state u" if "u \<in> set (ts @ [t])" for u
  proof (cases "u = t")
    case True
    with shift_missions_self [OF m(1) refl, of Queued] t show ?thesis by (intro bexI) auto
  next
    case False
    with that have u: "u \<in> set ts" by simp
    from D(5) [OF u] obtain n where n: "n \<in> set ms" "m_id n = t_mission u" "m_state n = t_state u" by blast
    moreover from u fresh n(2) have "m_id n \<noteq> m_id m" by force
    ultimately show ?thesis using shift_missions_other [of n ms] by blast
  qed
  have has: "m_state n \<in> {Draft, Cancelled} \<or> (\<exists>u\<in>set (ts @ [t]). t_mission u = m_id n)" if n: "n \<in> set ?ms" for n
    using shift_missions_in [OF n] D(6) t(2) by auto
  have app: "m_state n \<noteq> Approved" if n: "n \<in> set ?ms" for n
    using shift_missions_in [OF n] D(7) by auto
  have dra: "t_state u \<noteq> Draft" if u: "u \<in> set (ts @ [t])" for u
    using u D(8) t(3) by auto
  have att: "\<exists>u\<in>set (ts @ [t]). t_id u = a_task a \<and> t_worker u = a_worker a \<and> (active (a_state a) \<longrightarrow> a_state a = t_state u)"
    if a: "a \<in> set as" for a
    using D(9) [OF a] by auto
  have ex: "\<exists>a\<in>set as. a_task a = t_id u \<and> active (a_state a)" if u: "u \<in> set (ts @ [t])" "active (t_state u)" for u
    using u D(10) t(3) by auto
  have "distinct (map t_id (ts @ [t]))" "distinct (map t_mission (ts @ [t]))"
    using D(2,3) t(1,2) fresh by auto
  then show ?thesis unfolding coh_def
    using D(1,4) mine has app dra att ex D(11) by (intro conjI) (simp_all only: shift_missions_ids ball_simps, auto)
qed

lemma coh_start:
  assumes c: "coh ms ts as" and t: "t \<in> set ts" "t_state t = Queued"
    and a: "a_id a \<notin> set (map a_id as)" "a_task a = t_id t" "a_worker a = t_worker t" "a_state a = Running"
    and free: "\<And>b. b \<in> set as \<Longrightarrow> active (a_state b) \<Longrightarrow> a_worker b \<noteq> t_worker t"
  shows "coh (shift_missions (t_mission t) Running ms) (shift_tasks (t_mission t) Running ts) (as @ [a])"
    (is "coh ?ms ?ts _")
proof -
  note D = cohD [OF c]
  have mine: "\<exists>n\<in>set ?ms. m_id n = t_mission u \<and> m_state n = t_state u" if u: "u \<in> set ?ts" for u
  proof -
    from shift_tasks_in [OF u] obtain v where v: "v \<in> set ts" "t_mission u = t_mission v"
      "t_mission v = t_mission t \<and> t_state u = Running \<or> t_mission v \<noteq> t_mission t \<and> u = v" by blast
    from D(5) [OF v(1)] obtain n where n: "n \<in> set ms" "m_id n = t_mission v" "m_state n = t_state v" by blast
    from v(3) show ?thesis
    proof (elim disjE conjE)
      assume "t_mission v = t_mission t" "t_state u = Running"
      with shift_missions_self [OF n(1), of "t_mission t" Running] n(2) v(2) show ?thesis by (intro bexI) auto
    next
      assume "t_mission v \<noteq> t_mission t" "u = v"
      with shift_missions_other [OF n(1), of "t_mission t" Running] n show ?thesis by (intro bexI) auto
    qed
  qed
  have has: "m_state n \<in> {Draft, Cancelled} \<or> (\<exists>u\<in>set ?ts. t_mission u = m_id n)" if n: "n \<in> set ?ms" for n
  proof -
    from shift_missions_in [OF n] obtain k where k: "k \<in> set ms" "m_id n = m_id k"
      "m_id k = t_mission t \<and> m_state n = Running \<or> m_id k \<noteq> t_mission t \<and> n = k" by blast
    have "m_state k \<in> {Draft, Cancelled} \<or> m_id k \<in> set (map t_mission ts)" using D(6) [OF k(1)] by force
    with k t(1) have "m_state n \<in> {Draft, Cancelled} \<or> m_id n \<in> set (map t_mission ts)" by auto
    then have "m_state n \<in> {Draft, Cancelled} \<or> m_id n \<in> set (map t_mission ?ts)"
      by (simp only: shift_tasks_ids)
    then show ?thesis by (auto simp: in_set_map)
  qed
  have app: "m_state n \<noteq> Approved" if n: "n \<in> set ?ms" for n
    using shift_missions_in [OF n] D(7) by auto
  have dra: "t_state u \<noteq> Draft" if u: "u \<in> set ?ts" for u
    using shift_tasks_in [OF u] D(8) by auto
  have att: "\<exists>u\<in>set ?ts. t_id u = a_task b \<and> t_worker u = a_worker b \<and> (active (a_state b) \<longrightarrow> a_state b = t_state u)"
    if b: "b \<in> set (as @ [a])" for b
  proof (cases "b = a")
    case True
    with shift_tasks_self [OF t(1) refl, of Running] a show ?thesis by (intro bexI) auto
  next
    case False
    with b have b: "b \<in> set as" by simp
    from D(9) [OF b] obtain u where u: "u \<in> set ts" "t_id u = a_task b" "t_worker u = a_worker b"
      "active (a_state b) \<longrightarrow> a_state b = t_state u" by blast
    show ?thesis
    proof (cases "t_mission u = t_mission t")
      case True
      with distinct_map_eq [OF D(3) u(1) t(1)] have "u = t" by simp
      with u(4) t(2) have "\<not> active (a_state b)" by auto
      with shift_tasks_self [OF u(1) True, of Running] u show ?thesis by (intro bexI) auto
    next
      case False
      with shift_tasks_other [OF u(1), of "t_mission t" Running] u show ?thesis by (intro bexI) auto
    qed
  qed
  have ex: "\<exists>b\<in>set (as @ [a]). a_task b = t_id u \<and> active (a_state b)" if u: "u \<in> set ?ts" "active (t_state u)" for u
  proof -
    from shift_tasks_in [OF u(1)] obtain v where v: "v \<in> set ts" "t_id u = t_id v"
      "t_mission v = t_mission t \<or> u = v" by blast
    show ?thesis
    proof (cases "t_mission v = t_mission t")
      case True
      with distinct_map_eq [OF D(3) v(1) t(1)] v(2) a show ?thesis by auto
    next
      case False
      with v(3) u(2) D(10) [OF v(1)] show ?thesis by auto
    qed
  qed
  have uni: "x = y" if "x \<in> set (as @ [a])" "y \<in> set (as @ [a])" "active (a_state x)" "active (a_state y)"
    "a_worker x = a_worker y" for x y
    using that D(11) free a(3) by auto metis+
  have "distinct (map a_id (as @ [a]))" using D(4) a(1) by auto
  then show ?thesis unfolding coh_def
    using D(1-3) mine has app dra att ex uni by (intro conjI) (simp_all only: shift_missions_ids shift_tasks_ids, blast+)
qed

end
