(* ===== verification/Progress.thy ===== *)
theory Progress
  imports Lifecycle
begin

section \<open>Every operation keeps the three tables coherent\<close>

text \<open>
  One lemma per effect: what a committed run does to missions, tasks and attempts, as a \<open>shift\<close> or
  a new row, from which coherence follows by the lemmas of \<open>Lifecycle\<close>.
\<close>

lemma update_where_cong:
  assumes "\<And>x. x \<in> set xs \<Longrightarrow> P x = Q x" and "\<And>x. x \<in> set xs \<Longrightarrow> P x \<Longrightarrow> f x = g x"
  shows "update_where P f xs = update_where Q g xs"
  using assms by (simp add: update_where_def)

lemma set_sel [simp]:
  "d_missions (set_mission_state i s d) = shift_missions i s (d_missions d)"
  "d_tasks (set_mission_state i s d) = d_tasks d" "d_attempts (set_mission_state i s d) = d_attempts d"
  "d_events (set_mission_state i s d) = d_events d"
  "d_missions (set_tasks P s d) = d_missions d" "d_attempts (set_tasks P s d) = d_attempts d"
  "d_tasks (set_tasks P s d) = update_where P (\<lambda>t. t\<lparr>t_state := s\<rparr>) (d_tasks d)"
  "d_missions (set_attempts A f d) = d_missions d" "d_tasks (set_attempts A f d) = d_tasks d"
  "d_attempts (set_attempts A f d) = update_where A f (d_attempts d)"
  by (simp_all add: set_mission_state_def set_tasks_def set_attempts_def shift_missions_def)

lemma mission_by_id_Some: "mission_by_id d i = Some m \<Longrightarrow> m \<in> set (d_missions d) \<and> m_id m = i"
  by (auto simp: mission_by_id_def dest: find_Some_iff')

definition tables :: "database \<Rightarrow> mission_row list \<times> task_row list \<times> attempt_row list" where
  "tables d = (d_missions d, d_tasks d, d_attempts d)"

lemma coherent_tables: "tables d' = tables d \<Longrightarrow> coherent d \<Longrightarrow> coherent d'"
  by (simp add: tables_def coherent_def)

lemma audit_tables: "audit p ws m ty ds w = (Inr u, w') \<Longrightarrow> tables (db w') = tables (db w)"
  by (auto simp: tables_def dest: audit_Inr)

lemma transition_tables:
  assumes "transition p row s reason w = (Inr row', w')"
  shows "tables (db w') = (shift_missions (m_id row) s (d_missions (db w)), d_tasks (db w), d_attempts (db w))
    \<and> s \<in> set (TRANSITIONS (m_state row)) \<and> row' \<in> set (d_missions (db w')) \<and> m_id row' = m_id row"
  using transition_Inr [OF assms] by (auto simp: tables_def dest: mission_by_id_Some)

subsection \<open>Interrupting\<close>

definition interrupted_with :: "string \<Rightarrow> attempt_row \<Rightarrow> attempt_row" where
  "interrupted_with reason a = a\<lparr>a_state := Interrupted, a_error := Some reason\<rparr>"

lemma attempt_of_active:
  assumes c: "coh ms ts as" and a: "a \<in> set as" "active (a_state a)" and t: "t \<in> set ts" "t_id t = a_task a"
    and x: "x \<in> set as"
  shows "(a_id x = a_id a) = (of_mission ts (t_mission t) x \<and> active (a_state x))"
proof
  assume "a_id x = a_id a"
  then have "x = a" by (rule distinct_map_eq [OF cohD(4) [OF c] x a(1)])
  with a t show "of_mission ts (t_mission t) x \<and> active (a_state x)" by (auto simp: of_mission_def)
next
  assume m: "of_mission ts (t_mission t) x \<and> active (a_state x)"
  then obtain u where u: "u \<in> set ts" "t_mission u = t_mission t" "t_id u = a_task x" by (auto simp: of_mission_def)
  have "u = t" by (rule distinct_map_eq [OF cohD(3) [OF c] u(1) t(1) u(2)])
  with u t m have "a = x" by (intro coh_active_unique [OF c a(1) x a(2)]) auto
  then show "a_id x = a_id a" by simp
qed

lemma task_of_attempt:
  assumes c: "coh ms ts as" and t: "t \<in> set ts" "t_id t = i" and x: "x \<in> set ts"
  shows "(t_id x = i) = (t_mission x = t_mission t)"
  using distinct_map_eq [OF cohD(2) [OF c] x t(1)] distinct_map_eq [OF cohD(3) [OF c] x t(1)] t(2) by auto

lemma interrupt_tables:
  assumes c: "coherent (db w)" and a: "a \<in> set (d_attempts (db w))" "active (a_state a)"
    and t: "t \<in> set (d_tasks (db w))" "t_id t = a_task a" and run: "interrupt reason a t w = (Inr u, w')"
  shows "tables (db w') = (shift_missions (t_mission t) Interrupted (d_missions (db w)),
      shift_tasks (t_mission t) Interrupted (d_tasks (db w)),
      shift_attempts (d_tasks (db w)) (t_mission t) (interrupted_with reason) (d_attempts (db w)))"
proof -
  note c = c [unfolded coherent_def]
  have "update_where (\<lambda>x. a_id x = a_id a) (\<lambda>x. x\<lparr>a_state := Interrupted, a_error := Some reason\<rparr>) (d_attempts (db w))
      = shift_attempts (d_tasks (db w)) (t_mission t) (interrupted_with reason) (d_attempts (db w))"
    unfolding shift_attempts_def
    by (rule update_where_cong) (simp_all add: attempt_of_active [OF c a t] interrupted_with_def)
  moreover have "update_where (\<lambda>x. t_id x = a_task a) (\<lambda>x. x\<lparr>t_state := Interrupted\<rparr>) (d_tasks (db w))
      = shift_tasks (t_mission t) Interrupted (d_tasks (db w))"
    unfolding shift_tasks_def
    by (rule update_where_cong) (simp_all add: task_of_attempt [OF c t])
  ultimately show ?thesis
    using run by (auto simp: interrupt_def act_simps tables_def dest!: transition_tables mission_by_id_Some)
qed

lemma interrupt_coherent:
  assumes c: "coherent (db w)" and a: "a \<in> set (d_attempts (db w))" "active (a_state a)"
    and t: "t \<in> set (d_tasks (db w))" "t_id t = a_task a" and run: "interrupt reason a t w = (Inr u, w')"
  shows "coherent (db w')"
  using interrupt_tables [OF assms] coh_shift [OF c [unfolded coherent_def], of "interrupted_with reason" Interrupted "t_mission t"] t(1)
  by (auto simp: tables_def coherent_def same_keys_def interrupted_with_def)

lemma interrupt_others:
  assumes c: "coherent (db w)" and a: "a \<in> set (d_attempts (db w))" "active (a_state a)"
    and t: "t \<in> set (d_tasks (db w))" "t_id t = a_task a" and run: "interrupt reason a t w = (Inr u, w')"
    and b: "b \<in> set (d_attempts (db w))" "active (a_state b)" "b \<noteq> a"
    and s: "s \<in> set (d_tasks (db w))" "t_id s = a_task b"
  shows "b \<in> set (d_attempts (db w')) \<and> s \<in> set (d_tasks (db w'))"
proof -
  note c' = c [unfolded coherent_def]
  have "t_mission s \<noteq> t_mission t"
  proof
    assume "t_mission s = t_mission t"
    then have "s = t" by (rule distinct_map_eq [OF cohD(3) [OF c'] s(1) t(1)])
    with s t have "a_task b = a_task a" by simp
    with coh_active_unique [OF c' b(1) a(1) b(2) a(2)] b(3) show False by simp
  qed
  moreover from this have "\<not> of_mission (d_tasks (db w)) (t_mission t) b"
    using of_mission_task [OF cohD(2) [OF c'] s] by simp
  ultimately show ?thesis
    using interrupt_tables [OF c a t run] b(1) shift_tasks_other [OF s(1)]
    by (auto simp: tables_def shift_attempts_def set_update_where image_iff intro: rev_bexI)
qed

subsection \<open>The fencing loop\<close>

definition fenceable :: "database \<Rightarrow> attempt_row \<times> task_row \<Rightarrow> bool" where
  "fenceable d = (\<lambda>(a, t). a \<in> set (d_attempts d) \<and> active (a_state a) \<and> t \<in> set (d_tasks d) \<and> t_id t = a_task a)"

definition fence_row :: "string \<Rightarrow> bool \<Rightarrow> attempt_row \<times> task_row \<Rightarrow> unit app" where
  "fence_row reason expired_only = (\<lambda>(a, t). abind (fence_due expired_only (a_deadline a)) (\<lambda>due.
                if due then interrupt reason a t else ret ()))"

lemma reads_fence_due [reads_intros]: "reads (fence_due e x)"
  unfolding fence_due_def by (intro reads_intros)

lemma fence_row_Inr:
  assumes "fence_row reason e (a, t) w = (Inr u, w')"
  shows "db w' = db w \<or> (\<exists>w1. db w1 = db w \<and> interrupt reason a t w1 = (Inr u, w'))"
  using assms by (auto simp: fence_row_def act_simps split: if_splits dest: readsD [OF reads_fence_due])

lemma fence_row_keeps:
  assumes c: "coherent (db w)" and rows: "\<forall>r\<in>set ((a, t) # rows). fenceable (db w) r"
    and dist: "distinct (map fst ((a, t) # rows))" and run: "fence_row reason e (a, t) w = (Inr u, w1)"
  shows "coherent (db w1) \<and> (\<forall>q\<in>set rows. fenceable (db w1) q)"
  using fence_row_Inr [OF run]
proof (elim disjE exE conjE)
  assume "db w1 = db w"
  with c rows show ?thesis by simp
next
  fix w2 assume w2: "db w2 = db w" and run: "interrupt reason a t w2 = (Inr u, w1)"
  from rows w2 have at: "fenceable (db w2) (a, t)" by simp
  note i = c [folded w2] at [unfolded fenceable_def]
  from i run have c1: "coherent (db w1)" by (auto intro: interrupt_coherent)
  have "fenceable (db w1) q" if q: "q \<in> set rows" for q
  proof -
    obtain b s where bs: "q = (b, s)" by fastforce
    with rows q w2 have fb: "fenceable (db w2) (b, s)" by auto
    from dist q bs have "b \<noteq> a" by force
    with i run fb bs show ?thesis by (auto simp: fenceable_def dest: interrupt_others)
  qed
  with c1 show ?thesis by blast
qed

lemma fence_loop:
  assumes "coherent (db w)" and "\<forall>r\<in>set rows. fenceable (db w) r" and "distinct (map fst rows)"
    and "foreach (fence_row reason e) rows w = (Inr u, w')"
    and Q: "\<And>d. Q d d" "\<And>d1 d2 d3. Q d1 d2 \<Longrightarrow> Q d2 d3 \<Longrightarrow> Q d1 d3"
      "\<And>a t w v w'. coherent (db w) \<Longrightarrow> fenceable (db w) (a, t) \<Longrightarrow> interrupt reason a t w = (Inr v, w') \<Longrightarrow> Q (db w) (db w')"
  shows "coherent (db w') \<and> Q (db w) (db w')"
  using assms(1-4)
proof (induction rows arbitrary: w)
  case Nil
  then show ?case by (simp add: Q(1))
next
  case (Cons r rows)
  obtain a t where r: "r = (a, t)" by fastforce
  from Cons.prems(4) obtain w1 where step: "fence_row reason e (a, t) w = (Inr (), w1)"
    and rest: "foreach (fence_row reason e) rows w1 = (Inr u, w')"
    by (auto simp: r split: prod.splits sum.splits)
  from fence_row_keeps [OF Cons.prems(1) _ _ step] Cons.prems(2,3) r
  have k: "coherent (db w1)" "\<forall>q\<in>set rows. fenceable (db w1) q" by auto
  from Cons.prems(2) r have f: "fenceable (db w) (a, t)" by simp
  have "Q (db w) (db w1)"
    using fence_row_Inr [OF step]
  proof (elim disjE exE conjE)
    fix w2 assume "db w2 = db w" "interrupt reason a t w2 = (Inr (), w1)"
    with Q(3) [of w2 a t] Cons.prems(1) f show ?thesis by simp
  qed (simp add: Q(1))
  moreover have "coherent (db w') \<and> Q (db w1) (db w')"
    using k Cons.prems(3) by (intro Cons.IH [OF _ _ _ rest]) auto
  ultimately show ?case using Q(2) by blast
qed

lemma fence_rows_fenceable: "r \<in> set (fence_rows worker d) \<Longrightarrow> fenceable d r"
  by (auto simp: fence_rows_def fenceable_def)

lemma filter_unique:
  "distinct (map f xs) \<Longrightarrow> filter (\<lambda>x. f x = k) xs = [] \<or> (\<exists>x. filter (\<lambda>x. f x = k) xs = [x])"
  by (induction xs) (auto simp: filter_empty_conv, metis image_eqI)

lemma fence_rows_distinct:
  assumes "coherent d"
  shows "distinct (map fst (fence_rows worker d))"
proof -
  have rows: "distinct (map fst (concat (map (\<lambda>a. map (Pair a) (filter (\<lambda>t. t_id t = a_task a) (d_tasks d))) xs)))"
    if "distinct xs" for xs
    using that
  proof (induction xs)
    case Nil
    then show ?case by simp
  next
    case (Cons a xs)
    with filter_unique [OF cohD(2) [OF assms [unfolded coherent_def]], of "a_task a"] show ?case
      by auto
  qed
  have "distinct (d_attempts d)"
    using cohD(4) [OF assms [unfolded coherent_def]] by (simp add: distinct_map)
  then show ?thesis unfolding fence_rows_def by (intro rows distinct_filter)
qed

lemma fence_history:
  assumes "\<And>d. Q d d" "\<And>d1 d2 d3. Q d1 d2 \<Longrightarrow> Q d2 d3 \<Longrightarrow> Q d1 d3"
      "\<And>a t w v w'. coherent (db w) \<Longrightarrow> fenceable (db w) (a, t) \<Longrightarrow> interrupt reason a t w = (Inr v, w') \<Longrightarrow> Q (db w) (db w')"
    and c: "coherent (db w)" and run: "fence reason e worker w = (Inr x, w')"
  shows "coherent (db w') \<and> Q (db w) (db w')"
proof -
  from run have "foreach (fence_row reason e) (fence_rows worker (db w)) w = (Inr x, w')"
    by (simp add: fence_def abind_def fence_row_def)
  from fence_loop [OF c _ fence_rows_distinct [OF c] this] assms(1-3) fence_rows_fenceable
  show ?thesis by blast
qed

lemma fence_coherent: "commits coherent (fence reason e worker)"
  unfolding commits_def using fence_history [of "\<lambda>_ _. True"] by blast

lemma expire_coherent: "keeps_db coherent expire"
  unfolding expire_def by (intro keeps_db_transaction fence_coherent)

lemma recover_coherent: "keeps_db coherent recover"
  unfolding recover_def by (intro keeps_db_transaction fence_coherent)

subsection \<open>Operator commands\<close>

lemma reads_checked_plan [reads_intros]: "reads (checked_plan coord m)"
  unfolding checked_plan_def by (intro reads_intros)

lemma mission_unique:
  assumes "coherent d" "m \<in> set (d_missions d)" "n \<in> set (d_missions d)" "m_id m = m_id n"
  shows "m = n"
  using distinct_map_eq [OF cohD(1) [OF assms(1) [unfolded coherent_def]]] assms by blast

lemma shift_shift: "shift_missions i s (shift_missions i r ms) = shift_missions i s ms"
  by (simp add: shift_missions_def update_where_def)

lemma task_of_plan_Inr:
  "task_of_plan tid i plan = Inr t \<Longrightarrow> t_id t = tid \<and> t_mission t = i \<and> t_state t = Queued \<and> t_plan t = VDict plan"
  by (auto simp: task_of_plan_def)

lemma insert_task_tables:
  "insert_task t w = (Inr u, w') \<Longrightarrow> tables (db w') = (d_missions (db w), d_tasks (db w) @ [t], d_attempts (db w))
     \<and> t_id t \<notin> set (map t_id (d_tasks (db w)))"
  by (auto simp: insert_task_def insert_checked_Inr tables_def)

lemma approve_effect_tables:
  assumes "approve_effect coord p i w = (Inr r, w')"
  shows "\<exists>m t. m \<in> set (d_missions (db w)) \<and> m_id m = i \<and> m_owner m = identity p \<and> m_state m = Draft
     \<and> t_id t \<notin> set (map t_id (d_tasks (db w))) \<and> t_mission t = i \<and> t_state t = Queued
     \<and> tables (db w') = (shift_missions i Queued (d_missions (db w)), d_tasks (db w) @ [t], d_attempts (db w))"
proof -
  from assms obtain m plan w1 m1 w2 tid w3 t w4 m2 w5 where
    m: "m \<in> set (d_missions (db w))" "m_id m = i" "m_owner m = identity p" "m_state m = Draft"
    and plan: "checked_plan coord m w = (Inr plan, w1)"
    and t1: "transition p m Approved None w1 = (Inr m1, w2)"
    and new: "new_id ''t'' w2 = (Inr tid, w3)" and t: "task_of_plan tid i plan = Inr t"
    and ins: "insert_task t w3 = (Inr (), w4)" and t2: "transition p m1 Queued None w4 = (Inr m2, w5)"
    and db: "db w' = db w5"
    unfolding approve_effect_def
    by (auto simp: act_simps dest!: fetch_mission_Inr dest: readsD [OF reads_view_of])
  have "db w1 = db w" by (rule readsD [OF reads_checked_plan plan])
  moreover have "db w3 = db w2" by (rule readsD [OF reads_new_id new])
  ultimately show ?thesis
    using m db transition_tables [OF t1] transition_tables [OF t2] insert_task_tables [OF ins] task_of_plan_Inr [OF t]
    by (intro exI [of _ m] exI [of _ t]) (auto simp: tables_def shift_shift)
qed

lemma approve_coherent: "commits coherent (approve_effect coord p i)"
  unfolding commits_def
proof (intro allI impI)
  fix w x w'
  assume c: "coherent (db w)" and run: "approve_effect coord p i w = (Inr x, w')"
  from approve_effect_tables [OF run] c coh_add_task show "coherent (db w')"
    by (auto simp: coherent_def tables_def)
qed

text \<open>Cancelling: an active mission waits for its worker, any other one is closed at once.\<close>

lemma coh_task_state:
  assumes "coherent d" "m \<in> set (d_missions d)" "t \<in> set (d_tasks d)" "t_mission t = m_id m"
  shows "t_state t = m_state m"
  using coh_task_mission assms unfolding coherent_def by metis

lemma cancel_attempts:
  assumes c: "coherent d" and m: "m \<in> set (d_missions d)" "m_id m = i" "m_state m \<noteq> CancelRequested"
  shows "update_where (\<lambda>a. a_task a \<in> set (map t_id (tasks_of d i)) \<and> a_state a = Running) (\<lambda>a. a\<lparr>a_state := s\<rparr>) (d_attempts d)
       = shift_attempts (d_tasks d) i (\<lambda>a. a\<lparr>a_state := s\<rparr>) (d_attempts d)"
  unfolding shift_attempts_def
proof (rule update_where_cong)
  fix a assume a: "a \<in> set (d_attempts d)"
  have "a_task a \<in> set (map t_id (tasks_of d i)) \<longleftrightarrow> of_mission (d_tasks d) i a"
    by (force simp: tasks_of_def of_mission_def)
  moreover have "a_state a \<noteq> CancelRequested" if om: "of_mission (d_tasks d) i a"
  proof
    assume s: "a_state a = CancelRequested"
    from om obtain t where t: "t \<in> set (d_tasks d)" "t_mission t = i" "t_id t = a_task a" by (auto simp: of_mission_def)
    with coh_attempt_task(2) [OF c [unfolded coherent_def] a t(1) t(3)] s have "t_state t = CancelRequested" by simp
    with coh_task_state [OF c m(1) t(1)] t(2) m show False by simp
  qed
  ultimately show "(a_task a \<in> set (map t_id (tasks_of d i)) \<and> a_state a = Running)
      = (of_mission (d_tasks d) i a \<and> active (a_state a))"
    by (auto simp: active_def)
qed simp

lemma tasks_of_set_tasks: "map t_id (tasks_of (set_tasks P s d) i) = map t_id (tasks_of d i)"
proof -
  have "map t_id (filter (\<lambda>t. t_mission t = i) (update_where P (\<lambda>t. t\<lparr>t_state := s\<rparr>) ts))
      = map t_id (filter (\<lambda>t. t_mission t = i) ts)" for ts
    by (induction ts) (auto simp: update_where_def)
  then show ?thesis by (simp add: tasks_of_def)
qed

definition cancel_target :: "lifecycle \<Rightarrow> lifecycle" where
  "cancel_target s = (if s = Running then CancelRequested else Cancelled)"

lemma cancel_effect_tables:
  assumes c: "coherent (db w)" and run: "cancel_effect p i w = (Inr r, w')"
  shows "\<exists>m. m \<in> set (d_missions (db w)) \<and> m_id m = i \<and> m_owner m = identity p \<and>
     (m_state m = CancelRequested \<and> tables (db w') = tables (db w) \<or>
      m_state m \<noteq> CancelRequested \<and> cancel_target (m_state m) \<in> set (TRANSITIONS (m_state m)) \<and>
      tables (db w') = (let s = cancel_target (m_state m) in
         (shift_missions i s (d_missions (db w)), shift_tasks i s (d_tasks (db w)),
          shift_attempts (d_tasks (db w)) i (\<lambda>a. a\<lparr>a_state := s\<rparr>) (d_attempts (db w)))))"
proof -
  from run obtain m where m: "m \<in> set (d_missions (db w))" "m_id m = i" "m_owner m = identity p"
    and rest: "(if m_state m = CancelRequested then abind (view_of m) (\<lambda>v. ret (VDict v))
     else (let target = (if m_state m = Running then CancelRequested else Cancelled) in
       abind (transition p m target None) (\<lambda>mission.
       abind (execute (set_tasks (\<lambda>t. t_mission t = i) target)) (\<lambda>_.
       abind (execute (\<lambda>d. set_attempts (\<lambda>a. a_task a \<in> set (map t_id (tasks_of d i)) \<and> a_state a = Running)
                             (\<lambda>a. a\<lparr>a_state := target\<rparr>) d)) (\<lambda>_.
       abind (view_of mission) (\<lambda>v. ret (VDict v))))))) w = (Inr r, w')"
    unfolding cancel_effect_def by (auto simp: abind_Inr dest!: fetch_mission_Inr)
  show ?thesis
  proof (cases "m_state m = CancelRequested")
    case True
    with rest m show ?thesis by (auto simp: act_simps tables_def dest!: readsD [OF reads_view_of])
  next
    case False
    let ?s = "cancel_target (m_state m)"
    from False rest obtain m1 w1 where t: "transition p m ?s None w = (Inr m1, w1)"
      and d: "db w' = set_attempts (\<lambda>a. a_task a \<in> set (map t_id (tasks_of (set_tasks (\<lambda>t. t_mission t = i) ?s (db w1)) i)) \<and> a_state a = Running)
                             (\<lambda>a. a\<lparr>a_state := ?s\<rparr>) (set_tasks (\<lambda>t. t_mission t = i) ?s (db w1))"
      by (auto simp: abind_Inr act_defs cancel_target_def Let_def dest!: readsD [OF reads_view_of])
    have ids: "map t_id (tasks_of (set_tasks (\<lambda>t. t_mission t = i) ?s (db w1)) i) = map t_id (tasks_of (db w) i)"
      using transition_tables [OF t] by (simp add: tasks_of_set_tasks) (simp add: tasks_of_def tables_def)
    from False m d transition_tables [OF t] cancel_attempts [OF c m(1,2) False, of ?s] show ?thesis
      by (intro exI [of _ m]) (simp add: ids tables_def Let_def shift_tasks_def)
  qed
qed

lemma cancel_coherent: "commits coherent (cancel_effect p i)"
  unfolding commits_def
proof (intro allI impI)
  fix w x w'
  assume c: "coherent (db w)" and run: "cancel_effect p i w = (Inr x, w')"
  note c' = c [unfolded coherent_def]
  from cancel_effect_tables [OF c run] obtain m where m: "m \<in> set (d_missions (db w))" "m_id m = i"
    and cs: "tables (db w') = tables (db w) \<or> cancel_target (m_state m) \<in> set (TRANSITIONS (m_state m)) \<and>
      tables (db w') = (let s = cancel_target (m_state m) in
         (shift_missions i s (d_missions (db w)), shift_tasks i s (d_tasks (db w)),
          shift_attempts (d_tasks (db w)) i (\<lambda>a. a\<lparr>a_state := s\<rparr>) (d_attempts (db w))))"
    by blast
  from cs show "coherent (db w')"
  proof (elim disjE conjE)
    assume "tables (db w') = tables (db w)" with c show ?thesis by (rule coherent_tables [rotated])
  next
    assume t: "tables (db w') = (let s = cancel_target (m_state m) in
         (shift_missions i s (d_missions (db w)), shift_tasks i s (d_tasks (db w)),
          shift_attempts (d_tasks (db w)) i (\<lambda>a. a\<lparr>a_state := s\<rparr>) (d_attempts (db w))))"
    have run': "\<exists>t\<in>set (d_tasks (db w)). t_mission t = i \<and> active (t_state t)" if "m_state m = Running"
    proof -
      from cohD(6) [OF c' m(1)] that m(2) obtain t where "t \<in> set (d_tasks (db w))" "t_mission t = i" by auto
      with coh_task_state [OF c m(1)] m(2) that show ?thesis by (intro bexI [of _ t]) auto
    qed
    have "coh (shift_missions i (cancel_target (m_state m)) (d_missions (db w)))
        (shift_tasks i (cancel_target (m_state m)) (d_tasks (db w)))
        (shift_attempts (d_tasks (db w)) i (\<lambda>a. a\<lparr>a_state := cancel_target (m_state m)\<rparr>) (d_attempts (db w)))"
      by (rule coh_shift [OF c'])
        (use run' in \<open>auto simp: same_keys_def cancel_target_def split: if_splits\<close>)
    with t show ?thesis by (simp add: coherent_def tables_def Let_def)
  qed
qed

lemma retry_effect_tables:
  assumes c: "coherent (db w)" and run: "retry_effect p i w = (Inr r, w')"
  shows "\<exists>m. m \<in> set (d_missions (db w)) \<and> m_id m = i \<and> m_owner m = identity p \<and> m_state m \<in> {Failed, Interrupted}
     \<and> tables (db w') = (shift_missions i Queued (d_missions (db w)), shift_tasks i Queued (d_tasks (db w)), d_attempts (db w))"
  using run unfolding retry_effect_def
  by (auto simp: abind_Inr act_defs tables_def shift_tasks_def dest!: fetch_mission_Inr readsD [OF reads_view_of] transition_tables)

lemma shift_attempts_idle:
  assumes c: "coherent d" and m: "m \<in> set (d_missions d)" "\<not> active (m_state m)"
  shows "shift_attempts (d_tasks d) (m_id m) f (d_attempts d) = d_attempts d"
  unfolding shift_attempts_def
proof (rule update_where_none)
  fix a assume a: "a \<in> set (d_attempts d)"
  show "\<not> (of_mission (d_tasks d) (m_id m) a \<and> active (a_state a))"
  proof
    assume "of_mission (d_tasks d) (m_id m) a \<and> active (a_state a)"
    then obtain t where t: "t \<in> set (d_tasks d)" "t_mission t = m_id m" "t_id t = a_task a" "active (a_state a)"
      by (auto simp: of_mission_def)
    with coh_attempt_task(2) [OF c [unfolded coherent_def] a t(1) t(3)] coh_task_state [OF c m(1) t(1)] m(2)
    show False by simp
  qed
qed

lemma retry_coherent: "commits coherent (retry_effect p i)"
  unfolding commits_def
proof (intro allI impI)
  fix w x w'
  assume c: "coherent (db w)" and run: "retry_effect p i w = (Inr x, w')"
  note c' = c [unfolded coherent_def]
  from retry_effect_tables [OF c run] obtain m where m: "m \<in> set (d_missions (db w))" "m_id m = i"
    "m_state m \<in> {Failed, Interrupted}"
    and t: "tables (db w') = (shift_missions i Queued (d_missions (db w)), shift_tasks i Queued (d_tasks (db w)), d_attempts (db w))"
    by blast
  from cohD(6) [OF c' m(1)] m(2,3) have task: "\<exists>t\<in>set (d_tasks (db w)). t_mission t = i" by auto
  have "coh (shift_missions i Queued (d_missions (db w))) (shift_tasks i Queued (d_tasks (db w)))
      (shift_attempts (d_tasks (db w)) i (\<lambda>a. a\<lparr>a_state := Queued\<rparr>) (d_attempts (db w)))"
    by (rule coh_shift [OF c']) (use task in \<open>auto simp: same_keys_def\<close>)
  with shift_attempts_idle [OF c m(1)] m(2,3) t show "coherent (db w')"
    by (auto simp: coherent_def tables_def)
qed

lemma create_effect_tables:
  assumes "create_effect p capability title objective ws refs w = (Inr r, w')"
  shows "\<exists>m. m_id m \<notin> set (map m_id (d_missions (db w))) \<and> m_state m = Draft \<and> m_owner m = identity p
    \<and> tables (db w') = (d_missions (db w) @ [m], d_tasks (db w), d_attempts (db w))"
proof -
  have frame: "tables (db w2) = tables (db w1)"
    if "(if capability \<noteq> DEMO then audit p ws' mi ty ds else ret ()) w1 = (Inr u, w2)" for ws' mi ty ds w1 w2 u
    using that by (auto simp: act_defs split: if_splits dest: audit_tables)
  show ?thesis
    using assms unfolding create_effect_def
    by (auto simp: abind_Inr act_defs insert_mission_def insert_checked_Inr tables_def
        dest!: workspace_access_Inr readsD [OF reads_view_of] readsD [OF reads_fetch_mission]
          readsD [OF reads_new_id] readsD [OF reads_stamp] audit_tables frame [unfolded tables_def])
qed

lemma create_coherent: "commits coherent (create_effect p capability title objective ws refs)"
  unfolding commits_def
proof (intro allI impI)
  fix w x w'
  assume c: "coherent (db w)" and run: "create_effect p capability title objective ws refs w = (Inr x, w')"
  from create_effect_tables [OF run] c coh_add_mission show "coherent (db w')"
    by (auto simp: coherent_def tables_def)
qed

subsection \<open>Claiming\<close>

lemma next_task_Some:
  "next_task d worker = Some t \<Longrightarrow> t \<in> set (d_tasks d) \<and> t_state t = Queued \<and> t_worker t = worker
     \<and> (\<exists>m\<in>set (d_missions d). m_id m = t_mission t \<and> m_state m = Queued)"
  by (auto simp: next_task_def dest!: find_Some_iff') blast

lemma reads_new_attempt [reads_intros]: "reads (new_attempt p worker task mission)"
  unfolding new_attempt_def by (intro reads_intros)

lemma new_attempt_Inr:
  "new_attempt p worker task mission w = (Inr a, w') \<Longrightarrow>
     a_task a = t_id task \<and> a_worker a = identity p \<and> a_state a = Running \<and> a_result a = None
     \<and> a_number a = next_number (db w) (t_id task)
     \<and> a_expected a = map_option v_id (previous_version (db w) (file_by_name (db w) (m_workspace mission) ''resultat.md''))"
  by (auto simp: new_attempt_def abind_Inr act_defs new_id_def clock_now_def)

lemma start_attempt_tables:
  assumes "start_attempt p worker task w = (Inr r, w')"
  shows "\<exists>a m. m \<in> set (d_missions (db w)) \<and> m_id m = t_mission task \<and> a_task a = t_id task
     \<and> a_worker a = identity p \<and> a_state a = Running \<and> a_id a \<notin> set (map a_id (d_attempts (db w)))
     \<and> Running \<in> set (TRANSITIONS (m_state m))
     \<and> tables (db w') = (shift_missions (t_mission task) Running (d_missions (db w)),
          update_where (\<lambda>t. t_id t = t_id task) (\<lambda>t. t\<lparr>t_state := Running\<rparr>) (d_tasks (db w)), d_attempts (db w) @ [a])"
proof -
  from assms obtain m a w1 w2 epoch w3 w4 m1 w5 w6 where
    m: "m \<in> set (d_missions (db w))" "m_id m = t_mission task"
    and new: "new_attempt p worker task m w = (Inr a, w1)" and ins: "insert_attempt a w1 = (Inr (), w2)"
    and ep: "insert_epoch (a_id a) epoch w2 = (Inr (), w3)"
    and w4: "w4 = w3\<lparr>db := set_tasks (\<lambda>t. t_id t = t_id task) Running (db w3)\<rparr>"
    and tr: "transition p m Running None w4 = (Inr m1, w5)"
    and au: "audit p (m_workspace m) (Some (m_id m)) ''attempt_started''
             [(''attempt_id'', VStr (a_id a)), (''task_id'', VStr (t_id task)), (''worker_id'', VStr (identity p))] w5 = (Inr (), w6)"
    and d: "db w' = db w6"
    unfolding start_attempt_def
    by (auto simp: abind_Inr act_defs dest!: mission_by_id_Some readsD [OF reads_view_of])
  have "db w1 = db w" by (rule readsD [OF reads_new_attempt new])
  with new_attempt_Inr [OF new] m ins ep w4 transition_tables [OF tr] audit_tables [OF au] d show ?thesis
    by (intro exI [of _ a] exI [of _ m])
      (auto simp: tables_def insert_attempt_def insert_epoch_def insert_checked_Inr)
qed

lemma start_attempt_coherent:
  assumes c: "coherent (db w)" and t: "next_task (db w) (identity p) = Some task" and free: "\<not> busy (db w) (identity p)"
    and run: "start_attempt p worker task w = (Inr r, w')"
  shows "coherent (db w')"
proof -
  note c' = c [unfolded coherent_def]
  from next_task_Some [OF t] have task: "task \<in> set (d_tasks (db w))" "t_state task = Queued" "t_worker task = identity p"
    by auto
  from start_attempt_tables [OF run] obtain a where a: "a_task a = t_id task" "a_worker a = identity p" "a_state a = Running"
    "a_id a \<notin> set (map a_id (d_attempts (db w)))"
    and tb: "tables (db w') = (shift_missions (t_mission task) Running (d_missions (db w)),
          update_where (\<lambda>t. t_id t = t_id task) (\<lambda>t. t\<lparr>t_state := Running\<rparr>) (d_tasks (db w)), d_attempts (db w) @ [a])"
    by blast
  have "update_where (\<lambda>t. t_id t = t_id task) (\<lambda>t. t\<lparr>t_state := Running\<rparr>) (d_tasks (db w))
      = shift_tasks (t_mission task) Running (d_tasks (db w))"
    unfolding shift_tasks_def
    by (rule update_where_cong) (simp_all add: task_of_attempt [OF c' task(1) refl])
  moreover have "coh (shift_missions (t_mission task) Running (d_missions (db w)))
      (shift_tasks (t_mission task) Running (d_tasks (db w))) (d_attempts (db w) @ [a])"
    by (rule coh_start [OF c' task(1,2) a(4,1)])
      (use a task free in \<open>auto simp: busy_def list_ex_iff\<close>)
  ultimately show ?thesis using tb by (simp add: tables_def coherent_def)
qed

lemma claim_effect_cases:
  assumes "claim_effect p w = (Inr r, w')"
  obtains worker w1 where "authorize p w = (Inr worker, w)" "fence ''attempt_expired'' True None w = (Inr (), w1)"
      "r = no_request" "w' = w1"
    | worker w1 t where "authorize p w = (Inr worker, w)" "fence ''attempt_expired'' True None w = (Inr (), w1)"
      "\<not> busy (db w1) (identity p)" "next_task (db w1) (identity p) = Some t" "start_attempt p worker t w1 = (Inr r, w')"
proof -
  from assms obtain worker w1 where 1: "authorize p w = (Inr worker, w)" "fence ''attempt_expired'' True None w = (Inr (), w1)"
    and rest: "(if busy (db w1) (identity p) then ret no_request
     else abind (select (\<lambda>d. next_task d (identity p))) (\<lambda>task.
       case task of None \<Rightarrow> ret no_request | Some t \<Rightarrow> start_attempt p worker t)) w1 = (Inr r, w')"
    unfolding claim_effect_def by (auto simp: abind_Inr authorize_Inr)
  from rest show ?thesis
  proof (cases "busy (db w1) (identity p) \<or> next_task (db w1) (identity p) = None")
    case True
    with rest have "r = no_request \<and> w' = w1" by (auto simp: abind_Inr act_defs split: if_splits)
    with 1 show ?thesis by (intro that(1)) auto
  next
    case False
    then obtain t where "next_task (db w1) (identity p) = Some t" by auto
    with rest 1 False show ?thesis by (intro that(2)) (auto simp: abind_Inr)
  qed
qed

lemma claim_coherent: "commits coherent (claim_effect p)"
  unfolding commits_def
proof (intro allI impI)
  fix w x w'
  assume c: "coherent (db w)" and run: "claim_effect p w = (Inr x, w')"
  from run show "coherent (db w')"
  proof (cases rule: claim_effect_cases)
    case (1 worker w1)
    with commitsD [OF fence_coherent 1(2) c] show ?thesis by simp
  next
    case (2 worker w1 t)
    show ?thesis by (rule start_attempt_coherent [OF commitsD [OF fence_coherent 2(2) c] 2(4,3,5)])
  qed
qed

subsection \<open>Finishing\<close>

lemma frame_accept_outputs:
  assumes "\<And>d x. f (d\<lparr>d_files := x\<rparr>) = f d" "\<And>d x. f (d\<lparr>d_versions := x\<rparr>) = f d" "\<And>d x. f (d\<lparr>d_events := x\<rparr>) = f d"
    "\<And>d x. f (d\<lparr>d_results := x\<rparr>) = f d"
  shows "preserves f (accept_outputs p m a c r)"
  unfolding accept_outputs_def by (intro frame_intros assms)

definition finished_with :: "execution_result \<Rightarrow> string \<Rightarrow> attempt_row \<Rightarrow> attempt_row" where
  "finished_with r h a = a\<lparr>a_state := r_status r, a_result := Some h, a_error := r_error r\<rparr>"

lemma record_result_tables:
  assumes "record_result p a t r h w = (Inr v, w')"
  shows "\<exists>m. m \<in> set (d_missions (db w)) \<and> m_id m = t_mission t \<and> check_state a m r = Inr ()
     \<and> r_status r \<in> set (TRANSITIONS (m_state m))
     \<and> tables (db w') = (shift_missions (t_mission t) (r_status r) (d_missions (db w)),
          update_where (\<lambda>x. t_id x = a_task a) (\<lambda>x. x\<lparr>t_state := r_status r\<rparr>) (d_tasks (db w)),
          update_where (\<lambda>x. a_id x = a_id a) (finished_with r h) (d_attempts (db w)))"
proof -
  from assms obtain m w1 w2 w3 m1 where m: "m \<in> set (d_missions (db w))" "m_id m = t_mission t" "check_state a m r = Inr ()"
    and acc: "accept_outputs p m a (t_capability t) r w = (Inr (), w1)" and w2: "db w2 = db w1"
    and tr: "transition p m (r_status r) None (w2\<lparr>db := set_tasks (\<lambda>x. t_id x = a_task a) (r_status r)
          (set_attempts (\<lambda>x. a_id x = a_id a) (finished_with r h) (db w2))\<rparr>) = (Inr m1, w3)"
    and d: "db w' = db w3"
    unfolding record_result_def finished_with_def
    by (auto simp: abind_Inr act_defs dest!: mission_by_id_Some readsD [OF reads_clock])
  have "tables (db w1) = tables (db w)"
    by (rule preservesD [OF frame_accept_outputs acc]) (simp_all add: tables_def)
  with m w2 transition_tables [OF tr] d show ?thesis
    by (intro exI [of _ m]) (auto simp: tables_def)
qed

lemma attempt_of_worker_Some:
  "attempt_of_worker d i worker = Some (a, t) \<Longrightarrow>
     a \<in> set (d_attempts d) \<and> a_id a = i \<and> a_worker a = worker \<and> t \<in> set (d_tasks d) \<and> t_id t = a_task a"
  by (auto simp: attempt_of_worker_def dest!: find_Some_iff')

lemma reads_check_epoch [reads_intros]: "reads (check_epoch p i)"
  unfolding check_epoch_def by (intro reads_intros)

lemma check_epoch_Inr:
  "check_epoch p i w = (Inr u, w') \<longleftrightarrow> w' = w \<and> map_of (d_epochs (db w)) i \<noteq> None
     \<and> map_of (d_epochs (db w)) i = credential_epoch p"
  by (auto simp: check_epoch_def act_simps)

lemma finish_body_Inr:
  assumes "finish_body p i r h w = (Inr v, w')"
  shows "\<exists>a t worker. attempt_of_worker (db w) i (identity p) = Some (a, t) \<and> authorize p w = (Inr worker, w)
     \<and> a_generation a = r_generation r \<and> map_of (d_epochs (db w)) i = credential_epoch p
     \<and> (a_result a = Some h \<and> v = accepted True (t_mission t) \<and> w' = w
        \<or> a_result a = None \<and> record_result p a t r h w = (Inr v, w'))"
  using assms unfolding finish_body_def
  by (auto simp: abind_Inr act_defs authorize_Inr check_epoch_Inr split: if_splits)

lemma finish_body_coherent:
  assumes st: "r_status r \<in> {Completed, Failed, Interrupted, Cancelled}"
  shows "commits coherent (finish_body p i r h)"
  unfolding commits_def
proof (intro allI impI)
  fix w v w'
  assume c: "coherent (db w)" and run: "finish_body p i r h w = (Inr v, w')"
  note c' = c [unfolded coherent_def]
  from finish_body_Inr [OF run] obtain a t where at: "attempt_of_worker (db w) i (identity p) = Some (a, t)"
    and cs: "w' = w \<or> record_result p a t r h w = (Inr v, w')" by blast
  from attempt_of_worker_Some [OF at] have a: "a \<in> set (d_attempts (db w))" and t: "t \<in> set (d_tasks (db w))" "t_id t = a_task a"
    by auto
  from cs show "coherent (db w')"
  proof
    assume "w' = w" with c show ?thesis by simp
  next
    assume "record_result p a t r h w = (Inr v, w')"
    from record_result_tables [OF this] obtain m where m: "check_state a m r = Inr ()"
      and tb: "tables (db w') = (shift_missions (t_mission t) (r_status r) (d_missions (db w)),
          update_where (\<lambda>x. t_id x = a_task a) (\<lambda>x. x\<lparr>t_state := r_status r\<rparr>) (d_tasks (db w)),
          update_where (\<lambda>x. a_id x = a_id a) (finished_with r h) (d_attempts (db w)))" by blast
    from m have ac: "active (a_state a)" by (auto simp: check_state_def)
    have 1: "update_where (\<lambda>x. a_id x = a_id a) (finished_with r h) (d_attempts (db w))
        = shift_attempts (d_tasks (db w)) (t_mission t) (finished_with r h) (d_attempts (db w))"
      unfolding shift_attempts_def by (rule update_where_cong) (simp_all add: attempt_of_active [OF c' a ac t])
    have 2: "update_where (\<lambda>x. t_id x = a_task a) (\<lambda>x. x\<lparr>t_state := r_status r\<rparr>) (d_tasks (db w))
        = shift_tasks (t_mission t) (r_status r) (d_tasks (db w))"
      unfolding shift_tasks_def by (rule update_where_cong) (simp_all add: task_of_attempt [OF c' t])
    have "coh (shift_missions (t_mission t) (r_status r) (d_missions (db w)))
        (shift_tasks (t_mission t) (r_status r) (d_tasks (db w)))
        (shift_attempts (d_tasks (db w)) (t_mission t) (finished_with r h) (d_attempts (db w)))"
      by (rule coh_shift [OF c']) (use st t(1) in \<open>auto simp: same_keys_def finished_with_def\<close>)
    with tb 1 2 show ?thesis by (simp add: tables_def coherent_def)
  qed
qed

end
