(* ===== verification/Control_Plane.thy ===== *)
theory Control_Plane
  imports Progress
begin

section \<open>The control plane as a transition system\<close>

text \<open>
  Every public operation of the service is a \<open>command\<close>; \<open>run_command\<close> executes it. A reachable world
  is one that any sequence of commands, by any principals and with any arguments, produces from a
  freshly migrated index (\<open>installed\<close>); commands are serialised by SQLite's write transactions.
\<close>

datatype command =
    CreateMission principal val
  | CreateCpuMission principal val
  | GetMission principal string
  | ListMissions principal
  | Events principal string
  | Dashboard principal
  | Workspaces principal
  | SimulationOnly principal
  | RevokeWorker principal string val
  | Approve principal string val
  | CancelMission principal string val
  | Retry principal string val
  | Claim principal val
  | Finish principal string execution_result
  | Nodes principal
  | AttemptState principal string
  | Upload principal string val
  | ListFiles principal string
  | Download principal string val val
  | Enroll val val
  | Rotate string bool
  | Restart

definition discard :: "'a app \<Rightarrow> unit app" where
  "discard m = abind m (\<lambda>_. ret ())"

fun run_command :: "coordinator \<Rightarrow> command \<Rightarrow> unit app" where
  "run_command coord (CreateMission p v) = discard (create_mission p v)"
| "run_command coord (CreateCpuMission p v) = discard (create_cpu_mission p v)"
| "run_command coord (GetMission p i) = discard (get_mission p i)"
| "run_command coord (ListMissions p) = discard (list_missions p)"
| "run_command coord (Events p i) = discard (events p i)"
| "run_command coord (Dashboard p) = discard (dashboard p)"
| "run_command coord (Workspaces p) = discard (workspaces p)"
| "run_command coord (SimulationOnly p) = discard (simulation_only p)"
| "run_command coord (RevokeWorker p i v) = discard (revoke_worker p i v)"
| "run_command coord (Approve p i v) = discard (approve coord p i v)"
| "run_command coord (CancelMission p i v) = discard (cancel p i v)"
| "run_command coord (Retry p i v) = discard (retry p i v)"
| "run_command coord (Claim p v) = discard (claim p v)"
| "run_command coord (Finish p i r) = discard (finish p i r)"
| "run_command coord (Nodes p) = discard (nodes p)"
| "run_command coord (AttemptState p i) = discard (attempt_state p i)"
| "run_command coord (Upload p ws v) = discard (upload p ws v)"
| "run_command coord (ListFiles p ws) = discard (list_files p ws)"
| "run_command coord (Download p ws f v) = discard (download p ws f v)"
| "run_command coord (Enroll c l) = discard (enroll c l)"
| "run_command coord (Rotate i b) = discard (rotate i b)"
| "run_command coord Restart = recover"

text \<open>\<open>migrate_index\<close> on an empty database: one workspace, and the worker of the first installation.\<close>

definition empty_db :: database where
  "empty_db = \<lparr>d_workspaces = [], d_missions = [], d_tasks = [], d_attempts = [], d_files = [], d_versions = [],
     d_results = [], d_events = [], d_operations = [], d_workers = [], d_epochs = []\<rparr>"

definition insert_workspace :: "workspace_row \<Rightarrow> unit app" where
  "insert_workspace r = insert_checked (\<lambda>d. ws_id r \<notin> set (map ws_id (d_workspaces d)))
     (\<lambda>d. d\<lparr>d_workspaces := d_workspaces d @ [r]\<rparr>)"

definition migrate_index :: "string \<Rightarrow> unit app" where
  "migrate_index raw =
     abind (new_id ''w'') (\<lambda>ws.
     abind (insert_workspace \<lparr>ws_id = ws, ws_owner = ''local-admin'', ws_project = ''local-project''\<rparr>) (\<lambda>_.
     abind (require (is_token (strip raw)) ''invalid_local_credential'' 500) (\<lambda>_.
     abind stamp_now (\<lambda>stamp.
     abind (gets (\<lambda>w. w_sha w (strip raw))) (\<lambda>digest.
     abind (gets w_settings) (\<lambda>st.
     insert_worker \<lparr>k_id = ''fake-cpu'', k_status = Active, k_credential = digest, k_epoch = 1,
       k_capabilities = VList [VStr DEMO], k_limits = default_limits st, k_created = stamp, k_updated = stamp\<rparr>))))))"

inductive installed :: "world \<Rightarrow> bool" where
  install: "db w0 = empty_db \<Longrightarrow> w_objects w0 = [] \<Longrightarrow> transaction (migrate_index raw) w0 = (Inr u, w) \<Longrightarrow> installed w"

inductive reachable :: "coordinator \<Rightarrow> world \<Rightarrow> bool" for coord where
  start: "installed w \<Longrightarrow> reachable coord w"
| step: "reachable coord w \<Longrightarrow> run_command coord c w = (r, w') \<Longrightarrow> reachable coord w'"

inductive_cases installedE: "installed w"

text \<open>One world is later than another if commands lead from it there.\<close>

inductive later :: "coordinator \<Rightarrow> world \<Rightarrow> world \<Rightarrow> bool" for coord where
  now: "later coord w w"
| next_command: "later coord w w1 \<Longrightarrow> run_command coord c w1 = (r, w2) \<Longrightarrow> later coord w w2"

lemma abind_lift_Inr: "abind (lift (Inr x)) f = f x"
  by (rule ext) (simp add: abind_def lift_def)

lemma abind_lift_Inl: "abind (lift (Inl e)) f = lift (Inl e)"
  by (rule ext) (simp add: abind_def lift_def)

lemma reads_mapA: "(\<And>x. reads (f x)) \<Longrightarrow> reads (mapA f xs)"
  unfolding reads_def
proof
  fix w assume f: "\<And>x. \<forall>w. db (snd (f x w)) = db w"
  show "db (snd (mapA f xs w)) = db w"
  proof (induction xs arbitrary: w)
    case Nil
    then show ?case by simp
  next
    case (Cons x xs)
    from f [of x] have "db (snd (f x w)) = db w" by simp
    with Cons show ?case by (auto split: prod.splits sum.splits) (metis snd_conv)+
  qed
qed

lemma reads_transaction [reads_intros]: "reads m \<Longrightarrow> reads (transaction m)"
  by (auto simp: reads_def transaction_def split: prod.splits sum.splits) (metis snd_conv)

subsection \<open>Histories\<close>

text \<open>
  \<open>history\<close> is the interface of a relation between databases that survives sequencing.
  \<open>command_history\<close> adds what each transaction of the service owes it; under that contract every
  command respects the relation, and so does every later world.
\<close>

definition moves :: "(database \<Rightarrow> database \<Rightarrow> bool) \<Rightarrow> 'a app \<Rightarrow> bool" where
  "moves R m \<longleftrightarrow> (\<forall>w x w'. m w = (Inr x, w') \<longrightarrow> R (db w) (db w'))"

definition advances :: "(database \<Rightarrow> database \<Rightarrow> bool) \<Rightarrow> 'a app \<Rightarrow> bool" where
  "advances R m \<longleftrightarrow> (\<forall>w r w'. m w = (r, w') \<longrightarrow> R (db w) (db w'))"

lemma movesD: "moves R m \<Longrightarrow> m w = (Inr x, w') \<Longrightarrow> R (db w) (db w')"
  by (auto simp: moves_def)

lemma advancesD: "advances R m \<Longrightarrow> m w = (r, w') \<Longrightarrow> R (db w) (db w')"
  by (auto simp: advances_def)

lemma advances_moves: "advances R m \<Longrightarrow> moves R m"
  by (auto simp: advances_def moves_def)

locale history =
  fixes R :: "database \<Rightarrow> database \<Rightarrow> bool"
  assumes stays: "R d d" and follows: "R d1 d2 \<Longrightarrow> R d2 d3 \<Longrightarrow> R d1 d3"
begin

lemma advances_reads: "reads m \<Longrightarrow> advances R m"
  by (auto simp: advances_def stays dest: readsD)

lemma moves_reads: "reads m \<Longrightarrow> moves R m"
  by (intro advances_moves advances_reads)

lemma advances_transaction: "moves R m \<Longrightarrow> advances R (transaction m)"
  unfolding advances_def moves_def
  by (metis stays sum.exhaust transaction_Inr transaction_error)

lemma moves_abind: "moves R m \<Longrightarrow> (\<And>x. moves R (f x)) \<Longrightarrow> moves R (abind m f)"
  unfolding moves_def abind_Inr by (metis follows)

lemma advances_abind:
  assumes "advances R m" and "\<And>x. advances R (f x)"
  shows "advances R (abind m f)"
  unfolding advances_def
proof (intro allI impI)
  fix w r w'
  assume run: "abind m f w = (r, w')"
  show "R (db w) (db w')"
  proof (cases "m w")
    case (Pair r1 w1)
    from advancesD [OF assms(1) Pair] have "R (db w) (db w1)" .
    with run Pair show ?thesis
      by (cases r1) (auto dest: advancesD [OF assms(2)] intro: follows)
  qed
qed

lemma advances_discard: "advances R m \<Longrightarrow> advances R (discard m)"
  unfolding discard_def by (rule advances_abind) (auto intro: advances_reads reads_intros)

lemma moves_foreach:
  assumes "\<And>x. moves R (f x)"
  shows "moves R (foreach f xs)"
  unfolding moves_def
proof (intro allI impI)
  fix w x w'
  assume "foreach f xs w = (Inr x, w')"
  then show "R (db w) (db w')"
  proof (induction xs arbitrary: w)
    case Nil
    then show ?case by (simp add: stays)
  next
    case (Cons y ys)
    obtain r w1 where y: "f y w = (r, w1)" by fastforce
    with Cons.prems obtain u where r: "r = Inr u" and rest: "foreach f ys w1 = (Inr x, w')" by (cases r) auto
    show ?case by (rule follows [OF movesD [OF assms y [unfolded r]] Cons.IH [OF rest]])
  qed
qed

lemma moves_insert: "(\<And>d. c d \<Longrightarrow> R d (u d)) \<Longrightarrow> moves R (insert_checked c u)"
  by (auto simp: moves_def insert_checked_Inr)

lemma moves_execute: "(\<And>d. R d (u d)) \<Longrightarrow> moves R (execute u)"
  by (auto simp: moves_def)

lemma moves_if: "moves R a \<Longrightarrow> moves R b \<Longrightarrow> moves R (if q then a else b)"
  by simp

lemmas moves_rules = moves_abind moves_if moves_reads

end

locale command_history = history +
  assumes append_operation: "R d (d\<lparr>d_operations := d_operations d @ [x]\<rparr>)"
    and fence_moves: "moves R (fence reason e worker)"
    and create_moves: "moves R (create_effect p c t ob ws refs)"
    and approve_moves: "moves R (approve_effect coord p i)"
    and cancel_moves: "moves R (cancel_effect p i)"
    and retry_moves: "moves R (retry_effect p i)"
    and claim_moves: "moves R (claim_effect p)"
    and finish_moves: "r_status r \<in> {Completed, Failed, Interrupted, Cancelled} \<Longrightarrow> moves R (finish_body p i r h)"
    and publish_moves: "moves R (publish p ws name raw expected None None)"
    and revoke_moves: "moves R (revoke_effect p k)"
    and enroll_advances: "advances R (enroll caps limits)"
    and rotate_advances: "advances R (rotate k b)"
begin

lemma moves_operate:
  assumes "moves R effect"
  shows "advances R (operate p oi ac v effect rl)"
proof -
  have "R (db w) (db w')" if run: "operate p oi ac v effect rl w = (Inr x, w')" for w x w'
    using operate_Inr [OF run]
  proof (elim conjE disjE exE)
    assume "db w' = db w" then show ?thesis by (simp add: stays)
  next
    fix w1 w2 y assume e: "db w1 = db w" "effect w1 = (Inr x, w2)"
      "db w' = (db w2)\<lparr>d_operations := d_operations (db w2) @ [y]\<rparr>"
    from follows [OF movesD [OF assms e(2)] append_operation] e show ?thesis by simp
  qed
  moreover have "R (db w) (db w')" if "operate p oi ac v effect rl w = (Inl e, w')" for w e w'
    using atomicD [OF atomic_operate that] stays by simp
  ultimately show ?thesis unfolding advances_def by (metis sum.exhaust)
qed

lemma advances_expire: "advances R expire"
  unfolding expire_def by (intro advances_transaction fence_moves)

lemma advances_finish: "advances R (finish p i r0)"
proof (cases "result_from_dict (result_to_dict r0)")
  case (Inl e)
  then have "finish p i r0 = abind (lift (require_role p ''worker'')) (\<lambda>_. lift (Inl e))"
    by (simp add: finish_def abind_lift_Inl)
  then show ?thesis by (simp add: advances_abind advances_reads reads_intros)
next
  case (Inr r)
  from finish_moves [OF result_status [OF Inr]] have body: "advances R (transaction (finish_body p i r h))" for h
    by (rule advances_transaction)
  have hash: "reads (result_hash r)" unfolding result_hash_def by (intro reads_intros)
  have "finish p i r0 = abind (lift (require_role p ''worker'')) (\<lambda>_. abind (lift (identifier_value (VStr i))) (\<lambda>_.
      abind (require (r_attempt r = i) ''attempt_mismatch'' 409) (\<lambda>_. abind expire (\<lambda>_.
      abind (result_hash r) (\<lambda>h. transaction (finish_body p i r h))))))"
    by (simp add: finish_def Inr abind_lift_Inr)
  then show ?thesis
    by (simp add: advances_abind advances_reads advances_expire body hash reads_intros)
qed

lemma advances_command: "advances R (run_command coord c)"
proof -
  have get: "advances R (get_mission p i)" "advances R (list_missions p)" "advances R (attempt_state p i)"
    "advances R (nodes p)" for p i
    unfolding get_mission_def list_missions_def attempt_state_def nodes_def
    by (intro advances_abind advances_expire advances_reads reads_mapA reads_intros)+
  have dash: "advances R (dashboard p)" for p
    unfolding dashboard_def split_beta by (intro advances_abind advances_expire get advances_reads reads_intros)
  have ro: "reads (download p ws f v)" "reads (list_files p ws)" "reads (events p i)" "reads (workspaces p)"
    "reads (simulation_only p)" for p ws f v i
    unfolding download_def list_files_def events_def workspaces_def simulation_only_def by (intro reads_intros)+
  have up: "advances R (upload p ws v)" for p ws v
    unfolding upload_def split_beta
    by (intro advances_abind moves_operate moves_abind publish_moves advances_reads moves_reads reads_intros)
  have cre: "advances R (create_with p v cap)" for p v cap
    unfolding create_with_def by (intro advances_abind moves_operate create_moves advances_reads reads_intros)
  have cmd: "advances R (abind (lift r) (\<lambda>d. operate p (get_or_none d s) ac v eff rl))" if "moves R eff" for r p s ac v eff rl
    by (intro advances_abind advances_reads moves_operate that reads_intros)
  show ?thesis
    by (cases c)
      (simp_all add: create_mission_def create_cpu_mission_def revoke_worker_def approve_def cancel_def retry_def
         claim_def recover_def advances_discard advances_abind advances_reads cmd get dash ro up cre advances_expire
         moves_operate approve_moves cancel_moves retry_moves claim_moves revoke_moves enroll_advances
         rotate_advances advances_finish advances_transaction fence_moves reads_intros)
qed

text \<open>A contract holds between a reachable world and every later one.\<close>

lemma later_respects:
  assumes "later coord w w'"
  shows "R (db w) (db w')"
  using assms
proof induction
  case (now w)
  then show ?case by (rule stays)
next
  case (next_command w w1 c r w2)
  show ?case by (rule follows [OF next_command.IH advancesD [OF advances_command next_command.hyps(2)]])
qed


end

end
