(* ===== verification/Invariants.thy ===== *)
theory Invariants
  imports Control_Plane
begin

section \<open>Invariants of the reachable control plane\<close>

text \<open>
  Coherence of missions, tasks and attempts in every reachable world, and what follows from it: an
  expired lease can always be fenced, a worker never holds two attempts, a mission that is running
  has exactly one active attempt.
\<close>

lemma frame_commits: "preserves tables m \<Longrightarrow> commits coherent m"
  by (auto simp: commits_def dest: preservesD intro: coherent_tables)

lemma frame_keeps: "preserves tables m \<Longrightarrow> keeps_db coherent m"
  unfolding keeps_db_def by (rule keepsI) (auto dest: preservesD intro: coherent_tables)

lemma frame_registry_audit [frame_intros]:
  "(\<And>d x. f (d\<lparr>d_events := x\<rparr>) = f d) \<Longrightarrow> preserves f (registry_audit k reason)"
  unfolding registry_audit_def insert_event_def by (intro frame_intros) auto

lemma reads_issue_credential [reads_intros]: "reads (issue_credential k e)"
  by (simp add: reads_def issue_credential_def Let_def)

lemma reads_refetch_worker [reads_intros]: "reads (refetch_worker k)"
  unfolding refetch_worker_def by (intro reads_intros)

lemma frame_revoke [frame_intros]:
  "(\<And>d x. f (d\<lparr>d_workers := x\<rparr>) = f d) \<Longrightarrow> preserves f (revoke k)"
  unfolding revoke_def
  by (intro frame_intros frame_reads [OF reads_refetch_worker] frame_reads [OF reads_stamp]) auto

lemma frame_enroll [frame_intros]:
  assumes "\<And>d x. f (d\<lparr>d_workers := x\<rparr>) = f d" "\<And>d x. f (d\<lparr>d_events := x\<rparr>) = f d"
  shows "preserves f (enroll c l)"
  unfolding enroll_def split_beta insert_worker_def
  by (intro frame_intros frame_reads [OF reads_refetch_worker] frame_reads [OF reads_issue_credential] assms)

lemma frame_rotate [frame_intros]:
  assumes "\<And>d x. f (d\<lparr>d_workers := x\<rparr>) = f d" "\<And>d x. f (d\<lparr>d_events := x\<rparr>) = f d"
  shows "preserves f (rotate k b)"
  unfolding rotate_def split_beta
  by (intro frame_intros frame_reads [OF reads_refetch_worker] frame_reads [OF reads_issue_credential] assms)

lemma tables_other [simp]:
  "tables (d\<lparr>d_workspaces := x1\<rparr>) = tables d" "tables (d\<lparr>d_files := x2\<rparr>) = tables d"
  "tables (d\<lparr>d_versions := x3\<rparr>) = tables d" "tables (d\<lparr>d_results := x4\<rparr>) = tables d"
  "tables (d\<lparr>d_events := x5\<rparr>) = tables d" "tables (d\<lparr>d_operations := x6\<rparr>) = tables d"
  "tables (d\<lparr>d_workers := x7\<rparr>) = tables d" "tables (d\<lparr>d_epochs := x8\<rparr>) = tables d"
  by (simp_all add: tables_def)

lemma revoke_coherent: "commits coherent (revoke_effect p k)"
  unfolding revoke_effect_def
  by (intro commits_abind fence_coherent frame_commits frame_intros) simp_all


lemma migrate_index_Inr:
  "migrate_index raw w = (Inr u, w') \<Longrightarrow>
     \<exists>ws k. db w' = (db w)\<lparr>d_workspaces := d_workspaces (db w) @ [ws], d_workers := d_workers (db w) @ [k]\<rparr>
       \<and> k_epoch k = 1 \<and> k_status k = Active \<and> k_id k = ''fake-cpu'' \<and> w_objects w' = w_objects w"
  by (auto simp: migrate_index_def abind_Inr act_defs new_id_def insert_workspace_def insert_checked_Inr
      insert_worker_def stamp_now_def clock_now_def) (intro exI conjI, rule refl, simp_all)

lemma installed_db:
  assumes "installed w"
  shows "\<exists>ws k. db w = empty_db\<lparr>d_workspaces := [ws], d_workers := [k]\<rparr> \<and> k_epoch k = 1 \<and> k_status k = Active
     \<and> k_id k = ''fake-cpu'' \<and> w_objects w = []"
proof -
  from assms obtain w0 raw u where w0: "db w0 = empty_db" "w_objects w0 = []"
    and "transaction (migrate_index raw) w0 = (Inr u, w)" by (auto elim: installedE)
  then have "migrate_index raw w0 = (Inr u, w)" by (simp add: transaction_Inr)
  from migrate_index_Inr [OF this] w0 show ?thesis by (auto simp: empty_db_def)
qed

lemma installed_coherent: "installed w \<Longrightarrow> coherent (db w)"
  by (drule installed_db) (auto simp: coherent_def coh_def empty_db_def)

subsection \<open>The life cycle of a mission\<close>

text \<open>
  The abstract specification of a mission's progress is the graph of \<open>TRANSITIONS\<close>. \<open>progress\<close> says
  that an index refines it: coherence is kept, and every mission is still there, in a state the
  graph reaches from its old one.
\<close>

inductive lifecycle_reach :: "lifecycle \<Rightarrow> lifecycle \<Rightarrow> bool" where
  reach_here: "lifecycle_reach s s"
| reach_next: "lifecycle_reach s t \<Longrightarrow> u \<in> set (TRANSITIONS t) \<Longrightarrow> lifecycle_reach s u"

lemma lifecycle_reach_step: "u \<in> set (TRANSITIONS s) \<Longrightarrow> lifecycle_reach s u"
  by (meson reach_here reach_next)

lemma lifecycle_reach_trans: "lifecycle_reach t u \<Longrightarrow> lifecycle_reach s t \<Longrightarrow> lifecycle_reach s u"
  by (induction rule: lifecycle_reach.induct) (auto intro: reach_next)

lemma reach_final: "lifecycle_reach s t \<Longrightarrow> s \<in> {Completed, Cancelled} \<Longrightarrow> t = s"
  by (induction rule: lifecycle_reach.induct) auto

lemma reach_draft: "lifecycle_reach s t \<Longrightarrow> t = Draft \<Longrightarrow> s = Draft"
  by (induction rule: lifecycle_reach.induct) (auto, case_tac t, auto)

definition paths :: "mission_row list \<Rightarrow> mission_row list \<Rightarrow> bool" where
  "paths ms ms' \<longleftrightarrow> (\<forall>m\<in>set ms. \<exists>m'\<in>set ms'. m_id m' = m_id m \<and> lifecycle_reach (m_state m) (m_state m'))"

lemma paths_refl: "paths ms ms"
  by (auto simp: paths_def intro: reach_here)

lemma paths_trans: "paths ms1 ms2 \<Longrightarrow> paths ms2 ms3 \<Longrightarrow> paths ms1 ms3"
  unfolding paths_def by (metis lifecycle_reach_trans)

lemma paths_shift:
  assumes "\<And>m. m \<in> set ms \<Longrightarrow> m_id m = i \<Longrightarrow> lifecycle_reach (m_state m) s"
  shows "paths ms (shift_missions i s ms)"
  unfolding paths_def
proof
  fix m assume m: "m \<in> set ms"
  show "\<exists>m'\<in>set (shift_missions i s ms). m_id m' = m_id m \<and> lifecycle_reach (m_state m) (m_state m')"
  proof (cases "m_id m = i")
    case True
    with assms [OF m True] shift_missions_self [OF m True, of s] show ?thesis by (intro bexI) auto
  next
    case False
    from shift_missions_other [OF m False, of s] show ?thesis by (intro bexI [of _ m]) (auto intro: reach_here)
  qed
qed

lemma paths_unique_shift:
  assumes c: "coherent d" and m: "m \<in> set (d_missions d)" "m_id m = i" and r: "lifecycle_reach (m_state m) s"
  shows "paths (d_missions d) (shift_missions i s (d_missions d))"
  using mission_unique [OF c _ m(1)] m(2) r by (intro paths_shift) auto

definition progress :: "database \<Rightarrow> database \<Rightarrow> bool" where
  "progress d d' \<longleftrightarrow> (coherent d \<longrightarrow> coherent d' \<and> paths (d_missions d) (d_missions d'))"

lemma progress_trans: "progress d1 d2 \<Longrightarrow> progress d2 d3 \<Longrightarrow> progress d1 d3"
  unfolding progress_def by (blast intro: paths_trans)

lemma progress_commits:
  assumes "commits coherent m"
    and "\<And>w x w'. coherent (db w) \<Longrightarrow> m w = (Inr x, w') \<Longrightarrow> paths (d_missions (db w)) (d_missions (db w'))"
  shows "moves progress m"
  using assms unfolding moves_def progress_def commits_def by blast

lemma progress_frame:
  assumes "preserves tables m"
  shows "advances progress m"
  unfolding advances_def progress_def
  using preservesD [OF assms] coherent_tables by (auto simp: tables_def paths_refl)

lemma fence_progress: "moves progress (fence reason e worker)"
proof (rule progress_commits [OF fence_coherent])
  fix w x w'
  assume c: "coherent (db w)" and run: "fence reason e worker w = (Inr x, w')"
  have step: "paths (d_missions (db w)) (d_missions (db w'))"
    if c: "coherent (db w)" and f: "fenceable (db w) (a, t)" and run: "interrupt reason a t w = (Inr v, w')" for a t w v w'
  proof -
    from f have at: "a \<in> set (d_attempts (db w))" "active (a_state a)" "t \<in> set (d_tasks (db w))" "t_id t = a_task a"
      by (auto simp: fenceable_def)
    note c' = c [unfolded coherent_def]
    from cohD(5) [OF c' at(3)] obtain m where m: "m \<in> set (d_missions (db w))" "m_id m = t_mission t" "m_state m = t_state t"
      by blast
    with coh_attempt_task(2) [OF c' at(1,3,4) at(2)] at(2) have "Interrupted \<in> set (TRANSITIONS (m_state m))"
      by (auto simp: active_def)
    with interrupt_tables [OF c at run] paths_unique_shift [OF c m(1,2)] lifecycle_reach_step
    show ?thesis by (simp add: tables_def)
  qed
  have "coherent (db w') \<and> paths (d_missions (db w)) (d_missions (db w'))"
    by (rule fence_history [OF _ _ _ c run]) (rule paths_refl, erule (1) paths_trans, erule (2) step)
  then show "paths (d_missions (db w)) (d_missions (db w'))" by blast
qed

lemma create_progress: "moves progress (create_effect p cap t ob ws refs)"
  by (rule progress_commits [OF create_coherent])
    (auto dest!: create_effect_tables simp: tables_def paths_def intro: reach_here)

lemma approve_progress: "moves progress (approve_effect coord p i)"
proof (rule progress_commits [OF approve_coherent])
  fix w x w'
  assume c: "coherent (db w)" and run: "approve_effect coord p i w = (Inr x, w')"
  have "lifecycle_reach Draft Queued" by (rule reach_next [OF lifecycle_reach_step, of Approved]) simp_all
  with approve_effect_tables [OF run] paths_unique_shift [OF c] show "paths (d_missions (db w)) (d_missions (db w'))"
    by (auto simp: tables_def)
qed

lemma cancel_progress: "moves progress (cancel_effect p i)"
proof (rule progress_commits [OF cancel_coherent])
  fix w x w'
  assume c: "coherent (db w)" and run: "cancel_effect p i w = (Inr x, w')"
  from cancel_effect_tables [OF c run] paths_unique_shift [OF c] lifecycle_reach_step
  show "paths (d_missions (db w)) (d_missions (db w'))"
    by (auto simp: tables_def Let_def paths_refl)
qed

lemma retry_progress: "moves progress (retry_effect p i)"
proof (rule progress_commits [OF retry_coherent])
  fix w x w'
  assume c: "coherent (db w)" and run: "retry_effect p i w = (Inr x, w')"
  from retry_effect_tables [OF c run] paths_unique_shift [OF c] lifecycle_reach_step
  show "paths (d_missions (db w)) (d_missions (db w'))" by (auto simp: tables_def)
qed

lemma claim_progress: "moves progress (claim_effect p)"
  unfolding moves_def
proof (intro allI impI)
  fix w x w'
  assume run: "claim_effect p w = (Inr x, w')"
  then show "progress (db w) (db w')"
  proof (cases rule: claim_effect_cases)
    case (1 worker w1)
    with movesD [OF fence_progress 1(2)] show ?thesis by simp
  next
    case (2 worker w1 t)
    have "progress (db w1) (db w')"
      unfolding progress_def
    proof (intro impI conjI)
      assume c: "coherent (db w1)"
      then show "coherent (db w')" by (rule start_attempt_coherent [OF _ 2(4,3,5)])
      from start_attempt_tables [OF 2(5)] paths_unique_shift [OF c] lifecycle_reach_step
      show "paths (d_missions (db w1)) (d_missions (db w'))" by (auto simp: tables_def)
    qed
    with movesD [OF fence_progress 2(2)] show ?thesis by (rule progress_trans)
  qed
qed

lemma finish_progress:
  assumes "r_status r \<in> {Completed, Failed, Interrupted, Cancelled}"
  shows "moves progress (finish_body p i r h)"
proof (rule progress_commits [OF finish_body_coherent [OF assms]])
  fix w x w'
  assume c: "coherent (db w)" and run: "finish_body p i r h w = (Inr x, w')"
  from finish_body_Inr [OF run] consider "w' = w" | a t where "record_result p a t r h w = (Inr x, w')" by blast
  then show "paths (d_missions (db w)) (d_missions (db w'))"
  proof cases
    case 1
    then show ?thesis by (simp add: paths_refl)
  next
    case (2 a t)
    from record_result_tables [OF 2] paths_unique_shift [OF c] lifecycle_reach_step show ?thesis
      by (auto simp: tables_def)
  qed
qed

interpretation sequencing: history progress
  by unfold_locales (auto simp: progress_def paths_refl intro: paths_trans)

lemma revoke_progress: "moves progress (revoke_effect p k)"
  unfolding revoke_effect_def
  by (intro sequencing.moves_abind fence_progress advances_moves [OF progress_frame] frame_intros) simp_all

interpretation lifecycle: command_history progress
  by unfold_locales
    (simp_all add: fence_progress create_progress approve_progress cancel_progress retry_progress claim_progress
       finish_progress revoke_progress advances_moves progress_frame frame_publish frame_enroll frame_rotate,
     simp add: progress_def coherent_def paths_refl)

lemma run_coherent: "run_command coord c w = (r, w') \<Longrightarrow> coherent (db w) \<Longrightarrow> coherent (db w')"
  using advancesD [OF lifecycle.advances_command] unfolding progress_def by blast

lemma reachable_coh: "reachable coord w \<Longrightarrow> coherent (db w)"
  by (induction rule: reachable.induct) (auto intro: installed_coherent run_coherent)

lemma later_reachable: "later coord w w' \<Longrightarrow> reachable coord w \<Longrightarrow> reachable coord w'"
  by (induction rule: later.induct) (auto intro: reachable.step)

end
