(* ===== verification/History.thy ===== *)
theory History
  imports Invariants "HOL-Library.Sublist"
begin

section \<open>What no command can undo: contracts on the elementary writes\<close>

text \<open>
  \<open>table_history\<close> lists the elementary writes of the storage layer; a relation that every one of them
  respects is respected by every transaction of the service, hence by every command
  (\<open>command_history\<close>).
\<close>

subsection \<open>The elementary writes\<close>

definition attempt_update :: "(attempt_row \<Rightarrow> attempt_row) \<Rightarrow> bool" where
  "attempt_update f \<longleftrightarrow> (\<forall>a. a_id (f a) = a_id a \<and> a_task (f a) = a_task a \<and> a_number (f a) = a_number a
     \<and> a_worker (f a) = a_worker a \<and> a_generation (f a) = a_generation a \<and> a_deadline (f a) = a_deadline a
     \<and> a_expected (f a) = a_expected a)"

definition revoked_by :: "string \<Rightarrow> string \<Rightarrow> database \<Rightarrow> database" where
  "revoked_by i stamp = (\<lambda>d. d\<lparr>d_workers := update_where (\<lambda>x. k_id x = i)
     (\<lambda>x. x\<lparr>k_status := Revoked, k_epoch := k_epoch x + 1, k_updated := stamp\<rparr>) (d_workers d)\<rparr>)"

definition rotated_by :: "string \<Rightarrow> int \<Rightarrow> string \<Rightarrow> string \<Rightarrow> database \<Rightarrow> database" where
  "rotated_by i e c stamp = (\<lambda>d. d\<lparr>d_workers := update_where (\<lambda>x. k_id x = i)
     (\<lambda>x. x\<lparr>k_credential := c, k_epoch := e + 1, k_status := Active, k_updated := stamp\<rparr>) (d_workers d)\<rparr>)"

definition fresh_version :: "database \<Rightarrow> version_row \<Rightarrow> bool" where
  "fresh_version d v \<longleftrightarrow>
     v_number v = next_version_number (latest d (v_file v)) \<and> v_number v \<le> 100 \<and> v_file v \<in> set (map f_id (d_files d))"

locale table_history = history +
  assumes add_event: "e_seq e = next_sequence d \<Longrightarrow> R d (d\<lparr>d_events := d_events d @ [e]\<rparr>)"
    and add_operation: "R d (d\<lparr>d_operations := d_operations d @ [x]\<rparr>)"
    and add_mission: "m_id m \<notin> set (map m_id (d_missions d)) \<Longrightarrow> m_workspace m \<in> set (map ws_id (d_workspaces d)) \<Longrightarrow>
           R d (d\<lparr>d_missions := d_missions d @ [m]\<rparr>)"
    and add_task: "R d (d\<lparr>d_tasks := d_tasks d @ [t]\<rparr>)"
    and add_attempt: "R d (d\<lparr>d_attempts := d_attempts d @ [a]\<rparr>)"
    and add_epoch: "R d (d\<lparr>d_epochs := d_epochs d @ [ep]\<rparr>)"
    and add_first: "f_id f \<notin> set (map f_id (d_files d)) \<Longrightarrow> v_file v = f_id f \<Longrightarrow> v_number v = 1 \<Longrightarrow>
           R d (d\<lparr>d_files := d_files d @ [f], d_versions := d_versions d @ [v]\<rparr>)"
    and add_version: "fresh_version d v \<Longrightarrow> R d (d\<lparr>d_versions := d_versions d @ [v]\<rparr>)"
    and add_result: "R d (d\<lparr>d_results := d_results d @ [rs]\<rparr>)"
    and add_worker: "k_id k \<notin> set (map k_id (d_workers d)) \<Longrightarrow> R d (d\<lparr>d_workers := d_workers d @ [k]\<rparr>)"
    and move_mission: "R d (set_mission_state i s d)"
    and move_tasks: "R d (set_tasks T s d)"
    and move_attempts: "attempt_update g \<Longrightarrow> R d (set_attempts A g d)"
    and revoke_row: "R d (revoked_by i stamp d)"
    and rotate_row: "worker_by_id d i = Some k \<Longrightarrow> R d (rotated_by i (k_epoch k) c stamp d)"
begin

lemma moves_insert_event: "moves R (insert_event i m ws ac st ty ds)"
  unfolding insert_event_def by (intro moves_insert add_event) simp

lemma moves_audit: "moves R (audit p ws m ty ds)"
  unfolding audit_def by (intro moves_rules moves_insert_event reads_intros)

lemma moves_transition: "moves R (transition p row s reason)"
  unfolding transition_def by (intro moves_rules moves_audit moves_execute move_mission reads_intros)

lemma moves_interrupt: "moves R (interrupt reason a t)"
  unfolding interrupt_def
  by (intro moves_rules moves_transition moves_execute move_attempts move_tasks reads_intros)
    (simp add: attempt_update_def)

lemma moves_fence: "moves R (fence reason e worker)"
  unfolding fence_def split_beta
  by (intro moves_rules moves_foreach moves_interrupt reads_intros)

lemma moves_create: "moves R (create_effect p c t ob ws refs)"
  unfolding create_effect_def insert_mission_def
  by (intro moves_rules moves_audit moves_insert add_mission reads_intros) simp_all

lemma moves_approve: "moves R (approve_effect coord p i)"
  unfolding approve_effect_def insert_task_def
  by (intro moves_rules moves_transition moves_insert add_task reads_intros)

lemma moves_cancel: "moves R (cancel_effect p i)"
  unfolding cancel_effect_def Let_def
  by (intro moves_rules moves_transition moves_execute move_tasks move_attempts reads_intros)
    (simp add: attempt_update_def)

lemma moves_retry: "moves R (retry_effect p i)"
  unfolding retry_effect_def
  by (intro moves_rules moves_transition moves_execute move_tasks reads_intros)

lemma moves_start: "moves R (start_attempt p k t)"
  unfolding start_attempt_def insert_attempt_def insert_epoch_def
  by (intro moves_rules moves_transition moves_audit moves_insert moves_execute add_attempt add_epoch move_tasks reads_intros)

lemma moves_claim: "moves R (claim_effect p)"
proof -
  have "moves R (case t of None \<Rightarrow> ret no_request | Some t \<Rightarrow> start_attempt p k t)" for t k
    by (cases t) (simp_all add: moves_start moves_reads reads_intros)
  then show ?thesis
    unfolding claim_effect_def by (intro moves_abind moves_if moves_fence moves_reads [OF reads_authorize]
      moves_reads [OF reads_select] moves_reads [OF reads_ret])
qed

lemma moves_publish: "moves R (publish p ws name raw expected m a)"
  unfolding moves_def
proof (intro allI impI)
  fix w :: world and x w'
  let ?d = "db w"
  assume run: "publish p ws name raw expected m a w = (Inr x, w')"
  obtain vid out where x: "x = (vid, out)" by fastforce
  from publish_Inr [OF run [unfolded x]] obtain fid v e where
    d': "db w' = ?d\<lparr>d_files := files_after ?d ws name fid, d_versions := d_versions ?d @ [v], d_events := d_events ?d @ [e]\<rparr>"
    and f: "case file_by_name ?d ws name of Some f \<Rightarrow> fid = f_id f | None \<Rightarrow> fid \<notin> set (map f_id (d_files ?d))"
    and fs: "fid \<in> set (map f_id (files_after ?d ws name fid))"
    and v: "v_file v = fid" "v_number v = next_version_number (previous_version ?d (file_by_name ?d ws name))"
    and e: "e_seq e = next_sequence ?d"
    and small: "\<forall>u. previous_version ?d (file_by_name ?d ws name) = Some u \<longrightarrow> v_number u < 100"
    by (auto simp: Let_def)
  let ?d1 = "?d\<lparr>d_files := files_after ?d ws name fid, d_versions := d_versions ?d @ [v]\<rparr>"
  have "R ?d ?d1"
  proof (cases "file_by_name ?d ws name")
    case None
    with f v show ?thesis
      using add_first [of "\<lparr>f_id = fid, f_workspace = ws, f_name = name\<rparr>" ?d v]
      by (simp add: files_after_def previous_version_def next_version_number_def)
  next
    case (Some g)
    with f v fs small have "fresh_version ?d v"
      by (auto simp: fresh_version_def files_after_def previous_version_def next_version_number_def split: option.splits)
    from add_version [OF this] Some show ?thesis by (simp add: files_after_def)
  qed
  moreover have "R ?d1 (?d1\<lparr>d_events := d_events ?d1 @ [e]\<rparr>)"
    by (rule add_event) (simp add: e next_sequence_def)
  ultimately show "R ?d (db w')" using d' by (simp add: follows)
qed

lemma moves_publish_result: "moves R (publish_result p m a c out)"
  unfolding publish_result_def split_beta insert_result_def
  by (intro moves_rules moves_publish moves_insert add_result reads_intros)

lemma moves_accept: "moves R (accept_outputs p m a c r)"
  unfolding accept_outputs_def by (intro moves_rules moves_publish_result reads_intros)

lemma moves_record: "moves R (record_result p a t r h)"
  unfolding record_result_def
  by (intro moves_rules moves_accept moves_transition moves_execute move_attempts move_tasks reads_intros)
    (simp add: attempt_update_def)

lemma moves_finish: "moves R (finish_body p i r h)"
  unfolding finish_body_def split_beta by (intro moves_rules moves_record reads_intros)

lemma moves_registry_audit: "moves R (registry_audit k reason)"
  unfolding registry_audit_def by (intro moves_rules moves_insert_event reads_intros)

lemma moves_revoke: "moves R (revoke k)"
  unfolding revoke_def
  by (intro moves_rules moves_execute revoke_row [unfolded revoked_by_def] reads_intros)

lemma moves_revoke_effect: "moves R (revoke_effect p k)"
  unfolding revoke_effect_def by (intro moves_rules moves_revoke moves_fence moves_audit reads_intros)

lemma advances_enroll: "advances R (enroll c l)"
  unfolding enroll_def split_beta insert_worker_def
  by (intro advances_abind advances_transaction advances_reads reads_intros
      moves_abind moves_insert moves_registry_audit add_worker moves_reads) simp

lemma advances_rotate: "advances R (rotate k b)"
proof -
  have "moves R (abind (select (\<lambda>d. worker_by_id d k)) (\<lambda>row.
       abind (found row ''not_found'' 404) (\<lambda>r.
       abind (require (\<not> (k_status r = Revoked \<and> \<not> b)) ''explicit_reactivation_required'' 409) (\<lambda>_.
       abind (issue_credential k (k_epoch r + 1)) (\<lambda>(digest, path).
       abind stamp_now (\<lambda>stamp.
       abind (execute (rotated_by k (k_epoch r) digest stamp)) (\<lambda>_. f path)))))))"
    if f: "\<And>path. moves R (f path)" for f :: "string \<Rightarrow> 'b app"
    unfolding moves_def
  proof (intro allI impI)
    fix w x w'
    assume "abind (select (\<lambda>d. worker_by_id d k)) (\<lambda>row.
       abind (found row ''not_found'' 404) (\<lambda>r.
       abind (require (\<not> (k_status r = Revoked \<and> \<not> b)) ''explicit_reactivation_required'' 409) (\<lambda>_.
       abind (issue_credential k (k_epoch r + 1)) (\<lambda>(digest, path).
       abind stamp_now (\<lambda>stamp.
       abind (execute (rotated_by k (k_epoch r) digest stamp)) (\<lambda>_. f path)))))) w = (Inr x, w')"
    then obtain r digest path w1 w2 stamp where r: "worker_by_id (db w) k = Some r"
      and i: "issue_credential k (k_epoch r + 1) w = (Inr (digest, path), w1)"
      and t: "stamp_now w1 = (Inr stamp, w2)"
      and rest: "f path (w2\<lparr>db := rotated_by k (k_epoch r) digest stamp (db w2)\<rparr>) = (Inr x, w')"
      by (auto simp: abind_Inr act_defs)
    have "db w2 = db w" using readsD [OF reads_issue_credential i] readsD [OF reads_stamp t] by simp
    with rotate_row [OF r, of digest stamp] movesD [OF f rest] show "R (db w) (db w')"
      by (auto intro: follows)
  qed
  note step = this
  have tail: "moves R (abind (registry_audit k (if b then ''explicit_reactivation'' else ''credential_rotation''))
      (\<lambda>_. abind (refetch_worker k) (\<lambda>public. ret (public, path))))" for path
    by (intro moves_abind moves_registry_audit moves_reads [OF reads_refetch_worker] moves_reads [OF reads_ret])
  from step [OF tail]
  show ?thesis
    unfolding rotate_def split_beta rotated_by_def
    by (intro advances_abind advances_transaction advances_reads reads_intros)
qed

end

sublocale table_history \<subseteq> command_history
  by unfold_locales
    (simp_all add: add_operation moves_fence moves_create moves_approve moves_cancel moves_retry moves_claim moves_finish
       moves_publish moves_revoke_effect advances_enroll advances_rotate)

end
