(* ===== verification/Ledger.thy ===== *)
theory Ledger
  imports History
begin

section \<open>The histories the index promises\<close>

text \<open>
  The contracts of \<open>table_history\<close> on the model: the audit is append-only and its sequence numbers
  increase; versions, results, operations and attempt epochs are never rewritten; the columns of a
  mission and of an attempt that are not progress never change; a worker's credential epoch never
  goes back and its row never changes without a new epoch; the versions of a file are numbered from
  1 without a gap.
\<close>

lemmas table_writes = set_mission_state_def set_tasks_def set_attempts_def revoked_by_def rotated_by_def

definition audit_grows :: "database \<Rightarrow> database \<Rightarrow> bool" where
  "audit_grows d d' \<longleftrightarrow> prefix (d_events d) (d_events d')"

interpretation audit_log: table_history audit_grows
  by unfold_locales (auto simp: audit_grows_def table_writes)

definition records_grow :: "database \<Rightarrow> database \<Rightarrow> bool" where
  "records_grow d d' \<longleftrightarrow> prefix (d_versions d) (d_versions d') \<and> prefix (d_results d) (d_results d')
     \<and> prefix (d_operations d) (d_operations d') \<and> prefix (d_epochs d) (d_epochs d')"

interpretation records: table_history records_grow
  by unfold_locales (auto simp: records_grow_def table_writes)

type_synonym mission_columns = "string \<times> string \<times> string \<times> string \<times> string \<times> string \<times> string \<times> string list"

definition mission_columns :: "mission_row \<Rightarrow> mission_columns" where
  "mission_columns m = (m_id m, m_owner m, m_project m, m_workspace m, m_title m, m_objective m, m_created m, m_files m)"

definition attempt_columns :: "attempt_row \<Rightarrow> string \<times> string \<times> int \<times> string \<times> string \<times> rat \<times> string option" where
  "attempt_columns a = (a_id a, a_task a, a_number a, a_worker a, a_generation a, a_deadline a, a_expected a)"

definition columns_fixed :: "database \<Rightarrow> database \<Rightarrow> bool" where
  "columns_fixed d d' \<longleftrightarrow> prefix (map mission_columns (d_missions d)) (map mission_columns (d_missions d'))
     \<and> prefix (map attempt_columns (d_attempts d)) (map attempt_columns (d_attempts d'))"

lemma map_mission_columns: "map mission_columns (update_where P (\<lambda>m. m\<lparr>m_state := s\<rparr>) ms) = map mission_columns ms"
  by (rule map_update_where) (simp add: mission_columns_def)

lemma map_attempt_columns: "attempt_update f \<Longrightarrow> map attempt_columns (update_where P f as) = map attempt_columns as"
  by (rule map_update_where) (simp add: attempt_columns_def attempt_update_def)

interpretation columns: table_history columns_fixed
  by unfold_locales (auto simp: columns_fixed_def table_writes map_mission_columns map_attempt_columns)

definition ordered_events :: "database \<Rightarrow> bool" where
  "ordered_events d \<longleftrightarrow> sorted_wrt (<) (map e_seq (d_events d))"

lemma foldr_max_upper: "x \<in> set xs \<Longrightarrow> x \<le> foldr max xs (b::int)"
  by (induction xs) (auto simp: le_max_iff_disj)

lemma next_sequence_greater: "e \<in> set (d_events d) \<Longrightarrow> e_seq e < next_sequence d"
  using foldr_max_upper [of "e_seq e" "map e_seq (d_events d)" 0] by (auto simp: next_sequence_def)

definition order_kept :: "database \<Rightarrow> database \<Rightarrow> bool" where
  "order_kept d d' \<longleftrightarrow> (ordered_events d \<longrightarrow> ordered_events d')"

interpretation event_order: table_history order_kept
  by unfold_locales (auto simp: order_kept_def ordered_events_def table_writes sorted_wrt_append next_sequence_greater)

subsection \<open>Worker epochs\<close>

definition worker_at :: "database \<Rightarrow> string \<Rightarrow> int \<Rightarrow> worker_row \<Rightarrow> bool" where
  "worker_at d i e k \<longleftrightarrow> k \<in> set (d_workers d) \<and> k_id k = i \<and> k_epoch k = e"

definition epochs_advance :: "database \<Rightarrow> database \<Rightarrow> bool" where
  "epochs_advance d d' \<longleftrightarrow> (distinct (map k_id (d_workers d)) \<longrightarrow> distinct (map k_id (d_workers d')) \<and>
     (\<forall>k\<in>set (d_workers d). \<exists>k'\<in>set (d_workers d'). k_id k' = k_id k \<and> (k' = k \<or> k_epoch k < k_epoch k')))"

lemma epochs_update:
  assumes "distinct (map k_id (d_workers d))" and "\<And>k. k_id (f k) = k_id k"
    and "\<And>k. k \<in> set (d_workers d) \<Longrightarrow> k_id k = i \<Longrightarrow> k_epoch k < k_epoch (f k)"
  shows "epochs_advance d (d\<lparr>d_workers := update_where (\<lambda>x. k_id x = i) f (d_workers d)\<rparr>)"
proof -
  have "\<exists>k'\<in>set (update_where (\<lambda>x. k_id x = i) f (d_workers d)). k_id k' = k_id k \<and> (k' = k \<or> k_epoch k < k_epoch k')"
    if "k \<in> set (d_workers d)" for k
    using that assms(2,3) by (intro bexI [of _ "if k_id k = i then f k else k"]) (auto simp: set_update_where)
  then show ?thesis using assms(1,2) by (simp add: epochs_advance_def map_update_where)
qed

lemma epochs_trans: "epochs_advance d1 d2 \<Longrightarrow> epochs_advance d2 d3 \<Longrightarrow> epochs_advance d1 d3"
  unfolding epochs_advance_def by (metis order_less_trans)

lemma epochs_revoke: "epochs_advance d (revoked_by i stamp d)"
proof (cases "distinct (map k_id (d_workers d))")
  case True
  then show ?thesis unfolding revoked_by_def by (intro epochs_update) auto
qed (simp add: epochs_advance_def)

lemma epochs_rotate:
  assumes "worker_by_id d i = Some k"
  shows "epochs_advance d (rotated_by i (k_epoch k) c stamp d)"
proof (cases "distinct (map k_id (d_workers d))")
  case True
  have "x = k" if "x \<in> set (d_workers d)" "k_id x = i" for x
    using find_key_unique [OF True that] assms by (simp add: worker_by_id_def)
  then show ?thesis unfolding rotated_by_def by (intro epochs_update [OF True]) auto
qed (simp add: epochs_advance_def)

interpretation worker_epochs: table_history epochs_advance
  by unfold_locales
    (auto simp: epochs_revoke epochs_rotate intro: epochs_trans,
     auto simp: epochs_advance_def set_mission_state_def set_tasks_def set_attempts_def)

subsection \<open>Version numbers\<close>

definition file_versions :: "database \<Rightarrow> string \<Rightarrow> version_row list" where
  "file_versions d f = filter (\<lambda>v. v_file v = f) (d_versions d)"

definition numbered :: "database \<Rightarrow> bool" where
  "numbered d \<longleftrightarrow> (\<forall>v\<in>set (d_versions d). v_file v \<in> set (map f_id (d_files d))) \<and>
     (\<forall>f. length (file_versions d f) \<le> 100 \<and>
          map v_number (file_versions d f) = map (\<lambda>i. int i + 1) [0..<length (file_versions d f)])"

lemma numbered_latest:
  assumes "numbered d"
  shows "latest d f = (if file_versions d f = [] then None else Some (last (file_versions d f)))"
    and "file_versions d f \<noteq> [] \<Longrightarrow> v_number (last (file_versions d f)) = int (length (file_versions d f))"
proof -
  let ?vs = "file_versions d f"
  from assms have nums: "map v_number ?vs = map (\<lambda>i. int i + 1) [0..<length ?vs]" by (simp add: numbered_def)
  have "sorted (map (\<lambda>i. int i + 1) [0..<n])" for n by (rule sorted_iff_nth_mono [THEN iffD2]) (auto simp: nth_append)
  then have "sorted (map v_number ?vs)" by (simp add: nums)
  then have "versions_of d f = rev ?vs"
    by (simp add: versions_of_def file_versions_def [symmetric] sort_key_id_if_sorted)
  then show "latest d f = (if ?vs = [] then None else Some (last ?vs))"
    by (cases ?vs rule: rev_cases) (simp_all add: latest_def)
  show "v_number (last ?vs) = int (length ?vs)" if "?vs \<noteq> []"
    using nums that by (cases ?vs rule: rev_cases) auto
qed

lemma next_number_length:
  assumes "numbered d"
  shows "next_version_number (latest d f) = int (length (file_versions d f)) + 1"
  using numbered_latest [OF assms, of f] by (auto simp: next_version_number_def)

lemma numbered_add:
  assumes n: "numbered d" and v: "v_number v = int (length (file_versions d (v_file v))) + 1" "v_number v \<le> 100"
    and f: "v_file v \<in> set (map f_id (d_files d @ fs))"
  shows "numbered (d\<lparr>d_files := d_files d @ fs, d_versions := d_versions d @ [v]\<rparr>)"
proof -
  let ?d = "d\<lparr>d_files := d_files d @ fs, d_versions := d_versions d @ [v]\<rparr>"
  have new: "file_versions ?d g = (if g = v_file v then file_versions d g @ [v] else file_versions d g)" for g
    by (simp add: file_versions_def)
  have old: "length (file_versions d g) \<le> 100 \<and>
      map v_number (file_versions d g) = map (\<lambda>i. int i + 1) [0..<length (file_versions d g)]" for g
    using n by (simp add: numbered_def)
  have "length (file_versions ?d g) \<le> 100 \<and>
      map v_number (file_versions ?d g) = map (\<lambda>i. int i + 1) [0..<length (file_versions ?d g)]" for g
    using old [of g] v by (cases "g = v_file v") (simp_all add: new)
  moreover have "\<forall>x\<in>set (d_versions ?d). v_file x \<in> set (map f_id (d_files ?d))"
    using n f by (auto simp: numbered_def)
  ultimately show ?thesis by (simp add: numbered_def)
qed

definition numbering_kept :: "database \<Rightarrow> database \<Rightarrow> bool" where
  "numbering_kept d d' \<longleftrightarrow> (numbered d \<longrightarrow> numbered d')"

lemma numbering_first:
  assumes "f_id f \<notin> set (map f_id (d_files d))" "v_file v = f_id f" "v_number v = 1"
  shows "numbering_kept d (d\<lparr>d_files := d_files d @ [f], d_versions := d_versions d @ [v]\<rparr>)"
  unfolding numbering_kept_def
proof
  assume n: "numbered d"
  have "v_file x \<in> set (map f_id (d_files d))" if "x \<in> set (d_versions d)" for x
    using n that by (simp add: numbered_def)
  then have "file_versions d (v_file v) = []"
    unfolding file_versions_def filter_empty_conv using assms(1,2) by metis
  with assms show "numbered (d\<lparr>d_files := d_files d @ [f], d_versions := d_versions d @ [v]\<rparr>)"
    by (intro numbered_add [OF n]) auto
qed

lemma numbering_next:
  assumes "fresh_version d v"
  shows "numbering_kept d (d\<lparr>d_versions := d_versions d @ [v]\<rparr>)"
  unfolding numbering_kept_def
proof
  assume n: "numbered d"
  from numbered_add [OF n, of v "[]"] next_number_length [OF n, of "v_file v"] assms
  show "numbered (d\<lparr>d_versions := d_versions d @ [v]\<rparr>)" by (simp add: fresh_version_def)
qed

lemma numbering_frame:
  "d_files d' = d_files d \<Longrightarrow> d_versions d' = d_versions d \<Longrightarrow> numbering_kept d d'"
  by (simp add: numbering_kept_def numbered_def file_versions_def)

interpretation version_numbers: table_history numbering_kept
  by unfold_locales
    (auto intro: numbering_frame numbering_first numbering_next simp: table_writes, auto simp: numbering_kept_def)

subsection \<open>Every mission has its workspace\<close>

definition placed :: "database \<Rightarrow> bool" where
  "placed d \<longleftrightarrow> m_workspace ` set (d_missions d) \<subseteq> ws_id ` set (d_workspaces d)"

definition places_kept :: "database \<Rightarrow> database \<Rightarrow> bool" where
  "places_kept d d' \<longleftrightarrow> (placed d \<longrightarrow> placed d')"

interpretation mission_places: table_history places_kept
  by unfold_locales (auto simp: places_kept_def placed_def table_writes set_update_where)

end
