(* ===== verification/Publication.thy ===== *)
theory Publication
  imports Ledger
begin

section \<open>Publishing, quota and download\<close>

text \<open>
  What a published version is worth: it can be downloaded unchanged, the workspace stays within its
  quota, the published version becomes the current one, so that a second writer holding the same
  expected version is refused. \<open>object_files\<close> is the interface of a content-addressed store.
\<close>

subsection \<open>Uploads\<close>

lemma safe_name_no_path: "safe_name s \<Longrightarrow> CHR 0x2F \<notin> set s \<and> CHR 0x5C \<notin> set s \<and> CHR 0x00 \<notin> set s \<and> hd s \<noteq> CHR ''.''"
  by (auto simp: safe_name_def list_all_iff name_char_def is_letter_def is_lower_def is_upper_def is_digit_def ord_def)

lemma optional_identifier_Inr: "optional_identifier v = Inr u \<longleftrightarrow> v = VNull \<or> (\<exists>s. v = VStr s \<and> is_identifier s)"
  by (auto simp: optional_identifier_def identifier_Inr)

lemma file_name_Inr: "file_name v = Inr s \<longleftrightarrow> v = VStr s \<and> safe_name s"
  by (auto simp: file_name_def)

lemma output_data_Inr:
  assumes "output_data sha v limit = Inr (name, raw)"
  shows "safe_name name \<and> int (length raw) \<le> limit \<and> hex_string 64 (sha raw) \<and>
    (\<exists>d. v = VDict d \<and> map_of d ''name'' = Some (VStr name) \<and> map_of d ''size'' = Some (VInt (int (length raw)))
       \<and> map_of d ''sha256'' = Some (VStr (sha raw))
       \<and> (\<exists>e. map_of d ''content_base64'' = Some (VStr e) \<and> b64decode e = Some raw))"
  using assms by (auto simp: output_data_def decoded_output_def file_name_Inr fields_Inr)

definition output_entry :: "(string \<Rightarrow> string) \<Rightarrow> string \<Rightarrow> string \<Rightarrow> string option \<Rightarrow> val" where
  "output_entry sha name raw expected =
     VDict [(''name'', VStr name), (''content_base64'', VStr (b64encode raw)), (''size'', VInt (int (length raw))),
            (''sha256'', VStr (sha raw)), (''expected_version'', opt_str expected)]"

lemma b64_length_limit:
  assumes "int n \<le> limit"
  shows "int ((n + 2) div 3 * 4) \<le> (limit + 2) div 3 * 4"
proof -
  have "int ((n + 2) div 3) = (int n + 2) div 3" by (simp add: zdiv_int)
  also have "\<dots> \<le> (limit + 2) div 3" using assms by (intro zdiv_mono1) auto
  finally show ?thesis by simp
qed

lemma output_data_entry:
  assumes "safe_name name" "int (length raw) \<le> limit" "hex_string 64 (sha raw)" "\<forall>i\<in>set_option expected. is_identifier i"
  shows "output_data sha (output_entry sha name raw expected) limit = Inr (name, raw)"
proof -
  have "dict_fields (output_entry sha name raw expected) output_fields [] = Inr
      [(''name'', VStr name), (''content_base64'', VStr (b64encode raw)), (''size'', VInt (int (length raw))),
       (''sha256'', VStr (sha raw)), (''expected_version'', opt_str expected)]"
    by (auto simp: output_entry_def fields_Inr keys_def output_fields_def)
  moreover have "optional_identifier (opt_str expected) = Inr ()"
    using assms(4) by (cases expected) (auto simp: optional_identifier_Inr opt_str_def)
  moreover have "file_name (VStr name) = Inr name" using assms(1) by (simp add: file_name_Inr)
  moreover have "int (length (b64encode raw)) \<le> (limit + 2) div 3 * 4"
    using b64_length_limit [OF assms(2)] by (simp add: length_b64encode)
  ultimately show ?thesis using assms(2,3)
    by (simp add: output_data_def decoded_output_def get_or_none_def b64_roundtrip)
qed

subsection \<open>The object store as an interface\<close>

locale object_files =
  fixes put :: "'s \<Rightarrow> string \<Rightarrow> (string \<times> 's) option" and get :: "'s \<Rightarrow> string \<Rightarrow> string option"
  assumes put_get: "put s raw = Some (digest, s') \<Longrightarrow> get s' digest = Some raw"
    and put_keeps: "put s raw = Some (digest, s') \<Longrightarrow> get s d = Some old \<Longrightarrow> get s' d = Some old"
begin

text \<open>A later object never disturbs an earlier one, and equal digests hold equal contents.\<close>

lemma put_twice:
  assumes "put s r1 = Some (d1, s1)" and "put s1 r2 = Some (d2, s2)"
  shows "get s2 d1 = Some r1" "get s2 d2 = Some r2" "d1 = d2 \<Longrightarrow> r1 = r2"
proof -
  show 1: "get s2 d1 = Some r1" by (rule put_keeps [OF assms(2) put_get [OF assms(1)]])
  show 2: "get s2 d2 = Some r2" by (rule put_get [OF assms(2)])
  show "d1 = d2 \<Longrightarrow> r1 = r2" using 1 2 by simp
qed

end

definition put_file :: "world \<Rightarrow> string \<Rightarrow> (string \<times> world) option" where
  "put_file w raw = (case store_object raw w of (Inr digest, w') \<Rightarrow> Some (digest, w') | _ \<Rightarrow> None)"

definition get_file :: "world \<Rightarrow> string \<Rightarrow> string option" where
  "get_file w digest = (case read_object digest w of (Inr raw, _) \<Rightarrow> Some raw | _ \<Rightarrow> None)"

lemma get_file_Some: "get_file w digest = Some raw \<longleftrightarrow>
    map_of (w_objects w) digest = Some raw \<and> int (length raw) \<le> max_file_bytes (w_settings w)"
  by (auto simp: get_file_def read_object_def abind_def act_defs present_def ensure_def split: option.splits if_splits)

interpretation object_store: object_files put_file get_file
proof
  fix w raw digest w' assume "put_file w raw = Some (digest, w')"
  then have "store_object raw w = (Inr digest, w')" by (auto simp: put_file_def split: prod.splits sum.splits)
  note S = store_object_Inr [OF this]
  then show "get_file w' digest = Some raw" by (auto simp: get_file_Some same_env_def)
  show "get_file w d = Some old \<Longrightarrow> get_file w' d = Some old" for d old
    using S by (auto simp: get_file_Some same_env_def map_add_def split: option.splits)
qed

lemma store_keeps_objects:
  assumes "store_object raw w = (Inr digest, w')" "map_of (w_objects w) d = Some old"
  shows "map_of (w_objects w') d = Some old"
  using store_object_Inr [OF assms(1)] assms(2) by (auto simp: map_add_def split: option.splits)

lemma store_well_stored: "store_object raw w = (Inr digest, w') \<Longrightarrow> well_stored w \<Longrightarrow> well_stored w'"
  by (drule store_object_Inr) (auto simp: well_stored_def same_env_def)

subsection \<open>After a publication\<close>

definition published :: "database \<Rightarrow> database \<Rightarrow> string \<Rightarrow> string \<Rightarrow> string \<Rightarrow> version_row \<Rightarrow> bool" where
  "published d d' ws name fid v \<longleftrightarrow>
     d_files d' = files_after d ws name fid \<and> d_versions d' = d_versions d @ [v] \<and> v_file v = fid
     \<and> (case file_by_name d ws name of Some f \<Rightarrow> fid = f_id f | None \<Rightarrow> fid \<notin> set (map f_id (d_files d)))
     \<and> v_number v = next_version_number (previous_version d (file_by_name d ws name))
     \<and> v_id v \<notin> set (map v_id (d_versions d))"

lemma publish_published:
  assumes "publish p ws name raw expected m a w = (Inr (vid, out), w')"
  shows "\<exists>fid v. published (db w) (db w') ws name fid v \<and> v_id v = vid \<and> v_size v = int (length raw)
     \<and> v_sha v = w_sha w raw \<and> v_mission v = m \<and> v_attempt v = a \<and> out = published_dict fid vid (w_sha w raw) raw"
proof -
  from publish_Inr [OF assms] obtain fid v e where
    d': "db w' = (db w)\<lparr>d_files := files_after (db w) ws name fid, d_versions := d_versions (db w) @ [v], d_events := d_events (db w) @ [e]\<rparr>"
    and rest: "case file_by_name (db w) ws name of Some f \<Rightarrow> fid = f_id f | None \<Rightarrow> fid \<notin> set (map f_id (d_files (db w)))"
     "v_id v = vid" "v_file v = fid" "v_number v = next_version_number (previous_version (db w) (file_by_name (db w) ws name))"
     "v_size v = int (length raw)" "v_sha v = w_sha w raw" "v_mission v = m" "v_attempt v = a"
     "vid \<notin> set (map v_id (d_versions (db w)))" "out = published_dict fid vid (w_sha w raw) raw"
    by (auto simp: Let_def)
  then show ?thesis by (intro exI [of _ fid] exI [of _ v]) (simp add: published_def)
qed

lemma find_append: "List.find P (xs @ ys) = (case List.find P xs of None \<Rightarrow> List.find P ys | Some x \<Rightarrow> Some x)"
  by (induction xs) auto

lemma file_after_publish:
  assumes "published d d' ws name fid v" and "upper_ascii name' = upper_ascii name"
  shows "\<exists>f. file_by_name d' ws name' = Some f \<and> f_id f = fid \<and> f_workspace f = ws \<and> upper_ascii (f_name f) = upper_ascii name"
proof (cases "file_by_name d ws name")
  case None
  let ?f = "\<lparr>f_id = fid, f_workspace = ws, f_name = name\<rparr>"
  have "\<not> (f_workspace f = ws \<and> upper_ascii (f_name f) = upper_ascii name)" if "f \<in> set (d_files d)" for f
    using None that by (auto simp: file_by_name_def find_None_iff)
  then have "List.find (\<lambda>f. f_workspace f = ws \<and> upper_ascii (f_name f) = upper_ascii name) (d_files d @ [?f]) = Some ?f"
    by (auto simp: find_append find_None_iff split: option.splits dest: find_Some_iff')
  with None assms show ?thesis by (simp add: published_def files_after_def file_by_name_def)
next
  case (Some f)
  with assms have "file_by_name d' ws name' = Some f" "f_id f = fid"
    by (auto simp: published_def files_after_def file_by_name_def)
  moreover from Some have "f_workspace f = ws" "upper_ascii (f_name f) = upper_ascii name"
    by (auto simp: file_by_name_def dest: find_Some_iff')
  ultimately show ?thesis by blast
qed

lemma latest_after_publish:
  assumes n: "numbered d" and p: "published d d' ws name fid v"
    and n': "numbered d'"
  shows "latest d' fid = Some v"
proof -
  have "file_versions d' fid = file_versions d fid @ [v]"
    using p by (simp add: published_def file_versions_def)
  then show ?thesis using numbered_latest(1) [OF n', of fid] by simp
qed

lemma versions_after_publish:
  assumes n': "numbered d'" and p: "published d d' ws name fid v"
  shows "\<exists>vs. versions_of d' fid = v # vs"
proof -
  have vs: "file_versions d' fid = file_versions d fid @ [v]"
    using p by (simp add: published_def file_versions_def)
  have "latest d' fid = Some v" using numbered_latest(1) [OF n', of fid] vs by simp
  then show ?thesis by (cases "versions_of d' fid") (auto simp: latest_def)
qed

lemma publish_conflict:
  assumes "expected \<noteq> map_option v_id (previous_version (db w) (file_by_name (db w) ws name))"
  shows "publish p ws name raw expected m a w = (Inl (Problem ''version_conflict'' 409), w)"
  using assms by (simp add: publish_def check_publish_def abind_def select_def act_defs ensure_def)

lemma publish_twice:
  assumes n': "numbered (db w')" and run: "publish p ws name raw expected m a w = (Inr (vid, out), w')"
    and same: "upper_ascii name2 = upper_ascii name"
  shows "publish p2 ws name2 raw2 expected m2 a2 w' = (Inl (Problem ''version_conflict'' 409), w')"
proof (rule publish_conflict)
  from publish_published [OF run] obtain fid v where p: "published (db w) (db w') ws name fid v" and v: "v_id v = vid"
    by blast
  from file_after_publish [OF p same] obtain f where f: "file_by_name (db w') ws name2 = Some f" "f_id f = fid" by blast
  with versions_after_publish [OF n' p] have new: "previous_version (db w') (file_by_name (db w') ws name2) = Some v"
    by (auto simp: previous_version_def latest_def)
  have fresh: "vid \<notin> set (map v_id (d_versions (db w)))"
    using publish_Inr [OF run] by (auto simp: Let_def)
  have "u \<in> set (d_versions (db w))" if "previous_version (db w) fl = Some u" for fl u
    using that by (auto simp: previous_version_def latest_def versions_of_def split: option.splits dest: find_Some_iff')
  with fresh have "v_id u \<noteq> vid" if "previous_version (db w) (file_by_name (db w) ws name) = Some u" for u
    using that by (auto simp: image_iff)
  moreover have "expected = map_option v_id (previous_version (db w) (file_by_name (db w) ws name))"
    using publish_Inr [OF run] by (auto simp: Let_def)
  ultimately show "expected \<noteq> map_option v_id (previous_version (db w') (file_by_name (db w') ws name2))"
    using new v by (auto simp: map_option_case split: option.splits)
qed

lemma used_after_publish:
  assumes n: "numbered d" and p: "published d d' ws name fid v"
  shows "used_bytes d' ws = used_bytes d ws + v_size v"
proof -
  let ?in = "\<lambda>e u. \<exists>f\<in>set (d_files e). f_id f = v_file u \<and> f_workspace f = ws"
  have old: "?in d' u = ?in d u" if "u \<in> set (d_versions d)" for u
  proof -
    have "v_file u \<in> set (map f_id (d_files d))" using n that by (simp add: numbered_def)
    with p show ?thesis by (auto simp: published_def files_after_def split: option.splits)
  qed
  from file_after_publish [OF p refl] obtain f where "file_by_name d' ws name = Some f" "f_id f = fid" "f_workspace f = ws"
    by blast
  then have new: "?in d' v" using p by (auto simp: published_def file_by_name_def dest: find_Some_iff')
  have "workspace_versions d' ws = workspace_versions d ws @ [v]"
    using p new old by (simp add: workspace_versions_def published_def cong: filter_cong)
  then show ?thesis by (simp add: used_bytes_def)
qed

lemma download_published:
  assumes n': "numbered (db w')" and run: "publish p ws name raw expected m a w = (Inr (vid, out), w')"
    and acc: "workspace_access q ws w' = (Inr row, w')" and hex: "hex_string 64 (w_sha w raw)"
    and env: "same_env w w'" and fid: "map_of out ''file_id'' = Some (VStr fid)" "is_identifier fid"
    and ver: "version = VNull \<or> version = VStr vid" "is_identifier vid"
  shows "\<exists>fname. download q ws (VStr fid) version w' = (Inr (raw, fname, w_sha w raw), w')"
proof -
  from publish_published [OF run] obtain fid' v where p: "published (db w) (db w') ws name fid' v"
    and v: "v_id v = vid" "v_size v = int (length raw)" "v_sha v = w_sha w raw"
    and out: "out = published_dict fid' vid (w_sha w raw) raw" by blast
  from out fid have [simp]: "fid' = fid" by (simp add: published_dict_def)
  from file_after_publish [OF p refl] obtain f where "file_by_name (db w') ws name = Some f" "f_id f = fid" "f_workspace f = ws"
    by auto
  then have "List.find (\<lambda>f. f_id f = fid \<and> f_workspace f = ws) (d_files (db w')) \<noteq> None"
    by (auto simp: find_None_iff file_by_name_def dest: find_Some_iff')
  then obtain g where g: "List.find (\<lambda>f. f_id f = fid \<and> f_workspace f = ws) (d_files (db w')) = Some g" by blast
  from versions_after_publish [OF n' p] ver v(1) have wanted: "wanted_version (db w') fid (as_str version) = Some v"
    by (auto simp: wanted_version_def)
  have ob: "map_of (w_objects w') (w_sha w raw) = Some raw" "int (length raw) \<le> max_file_bytes (w_settings w)"
    using publish_Inr [OF run] by (auto simp: Let_def)
  then have rd: "read_object (w_sha w raw) w' = (Inr raw, w')"
    using env by (simp add: read_object_def abind_def act_defs ensure_def same_env_def)
  have "optional_identifier version = Inr ()" using ver by (auto simp: optional_identifier_Inr)
  moreover have "identifier_value (VStr fid) = Inr fid" using fid by (simp add: identifier_Inr)
  ultimately have "download q ws (VStr fid) version w' = (Inr (raw, f_name g, w_sha w raw), w')"
    using acc g wanted rd hex v env
    by (simp add: download_def abind_def act_defs transaction_def ensure_def same_env_def)
  then show ?thesis by blast
qed

end
