(* ===== verification/Replays.thy ===== *)
theory Replays
  imports Publication
begin

section \<open>Retried requests\<close>

text \<open>
  The service is called over a network, so every effect may be requested twice. Repeating an operation
  id with the same content returns the recorded response and writes nothing; with another content it is
  refused. \<open>idempotent_ledger\<close> is the interface of a table of recorded responses.
\<close>

definition env_kept :: "'a app \<Rightarrow> bool" where
  "env_kept m \<longleftrightarrow> (\<forall>w. same_env w (snd (m w)))"

named_theorems env_intros \<open>actions that leave the environment of the process as it is\<close>

lemma env_keptD: "env_kept m \<Longrightarrow> m w = (r, w') \<Longrightarrow> same_env w w'"
  by (metis env_kept_def snd_conv)

lemma same_env_trans: "same_env a b \<Longrightarrow> same_env b c \<Longrightarrow> same_env a c"
  by (simp add: same_env_def)

lemma env_basic [env_intros]:
  "env_kept (ret x)" "env_kept (fail e)" "env_kept (lift r)" "env_kept (gets f)" "env_kept (require b c n)"
  "env_kept (found v c n)" "env_kept (select q)" "env_kept clock_now" "env_kept (new_id p)" "env_kept (execute u)"
  "env_kept (insert_checked c' u)" "env_kept (put_object digest raw)"
  by (simp_all add: env_kept_def act_defs clock_now_def new_id_def insert_checked_def put_object_def same_env_def)

lemma env_abind [env_intros]:
  assumes "env_kept m" "\<And>x. env_kept (f x)"
  shows "env_kept (abind m f)"
  unfolding env_kept_def
proof
  fix w
  obtain r w1 where m: "m w = (r, w1)" by fastforce
  with env_keptD [OF assms(1)] have "same_env w w1" by blast
  with m assms(2) show "same_env w (snd (abind m f w))"
    by (cases r) (auto simp: env_kept_def intro: same_env_trans)
qed

lemma env_if [env_intros]: "env_kept a \<Longrightarrow> env_kept b \<Longrightarrow> env_kept (if q then a else b)"
  by simp

lemma env_transaction [env_intros]: "env_kept m \<Longrightarrow> env_kept (transaction m)"
  by (auto simp: env_kept_def transaction_def same_env_def split: prod.splits sum.splits) (metis snd_conv)+

lemma env_foreach [env_intros]:
  assumes "\<And>x. env_kept (f x)"
  shows "env_kept (foreach f xs)"
  unfolding env_kept_def
proof
  fix w
  show "same_env w (snd (foreach f xs w))"
  proof (induction xs arbitrary: w)
    case Nil
    then show ?case by simp
  next
    case (Cons x xs)
    obtain r w1 where x: "f x w = (r, w1)" by fastforce
    with env_keptD [OF assms] have "same_env w w1" by blast
    with x Cons show ?case by (cases r) (auto intro: same_env_trans)
  qed
qed

lemma env_stamp [env_intros]: "env_kept stamp_now"
  unfolding stamp_now_def by (intro env_intros)

lemma env_audit [env_intros]: "env_kept (audit p ws m ty ds)"
  unfolding audit_def insert_event_def by (intro env_intros)

lemma env_transition [env_intros]: "env_kept (transition p m s reason)"
  unfolding transition_def by (intro env_intros)

lemma env_fetch [env_intros]: "env_kept (fetch_mission p i)" "env_kept (view_of m)" "env_kept (workspace_access p ws)"
    "env_kept (authorize p)"
  unfolding fetch_mission_def view_of_def workspace_access_def authorize_def by (intro env_intros)+

lemma env_store [env_intros]: "env_kept (store_object raw)"
  unfolding store_object_def place_object_def read_object_def by (intro env_intros)

lemma env_file_for [env_intros]: "env_kept (file_for ws name fl)"
proof (cases fl)
  case None
  have "env_kept (abind (new_id ''f'') (\<lambda>i. abind (insert_file \<lparr>f_id = i, f_workspace = ws, f_name = name\<rparr>) (\<lambda>_. ret i)))"
    unfolding insert_file_def by (intro env_intros)
  with None show ?thesis by (simp add: file_for_def)
qed (simp add: file_for_def env_intros)

lemma env_publish [env_intros]: "env_kept (publish p ws name raw expected m a)"
  unfolding publish_def check_publish_def insert_version_def split_beta by (intro env_intros)

lemma env_interrupt [env_intros]: "env_kept (interrupt reason a t)"
  unfolding interrupt_def by (intro env_intros)

lemma env_fence [env_intros]: "env_kept (fence reason e k)"
  unfolding fence_def fence_due_def split_beta by (intro env_intros)

lemma env_start [env_intros]: "env_kept (start_attempt p k t)"
  unfolding start_attempt_def new_attempt_def insert_attempt_def insert_epoch_def by (intro env_intros)

lemma env_create: "env_kept (create_effect p cap t ob ws refs)"
  unfolding create_effect_def insert_mission_def by (intro env_intros)

lemma env_claim: "env_kept (claim_effect p)"
proof -
  have "env_kept (case t of None \<Rightarrow> ret no_request | Some t \<Rightarrow> start_attempt p k t)" for t k
    by (cases t) (simp_all add: env_intros)
  then show ?thesis unfolding claim_effect_def
    by (intro env_abind env_if env_fence env_basic env_fetch)
qed

subsection \<open>The ledger of operations\<close>

locale idempotent_ledger =
  fixes lookup :: "'d \<Rightarrow> 'k \<Rightarrow> ('h \<times> 'r) option" and record_in :: "'d \<Rightarrow> 'k \<Rightarrow> 'h \<Rightarrow> 'r \<Rightarrow> 'd option"
  assumes recorded_found: "record_in d k h r = Some d' \<Longrightarrow> lookup d' k = Some (h, r)"
    and never_overwritten: "lookup d k = Some x \<Longrightarrow> record_in d k h r = None"
    and others_kept: "record_in d k h r = Some d' \<Longrightarrow> k' \<noteq> k \<Longrightarrow> lookup d' k' = lookup d k'"
begin

lemma recorded_once: "record_in d k h r = Some d' \<Longrightarrow> record_in d' k h' r' = None"
  by (rule never_overwritten [OF recorded_found])

lemma lookup_stable:
  assumes "record_in d k h r = Some d'" and "lookup d k' = Some x"
  shows "lookup d' k' = Some x"
proof (cases "k' = k")
  case True
  with never_overwritten [of d k x h r] assms show ?thesis by simp
next
  case False
  with others_kept [OF assms(1)] assms(2) show ?thesis by simp
qed

end

definition ledger_lookup :: "database \<Rightarrow> string \<times> string \<Rightarrow> (string \<times> val) option" where
  "ledger_lookup d k = map_option (\<lambda>x. (o_hash x, o_response x)) (recorded d (fst k) (snd k))"

definition ledger_record :: "database \<Rightarrow> string \<times> string \<Rightarrow> string \<Rightarrow> val \<Rightarrow> database option" where
  "ledger_record d k h r =
     (if k \<in> set (map (\<lambda>x. (o_actor x, o_id x)) (d_operations d)) then None
      else Some (d\<lparr>d_operations := d_operations d @ [\<lparr>o_actor = fst k, o_id = snd k, o_hash = h, o_response = r\<rparr>]\<rparr>))"

lemma recorded_None: "recorded d a i = None \<longleftrightarrow> (a, i) \<notin> set (map (\<lambda>x. (o_actor x, o_id x)) (d_operations d))"
  by (auto simp: recorded_def find_None_iff)

interpretation operations: idempotent_ledger ledger_lookup ledger_record
proof
  fix d k h r d' assume rec: "ledger_record d k h r = Some d'"
  then have d': "recorded d (fst k) (snd k) = None"
    "d' = d\<lparr>d_operations := d_operations d @ [\<lparr>o_actor = fst k, o_id = snd k, o_hash = h, o_response = r\<rparr>]\<rparr>"
    by (auto simp: ledger_record_def recorded_None split: if_splits)
  then show "ledger_lookup d' k = Some (h, r)" by (simp add: ledger_lookup_def recorded_def find_append)
  show "ledger_lookup d' k' = ledger_lookup d k'" if "k' \<noteq> k" for k'
    using that d'(2) by (cases k, cases k')
      (auto simp: ledger_lookup_def recorded_def find_append split: option.splits)
next
  fix d k x h r assume "ledger_lookup d k = Some x"
  then show "ledger_record d k h r = None"
    by (cases k) (auto simp: ledger_lookup_def ledger_record_def recorded_def dest!: find_Some_iff')
qed

lemma insert_operation_record:
  "insert_operation \<lparr>o_actor = a, o_id = i, o_hash = h, o_response = r\<rparr> w = (Inr u, w')
     \<longleftrightarrow> (\<exists>d'. ledger_record (db w) (a, i) h r = Some d' \<and> w' = w\<lparr>db := d'\<rparr>)"
  by (auto simp: insert_operation_def insert_checked_Inr ledger_record_def)

lemma request_hash_env:
  assumes "request_hash ac v w = (Inr h, w1)" "same_env w w'"
  shows "request_hash ac v w' = (Inr h, w') \<and> w1 = w"
  using assms by (auto simp: request_hash_def abind_def act_defs same_env_def split: sum.splits)

lemma operation_actor_env:
  assumes "operation_actor rl p w = (Inr a, w1)" "same_env w w'"
    "rl = ''worker'' \<Longrightarrow> d_workers (db w') = d_workers (db w)"
  shows "operation_actor rl p w' = (Inr a, w') \<and> w1 = w"
proof (cases "rl = ''worker''")
  case True
  with assms obtain k where "authorize p w = (Inr k, w)" "a = identity p @ ''@'' @ int_str (k_epoch k)" "w1 = w"
    by (auto simp: operation_actor_def abind_Inr act_defs authorize_Inr)
  moreover from this assms True have "authorize p w' = (Inr k, w')"
    by (auto simp: authorize_Inr worker_by_id_def same_env_def)
  ultimately show ?thesis using True by (simp add: operation_actor_def act_defs)
qed (use assms in \<open>auto simp: operation_actor_def act_defs\<close>)

lemma operate_recorded:
  assumes run: "operate p oi ac v eff rl w = (Inr r, w')" and env: "env_kept eff"
    and wk: "rl = ''worker'' \<Longrightarrow> preserves d_workers eff"
  shows "\<exists>oid h a. require_role p rl = Inr () \<and> operation_id oi = Inr oid \<and> request_hash ac v w' = (Inr h, w')
     \<and> operation_actor rl p w' = (Inr a, w') \<and> ledger_lookup (db w') (a, oid) = Some (h, r)"
proof -
  from run obtain oid h w0 a w1 where 1: "require_role p rl = Inr ()" "operation_id oi = Inr oid"
    and h: "request_hash ac v w = (Inr h, w0)" and a: "operation_actor rl p w0 = (Inr a, w1)"
    and rest: "(case recorded (db w1) a oid of
         Some x \<Rightarrow> abind (require (o_hash x = h) ''operation_conflict'' 409) (\<lambda>_. ret (o_response x))
       | None \<Rightarrow> abind eff (\<lambda>response.
           abind (insert_operation \<lparr>o_actor = a, o_id = oid, o_hash = h, o_response = response\<rparr>) (\<lambda>_.
           ret response))) w1 = (Inr r, w')"
    unfolding operate_def by (auto simp: abind_Inr lift_def transaction_Inr)
  from request_hash_env [OF h same_env_refl] have "w0 = w" by simp
  moreover from operation_actor_env [OF a same_env_refl] have "w1 = w0" by simp
  ultimately have w1: "w1 = w" "w0 = w" by simp_all
  have "same_env w w' \<and> (rl = ''worker'' \<longrightarrow> d_workers (db w') = d_workers (db w)) \<and> ledger_lookup (db w') (a, oid) = Some (h, r)"
  proof (cases "recorded (db w) a oid")
    case (Some x)
    with rest w1 show ?thesis by (auto simp: abind_Inr act_defs ledger_lookup_def split: if_splits simp: ensure_def)
  next
    case None
    with rest w1 obtain w2 d' where e: "eff w = (Inr r, w2)" and d': "ledger_record (db w2) (a, oid) h r = Some d'" "w' = w2\<lparr>db := d'\<rparr>"
      by (auto simp: abind_Inr act_defs insert_operation_record)
    from env_keptD [OF env e] d' have "same_env w w'" by (simp add: same_env_def)
    moreover have "rl = ''worker'' \<Longrightarrow> d_workers (db w') = d_workers (db w)"
      using preservesD [OF wk e] d' by (auto simp: ledger_record_def split: if_splits)
    ultimately show ?thesis using operations.recorded_found [OF d'(1)] d'(2) by simp
  qed
  with 1 request_hash_env [OF h] operation_actor_env [OF a [unfolded w1]] show ?thesis by blast
qed

lemma operate_replay:
  assumes run: "operate p oi ac v eff rl w = (Inr r, w')" and env: "env_kept eff"
    and wk: "rl = ''worker'' \<Longrightarrow> preserves d_workers eff"
  shows "operate p oi ac v eff' rl w' = (Inr r, w')"
  using operate_recorded [OF assms]
  by (auto simp: operate_def abind_def lift_def transaction_def ledger_lookup_def act_defs ensure_def split: option.splits)

lemma operate_conflict:
  assumes run: "operate p oi ac v eff rl w = (Inr r, w')" and env: "env_kept eff"
    and wk: "rl = ''worker'' \<Longrightarrow> preserves d_workers eff"
    and other: "request_hash ac2 v2 w' = (Inr h2, w')" "request_hash ac v w' \<noteq> (Inr h2, w')"
  shows "operate p oi ac2 v2 eff' rl w' = (Inl (Problem ''operation_conflict'' 409), w')"
  using operate_recorded [OF run env wk] other
  by (auto simp: operate_def abind_def lift_def transaction_def ledger_lookup_def act_defs ensure_def split: option.splits)

lemma request_hash_total:
  assumes "plain v"
  shows "\<exists>h. request_hash ac v w = (Inr h, w)"
proof -
  from canon_total(1) [of "VDict [(''action'', VStr ac), (''payload'', v)]" "w_frepr w"] assms
  obtain s where "canon (w_frepr w) (VDict [(''action'', VStr ac), (''payload'', v)]) = Inr s" by auto
  then show ?thesis by (simp add: request_hash_def abind_def act_defs)
qed

text \<open>A new operation whose effect succeeds is executed and recorded.\<close>

lemma operate_runs:
  assumes "role p = rl" "operation_id oi = Inr oid" "plain v" "operation_actor rl p w = (Inr a, w)"
    and "recorded (db w) a oid = None" "eff w = (Inr r, w2)" "recorded (db w2) a oid = None"
  shows "\<exists>x. operate p oi ac v eff rl w = (Inr r, w2\<lparr>db := (db w2)\<lparr>d_operations := d_operations (db w2) @ [x]\<rparr>\<rparr>)"
proof -
  obtain h where h: "request_hash ac v w = (Inr h, w)" using request_hash_total [OF assms(3)] by blast
  have "ledger_record (db w2) (a, oid) h r = Some ((db w2)\<lparr>d_operations := d_operations (db w2) @
      [\<lparr>o_actor = a, o_id = oid, o_hash = h, o_response = r\<rparr>]\<rparr>)"
    using assms(7) by (simp add: ledger_record_def recorded_None)
  then have ins: "insert_operation \<lparr>o_actor = a, o_id = oid, o_hash = h, o_response = r\<rparr> w2
      = (Inr (), w2\<lparr>db := (db w2)\<lparr>d_operations := d_operations (db w2) @ [\<lparr>o_actor = a, o_id = oid, o_hash = h, o_response = r\<rparr>]\<rparr>\<rparr>)"
    by (simp add: insert_operation_record)
  have "operate p oi ac v eff rl w = (Inr r, w2\<lparr>db := (db w2)\<lparr>d_operations := d_operations (db w2) @
      [\<lparr>o_actor = a, o_id = oid, o_hash = h, o_response = r\<rparr>]\<rparr>\<rparr>)"
    using assms h ins
    by (simp add: operate_def abind_def lift_def require_role_def transaction_def select_def gets_def ret_def)
  then show ?thesis by blast
qed

end
