(* ===== verification/Credentials.thy ===== *)
theory Credentials
  imports Replays
begin

section \<open>Credential epochs and the outcome of an attempt\<close>

text \<open>
  Revocation and rotation advance a worker's epoch; a principal of an older epoch is refused from
  then on, whatever happens later, and its attempts are interrupted. An accepted result is recorded
  once: the same result again is a duplicate, another one is a conflict.
\<close>

definition distinct_workers :: "database \<Rightarrow> bool" where
  "distinct_workers d \<longleftrightarrow> distinct (map k_id (d_workers d))"

lemma installed_workers: "installed w \<Longrightarrow> distinct_workers (db w)"
  by (drule installed_db) (auto simp: distinct_workers_def)

lemma epochs_keep_distinct: "epochs_advance d d' \<Longrightarrow> distinct_workers d \<Longrightarrow> distinct_workers d'"
  by (simp add: epochs_advance_def distinct_workers_def)

lemma reachable_from_install: "reachable coord w \<Longrightarrow> \<exists>w0. installed w0 \<and> later coord w0 w"
  by (induction rule: reachable.induct) (auto intro: later.intros)

lemma reachable_workers: "reachable coord w \<Longrightarrow> distinct_workers (db w)"
  using reachable_from_install worker_epochs.later_respects epochs_keep_distinct installed_workers by blast

lemma reachable_numbered: "reachable coord w \<Longrightarrow> numbered (db w)"
proof -
  assume "reachable coord w"
  then obtain w0 where w0: "installed w0" "later coord w0 w" using reachable_from_install by blast
  from installed_db [OF w0(1)] have "numbered (db w0)" by (auto simp: numbered_def file_versions_def empty_db_def)
  with version_numbers.later_respects [OF w0(2)] show ?thesis by (simp add: numbering_kept_def)
qed

lemma reachable_ordered: "reachable coord w \<Longrightarrow> ordered_events (db w)"
proof -
  assume "reachable coord w"
  then obtain w0 where w0: "installed w0" "later coord w0 w" using reachable_from_install by blast
  from installed_db [OF w0(1)] have "ordered_events (db w0)" by (auto simp: ordered_events_def empty_db_def)
  with event_order.later_respects [OF w0(2)] show ?thesis by (simp add: order_kept_def)
qed

lemma reachable_placed: "reachable coord w \<Longrightarrow> placed (db w)"
proof -
  assume "reachable coord w"
  then obtain w0 where w0: "installed w0" "later coord w0 w" using reachable_from_install by blast
  from installed_db [OF w0(1)] have "placed (db w0)" by (auto simp: placed_def empty_db_def)
  with mission_places.later_respects [OF w0(2)] show ?thesis by (simp add: places_kept_def)
qed

subsection \<open>Old epochs stay dead\<close>

lemma worker_unique:
  assumes "distinct_workers d" "k \<in> set (d_workers d)" "k_id k = i"
  shows "worker_by_id d i = Some k"
  using find_key_unique [of k_id "d_workers d" k i] assms by (simp add: worker_by_id_def distinct_workers_def)

definition stale :: "database \<Rightarrow> principal \<Rightarrow> bool" where
  "stale d p \<longleftrightarrow> (\<exists>k\<in>set (d_workers d). k_id k = identity p \<and>
     (\<forall>e. credential_epoch p = Some e \<longrightarrow> e < k_epoch k \<or> e = k_epoch k \<and> k_status k = Revoked))"

lemma stale_refused:
  assumes "distinct_workers (db w)" "stale (db w) p"
  shows "\<exists>code. authorize p w = (Inl (Problem code 403), w)"
proof -
  from assms(2) obtain k where k: "k \<in> set (d_workers (db w))" "k_id k = identity p"
    "\<forall>e. credential_epoch p = Some e \<longrightarrow> e < k_epoch k \<or> e = k_epoch k \<and> k_status k = Revoked"
    by (auto simp: stale_def)
  with worker_unique [OF assms(1)] have "worker_by_id (db w) (identity p) = Some k" by blast
  moreover have "\<not> (k_status k = Active \<and> credential_epoch p = Some (k_epoch k))" using k(3) by auto
  ultimately show ?thesis
    by (cases "role p = ''worker''") (auto simp: authorize_def abind_def act_defs select_def ensure_def)
qed

lemma stale_persists:
  assumes "epochs_advance d d'" "distinct_workers d" "stale d p"
  shows "stale d' p"
proof -
  from assms(3) obtain k where k: "k \<in> set (d_workers d)" "k_id k = identity p"
    "\<forall>e. credential_epoch p = Some e \<longrightarrow> e < k_epoch k \<or> e = k_epoch k \<and> k_status k = Revoked"
    by (auto simp: stale_def)
  from assms(1,2) k(1) obtain k' where "k' \<in> set (d_workers d')" "k_id k' = k_id k" "k' = k \<or> k_epoch k < k_epoch k'"
    by (auto simp: epochs_advance_def distinct_workers_def)
  with k(2,3) show ?thesis unfolding stale_def by (intro bexI [of _ k']) auto
qed

lemma stale_later:
  assumes "reachable coord w" "stale (db w) p" "later coord w w'"
  shows "\<exists>code. authorize p w' = (Inl (Problem code 403), w')"
proof -
  have d: "distinct_workers (db w)" by (rule reachable_workers [OF assms(1)])
  have "stale (db w') p"
    by (rule stale_persists [OF worker_epochs.later_respects [OF assms(3)] d assms(2)])
  moreover have "distinct_workers (db w')"
    by (rule epochs_keep_distinct [OF worker_epochs.later_respects [OF assms(3)] d])
  ultimately show ?thesis by (intro stale_refused)
qed

lemma revoke_stale:
  assumes "revoke k w = (Inr public, w')" and p: "identity p = k" "credential_epoch p = Some e"
    "\<forall>x\<in>set (d_workers (db w)). k_id x = k \<longrightarrow> e \<le> k_epoch x"
  shows "stale (db w') p"
proof -
  from assms(1) obtain r w1 where r: "worker_by_id (db w) k = Some r" and
    w1: "(if k_status r \<noteq> Revoked then abind stamp_now (\<lambda>stamp. execute (revoked_by k stamp)) else ret ()) w = (Inr (), w1)"
    and w': "db w' = db w1"
    unfolding revoke_def revoked_by_def by (auto simp: abind_Inr act_defs dest!: readsD [OF reads_refetch_worker])
  from worker_by_id_Some [OF r] have rk: "r \<in> set (d_workers (db w))" "k_id r = k" by auto
  show ?thesis
  proof (cases "k_status r = Revoked")
    case True
    with w1 w' have "db w' = db w" by (simp add: act_defs)
    with rk True p show ?thesis unfolding stale_def by (intro bexI [of _ r]) auto
  next
    case False
    with w1 obtain stamp where "db w1 = revoked_by k stamp (db w)"
      by (auto simp: abind_Inr dest!: readsD [OF reads_stamp])
    with w' rk p show ?thesis
      unfolding stale_def
      by (intro bexI [of _ "r\<lparr>k_status := Revoked, k_epoch := k_epoch r + 1, k_updated := stamp\<rparr>"])
        (auto simp: revoked_by_def set_update_where)
  qed
qed

subsection \<open>A result is recorded once\<close>

lemma finish_duplicate:
  assumes at: "attempt_of_worker (db w) i (identity p) = Some (a, t)" and au: "authorize p w = (Inr k, w)"
    and g: "a_generation a = r_generation r" and e: "map_of (d_epochs (db w)) i = credential_epoch p"
    and h: "a_result a = Some h"
  shows "finish_body p i r h' w =
    (if h' = h then (Inr (accepted True (t_mission t)), w) else (Inl (Problem ''result_conflict'' 409), w))"
proof -
  have "credential_epoch p \<noteq> None" using au by (auto simp: authorize_Inr)
  then show ?thesis
    using assms by (auto simp: finish_body_def check_epoch_def abind_def act_defs ensure_def select_def)
qed

subsection \<open>Revocation fences\<close>

lemma frame_interrupt:
  assumes "\<And>d x. f (d\<lparr>d_events := x\<rparr>) = f d" "\<And>d x. f (d\<lparr>d_missions := x\<rparr>) = f d" "\<And>d x. f (d\<lparr>d_tasks := x\<rparr>) = f d"
    "\<And>d x. f (d\<lparr>d_attempts := x\<rparr>) = f d"
  shows "preserves f (interrupt reason a t)"
  unfolding interrupt_def set_attempts_def set_tasks_def by (intro frame_intros assms)

lemma frame_fence:
  assumes "\<And>d x. f (d\<lparr>d_events := x\<rparr>) = f d" "\<And>d x. f (d\<lparr>d_missions := x\<rparr>) = f d" "\<And>d x. f (d\<lparr>d_tasks := x\<rparr>) = f d"
    "\<And>d x. f (d\<lparr>d_attempts := x\<rparr>) = f d"
  shows "preserves f (fence reason e k)"
  unfolding fence_def fence_due_def split_beta by (intro frame_intros frame_interrupt assms)

lemma frame_claim: "preserves d_workers (claim_effect p)"
proof -
  have start: "preserves d_workers (start_attempt p k t)" for k t
    unfolding start_attempt_def new_attempt_def insert_attempt_def insert_epoch_def set_tasks_def
    by (intro frame_intros frame_reads [OF reads_view_of]) simp_all
  have "preserves d_workers (case t of None \<Rightarrow> ret no_request | Some t \<Rightarrow> start_attempt p k t)" for t k
    by (cases t) (simp_all add: start frame_intros)
  then show ?thesis unfolding claim_effect_def
    by (intro frame_abind frame_if frame_atoms frame_fence frame_reads [OF reads_authorize]) simp_all
qed

text \<open>Fencing only takes active attempts away, and a fence without a deadline takes all of its rows.\<close>

definition actives_shrink :: "database \<Rightarrow> database \<Rightarrow> bool" where
  "actives_shrink d d' \<longleftrightarrow> (\<forall>a\<in>set (d_attempts d'). active (a_state a) \<longrightarrow> a \<in> set (d_attempts d))"

lemma interrupt_actives:
  assumes "interrupt reason a t w = (Inr u, w')"
  shows "actives_shrink (db w) (db w') \<and> (\<forall>b\<in>set (d_attempts (db w')). a_id b = a_id a \<longrightarrow> \<not> active (a_state b))"
proof -
  from assms have "d_attempts (db w') = update_where (\<lambda>x. a_id x = a_id a)
      (\<lambda>x. x\<lparr>a_state := Interrupted, a_error := Some reason\<rparr>) (d_attempts (db w))"
    by (auto simp: interrupt_def abind_Inr act_defs tables_def dest!: transition_tables)
  then show ?thesis by (auto simp: actives_shrink_def set_update_where split: if_splits)
qed

lemma fence_all_rows:
  assumes "foreach (fence_row reason False) rows w = (Inr u, w')"
  shows "actives_shrink (db w) (db w') \<and>
    (\<forall>(a, t)\<in>set rows. \<forall>b\<in>set (d_attempts (db w')). a_id b = a_id a \<longrightarrow> \<not> active (a_state b))"
  using assms
proof (induction rows arbitrary: w)
  case Nil
  then show ?case by (simp add: actives_shrink_def)
next
  case (Cons r rows)
  obtain a t where r: "r = (a, t)" by fastforce
  from Cons.prems obtain w1 where step: "fence_row reason False (a, t) w = (Inr (), w1)"
    and rest: "foreach (fence_row reason False) rows w1 = (Inr u, w')"
    by (auto simp: r split: prod.splits sum.splits)
  from step have "interrupt reason a t w = (Inr (), w1)"
    by (simp add: fence_row_def fence_due_def abind_def ret_def)
  from interrupt_actives [OF this] Cons.IH [OF rest] show ?case
    unfolding actives_shrink_def r by fastforce
qed

lemma fence_worker_actives:
  assumes c: "coherent (db w)" and run: "fence reason False (Some k) w = (Inr u, w')"
    and a: "a \<in> set (d_attempts (db w'))" "a_worker a = k"
  shows "\<not> active (a_state a)"
proof
  assume ac: "active (a_state a)"
  from run have "foreach (fence_row reason False) (fence_rows (Some k) (db w)) w = (Inr u, w')"
    by (simp add: fence_def abind_def fence_row_def)
  note F = fence_all_rows [OF this]
  then have old: "a \<in> set (d_attempts (db w))" using a(1) ac by (auto simp: actives_shrink_def)
  from cohD(9) [OF c [unfolded coherent_def] old] obtain t where t: "t \<in> set (d_tasks (db w))" "t_id t = a_task a" by blast
  then have "(a, t) \<in> set (fence_rows (Some k) (db w))" using old a(2) ac by (auto simp: fence_rows_def)
  with F a(1) ac show False by blast
qed

lemma revoke_effect_outcome:
  assumes s: "coherent (db w)" "distinct_workers (db w)" and au: "authorize p w = (Inr k, w)"
    and run: "revoke_effect admin (identity p) w = (Inr v, w1)"
  shows "(\<forall>a\<in>set (d_attempts (db w1)). a_worker a = identity p \<longrightarrow> \<not> active (a_state a))
    \<and> distinct_workers (db w1) \<and> stale (db w1) p"
proof -
  from run obtain public w2 w3 ws w4 where rv: "revoke (identity p) w = (Inr public, w2)"
    and fe: "fence ''worker_revoked'' False (Some (identity p)) w2 = (Inr (), w3)"
    and ad: "audit admin ws None ''worker_revoked'' [(''worker_id'', VStr (identity p))] w3 = (Inr (), w1)"
    by (auto simp: revoke_effect_def abind_Inr act_defs)
  have au': "worker_by_id (db w) (identity p) = Some k" "credential_epoch p = Some (k_epoch k)"
    using au by (auto simp: authorize_Inr)
  have "\<forall>x\<in>set (d_workers (db w)). k_id x = identity p \<longrightarrow> k_epoch k \<le> k_epoch x"
    using worker_unique [OF s(2)] au'(1) by auto
  from revoke_stale [OF rv refl au'(2) this] have st: "stale (db w2) p" .
  have "tables (db w2) = tables (db w)" by (rule preservesD [OF frame_revoke rv]) simp
  then have c2: "coherent (db w2)" by (rule coherent_tables [OF _ s(1)])
  have "tables (db w1) = tables (db w3)" by (rule audit_tables [OF ad])
  then have at: "d_attempts (db w1) = d_attempts (db w3)" by (simp add: tables_def)
  have "d_workers (db w3) = d_workers (db w2)" by (rule preservesD [OF frame_fence fe]) simp_all
  moreover have "d_workers (db w1) = d_workers (db w3)" by (rule preservesD [OF frame_audit ad]) simp
  ultimately have wk: "d_workers (db w1) = d_workers (db w2)" by simp
  have "distinct_workers (db w2)"
    by (rule epochs_keep_distinct [OF movesD [OF worker_epochs.moves_revoke rv] s(2)])
  with fence_worker_actives [OF c2 fe] at wk st show ?thesis by (auto simp: distinct_workers_def stale_def)
qed

end
