(* ===== verification/Outcomes.thy ===== *)
theory Outcomes
  imports Credentials
begin

section \<open>What an accepted result leaves behind\<close>

text \<open>
  The committed outcome of \<open>finish\<close>: the states of mission, task and attempt, the recorded hash and, for
  a completed attempt, the published version, its object and the result row.
\<close>

lemma frame_record_result:
  assumes "\<And>d x. f (d\<lparr>d_files := x\<rparr>) = f d" "\<And>d x. f (d\<lparr>d_versions := x\<rparr>) = f d" "\<And>d x. f (d\<lparr>d_events := x\<rparr>) = f d"
    "\<And>d x. f (d\<lparr>d_results := x\<rparr>) = f d" "\<And>d x. f (d\<lparr>d_missions := x\<rparr>) = f d" "\<And>d x. f (d\<lparr>d_tasks := x\<rparr>) = f d"
    "\<And>d x. f (d\<lparr>d_attempts := x\<rparr>) = f d"
  shows "preserves f (record_result p a t r h)"
  unfolding record_result_def set_attempts_def set_tasks_def
  by (intro frame_intros frame_accept_outputs assms)

lemma env_record_result: "env_kept (record_result p a t r h)"
  unfolding record_result_def accept_outputs_def publish_result_def insert_result_def split_beta
  by (intro env_intros)

definition delivered :: "database \<Rightarrow> world \<Rightarrow> string \<Rightarrow> string \<Rightarrow> bool" where
  "delivered d w i mission \<longleftrightarrow> (\<exists>v rs raw.
     d_versions (db w) = d_versions d @ [v] \<and> d_results (db w) = d_results d @ [rs]
     \<and> v_attempt v = Some i \<and> v_mission v = Some mission \<and> res_attempt rs = i \<and> res_version rs = v_id v
     \<and> map_of (w_objects w) (v_sha v) = Some raw \<and> v_size v = int (length raw) \<and> v_sha v = w_sha w raw)"

lemma publish_objects:
  assumes "publish p ws name raw expected m a w = (Inr (vid, out), w')"
  shows "map_of (w_objects w') (w_sha w raw) = Some raw"
  using publish_Inr [OF assms] by (auto simp: Let_def)

lemma publish_result_delivers:
  assumes "publish_result p m a c out w = (Inr u, w')"
  shows "delivered (db w) w' (a_id a) (m_id m)"
proof -
  from assms obtain k limit name raw vid pub w1 rid w2 where
    pu: "publish p (m_workspace m) name raw (a_expected a) (Some (m_id m)) (Some (a_id a)) w = (Inr (vid, pub), w1)"
    and ni: "new_id ''r'' w1 = (Inr rid, w2)"
    and ir: "insert_result \<lparr>res_id = rid, res_attempt = a_id a, res_version = vid, res_provenance = result_provenance c\<rparr> w2
       = (Inr (), w')"
    by (auto simp: publish_result_def abind_Inr act_defs authorize_Inr)
  from publish_published [OF pu] obtain fid v where v: "published (db w) (db w1) (m_workspace m) name fid v" "v_id v = vid"
    "v_size v = int (length raw)" "v_sha v = w_sha w raw" "v_mission v = Some (m_id m)" "v_attempt v = Some (a_id a)" by blast
  have res: "d_results (db w1) = d_results (db w)" by (rule preservesD [OF frame_publish pu]) simp_all
  have w2: "db w2 = db w1" "w_objects w2 = w_objects w1" using ni by (auto simp: new_id_def)
  have w': "d_versions (db w') = d_versions (db w2)" "w_objects w' = w_objects w2"
    "d_results (db w') = d_results (db w2) @ [\<lparr>res_id = rid, res_attempt = a_id a, res_version = vid, res_provenance = result_provenance c\<rparr>]"
    using ir by (auto simp: insert_result_def insert_checked_Inr)
  have "same_env w w1" by (rule env_keptD [OF env_publish pu])
  moreover have "same_env w1 w'" using ni ir by (auto simp: new_id_def insert_result_def insert_checked_Inr same_env_def)
  ultimately have "w_sha w' = w_sha w" by (simp add: same_env_def)
  with v res w2 w' publish_objects [OF pu] show ?thesis
    unfolding delivered_def
    by (intro exI [of _ v] exI [of _ "\<lparr>res_id = rid, res_attempt = a_id a, res_version = vid, res_provenance = result_provenance c\<rparr>"]
        exI [of _ raw]) (simp add: published_def)
qed

lemma record_result_delivers:
  assumes "record_result p a t r h w = (Inr v, w')"
  shows "v = accepted False (t_mission t) \<and>
    (if r_status r = Completed then delivered (db w) w' (a_id a) (t_mission t)
     else d_versions (db w') = d_versions (db w) \<and> d_results (db w') = d_results (db w))"
proof -
  from assms obtain m w1 w2 w3 m1 where m: "m_id m = t_mission t"
    and acc: "accept_outputs p m a (t_capability t) r w = (Inr (), w1)"
    and w2: "w2 = w1\<lparr>w_ticks := Suc (w_ticks w1), db := set_tasks (\<lambda>x. t_id x = a_task a) (r_status r)
          (set_attempts (\<lambda>x. a_id x = a_id a) (\<lambda>x. x\<lparr>a_state := r_status r, a_result := Some h, a_error := r_error r\<rparr>) (db w1))\<rparr>"
    and tr: "transition p m (r_status r) None w2 = (Inr m1, w')"
    and v: "v = accepted False (m_id m)"
    by (auto simp: record_result_def abind_Inr act_defs clock_now_def dest!: mission_by_id_Some)
  have t2: "d_versions (db w') = d_versions (db w1)" "d_results (db w') = d_results (db w1)"
    using preservesD [OF frame_transition tr, of d_versions] preservesD [OF frame_transition tr, of d_results] w2
    by (simp_all add: set_tasks_def set_attempts_def)
  have t3: "w_objects w' = w_objects w1" "w_sha w' = w_sha w1"
    using tr w2 by (auto simp: transition_def audit_def abind_Inr act_defs new_id_def stamp_now_def clock_now_def
        insert_event_def insert_checked_Inr)
  show ?thesis
  proof (cases "r_status r = Completed")
    case True
    with acc obtain out u where "publish_result p m a (t_capability t) out w = (Inr u, w1)"
      by (auto simp: accept_outputs_def abind_Inr act_defs)
    from publish_result_delivers [OF this] t2 t3 m v True show ?thesis by (simp add: delivered_def)
  next
    case False
    with acc have "w1 = w" by (auto simp: accept_outputs_def act_simps)
    with t2 m v False show ?thesis by simp
  qed
qed

lemma find_only:
  assumes "\<And>x. x \<in> set l \<Longrightarrow> x = y" and "y \<in> set l"
  shows "List.find (\<lambda>_. True) l = Some y"
proof (cases l)
  case (Cons x xs)
  with assms(1) [of x] show ?thesis by simp
qed (use assms(2) in simp)

lemma attempt_of_worker_unique:
  assumes c: "coherent d" and a: "a \<in> set (d_attempts d)" "a_id a = i" "a_worker a = k"
    and t: "t \<in> set (d_tasks d)" "t_id t = a_task a"
  shows "attempt_of_worker d i k = Some (a, t)"
proof -
  note c' = c [unfolded coherent_def]
  let ?l = "concat (map (\<lambda>a. map (Pair a) (filter (\<lambda>t. t_id t = a_task a) (d_tasks d)))
       (filter (\<lambda>a. a_id a = i \<and> a_worker a = k) (d_attempts d)))"
  have mem: "(a, t) \<in> set ?l" using a t by auto
  have all: "x = (a, t)" if "x \<in> set ?l" for x
  proof -
    from that obtain b s where x: "x = (b, s)" "b \<in> set (d_attempts d)" "a_id b = i" "s \<in> set (d_tasks d)" "t_id s = a_task b"
      by auto
    have "b = a" by (rule distinct_map_eq [OF cohD(4) [OF c'] x(2) a(1)]) (simp add: x(3) a(2))
    with x(5) t(2) have "t_id s = t_id t" by simp
    then have "s = t" by (rule distinct_map_eq [OF cohD(2) [OF c'] x(4) t(1)])
    with \<open>b = a\<close> x(1) show ?thesis by simp
  qed
  show ?thesis unfolding attempt_of_worker_def by (rule find_only [OF all mem])
qed

text \<open>The whole outcome of an accepted result, and of any further delivery for the same attempt.\<close>

lemma accepted_result:
  assumes st: "r_status r \<in> {Completed, Failed, Interrupted, Cancelled}" and c: "coherent (db w)"
    and run: "finish_body p i r h w = (Inr (accepted False mid), w')"
  shows "(\<exists>m\<in>set (d_missions (db w')). m_id m = mid \<and> m_state m = r_status r)
    \<and> (\<exists>a\<in>set (d_attempts (db w')). a_id a = i \<and> a_worker a = identity p \<and> a_state a = r_status r \<and> a_result a = Some h)
    \<and> (if r_status r = Completed then delivered (db w) w' i mid
       else d_versions (db w') = d_versions (db w) \<and> d_results (db w') = d_results (db w))
    \<and> (r_generation r2 = r_generation r \<longrightarrow> finish_body p i r2 h2 w' =
         (if h2 = h then (Inr (accepted True mid), w') else (Inl (Problem ''result_conflict'' 409), w')))"
proof -
  note c' = c [unfolded coherent_def]
  from finish_body_Inr [OF run] obtain a t k where at: "attempt_of_worker (db w) i (identity p) = Some (a, t)"
    and au: "authorize p w = (Inr k, w)" and g: "a_generation a = r_generation r"
    and ep: "map_of (d_epochs (db w)) i = credential_epoch p"
    and rr: "record_result p a t r h w = (Inr (accepted False mid), w')"
    by (auto simp: accepted_def)
  from attempt_of_worker_Some [OF at] have a: "a \<in> set (d_attempts (db w))" "a_id a = i" "a_worker a = identity p"
    and t: "t \<in> set (d_tasks (db w))" "t_id t = a_task a" by auto
  from record_result_tables [OF rr] obtain m where m: "m \<in> set (d_missions (db w))" "m_id m = t_mission t"
    and tb: "tables (db w') = (shift_missions (t_mission t) (r_status r) (d_missions (db w)),
          update_where (\<lambda>x. t_id x = a_task a) (\<lambda>x. x\<lparr>t_state := r_status r\<rparr>) (d_tasks (db w)),
          update_where (\<lambda>x. a_id x = a_id a) (finished_with r h) (d_attempts (db w)))" by blast
  note D = record_result_delivers [OF rr]
  then have mid: "mid = t_mission t" by (simp add: accepted_def)
  let ?a = "finished_with r h a" and ?t = "t\<lparr>t_state := r_status r\<rparr>"
  have a': "?a \<in> set (d_attempts (db w'))" and t': "?t \<in> set (d_tasks (db w'))"
    using tb a t by (auto simp: tables_def set_update_where image_iff intro: rev_bexI)
  have m': "m\<lparr>m_state := r_status r\<rparr> \<in> set (d_missions (db w'))"
    using tb shift_missions_self [OF m] by (simp add: tables_def)
  have keys: "a_id ?a = i" "a_worker ?a = identity p" "a_state ?a = r_status r" "a_result ?a = Some h"
    "a_generation ?a = r_generation r" "a_task ?a = a_task a"
    using a g by (simp_all add: finished_with_def)
  have cw': "coherent (db w')" by (rule commitsD [OF finish_body_coherent [OF st] run c])
  have at': "attempt_of_worker (db w') i (identity p) = Some (?a, ?t)"
    by (rule attempt_of_worker_unique [OF cw' a' keys(1,2) t']) (simp add: t(2) keys(6))
  have "d_workers (db w') = d_workers (db w)" "d_epochs (db w') = d_epochs (db w)"
    by (rule preservesD [OF frame_record_result rr]; simp)+
  moreover have "same_env w w'" by (rule env_keptD [OF env_record_result rr])
  ultimately have au': "authorize p w' = (Inr k, w')" and ep': "map_of (d_epochs (db w')) i = credential_epoch p"
    using au ep by (auto simp: authorize_Inr worker_by_id_def same_env_def)
  have dup: "finish_body p i r2 h2 w' =
         (if h2 = h then (Inr (accepted True mid), w') else (Inl (Problem ''result_conflict'' 409), w'))"
    if "r_generation r2 = r_generation r"
    using finish_duplicate [OF at' au' _ ep' keys(4), of r2 h2] keys(5) that mid by simp
  have D': "if r_status r = Completed then delivered (db w) w' i mid
       else d_versions (db w') = d_versions (db w) \<and> d_results (db w') = d_results (db w)"
    using D a(2) mid by (simp split: if_splits)
  have 1: "\<exists>m\<in>set (d_missions (db w')). m_id m = mid \<and> m_state m = r_status r"
    using m' by (rule bexI [rotated]) (simp add: m(2) mid)
  have 2: "\<exists>a\<in>set (d_attempts (db w')). a_id a = i \<and> a_worker a = identity p \<and> a_state a = r_status r \<and> a_result a = Some h"
    using a' by (rule bexI [rotated]) (simp add: keys)
  show ?thesis using 1 2 D' dup by blast
qed

end
