(* ===== verification/Fencing.thy ===== *)
theory Fencing
  imports Credentials
begin

section \<open>Active attempts and their interruption\<close>

text \<open>
  Why \<open>fence\<close> fails, when it does: in a coherent index whose missions have their workspaces, the life
  cycle allows every interruption and every row the loop refers to is there, so what is left is a
  clock reading that is not a timestamp and a random identifier that an event has already.
\<close>

text \<open>
  \<open>unreadable_clock e w\<close>: the last reading taken of the clock is no timestamp, and \<open>timestamp\<close> says \<open>e\<close>.
  \<open>repeated_event w\<close>: the last identifier drawn, for an event, is already that of an event of the audit.
\<close>

definition unreadable_clock :: "err \<Rightarrow> world \<Rightarrow> bool" where
  "unreadable_clock e w \<longleftrightarrow> (\<exists>n. w_ticks w = Suc n \<and> timestamp (VFloat (Fin (w_clock w n))) = Inl e)"

definition repeated_event :: "world \<Rightarrow> bool" where
  "repeated_event w \<longleftrightarrow> (\<exists>n. w_draws w = Suc n \<and> ''e_'' @ w_uuid w n \<in> e_id ` set (d_events (db w)))"

definition environment_failure :: "err \<Rightarrow> world \<Rightarrow> bool" where
  "environment_failure e w \<longleftrightarrow> unreadable_clock e w \<or> e = Raised ''IntegrityError'' \<and> repeated_event w"

lemma audit_failure:
  assumes "audit p ws (Some m) ty ds w = (Inl e, w')" "set (keys ds) \<subseteq> set allowed_details"
    and "m \<in> m_id ` set (d_missions (db w))" "ws \<in> ws_id ` set (d_workspaces (db w))"
  shows "environment_failure e w'"
proof -
  let ?i = "''e_'' @ w_uuid w (w_draws w)"
  let ?w1 = "w\<lparr>w_draws := Suc (w_draws w), w_ticks := Suc (w_ticks w)\<rparr>"
  from assms(1,2) consider "timestamp (VFloat (Fin (w_clock w (w_ticks w)))) = Inl e" "w' = ?w1"
    | stamp where "insert_event ?i (Some m) ws (identity p) stamp ty ds ?w1 = (Inl e, w')"
    by (auto simp: audit_def abind_Inl act_defs ensure_def stamp_now_def clock_now_def new_id_def split: if_splits)
  then show ?thesis
  proof cases
    case 1
    then show ?thesis by (simp add: environment_failure_def unreadable_clock_def)
  next
    case (2 stamp)
    with assms(3,4) have "e = Raised ''IntegrityError'' \<and> w' = ?w1 \<and> ?i \<in> e_id ` set (d_events (db w))"
      by (auto simp: insert_event_def insert_checked_def split: if_splits)
    then show ?thesis by (simp add: environment_failure_def repeated_event_def)
  qed
qed

lemma set_mission_state_find:
  "mission_by_id d i = Some m \<Longrightarrow> mission_by_id (set_mission_state i s d) i = Some (m\<lparr>m_state := s\<rparr>)"
  unfolding mission_by_id_def set_mission_state_def
  using find_update_where [of m_id "\<lambda>m. m\<lparr>m_state := s\<rparr>" i "d_missions d"] by simp

lemma transition_error:
  assumes run: "transition p m s reason w = (Inl e, w')" and ok: "s \<in> set (TRANSITIONS (m_state m))"
    and m: "mission_by_id (db w) (m_id m) = Some m" and ws: "placed (db w)"
  shows "environment_failure e w'"
proof -
  let ?w1 = "w\<lparr>db := set_mission_state (m_id m) s (db w)\<rparr>"
  let ?audit = "audit p (m_workspace m) (Some (m_id m)) ''mission_state'' (transition_details s reason) ?w1"
  have keys: "set (keys (transition_details s reason)) \<subseteq> set allowed_details"
    by (auto simp: transition_details_def keys_def allowed_details_def split: option.splits)
  from run ok consider "?audit = (Inl e, w')"
    | u w2 where "?audit = (Inr u, w2)" "present (mission_by_id (db w2) (m_id m)) ''TypeError'' = Inl e"
    by (auto simp: transition_def abind_Inl act_defs)
  then show ?thesis
  proof cases
    case 1
    from mission_by_id_Some [OF set_mission_state_find [OF m, of s]]
    have "m_id m \<in> m_id ` set (d_missions (db ?w1))" by (auto simp: rev_image_eqI)
    moreover have "m_workspace m \<in> ws_id ` set (d_workspaces (db ?w1))"
      using mission_by_id_Some [OF m] ws by (auto simp: placed_def set_mission_state_def)
    ultimately show ?thesis by (rule audit_failure [OF 1 keys])
  next
    case (2 u w2)
    from audit_Inr [OF 2(1)] set_mission_state_find [OF m, of s]
    have "mission_by_id (db w2) (m_id m) = Some (m\<lparr>m_state := s\<rparr>)" by (auto simp: mission_by_id_def)
    with 2(2) show ?thesis by simp
  qed
qed

lemma interrupt_error:
  assumes c: "coherent (db w)" and f: "fenceable (db w) (a, t)" and run: "interrupt reason a t w = (Inl e, w')"
    and ws: "placed (db w)"
  shows "environment_failure e w'"
proof -
  from f have at: "a \<in> set (d_attempts (db w))" "active (a_state a)" "t \<in> set (d_tasks (db w))" "t_id t = a_task a"
    by (auto simp: fenceable_def)
  note c' = c [unfolded coherent_def]
  from cohD(5) [OF c' at(3)] obtain m where m: "m \<in> set (d_missions (db w))" "m_id m = t_mission t" "m_state m = t_state t"
    by blast
  with coh_attempt_task(2) [OF c' at(1,3,4) at(2)] at(2) have st: "Interrupted \<in> set (TRANSITIONS (m_state m))"
    by (auto simp: active_def)
  let ?w1 = "w\<lparr>db := set_tasks (\<lambda>x. t_id x = a_task a) Interrupted
      (set_attempts (\<lambda>x. a_id x = a_id a) (\<lambda>x. x\<lparr>a_state := Interrupted, a_error := Some reason\<rparr>) (db w))\<rparr>"
  have find: "mission_by_id (db ?w1) (t_mission t) = Some m"
    using find_key_unique [OF cohD(1) [OF c'] m(1,2)] by (simp add: mission_by_id_def)
  with run have "transition SYSTEM m Interrupted (Some reason) ?w1 = (Inl e, w')"
    by (auto simp: interrupt_def abind_Inl act_defs)
  moreover have "placed (db ?w1)" using ws by (simp add: placed_def set_tasks_def set_attempts_def)
  ultimately show ?thesis using st find m(2) by (intro transition_error) auto
qed

lemma fence_row_Inl:
  assumes "fence_row reason e (a, t) w = (Inl x, w')"
  shows "\<exists>w1. db w1 = db w \<and> interrupt reason a t w1 = (Inl x, w')"
proof -
  have "\<not> (fence_due e (a_deadline a) w = (Inl x, w'))"
    by (simp add: fence_due_def abind_def clock_now_def ret_def)
  with assms obtain due w1 where due: "fence_due e (a_deadline a) w = (Inr due, w1)"
    and "(if due then interrupt reason a t else ret ()) w1 = (Inl x, w')"
    by (auto simp: fence_row_def abind_Inl)
  moreover have "db w1 = db w" by (rule readsD [OF reads_fence_due due])
  ultimately show ?thesis by (auto simp: act_defs split: if_splits)
qed

lemma fence_row_placed: "fence_row reason e x w = (Inr u, w') \<Longrightarrow> placed (db w) \<Longrightarrow> placed (db w')"
  using fence_row_Inr [of reason e "fst x" "snd x" w u w'] movesD [OF mission_places.moves_interrupt]
  by (auto simp: places_kept_def)

lemma fence_loop_error:
  assumes "coherent (db w)" and "placed (db w)" and "\<forall>r\<in>set rows. fenceable (db w) r" and "distinct (map fst rows)"
    and "foreach (fence_row reason e) rows w = (Inl x, w')"
  shows "environment_failure x w'"
  using assms
proof (induction rows arbitrary: w)
  case Nil
  then show ?case by simp
next
  case (Cons r rows)
  obtain a t where r: "r = (a, t)" by fastforce
  from Cons.prems(3) r have f: "fenceable (db w) (a, t)" by simp
  obtain res w1 where step: "fence_row reason e (a, t) w = (res, w1)" by fastforce
  show ?case
  proof (cases res)
    case (Inl y)
    with Cons.prems(5) r step have y: "y = x" "w1 = w'" by simp_all
    with Inl step obtain w2 where "db w2 = db w" "interrupt reason a t w2 = (Inl x, w1)"
      using fence_row_Inl by blast
    with Cons.prems(1,2) f y show ?thesis by (intro interrupt_error [of w2]) auto
  next
    case (Inr u)
    with Cons.prems(5) r step have rest: "foreach (fence_row reason e) rows w1 = (Inl x, w')" by simp
    from fence_row_keeps [OF Cons.prems(1) _ _ step [unfolded Inr]] Cons.prems(3,4) r
    have "coherent (db w1)" "\<forall>q\<in>set rows. fenceable (db w1) q" by auto
    moreover have "placed (db w1)" by (rule fence_row_placed [OF step [unfolded Inr] Cons.prems(2)])
    ultimately show ?thesis using Cons.prems(4) by (intro Cons.IH [OF _ _ _ _ rest]) auto
  qed
qed

lemma fence_error:
  assumes c: "coherent (db w)" and ws: "placed (db w)" and run: "fence reason e worker w = (Inl x, w')"
  shows "environment_failure x w'"
proof -
  from run have "foreach (fence_row reason e) (fence_rows worker (db w)) w = (Inl x, w')"
    by (simp add: fence_def abind_def fence_row_def)
  with c show ?thesis
    by (intro fence_loop_error [OF c ws _ fence_rows_distinct [OF c]]) (auto intro: fence_rows_fenceable)
qed

subsection \<open>Active attempts\<close>

lemma distinct_single:
  assumes "distinct xs" "\<And>a b. a \<in> set xs \<Longrightarrow> b \<in> set xs \<Longrightarrow> a = b"
  shows "length xs \<le> 1"
proof (cases xs)
  case (Cons x ys)
  with assms(1) assms(2) [of x "hd ys"] show ?thesis by (cases ys) auto
qed simp

text \<open>\<open>one_started k d d'\<close>: one attempt more, running, of the worker \<open>k\<close>, for a task of its own that was queued.\<close>

definition one_started :: "string \<Rightarrow> database \<Rightarrow> database \<Rightarrow> bool" where
  "one_started k d d' \<longleftrightarrow> (\<exists>a t. d_attempts d' = d_attempts d @ [a] \<and> a_worker a = k \<and> a_state a = Running
     \<and> t \<in> set (d_tasks d) \<and> t_id t = a_task a \<and> t_worker t = k \<and> t_state t = Queued)"

lemma start_attempt_one:
  assumes "next_task (db w) (identity p) = Some t" "start_attempt p worker t w = (Inr r, w')"
  shows "one_started (identity p) (db w) (db w')"
  using next_task_Some [OF assms(1)] start_attempt_tables [OF assms(2)] by (auto simp: one_started_def tables_def)

lemma claim_effect_starts:
  assumes "claim_effect p w = (Inr r, w')"
  shows "\<exists>w1. fence ''attempt_expired'' True None w = (Inr (), w1) \<and>
    (if busy (db w1) (identity p) then r = no_request \<and> w' = w1
     else r = no_request \<and> w' = w1 \<or> one_started (identity p) (db w1) (db w'))"
  using assms by (cases rule: claim_effect_cases) (auto intro: start_attempt_one)

lemma worker_single:
  assumes "coherent d"
  shows "length (filter (\<lambda>a. active (a_state a) \<and> a_worker a = k) (d_attempts d)) \<le> 1"
proof (rule distinct_single)
  note c = assms [unfolded coherent_def]
  show "distinct (filter (\<lambda>a. active (a_state a) \<and> a_worker a = k) (d_attempts d))"
    using cohD(4) [OF c] by (simp add: distinct_map)
  show "a = b" if "a \<in> set (filter (\<lambda>a. active (a_state a) \<and> a_worker a = k) (d_attempts d))"
    "b \<in> set (filter (\<lambda>a. active (a_state a) \<and> a_worker a = k) (d_attempts d))" for a b
    using cohD(11) [OF c, of a b] that by simp
qed

lemma mission_single:
  assumes c: "coherent d" and m: "m \<in> set (d_missions d)" "active (m_state m)"
  shows "\<exists>!a. a \<in> set (d_attempts d) \<and> active (a_state a) \<and> of_mission (d_tasks d) (m_id m) a"
proof -
  note c' = c [unfolded coherent_def]
  from cohD(6) [OF c' m(1)] m(2) obtain t where t: "t \<in> set (d_tasks d)" "t_mission t = m_id m" by auto
  with coh_task_state [OF c m(1)] m(2) have "active (t_state t)" by simp
  from cohD(10) [OF c' t(1) this] obtain a where a: "a \<in> set (d_attempts d)" "a_task a = t_id t" "active (a_state a)"
    by blast
  have "b = a" if b: "b \<in> set (d_attempts d)" "active (a_state b)" "of_mission (d_tasks d) (m_id m) b" for b
  proof -
    from b(3) obtain u where u: "u \<in> set (d_tasks d)" "t_mission u = m_id m" "t_id u = a_task b"
      by (auto simp: of_mission_def)
    with distinct_map_eq [OF cohD(3) [OF c'] u(1) t(1)] t(2) have "u = t" by simp
    with u(3) a(2) have "a_task b = a_task a" by simp
    then show ?thesis by (rule coh_active_unique [OF c' b(1) a(1) b(2) a(3)])
  qed
  moreover have "of_mission (d_tasks d) (m_id m) a" using t a(2) by (auto simp: of_mission_def)
  ultimately show ?thesis using a by blast
qed

end
