(* ===== verification/Scenario.thy ===== *)
theory Scenario
  imports Outcomes Fencing
begin

section \<open>A concrete control plane\<close>

text \<open>
  A small concrete installation on which the general theorems are instantiated: a clock that stands
  at the epoch, numbered identifiers, a digest that prints the length of its input.
\<close>

definition demo_sha :: "string \<Rightarrow> string" where
  "demo_sha s = (let n = nat_digits (length s) in replicate (64 - length n) (CHR ''0'') @ n)"

definition demo_uuid :: "nat \<Rightarrow> string" where
  "demo_uuid n = (let s = nat_digits n in replicate (32 - length s) (CHR ''0'') @ s)"

definition demo_token :: string where "demo_token = replicate 43 (CHR ''k'')"

definition demo_clock :: "nat \<Rightarrow> rat" where "demo_clock n = 0"
definition demo_tokens :: "nat \<Rightarrow> string" where "demo_tokens n = demo_token"
definition demo_frepr :: "rat \<Rightarrow> string" where "demo_frepr r = int_str (floor r)"

definition demo_world :: world where
  "demo_world = \<lparr>db = empty_db, w_settings = default_settings, w_objects = [], w_secrets = [], w_ticks = 0,
     w_draws = 0, w_clock = demo_clock, w_uuid = demo_uuid, w_token = demo_tokens, w_sha = demo_sha,
     w_frepr = demo_frepr\<rparr>"

definition demo_installed :: world where
  "demo_installed = snd (transaction (migrate_index demo_token) demo_world)"

definition demo_ws :: string where "demo_ws = ''w_'' @ demo_uuid 0"
definition demo_mission :: string where "demo_mission = ''m_'' @ demo_uuid 1"

definition demo_operation :: "nat \<Rightarrow> val" where
  "demo_operation n = VStr (''00000000-0000-0000-0000-00000000000'' @ [hex_digit n])"

definition demo_create :: val where
  "demo_create = VDict [(''operation_id'', demo_operation 1), (''title'', VStr ''T''), (''objective'', VStr ''O''),
     (''workspace_id'', VStr demo_ws)]"

definition demo_request :: "nat \<Rightarrow> val" where
  "demo_request n = VDict [(''operation_id'', demo_operation n)]"

definition fake_cpu :: principal where
  "fake_cpu = \<lparr>identity = ''fake-cpu'', role = ''worker'', credential_epoch = Some 1\<rparr>"

text \<open>An index in which one mission is running on the first worker.\<close>

definition demo_running_db :: database where
  "demo_running_db = empty_db\<lparr>
     d_workspaces := [\<lparr>ws_id = ''w_1'', ws_owner = ''local-admin'', ws_project = ''p''\<rparr>],
     d_missions := [\<lparr>m_id = ''m_1'', m_owner = ''local-admin'', m_project = ''p'', m_workspace = ''w_1'', m_title = ''T'',
        m_objective = ''O'', m_state = Running, m_created = ''c'', m_files = []\<rparr>],
     d_tasks := [\<lparr>t_id = ''t_1'', t_mission = ''m_1'', t_role = ''demo-report'', t_capability = DEMO,
        t_worker = ''fake-cpu'', t_state = Running, t_plan = VNull\<rparr>],
     d_attempts := [\<lparr>a_id = ''a_1'', a_task = ''t_1'', a_number = 1, a_worker = ''fake-cpu'', a_state = Running,
        a_generation = ''g_1'', a_started = ''s'', a_deadline = 60, a_expected = None, a_result = None, a_error = None\<rparr>],
     d_epochs := [(''a_1'', 1)],
     d_workers := [\<lparr>k_id = ''fake-cpu'', k_status = Active, k_credential = ''h'', k_epoch = 1,
        k_capabilities = VList [VStr DEMO], k_limits = default_limits default_settings, k_created = ''c'', k_updated = ''c''\<rparr>]\<rparr>"

definition demo_running :: world where
  "demo_running = demo_world\<lparr>db := demo_running_db\<rparr>"

lemma demo_installs: "installed demo_installed"
proof -
  have "fst (transaction (migrate_index demo_token) demo_world) = Inr ()" by code_simp
  then have "transaction (migrate_index demo_token) demo_world = (Inr (), demo_installed)"
    by (simp add: demo_installed_def prod_eq_iff)
  then show ?thesis by (intro installed.install [of demo_world]) (simp_all add: demo_world_def)
qed

lemma demo_reachable: "reachable coord demo_installed"
  by (rule reachable.start [OF demo_installs])

lemma demo_stamp0: "timestamp (VFloat (Fin 0)) = Inr ''1970-01-01T00:00:00.000000+00:00''"
  by code_simp

lemma demo_stamp: "timestamp (VFloat (Fin (demo_clock n))) = Inr ''1970-01-01T00:00:00.000000+00:00''"
  by (simp add: demo_clock_def demo_stamp0)

lemma demo_policy:
  "policy (VList [VStr DEMO]) (default_limits default_settings) default_settings
     = Inr (VList [VStr DEMO], default_limits default_settings)"
  by code_simp

lemmas run_defs = abind_def act_defs select_def execute_run new_id_def clock_now_def stamp_now_def ensure_def
  insert_checked_def transaction_def

lemmas demo_defs = demo_running_def demo_running_db_def demo_world_def empty_db_def demo_stamp demo_stamp0 demo_policy

text \<open>The invariants of the index together.\<close>

definition sound_index :: "database \<Rightarrow> bool" where
  "sound_index d \<longleftrightarrow> coherent d \<and> numbered d \<and> distinct_workers d \<and> ordered_events d"

lemma reachable_sound: "reachable coord w \<Longrightarrow> sound_index (db w)"
  by (simp add: sound_index_def reachable_coh reachable_numbered reachable_workers reachable_ordered)

lemma later_sound: "later coord w w' \<Longrightarrow> sound_index (db w) \<Longrightarrow> sound_index (db w')"
  using lifecycle.later_respects version_numbers.later_respects worker_epochs.later_respects event_order.later_respects
    epochs_keep_distinct
  unfolding sound_index_def progress_def numbering_kept_def order_kept_def by blast

lemma demo_running_sound: "sound_index (db demo_running)"
  by (simp add: demo_running_def demo_running_db_def sound_index_def coherent_def coh_def numbered_def file_versions_def
      distinct_workers_def ordered_events_def empty_db_def)

lemma one_command_later: "later coord w (snd (run_command coord c w))"
  by (rule later.next_command [OF later.now]) (rule prod.collapse [symmetric])

definition demo_m1 :: mission_row where
  "demo_m1 = \<lparr>m_id = ''m_1'', m_owner = ''local-admin'', m_project = ''p'', m_workspace = ''w_1'', m_title = ''T'',
        m_objective = ''O'', m_state = Running, m_created = ''c'', m_files = []\<rparr>"

lemma demo_m1_running: "d_missions (db demo_running) = [demo_m1]" "m_state demo_m1 = Running" "m_id demo_m1 = ''m_1''"
  by (simp_all add: demo_running_def demo_running_db_def demo_m1_def)

lemma demo_published:
  "\<exists>w' vid out. publish ADMIN ''w_1'' ''a.txt'' ''x'' None None None demo_running = (Inr (vid, out), w')
     \<and> map_of out ''file_id'' = Some (VStr (''f_'' @ demo_uuid 1)) \<and> vid = ''v_'' @ demo_uuid 2
     \<and> workspace_access ADMIN ''w_1'' w' = (Inr \<lparr>ws_id = ''w_1'', ws_owner = ''local-admin'', ws_project = ''p''\<rparr>, w')"
  by (simp add: publish_def check_publish_def run_defs demo_defs file_by_name_def previous_version_def used_bytes_def
      workspace_versions_def default_settings_def store_object_def place_object_def read_object_def put_object_def
      file_for_def insert_file_def insert_version_def audit_def insert_event_def allowed_details_def keys_def
      published_dict_def workspace_access_def require_role_def ADMIN_def numeral_2_eq_2)

lemma demo_authorized: "\<exists>k. authorize fake_cpu demo_running = (Inr k, demo_running)"
  by (simp add: authorize_def run_defs demo_defs worker_by_id_def fake_cpu_def)

lemma demo_claim_effect: "claim_effect fake_cpu demo_running = (Inr no_request, demo_running\<lparr>w_ticks := 1\<rparr>)"
  by (simp add: claim_effect_def authorize_def run_defs demo_defs worker_by_id_def fake_cpu_def fence_def fence_rows_def
      fence_due_def demo_clock_def busy_def)

lemma demo_revoked: "is_ok (fst (revoke_effect ADMIN ''fake-cpu'' demo_running))"
  by code_simp

lemma demo_operation_3: "operation_id (demo_operation 3) = Inr ''00000000-0000-0000-0000-000000000003''"
  by code_simp

lemma demo_claim: "\<exists>w'. claim fake_cpu (demo_request 3) demo_running = (Inr no_request, w')"
proof -
  have "operation_actor ''worker'' fake_cpu demo_running = (Inr ''fake-cpu@1'', demo_running)"
  proof -
    obtain k where k: "authorize fake_cpu demo_running = (Inr k, demo_running)" using demo_authorized by blast
    then have "k_epoch k = 1" by (auto simp: authorize_Inr fake_cpu_def)
    moreover have "int_str 1 = ''1''" by code_simp
    ultimately show ?thesis using k by (simp add: operation_actor_def abind_def ret_def fake_cpu_def)
  qed
  moreover have "plain (demo_request 3)" by (simp add: demo_request_def demo_operation_def)
  moreover have "recorded (db demo_running) ''fake-cpu@1'' i = None" for i
    by (simp add: recorded_def demo_running_def demo_running_db_def empty_db_def)
  ultimately have "\<exists>w'. operate fake_cpu (demo_operation 3) ''claim'' (demo_request 3) (claim_effect fake_cpu) ''worker''
      demo_running = (Inr no_request, w')"
    using operate_runs [where p = fake_cpu and rl = "''worker''" and oi = "demo_operation 3" and v = "demo_request 3"
        and w = demo_running and a = "''fake-cpu@1''" and eff = "claim_effect fake_cpu" and ac = "''claim''"]
      demo_operation_3 demo_claim_effect
    by (fastforce simp: fake_cpu_def)
  moreover have "dict_fields (demo_request 3) [''operation_id''] [] = Inr [(''operation_id'', demo_operation 3)]"
    by (simp add: demo_request_def fields_Inr keys_def)
  ultimately show ?thesis
    by (auto simp: claim_def abind_lift_Inr require_role_def fake_cpu_def get_or_none_def)
qed

definition demo_failure :: execution_result where
  "demo_failure = \<lparr>r_attempt = ''a_1'', r_generation = ''g_1'', r_status = Failed, r_outputs = [],
     r_error = Some ''simulated_failure''\<rparr>"

lemma demo_finish: "\<exists>w'. finish_body fake_cpu ''a_1'' demo_failure h demo_running = (Inr (accepted False ''m_1''), w')"
  by (simp add: finish_body_def run_defs demo_defs authorize_def worker_by_id_def fake_cpu_def attempt_of_worker_def
      check_epoch_def demo_failure_def record_result_def mission_by_id_def check_state_def accept_outputs_def
      failure_codes_def demo_clock_def set_attempts_def set_tasks_def set_mission_state_def update_where_def
      transition_def audit_def allowed_details_def transition_details_def keys_def insert_event_def accepted_def)

text \<open>
  The same installation under a clock that stops working after eight readings: the administrator creates
  and approves a mission, the first worker claims it, and the next reading of the clock is before 1970.
\<close>

definition stopping_clock :: "nat \<Rightarrow> rat" where "stopping_clock n = (if n < 8 then 0 else -1)"

definition demo_boot :: world where
  "demo_boot = snd (transaction (migrate_index demo_token) (demo_world\<lparr>w_clock := stopping_clock\<rparr>))"

definition demo_started :: world where
  "demo_started = fold (\<lambda>c w. snd (run_command coordinator_plan c w))
     [CreateMission ADMIN demo_create, Approve ADMIN demo_mission (demo_request 2), Claim fake_cpu (demo_request 3)] demo_boot"

lemma demo_boot_installs: "installed demo_boot"
proof -
  have "fst (transaction (migrate_index demo_token) (demo_world\<lparr>w_clock := stopping_clock\<rparr>)) = Inr ()" by code_simp
  then have "transaction (migrate_index demo_token) (demo_world\<lparr>w_clock := stopping_clock\<rparr>) = (Inr (), demo_boot)"
    by (simp add: demo_boot_def prod_eq_iff)
  then show ?thesis by (intro installed.install [of "demo_world\<lparr>w_clock := stopping_clock\<rparr>"]) (simp_all add: demo_world_def)
qed

lemma run_reachable: "reachable coord w \<Longrightarrow> reachable coord (fold (\<lambda>c w. snd (run_command coord c w)) cs w)"
  by (induction cs arbitrary: w) (auto intro: reachable.step [OF _ prod.collapse [symmetric]])

lemma demo_started_reachable: "reachable coordinator_plan demo_started"
  unfolding demo_started_def by (rule run_reachable [OF reachable.start [OF demo_boot_installs]])

lemma demo_started_state:
  "map (\<lambda>m. (m_id m, m_state m)) (d_missions (db demo_started)) = [(demo_mission, Running)]
   \<and> fst (claim_effect fake_cpu demo_started) = Inr no_request
   \<and> fst (fence ''backend_restart'' False None demo_started) = Inl (Problem ''invalid_clock'' 500)"
  by code_simp

lemma fst_pair: "fst p = a \<Longrightarrow> (\<And>b. p = (a, b) \<Longrightarrow> thesis) \<Longrightarrow> thesis"
  by (cases p) simp

end
