(* ===== verification/Control_Guarantees.thy ===== *)
theory Control_Guarantees
  imports Scenario
begin

section \<open>What the control plane guarantees\<close>

text \<open>
  The properties of the reachable control plane and of its operations, each with an instance on the
  concrete installation of \<open>Scenario\<close>.
\<close>

text \<open>
  C1. In every reachable index a mission, its task and its attempts agree (a task has the state of
  its mission, an active attempt the state of its task and the worker of its plan, an active task has
  an active attempt, no worker holds two), the versions of every file are numbered 1 to n with n at
  most 100, worker identities are distinct and the audit is in sequence order.
\<close>
theorem reachable_index_sound: "reachable coord w \<Longrightarrow> sound_index (db w)"
  by (rule reachable_sound)

theorem reachable_index_sound_witness: "sound_index (db demo_installed)"
  by (rule reachable_index_sound [OF demo_reachable [of coordinator_plan]])

text \<open>
  C2. A mission only moves along the life cycle of \<open>TRANSITIONS\<close>, is never lost, and its owner,
  project, workspace, title, objective, creation time and authorized files never change.
\<close>
theorem missions_follow_lifecycle:
  assumes "sound_index (db w)" "later coord w w'" "m \<in> set (d_missions (db w))"
  shows "\<exists>m'\<in>set (d_missions (db w')). mission_columns m' = mission_columns m
           \<and> lifecycle_reach (m_state m) (m_state m')"
proof -
  have c: "coherent (db w)" using assms(1) by (simp add: sound_index_def)
  with lifecycle.later_respects [OF assms(2)] have c': "coherent (db w')"
    and p: "paths (d_missions (db w)) (d_missions (db w'))" by (auto simp: progress_def)
  from p assms(3) obtain m1 where m1: "m1 \<in> set (d_missions (db w'))" "m_id m1 = m_id m"
    "lifecycle_reach (m_state m) (m_state m1)" by (auto simp: paths_def)
  have "mission_columns m \<in> set (map mission_columns (d_missions (db w')))"
    using columns.later_respects [OF assms(2)] assms(3) set_mono_prefix by (fastforce simp: columns_fixed_def)
  then obtain m2 where m2: "m2 \<in> set (d_missions (db w'))" "mission_columns m2 = mission_columns m" by auto
  then have "m_id m2 = m_id m1" using m1(2) by (simp add: mission_columns_def)
  with mission_unique [OF c' m2(1) m1(1)] m1 m2 show ?thesis by blast
qed

theorem missions_follow_lifecycle_witness:
  "\<exists>m'\<in>set (d_missions (db (snd (run_command coordinator_plan Restart demo_running)))).
     mission_columns m' = mission_columns demo_m1 \<and> lifecycle_reach (m_state demo_m1) (m_state m')"
  by (rule missions_follow_lifecycle [OF demo_running_sound one_command_later]) (simp add: demo_m1_running)

text \<open>
  C3. Nothing is erased: in every later index the audit, the file versions, the accepted results, the
  ledger of operations and the epochs of attempts extend the old ones.
\<close>
theorem records_only_grow:
  assumes "later coord w w'"
  shows "prefix (d_events (db w)) (d_events (db w')) \<and> prefix (d_versions (db w)) (d_versions (db w'))
     \<and> prefix (d_results (db w)) (d_results (db w')) \<and> prefix (d_operations (db w)) (d_operations (db w'))
     \<and> prefix (d_epochs (db w)) (d_epochs (db w'))"
  using audit_log.later_respects [OF assms] records.later_respects [OF assms]
  by (simp add: audit_grows_def records_grow_def)

theorem records_only_grow_witness:
  "prefix (d_events (db demo_running)) (d_events (db (snd (run_command coordinator_plan Restart demo_running))))"
  by (rule records_only_grow [OF one_command_later, THEN conjunct1])

text \<open>
  C4. In every index the commands of the service reach from an installation, a running or cancelling
  mission has exactly one active attempt and no worker has more than one. A claim keeps it so: once the
  expired attempts are fenced, a worker that still has an active attempt is given nothing and nothing
  changes; otherwise either there is nothing for it, or exactly one attempt starts, running and its own,
  for a task of its own that was queued.
\<close>
theorem one_active_attempt:
  assumes "reachable coord w"
  shows "length (filter (\<lambda>a. active (a_state a) \<and> a_worker a = k) (d_attempts (db w))) \<le> 1 \<and>
    (\<forall>m\<in>set (d_missions (db w)). active (m_state m) \<longrightarrow>
      (\<exists>!a. a \<in> set (d_attempts (db w)) \<and> active (a_state a) \<and> of_mission (d_tasks (db w)) (m_id m) a)) \<and>
    (\<forall>p r w'. claim_effect p w = (Inr r, w') \<longrightarrow>
      (\<exists>w1. fence ''attempt_expired'' True None w = (Inr (), w1) \<and>
        (if busy (db w1) (identity p) then r = no_request \<and> w' = w1
         else r = no_request \<and> w' = w1 \<or> one_started (identity p) (db w1) (db w'))))"
proof (intro conjI ballI allI impI)
  from reachable_sound [OF assms] have c: "coherent (db w)" by (simp add: sound_index_def)
  show "length (filter (\<lambda>a. active (a_state a) \<and> a_worker a = k) (d_attempts (db w))) \<le> 1"
    by (rule worker_single [OF c])
  show "\<exists>!a. a \<in> set (d_attempts (db w)) \<and> active (a_state a) \<and> of_mission (d_tasks (db w)) (m_id m) a"
    if "m \<in> set (d_missions (db w))" "active (m_state m)" for m
    by (rule mission_single [OF c that])
  show "\<exists>w1. fence ''attempt_expired'' True None w = (Inr (), w1) \<and>
      (if busy (db w1) (identity p) then r = no_request \<and> w' = w1
       else r = no_request \<and> w' = w1 \<or> one_started (identity p) (db w1) (db w'))"
    if "claim_effect p w = (Inr r, w')" for p r w'
    using claim_effect_starts [OF that] by blast
qed

theorem one_active_attempt_witness:
  "\<exists>!a. a \<in> set (d_attempts (db demo_started)) \<and> active (a_state a) \<and> of_mission (d_tasks (db demo_started)) demo_mission a"
proof -
  from demo_started_state obtain m where "m \<in> set (d_missions (db demo_started))" "m_id m = demo_mission" "m_state m = Running"
    by (cases "d_missions (db demo_started)") auto
  with one_active_attempt [OF demo_started_reachable, THEN conjunct2, THEN conjunct1] show ?thesis by force
qed

text \<open>
  C5. A lost, expired or revoked attempt can always be fenced: in every reachable index the loop that
  interrupts attempts is never refused by the life cycle, by a missing row or by a foreign key. When it
  fails, either the last reading it took of the clock is not a timestamp (and the error is what
  \<open>timestamp\<close> says of it), or the last identifier it drew is already the identifier of an event.
\<close>
theorem fencing_never_refused:
  assumes "reachable coord w" "fence reason expired_only worker w = (Inl e, w')"
  shows "same_env w w' \<and>
    ((\<exists>n. w_ticks w' = Suc n \<and> timestamp (VFloat (Fin (w_clock w n))) = Inl e) \<or>
     e = Raised ''IntegrityError'' \<and> (\<exists>n. w_draws w' = Suc n \<and> ''e_'' @ w_uuid w' n \<in> e_id ` set (d_events (db w'))))"
proof -
  have "environment_failure e w'"
    by (rule fence_error [OF _ reachable_placed [OF assms(1)] assms(2)])
      (use reachable_sound [OF assms(1)] in \<open>simp add: sound_index_def\<close>)
  moreover have "same_env w w'" by (rule env_keptD [OF env_fence assms(2)])
  ultimately show ?thesis
    by (simp add: environment_failure_def unreadable_clock_def repeated_event_def same_env_def)
qed

theorem fencing_never_refused_witness:
  "\<exists>w'. fence ''backend_restart'' False None demo_started = (Inl (Problem ''invalid_clock'' 500), w')
     \<and> (\<exists>n. w_ticks w' = Suc n \<and> timestamp (VFloat (Fin (w_clock demo_started n))) = Inl (Problem ''invalid_clock'' 500))"
proof -
  from demo_started_state have "fst (fence ''backend_restart'' False None demo_started) = Inl (Problem ''invalid_clock'' 500)"
    by blast
  then obtain w' where run: "fence ''backend_restart'' False None demo_started = (Inl (Problem ''invalid_clock'' 500), w')"
    by (rule fst_pair)
  from fencing_never_refused [OF demo_started_reachable run] run show ?thesis by simp
qed

text \<open>
  C6. Revoking a worker is final for its credential: the attempts it holds are interrupted in the same
  transaction, and in every later index the old credential is refused with status 403, so it can
  neither claim work nor deliver a result.
\<close>
theorem revoked_credential_is_dead:
  assumes "sound_index (db w)" "authorize p w = (Inr k, w)" "revoke_effect admin (identity p) w = (Inr v, w1)"
    and "later coord w1 w2"
  shows "(\<forall>a\<in>set (d_attempts (db w1)). a_worker a = identity p \<longrightarrow> \<not> active (a_state a)) \<and>
    (\<exists>code. claim_effect p w2 = (Inl (Problem code 403), w2) \<and> finish_body p i r h w2 = (Inl (Problem code 403), w2))"
proof
  from assms(1) have "coherent (db w)" "distinct_workers (db w)" by (simp_all add: sound_index_def)
  note R = revoke_effect_outcome [OF this assms(2,3)]
  then show "\<forall>a\<in>set (d_attempts (db w1)). a_worker a = identity p \<longrightarrow> \<not> active (a_state a)" by simp
  from R have d: "distinct_workers (db w1)" and s: "stale (db w1) p" by auto
  have "stale (db w2) p"
    by (rule stale_persists [OF worker_epochs.later_respects [OF assms(4)] d s])
  moreover have "distinct_workers (db w2)"
    by (rule epochs_keep_distinct [OF worker_epochs.later_respects [OF assms(4)] d])
  ultimately obtain code where "authorize p w2 = (Inl (Problem code 403), w2)"
    using stale_refused by blast
  then show "\<exists>code. claim_effect p w2 = (Inl (Problem code 403), w2) \<and> finish_body p i r h w2 = (Inl (Problem code 403), w2)"
    by (auto simp: claim_effect_def finish_body_def)
qed

theorem revoked_credential_is_dead_witness:
  "\<exists>w1 code. finish_body fake_cpu ''a_1'' demo_failure ''h1'' w1 = (Inl (Problem code 403), w1)"
proof -
  obtain k where k: "authorize fake_cpu demo_running = (Inr k, demo_running)" using demo_authorized by blast
  obtain v w1 where "revoke_effect ADMIN (identity fake_cpu) demo_running = (Inr v, w1)"
    using demo_revoked by (cases "revoke_effect ADMIN ''fake-cpu'' demo_running") (auto simp: is_ok_conv fake_cpu_def)
  from revoked_credential_is_dead [OF demo_running_sound k this later.now [of coordinator_plan]] show ?thesis by blast
qed

text \<open>
  C7. A claim that is repeated (a lost response, a restarted worker) returns the recorded request and
  changes nothing: no second attempt is started.
\<close>
theorem claim_is_idempotent:
  assumes "claim p data w = (Inr r, w')"
  shows "claim p data w' = (Inr r, w')"
proof -
  from assms obtain d where d: "require_role p ''worker'' = Inr ()" "dict_fields data [''operation_id''] [] = Inr d"
    and run: "operate p (get_or_none d ''operation_id'') ''claim'' data (claim_effect p) ''worker'' w = (Inr r, w')"
    by (auto simp: claim_def abind_Inr lift_def)
  have "operate p (get_or_none d ''operation_id'') ''claim'' data (claim_effect p) ''worker'' w' = (Inr r, w')"
    by (rule operate_replay [OF run env_claim frame_claim])
  with d show ?thesis by (simp add: claim_def abind_lift_Inr)
qed

theorem claim_is_idempotent_witness:
  "\<exists>w'. claim fake_cpu (demo_request 3) demo_running = (Inr no_request, w')
      \<and> claim fake_cpu (demo_request 3) w' = (Inr no_request, w')"
  using demo_claim claim_is_idempotent by blast

text \<open>
  A client that encodes a file as the contract asks (base64, size and digest of the content) is
  accepted, and the server recovers exactly the bytes the client encoded.
\<close>
theorem upload_round_trip:
  assumes "safe_name name" "int (length raw) \<le> limit" "hex_string 64 (sha raw)" "\<forall>i. expected = Some i \<longrightarrow> is_identifier i"
  shows "output_data sha (output_entry sha name raw expected) limit = Inr (name, raw)"
  using assms by (intro output_data_entry) auto

theorem upload_round_trip_witness:
  "output_data demo_sha (output_entry demo_sha ''resultat.md'' ''ok'' None) 10 = Inr (''resultat.md'', ''ok'')"
proof -
  have "safe_name ''resultat.md''" "hex_string 64 (demo_sha ''ok'')" by code_simp+
  then show ?thesis by (intro upload_round_trip) simp_all
qed

text \<open>
  C9. An accepted upload has a name that cannot leave the workspace (no separator, no leading dot, no
  reserved device name), at most \<open>limit\<close> bytes, and the size and digest the client declared.
\<close>
theorem accepted_upload_is_safe:
  assumes "output_data sha v limit = Inr (name, raw)"
  shows "CHR 0x2F \<notin> set name \<and> CHR 0x5C \<notin> set name \<and> CHR 0x00 \<notin> set name \<and> hd name \<noteq> CHR ''.''
    \<and> upper_ascii (hd (split_on (CHR ''.'') name)) \<notin> set RESERVED \<and> int (length raw) \<le> limit
    \<and> (\<exists>d. v = VDict d \<and> map_of d ''size'' = Some (VInt (int (length raw))) \<and> map_of d ''sha256'' = Some (VStr (sha raw)))"
proof -
  note O = output_data_Inr [OF assms]
  then have "safe_name name" by simp
  with safe_name_no_path O show ?thesis by (auto simp: safe_name_def)
qed

theorem accepted_upload_is_safe_witness:
  "output_data demo_sha (output_entry demo_sha ''resultat.md'' ''ok'' None) 10 = Inr (''resultat.md'', ''ok'')
   \<and> CHR 0x2F \<notin> set ''resultat.md''"
proof -
  have "safe_name ''resultat.md''" "hex_string 64 (demo_sha ''ok'')" by code_simp+
  then have "output_data demo_sha (output_entry demo_sha ''resultat.md'' ''ok'' None) 10 = Inr (''resultat.md'', ''ok'')"
    by (intro output_data_entry) simp_all
  with accepted_upload_is_safe [OF this] show ?thesis by simp
qed

text \<open>
  C10. What is published can be downloaded: after a publication the current version of the file, and the
  version under its own id, are returned with the published bytes and digest.
\<close>
theorem published_version_downloads:
  assumes "numbered (db w)" "publish p ws name raw expected m a w = (Inr (vid, out), w')"
    and "workspace_access q ws w' = (Inr row, w')" "hex_string 64 (w_sha w raw)"
    and "map_of out ''file_id'' = Some (VStr fid)" "is_identifier fid" "is_identifier vid" "version \<in> {VNull, VStr vid}"
  shows "\<exists>fname. download q ws (VStr fid) version w' = (Inr (raw, fname, w_sha w raw), w')"
proof (rule download_published [OF _ assms(2-4) _ assms(5,6) _ assms(7)])
  show "numbered (db w')" using movesD [OF version_numbers.moves_publish assms(2)] assms(1) by (simp add: numbering_kept_def)
  show "same_env w w'" by (rule env_keptD [OF env_publish assms(2)])
qed (use assms(8) in auto)

theorem published_version_downloads_witness:
  "\<exists>w' vid fid. (\<exists>out. publish ADMIN ''w_1'' ''a.txt'' ''x'' None None None demo_running = (Inr (vid, out), w'))
     \<and> (\<exists>fname. download ADMIN ''w_1'' (VStr fid) VNull w' = (Inr (''x'', fname, demo_sha ''x''), w'))"
proof -
  obtain w' vid out where run: "publish ADMIN ''w_1'' ''a.txt'' ''x'' None None None demo_running = (Inr (vid, out), w')"
    and ids: "map_of out ''file_id'' = Some (VStr (''f_'' @ demo_uuid 1))" "vid = ''v_'' @ demo_uuid 2"
    and acc: "workspace_access ADMIN ''w_1'' w' = (Inr \<lparr>ws_id = ''w_1'', ws_owner = ''local-admin'', ws_project = ''p''\<rparr>, w')"
    using demo_published by blast
  have n: "numbered (db demo_running)" using demo_running_sound by (simp add: sound_index_def)
  have sha: "w_sha demo_running = demo_sha" by (simp add: demo_running_def demo_world_def)
  have "hex_string 64 (demo_sha ''x'')" "is_identifier (''f_'' @ demo_uuid 1)" "is_identifier (''v_'' @ demo_uuid 2)"
    by code_simp+
  with ids(2) sha have "\<exists>fname. download ADMIN ''w_1'' (VStr (''f_'' @ demo_uuid 1)) VNull w'
      = (Inr (''x'', fname, w_sha demo_running ''x''), w')"
    by (intro published_version_downloads [OF n run acc _ ids(1)]) auto
  with run sha show ?thesis by metis
qed

text \<open>
  C11. A publication counts against the quota of its workspace and is refused when it does not fit: the
  bytes of all versions never exceed \<open>quota_bytes\<close> after it.
\<close>
theorem publication_respects_quota:
  assumes "numbered (db w)" "publish p ws name raw expected m a w = (Inr (vid, out), w')"
  shows "used_bytes (db w') ws = used_bytes (db w) ws + int (length raw)
    \<and> used_bytes (db w') ws \<le> quota_bytes (w_settings w) \<and> int (length raw) \<le> max_file_bytes (w_settings w)"
proof -
  from publish_published [OF assms(2)] obtain fid v where "published (db w) (db w') ws name fid v" "v_size v = int (length raw)"
    by blast
  with used_after_publish [OF assms(1)] have "used_bytes (db w') ws = used_bytes (db w) ws + int (length raw)" by metis
  moreover have "used_bytes (db w) ws + int (length raw) \<le> quota_bytes (w_settings w)"
    "int (length raw) \<le> max_file_bytes (w_settings w)"
    using publish_Inr [OF assms(2)] by (auto simp: Let_def)
  ultimately show ?thesis by simp
qed

theorem publication_respects_quota_witness:
  "\<exists>w' vid out. publish ADMIN ''w_1'' ''a.txt'' ''x'' None None None demo_running = (Inr (vid, out), w')
     \<and> used_bytes (db w') ''w_1'' = used_bytes (db demo_running) ''w_1'' + 1"
proof -
  obtain w' vid out where run: "publish ADMIN ''w_1'' ''a.txt'' ''x'' None None None demo_running = (Inr (vid, out), w')"
    using demo_published by blast
  have n: "numbered (db demo_running)" using demo_running_sound by (simp add: sound_index_def)
  from publication_respects_quota [OF n run] run show ?thesis by auto
qed

text \<open>
  C12. No lost update: once a version is published, any other publication that was prepared against the
  version it replaced (under the same name up to ASCII case, by anybody) is refused with
  \<open>version_conflict\<close> and writes nothing.
\<close>
theorem no_lost_update:
  assumes "numbered (db w)" "publish p ws name raw expected m a w = (Inr (vid, out), w')"
    and "upper_ascii name2 = upper_ascii name"
  shows "publish p2 ws name2 raw2 expected m2 a2 w' = (Inl (Problem ''version_conflict'' 409), w')"
proof (rule publish_twice [OF _ assms(2,3)])
  show "numbered (db w')" using movesD [OF version_numbers.moves_publish assms(2)] assms(1) by (simp add: numbering_kept_def)
qed

theorem no_lost_update_witness:
  "\<exists>w'. publish ADMIN ''w_1'' ''A.TXT'' ''y'' None None None w' = (Inl (Problem ''version_conflict'' 409), w')"
proof -
  obtain w' vid out where run: "publish ADMIN ''w_1'' ''a.txt'' ''x'' None None None demo_running = (Inr (vid, out), w')"
    using demo_published by blast
  have n: "numbered (db demo_running)" using demo_running_sound by (simp add: sound_index_def)
  have "upper_ascii ''A.TXT'' = upper_ascii ''a.txt''" by code_simp
  from no_lost_update [OF n run this] show ?thesis by blast
qed

text \<open>
  C13. An accepted result takes effect as a whole and only once: mission and attempt get the reported
  state and the hash is recorded; a completed attempt leaves one new version, its object and its
  result row, any other leaves none; a second delivery for the attempt is acknowledged as a duplicate
  if its content is the same and refused with \<open>result_conflict\<close> otherwise, writing nothing.
\<close>
theorem accepted_result_takes_effect_once:
  assumes "sound_index (db w)" "r_status r = Completed \<or> r_status r = Failed \<or> r_status r = Interrupted \<or> r_status r = Cancelled"
    and "finish_body p i r h w = (Inr (accepted False mid), w')" "r_generation r2 = r_generation r"
  shows "(\<exists>m\<in>set (d_missions (db w')). m_id m = mid \<and> m_state m = r_status r)
    \<and> (\<exists>a\<in>set (d_attempts (db w')). a_id a = i \<and> a_worker a = identity p \<and> a_state a = r_status r \<and> a_result a = Some h)
    \<and> (if r_status r = Completed then delivered (db w) w' i mid
       else d_versions (db w') = d_versions (db w) \<and> d_results (db w') = d_results (db w))
    \<and> finish_body p i r2 h2 w' =
         (if h2 = h then (Inr (accepted True mid), w') else (Inl (Problem ''result_conflict'' 409), w'))"
  using accepted_result [OF _ _ assms(3), of r2 h2] assms(1,2,4) by (simp add: sound_index_def)

theorem accepted_result_takes_effect_once_witness:
  "\<exists>w'. finish_body fake_cpu ''a_1'' demo_failure ''h1'' demo_running = (Inr (accepted False ''m_1''), w')
     \<and> finish_body fake_cpu ''a_1'' demo_failure ''h2'' w' = (Inl (Problem ''result_conflict'' 409), w')"
proof -
  obtain w' where run: "finish_body fake_cpu ''a_1'' demo_failure ''h1'' demo_running = (Inr (accepted False ''m_1''), w')"
    using demo_finish by blast
  from accepted_result_takes_effect_once [OF demo_running_sound _ run refl, of "''h2''"] run show ?thesis
    by (auto simp: demo_failure_def)
qed

end
