(* ===== verification/Http_IO.thy ===== *)
theory Http_IO
  imports PyValue
begin

section \<open>control_plane/http_io.py: a socket reader with a deadline\<close>

text \<open>
  \<open>DeadlineInput\<close>: a buffer in front of a socket, every step of which reads the monotonic clock and
  raises \<open>TimeoutError\<close> once the deadline has passed. The peer is the list of segments \<open>recv\<close> will
  deliver (a segment longer than the request is split, as the kernel does); an exhausted list, like an
  empty segment, is an orderly close. \<open>ResponseInput\<close> adds the limits on response headers.
\<close>

record reader =
  rd_buffer :: string
  rd_wire :: "string list"
  rd_deadline :: rat
  rd_clock :: "nat \<Rightarrow> rat"
  rd_ticks :: nat
  rd_header_bytes :: nat

type_synonym 'a rd = "(reader, 'a) act"

definition open_reader :: "string list \<Rightarrow> rat \<Rightarrow> (nat \<Rightarrow> rat) \<Rightarrow> reader" where
  "open_reader wire seconds clock = \<lparr>rd_buffer = [], rd_wire = wire, rd_deadline = clock 0 + seconds, rd_clock = clock,
     rd_ticks = 1, rd_header_bytes = 0\<rparr>"

definition remaining :: "rat rd" where
  "remaining s =
     (let left = rd_deadline s - rd_clock s (rd_ticks s); s' = s\<lparr>rd_ticks := Suc (rd_ticks s)\<rparr>
      in if left \<le> 0 then (Inl (Raised ''TimeoutError''), s') else (Inr left, s'))"

definition recv :: "nat \<Rightarrow> string rd" where
  "recv n s =
     (case rd_wire s of [] \<Rightarrow> (Inr [], s)
      | x # xs \<Rightarrow> if length x \<le> n then (Inr x, s\<lparr>rd_wire := xs\<rparr>)
                  else (Inr (take n x), s\<lparr>rd_wire := drop n x # xs\<rparr>))"

definition receive :: "nat \<Rightarrow> string rd" where
  "receive limit =
     abind remaining (\<lambda>_.
     abind (recv (min limit 8192)) (\<lambda>data.
     abind remaining (\<lambda>_. ret data)))"

definition newline_in :: "nat \<Rightarrow> string \<Rightarrow> nat option" where
  \<comment> \<open>\<open>buffer.find(b"\n", 0, limit)\<close>\<close>
  "newline_in limit b = List.find (\<lambda>i. b ! i = CHR 0x0A) [0..<min limit (length b)]"

lemma remaining_keeps: "remaining s = (r, s') \<Longrightarrow> rd_buffer s' = rd_buffer s \<and> rd_wire s' = rd_wire s
    \<and> rd_header_bytes s' = rd_header_bytes s"
  by (auto simp: remaining_def Let_def split: if_splits)

lemma recv_keeps:
  "recv n s = (r, s') \<Longrightarrow> rd_buffer s' = rd_buffer s \<and> rd_header_bytes s' = rd_header_bytes s
     \<and> (\<exists>d. r = Inr d \<and> d @ concat (rd_wire s') = concat (rd_wire s) \<and> length d \<le> n)"
  by (auto simp: recv_def split: list.splits if_splits)

lemma receive_keeps_buffer: "receive n s = (r, s') \<Longrightarrow> rd_buffer s' = rd_buffer s \<and> rd_header_bytes s' = rd_header_bytes s"
  by (cases r) (auto simp: receive_def abind_Inr abind_Inl ret_def dest!: remaining_keeps recv_keeps)

lemma receive_data:
  "receive n s = (Inr d, s') \<Longrightarrow> d @ concat (rd_wire s') = concat (rd_wire s) \<and> length d \<le> n"
  by (auto simp: receive_def abind_Inr ret_def dest!: remaining_keeps recv_keeps)

function readline_loop :: "nat \<Rightarrow> reader \<Rightarrow> string res \<times> reader" where
  "readline_loop limit s =
     (case remaining s of
        (Inl e, s1) \<Rightarrow> (Inl e, s1)
      | (Inr _, s1) \<Rightarrow>
          (let position = newline_in limit (rd_buffer s1)
           in if position \<noteq> None \<or> limit \<le> length (rd_buffer s1)
              then (let count = (case position of Some i \<Rightarrow> i + 1 | None \<Rightarrow> limit)
                    in (Inr (take count (rd_buffer s1)), s1\<lparr>rd_buffer := drop count (rd_buffer s1)\<rparr>))
              else (case receive (limit - length (rd_buffer s1)) s1 of
                      (Inl e, s2) \<Rightarrow> (Inl e, s2)
                    | (Inr data, s2) \<Rightarrow>
                        if data = [] then (Inr (rd_buffer s2), s2\<lparr>rd_buffer := []\<rparr>)
                        else readline_loop limit (s2\<lparr>rd_buffer := rd_buffer s2 @ data\<rparr>))))"
  by pat_completeness auto
termination
proof (relation "measure (\<lambda>(limit, s). limit - length (rd_buffer s))", goal_cases)
  case 1
  then show ?case by simp
next
  case prems: 2
  from remaining_keeps [OF prems(1) [symmetric]] receive_keeps_buffer [OF prems(5) [symmetric]] prems(4,7)
  show ?case by (auto simp flip: length_greater_0_conv)
qed

declare readline_loop.simps [simp del]

definition readline :: "int \<Rightarrow> string rd" where
  "readline limit = readline_loop (nat (if limit < 0 then 4097 else limit))"

function read_loop :: "nat \<Rightarrow> string \<Rightarrow> reader \<Rightarrow> string res \<times> reader" where
  "read_loop n result s =
     (if length result < n
      then (case receive (n - length result) s of
              (Inl e, s1) \<Rightarrow> (Inl e, s1)
            | (Inr data, s1) \<Rightarrow> if data = [] then (Inr result, s1) else read_loop n (result @ data) s1)
      else (Inr result, s))"
  by pat_completeness auto
termination
  by (relation "measure (\<lambda>(n, result, s). n - length result)")
    (auto simp flip: length_greater_0_conv)

declare read_loop.simps [simp del]

definition read_bytes :: "int \<Rightarrow> string rd" where
  "read_bytes n =
     (if n < 0 then fail (Raised ''ValueError'')
      else abind (gets rd_buffer) (\<lambda>buffer.
           abind (modify (\<lambda>s. s\<lparr>rd_buffer := drop (nat n) buffer\<rparr>)) (\<lambda>_.
           abind (read_loop (nat n) (take (nat n) buffer)) (\<lambda>result.
           abind remaining (\<lambda>_. ret result)))))"

definition response_readline :: "int \<Rightarrow> string rd" where
  "response_readline limit =
     abind (readline (min limit 4097)) (\<lambda>line.
     abind (modify (\<lambda>s. s\<lparr>rd_header_bytes := rd_header_bytes s + length line\<rparr>)) (\<lambda>_.
     abind (gets rd_header_bytes) (\<lambda>total.
     abind (lift (if 4096 < length line \<or> 16384 < total \<or> \<not> ends_with [CHR 0x0D, CHR 0x0A] line
                  then Inl (Raised ''OSError'') else Inr ())) (\<lambda>_. ret line))))"

subsection \<open>Nothing is lost\<close>

text \<open>The bytes still to be read: those in the buffer, then those on the wire.\<close>

definition pending :: "reader \<Rightarrow> string" where
  "pending s = rd_buffer s @ concat (rd_wire s)"

lemma newline_in_Some:
  assumes "newline_in limit b = Some i"
  shows "i < limit" "i < length b" "b ! i = CHR 0x0A" "\<forall>j<i. b ! j \<noteq> CHR 0x0A"
  using assms by (auto simp: newline_in_def find_Some_iff)

lemma newline_in_None: "newline_in limit b = None \<Longrightarrow> CHR 0x0A \<notin> set (take limit b)"
  by (auto simp: newline_in_def find_None_iff in_set_conv_nth)

lemma readline_loop_spec:
  assumes "readline_loop limit s = (Inr line, s')"
  shows "line @ pending s' = pending s \<and> length line \<le> limit
    \<and> CHR 0x0A \<notin> set (butlast line)
    \<and> (length line = limit \<or> (line \<noteq> [] \<and> last line = CHR 0x0A) \<or> rd_buffer s' = [])"
  using assms
proof (induction limit s arbitrary: line s' rule: readline_loop.induct)
  case (1 limit s)
  obtain r0 s1 where rem: "remaining s = (r0, s1)" by fastforce
  note K = remaining_keeps [OF rem]
  show ?case
  proof (cases r0)
    case (Inl e)
    with 1 rem show ?thesis by (simp add: readline_loop.simps)
  next
    case (Inr t)
    show ?thesis
    proof (cases "newline_in limit (rd_buffer s1)")
      case (Some i)
      note N = newline_in_Some [OF Some]
      from 1(2) rem Inr Some have l: "line = take (i + 1) (rd_buffer s1)" "s' = s1\<lparr>rd_buffer := drop (i + 1) (rd_buffer s1)\<rparr>"
        by (simp_all add: readline_loop.simps)
      have "butlast line = take i (rd_buffer s1)" "line \<noteq> []" "last line = CHR 0x0A"
        using N l by (auto simp: take_Suc_conv_app_nth butlast_append)
      moreover have "CHR 0x0A \<notin> set (take i (rd_buffer s1))" using N by (auto simp: in_set_conv_nth)
      moreover have "length line \<le> limit" using l N by simp
      ultimately show ?thesis using l K by (simp add: pending_def)
    next
      case None
      note N = newline_in_None [OF None]
      show ?thesis
      proof (cases "limit \<le> length (rd_buffer s1)")
        case True
        with 1(2) rem Inr None have l: "line = take limit (rd_buffer s1)" "s' = s1\<lparr>rd_buffer := drop limit (rd_buffer s1)\<rparr>"
          by (simp_all add: readline_loop.simps)
        then show ?thesis using N K True by (auto simp: pending_def dest: in_set_butlastD)
      next
        case False
        obtain r2 s2 where rc: "receive (limit - length (rd_buffer s1)) s1 = (r2, s2)" by fastforce
        from 1(2) rem Inr None False rc obtain data where data: "r2 = Inr data"
          by (cases r2) (auto simp: readline_loop.simps)
        note R = receive_data [OF rc [unfolded data]] receive_keeps_buffer [OF rc]
        show ?thesis
        proof (cases "data = []")
          case True
          with 1(2) rem Inr None False rc data have l: "line = rd_buffer s2" "s' = s2\<lparr>rd_buffer := []\<rparr>"
            by (simp_all add: readline_loop.simps)
          then show ?thesis using N K R True False by (auto simp: pending_def dest: in_set_butlastD)
        next
          case ne: False
          with 1(2) rem Inr None False rc data
          have "readline_loop limit (s2\<lparr>rd_buffer := rd_buffer s2 @ data\<rparr>) = (Inr line, s')"
            by (simp add: readline_loop.simps)
          from 1(1) [OF rem [symmetric] Inr refl _ rc [symmetric] data ne this] None False K R show ?thesis
            by (simp add: pending_def)
        qed
      qed
    qed
  qed
qed

lemma read_loop_spec:
  assumes "read_loop n result s = (Inr data, s')" "length result \<le> n"
  shows "\<exists>more. data = result @ more \<and> more @ concat (rd_wire s') = concat (rd_wire s) \<and> rd_buffer s' = rd_buffer s
    \<and> length data \<le> n"
  using assms
proof (induction n result s arbitrary: data s' rule: read_loop.induct)
  case (1 n result s)
  show ?case
  proof (cases "length result < n")
    case True
    obtain r s1 where rc: "receive (n - length result) s = (r, s1)" by fastforce
    from 1(2) True rc obtain d where d: "r = Inr d" by (cases r) (auto simp: read_loop.simps)
    note R = receive_data [OF rc [unfolded d]] receive_keeps_buffer [OF rc]
    show ?thesis
    proof (cases "d = []")
      case nil: True
      with 1(2) True rc d have "data = result" "s' = s1" by (simp_all add: read_loop.simps)
      with R nil True show ?thesis by simp
    next
      case False
      with 1(2) True rc d have run: "read_loop n (result @ d) s1 = (Inr data, s')" by (simp add: read_loop.simps)
      from R True have "length (result @ d) \<le> n" by auto
      from 1(1) [OF True rc [symmetric] d False run this] obtain more where
        "data = (result @ d) @ more" "more @ concat (rd_wire s') = concat (rd_wire s1)" "rd_buffer s' = rd_buffer s1"
        "length data \<le> n" by blast
      with R show ?thesis by (intro exI [of _ "d @ more"]) simp
    qed
  next
    case False
    with 1 show ?thesis by (auto simp: read_loop.simps)
  qed
qed

lemma read_bytes_spec:
  assumes "read_bytes n s = (Inr data, s')"
  shows "data @ pending s' = pending s \<and> int (length data) \<le> n"
proof -
  from assms obtain s1 where pos: "0 \<le> n" and
    run: "read_loop (nat n) (take (nat n) (rd_buffer s)) (s\<lparr>rd_buffer := drop (nat n) (rd_buffer s)\<rparr>) = (Inr data, s1)"
    and s': "rd_buffer s' = rd_buffer s1" "rd_wire s' = rd_wire s1"
    by (auto simp: read_bytes_def abind_Inr act_defs split: if_splits dest!: remaining_keeps)
  have "length (take (nat n) (rd_buffer s)) \<le> nat n" by simp
  from read_loop_spec [OF run this] obtain more where m: "data = take (nat n) (rd_buffer s) @ more"
    "more @ concat (rd_wire s1) = concat (rd_wire s)" "rd_buffer s1 = drop (nat n) (rd_buffer s)" "length data \<le> nat n"
    by auto
  show ?thesis
  proof (cases "more = []")
    case True
    with m s' pos show ?thesis by (auto simp: pending_def)
  next
    case False
    with m(1,4) have "length (rd_buffer s) < nat n" by (cases more) (auto simp: min_def split: if_splits)
    with m s' pos show ?thesis by (auto simp: pending_def)
  qed
qed

text \<open>Every byte is handed out before the deadline: a successful step has read the clock in time.\<close>

lemma remaining_in_time:
  "remaining s = (Inr t, s') \<Longrightarrow> rd_clock s (rd_ticks s) < rd_deadline s"
  by (auto simp: remaining_def Let_def split: if_splits)


subsection \<open>A punctual peer\<close>

text \<open>
  The deadline never passes and the peer closes only at the end of its bytes: then no step fails, and
  a line is delivered however the bytes were cut into segments.
\<close>

definition punctual :: "reader \<Rightarrow> bool" where
  "punctual s \<longleftrightarrow> (\<forall>n. rd_clock s n < rd_deadline s) \<and> [] \<notin> set (rd_wire s)"

lemma remaining_punctual:
  "punctual s \<Longrightarrow> \<exists>t s'. remaining s = (Inr t, s') \<and> punctual s' \<and> rd_buffer s' = rd_buffer s \<and> rd_wire s' = rd_wire s"
  by (auto simp: punctual_def remaining_def Let_def not_le)

lemma recv_punctual:
  "punctual s \<Longrightarrow> 0 < n \<Longrightarrow> \<exists>d s'. recv n s = (Inr d, s') \<and> punctual s' \<and> rd_buffer s' = rd_buffer s
     \<and> (d = [] \<longrightarrow> rd_wire s = [] \<and> rd_wire s' = [])"
  by (cases "rd_wire s") (auto simp: punctual_def recv_def)

lemma receive_punctual:
  assumes "punctual s" "0 < n"
  shows "\<exists>d s'. receive n s = (Inr d, s') \<and> punctual s' \<and> rd_buffer s' = rd_buffer s \<and> (d = [] \<longrightarrow> rd_wire s' = [])"
proof -
  from remaining_punctual [OF assms(1)] obtain t s1 where 1: "remaining s = (Inr t, s1)" "punctual s1"
    "rd_buffer s1 = rd_buffer s" by blast
  have "0 < min n 8192" using assms(2) by simp
  from recv_punctual [OF 1(2) this] obtain d s2 where 2: "recv (min n 8192) s1 = (Inr d, s2)" "punctual s2"
    "rd_buffer s2 = rd_buffer s1" "d = [] \<longrightarrow> rd_wire s2 = []" by blast
  from remaining_punctual [OF 2(2)] obtain t' s3 where "remaining s2 = (Inr t', s3)" "punctual s3"
    "rd_buffer s3 = rd_buffer s2" "rd_wire s3 = rd_wire s2" by blast
  with 1 2 show ?thesis by (auto simp: receive_def abind_def ret_def)
qed

lemma readline_punctual:
  assumes "punctual s" "0 < limit"
  shows "\<exists>line s'. readline_loop limit s = (Inr line, s') \<and> punctual s'
    \<and> (length line = limit \<or> (line \<noteq> [] \<and> last line = CHR 0x0A) \<or> pending s' = [])"
  using assms
proof (induction limit s rule: readline_loop.induct)
  case (1 limit s)
  from remaining_punctual [OF 1(2)] obtain t s1 where rem: "remaining s = (Inr t, s1)" and p1: "punctual s1" by blast
  show ?case
  proof (cases "newline_in limit (rd_buffer s1) \<noteq> None \<or> limit \<le> length (rd_buffer s1)")
    case True
    with rem have run: "\<exists>line b. readline_loop limit s = (Inr line, s1\<lparr>rd_buffer := b\<rparr>)"
      by (subst readline_loop.simps) (simp only: prod.case sum.case Let_def if_True, blast)
    then obtain line b where l: "readline_loop limit s = (Inr line, s1\<lparr>rd_buffer := b\<rparr>)" by blast
    from readline_loop_spec [OF l] True rem have "length line = limit \<or> (line \<noteq> [] \<and> last line = CHR 0x0A)"
    proof (cases "newline_in limit (rd_buffer s1)")
      case None
      with True rem l show ?thesis by (auto simp: readline_loop.simps)
    next
      case (Some i)
      note N = newline_in_Some [OF Some]
      from l rem Some have "line = take (i + 1) (rd_buffer s1)" by (simp add: readline_loop.simps)
      with N show ?thesis by (auto simp: take_Suc_conv_app_nth)
    qed
    with l p1 show ?thesis by (auto simp: punctual_def)
  next
    case False
    then have "0 < limit - length (rd_buffer s1)" by auto
    from receive_punctual [OF p1 this] obtain d s2 where rc: "receive (limit - length (rd_buffer s1)) s1 = (Inr d, s2)"
      and p2: "punctual s2" and e: "d = [] \<longrightarrow> rd_wire s2 = []" by blast
    show ?thesis
    proof (cases "d = []")
      case True
      with False rem rc have "readline_loop limit s = (Inr (rd_buffer s2), s2\<lparr>rd_buffer := []\<rparr>)"
        by (simp add: readline_loop.simps)
      with True e p2 show ?thesis by (auto simp: pending_def punctual_def)
    next
      case ne: False
      have "punctual (s2\<lparr>rd_buffer := rd_buffer s2 @ d\<rparr>)" using p2 by (simp add: punctual_def)
      from 1(1) [OF rem [symmetric] refl refl False rc [symmetric] refl ne this 1(3)] False rem rc ne show ?thesis
        by (simp add: readline_loop.simps)
    qed
  qed
qed

text \<open>A line that is waiting, ends in a newline and fits the limit is read exactly.\<close>

lemma readline_line:
  assumes "punctual s" "pending s = line @ [CHR 0x0A] @ rest" "CHR 0x0A \<notin> set line" "length line < limit"
  shows "\<exists>s'. readline (int limit) s = (Inr (line @ [CHR 0x0A]), s') \<and> punctual s' \<and> pending s' = rest"
proof -
  have "0 < limit" using assms(4) by simp
  from readline_punctual [OF assms(1) this] obtain l s' where run: "readline_loop limit s = (Inr l, s')"
    and p: "punctual s'" and ending: "length l = limit \<or> (l \<noteq> [] \<and> last l = CHR 0x0A) \<or> pending s' = []" by blast
  from readline_loop_spec [OF run] have spec: "l @ pending s' = line @ [CHR 0x0A] @ rest" "length l \<le> limit"
    "CHR 0x0A \<notin> set (butlast l)" using assms(2) by auto
  have len: "length l = length line + 1"
  proof (rule ccontr)
    assume "length l \<noteq> length line + 1"
    then consider "length l \<le> length line" | "length line + 1 < length l" by linarith
    then show False
    proof cases
      case 1
      with spec(1) have l: "l = take (length l) line" by (metis append_eq_append_conv_if)
      then have no: "CHR 0x0A \<notin> set l" using assms(3) by (metis in_set_takeD)
      from 1 assms(4) have "length l \<noteq> limit" by simp
      with ending no have "pending s' = []" using last_in_set by fastforce
      with spec(1) no show False by auto
    next
      case 2
      from spec(1) 2 have "butlast l ! length line = CHR 0x0A"
        by (metis add_lessD1 append_Cons length_butlast less_diff_conv nth_append nth_append_length nth_butlast)
      moreover have "length line < length (butlast l)" using 2 by simp
      ultimately show False using spec(3) by (metis nth_mem)
    qed
  qed
  have split: "l @ pending s' = (line @ [CHR 0x0A]) @ rest" using spec(1) by simp
  have "length l = length (line @ [CHR 0x0A])" using len by simp
  with split have "l = line @ [CHR 0x0A] \<and> pending s' = rest" by (metis append_eq_append_conv)
  moreover have "readline (int limit) s = readline_loop limit s" by (simp add: readline_def)
  ultimately show ?thesis using run p by simp
qed

end
