(* ===== verification/Text_Utils.thy ===== *)
theory Text_Utils
  imports PyValue
begin

section \<open>Methods of Python strings\<close>

text \<open>
  The string methods the parsers of the repository use, on \<^typ>\<open>string\<close>: \<open>partition\<close>, \<open>rpartition\<close>,
  \<open>split()\<close>, \<open>splitlines()\<close>, \<open>isdigit()\<close> and \<open>int(text, base)\<close>, with what they do outside the usual
  inputs (a missing separator, superscript digits, underscores and signs in numbers).
\<close>

text \<open>\<open>s.partition(c)\<close>: the part before the first \<open>c\<close>, whether there is one, the part after it.\<close>

definition before_char :: "char \<Rightarrow> string \<Rightarrow> string" where
  "before_char c s = takeWhile (\<lambda>x. x \<noteq> c) s"

definition after_char :: "char \<Rightarrow> string \<Rightarrow> string" where
  "after_char c s = drop 1 (dropWhile (\<lambda>x. x \<noteq> c) s)"

text \<open>\<open>s.rpartition(c)\<close>: without a \<open>c\<close> everything is the last part.\<close>

definition before_last :: "char \<Rightarrow> string \<Rightarrow> string" where
  "before_last c s = rev (after_char c (rev s))"

definition after_last :: "char \<Rightarrow> string \<Rightarrow> string" where
  "after_last c s = rev (before_char c (rev s))"

lemma before_after: "c \<in> set s \<Longrightarrow> before_char c s @ [c] @ after_char c s = s"
  by (induction s) (auto simp: before_char_def after_char_def)

lemma before_char_notin: "c \<notin> set (before_char c s)"
  by (auto simp: before_char_def dest: set_takeWhileD)

lemma before_char_append [simp]: "c \<notin> set s \<Longrightarrow> before_char c (s @ c # t) = s"
  by (induction s) (auto simp: before_char_def)

lemma after_char_append [simp]: "c \<notin> set s \<Longrightarrow> after_char c (s @ c # t) = t"
  by (induction s) (auto simp: after_char_def)

lemma before_char_id [simp]: "c \<notin> set s \<Longrightarrow> before_char c s = s"
  by (induction s) (auto simp: before_char_def)

text \<open>\<open>s.split()\<close> and \<open>s.splitlines()\<close>.\<close>

fun words_acc :: "string \<Rightarrow> string \<Rightarrow> string list" where
  "words_acc w [] = (if w = [] then [] else [w])"
| "words_acc w (c # cs) =
     (if is_space c then (if w = [] then words_acc [] cs else w # words_acc [] cs) else words_acc (w @ [c]) cs)"

definition words_of :: "string \<Rightarrow> string list" where "words_of s = words_acc [] s"

definition line_break :: "char \<Rightarrow> bool" where
  "line_break c = ((10 \<le> ord c \<and> ord c \<le> 13) \<or> (28 \<le> ord c \<and> ord c \<le> 30) \<or> ord c = 133)"

fun lines_acc :: "string \<Rightarrow> string \<Rightarrow> string list" where
  "lines_acc l [] = (if l = [] then [] else [l])"
| "lines_acc l [c] = (if line_break c then [l] else [l @ [c]])"
| "lines_acc l (c # d # cs) =
     (if ord c = 13 \<and> ord d = 10 then l # lines_acc [] cs
      else if line_break c then l # lines_acc [] (d # cs) else lines_acc (l @ [c]) (d # cs))"

definition lines_of :: "string \<Rightarrow> string list" where "lines_of s = lines_acc [] s"

text \<open>\<open>s.isdigit()\<close> accepts the three superscripts of Latin-1, which \<open>int\<close> refuses.\<close>

definition digit_like :: "char \<Rightarrow> bool" where
  "digit_like c = (is_digit c \<or> ord c = 178 \<or> ord c = 179 \<or> ord c = 185)"

definition isdigit :: "string \<Rightarrow> bool" where "isdigit s = (s \<noteq> [] \<and> list_all digit_like s)"

definition decimal :: "string \<Rightarrow> bool" where "decimal s = (s \<noteq> [] \<and> list_all is_digit s)"

definition hex_value :: "char \<Rightarrow> nat option" where
  "hex_value c =
     (if is_digit c then Some (ord c - 48)
      else if 97 \<le> ord c \<and> ord c \<le> 122 then Some (ord c - 87)
      else if 65 \<le> ord c \<and> ord c \<le> 90 then Some (ord c - 55) else None)"

fun base_digits :: "nat \<Rightarrow> nat \<Rightarrow> bool \<Rightarrow> string \<Rightarrow> nat option" where
  \<comment> \<open>the digits of a number in a base; a single underscore may stand between two digits\<close>
  "base_digits base acc ok [] = (if ok then Some acc else None)"
| "base_digits base acc ok (c # cs) =
     (if c = CHR ''_'' then (if ok then base_digits base acc False cs else None)
      else (case hex_value c of
              Some v \<Rightarrow> if v < base then base_digits base (acc * base + v) True cs else None
            | None \<Rightarrow> None))"

definition unsigned_text :: "nat \<Rightarrow> string \<Rightarrow> nat option" where
  "unsigned_text base s =
     (let body = (if base = 16 \<and> (starts_with ''0x'' s \<or> starts_with ''0X'' s) then drop 2 s else s);
          body' = (if body \<noteq> s \<and> starts_with ''_'' body then drop 1 body else body)
      in base_digits base 0 False body')"

definition int_of_text :: "nat \<Rightarrow> string \<Rightarrow> int option" where
  \<comment> \<open>\<open>int(s, base)\<close>, \<open>None\<close> where it raises \<open>ValueError\<close>\<close>
  "int_of_text base s =
     (let t = strip s
      in case t of
           [] \<Rightarrow> None
         | c # cs \<Rightarrow> if c = CHR ''-'' then map_option (\<lambda>n. - int n) (unsigned_text base cs)
                     else if c = CHR ''+'' then map_option int (unsigned_text base cs)
                     else map_option int (unsigned_text base t))"

definition parse_int :: "nat \<Rightarrow> string \<Rightarrow> int res" where
  "parse_int base s = present (int_of_text base s) ''ValueError''"

text \<open>\<open>re.fullmatch\<close> of one part between two literals.\<close>

definition between :: "string \<Rightarrow> string \<Rightarrow> string \<Rightarrow> string option" where
  "between p s x =
     (if length p + length s \<le> length x \<and> starts_with p x \<and> ends_with s x
      then Some (take (length x - length p - length s) (drop (length p) x)) else None)"

lemma between_Some: "between p s x = Some m \<longleftrightarrow> x = p @ m @ s"
proof
  assume "between p s x = Some m"
  then have *: "length p + length s \<le> length x" "take (length p) x = p" "drop (length x - length s) x = s"
    "m = take (length x - length p - length s) (drop (length p) x)"
    by (auto simp: between_def starts_with_def ends_with_def split: if_splits)
  have "x = take (length p) x @ drop (length p) x" by simp
  also have "drop (length p) x = m @ drop (length x - length p - length s) (drop (length p) x)"
    using *(4) by (metis append_take_drop_id)
  also have "drop (length x - length p - length s) (drop (length p) x) = s"
    using * by simp
  finally show "x = p @ m @ s" using *(2) by simp
next
  assume "x = p @ m @ s"
  then show "between p s x = Some m"
    by (simp add: between_def starts_with_def ends_with_def)
qed

lemma base_digits_decimal:
  "list_all is_digit s \<Longrightarrow> s \<noteq> [] \<or> ok \<Longrightarrow> base_digits 10 acc ok s = Some (digits_value acc s)"
proof (induction s arbitrary: acc ok)
  case Nil
  then show ?case by simp
next
  case (Cons c s)
  then have d: "is_digit c" by simp
  then have "c \<noteq> CHR ''_''" by (auto simp: is_digit_def ord_def)
  moreover have "hex_value c = Some (ord c - 48)" "ord c - 48 < 10"
    using d by (auto simp: hex_value_def is_digit_def)
  ultimately show ?case using Cons by simp
qed

lemma digit_not_space: "is_digit c \<Longrightarrow> \<not> is_space c"
  by (auto simp: is_digit_def is_space_def)

lemma lstrip_id: "s = [] \<or> \<not> is_space (hd s) \<Longrightarrow> lstrip s = s"
  by (cases s) (auto simp: lstrip_def)

lemma strip_id: "s = [] \<or> (\<not> is_space (hd s) \<and> \<not> is_space (last s)) \<Longrightarrow> strip s = s"
proof -
  assume s: "s = [] \<or> (\<not> is_space (hd s) \<and> \<not> is_space (last s))"
  then have "lstrip s = s" by (intro lstrip_id) auto
  moreover have "lstrip (rev s) = rev s" using s by (intro lstrip_id) (auto simp: hd_rev)
  ultimately show ?thesis by (simp add: strip_def)
qed

lemma int_of_decimal: "decimal s \<Longrightarrow> int_of_text 10 s = Some (int (nat_of_digits s))"
proof -
  assume s: "decimal s"
  then obtain c cs where cs: "s = c # cs" "is_digit c" by (cases s) (auto simp: decimal_def)
  have all: "list_all is_digit s" using s by (simp add: decimal_def)
  then have "is_digit (last s)" using cs by (metis last_in_set list.distinct(1) list_all_iff)
  then have "strip s = s" using cs by (intro strip_id) (auto dest: digit_not_space)
  moreover have "c \<noteq> CHR ''-''" "c \<noteq> CHR ''+''" using cs(2) by (auto simp: is_digit_def ord_def)
  moreover have "unsigned_text 10 s = Some (nat_of_digits s)"
    using base_digits_decimal [OF all, of False 0] cs by (simp add: unsigned_text_def nat_of_digits_def)
  ultimately show ?thesis using cs by (simp add: int_of_text_def)
qed

lemma int_of_nat_digits [simp]: "int_of_text 10 (nat_digits n) = Some (int n)"
  by (subst int_of_decimal) (simp_all add: decimal_def nat_digits_are_digits)

text \<open>
  The first integer that \<open>float\<close> cannot round to a finite double: \<open>math.isfinite\<close> and comparisons through
  \<open>float\<close> raise \<open>OverflowError\<close> from there on.
\<close>

definition FLOAT_LIMIT :: int where "FLOAT_LIMIT = 2 ^ 1024 - 2 ^ 970"

definition finite_number :: "val \<Rightarrow> rat option res" where
  \<comment> \<open>\<open>type(v) in (int, float) and math.isfinite(v)\<close>\<close>
  "finite_number v =
     (case v of
        VInt i \<Rightarrow> if FLOAT_LIMIT \<le> \<bar>i\<bar> then Inl (Raised ''OverflowError'') else Inr (Some (of_int i))
      | VFloat (Fin x) \<Rightarrow> Inr (Some x)
      | _ \<Rightarrow> Inr None)"

text \<open>SHA-256 and the runtime's \<open>float.__repr__\<close>, as the canonical digests need them.\<close>

record hashing =
  hs_sha :: "string \<Rightarrow> string"
  hs_frepr :: "rat \<Rightarrow> string"

end
