(* ===== verification/Urls.thy ===== *)
theory Urls
  imports Text_Utils
begin

section \<open>urllib.parse.urlsplit, as the loopback checks use it\<close>

text \<open>
  The server's path check, the worker's base URL and the worker's configuration all rest on
  \<open>urlsplit\<close>: this is its algorithm on Latin-1 text. The validation of the text between brackets
  (an IP literal) is the parameter \<open>ip_literal\<close>.
\<close>

record url =
  u_scheme :: string
  u_netloc :: string
  u_path :: string
  u_query :: string
  u_fragment :: string

definition scheme_char :: "char \<Rightarrow> bool" where
  "scheme_char c = (is_letter c \<or> is_digit c \<or> c \<in> set ''+-.'')"

definition split_scheme :: "string \<Rightarrow> string \<times> string" where
  "split_scheme s =
     (let p = before_char (CHR '':'') s
      in if CHR '':'' \<in> set s \<and> p \<noteq> [] \<and> is_letter (hd p) \<and> list_all scheme_char p
         then (lower p, after_char (CHR '':'') s) else ([], s))"

definition netloc_end :: "char \<Rightarrow> bool" where "netloc_end c = (c \<in> set ''/?#'')"

definition cut :: "char \<Rightarrow> string \<Rightarrow> string \<times> string" where
  \<comment> \<open>\<open>url.split(c, 1)\<close> when \<open>c\<close> is there\<close>
  "cut c s = (if c \<in> set s then (before_char c s, after_char c s) else (s, []))"

definition url_input :: "string \<Rightarrow> string" where
  \<comment> \<open>leading control characters and spaces, and the bytes the module removes\<close>
  "url_input s = filter (\<lambda>c. ord c \<noteq> 9 \<and> ord c \<noteq> 10 \<and> ord c \<noteq> 13) (dropWhile (\<lambda>c. ord c \<le> 32) s)"

definition split_tail :: "string \<Rightarrow> string \<Rightarrow> string \<Rightarrow> url" where
  "split_tail scheme netloc rest =
     (let (rest', fragment) = cut (CHR ''#'') rest; (path, query) = cut (CHR ''?'') rest'
      in \<lparr>u_scheme = scheme, u_netloc = netloc, u_path = path, u_query = query, u_fragment = fragment\<rparr>)"

definition urlsplit :: "(string \<Rightarrow> bool) \<Rightarrow> string \<Rightarrow> url res" where
  "urlsplit ip_literal s =
     (let (scheme, rest) = split_scheme (url_input s)
      in if starts_with ''//'' rest
         then (let netloc = takeWhile (\<lambda>c. \<not> netloc_end c) (drop 2 rest);
                   opened = CHR ''['' \<in> set netloc; closed = CHR '']'' \<in> set netloc
               in if opened \<noteq> closed \<or> (opened \<and> closed \<and> \<not> ip_literal netloc)
                  then Inl (Raised ''ValueError'')
                  else Inr (split_tail scheme netloc (drop (2 + length netloc) rest)))
         else Inr (split_tail scheme [] rest))"

text \<open>\<open>hostname\<close>, \<open>port\<close> and the user information of a split URL.\<close>

definition host_info :: "url \<Rightarrow> string" where "host_info u = after_last (CHR ''@'') (u_netloc u)"

definition has_user :: "url \<Rightarrow> bool" where "has_user u = (CHR ''@'' \<in> set (u_netloc u))"

definition host_port :: "url \<Rightarrow> string \<times> string" where
  "host_port u =
     (let h = host_info u
      in if CHR ''['' \<in> set h
         then (let b = after_char (CHR ''['') h
               in (before_char (CHR '']'') b, after_char (CHR '':'') (after_char (CHR '']'') b)))
         else (before_char (CHR '':'') h, after_char (CHR '':'') h))"

definition url_hostname :: "url \<Rightarrow> string option" where
  "url_hostname u =
     (let h = fst (host_port u)
      in if h = [] then None
         else Some (if CHR ''%'' \<in> set h then lower (before_char (CHR ''%'') h) @ ''%'' @ after_char (CHR ''%'') h
                    else lower h))"

definition url_port :: "url \<Rightarrow> nat option res" where
  "url_port u =
     (let p = snd (host_port u)
      in if p = [] then Inr None
         else if \<not> decimal p \<or> 65535 < nat_of_digits p then Inl (Raised ''ValueError'')
         else Inr (Some (nat_of_digits p)))"

text \<open>
  An origin-form path: no scheme, authority, query or fragment. Accepted paths start with a slash,
  and one that starts with a single slash is its own path.
\<close>

definition plain_path :: "(string \<Rightarrow> bool) \<Rightarrow> string \<Rightarrow> bool res" where
  "plain_path ip_literal path =
     rbind (urlsplit ip_literal path) (\<lambda>u.
     Inr (u_scheme u = [] \<and> u_netloc u = [] \<and> u_query u = [] \<and> u_fragment u = []
          \<and> CHR ''%'' \<notin> set path \<and> starts_with ''/'' path))"

lemma url_input_id: "\<forall>c\<in>set s. 33 \<le> ord c \<Longrightarrow> url_input s = s"
proof -
  assume s: "\<forall>c\<in>set s. 33 \<le> ord c"
  then have "dropWhile (\<lambda>c. ord c \<le> 32) s = s" by (cases s) auto
  moreover have "filter (\<lambda>c. ord c \<noteq> 9 \<and> ord c \<noteq> 10 \<and> ord c \<noteq> 13) s = s"
    using s by (intro filter_True) fastforce
  ultimately show ?thesis by (simp add: url_input_def)
qed

lemma starts_with_simps [simp]:
  "starts_with [] s" "\<not> starts_with (c # cs) []"
  "starts_with (c # cs) (d # ds) \<longleftrightarrow> c = d \<and> starts_with cs ds"
  by (auto simp: starts_with_def)

lemma split_scheme_slash: "split_scheme (CHR ''/'' # s) = ([], CHR ''/'' # s)"
  by (simp add: split_scheme_def before_char_def is_letter_def is_lower_def is_upper_def ord_def)

lemma plain_path_simple:
  assumes "\<forall>c\<in>set s. 33 \<le> ord c \<and> c \<notin> set ''%?#''" "s = [] \<or> hd s \<noteq> CHR ''/''"
  shows "plain_path ip (CHR ''/'' # s) = Inr True"
proof -
  have "\<forall>c\<in>set (CHR ''/'' # s). 33 \<le> ord c" using assms(1) by (auto simp: ord_def)
  note i = url_input_id [OF this]
  have "\<not> starts_with ''//'' (CHR ''/'' # s)" using assms(2) by (cases s) auto
  then have "urlsplit ip (CHR ''/'' # s) = Inr (split_tail [] [] (CHR ''/'' # s))"
    by (simp add: urlsplit_def i split_scheme_slash)
  moreover have "split_tail [] [] (CHR ''/'' # s)
      = \<lparr>u_scheme = [], u_netloc = [], u_path = CHR ''/'' # s, u_query = [], u_fragment = []\<rparr>"
    using assms(1) by (auto simp: split_tail_def cut_def Let_def)
  ultimately show ?thesis using assms(1) by (auto simp: plain_path_def)
qed

end
