(* ===== verification/Http_Api.thy ===== *)
theory Http_Api
  imports Control_Plane Http_IO Urls
begin

section \<open>control_plane/http_api.py: routes, request parsing, answers\<close>

text \<open>
  \<open>dispatch\<close> is \<open>API.dispatch\<close>, an action on the control plane. A connection (\<open>session\<close>) pairs the
  socket reader with the control plane; \<open>handle\<close> is \<open>Handler._handle\<close> and \<open>handle_one_request\<close> the
  parser of the small HTTP subset around it. The bytes of the three static pages are the parameter
  \<open>web\<close>, the JSON reader of the body \<open>loads\<close> (the tree \<open>json.loads\<close> reads, \<open>None\<close> where it raises).
\<close>

datatype body = Json val | Bytes string

record response =
  rs_body :: body
  rs_status :: nat
  rs_headers :: "(string \<times> string) list"

definition json :: "val \<Rightarrow> nat \<Rightarrow> response" where
  "json v status = \<lparr>rs_body = Json v, rs_status = status, rs_headers = []\<rparr>"

definition answer :: "nat \<Rightarrow> val app \<Rightarrow> response app" where
  "answer status m = abind m (\<lambda>v. ret (json v status))"

definition route :: "string \<Rightarrow> string \<Rightarrow> string \<Rightarrow> string option" where
  \<comment> \<open>\<open>re.fullmatch\<close> of a literal, an identifier group, a literal\<close>
  "route p s path = (case between p s path of Some i \<Rightarrow> if is_identifier i then Some i else None | None \<Rightarrow> None)"

definition worker_name :: "string \<Rightarrow> bool" where
  "worker_name i = (i = ''fake-cpu'' \<or> (starts_with ''n_'' i \<and> is_identifier i))"

definition revoke_route :: "string \<Rightarrow> string option" where
  "revoke_route path =
     (case between ''/api/v1/workers/'' ''/revoke'' path of
        Some i \<Rightarrow> if worker_name i then Some i else None
      | None \<Rightarrow> None)"

definition download_route :: "string \<Rightarrow> (string \<times> string \<times> string option) option" where
  "download_route path =
     (case between ''/api/v1/workspaces/'' ''/download'' path of
        None \<Rightarrow> None
      | Some rest \<Rightarrow>
          (case split_on (CHR ''/'') rest of
             [ws, f, file] \<Rightarrow> if is_identifier ws \<and> f = ''files'' \<and> is_identifier file then Some (ws, file, None) else None
           | [ws, f, file, v, version] \<Rightarrow>
               if is_identifier ws \<and> f = ''files'' \<and> is_identifier file \<and> v = ''versions'' \<and> is_identifier version
               then Some (ws, file, Some version) else None
           | _ \<Rightarrow> None))"

definition CLAIM_PATH :: string where "CLAIM_PATH = ''/api/v1/execution/claim''"
definition finish_route :: "string \<Rightarrow> string option" where "finish_route = route ''/api/v1/execution/'' ''/finish''"
definition state_route :: "string \<Rightarrow> string option" where "state_route = route ''/api/v1/execution/'' ''/state''"
definition mission_route :: "string \<Rightarrow> string \<Rightarrow> string option" where "mission_route s = route ''/api/v1/missions/'' s"

definition health :: "principal \<Rightarrow> val app" where
  "health p = abind (simulation_only p) (\<lambda>b.
     ret (VDict [(''schema'', schema_of ''health''), (''status'', VStr ''ok''), (''simulation_only'', VBool b)]))"

definition wrapped :: "string \<Rightarrow> val list app \<Rightarrow> val app" where
  "wrapped k m = abind m (\<lambda>vs. ret (VDict [(k, VList vs)]))"

definition download_answer :: "principal \<Rightarrow> string \<Rightarrow> string \<Rightarrow> string option \<Rightarrow> response app" where
  "download_answer p ws file version =
     abind (download p ws (VStr file) (opt_str version)) (\<lambda>(raw, name, checksum).
     ret \<lparr>rs_body = Bytes raw, rs_status = 200,
          rs_headers = [(''Content-Type'', ''application/octet-stream''),
            (''Content-Disposition'', ''attachment; filename='' @ [CHR 0x22] @ name @ [CHR 0x22]),
            (''X-Content-SHA256'', checksum)]\<rparr>)"

definition mission_action :: "coordinator \<Rightarrow> principal \<Rightarrow> string \<Rightarrow> val \<Rightarrow> response app option" where
  "mission_action coord p path data =
     (case mission_route ''/approve'' path of
        Some i \<Rightarrow> Some (answer 200 (approve coord p i data))
      | None \<Rightarrow>
     (case mission_route ''/cancel'' path of
        Some i \<Rightarrow> Some (answer 200 (cancel p i data))
      | None \<Rightarrow>
     (case mission_route ''/retry'' path of
        Some i \<Rightarrow> Some (answer 200 (retry p i data))
      | None \<Rightarrow> None)))"

definition mission_view :: "principal \<Rightarrow> string \<Rightarrow> response app option" where
  "mission_view p path =
     (case mission_route [] path of
        Some i \<Rightarrow> Some (answer 200 (get_mission p i))
      | None \<Rightarrow>
     (case mission_route ''/events'' path of
        Some i \<Rightarrow> Some (answer 200 (wrapped ''events'' (events p i)))
      | None \<Rightarrow> None))"

definition admin_dispatch :: "coordinator \<Rightarrow> string \<Rightarrow> string \<Rightarrow> principal \<Rightarrow> val \<Rightarrow> response app" where
  "admin_dispatch coord verb path p data =
     (let reads = (verb = ''GET''); writes = (verb = ''POST'') in
      if reads \<and> path = ''/api/v1/health'' then answer 200 (health p)
      else if path = ''/api/v1/missions'' \<and> reads then answer 200 (wrapped ''missions'' (list_missions p))
      else if path = ''/api/v1/missions'' \<and> writes then answer 201 (create_mission p data)
      else if writes \<and> path = ''/api/v1/cpu-missions'' then answer 201 (create_cpu_mission p data)
      else if reads \<and> path = ''/api/v1/workspaces'' then answer 200 (wrapped ''workspaces'' (workspaces p))
      else if reads \<and> path = ''/api/v1/dashboard'' then answer 200 (dashboard p)
      else if reads \<and> path = ''/api/v1/nodes'' then answer 200 (wrapped ''nodes'' (nodes p))
      else if reads \<and> path = ''/api/v1/workers''
           then answer 200 (wrapped ''workers'' (transaction (select (list_workers False))))
      else if writes \<and> revoke_route path \<noteq> None then answer 200 (revoke_worker p (the (revoke_route path)) data)
      else (case route ''/api/v1/workspaces/'' ''/files'' path of
              Some ws \<Rightarrow>
                if reads then answer 200 (list_files p ws)
                else if writes then answer 201 (upload p ws data)
                else fail (Problem ''not_found'' 404)
            | None \<Rightarrow>
           (case (if reads then download_route path else None) of
              Some (ws, file, version) \<Rightarrow> download_answer p ws file version
            | None \<Rightarrow>
           (case (if writes then mission_action coord p path data else None) of
              Some act \<Rightarrow> act
            | None \<Rightarrow>
           (case (if reads then mission_view p path else None) of
              Some act \<Rightarrow> act
            | None \<Rightarrow> fail (Problem ''not_found'' 404))))))"

definition dispatch :: "coordinator \<Rightarrow> string \<Rightarrow> string \<Rightarrow> principal \<Rightarrow> val \<Rightarrow> response app" where
  "dispatch coord verb path p data =
     (if verb = ''POST'' \<and> path = CLAIM_PATH then answer 200 (claim p data)
      else if verb = ''POST'' \<and> finish_route path \<noteq> None
      then abind (lift (require_role p ''worker'')) (\<lambda>_.
           abind (lift (result_from_dict data)) (\<lambda>r.
           answer 200 (finish p (the (finish_route path)) r)))
      else if verb = ''GET'' \<and> state_route path \<noteq> None then answer 200 (attempt_state p (the (state_route path)))
      else abind (lift (require_role p ''admin'')) (\<lambda>_. admin_dispatch coord verb path p data))"


subsection \<open>The request head\<close>

text \<open>
  \<open>re.fullmatch(rb"([A-Z]{1,16}) ([\x21-\x7e]+) (HTTP/1\.[01])\r\n", raw)\<close> and the same for a header
  line; header names are kept as they came, and looked up without regard to ASCII case.
\<close>

record request =
  q_verb :: string
  q_path :: string
  q_version :: string
  q_headers :: "(string \<times> string) list"

definition CRLF :: string where "CRLF = [CHR 0x0D, CHR 0x0A]"

definition visible :: "char \<Rightarrow> bool" where "visible c = (33 \<le> ord c \<and> ord c \<le> 126)"

definition request_line :: "string \<Rightarrow> (string \<times> string \<times> string) option" where
  "request_line raw =
     (case between [] CRLF raw of
        None \<Rightarrow> None
      | Some l \<Rightarrow>
          (case split_on (CHR '' '') l of
             [verb, path, version] \<Rightarrow>
               if 1 \<le> length verb \<and> length verb \<le> 16 \<and> list_all is_upper verb \<and> path \<noteq> [] \<and> list_all visible path
                  \<and> (version = ''HTTP/1.0'' \<or> version = ''HTTP/1.1'')
               then Some (verb, path, version) else None
           | _ \<Rightarrow> None))"

definition token_char :: "char \<Rightarrow> bool" where
  "token_char c = (is_letter c \<or> is_digit c \<or> c \<in> set ''!#$%&*+.^_`|~-'' \<or> ord c = 39)"

definition header_line :: "string \<Rightarrow> (string \<times> string) option" where
  "header_line raw =
     (case between [] CRLF raw of
        None \<Rightarrow> None
      | Some l \<Rightarrow>
          (let name = before_char (CHR '':'') l; value = after_char (CHR '':'') l
           in if CHR '':'' \<in> set l \<and> name \<noteq> [] \<and> list_all token_char name
                 \<and> list_all (\<lambda>c. 32 \<le> ord c \<and> ord c \<le> 126) value
              then Some (name, value) else None))"

definition strip_spaces :: "string \<Rightarrow> string" where
  "strip_spaces s = rev (dropWhile (\<lambda>c. c = CHR '' '') (rev (dropWhile (\<lambda>c. c = CHR '' '') s)))"

definition header_values :: "(string \<times> string) list \<Rightarrow> string \<Rightarrow> string list" where
  \<comment> \<open>\<open>headers.get_all(name, [])\<close>\<close>
  "header_values hs name = map snd (filter (\<lambda>h. lower (fst h) = lower name) hs)"

definition header :: "(string \<times> string) list \<Rightarrow> string \<Rightarrow> string option" where
  "header hs name = (case header_values hs name of [] \<Rightarrow> None | v # _ \<Rightarrow> Some v)"

definition accept_header :: "string \<Rightarrow> (string \<times> string) list \<Rightarrow> (string \<times> string) res" where
  "accept_header line hs =
     rbind (expect (header_line line) ''invalid_http_request'' 400) (\<lambda>(name, value).
     rbind (ensure (lower name \<notin> set (map (\<lambda>h. lower (fst h)) hs)) ''duplicate_header'' 400) (\<lambda>_.
     Inr (name, strip_spaces value)))"

function header_loop :: "nat \<Rightarrow> nat \<Rightarrow> (string \<times> string) list \<Rightarrow> reader \<Rightarrow> (string \<times> string) list res \<times> reader" where
  "header_loop used n hs s =
     (case readline 4097 s of
        (Inl e, s1) \<Rightarrow> (Inl e, s1)
      | (Inr line, s1) \<Rightarrow>
          if 4096 < length line \<or> 16384 < used + length line then (Inl (Problem ''headers_too_large'' 431), s1)
          else if line = CRLF then (Inr hs, s1)
          else if 32 < n + 1 then (Inl (Problem ''headers_too_large'' 431), s1)
          else (case accept_header line hs of
                  Inl e \<Rightarrow> (Inl e, s1)
                | Inr h \<Rightarrow> header_loop (used + length line) (n + 1) (hs @ [h]) s1))"
  by pat_completeness auto
termination
  by (relation "measure (\<lambda>(used, n, hs, s). 32 - n)") auto

declare header_loop.simps [simp del]

definition seen :: "(string \<times> string) list \<Rightarrow> string \<Rightarrow> bool" where
  "seen hs name = (name \<in> set (map (\<lambda>h. lower (fst h)) hs))"

definition length_text :: "string \<Rightarrow> bool" where
  "length_text s = (list_all is_digit s \<and> 1 \<le> length s \<and> length s \<le> 8)"

definition check_framing :: "string \<Rightarrow> (string \<times> string) list \<Rightarrow> unit res" where
  "check_framing verb hs =
     rbind (ensure (\<not> seen hs ''transfer-encoding'') ''invalid_body_framing'' 400) (\<lambda>_.
     rbind (ensure (\<not> (seen hs ''expect'' \<or> seen hs ''upgrade'')) ''unsupported_http_feature'' 417) (\<lambda>_.
     rbind (case header hs ''Content-Length'' of
              None \<Rightarrow> Inr ()
            | Some n \<Rightarrow>
                rbind (ensure (length_text n) ''invalid_body_framing'' 400) (\<lambda>_.
                rbind (ensure (nat_of_digits n \<le> 1500000) ''request_too_large'' 413) (\<lambda>_.
                ensure (verb = ''POST'' \<or> nat_of_digits n = 0) ''unexpected_body'' 400))) (\<lambda>_.
     ensure (verb = ''GET'' \<or> verb = ''POST'') ''method_not_allowed'' 405)))"

definition read_head :: "request option rd" where
  \<comment> \<open>\<open>None\<close>: the peer closed without sending a byte\<close>
  "read_head =
     abind (readline 2049) (\<lambda>raw.
     if raw = [] then ret None
     else abind (require (length raw \<le> 2048) ''request_line_too_large'' 414) (\<lambda>_.
          abind (found (request_line raw) ''invalid_http_request'' 400) (\<lambda>(verb, path, version).
          abind (header_loop 0 0 []) (\<lambda>hs.
          abind (lift (check_framing verb hs)) (\<lambda>_.
          ret (Some \<lparr>q_verb = verb, q_path = path, q_version = version, q_headers = hs\<rparr>))))))"


subsection \<open>A connection\<close>

record server =
  sv_port :: nat
  sv_coordinator :: coordinator
  sv_credentials :: "(string \<times> principal) list"
  sv_web :: "string \<Rightarrow> string option"
  sv_loads :: "string \<Rightarrow> val option"
  sv_ip_literal :: "string \<Rightarrow> bool"

record session =
  s_reader :: reader
  s_world :: world

definition on_reader :: "'a rd \<Rightarrow> (session, 'a) act" where
  "on_reader m s = (case m (s_reader s) of (r, x) \<Rightarrow> (r, s\<lparr>s_reader := x\<rparr>))"

definition on_world :: "'a app \<Rightarrow> (session, 'a) act" where
  "on_world m s = (case m (s_world s) of (r, x) \<Rightarrow> (r, s\<lparr>s_world := x\<rparr>))"

definition STATIC :: "(string \<times> string \<times> string) list" where
  "STATIC = [(''/'', ''index.html'', ''text/html; charset=utf-8''),
             (''/app.js'', ''app.js'', ''text/javascript; charset=utf-8''),
             (''/styles.css'', ''styles.css'', ''text/css; charset=utf-8'')]"

definition allowed_hosts :: "server \<Rightarrow> string list" where
  "allowed_hosts sv = [''127.0.0.1:'' @ nat_digits (sv_port sv), ''localhost:'' @ nat_digits (sv_port sv)]"

definition check_origin :: "server \<Rightarrow> (string \<times> string) list \<Rightarrow> unit res" where
  "check_origin sv hs =
     rbind (expect (case header_values hs ''Host'' of [h] \<Rightarrow> Some h | _ \<Rightarrow> None) ''invalid_host'' 403) (\<lambda>h.
     rbind (ensure (h \<in> set (allowed_hosts sv)) ''invalid_host'' 403) (\<lambda>_.
     rbind (ensure (header_values hs ''Origin'' \<in> set [[], [''http://'' @ h]]) ''invalid_origin'' 403) (\<lambda>_.
     ensure (header hs ''Sec-Fetch-Site'' \<noteq> Some ''cross-site'') ''invalid_origin'' 403)))"

definition check_path :: "server \<Rightarrow> string \<Rightarrow> unit res" where
  "check_path sv path =
     rbind (plain_path (sv_ip_literal sv) path) (\<lambda>ok. ensure ok ''invalid_path'' 400)"

definition decode_body :: "(string \<Rightarrow> val option) \<Rightarrow> string \<Rightarrow> val res" where
  "decode_body loads raw = rbind (expect (loads raw) ''invalid_json'' 400) decode_tree"

definition read_body :: "server \<Rightarrow> request \<Rightarrow> val rd" where
  "read_body sv q =
     (let hs = q_headers q; lengths = header_values hs ''Content-Length'' in
      abind (require (header_values hs ''Transfer-Encoding'' = [] \<and> length lengths \<le> 1) ''invalid_body_framing'' 400) (\<lambda>_.
      if q_verb q = ''POST''
      then abind (found (case lengths of [n] \<Rightarrow> if length_text n then Some (nat_of_digits n) else None | _ \<Rightarrow> None)
                   ''content_length_required'' 411) (\<lambda>n.
           abind (require (n \<le> 1500000) ''request_too_large'' 413) (\<lambda>_.
           abind (require (header_values hs ''Content-Type'' = [''application/json'']) ''json_required'' 415) (\<lambda>_.
           abind (read_bytes (int n)) (\<lambda>raw.
           abind (require (length raw = n) ''incomplete_request'' 400) (\<lambda>_.
           lift (decode_body (sv_loads sv) raw))))))
      else abind (require (lengths = [] \<or> lengths = [''0'']) ''unexpected_body'' 400) (\<lambda>_. ret VNull)))"

definition static_page :: "server \<Rightarrow> string \<Rightarrow> string \<Rightarrow> response res" where
  "static_page sv name kind =
     rbind (expect (sv_web sv name) ''not_found'' 404) (\<lambda>raw.
     Inr \<lparr>rs_body = Bytes raw, rs_status = 200, rs_headers = [(''Content-Type'', kind)]\<rparr>)"

definition authorization :: "server \<Rightarrow> request \<Rightarrow> principal app" where
  "authorization sv q =
     abind (found (case header_values (q_headers q) ''Authorization'' of [a] \<Rightarrow> Some a | _ \<Rightarrow> None)
             ''authentication_required'' 401) (\<lambda>a.
     authenticate (sv_credentials sv) (VStr a))"

definition handle_body :: "server \<Rightarrow> request \<Rightarrow> (session, response) act" where
  "handle_body sv q =
     abind (lift (check_origin sv (q_headers q))) (\<lambda>_.
     abind (lift (check_path sv (q_path q))) (\<lambda>_.
     case (if q_verb q = ''GET'' then map_of STATIC (q_path q) else None) of
       Some (name, kind) \<Rightarrow> lift (static_page sv name kind)
     | None \<Rightarrow>
         abind (on_world (authorization sv q)) (\<lambda>p.
         abind (on_reader (read_body sv q)) (\<lambda>data.
         on_world (dispatch (sv_coordinator sv) (q_verb q) (q_path q) p data)))))"

definition error_response :: "string \<Rightarrow> nat \<Rightarrow> response" where
  "error_response code status = json (VDict [(''error'', VStr code)]) status"

definition failure :: "err \<Rightarrow> response" where
  \<comment> \<open>the \<open>except\<close> clauses of \<open>_handle\<close>\<close>
  "failure e = (case e of
       Raised n \<Rightarrow> if n = ''TimeoutError'' then error_response ''http_timeout'' 408
                   else error_response ''operation_failed'' 500
     | Problem code status \<Rightarrow> error_response code status)"

definition handle :: "server \<Rightarrow> request \<Rightarrow> session \<Rightarrow> response \<times> session" where
  "handle sv q s = (case handle_body sv q s of (Inl e, s') \<Rightarrow> (failure e, s') | (Inr r, s') \<Rightarrow> (r, s'))"

definition head_failure :: "err \<Rightarrow> response" where
  \<comment> \<open>the \<open>except\<close> clauses of \<open>handle_one_request\<close>\<close>
  "head_failure e = (case e of
       Raised n \<Rightarrow> if n = ''TimeoutError'' then error_response ''http_timeout'' 408
                   else error_response ''invalid_http_request'' 400
     | Problem code status \<Rightarrow> error_response code status)"

definition handle_one_request :: "server \<Rightarrow> session \<Rightarrow> response option \<times> session" where
  "handle_one_request sv s =
     (case on_reader read_head s of
        (Inl e, s1) \<Rightarrow> (Some (head_failure e), s1)
      | (Inr None, s1) \<Rightarrow> (None, s1)
      | (Inr (Some q), s1) \<Rightarrow> map_prod Some id (handle sv q s1))"


subsection \<open>The answer on the wire\<close>

fun put_header :: "string \<times> string \<Rightarrow> (string \<times> string) list \<Rightarrow> (string \<times> string) list" where
  \<comment> \<open>a later entry of a dict display keeps the place of the first\<close>
  "put_header h [] = [h]"
| "put_header h (x # xs) = (if fst x = fst h then h # xs else x # put_header h xs)"

definition squoted :: "string \<Rightarrow> string" where "squoted s = [CHR 0x27] @ s @ [CHR 0x27]"

definition security_headers :: "nat \<Rightarrow> (string \<times> string) list" where
  "security_headers n =
     [(''Content-Type'', ''application/json; charset=utf-8''), (''Content-Length'', nat_digits n),
      (''Connection'', ''close''), (''Cache-Control'', ''no-store''), (''X-Content-Type-Options'', ''nosniff''),
      (''Cross-Origin-Resource-Policy'', ''same-origin''),
      (''Permissions-Policy'', ''camera=(), microphone=(), geolocation=()''),
      (''Referrer-Policy'', ''no-referrer''), (''X-Frame-Options'', ''DENY''),
      (''Content-Security-Policy'', ''default-src '' @ squoted ''self'' @ ''; script-src '' @ squoted ''self'' @ ''; style-src '' @ squoted ''self''
         @ ''; connect-src '' @ squoted ''self'' @ ''; object-src '' @ squoted ''none'' @ ''; base-uri '' @ squoted ''none''
         @ ''; frame-ancestors '' @ squoted ''none'' @ ''; form-action '' @ squoted ''self'')]"

definition response_bytes :: "(rat \<Rightarrow> string) \<Rightarrow> body \<Rightarrow> string res" where
  "response_bytes fr b = (case b of Bytes raw \<Rightarrow> Inr raw | Json v \<Rightarrow> rbind (canon fr v) (\<lambda>s. Inr (utf8 s)))"

record wire_response =
  wr_status :: nat
  wr_headers :: "(string \<times> string) list"
  wr_body :: string

definition respond :: "(rat \<Rightarrow> string) \<Rightarrow> string \<Rightarrow> response \<Rightarrow> wire_response res" where
  "respond fr verb r =
     rbind (response_bytes fr (rs_body r)) (\<lambda>raw.
     Inr \<lparr>wr_status = rs_status r, wr_headers = foldl (\<lambda>hs h. put_header h hs) (security_headers (length raw)) (rs_headers r),
          wr_body = (if verb = ''HEAD'' then [] else raw)\<rparr>)"

subsection \<open>Connection slots\<close>

text \<open>
  \<open>LocalServer\<close>: the constructor's limits, and the bounded semaphore around every connection. A
  connection that finds no slot is closed at once; a slot is given back when its thread ends, or
  when starting the thread fails.
\<close>

record listener =
  ls_limit :: nat
  ls_free :: nat
  ls_open :: "nat list"

definition make_listener :: "string \<Rightarrow> val \<Rightarrow> val \<Rightarrow> listener res" where
  "make_listener host io_seconds max_connections =
     rbind (ensure (host = ''127.0.0.1'') ''loopback_only'' 400) (\<lambda>_.
     rbind (ensure (case strict_number io_seconds of
                      Some x \<Rightarrow> flt_less (Fin 0) x \<and> flt_le x (Fin 5) | None \<Rightarrow> False) ''invalid_http_limits'' 400) (\<lambda>_.
     rbind (expect (as_int max_connections) ''invalid_http_limits'' 400) (\<lambda>n.
     rbind (ensure (1 \<le> n \<and> n \<le> 16) ''invalid_http_limits'' 400) (\<lambda>_.
     Inr \<lparr>ls_limit = nat n, ls_free = nat n, ls_open = []\<rparr>))))"

definition process_request :: "nat \<Rightarrow> bool \<Rightarrow> listener \<Rightarrow> listener" where
  \<comment> \<open>the flag says whether the thread could be started\<close>
  "process_request c started l =
     (if ls_free l = 0 then l
      else if started then l\<lparr>ls_free := ls_free l - 1, ls_open := c # ls_open l\<rparr>
      else l\<lparr>ls_free := ls_free l - 1 + 1\<rparr>)"

definition process_request_thread :: "nat \<Rightarrow> listener \<Rightarrow> listener" where
  "process_request_thread c l =
     (if c \<in> set (ls_open l) then l\<lparr>ls_free := ls_free l + 1, ls_open := remove1 c (ls_open l)\<rparr> else l)"

inductive serving :: "listener \<Rightarrow> bool" where
  listen: "make_listener host secs n = Inr l \<Longrightarrow> serving l"
| arrive: "serving l \<Longrightarrow> serving (process_request c started l)"
| depart: "serving l \<Longrightarrow> serving (process_request_thread c l)"

lemma slots_conserved: "serving l \<Longrightarrow> ls_free l + length (ls_open l) = ls_limit l \<and> ls_limit l \<le> 16"
proof (induction rule: serving.induct)
  case (listen host secs n l)
  then show ?case by (auto simp: make_listener_def)
next
  case (arrive l c started)
  then show ?case by (auto simp: process_request_def)
next
  case (depart l c)
  show ?case
  proof (cases "c \<in> set (ls_open l)")
    case True
    then have "length (ls_open l) = Suc (length (remove1 c (ls_open l)))"
      by (metis One_nat_def Suc_pred length_pos_if_in_set length_remove1)
    with True depart show ?thesis by (simp add: process_request_thread_def)
  next
    case False
    with depart show ?thesis by (simp add: process_request_thread_def)
  qed
qed

end
