(* ===== verification/Http_Guarantees.thy ===== *)
theory Http_Guarantees
  imports Http_Api Scenario
begin

section \<open>What the HTTP boundary guarantees\<close>

text \<open>
  Lemmas and properties of the parser, of the connection handler and of the routes: what a request
  must carry before it can touch the control plane, which routes a role can reach, and that the
  parser reads back the requests the grammar describes.
\<close>

subsection \<open>Roles\<close>

definition worker_route :: "string \<Rightarrow> string \<Rightarrow> bool" where
  "worker_route verb path \<longleftrightarrow> (verb = ''POST'' \<and> (path = CLAIM_PATH \<or> finish_route path \<noteq> None))
     \<or> (verb = ''GET'' \<and> state_route path \<noteq> None)"

lemma require_role_denied: "role p \<noteq> r \<Longrightarrow> require_role p r = Inl (Problem ''access_denied'' 403)"
  by (simp add: require_role_def)

lemma denied_first:
  "role p \<noteq> r \<Longrightarrow> abind (lift (require_role p r)) f w = (Inl (Problem ''access_denied'' 403), w)"
  by (simp add: require_role_denied abind_def lift_def)

lemma answer_denied:
  "m w = (Inl e, w) \<Longrightarrow> answer n m w = (Inl e, w)"
  by (simp add: answer_def)

text \<open>
  C14. Roles are separated: a principal that is not an administrator reaches the claim, finish and
  state routes only, and one that is not a worker reaches none of these three; any other request is
  answered \<open>access_denied\<close> and leaves the control plane untouched.
\<close>
theorem roles_are_separated:
  assumes "if worker_route verb path then role p \<noteq> ''worker'' else role p \<noteq> ''admin''"
  shows "dispatch coord verb path p data w = (Inl (Problem ''access_denied'' 403), w)"
proof (cases "worker_route verb path")
  case True
  with assms have p: "role p \<noteq> ''worker''" by simp
  have c: "answer n (claim p data) w = (Inl (Problem ''access_denied'' 403), w)" for n
    by (rule answer_denied [where m = "claim p data"]) (simp only: claim_def denied_first [OF p])
  have a: "answer n (attempt_state p i) w = (Inl (Problem ''access_denied'' 403), w)" for n i
    by (rule answer_denied [where m = "attempt_state p i"]) (simp only: attempt_state_def denied_first [OF p])
  show ?thesis
    using True by (auto simp: dispatch_def worker_route_def c a denied_first [OF p])
next
  case False
  with assms have p: "role p \<noteq> ''admin''" by simp
  from False show ?thesis by (auto simp: dispatch_def worker_route_def denied_first [OF p])
qed

theorem roles_are_separated_witness:
  "dispatch coordinator_plan ''GET'' ''/api/v1/missions'' fake_cpu VNull demo_running
     = (Inl (Problem ''access_denied'' 403), demo_running)"
proof (rule roles_are_separated)
  have "\<not> worker_route ''GET'' ''/api/v1/missions''" by code_simp
  then show "if worker_route ''GET'' ''/api/v1/missions'' then role fake_cpu \<noteq> ''worker'' else role fake_cpu \<noteq> ''admin''"
    by (simp add: fake_cpu_def)
qed

subsection \<open>Credentials and origin\<close>

lemma on_reader_world: "on_reader m s = (r, s') \<Longrightarrow> s_world s' = s_world s"
  by (auto simp: on_reader_def split: prod.splits)

lemma on_world_world: "on_world m s = (r, s') \<longleftrightarrow> (\<exists>w'. m (s_world s) = (r, w') \<and> s' = s\<lparr>s_world := w'\<rparr>)"
  by (auto simp: on_world_def split: prod.splits)

lemma reads_authorization: "reads (authorization sv q)"
proof -
  have "reads (authenticate cs v)" for cs v
  proof (cases "as_str v")
    case None
    then show ?thesis by (simp add: authenticate_def reads_def fail_def)
  next
    case (Some x)
    then show ?thesis
      using reads_authenticate_worker
      by (auto simp: authenticate_def reads_def fail_def ret_def Let_def split: option.splits)
  qed
  then show ?thesis unfolding authorization_def found_def by (intro reads_intros)
qed

text \<open>A request that reaches a route went through every check before it.\<close>

lemma handle_reaches:
  assumes "handle sv q s = (r, s')" "db (s_world s') \<noteq> db (s_world s)"
  shows "\<exists>a p w1 data. header_values (q_headers q) ''Authorization'' = [a]
    \<and> authenticate (sv_credentials sv) (VStr a) (s_world s) = (Inr p, w1) \<and> db w1 = db (s_world s)
    \<and> check_origin sv (q_headers q) = Inr () \<and> check_path sv (q_path q) = Inr ()
    \<and> s_world s' = snd (dispatch (sv_coordinator sv) (q_verb q) (q_path q) p data w1)"
proof -
  from assms obtain r' where run: "handle_body sv q s = (r', s')" by (auto simp: handle_def split: prod.splits sum.splits)
  show ?thesis
  proof (cases "check_origin sv (q_headers q)")
    case (Inl e)
    with run assms(2) show ?thesis by (simp add: handle_body_def abind_lift_Inl lift_def)
  next
    case o: (Inr u)
    show ?thesis
    proof (cases "check_path sv (q_path q)")
      case (Inl e)
      with o run assms(2) show ?thesis by (simp add: handle_body_def abind_lift_Inl abind_lift_Inr lift_def)
    next
      case p: (Inr v)
      show ?thesis
      proof (cases "if q_verb q = ''GET'' then map_of STATIC (q_path q) else None")
        case (Some page)
        with o p run assms(2) show ?thesis
          by (cases page) (simp add: handle_body_def abind_lift_Inr lift_def)
      next
        case None
        with o p run have run2: "abind (on_world (authorization sv q)) (\<lambda>p.
            abind (on_reader (read_body sv q)) (\<lambda>data.
            on_world (dispatch (sv_coordinator sv) (q_verb q) (q_path q) p data))) s = (r', s')"
          by (simp add: handle_body_def abind_lift_Inr)
        obtain r1 w1 where a: "authorization sv q (s_world s) = (r1, w1)" by fastforce
        note w1 = readsD [OF reads_authorization a]
        show ?thesis
        proof (cases r1)
          case (Inl e)
          with run2 a w1 assms(2) show ?thesis by (auto simp: abind_def on_world_def)
        next
          case pr: (Inr p)
          let ?s1 = "s\<lparr>s_world := w1\<rparr>"
          from run2 a pr have run3: "abind (on_reader (read_body sv q)) (\<lambda>data.
              on_world (dispatch (sv_coordinator sv) (q_verb q) (q_path q) p data)) ?s1 = (r', s')"
            by (simp add: abind_def on_world_def)
          obtain r2 s2 where b: "on_reader (read_body sv q) ?s1 = (r2, s2)" by fastforce
          from on_reader_world [OF b] have s2: "s_world s2 = w1" by simp
          show ?thesis
          proof (cases r2)
            case (Inl e)
            with run3 b s2 w1 assms(2) show ?thesis by (auto simp: abind_def)
          next
            case (Inr data)
            with run3 b have "on_world (dispatch (sv_coordinator sv) (q_verb q) (q_path q) p data) s2 = (r', s')"
              by (simp add: abind_def)
            with s2 have d: "s_world s' = snd (dispatch (sv_coordinator sv) (q_verb q) (q_path q) p data w1)"
              by (auto simp: on_world_world)
            from a pr obtain h where h: "header_values (q_headers q) ''Authorization'' = [h]"
              "authenticate (sv_credentials sv) (VStr h) (s_world s) = (Inr p, w1)"
              by (auto simp: authorization_def act_simps split: list.splits)
            have "check_origin sv (q_headers q) = Inr ()" "check_path sv (q_path q) = Inr ()" using o p by simp_all
            with d h w1 show ?thesis by metis
          qed
        qed
      qed
    qed
  qed
qed


text \<open>
  C15. Whatever bytes arrive, a request changes the index only as a dispatched operation of a principal
  whose single \<open>Authorization\<close> header authenticates it at that moment, and only after the host,
  origin and path checks; in every other case the index is left as it was.
\<close>
theorem only_authenticated_requests_act:
  "db (s_world (snd (handle sv q s))) = db (s_world s) \<or>
    (\<exists>a p w1 data. header_values (q_headers q) ''Authorization'' = [a]
      \<and> authenticate (sv_credentials sv) (VStr a) (s_world s) = (Inr p, w1) \<and> db w1 = db (s_world s)
      \<and> check_origin sv (q_headers q) = Inr () \<and> check_path sv (q_path q) = Inr ()
      \<and> s_world (snd (handle sv q s)) = snd (dispatch (sv_coordinator sv) (q_verb q) (q_path q) p data w1))"
  using handle_reaches [of sv q s "fst (handle sv q s)" "snd (handle sv q s)"] by auto

subsection \<open>The parser reads what the grammar describes\<close>

definition render_header :: "string \<times> string \<Rightarrow> string" where
  "render_header h = fst h @ '': '' @ snd h @ CRLF"

definition render_head :: "request \<Rightarrow> string" where
  "render_head q = q_verb q @ '' '' @ q_path q @ '' '' @ q_version q @ CRLF @ concat (map render_header (q_headers q)) @ CRLF"

definition good_header :: "string \<times> string \<Rightarrow> bool" where
  "good_header h \<longleftrightarrow> fst h \<noteq> [] \<and> list_all token_char (fst h) \<and> list_all (\<lambda>c. 32 \<le> ord c \<and> ord c \<le> 126) (snd h)
     \<and> (snd h = [] \<or> (hd (snd h) \<noteq> CHR '' '' \<and> last (snd h) \<noteq> CHR '' '')) \<and> length (render_header h) \<le> 4096"

definition good_head :: "request \<Rightarrow> bool" where
  "good_head q \<longleftrightarrow> 1 \<le> length (q_verb q) \<and> length (q_verb q) \<le> 16 \<and> list_all is_upper (q_verb q)
     \<and> q_path q \<noteq> [] \<and> list_all visible (q_path q) \<and> (q_version q = ''HTTP/1.0'' \<or> q_version q = ''HTTP/1.1'')
     \<and> length (q_verb q @ '' '' @ q_path q @ '' '' @ q_version q @ CRLF) \<le> 2048
     \<and> length (q_headers q) \<le> 32 \<and> list_all good_header (q_headers q)
     \<and> distinct (map (\<lambda>h. lower (fst h)) (q_headers q))
     \<and> length (concat (map render_header (q_headers q))) + 2 \<le> 16384
     \<and> check_framing (q_verb q) (q_headers q) = Inr ()"

lemma visible_chars: "list_all visible s \<Longrightarrow> CHR '' '' \<notin> set s \<and> CHR 0x0A \<notin> set s"
  by (auto simp: list_all_iff visible_def ord_def)

lemma upper_chars: "list_all is_upper s \<Longrightarrow> CHR '' '' \<notin> set s \<and> CHR 0x0A \<notin> set s"
  by (auto simp: list_all_iff is_upper_def ord_def)

lemma token_chars: "list_all token_char s \<Longrightarrow> CHR '':'' \<notin> set s \<and> CHR 0x0A \<notin> set s"
  by (auto simp: list_all_iff token_char_def is_letter_def is_upper_def is_lower_def is_digit_def ord_def)

lemma printable_chars: "list_all (\<lambda>c. 32 \<le> ord c \<and> ord c \<le> 126) s \<Longrightarrow> CHR 0x0A \<notin> set s"
  by (auto simp: list_all_iff ord_def)

lemma strip_spaces_padded:
  "v = [] \<or> (hd v \<noteq> CHR '' '' \<and> last v \<noteq> CHR '' '') \<Longrightarrow> strip_spaces (CHR '' '' # v) = v"
proof (cases v rule: rev_cases)
  case Nil
  then show ?thesis by (simp add: strip_spaces_def)
next
  case (snoc xs x)
  assume v: "v = [] \<or> (hd v \<noteq> CHR '' '' \<and> last v \<noteq> CHR '' '')"
  then have "dropWhile (\<lambda>c. c = CHR '' '') v = v" by (cases v) auto
  with v snoc show ?thesis by (simp add: strip_spaces_def)
qed

lemma header_line_rendered:
  assumes "good_header h"
  shows "header_line (render_header h) = Some (fst h, CHR '' '' # snd h)"
proof -
  have "between [] CRLF (render_header h) = Some (fst h @ '': '' @ snd h)"
    by (simp add: between_Some render_header_def)
  moreover have "CHR '':'' \<notin> set (fst h)" using assms token_chars by (auto simp: good_header_def)
  ultimately show ?thesis using assms by (simp add: header_line_def Let_def good_header_def ord_def)
qed

lemma accept_rendered:
  assumes "good_header h" "lower (fst h) \<notin> set (map (\<lambda>h. lower (fst h)) hs)"
  shows "accept_header (render_header h) hs = Inr h"
  using assms strip_spaces_padded [of "snd h"]
  by (auto simp: accept_header_def header_line_rendered good_header_def image_iff)

lemma readline_crlf:
  assumes "punctual s" "pending s = l @ CRLF @ rest" "CHR 0x0A \<notin> set l" "length (l @ CRLF) \<le> limit"
  shows "\<exists>s'. readline (int limit) s = (Inr (l @ CRLF), s') \<and> punctual s' \<and> pending s' = rest"
proof -
  have "pending s = (l @ [CHR 0x0D]) @ [CHR 0x0A] @ rest" "CHR 0x0A \<notin> set (l @ [CHR 0x0D])"
    "length (l @ [CHR 0x0D]) < limit"
    using assms by (auto simp: CRLF_def)
  from readline_line [OF assms(1) this] show ?thesis by (simp add: CRLF_def)
qed

lemma header_loop_rendered:
  assumes "punctual s" "pending s = concat (map render_header hs) @ CRLF @ rest" "list_all good_header hs"
    "distinct (map (\<lambda>h. lower (fst h)) (acc @ hs))" "n + length hs \<le> 32"
    "used + length (concat (map render_header hs)) + 2 \<le> 16384"
  shows "\<exists>s'. header_loop used n acc s = (Inr (acc @ hs), s') \<and> punctual s' \<and> pending s' = rest"
  using assms
proof (induction hs arbitrary: s acc n used)
  case Nil
  then have "pending s = [] @ CRLF @ rest" by simp
  from readline_crlf [OF Nil(1) this, of 4097] obtain s' where
    "readline 4097 s = (Inr CRLF, s')" "punctual s'" "pending s' = rest" by (auto simp: CRLF_def)
  with Nil(6) show ?case by (subst header_loop.simps) (simp add: CRLF_def)
next
  case (Cons h hs)
  let ?l = "fst h @ '': '' @ snd h"
  from Cons.prems(3) have g: "good_header h" "list_all good_header hs" by simp_all
  have p: "pending s = ?l @ CRLF @ (concat (map render_header hs) @ CRLF @ rest)"
    using Cons.prems(2) by (simp add: render_header_def [of h])
  have nl: "CHR 0x0A \<notin> set ?l" using g(1) token_chars printable_chars by (auto simp: good_header_def)
  have len: "length (?l @ CRLF) \<le> 4097" using g(1) by (simp add: good_header_def render_header_def)
  from readline_crlf [OF Cons.prems(1) p nl len] obtain s1 where s1: "readline 4097 s = (Inr (render_header h), s1)"
    "punctual s1" "pending s1 = concat (map render_header hs) @ CRLF @ rest"
    by (auto simp: render_header_def [of h])
  have acc: "accept_header (render_header h) acc = Inr h"
    using Cons.prems(4) by (intro accept_rendered [OF g(1)]) auto
  have ne: "render_header h \<noteq> CRLF" using g(1) by (auto simp: render_header_def CRLF_def good_header_def)
  have "header_loop used n acc s = header_loop (used + length (render_header h)) (n + 1) (acc @ [h]) s1"
    using s1(1) acc ne g(1) Cons.prems(5,6) by (subst header_loop.simps) (simp add: good_header_def)
  moreover have "\<exists>s'. header_loop (used + length (render_header h)) (n + 1) (acc @ [h]) s1
      = (Inr ((acc @ [h]) @ hs), s') \<and> punctual s' \<and> pending s' = rest"
    using Cons.prems by (intro Cons.IH [OF s1(2,3) g(2)]) auto
  ultimately show ?case by simp
qed

lemma read_head_rendered:
  assumes "good_head q" "punctual s" "pending s = render_head q @ rest"
  shows "\<exists>s'. read_head s = (Inr (Some q), s') \<and> pending s' = rest"
proof -
  let ?l = "q_verb q @ '' '' @ q_path q @ '' '' @ q_version q"
  let ?hs = "concat (map render_header (q_headers q)) @ CRLF @ rest"
  note g = assms(1) [unfolded good_head_def]
  have v: "CHR '' '' \<notin> set (q_version q)" "CHR 0x0A \<notin> set (q_version q)" using g by auto
  have c: "CHR '' '' \<notin> set (q_verb q)" "CHR '' '' \<notin> set (q_path q)" "CHR 0x0A \<notin> set ?l"
    using g v upper_chars visible_chars by auto
  have "pending s = ?l @ CRLF @ ?hs" using assms(3) by (simp add: render_head_def)
  moreover have "length (?l @ CRLF) \<le> 2049" using g by simp
  ultimately obtain s1 where s1: "readline 2049 s = (Inr (?l @ CRLF), s1)" "punctual s1" "pending s1 = ?hs"
    using readline_crlf [OF assms(2) _ c(3), of ?hs 2049] by auto
  have rl: "request_line (?l @ CRLF) = Some (q_verb q, q_path q, q_version q)"
  proof -
    have "between [] CRLF (?l @ CRLF) = Some ?l" by (simp add: between_Some)
    moreover have "split_on (CHR '' '') ?l = [q_verb q, q_path q, q_version q]"
      using c v by (simp add: split_on_append split_on_single)
    ultimately show ?thesis using g by (simp add: request_line_def)
  qed
  have "\<exists>s'. header_loop 0 0 [] s1 = (Inr ([] @ q_headers q), s') \<and> punctual s' \<and> pending s' = rest"
    using g by (intro header_loop_rendered [OF s1(2,3)]) auto
  then obtain s2 where s2: "header_loop 0 0 [] s1 = (Inr (q_headers q), s2)" "pending s2 = rest" by auto
  have len: "length (?l @ CRLF) \<le> 2048" "?l @ CRLF \<noteq> []" using g by simp_all
  have "read_head s = (Inr (Some q), s2)"
    using s1(1) rl s2(1) g len by (simp add: read_head_def abind_def act_defs ensure_def)
  with s2(2) show ?thesis by blast
qed


text \<open>
  C16. The request parser inverts the printing of a request: any request the grammar and the limits
  allow, cut into segments in any way and followed by any body, is read back exactly, and the reader
  is left at the first byte of the body.
\<close>
theorem parser_reads_requests:
  assumes "good_head q" "punctual s" "pending s = render_head q @ rest"
  shows "\<exists>s'. read_head s = (Inr (Some q), s') \<and> pending s' = rest"
  by (rule read_head_rendered [OF assms])

definition demo_reader :: "string list \<Rightarrow> reader" where
  "demo_reader wire = open_reader wire 5 demo_clock"

definition demo_head :: request where
  "demo_head = \<lparr>q_verb = ''GET'', q_path = ''/api/v1/health'', q_version = ''HTTP/1.1'',
     q_headers = [(''Host'', ''localhost:8765''), (''Authorization'', ''Bearer x'')]\<rparr>"

lemma demo_head_good: "good_head demo_head"
  by code_simp

lemma demo_reader_punctual: "[] \<notin> set wire \<Longrightarrow> punctual (demo_reader wire)"
  by (simp add: punctual_def demo_reader_def open_reader_def demo_clock_def)

lemma demo_reader_pending: "pending (demo_reader wire) = concat wire"
  by (simp add: pending_def demo_reader_def open_reader_def)

theorem parser_reads_requests_witness:
  "\<exists>s'. read_head (demo_reader [take 7 (render_head demo_head), drop 7 (render_head demo_head) @ ''rest'']) = (Inr (Some demo_head), s')
     \<and> pending s' = ''rest''"
proof (rule parser_reads_requests [OF demo_head_good demo_reader_punctual])
  show "[] \<notin> set [take 7 (render_head demo_head), drop 7 (render_head demo_head) @ ''rest'']"
    by (simp add: render_head_def)
  show "pending (demo_reader [take 7 (render_head demo_head), drop 7 (render_head demo_head) @ ''rest'']) = render_head demo_head @ ''rest''"
    by (simp only: demo_reader_pending concat.simps append_Nil2) (simp only: append_assoc [symmetric] append_take_drop_id)
qed

subsection \<open>What a parsed request is\<close>

lemma readline_spec:
  assumes "readline (int limit) s = (Inr line, s')"
  shows "line @ pending s' = pending s \<and> length line \<le> limit"
  using readline_loop_spec [of limit s line s'] assms by (simp add: readline_def)

lemma header_loop_spec:
  assumes "header_loop used n acc s = (Inr hs, s')" "distinct (map (\<lambda>h. lower (fst h)) acc)" "length acc = n" "n \<le> 32"
  shows "\<exists>raw more. hs = acc @ more \<and> raw @ pending s' = pending s \<and> used + length raw \<le> 16384
    \<and> distinct (map (\<lambda>h. lower (fst h)) hs) \<and> length hs \<le> 32"
  using assms
proof (induction used n acc s arbitrary: hs s' rule: header_loop.induct)
  case (1 used n acc s)
  obtain r s1 where rl: "readline 4097 s = (r, s1)" by fastforce
  show ?case
  proof (cases r)
    case (Inl e)
    with 1(2) rl show ?thesis by (simp add: header_loop.simps)
  next
    case (Inr line)
    have sp: "line @ pending s1 = pending s" using readline_spec [of 4097 s line s1] rl Inr by simp
    from 1(2) rl Inr have b: "\<not> (4096 < length line \<or> 16384 < used + length line)"
      by (auto simp: header_loop.simps split: if_splits)
    show ?thesis
    proof (cases "line = CRLF")
      case True
      with 1(2) rl Inr b have "hs = acc" "s' = s1" by (auto simp: header_loop.simps)
      with True 1 sp b show ?thesis by auto
    next
      case False
      with 1(2) rl Inr b have n: "\<not> 32 < n + 1" by (auto simp: header_loop.simps split: if_splits)
      obtain r' where acc: "accept_header line acc = r'" by simp
      show ?thesis
      proof (cases r')
        case (Inl e)
        with 1(2) rl Inr b n acc False \<open>r = Inr line\<close> show ?thesis by (simp add: header_loop.simps)
      next
        case h: (Inr h)
        with 1(2) rl Inr b n acc False have run: "header_loop (used + length line) (n + 1) (acc @ [h]) s1 = (Inr hs, s')"
          by (simp add: header_loop.simps)
        have d: "lower (fst h) \<notin> set (map (\<lambda>h. lower (fst h)) acc)"
          using acc h by (auto simp: accept_header_def simp del: set_map)
        have "distinct (map (\<lambda>h. lower (fst h)) (acc @ [h]))" "length (acc @ [h]) = n + 1" "n + 1 \<le> 32"
          using d 1(3-5) n by auto
        from 1(1) [OF rl [symmetric] Inr b False n _ run this] acc h obtain raw more where
          "hs = (acc @ [h]) @ more" "raw @ pending s' = pending s1" "used + length line + length raw \<le> 16384"
          "distinct (map (\<lambda>h. lower (fst h)) hs)" "length hs \<le> 32" by metis
        with sp show ?thesis by (intro exI [of _ "line @ raw"] exI [of _ "h # more"]) auto
      qed
    qed
  qed
qed

text \<open>
  A request that the parser accepts consumed at most 18432 bytes and lost none: what was read and
  what is pending are the bytes that came. It is a GET or a POST, has at most 32 headers with distinct
  names, no transfer coding, and at most one length, of at most 1500000 bytes (0 for a GET).
\<close>
theorem parsed_requests_are_bounded:
  assumes "read_head s = (Inr (Some q), s')"
  shows "\<exists>raw. raw @ pending s' = pending s \<and> length raw \<le> 18432 \<and> q_verb q \<in> {''GET'', ''POST''}
    \<and> length (q_headers q) \<le> 32 \<and> distinct (map (\<lambda>h. lower (fst h)) (q_headers q))
    \<and> \<not> seen (q_headers q) ''transfer-encoding''
    \<and> (\<forall>n. header (q_headers q) ''Content-Length'' = Some n \<longrightarrow>
          length_text n \<and> nat_of_digits n \<le> 1500000 \<and> (q_verb q = ''POST'' \<or> nat_of_digits n = 0))"
proof -
  from assms obtain raw s1 hs where r: "readline 2049 s = (Inr raw, s1)" "length raw \<le> 2048"
    and h: "header_loop 0 0 [] s1 = (Inr hs, s')" and f: "check_framing (q_verb q) hs = Inr ()" and q: "q_headers q = hs"
    by (auto simp: read_head_def act_simps split: if_splits)
  from header_loop_spec [OF h] obtain raw2 where raw2: "raw2 @ pending s' = pending s1" "length raw2 \<le> 16384"
    "distinct (map (\<lambda>h. lower (fst h)) hs)" "length hs \<le> 32" by auto
  have "raw @ pending s1 = pending s" using readline_spec [of 2049 s raw s1] r(1) by simp
  with raw2 r(2) have "(raw @ raw2) @ pending s' = pending s" "length (raw @ raw2) \<le> 18432" by auto
  moreover have "q_verb q \<in> {''GET'', ''POST''}" "\<not> seen hs ''transfer-encoding''"
    "\<forall>n. header hs ''Content-Length'' = Some n \<longrightarrow> length_text n \<and> nat_of_digits n \<le> 1500000 \<and> (q_verb q = ''POST'' \<or> nat_of_digits n = 0)"
    using f by (auto simp: check_framing_def)
  ultimately show ?thesis using raw2 q by blast
qed

theorem parsed_requests_are_bounded_witness:
  "\<exists>s' raw. raw @ pending s' = render_head demo_head \<and> length raw \<le> 18432"
proof -
  have "punctual (demo_reader [render_head demo_head])"
    by (rule demo_reader_punctual) (simp add: render_head_def)
  moreover have "pending (demo_reader [render_head demo_head]) = render_head demo_head @ []"
    by (simp add: demo_reader_pending)
  moreover obtain s' where "read_head (demo_reader [render_head demo_head]) = (Inr (Some demo_head), s')"
    using read_head_rendered [OF demo_head_good] calculation by blast
  ultimately show ?thesis using parsed_requests_are_bounded by (metis append_Nil2)
qed

text \<open>
  The server never holds more connections than its limit of at most 16: whatever connections arrive,
  are refused, fail to start or end, the free slots and the open connections add up to the limit.
\<close>
theorem connection_slots_conserved:
  assumes "serving l"
  shows "ls_free l + length (ls_open l) = ls_limit l \<and> ls_limit l \<le> 16"
  by (rule slots_conserved [OF assms])

theorem connection_slots_conserved_witness:
  "let l = process_request 7 True \<lparr>ls_limit = 16, ls_free = 16, ls_open = []\<rparr> in ls_free l + length (ls_open l) = 16"
proof -
  have "make_listener ''127.0.0.1'' (VInt 5) (VInt 16) = Inr \<lparr>ls_limit = 16, ls_free = 16, ls_open = []\<rparr>"
    by (simp add: make_listener_def flt_less_def)
  then have "serving (process_request 7 True \<lparr>ls_limit = 16, ls_free = 16, ls_open = []\<rparr>)"
    by (intro serving.arrive serving.listen)
  from connection_slots_conserved [OF this] show ?thesis by (simp add: process_request_def)
qed

end
