(* ===== verification/Backup.thy ===== *)
theory Backup
  imports Control_Plane Http_Api
begin

section \<open>control_plane/backup.py and the upgrade path of storage.py\<close>

text \<open>
  Offline backups: \<open>verify_index\<close> on the rows of an index, \<open>create_backup\<close>, \<open>inspect_backup\<close> and
  \<open>restore_backup\<close> on directories. A private directory is the list of its files by relative path; that
  it is private (owner, mode, links) and the lock on a running backend are not modelled. An index file
  is bytes; SQLite reads them as an \<open>index\<close> (the parameter \<open>sqlite\<close>, \<open>None\<close> where it raises) and writes
  them back (\<open>sqlite_file\<close>). The migration files are the parameter \<open>known\<close>.
\<close>

record index =
  ix_intact :: bool
  ix_history :: "(int \<times> string) list"
  ix_db :: database

record host =
  h_sha :: "string \<Rightarrow> string"
  h_loads :: "string \<Rightarrow> val option"
  h_frepr :: "rat \<Rightarrow> string"
  h_sqlite :: "string \<Rightarrow> index option"
  h_sqlite_file :: "index \<Rightarrow> string"
  h_known :: "(int \<times> string) list"

definition MAX_INDEX :: int where "MAX_INDEX = 256 * 1024 * 1024"
definition MAX_MANIFEST :: int where "MAX_MANIFEST = 4 * 1024 * 1024"
definition FORMAT :: string where "FORMAT = ''pepeuch.control-plane-backup/v1''"

definition known_history :: "host \<Rightarrow> nat \<Rightarrow> (int \<times> string) list" where
  "known_history h n = map (\<lambda>(v, raw). (v, h_sha h raw)) (take n (h_known h))"

subsection \<open>Rows that refer to each other\<close>

definition numbers_of :: "database \<Rightarrow> string \<Rightarrow> int list" where
  "numbers_of d f = map v_number (filter (\<lambda>v. v_file v = f) (d_versions d))"

definition bad_file :: "database \<Rightarrow> file_row \<Rightarrow> bool" where
  "bad_file d f = (let ns = numbers_of d (f_id f) in ns = [] \<or> Min (set ns) \<noteq> 1 \<or> Max (set ns) \<noteq> int (length ns))"

definition has_result :: "database \<Rightarrow> mission_row \<Rightarrow> bool" where
  "has_result d m =
     (\<exists>r\<in>set (d_results d). \<exists>a\<in>set (d_attempts d). \<exists>t\<in>set (d_tasks d).
        a_id a = res_attempt r \<and> t_id t = a_task a \<and> t_mission t = m_id m)"

definition bad_result :: "database \<Rightarrow> result_row \<Rightarrow> bool" where
  "bad_result d r =
     (\<exists>v\<in>set (d_versions d). \<exists>a\<in>set (d_attempts d). \<exists>t\<in>set (d_tasks d). \<exists>m\<in>set (d_missions d). \<exists>f\<in>set (d_files d).
        v_id v = res_version r \<and> a_id a = res_attempt r \<and> t_id t = a_task a \<and> m_id m = t_mission t \<and> f_id f = v_file v
        \<and> (v_attempt v \<noteq> Some (a_id a) \<or> v_mission v \<noteq> Some (m_id m) \<or> f_workspace f \<noteq> m_workspace m
           \<or> a_state a \<noteq> Completed \<or> m_state m \<noteq> Completed))"

definition row_ids :: "database \<Rightarrow> string list" where
  "row_ids d = map m_id (d_missions d) @ map t_id (d_tasks d) @ map a_id (d_attempts d) @ map ws_id (d_workspaces d)
     @ map f_id (d_files d) @ map v_id (d_versions d) @ map res_id (d_results d) @ map e_id (d_events d)"

fun object_sizes :: "version_row list \<Rightarrow> (string \<times> int) list \<Rightarrow> (string \<times> int) list res" where
  "object_sizes [] objects = Inr objects"
| "object_sizes (v # vs) objects =
     (if \<not> hex_string 64 (v_sha v) \<or> v_size v < 0 \<or> 1048576 < v_size v
         \<or> (case map_of objects (v_sha v) of Some n \<Rightarrow> n \<noteq> v_size v | None \<Rightarrow> False)
      then bad ''invalid_backup_references''
      else object_sizes vs (if map_of objects (v_sha v) = None then objects @ [(v_sha v, v_size v)] else objects))"

definition check_rows :: "database \<Rightarrow> unit res" where
  "check_rows d =
     rbind (ensure (\<not> list_ex (bad_file d) (d_files d)) ''invalid_backup_references'' 400) (\<lambda>_.
     rbind (ensure (list_all (\<lambda>m. m_state m = Completed \<longrightarrow> has_result d m) (d_missions d)) ''invalid_backup_references'' 400) (\<lambda>_.
     rbind (ensure (\<not> list_ex (bad_result d) (d_results d)) ''invalid_backup_references'' 400) (\<lambda>_.
     rbind (each (\<lambda>i. identifier_value (VStr i)) (row_ids d)) (\<lambda>_.
     each (\<lambda>f. file_name (VStr (f_name f))) (d_files d)))))"

definition verify_index :: "host \<Rightarrow> index \<Rightarrow> (string \<times> int) list res" where
  "verify_index h ix =
     rbind (ensure (ix_intact ix) ''invalid_backup_index'' 400) (\<lambda>_.
     rbind (ensure (ix_history ix \<noteq> [] \<and> ix_history ix = known_history h (length (ix_history ix)))
       ''unsupported_storage_version'' 400) (\<lambda>_.
     rbind (check_rows (ix_db ix)) (\<lambda>_.
     object_sizes (d_versions (ix_db ix)) [])))"

subsection \<open>Directories\<close>

type_synonym files = "(string \<times> string) list"

record directory =
  dir_names :: "string list"
  dir_files :: files

definition read_private :: "files \<Rightarrow> string \<Rightarrow> int \<Rightarrow> string res" where
  "read_private fs path limit =
     rbind (present (map_of fs path) ''FileNotFoundError'') (\<lambda>raw.
     rbind (ensure (int (length raw) \<le> limit) ''unsafe_local_file'' 500) (\<lambda>_. Inr raw))"

definition write_new :: "string \<Rightarrow> string \<Rightarrow> files \<Rightarrow> files res" where
  "write_new path raw fs =
     (if map_of fs path \<noteq> None then Inl (Raised ''FileExistsError'') else Inr (fs @ [(path, raw)]))"

definition INDEX_PATH :: string where "INDEX_PATH = ''app/index.sqlite3''"
definition MARKER_PATH :: string where "MARKER_PATH = ''config/installation.json''"
definition SETTINGS_PATH :: string where "SETTINGS_PATH = ''config/settings.json''"

definition file_limit :: "string \<Rightarrow> int" where
  "file_limit path = (if path = INDEX_PATH then MAX_INDEX else 1048576)"

definition open_index :: "host \<Rightarrow> files \<Rightarrow> index res" where
  "open_index h fs =
     rbind (present (map_of fs INDEX_PATH) ''sqlite3.Error'') (\<lambda>raw. present (h_sqlite h raw) ''sqlite3.Error'')"

definition settings_of :: "val \<Rightarrow> settings res" where
  "settings_of v =
     rbind (dict_fields v [''max_file_bytes'', ''quota_bytes'', ''attempt_seconds''] []) (\<lambda>d.
     make_settings (get_or_none d ''max_file_bytes'') (get_or_none d ''quota_bytes'') (get_or_none d ''attempt_seconds''))"

definition configurations :: "host \<Rightarrow> files \<Rightarrow> files res" where
  "configurations h fs =
     rbind (read_private fs MARKER_PATH 1024) (\<lambda>marker.
     rbind (decode_body (h_loads h) marker) (\<lambda>m.
     rbind (ensure (py_eq m (VDict [(''format'', VStr ''pepeuch.control-plane-installation/v1'')])) ''unknown_installation'' 400) (\<lambda>_.
     rbind (read_private fs SETTINGS_PATH 1024) (\<lambda>st.
     rbind (decode_body (h_loads h) st) (\<lambda>data.
     rbind (settings_of data) (\<lambda>_.
     Inr [(MARKER_PATH, marker), (SETTINGS_PATH, st)]))))))"


subsection \<open>Creating a backup\<close>

definition record_entry :: "host \<Rightarrow> string \<Rightarrow> string \<Rightarrow> val" where
  "record_entry h path raw =
     VDict [(''path'', VStr path), (''size'', VInt (int (length raw))), (''sha256'', VStr (h_sha h raw))]"

fun copy_files :: "host \<Rightarrow> files \<Rightarrow> (string \<times> int) list \<Rightarrow> string list \<Rightarrow> files \<Rightarrow> files res" where
  "copy_files h source objects [] acc = Inr acc"
| "copy_files h source objects (path # paths) acc =
     rbind (read_private source path (file_limit path)) (\<lambda>raw.
     rbind (ensure (starts_with ''objects/'' path \<longrightarrow>
              h_sha h raw = drop 8 path \<and> map_of objects (drop 8 path) = Some (int (length raw))) ''source_object_corrupted'' 400) (\<lambda>_.
     rbind (write_new path raw acc) (\<lambda>acc'. copy_files h source objects paths acc')))"

definition manifest_of :: "host \<Rightarrow> files \<Rightarrow> val" where
  "manifest_of h fs =
     VDict [(''format'', VStr FORMAT), (''credentials'', VStr ''excluded_restore_rekeys''),
            (''files'', VList (map (\<lambda>(p, raw). record_entry h p raw) fs))]"

definition backup_paths :: "(string \<times> int) list \<Rightarrow> string list" where
  "backup_paths objects = [INDEX_PATH, MARKER_PATH, SETTINGS_PATH] @ map (\<lambda>d. ''objects/'' @ d) (sort (map fst objects))"

definition BACKUP_DIRS :: "string list" where "BACKUP_DIRS = [''app'', ''config'', ''objects'']"

definition write_backup :: "host \<Rightarrow> files \<Rightarrow> directory res" where
  \<comment> \<open>up to and including the commit marker \<open>manifest.json\<close>\<close>
  "write_backup h source =
     rbind (configurations h source) (\<lambda>_.
     rbind (read_private source INDEX_PATH MAX_INDEX) (\<lambda>_.
     rbind (open_index h source) (\<lambda>ix.
     rbind (verify_index h ix) (\<lambda>objects.
     rbind (copy_files h source objects (backup_paths objects) []) (\<lambda>fs.
     rbind (canon (h_frepr h) (manifest_of h fs)) (\<lambda>manifest.
     Inr \<lparr>dir_names = BACKUP_DIRS, dir_files = fs @ [(''manifest.json'', utf8 manifest)]\<rparr>))))))"

subsection \<open>Inspecting a backup\<close>

definition top_level :: "directory \<Rightarrow> string set" where
  "top_level dir = set (dir_names dir) \<union> set (map (\<lambda>(p, _). before_char (CHR ''/'') p) (dir_files dir))"

definition first_two :: "string \<Rightarrow> string" where
  "first_two p = before_char (CHR ''/'') p @ ''/'' @ before_char (CHR ''/'') (after_char (CHR ''/'') p)"

definition children :: "directory \<Rightarrow> string set" where
  "children dir = set (map (\<lambda>(p, _). first_two p)
     (filter (\<lambda>(p, _). CHR ''/'' \<in> set p \<and> before_char (CHR ''/'') p \<in> set BACKUP_DIRS) (dir_files dir)))"

definition manifest_path :: "string \<Rightarrow> bool" where
  "manifest_path p = (p \<in> {INDEX_PATH, SETTINGS_PATH, MARKER_PATH} \<or> (starts_with ''objects/'' p \<and> hex_string 64 (drop 8 p)))"

definition translate_error :: "'a res \<Rightarrow> 'a res" where
  \<comment> \<open>\<open>except (OSError, ValueError, sqlite3.Error)\<close>\<close>
  "translate_error r = (case r of Inl (Raised _) \<Rightarrow> bad ''invalid_backup'' | _ \<Rightarrow> r)"

fun check_entries :: "host \<Rightarrow> files \<Rightarrow> val list \<Rightarrow> (string \<times> dict) list \<Rightarrow> nat \<Rightarrow> ((string \<times> dict) list \<times> nat) res" where
  "check_entries h fs [] paths used = Inr (paths, used)"
| "check_entries h fs (v # vs) paths used =
     rbind (dict_fields v [''path'', ''size'', ''sha256''] []) (\<lambda>entry.
     rbind (expect (as_str (get_or_none entry ''path'')) ''invalid_backup_manifest'' 400) (\<lambda>name.
     rbind (ensure (manifest_path name \<and> map_of paths name = None) ''invalid_backup_manifest'' 400) (\<lambda>_.
     rbind (expect (as_int (get_or_none entry ''size'')) ''invalid_backup_manifest'' 400) (\<lambda>n.
     rbind (ensure (0 \<le> n) ''invalid_backup_manifest'' 400) (\<lambda>_.
     rbind (read_private fs name (file_limit name)) (\<lambda>raw.
     rbind (ensure (int (length raw) = n \<and> get_or_none entry ''sha256'' = VStr (h_sha h raw)) ''backup_integrity_mismatch'' 400) (\<lambda>_.
     check_entries h fs vs (paths @ [(name, entry)]) (used + length raw))))))))"

definition inspect_body :: "host \<Rightarrow> directory \<Rightarrow> dict res" where
  "inspect_body h dir =
     rbind (ensure (top_level dir = {''manifest.json'', ''app'', ''config'', ''objects''}) ''invalid_backup_layout'' 400) (\<lambda>_.
     rbind (read_private (dir_files dir) ''manifest.json'' MAX_MANIFEST) (\<lambda>raw.
     rbind (decode_body (h_loads h) raw) (\<lambda>v.
     rbind (dict_fields v [''format'', ''credentials'', ''files''] []) (\<lambda>data.
     rbind (ensure (get_or_none data ''format'' = VStr FORMAT \<and> get_or_none data ''credentials'' = VStr ''excluded_restore_rekeys'')
       ''invalid_backup_manifest'' 400) (\<lambda>_.
     rbind (expect (as_list (get_or_none data ''files'')) ''invalid_backup_manifest'' 400) (\<lambda>entries.
     rbind (ensure (3 \<le> int (length entries) \<and> int (length entries) \<le> 10003) ''invalid_backup_manifest'' 400) (\<lambda>_.
     rbind (check_entries h (dir_files dir) entries [] 0) (\<lambda>(paths, used).
     rbind (ensure (int used \<le> 2147483648) ''backup_too_large'' 400) (\<lambda>_.
     rbind (ensure (children dir = set (map fst paths)) ''invalid_backup_layout'' 400) (\<lambda>_.
     rbind (configurations h (dir_files dir)) (\<lambda>_.
     rbind (open_index h (dir_files dir)) (\<lambda>ix.
     rbind (verify_index h ix) (\<lambda>objects.
     rbind (ensure (set (filter (starts_with ''objects/'') (map fst paths)) = set (map (\<lambda>(digest, _). ''objects/'' @ digest) objects))
       ''invalid_backup_references'' 400) (\<lambda>_.
     rbind (ensure (list_all (\<lambda>(digest, n).
              (case map_of paths (''objects/'' @ digest) of
                 Some e \<Rightarrow> get_or_none e ''sha256'' = VStr digest \<and> get_or_none e ''size'' = VInt n | None \<Rightarrow> False)) objects)
       ''invalid_backup_references'' 400) (\<lambda>_.
     Inr data)))))))))))))))"

definition inspect_backup :: "host \<Rightarrow> directory \<Rightarrow> dict res" where
  "inspect_backup h dir = translate_error (inspect_body h dir)"

definition create_backup :: "host \<Rightarrow> files \<Rightarrow> (directory \<times> val) res" where
  "create_backup h source =
     rbind (write_backup h source) (\<lambda>dir.
     rbind (inspect_backup h dir) (\<lambda>_.
     Inr (dir, VDict [(''format'', VStr FORMAT), (''file_count'', VInt (int (length (dir_files dir) - 1))),
                      (''credentials_included'', VBool False)])))"

subsection \<open>Upgrading an older index, and restoring\<close>

definition upgrade_rows :: "settings \<Rightarrow> string \<Rightarrow> string \<Rightarrow> database \<Rightarrow> database" where
  \<comment> \<open>migration 2: attempts of the only worker had epoch 1, its operations are filed under it\<close>
  "upgrade_rows st digest stamp d =
     d\<lparr>d_epochs := map (\<lambda>a. (a_id a, 1)) (d_attempts d),
       d_operations := map (\<lambda>r. if o_actor r = ''fake-cpu'' then r\<lparr>o_actor := ''fake-cpu@1''\<rparr> else r) (d_operations d),
       d_workers := [\<lparr>k_id = ''fake-cpu'', k_status = Active, k_credential = digest, k_epoch = 1,
                      k_capabilities = VList [VStr DEMO], k_limits = default_limits st, k_created = stamp, k_updated = stamp\<rparr>]\<rparr>"

definition migrate_existing :: "host \<Rightarrow> settings \<Rightarrow> string \<Rightarrow> string \<Rightarrow> index \<Rightarrow> index res" where
  \<comment> \<open>\<open>migrate_index\<close> on an index that has a history; the worker token and the time stamp are given\<close>
  "migrate_existing h st token stamp ix =
     rbind (ensure (ix_history ix \<noteq> [] \<and> ix_history ix = known_history h (length (ix_history ix)))
       ''unsupported_storage_version'' 500) (\<lambda>_.
     let todo = drop (length (ix_history ix)) (h_known h) in
     rbind (if 2 \<in> set (map fst todo)
            then rbind (ensure (is_token (strip token)) ''invalid_local_credential'' 500) (\<lambda>_.
                 Inr (upgrade_rows st (h_sha h (strip token)) stamp (ix_db ix)))
            else Inr (ix_db ix)) (\<lambda>d.
     Inr (ix\<lparr>ix_history := known_history h (length (h_known h)), ix_db := d\<rparr>)))"

definition retire_workers :: "database \<Rightarrow> database" where
  "retire_workers d = d\<lparr>d_workers := map (\<lambda>k. k\<lparr>k_status := Revoked, k_epoch := k_epoch k + 1\<rparr>) (d_workers d)\<rparr>"

definition text_entry :: "dict \<Rightarrow> string \<Rightarrow> string res" where
  "text_entry d k = rbind (item d k) (\<lambda>v. present (as_str v) ''TypeError'')"

fun restore_files :: "host \<Rightarrow> files \<Rightarrow> val list \<Rightarrow> files \<Rightarrow> string option \<Rightarrow> (files \<times> string option) res" where
  "restore_files h source [] acc marker = Inr (acc, marker)"
| "restore_files h source (v # vs) acc marker =
     rbind (present (as_dict v) ''TypeError'') (\<lambda>entry.
     rbind (text_entry entry ''path'') (\<lambda>path.
     rbind (read_private source path (file_limit path)) (\<lambda>raw.
     rbind (ensure (get_or_none entry ''size'' = VInt (int (length raw)) \<and> get_or_none entry ''sha256'' = VStr (h_sha h raw))
       ''backup_changed_during_restore'' 400) (\<lambda>_.
     if path = MARKER_PATH then restore_files h source vs acc (Some raw)
     else rbind (write_new path raw acc) (\<lambda>acc'. restore_files h source vs acc' marker)))))"

definition restore_index :: "host \<Rightarrow> files \<Rightarrow> string \<Rightarrow> string \<Rightarrow> files res" where
  "restore_index h fs token stamp =
     rbind (read_private fs SETTINGS_PATH 1024) (\<lambda>raw.
     rbind (rbind (decode_body (h_loads h) raw) settings_of) (\<lambda>st.
     rbind (open_index h fs) (\<lambda>ix.
     rbind (migrate_existing h st token stamp ix) (\<lambda>ix1.
     let ix2 = ix1\<lparr>ix_db := retire_workers (ix_db ix1)\<rparr> in
     rbind (verify_index h ix2) (\<lambda>_.
     Inr (map (\<lambda>(p, raw). if p = INDEX_PATH then (p, h_sqlite_file h ix2) else (p, raw)) fs))))))"

definition restore_backup :: "host \<Rightarrow> directory \<Rightarrow> string \<Rightarrow> string \<Rightarrow> string \<Rightarrow> files res" where
  \<comment> \<open>into a new directory; two fresh tokens and the time stamp are given\<close>
  "restore_backup h dir admin_token worker_token stamp =
     rbind (inspect_backup h dir) (\<lambda>manifest.
     rbind (present (as_list (get_or_none manifest ''files'')) ''TypeError'') (\<lambda>entries.
     rbind (restore_files h (dir_files dir) entries [] None) (\<lambda>(fs, marker).
     rbind (rbind (open_index h fs) (verify_index h)) (\<lambda>_.
     rbind (write_new ''secrets/admin.token'' (admin_token @ [CHR 0x0A]) fs) (\<lambda>fs1.
     rbind (write_new ''secrets/worker.token'' (worker_token @ [CHR 0x0A]) fs1) (\<lambda>fs2.
     rbind (restore_index h fs2 worker_token stamp) (\<lambda>fs3.
     rbind (write_new ''app/backend.lock'' [] fs3) (\<lambda>fs4.
     rbind (expect marker ''incomplete_restore'' 400) (\<lambda>raw.
     write_new MARKER_PATH raw fs4)))))))))"

end
