(* ===== verification/Backup_Guarantees.thy ===== *)
theory Backup_Guarantees
  imports Backup
begin

section \<open>What a backup and its restoration guarantee\<close>

subsection \<open>Files that are written, copied and listed\<close>

lemma write_new_Inr: "write_new p raw fs = Inr fs' \<longleftrightarrow> map_of fs p = None \<and> fs' = fs @ [(p, raw)]"
  by (auto simp: write_new_def)

lemma read_private_Inr: "read_private fs p n = Inr raw \<longleftrightarrow> map_of fs p = Some raw \<and> int (length raw) \<le> n"
  by (auto simp: read_private_def)

lemma write_new_lookup: "write_new p raw fs = Inr fs' \<Longrightarrow> map_of fs q = Some x \<Longrightarrow> map_of fs' q = Some x"
  by (auto simp: write_new_Inr map_add_def)

lemma copy_files_spec:
  "copy_files h source objects paths acc = Inr out \<Longrightarrow>
     \<exists>more. out = acc @ more \<and> map fst more = paths \<and> (\<forall>p raw. (p, raw) \<in> set more \<longrightarrow> map_of source p = Some raw)
       \<and> (\<forall>p\<in>set paths. map_of acc p = None) \<and> distinct paths"
proof (induction paths arbitrary: acc)
  case Nil
  then show ?case by simp
next
  case (Cons p ps)
  from Cons.prems obtain raw where raw: "map_of source p = Some raw" "map_of acc p = None"
    and rest: "copy_files h source objects ps (acc @ [(p, raw)]) = Inr out"
    by (auto simp: read_private_Inr write_new_Inr)
  from Cons.IH [OF rest] obtain more where more: "out = (acc @ [(p, raw)]) @ more" "map fst more = ps"
    "\<forall>q x. (q, x) \<in> set more \<longrightarrow> map_of source q = Some x" "\<forall>q\<in>set ps. map_of (acc @ [(p, raw)]) q = None" "distinct ps"
    by blast
  have "p \<notin> set ps" "\<forall>q\<in>set ps. map_of acc q = None"
    using more(4) by (auto simp: map_add_def split: option.splits if_splits)
  with more raw show ?case by (intro exI [of _ "(p, raw) # more"]) auto
qed

definition entry_path :: "val \<Rightarrow> string" where
  "entry_path v = (case v of VDict d \<Rightarrow> (case get_or_none d ''path'' of VStr p \<Rightarrow> p | _ \<Rightarrow> []) | _ \<Rightarrow> [])"

lemma entry_path_eq: "map_of d ''path'' = Some (VStr p) \<Longrightarrow> entry_path (VDict d) = p"
  by (simp add: entry_path_def get_or_none_def)

definition matches_entry :: "host \<Rightarrow> files \<Rightarrow> string \<times> dict \<Rightarrow> bool" where
  "matches_entry h fs x \<longleftrightarrow> (\<exists>raw. map_of fs (fst x) = Some raw \<and> get_or_none (snd x) ''size'' = VInt (int (length raw))
     \<and> get_or_none (snd x) ''sha256'' = VStr (h_sha h raw))"

lemma check_entries_spec:
  "check_entries h fs vs paths used = Inr (out, amount) \<Longrightarrow>
     map fst out = map fst paths @ map entry_path vs \<and> (\<forall>x\<in>set out. x \<in> set paths \<or> matches_entry h fs x)"
proof (induction vs arbitrary: paths used)
  case Nil
  then show ?case by simp
next
  case (Cons v vs)
  from Cons.prems obtain e p raw n where e: "v = VDict e" "map_of e ''path'' = Some (VStr p)" "map_of fs p = Some raw"
    "get_or_none e ''size'' = VInt (int (length raw))" "get_or_none e ''sha256'' = VStr (h_sha h raw)"
    and rest: "check_entries h fs vs (paths @ [(p, e)]) n = Inr (out, amount)"
    by (auto simp: fields_Inr read_private_Inr)
  then have "matches_entry h fs (p, e)" by (simp add: matches_entry_def)
  with Cons.IH [OF rest] e show ?case by (auto simp: entry_path_eq)
qed

lemma restore_files_spec:
  "restore_files h source vs acc marker = Inr (out, m) \<Longrightarrow>
     (\<forall>p x. map_of acc p = Some x \<longrightarrow> map_of out p = Some x)
     \<and> (\<forall>v\<in>set vs. entry_path v \<noteq> MARKER_PATH \<longrightarrow>
          (\<exists>raw. map_of source (entry_path v) = Some raw \<and> map_of out (entry_path v) = Some raw))
     \<and> (m = marker \<or> m = map_of source MARKER_PATH \<and> m \<noteq> None)
     \<and> (\<forall>p. map_of out p \<noteq> None \<longrightarrow> map_of acc p \<noteq> None \<or> p \<noteq> MARKER_PATH)"
proof (induction vs arbitrary: acc marker)
  case Nil
  then show ?case by auto
next
  case (Cons v vs)
  from Cons.prems obtain e p raw where e: "v = VDict e" "map_of e ''path'' = Some (VStr p)" "map_of source p = Some raw"
    and rest: "if p = MARKER_PATH then restore_files h source vs acc (Some raw) = Inr (out, m)
               else map_of acc p = None \<and> restore_files h source vs (acc @ [(p, raw)]) marker = Inr (out, m)"
    by (auto simp: text_entry_def item_def read_private_Inr write_new_Inr split: option.splits if_splits)
  note p = entry_path_eq [OF e(2)]
  show ?case
  proof (cases "p = MARKER_PATH")
    case True
    with rest have "restore_files h source vs acc (Some raw) = Inr (out, m)" by simp
    from Cons.IH [OF this] e p True show ?thesis by auto
  next
    case False
    with rest have fresh: "map_of acc p = None" and r: "restore_files h source vs (acc @ [(p, raw)]) marker = Inr (out, m)" by simp_all
    have keep: "map_of (acc @ [(p, raw)]) q = Some x" if "map_of acc q = Some x" for q x
      using that by (simp add: map_add_def)
    have new: "map_of (acc @ [(p, raw)]) p = Some raw" using fresh by (simp add: map_add_def)
    have none: "map_of (acc @ [(p, raw)]) q \<noteq> None \<Longrightarrow> map_of acc q \<noteq> None \<or> q = p" for q
      by (auto simp: map_add_def split: option.splits if_splits)
    note IH = Cons.IH [OF r]
    show ?thesis
    proof (intro conjI)
      show "\<forall>q x. map_of acc q = Some x \<longrightarrow> map_of out q = Some x" using IH keep by blast
      show "\<forall>v\<in>set (v # vs). entry_path v \<noteq> MARKER_PATH \<longrightarrow>
          (\<exists>raw. map_of source (entry_path v) = Some raw \<and> map_of out (entry_path v) = Some raw)"
        using IH e p new by auto
      show "m = marker \<or> m = map_of source MARKER_PATH \<and> m \<noteq> None" using IH by blast
      show "\<forall>q. map_of out q \<noteq> None \<longrightarrow> map_of acc q \<noteq> None \<or> q \<noteq> MARKER_PATH" using IH none False by blast
    qed
  qed
qed

subsection \<open>The index\<close>

lemma object_sizes_spec:
  "object_sizes vs objects = Inr out \<Longrightarrow>
     (\<forall>k n. map_of objects k = Some n \<longrightarrow> map_of out k = Some n)
     \<and> (\<forall>v\<in>set vs. map_of out (v_sha v) = Some (v_size v) \<and> hex_string 64 (v_sha v) \<and> 0 \<le> v_size v \<and> v_size v \<le> 1048576)"
proof (induction vs arbitrary: objects)
  case Nil
  then show ?case by simp
next
  case (Cons v vs)
  let ?next = "if map_of objects (v_sha v) = None then objects @ [(v_sha v, v_size v)] else objects"
  from Cons.prems have ok: "hex_string 64 (v_sha v)" "0 \<le> v_size v" "v_size v \<le> 1048576"
    "map_of objects (v_sha v) = None \<or> map_of objects (v_sha v) = Some (v_size v)"
    and rest: "object_sizes vs ?next = Inr out"
    by (auto simp: bad_def split: if_splits option.splits)
  have n: "map_of ?next (v_sha v) = Some (v_size v)" "\<forall>k n. map_of objects k = Some n \<longrightarrow> map_of ?next k = Some n"
    using ok(4) by (auto simp: map_add_def split: option.splits)
  from Cons.IH [OF rest] n ok show ?case by (simp del: if_split_asm)
qed


lemma verify_index_Inr:
  "verify_index h ix = Inr objects \<longleftrightarrow> ix_intact ix \<and> ix_history ix \<noteq> []
     \<and> ix_history ix = known_history h (length (ix_history ix)) \<and> check_rows (ix_db ix) = Inr ()
     \<and> object_sizes (d_versions (ix_db ix)) [] = Inr objects"
  by (auto simp: verify_index_def)

lemma verified_object:
  assumes "verify_index h ix = Inr objects" "v \<in> set (d_versions (ix_db ix))"
  shows "map_of objects (v_sha v) = Some (v_size v)" "hex_string 64 (v_sha v)"
  using assms object_sizes_spec by (fastforce simp: verify_index_Inr)+

lemma inspect_Inr:
  assumes "inspect_backup h dir = Inr data"
  obtains entries paths used ix objects where
    "get_or_none data ''files'' = VList entries" "check_entries h (dir_files dir) entries [] 0 = Inr (paths, used)"
    "children dir = set (map fst paths)" "open_index h (dir_files dir) = Inr ix" "verify_index h ix = Inr objects"
    "list_all (\<lambda>(digest, n). case map_of paths (''objects/'' @ digest) of
        Some e \<Rightarrow> get_or_none e ''sha256'' = VStr digest \<and> get_or_none e ''size'' = VInt n | None \<Rightarrow> False) objects"
proof -
  from assms have "inspect_body h dir = Inr data"
    by (auto simp: inspect_backup_def translate_error_def bad_def split: sum.splits err.splits)
  then show ?thesis using that by (auto simp: inspect_body_def)
qed

lemma entries_cover:
  assumes "check_entries h fs entries [] 0 = Inr (paths, used)" "children dir = set (map fst paths)" "p \<in> children dir"
  shows "\<exists>v\<in>set entries. entry_path v = p"
  using check_entries_spec [OF assms(1)] assms(2,3) by auto

text \<open>
  C17. A backup that is accepted is complete and consistent: its index passes every check on rows, and
  each file version of the index has its object in the backup, with the size and digest of the row.
\<close>
theorem accepted_backup_is_complete:
  assumes "inspect_backup h dir = Inr data"
  shows "\<exists>ix. open_index h (dir_files dir) = Inr ix \<and> check_rows (ix_db ix) = Inr ()
    \<and> (\<forall>v\<in>set (d_versions (ix_db ix)). \<exists>raw. map_of (dir_files dir) (''objects/'' @ v_sha v) = Some raw
          \<and> h_sha h raw = v_sha v \<and> int (length raw) = v_size v)"
proof -
  from assms obtain entries paths used ix objects where i:
    "check_entries h (dir_files dir) entries [] 0 = Inr (paths, used)" "open_index h (dir_files dir) = Inr ix"
    "verify_index h ix = Inr objects"
    "list_all (\<lambda>(digest, n). case map_of paths (''objects/'' @ digest) of
        Some e \<Rightarrow> get_or_none e ''sha256'' = VStr digest \<and> get_or_none e ''size'' = VInt n | None \<Rightarrow> False) objects"
    by (rule inspect_Inr)
  have "\<exists>raw. map_of (dir_files dir) (''objects/'' @ v_sha v) = Some raw \<and> h_sha h raw = v_sha v \<and> int (length raw) = v_size v"
    if v: "v \<in> set (d_versions (ix_db ix))" for v
  proof -
    from map_of_SomeD [OF verified_object(1) [OF i(3) v]] i(4) obtain e where
      e: "map_of paths (''objects/'' @ v_sha v) = Some e" "get_or_none e ''sha256'' = VStr (v_sha v)"
        "get_or_none e ''size'' = VInt (v_size v)"
      by (fastforce simp: list_all_iff split: option.splits)
    from map_of_SomeD [OF e(1)] check_entries_spec [OF i(1)] have
      "matches_entry h (dir_files dir) (''objects/'' @ v_sha v, e)" by fastforce
    with e show ?thesis by (auto simp: matches_entry_def)
  qed
  with i show ?thesis by (auto simp: verify_index_Inr)
qed

subsection \<open>Restoration\<close>

lemma restore_Inr:
  assumes "restore_backup h dir a b stamp = Inr fs"
  obtains data entries fs0 fs1 fs2 fs3 fs4 raw where
    "inspect_backup h dir = Inr data" "get_or_none data ''files'' = VList entries"
    "restore_files h (dir_files dir) entries [] None = Inr (fs0, Some raw)"
    "write_new ''secrets/admin.token'' (a @ [CHR 0x0A]) fs0 = Inr fs1"
    "write_new ''secrets/worker.token'' (b @ [CHR 0x0A]) fs1 = Inr fs2"
    "restore_index h fs2 b stamp = Inr fs3" "write_new ''app/backend.lock'' [] fs3 = Inr fs4"
    "write_new MARKER_PATH raw fs4 = Inr fs"
  using assms by (auto simp: restore_backup_def)

lemma replaced_lookup:
  "map_of (map (\<lambda>(p, raw). if p = q then (p, f p raw) else (p, raw)) fs) x
     = (if x = q then map_option (f q) (map_of fs q) else map_of fs x)"
  by (induction fs) auto

lemma restore_index_Inr:
  assumes "restore_index h fs token stamp = Inr fs'"
  obtains ix objects where "verify_index h ix = Inr objects" "\<forall>k\<in>set (d_workers (ix_db ix)). k_status k = Revoked"
    "map_of fs' INDEX_PATH = Some (h_sqlite_file h ix)" "\<forall>p. p \<noteq> INDEX_PATH \<longrightarrow> map_of fs' p = map_of fs p"
proof -
  from assms obtain ix0 ix1 st objs where o: "open_index h fs = Inr ix0"
    "verify_index h (ix1\<lparr>ix_db := retire_workers (ix_db ix1)\<rparr>) = Inr objs"
    and fs': "fs' = map (\<lambda>(p, raw). if p = INDEX_PATH then (p, h_sqlite_file h (ix1\<lparr>ix_db := retire_workers (ix_db ix1)\<rparr>)) else (p, raw)) fs"
    by (auto simp: restore_index_def Let_def)
  from o(1) obtain raw where "map_of fs INDEX_PATH = Some raw" by (auto simp: open_index_def)
  note look = replaced_lookup [of INDEX_PATH "\<lambda>_ _. h_sqlite_file h (ix1\<lparr>ix_db := retire_workers (ix_db ix1)\<rparr>)" fs]
  show ?thesis
    using that [of "ix1\<lparr>ix_db := retire_workers (ix_db ix1)\<rparr>"] o(2) \<open>map_of fs INDEX_PATH = Some raw\<close>
    by (auto simp: fs' look retire_workers_def)
qed


lemma restored_file:
  assumes "restore_backup h dir a b stamp = Inr fs" "p \<in> children dir" "p \<noteq> INDEX_PATH"
  shows "p = MARKER_PATH \<or> map_of fs p = map_of (dir_files dir) p" "map_of fs MARKER_PATH = map_of (dir_files dir) MARKER_PATH"
proof -
  from assms(1) obtain data entries fs0 fs1 fs2 fs3 fs4 raw where r:
    "inspect_backup h dir = Inr data" "get_or_none data ''files'' = VList entries"
    "restore_files h (dir_files dir) entries [] None = Inr (fs0, Some raw)"
    "write_new ''secrets/admin.token'' (a @ [CHR 0x0A]) fs0 = Inr fs1"
    "write_new ''secrets/worker.token'' (b @ [CHR 0x0A]) fs1 = Inr fs2"
    "restore_index h fs2 b stamp = Inr fs3" "write_new ''app/backend.lock'' [] fs3 = Inr fs4"
    "write_new MARKER_PATH raw fs4 = Inr fs"
    by (rule restore_Inr)
  note R = restore_files_spec [OF r(3)]
  from R have m: "map_of (dir_files dir) MARKER_PATH = Some raw" by auto
  show "map_of fs MARKER_PATH = map_of (dir_files dir) MARKER_PATH"
    using r(8) m by (auto simp: write_new_Inr map_add_def)
  show "p = MARKER_PATH \<or> map_of fs p = map_of (dir_files dir) p"
  proof (cases "p = MARKER_PATH")
    case False
    from r(1) obtain paths used where "check_entries h (dir_files dir) entries [] 0 = Inr (paths, used)"
      "children dir = set (map fst paths)"
      by (rule inspect_Inr) (use r(2) in auto)
    from entries_cover [OF this assms(2)] obtain v where v: "v \<in> set entries" "entry_path v = p" by blast
    with R False obtain x where x: "map_of (dir_files dir) p = Some x" "map_of fs0 p = Some x" by metis
    from r(4,5) x(2) have "map_of fs2 p = Some x" by (meson write_new_lookup)
    moreover obtain ix objects where "\<forall>p. p \<noteq> INDEX_PATH \<longrightarrow> map_of fs3 p = map_of fs2 p"
      using restore_index_Inr [OF r(6)] by metis
    ultimately have "map_of fs3 p = Some x" using assms(3) by simp
    then have "map_of fs p = Some x" by (rule write_new_lookup [OF r(8) write_new_lookup [OF r(7)]])
    with x(1) show ?thesis by simp
  qed simp
qed

lemma write_backup_files:
  assumes "write_backup h source = Inr dir"
  obtains ix objects where "open_index h source = Inr ix" "verify_index h ix = Inr objects"
    "\<forall>p\<in>set (backup_paths objects). map_of (dir_files dir) p = map_of source p"
    "\<forall>p\<in>set (backup_paths objects). p \<in> set (map fst (dir_files dir))"
proof -
  from assms obtain ix objects fs manifest where w: "open_index h source = Inr ix" "verify_index h ix = Inr objects"
    "copy_files h source objects (backup_paths objects) [] = Inr fs"
    "dir_files dir = fs @ [(''manifest.json'', manifest)]"
    by (auto simp: write_backup_def)
  from copy_files_spec [OF w(3)] have c: "map fst fs = backup_paths objects" "distinct (map fst fs)"
    "\<forall>p raw. (p, raw) \<in> set fs \<longrightarrow> map_of source p = Some raw" by auto
  have "map_of (dir_files dir) p = map_of source p" if "p \<in> set (backup_paths objects)" for p
  proof -
    from that c(1) obtain raw where "(p, raw) \<in> set fs" by (metis (mono_tags) fst_conv imageE list.set_map prod.collapse)
    with c have "map_of fs p = Some raw" "map_of source p = Some raw" by auto
    with w(4) show ?thesis by (simp add: map_add_def split: option.splits)
  qed
  moreover have "p \<in> set (map fst (dir_files dir))" if "p \<in> set (backup_paths objects)" for p
    using that c(1) w(4) by (metis Un_iff map_append set_append)
  ultimately show ?thesis using that [OF w(1,2)] by blast
qed

lemma child_of:
  assumes "p \<in> set (map fst (dir_files dir))" "p = d @ ''/'' @ q" "d \<in> set BACKUP_DIRS" "CHR ''/'' \<notin> set q"
  shows "p \<in> children dir"
proof -
  have "CHR ''/'' \<notin> set d" using assms(3) by (auto simp: BACKUP_DIRS_def)
  then have "before_char (CHR ''/'') p = d" "first_two p = p" "CHR ''/'' \<in> set p" using assms(2,4) by (simp_all add: first_two_def)
  with assms(1,3) show ?thesis by (force simp: children_def)
qed

text \<open>
  C18. Backup then restore is the identity on what users own: every object a version of the index
  refers to, the settings and the installation marker come back byte for byte.
\<close>
theorem backup_restore_round_trip:
  assumes "create_backup h source = Inr (dir, out)" "restore_backup h dir a b stamp = Inr fs"
  shows "\<exists>ix. open_index h source = Inr ix
    \<and> (\<forall>v\<in>set (d_versions (ix_db ix)). map_of fs (''objects/'' @ v_sha v) = map_of source (''objects/'' @ v_sha v))
    \<and> map_of fs SETTINGS_PATH = map_of source SETTINGS_PATH \<and> map_of fs MARKER_PATH = map_of source MARKER_PATH"
proof -
  from assms(1) have "write_backup h source = Inr dir" by (auto simp: create_backup_def)
  then obtain ix objects where w: "open_index h source = Inr ix" "verify_index h ix = Inr objects"
    "\<forall>p\<in>set (backup_paths objects). map_of (dir_files dir) p = map_of source p"
    "\<forall>p\<in>set (backup_paths objects). p \<in> set (map fst (dir_files dir))" by (rule write_backup_files)
  have returned: "map_of fs p = map_of source p" if p: "p \<in> set (backup_paths objects)" "p = d @ ''/'' @ q" "d \<in> set BACKUP_DIRS"
    "CHR ''/'' \<notin> set q" "p \<noteq> INDEX_PATH" for p d q
    using restored_file [OF assms(2) child_of [OF _ p(2-4)] p(5)] w(3,4) p(1) by metis
  have s: "map_of fs SETTINGS_PATH = map_of source SETTINGS_PATH"
    by (rule returned [of _ "''config''" "''settings.json''"]) (simp_all add: backup_paths_def SETTINGS_PATH_def INDEX_PATH_def BACKUP_DIRS_def)
  have m: "map_of fs MARKER_PATH = map_of source MARKER_PATH"
    by (rule returned [of _ "''config''" "''installation.json''"]) (simp_all add: backup_paths_def MARKER_PATH_def INDEX_PATH_def BACKUP_DIRS_def)
  have obj: "map_of fs (''objects/'' @ v_sha v) = map_of source (''objects/'' @ v_sha v)" if v: "v \<in> set (d_versions (ix_db ix))" for v
  proof (rule returned [of _ "''objects''" "v_sha v"])
    from verified_object(1) [OF w(2) v] have "v_sha v \<in> set (map fst objects)" by (force dest: map_of_SomeD)
    then show "''objects/'' @ v_sha v \<in> set (backup_paths objects)" by (auto simp: backup_paths_def)
    from verified_object(2) [OF w(2) v] show "CHR ''/'' \<notin> set (v_sha v)"
      by (auto simp: hex_string_def list_all_iff is_hex_def is_digit_def ord_def)
  qed (simp_all add: BACKUP_DIRS_def INDEX_PATH_def)
  with w(1) s m show ?thesis by blast
qed

text \<open>
  C19. A restored installation has new credentials only: every worker identity of the restored index is
  revoked under a new epoch, so no principal is authorised as a worker and no worker token is
  recognised, and the administrator token is the fresh one.
\<close>
theorem restored_installation_is_rekeyed:
  assumes "restore_backup h dir a b stamp = Inr fs"
  shows "\<exists>ix. map_of fs INDEX_PATH = Some (h_sqlite_file h ix) \<and> (\<exists>objects. verify_index h ix = Inr objects)
    \<and> map_of fs ''secrets/admin.token'' = Some (a @ [CHR 0x0A])
    \<and> (\<forall>w p t. db w = ix_db ix \<longrightarrow> (\<exists>code. authorize p w = (Inl (Problem code 403), w))
          \<and> authenticate_worker t w = (Inl (Problem ''authentication_required'' 401), w))"
proof -
  from assms obtain data entries fs0 fs1 fs2 fs3 fs4 raw where r:
    "write_new ''secrets/admin.token'' (a @ [CHR 0x0A]) fs0 = Inr fs1"
    "write_new ''secrets/worker.token'' (b @ [CHR 0x0A]) fs1 = Inr fs2"
    "restore_index h fs2 b stamp = Inr fs3" "write_new ''app/backend.lock'' [] fs3 = Inr fs4"
    "write_new MARKER_PATH raw fs4 = Inr fs"
    by (rule restore_Inr)
  from r(3) obtain ix objects where i: "verify_index h ix = Inr objects" "\<forall>k\<in>set (d_workers (ix_db ix)). k_status k = Revoked"
    "map_of fs3 INDEX_PATH = Some (h_sqlite_file h ix)" "\<forall>p. p \<noteq> INDEX_PATH \<longrightarrow> map_of fs3 p = map_of fs2 p"
    by (rule restore_index_Inr)
  have "map_of fs INDEX_PATH = Some (h_sqlite_file h ix)" using r(4,5) i(3) by (meson write_new_lookup)
  moreover have "map_of fs ''secrets/admin.token'' = Some (a @ [CHR 0x0A])"
  proof -
    have "map_of fs1 ''secrets/admin.token'' = Some (a @ [CHR 0x0A])" using r(1) by (auto simp: write_new_Inr map_add_def)
    then have "map_of fs2 ''secrets/admin.token'' = Some (a @ [CHR 0x0A])" using r(2) by (meson write_new_lookup)
    then have "map_of fs3 ''secrets/admin.token'' = Some (a @ [CHR 0x0A])" using i(4) by (simp add: INDEX_PATH_def)
    then show ?thesis using r(4,5) by (meson write_new_lookup)
  qed
  moreover have "(\<exists>code. authorize p w = (Inl (Problem code 403), w))
      \<and> authenticate_worker t w = (Inl (Problem ''authentication_required'' 401), w)" if "db w = ix_db ix" for w p t
  proof
    have "\<not> (\<exists>k w'. authorize p w = (Inr k, w'))"
      using i(2) that by (auto simp: authorize_Inr dest: worker_by_id_Some)
    then obtain e w' where a: "authorize p w = (Inl e, w')" by (cases "authorize p w") (metis sum.exhaust)
    show "\<exists>code. authorize p w = (Inl (Problem code 403), w)"
    proof (cases "worker_by_id (db w) (identity p)")
      case None
      then show ?thesis by (auto simp: authorize_def abind_def act_defs select_def ensure_def)
    next
      case (Some k)
      then have "k_status k = Revoked" using i(2) that by (auto dest: worker_by_id_Some)
      with Some show ?thesis by (auto simp: authorize_def abind_def act_defs select_def ensure_def)
    qed
    have "List.find (\<lambda>r. k_credential r = w_sha w t \<and> k_status r = Active) (d_workers (db w)) = None"
      using i(2) that by (auto simp: find_None_iff)
    then show "authenticate_worker t w = (Inl (Problem ''authentication_required'' 401), w)"
      by (simp add: authenticate_worker_def abind_def act_defs select_def)
  qed
  ultimately show ?thesis using i(1) by blast
qed


subsection \<open>A concrete backup\<close>

definition small_sha :: "string \<Rightarrow> string" where "small_sha s = ''0''"

definition small_index :: index where
  "small_index = \<lparr>ix_intact = True, ix_history = [(1, small_sha []), (2, small_sha [])],
     ix_db = empty_db\<lparr>d_workers := [\<lparr>k_id = ''fake-cpu'', k_status = Active, k_credential = ''c'', k_epoch = 1,
        k_capabilities = VList [VStr DEMO], k_limits = VNull, k_created = [], k_updated = []\<rparr>]\<rparr>\<rparr>"

definition small_files :: files where
  "small_files = [(INDEX_PATH, ''DB''), (MARKER_PATH, ''M''), (SETTINGS_PATH, ''S'')]"

definition small_entry :: "string \<Rightarrow> string \<Rightarrow> val" where
  "small_entry path raw = VDict [(''path'', VStr path), (''size'', VInt (int (length raw))), (''sha256'', VStr (small_sha raw))]"

definition small_manifest :: val where
  "small_manifest = VDict [(''format'', VStr FORMAT), (''credentials'', VStr ''excluded_restore_rekeys''),
     (''files'', VList (map (\<lambda>(p, raw). small_entry p raw) small_files))]"

definition small_loads :: "string \<Rightarrow> val option" where
  "small_loads s =
     (if s = ''M'' then Some (VDict [(''format'', VStr ''pepeuch.control-plane-installation/v1'')])
      else if s = ''S'' then Some (VDict [(''max_file_bytes'', VInt 1000), (''quota_bytes'', VInt 5000), (''attempt_seconds'', VInt 60)])
      else Some small_manifest)"

definition small_host :: host where
  "small_host = \<lparr>h_sha = small_sha, h_loads = small_loads, h_frepr = (\<lambda>_. ''0.0''), h_sqlite = (\<lambda>_. Some small_index),
     h_sqlite_file = (\<lambda>_. ''DB''), h_known = [(1, ''one''), (2, ''two'')]\<rparr>"

lemma small_backup: "\<exists>dir out. create_backup small_host small_files = Inr (dir, out)"
proof -
  have "is_ok (create_backup small_host small_files)" by code_simp
  then show ?thesis by (auto simp: is_ok_conv)
qed

lemma small_restore:
  "\<exists>dir out fs. create_backup small_host small_files = Inr (dir, out)
     \<and> restore_backup small_host dir ''new-admin'' ''new-worker'' ''now'' = Inr fs"
proof -
  have "is_ok (rbind (create_backup small_host small_files) (\<lambda>(dir, _). restore_backup small_host dir ''new-admin'' ''new-worker'' ''now''))"
    by code_simp
  then show ?thesis by (auto simp: is_ok_conv)
qed

theorem accepted_backup_is_complete_witness:
  "\<exists>dir data ix. inspect_backup small_host dir = Inr data \<and> open_index small_host (dir_files dir) = Inr ix
     \<and> check_rows (ix_db ix) = Inr ()"
proof -
  obtain dir data where "inspect_backup small_host dir = Inr data"
    using small_backup by (auto simp: create_backup_def)
  with accepted_backup_is_complete [OF this] show ?thesis by blast
qed

theorem backup_restore_round_trip_witness:
  "\<exists>fs. map_of fs SETTINGS_PATH = Some ''S'' \<and> map_of fs MARKER_PATH = Some ''M''"
proof -
  obtain dir out fs where "create_backup small_host small_files = Inr (dir, out)"
    "restore_backup small_host dir ''new-admin'' ''new-worker'' ''now'' = Inr fs" using small_restore by blast
  from backup_restore_round_trip [OF this] show ?thesis
    by (auto simp: small_files_def SETTINGS_PATH_def MARKER_PATH_def INDEX_PATH_def)
qed

theorem restored_installation_is_rekeyed_witness:
  "\<exists>dir fs. restore_backup small_host dir ''new-admin'' ''new-worker'' ''now'' = Inr fs
     \<and> map_of fs ''secrets/admin.token'' = Some (''new-admin'' @ [CHR 0x0A])"
proof -
  obtain dir out fs where "restore_backup small_host dir ''new-admin'' ''new-worker'' ''now'' = Inr fs"
    using small_restore by blast
  with restored_installation_is_rekeyed [OF this] show ?thesis by blast
qed

end
