(* ===== verification/Worker_Client.thy ===== *)
theory Worker_Client
  imports Http_Api
begin

section \<open>control_plane/worker_client.py and demo.py: the demonstration worker\<close>

text \<open>
  \<open>LocalClient\<close> (the only way a worker reaches the backend), \<open>validate_request\<close>, the simulated
  executor \<open>FakeWorker\<close> and one run of \<open>WorkerRunner\<close>. The transport below \<open>http.client\<close> is an
  environment that answers the requests it is given: \<open>peer\<close> records the requests and holds the answers to
  come (\<open>None\<close> where the connection fails). \<open>datetime.fromisoformat\<close> with a known offset is the
  parameter \<open>aware\<close>, the text of a value in an f-string that is not a string the parameter \<open>shown\<close>.
\<close>

record wire_request =
  wq_verb :: string
  wq_path :: string
  wq_body :: "string option"
  wq_headers :: "(string \<times> string) list"

record peer =
  pr_sent :: "wire_request list"
  pr_replies :: "nat \<Rightarrow> wire_response option"

record client =
  cl_port :: nat
  cl_credential :: string

definition make_client :: "(string \<Rightarrow> bool) \<Rightarrow> string \<Rightarrow> string \<Rightarrow> client res" where
  "make_client ip_literal base_url credential =
     (case urlsplit ip_literal base_url of
        Inl _ \<Rightarrow> Inl (Problem ''worker_loopback_only'' 400)
      | Inr u \<Rightarrow>
          if u_scheme u = ''http'' \<and> url_hostname u = Some ''127.0.0.1''
          then (case url_port u of
                  Inl _ \<Rightarrow> Inl (Problem ''worker_loopback_only'' 400)
                | Inr None \<Rightarrow> Inl (Problem ''worker_loopback_only'' 400)
                | Inr (Some port) \<Rightarrow>
                    rbind (ensure (\<not> has_user u \<and> u_path u \<in> {[], ''/''} \<and> u_query u = [] \<and> u_fragment u = [])
                       ''worker_loopback_only'' 400) (\<lambda>_.
                    Inr \<lparr>cl_port = port, cl_credential = credential\<rparr>))
          else Inl (Problem ''worker_loopback_only'' 400))"

definition attempt_id :: "string \<Rightarrow> bool" where
  "attempt_id i = (starts_with ''a_'' i \<and> is_identifier i)"

definition client_route :: "string \<Rightarrow> bool" where
  "client_route path =
     (path = CLAIM_PATH
      \<or> (\<exists>i\<in>set_option (between ''/api/v1/execution/'' ''/state'' path). attempt_id i)
      \<or> (\<exists>i\<in>set_option (between ''/api/v1/execution/'' ''/finish'' path). attempt_id i))"

definition exchange :: "wire_request \<Rightarrow> peer \<Rightarrow> wire_response option \<times> peer" where
  "exchange r s = (pr_replies s (length (pr_sent s)), s\<lparr>pr_sent := pr_sent s @ [r]\<rparr>)"

definition response_length :: "wire_response \<Rightarrow> nat option" where
  "response_length r =
     (case header_values (wr_headers r) ''Content-Length'' of
        [n] \<Rightarrow> if list_all is_digit n \<and> 1 \<le> length n \<and> length n \<le> 6 \<and> nat_of_digits n \<le> 131072
               \<and> header_values (wr_headers r) ''Transfer-Encoding'' = [] \<and> header_values (wr_headers r) ''Content-Encoding'' = []
               \<and> header_values (wr_headers r) ''Content-Type'' = [''application/json; charset=utf-8'']
               then Some (nat_of_digits n) else None
      | _ \<Rightarrow> None)"

definition read_response :: "(string \<Rightarrow> val option) \<Rightarrow> wire_response \<Rightarrow> dict res" where
  "read_response loads r =
     rbind (ensure (wr_status r = 200) ''worker_request_refused'' 409) (\<lambda>_.
     rbind (expect (response_length r) ''invalid_worker_response'' 400) (\<lambda>n.
     let raw = take (min 131073 n) (wr_body r) in
     rbind (ensure (length raw = n) ''invalid_worker_response'' 400) (\<lambda>_.
     rbind (decode_body loads raw) (\<lambda>data.
     expect (as_dict data) ''invalid_worker_response'' 400))))"

definition call :: "(rat \<Rightarrow> string) \<Rightarrow> (string \<Rightarrow> val option) \<Rightarrow> client \<Rightarrow> string \<Rightarrow> string \<Rightarrow> val option \<Rightarrow> (peer, dict) act" where
  "call fr loads c verb path data =
     abind (require ((verb = ''GET'' \<or> verb = ''POST'') \<and> client_route path) ''invalid_worker_route'' 400) (\<lambda>_.
     abind (lift (case data of None \<Rightarrow> Inr None | Some v \<Rightarrow> rbind (canon fr v) (\<lambda>s. Inr (Some (utf8 s))))) (\<lambda>raw s.
     (case exchange \<lparr>wq_verb = verb, wq_path = path, wq_body = raw,
             wq_headers = [(''Authorization'', ''Bearer '' @ cl_credential c), (''Content-Type'', ''application/json'')]\<rparr> s of
        (None, s') \<Rightarrow> (Inl (Problem ''backend_unavailable'' 503), s')
      | (Some r, s') \<Rightarrow> (read_response loads r, s'))))"

subsection \<open>The request contract\<close>

definition request_keys :: "string list" where
  "request_keys = [''schema'', ''attempt_id'', ''generation'', ''task'', ''mission'', ''authorized_files'', ''started_at'',
     ''deadline'', ''expected_version'']"

definition task_keys :: "string list" where
  "task_keys = [''schema'', ''id'', ''mission_id'', ''role'', ''capability'', ''worker_id'', ''state'', ''simulated'']"

definition valid_deadline :: "val \<Rightarrow> bool" where
  "valid_deadline v = (case strict_number v of Some x \<Rightarrow> flt_less (Fin 0) x \<and> flt_le x (Fin 253402300799) | None \<Rightarrow> False)"

definition valid_task :: "dict \<Rightarrow> dict \<Rightarrow> dict \<Rightarrow> dict \<Rightarrow> bool" where
  "valid_task request task mission spec =
     (get_or_none request ''schema'' = schema_of ''execution-request'' \<and> get_or_none task ''schema'' = schema_of ''task''
      \<and> get_or_none task ''role'' = get_or_none spec ''role'' \<and> get_or_none task ''state'' = VStr ''running''
      \<and> get_or_none task ''simulated'' = get_or_none spec ''simulated''
      \<and> get_or_none task ''mission_id'' = get_or_none mission ''id''
      \<and> (\<exists>w\<in>set_option (as_str (get_or_none task ''worker_id'')). worker_name w))"

definition validate_request :: "(string \<Rightarrow> bool) \<Rightarrow> string list \<Rightarrow> val \<Rightarrow> unit res" where
  "validate_request aware capabilities v =
     rbind (dict_fields v request_keys []) (\<lambda>request.
     rbind (dict_fields (get_or_none request ''task'') task_keys []) (\<lambda>task.
     rbind (dict_fields (get_or_none request ''mission'') [''id'', ''title'', ''objective''] []) (\<lambda>mission.
     rbind (identifier_value (get_or_none request ''attempt_id'')) (\<lambda>_.
     rbind (identifier_value (get_or_none request ''generation'')) (\<lambda>_.
     rbind (identifier_value (get_or_none task ''id'')) (\<lambda>_.
     rbind (identifier_value (get_or_none mission ''id'')) (\<lambda>_.
     rbind (text_value (get_or_none mission ''title'') 160) (\<lambda>_.
     rbind (text_value (get_or_none mission ''objective'') 4000) (\<lambda>_.
     rbind (expect (as_str (get_or_none task ''capability'')) ''invalid_worker_response'' 400) (\<lambda>capability.
     rbind (ensure (capability \<in> set capabilities) ''invalid_worker_response'' 400) (\<lambda>_.
     rbind (expect (SPECS capability) ''invalid_worker_response'' 400) (\<lambda>spec.
     rbind (ensure (valid_task request task mission spec) ''invalid_worker_response'' 400) (\<lambda>_.
     rbind (expect (as_list (get_or_none request ''authorized_files'')) ''invalid_worker_response'' 400) (\<lambda>refs.
     rbind (ensure (length refs \<le> 32) ''invalid_worker_response'' 400) (\<lambda>_.
     rbind (each identifier_value refs) (\<lambda>_.
     rbind (if get_or_none request ''expected_version'' = VNull then Inr []
            else identifier_value (get_or_none request ''expected_version'')) (\<lambda>_.
     rbind (ensure (valid_deadline (get_or_none request ''deadline'')) ''invalid_worker_response'' 400) (\<lambda>_.
     rbind (expect (as_str (get_or_none request ''started_at'')) ''invalid_worker_response'' 400) (\<lambda>started.
     ensure (length started \<le> 64 \<and> aware started) ''invalid_worker_response'' 400)))))))))))))))))))"


subsection \<open>The simulated executor\<close>

text \<open>
  The report is built as UTF-8 bytes; the dash of the French text lies outside Latin-1 and is written as
  its three bytes. Attempt and generation are text in every request \<open>validate_request\<close> accepts.
\<close>

definition show_value :: "(val \<Rightarrow> string) \<Rightarrow> val \<Rightarrow> string" where
  "show_value shown v = (case v of VStr s \<Rightarrow> s | _ \<Rightarrow> shown v)"

definition NL :: string where "NL = [CHR 0x0A]"

definition report :: "(val \<Rightarrow> string) \<Rightarrow> string \<Rightarrow> string \<Rightarrow> val \<Rightarrow> val \<Rightarrow> val \<Rightarrow> val \<Rightarrow> val \<Rightarrow> string" where
  "report shown title objective mission attempt started task rl =
     utf8 (''# '' @ title @ NL @ NL @ ''SIMULATION '') @ [CHR 0xE2, CHR 0x80, CHR 0x94] @
     utf8 ('' aucun agent IA ni aucune inf'' @ [CHR 0xE9] @ ''rence.'' @ NL @ NL
       @ ''Mission : '' @ show_value shown mission @ NL @ ''Tentative : '' @ show_value shown attempt @ NL
       @ ''Date d'' @ [CHR 0x27] @ ''ex'' @ [CHR 0xE9] @ ''cution : '' @ show_value shown started @ NL
       @ ''T'' @ [CHR 0xE2] @ ''che : '' @ show_value shown task @ NL
       @ ''R'' @ [CHR 0xF4] @ ''le : '' @ show_value shown rl @ NL @ NL
       @ ''R'' @ [CHR 0xE9] @ ''sum'' @ [CHR 0xE9] @ '' d'' @ [CHR 0xE9] @ ''terministe de la t'' @ [CHR 0xE2] @ ''che re'' @ [CHR 0xE7] @ ''ue :'' @ NL
       @ objective @ NL)"

definition output_file :: "(string \<Rightarrow> string) \<Rightarrow> string \<Rightarrow> val \<Rightarrow> val" where
  "output_file sha content expected =
     VDict [(''name'', VStr ''resultat.md''), (''content_base64'', VStr (b64encode content)),
            (''size'', VInt (int (length content))), (''sha256'', VStr (sha content)), (''expected_version'', expected)]"

definition mode_result :: "string \<Rightarrow> (lifecycle \<times> string option) option" where
  "mode_result mode =
     (if mode = ''fail'' then Some (Failed, Some ''simulated_failure'')
      else if mode = ''interrupt'' then Some (Interrupted, Some ''simulated_interruption'')
      else if mode = ''cancel'' then Some (Cancelled, None) else None)"

definition sub_dict :: "dict \<Rightarrow> string \<Rightarrow> dict res" where
  "sub_dict d k = rbind (item d k) (\<lambda>v. present (as_dict v) ''TypeError'')"

definition text_item :: "dict \<Rightarrow> string \<Rightarrow> string res" where
  "text_item d k = rbind (item d k) (\<lambda>v. present (as_str v) ''TypeError'')"

definition fake_execute :: "(string \<Rightarrow> string) \<Rightarrow> (val \<Rightarrow> string) \<Rightarrow> val \<Rightarrow> string \<Rightarrow> execution_result res" where
  "fake_execute sha shown v mode =
     rbind (dict_fields v request_keys []) (\<lambda>request.
     rbind (ensure (get_or_none request ''schema'' = schema_of ''execution-request'') ''unsupported_execution_contract'' 400) (\<lambda>_.
     rbind (sub_dict request ''task'') (\<lambda>task.
     rbind (item task ''capability'') (\<lambda>capability.
     rbind (ensure (capability = VStr DEMO) ''unsupported_execution_contract'' 400) (\<lambda>_.
     rbind (text_item request ''attempt_id'') (\<lambda>attempt.
     rbind (text_item request ''generation'') (\<lambda>generation.
     case mode_result mode of
       Some (state, error) \<Rightarrow> Inr \<lparr>r_attempt = attempt, r_generation = generation, r_status = state, r_outputs = [], r_error = error\<rparr>
     | None \<Rightarrow>
         rbind (ensure (mode = ''success'') ''unsupported_demo_mode'' 400) (\<lambda>_.
         rbind (sub_dict request ''mission'') (\<lambda>mission.
         rbind (rbind (item mission ''title'') (\<lambda>t. text_value t 160)) (\<lambda>title.
         rbind (rbind (item mission ''objective'') (\<lambda>t. text_value t 4000)) (\<lambda>objective.
         rbind (item mission ''id'') (\<lambda>mid.
         rbind (item task ''id'') (\<lambda>tid.
         rbind (item task ''role'') (\<lambda>rl.
         let content = report shown title objective mid (VStr attempt) (get_or_none request ''started_at'') tid rl in
         Inr \<lparr>r_attempt = attempt, r_generation = generation, r_status = Completed,
              r_outputs = [output_file sha content (get_or_none request ''expected_version'')], r_error = None\<rparr>))))))))))))))"

subsection \<open>One run of the worker\<close>

definition STATE_NAMES :: "string list" where
  "STATE_NAMES = [''running'', ''cancel_requested'', ''completed'', ''failed'', ''interrupted'', ''cancelled'']"

definition same_deadline :: "val \<Rightarrow> val \<Rightarrow> bool" where
  "same_deadline x y = (case (strict_number x, strict_number y) of (Some a, Some b) \<Rightarrow> flt_eq a b | _ \<Rightarrow> False)"

definition attempt_path :: "string \<Rightarrow> string \<Rightarrow> string" where
  "attempt_path attempt tail = ''/api/v1/execution/'' @ attempt @ tail"

definition check_reply :: "dict \<Rightarrow> dict \<Rightarrow> string res" where
  \<comment> \<open>the state of the attempt a state reply reports\<close>
  "check_reply request reply0 =
     rbind (dict_fields (VDict reply0) [''schema'', ''state'', ''deadline''] []) (\<lambda>reply.
     rbind (expect (as_str (get_or_none reply ''state'')) ''invalid_worker_response'' 400) (\<lambda>state.
     rbind (ensure (get_or_none reply ''schema'' = schema_of ''attempt-state'' \<and> state \<in> set STATE_NAMES
                    \<and> same_deadline (get_or_none reply ''deadline'') (get_or_none request ''deadline''))
       ''invalid_worker_response'' 400) (\<lambda>_. Inr state)))"

definition check_acknowledgement :: "dict \<Rightarrow> dict \<Rightarrow> unit res" where
  "check_acknowledgement mission ack0 =
     rbind (dict_fields (VDict ack0) [''accepted'', ''duplicate'', ''mission_id''] []) (\<lambda>ack.
     ensure (get_or_none ack ''accepted'' = VBool True \<and> as_bool (get_or_none ack ''duplicate'') \<noteq> None
             \<and> get_or_none ack ''mission_id'' = get_or_none mission ''id'') ''invalid_worker_response'' 400)"

definition live_state :: "string \<Rightarrow> bool" where
  "live_state s = (s = ''running'' \<or> s = ''cancel_requested'')"

definition run_request :: "(string \<Rightarrow> string \<Rightarrow> val option \<Rightarrow> (peer, dict) act) \<Rightarrow> (val \<Rightarrow> string \<Rightarrow> execution_result res)
    \<Rightarrow> string \<Rightarrow> dict \<Rightarrow> (peer, string) act" where
  "run_request send exec mode request =
     abind (lift (text_item request ''attempt_id'')) (\<lambda>attempt.
     abind (send ''GET'' (attempt_path attempt ''/state'') None) (\<lambda>reply.
     abind (lift (check_reply request reply)) (\<lambda>state.
     if \<not> live_state state then ret state
     else abind (lift (exec (VDict request) (if state = ''cancel_requested'' then ''cancel'' else mode))) (\<lambda>result.
          abind (send ''POST'' (attempt_path attempt ''/finish'') (Some (result_to_dict result))) (\<lambda>ack.
          abind (lift (sub_dict request ''mission'')) (\<lambda>mission.
          abind (lift (check_acknowledgement mission ack)) (\<lambda>_.
          ret (state_name (r_status result)))))))))"

definition run_once :: "(string \<Rightarrow> bool) \<Rightarrow> (string \<Rightarrow> string \<Rightarrow> val option \<Rightarrow> (peer, dict) act)
    \<Rightarrow> (val \<Rightarrow> string \<Rightarrow> execution_result res) \<Rightarrow> string \<Rightarrow> string \<Rightarrow> (peer, string) act" where
  \<comment> \<open>without the \<open>before_execute\<close> hook of the tests; the operation id is the fresh \<open>uuid4\<close>\<close>
  "run_once aware send exec uuid mode =
     abind (send ''POST'' CLAIM_PATH (Some (VDict [(''operation_id'', VStr uuid)]))) (\<lambda>response0.
     abind (lift (dict_fields (VDict response0) [''request''] [])) (\<lambda>response.
     if get_or_none response ''request'' = VNull then ret ''idle''
     else abind (lift (validate_request aware [DEMO] (get_or_none response ''request''))) (\<lambda>_.
          if mode = ''hold'' then ret ''held''
          else abind (lift (sub_dict response ''request'')) (\<lambda>request. run_request send exec mode request))))"

end
