(* ===== verification/Worker_Policy.thy ===== *)
theory Worker_Policy
  imports Worker_Client
begin

section \<open>pepeuch_worker/contracts.py and executor.py: policy and bounded computation\<close>

text \<open>
  The configuration contract of the independent worker, its display properties, and \<open>CPUTextDigest\<close>: the
  digest of the mission's objective in blocks of 512 bytes, with the stop flag and both clocks read
  before every block. \<open>hashlib\<close> is the parameter \<open>sha\<close>; the readings of the stop flag, the wall clock and
  the monotonic clock are sequences (\<open>probe\<close>).
\<close>

definition integer :: "val \<Rightarrow> int \<Rightarrow> int \<Rightarrow> int res" where
  "integer v low high =
     rbind (expect (as_int v) ''invalid_worker_policy'' 400) (\<lambda>i.
     rbind (ensure (low \<le> i \<and> i \<le> high) ''invalid_worker_policy'' 400) (\<lambda>_. Inr i))"

definition CONFIG_SCHEMA :: string where "CONFIG_SCHEMA = ''pepeuch.worker/config/v1''"
definition EVIDENCE_SCHEMA :: string where "EVIDENCE_SCHEMA = ''pepeuch.worker/security-evidence/v1''"
definition CPU_PROFILE :: string where "CPU_PROFILE = ''linux-systemd-cpu/v1''"

definition config_keys :: "string list" where
  "config_keys = [''schema'', ''worker_id'', ''backend_url'', ''capabilities'', ''tools'', ''limits'', ''os_profile'']"

definition limit_keys :: "string list" where
  "limit_keys = [''input_bytes'', ''output_bytes'', ''seconds'', ''tasks'']"

definition identity_number :: "string \<Rightarrow> bool" where
  "identity_number i = (starts_with ''n_'' i \<and> is_identifier i)"

definition backend_url :: "val \<Rightarrow> unit res" where
  \<comment> \<open>once the pattern holds, \<open>urlsplit\<close> can only refuse the port\<close>
  "backend_url v =
     rbind (expect (as_str v) ''worker_loopback_only'' 400) (\<lambda>s.
     rbind (expect (between ''http://127.0.0.1:'' [] s) ''worker_loopback_only'' 400) (\<lambda>port.
     ensure (list_all is_digit port \<and> 1 \<le> length port \<and> length port \<le> 5
             \<and> 0 < nat_of_digits port \<and> int (nat_of_digits port) \<le> 65535) ''worker_loopback_only'' 400))"

definition check_limits :: "val \<Rightarrow> dict res" where
  "check_limits v =
     rbind (dict_fields v limit_keys []) (\<lambda>d.
     rbind (integer (get_or_none d ''input_bytes'') 1 16000) (\<lambda>_.
     rbind (integer (get_or_none d ''output_bytes'') 1 65536) (\<lambda>_.
     rbind (integer (get_or_none d ''seconds'') 1 30) (\<lambda>_.
     rbind (integer (get_or_none d ''tasks'') 1 1) (\<lambda>_. Inr d)))))"

definition check_profile :: "val \<Rightarrow> dict res" where
  "check_profile v =
     rbind (dict_fields v [''schema'', ''expected_uid'', ''expected_gid'', ''backend_uid''] []) (\<lambda>d.
     rbind (ensure (get_or_none d ''schema'' = VStr CPU_PROFILE) ''unsupported_os_profile'' 400) (\<lambda>_.
     rbind (each (\<lambda>k. integer (get_or_none d k) 0 2147483647) [''expected_uid'', ''expected_gid'', ''backend_uid'']) (\<lambda>_.
     Inr d)))"

definition configuration :: "val \<Rightarrow> dict res" where
  "configuration v =
     rbind (dict_fields v config_keys []) (\<lambda>d.
     rbind (ensure (get_or_none d ''schema'' = VStr CONFIG_SCHEMA
                    \<and> (\<exists>i\<in>set_option (as_str (get_or_none d ''worker_id'')). identity_number i))
       ''invalid_worker_configuration'' 400) (\<lambda>_.
     rbind (backend_url (get_or_none d ''backend_url'')) (\<lambda>_.
     rbind (ensure (get_or_none d ''capabilities'' = VList [VStr CPU_DIGEST] \<and> get_or_none d ''tools'' = VList [])
       ''unsupported_worker_capabilities'' 400) (\<lambda>_.
     rbind (check_limits (get_or_none d ''limits'')) (\<lambda>_.
     rbind (check_profile (get_or_none d ''os_profile'')) (\<lambda>_.
     Inr d))))))"

record security_property =
  sp_declared :: val
  sp_enforced :: val
  sp_verified :: val
  sp_evidence :: string

definition make_property :: "val \<Rightarrow> val \<Rightarrow> val \<Rightarrow> string \<Rightarrow> security_property res" where
  "make_property declared enforced verified evidence =
     rbind (ensure ((enforced = VNull \<or> as_bool enforced \<noteq> None) \<and> as_bool verified \<noteq> None) ''invalid_security_evidence'' 400) (\<lambda>_.
     rbind (ensure (verified = VBool True \<longrightarrow> enforced = VBool True) ''verification_requires_enforcement'' 400) (\<lambda>_.
     Inr \<lparr>sp_declared = declared, sp_enforced = enforced, sp_verified = verified, sp_evidence = evidence\<rparr>))"

definition property_dict :: "security_property \<Rightarrow> val" where
  "property_dict p = VDict [(''declared'', sp_declared p), (''enforced'', sp_enforced p), (''verified'', sp_verified p),
     (''evidence'', VStr (sp_evidence p))]"

definition require_verified :: "val \<Rightarrow> unit res" where
  "require_verified properties = Inl (Problem ''os_isolation_not_verified'' 503)"

subsection \<open>The executor\<close>

record probe =
  pb_stop :: "nat \<Rightarrow> bool"
  pb_wall :: "nat \<Rightarrow> rat"
  pb_monotonic :: "nat \<Rightarrow> rat"
  pb_ticks :: nat

record digest_task =
  dt_attempt :: string
  dt_generation :: string
  dt_deadline :: flt
  dt_started :: rat
  dt_seconds :: int

definition interrupted :: "digest_task \<Rightarrow> probe \<Rightarrow> string option \<times> probe" where
  \<comment> \<open>the error of an interruption, \<open>None\<close> to go on; one reading of each source per call\<close>
  "interrupted t s =
     (let n = pb_ticks s
      in (if pb_stop s n then Some ''cpu_interrupted''
          else if flt_le (dt_deadline t) (Fin (pb_wall s n)) \<or> of_int (dt_seconds t) \<le> pb_monotonic s n - dt_started t
          then Some ''cpu_deadline_exceeded'' else None, s\<lparr>pb_ticks := Suc n\<rparr>))"

fun digest_blocks :: "digest_task \<Rightarrow> nat \<Rightarrow> probe \<Rightarrow> string option \<times> probe" where
  \<comment> \<open>the loop over the blocks still to hash\<close>
  "digest_blocks t 0 s = (None, s)"
| "digest_blocks t (Suc n) s =
     (case interrupted t s of (Some e, s1) \<Rightarrow> (Some e, s1) | (None, s1) \<Rightarrow> digest_blocks t n s1)"

definition blocks_of :: "nat \<Rightarrow> nat" where "blocks_of n = (n + 511) div 512"

definition digest_document :: "string \<Rightarrow> string \<Rightarrow> string \<Rightarrow> string \<Rightarrow> val" where
  "digest_document mission attempt raw checksum =
     VDict [(''schema'', VStr ''pepeuch.worker/cpu-text-digest/v1''), (''capability'', VStr CPU_DIGEST),
            (''mission_id'', VStr mission), (''attempt_id'', VStr attempt), (''input_bytes'', VInt (int (length raw))),
            (''input_sha256'', VStr checksum), (''encoding'', VStr ''UTF-8''), (''ai_inference'', VBool False)]"

definition digest_content :: "string \<Rightarrow> string" where
  "digest_content document =
     utf8 (''# Calcul CPU d'' @ [CHR 0xE9] @ ''terministe'' @ NL @ NL @ ''Aucune inf'' @ [CHR 0xE9] @ ''rence IA.'' @ NL @ NL
       @ ''```json'' @ NL @ document @ NL @ ''```'' @ NL)"

definition stopped :: "digest_task \<Rightarrow> string \<Rightarrow> execution_result" where
  "stopped t error = \<lparr>r_attempt = dt_attempt t, r_generation = dt_generation t, r_status = Interrupted, r_outputs = [],
     r_error = Some error\<rparr>"

definition integer_limit :: "dict \<Rightarrow> string \<Rightarrow> int res" where
  "integer_limit limits k = rbind (item limits k) (\<lambda>v. present (as_int v) ''TypeError'')"

definition digest_run :: "(string \<Rightarrow> string) \<Rightarrow> (rat \<Rightarrow> string) \<Rightarrow> dict \<Rightarrow> dict \<Rightarrow> string \<Rightarrow> string \<Rightarrow> digest_task
    \<Rightarrow> (probe, execution_result) act" where
  "digest_run sha fr limits request mission raw t s0 =
     (case digest_blocks t (blocks_of (length raw)) s0 of
        (Some e, s1) \<Rightarrow> (Inr (stopped t e), s1)
      | (None, s1) \<Rightarrow>
          (case rbind (canon fr (digest_document mission (dt_attempt t) raw (sha raw))) (\<lambda>document.
                rbind (integer_limit limits ''output_bytes'') (\<lambda>limit.
                rbind (ensure (int (length (digest_content document)) \<le> limit) ''cpu_output_limit'' 400) (\<lambda>_.
                Inr (digest_content document)))) of
             Inl e \<Rightarrow> (Inl e, s1)
           | Inr content \<Rightarrow>
               (case interrupted t s1 of
                  (Some e, s2) \<Rightarrow> (Inr (stopped t e), s2)
                | (None, s2) \<Rightarrow>
                    (Inr \<lparr>r_attempt = dt_attempt t, r_generation = dt_generation t, r_status = Completed,
                         r_outputs = [output_file sha content (get_or_none request ''expected_version'')], r_error = None\<rparr>, s2))))"


definition cancelled_result :: "string \<Rightarrow> string \<Rightarrow> execution_result" where
  "cancelled_result attempt generation =
     \<lparr>r_attempt = attempt, r_generation = generation, r_status = Cancelled, r_outputs = [], r_error = None\<rparr>"

definition read_monotonic :: "(probe, rat) act" where
  "read_monotonic s = (Inr (pb_monotonic s (pb_ticks s)), s\<lparr>pb_ticks := Suc (pb_ticks s)\<rparr>)"

definition cpu_execute :: "(string \<Rightarrow> string) \<Rightarrow> (rat \<Rightarrow> string) \<Rightarrow> (string \<Rightarrow> bool) \<Rightarrow> dict \<Rightarrow> val \<Rightarrow> string
    \<Rightarrow> (probe, execution_result) act" where
  "cpu_execute sha fr aware limits v mode =
     abind (lift (validate_request aware [CPU_DIGEST] v)) (\<lambda>_.
     abind (lift (present (as_dict v) ''TypeError'')) (\<lambda>request.
     abind (require (\<not> truthy (get_or_none request ''authorized_files'')) ''unsupported_cpu_inputs'' 400) (\<lambda>_.
     abind (require (mode = ''success'' \<or> mode = ''cancel'') ''unsupported_cpu_mode'' 400) (\<lambda>_.
     abind (lift (text_item request ''attempt_id'')) (\<lambda>attempt.
     abind (lift (text_item request ''generation'')) (\<lambda>generation.
     if mode = ''cancel'' then ret (cancelled_result attempt generation)
     else abind (lift (sub_dict request ''mission'')) (\<lambda>mission.
          abind (lift (text_item mission ''objective'')) (\<lambda>objective.
          abind (lift (text_item mission ''id'')) (\<lambda>mid.
          abind (lift (integer_limit limits ''input_bytes'')) (\<lambda>input_limit.
          abind (require (int (length (utf8 objective)) \<le> input_limit) ''cpu_input_limit'' 400) (\<lambda>_.
          abind read_monotonic (\<lambda>started.
          abind (lift (integer_limit limits ''seconds'')) (\<lambda>seconds.
          abind (lift (present (strict_number (get_or_none request ''deadline'')) ''TypeError'')) (\<lambda>deadline.
          digest_run sha fr limits request mid (utf8 objective)
            \<lparr>dt_attempt = attempt, dt_generation = generation, dt_deadline = deadline, dt_started = started, dt_seconds = seconds\<rparr>))))))))))))))"

end
