(* ===== verification/Private_IO.thy ===== *)
theory Private_IO
  imports Urls Contracts
begin

section \<open>pepeuch_worker/private_io.py: files the worker owns\<close>

text \<open>
  A private directory is a table from names to inodes; an inode has the attributes the checks read
  (kind, links, owner, mode) and its bytes. \<open>resolve\<close> walks a path from the root without following
  links. \<open>save\<close> writes the journal to a temporary file and renames it; each of its system calls may fail (\<open>faults\<close>):
  a write that fails leaves a part of the bytes, and what fails in the \<open>finally\<close> replaces the error it was handling.
  Only this process changes the directory, so the inode it created is the one its name has. \<open>EACCES\<close> is not modelled,
  reading is one step, and the exclusive lock is a flag of the directory.
\<close>

datatype kind = Regular | Folder | Link

record inode =
  i_kind :: kind
  i_links :: nat
  i_owner :: int
  i_mode :: nat
  i_data :: string

text \<open>What the system calls of one creation do: \<open>ft_cut\<close> is the number of bytes after which writing fails.\<close>

record faults =
  ft_open :: bool
  ft_cut :: "nat option"
  ft_sync :: bool
  ft_replace :: bool
  ft_sync_directory :: bool
  ft_unlink :: bool

definition no_faults :: faults where
  "no_faults = \<lparr>ft_open = True, ft_cut = None, ft_sync = True, ft_replace = True, ft_sync_directory = True, ft_unlink = True\<rparr>"

record folder =
  fd_owner :: int
  fd_mode :: nat
  fd_entries :: "(string \<times> inode) list"
  fd_locked :: bool
  fd_names :: "nat \<Rightarrow> string"
  fd_faults :: "nat \<Rightarrow> faults"
  fd_draws :: nat

type_synonym 'a io = "(folder, 'a) act"

definition JOURNAL_MAX :: int where "JOURNAL_MAX = 262144"

definition permission_bits :: "nat \<Rightarrow> nat list \<Rightarrow> bool" where "permission_bits m ms = (m \<in> set ms)"

subsection \<open>Paths\<close>

definition path_parts :: "string \<Rightarrow> string list" where
  \<comment> \<open>\<open>Path(s).parts[1:]\<close> of an absolute path: empty parts and dots vanish\<close>
  "path_parts s = filter (\<lambda>p. p \<noteq> [] \<and> p \<noteq> ''.'') (split_on (CHR ''/'') s)"

definition absolute :: "string \<Rightarrow> string list res" where
  "absolute s =
     (if starts_with ''/'' s \<and> ''..'' \<notin> set (path_parts s) then Inr (path_parts s) else bad ''unsafe_worker_path'')"

text \<open>The tree of directories \<open>openat\<close> walks: \<open>O_NOFOLLOW | O_DIRECTORY\<close> refuses links and files.\<close>

datatype tree = Leaf kind | Dir int nat "(string \<times> tree) list"

fun resolve :: "tree \<Rightarrow> string list \<Rightarrow> tree res" where
  "resolve (Leaf k) ps = Inl (Problem ''unsafe_worker_path'' 400)"
| "resolve (Dir owner mode es) [] = Inr (Dir owner mode es)"
| "resolve (Dir owner mode es) (p # ps) =
     (case map_of es p of
        None \<Rightarrow> Inl (Raised ''FileNotFoundError'')
      | Some t \<Rightarrow> resolve t ps)"

definition opened_directory :: "int \<Rightarrow> tree \<Rightarrow> string \<Rightarrow> bool \<Rightarrow> tree res" where
  "opened_directory uid disk path private =
     rbind (absolute path) (\<lambda>parts.
     rbind (resolve disk parts) (\<lambda>t.
     case t of
       Leaf k \<Rightarrow> bad ''unsafe_worker_path''
     | Dir owner mode es \<Rightarrow>
         (if private \<and> (owner \<noteq> uid \<or> mode \<noteq> 448) then bad ''worker_directory_not_private'' else Inr t)))"

subsection \<open>Files of an open directory\<close>

definition validated_file :: "int \<Rightarrow> inode \<Rightarrow> int \<Rightarrow> bool \<Rightarrow> unit res" where
  \<comment> \<open>0o400 and 0o600 are 256 and 384\<close>
  "validated_file uid i maximum private =
     (if i_kind i \<noteq> Regular \<or> i_links i \<noteq> 1 \<or> maximum < int (length (i_data i))
         \<or> private \<and> (i_owner i \<noteq> uid \<or> \<not> permission_bits (i_mode i) [256, 384])
      then bad (if private then ''worker_file_not_private'' else ''invalid_worker_configuration_file'')
      else Inr ())"

definition read_entry :: "int \<Rightarrow> (string \<times> inode) list \<Rightarrow> string \<Rightarrow> int \<Rightarrow> bool \<Rightarrow> string res" where
  "read_entry uid es name maximum private =
     (case map_of es name of
        None \<Rightarrow> Inl (Raised ''FileNotFoundError'')
      | Some i \<Rightarrow>
          if i_kind i = Link then bad ''unsafe_worker_path''
          else rbind (validated_file uid i maximum private) (\<lambda>_.
               rbind (ensure (int (length (i_data i)) \<le> maximum) ''worker_file_too_large'' 400) (\<lambda>_.
               Inr (i_data i))))"

definition new_inode :: "int \<Rightarrow> string \<Rightarrow> inode" where
  "new_inode uid raw = \<lparr>i_kind = Regular, i_links = 1, i_owner = uid, i_mode = 384, i_data = raw\<rparr>"

definition os_error :: err where "os_error = Raised ''OSError''"

definition create_entry :: "faults \<Rightarrow> int \<Rightarrow> string \<Rightarrow> string \<Rightarrow> unit io" where
  \<comment> \<open>\<open>_create_at\<close>: \<open>O_EXCL\<close>, then write, flush and sync; the file stays if one of them fails\<close>
  "create_entry f uid name raw s =
     (if map_of (fd_entries s) name \<noteq> None then (Inl (Raised ''FileExistsError''), s)
      else if \<not> ft_open f then (Inl os_error, s)
      else case ft_cut f of
        Some n \<Rightarrow> (Inl os_error, s\<lparr>fd_entries := fd_entries s @ [(name, new_inode uid (take n raw))]\<rparr>)
      | None \<Rightarrow> (if ft_sync f then Inr () else Inl os_error, s\<lparr>fd_entries := fd_entries s @ [(name, new_inode uid raw)]\<rparr>))"

definition rename_entry :: "faults \<Rightarrow> string \<Rightarrow> string \<Rightarrow> unit io" where
  \<comment> \<open>\<open>os.replace\<close>: the target name gets the inode of the source name, whose entry disappears\<close>
  "rename_entry f source target s =
     (if \<not> ft_replace f then (Inl os_error, s)
      else case map_of (fd_entries s) source of
        None \<Rightarrow> (Inl (Raised ''FileNotFoundError''), s)
      | Some i \<Rightarrow>
          (Inr (), s\<lparr>fd_entries := (target, i) # filter (\<lambda>e. fst e \<noteq> source \<and> fst e \<noteq> target) (fd_entries s)\<rparr>))"

definition sync_directory :: "faults \<Rightarrow> unit io" where
  "sync_directory f = lift (if ft_sync_directory f then Inr () else Inl os_error)"

definition remove_created :: "faults \<Rightarrow> string \<Rightarrow> unit io" where
  \<comment> \<open>the \<open>finally\<close>: a name that is gone is fine\<close>
  "remove_created f name s =
     (if map_of (fd_entries s) name = None then (Inr (), s)
      else if ft_unlink f then (Inr (), s\<lparr>fd_entries := filter (\<lambda>e. fst e \<noteq> name) (fd_entries s)\<rparr>)
      else (Inl os_error, s))"

definition lastly :: "'a io \<Rightarrow> unit io \<Rightarrow> 'a io" where
  "lastly m cleanup s = (case m s of (r, s1) \<Rightarrow> (case cleanup s1 of (Inl e, s2) \<Rightarrow> (Inl e, s2) | (Inr _, s2) \<Rightarrow> (r, s2)))"

definition require_private :: "int \<Rightarrow> unit io" where
  "require_private uid s =
     (if fd_owner s \<noteq> uid \<or> fd_mode s \<noteq> 448 then (bad ''worker_directory_not_private'', s) else (Inr (), s))"

definition JOURNAL :: string where "JOURNAL = ''run.json''"

definition journal_bytes :: "folder \<Rightarrow> string option" where
  "journal_bytes s = map_option i_data (map_of (fd_entries s) JOURNAL)"

definition temporary :: "folder \<Rightarrow> string" where "temporary s = ''.journal-'' @ fd_names s (fd_draws s)"

definition temporary_name :: "(string \<times> faults) io" where
  \<comment> \<open>the next random name, and what the system calls of this save will do\<close>
  "temporary_name s = (Inr (temporary s, fd_faults s (fd_draws s)), s\<lparr>fd_draws := Suc (fd_draws s)\<rparr>)"

definition check_journal :: "int \<Rightarrow> unit io" where
  \<comment> \<open>an existing journal must be readable; a missing one is fine\<close>
  "check_journal uid s =
     (case read_entry uid (fd_entries s) JOURNAL JOURNAL_MAX True of
        Inl e \<Rightarrow> if e = Raised ''FileNotFoundError'' then (Inr (), s) else (Inl e, s)
      | Inr _ \<Rightarrow> (Inr (), s))"

definition save :: "int \<Rightarrow> (rat \<Rightarrow> string) \<Rightarrow> val \<Rightarrow> unit io" where
  "save uid fr data =
     abind (lift (canon fr data)) (\<lambda>s0.
     abind (require (int (length (utf8 s0)) \<le> JOURNAL_MAX) ''worker_file_too_large'' 400) (\<lambda>_.
     abind (require_private uid) (\<lambda>_.
     abind (check_journal uid) (\<lambda>_.
     abind temporary_name (\<lambda>(name, f).
     abind (create_entry f uid name (utf8 s0)) (\<lambda>_.
     lastly (abind (rename_entry f name JOURNAL) (\<lambda>_. sync_directory f)) (remove_created f name)))))))"

definition load :: "int \<Rightarrow> (string \<Rightarrow> val option) \<Rightarrow> val option io" where
  "load uid loads =
     abind (require_private uid) (\<lambda>_ s.
     case read_entry uid (fd_entries s) JOURNAL JOURNAL_MAX True of
       Inl e \<Rightarrow> if e = Raised ''FileNotFoundError'' then (Inr None, s) else (Inl e, s)
     | Inr raw \<Rightarrow> (rbind (rbind (expect (loads raw) ''invalid_json'' 400) decode_tree) (\<lambda>v. Inr (Some v)), s))"

definition credential_text :: "string \<Rightarrow> string res" where
  \<comment> \<open>43 URL-safe characters and at most one newline\<close>
  "credential_text raw =
     (let t = (if ends_with [CHR 0x0A] raw then take (length raw - 1) raw else raw)
      in if length t = 43 \<and> list_all (\<lambda>c. is_letter c \<or> is_digit c \<or> c = CHR ''_'' \<or> c = CHR ''-'') t
         then Inr t else bad ''invalid_worker_credential'')"

definition credential :: "int \<Rightarrow> (string \<times> inode) list \<Rightarrow> string \<Rightarrow> string res" where
  "credential uid es name = rbind (read_entry uid es name 128 True) credential_text"

definition LOCK :: string where "LOCK = ''run.lock''"

definition lock_file :: "int \<Rightarrow> unit io" where
  "lock_file uid s =
     (case map_of (fd_entries s) LOCK of None \<Rightarrow> create_entry (fd_faults s (fd_draws s)) uid LOCK [] s | Some _ \<Rightarrow> (Inr (), s))"

definition locked :: "int \<Rightarrow> 'a io \<Rightarrow> 'a io" where
  "locked uid body =
     abind (require_private uid) (\<lambda>_.
     abind (lock_file uid) (\<lambda>_.
     abind (gets (\<lambda>s. read_entry uid (fd_entries s) LOCK 1 True)) (\<lambda>r.
     abind (lift r) (\<lambda>_.
     abind (gets fd_locked) (\<lambda>busy.
     abind (require (\<not> busy) ''worker_already_running'' 409) (\<lambda>_ s.
     (case body (s\<lparr>fd_locked := True\<rparr>) of (r, s') \<Rightarrow> (r, s'\<lparr>fd_locked := False\<rparr>))))))))"

end
