(* ===== verification/Worker_Runner.thy ===== *)
theory Worker_Runner
  imports Worker_Policy Private_IO
begin

section \<open>pepeuch_worker/runner.py: one task, journalled\<close>

text \<open>
  \<open>IndependentRunner.run_once\<close>: every decision is written to the journal before it is acted on, so that a
  restart (\<open>recover\<close>) publishes what was computed or reports an interruption. The environment of a run
  (\<open>run_env\<close>) holds the private folder, the requests sent so far, each with the bytes of the journal that were on disk
  when it was sent, and the answers to come (what
  \<open>LocalClient.call\<close> returns or raises), and the answers of the isolation guard. The executor is an
  action on it that may raise; a \<open>KeyboardInterrupt\<close> is a named exception.
\<close>

record run_env =
  re_folder :: folder
  re_calls :: "((string \<times> string \<times> val option) \<times> string option) list"
  re_replies :: "nat \<Rightarrow> dict res"
  re_guard :: "nat \<Rightarrow> unit res"
  re_checks :: nat

type_synonym 'a run = "(run_env, 'a) act"
type_synonym executor = "val \<Rightarrow> execution_result run"

record runner =
  rn_uid :: int
  rn_worker :: string
  rn_url :: string
  rn_fingerprint :: string
  rn_claim :: string
  rn_frepr :: "rat \<Rightarrow> string"
  rn_loads :: "string \<Rightarrow> val option"
  rn_aware :: "string \<Rightarrow> bool"

definition JOURNAL_SCHEMA :: string where "JOURNAL_SCHEMA = ''pepeuch.worker/run/v1''"

definition on_folder :: "'a io \<Rightarrow> 'a run" where
  "on_folder m s = (case m (re_folder s) of (r, x) \<Rightarrow> (r, s\<lparr>re_folder := x\<rparr>))"

definition call_backend :: "string \<Rightarrow> string \<Rightarrow> val option \<Rightarrow> dict run" where
  "call_backend verb path data s =
     (re_replies s (length (re_calls s)), s\<lparr>re_calls := re_calls s @ [((verb, path, data), journal_bytes (re_folder s))]\<rparr>)"

definition isolation :: "unit run" where
  "isolation s = (re_guard s (re_checks s), s\<lparr>re_checks := Suc (re_checks s)\<rparr>)"

definition save_journal :: "runner \<Rightarrow> dict \<Rightarrow> unit run" where
  "save_journal c journal = on_folder (save (rn_uid c) (rn_frepr c) (VDict journal))"

definition check_request :: "runner \<Rightarrow> val \<Rightarrow> dict res" where
  "check_request c v =
     rbind (validate_request (rn_aware c) [CPU_DIGEST] v) (\<lambda>_.
     rbind (present (as_dict v) ''TypeError'') (\<lambda>request.
     rbind (sub_dict request ''task'') (\<lambda>task.
     rbind (ensure (get_or_none task ''worker_id'' = VStr (rn_worker c) \<and> \<not> truthy (get_or_none request ''authorized_files''))
       ''worker_scope_mismatch'' 400) (\<lambda>_. Inr request))))"

definition attempt_status :: "dict \<Rightarrow> string run" where
  "attempt_status request =
     abind (lift (text_item request ''attempt_id'')) (\<lambda>attempt.
     abind (call_backend ''GET'' (attempt_path attempt ''/state'') None) (\<lambda>reply.
     lift (check_reply request reply)))"

definition journal_keys :: "string list" where
  "journal_keys = [''schema'', ''worker_id'', ''backend_url'', ''credential_sha256'', ''claim_id'', ''request'', ''result'', ''done'']"

definition check_loaded :: "runner \<Rightarrow> val \<Rightarrow> dict res" where
  "check_loaded c v =
     rbind (dict_fields v journal_keys []) (\<lambda>j.
     rbind (ensure (get_or_none j ''schema'' = VStr JOURNAL_SCHEMA \<and> get_or_none j ''worker_id'' = VStr (rn_worker c)
                    \<and> as_bool (get_or_none j ''done'') \<noteq> None) ''worker_journal_identity_mismatch'' 400) (\<lambda>_.
     rbind (operation_id (get_or_none j ''claim_id'')) (\<lambda>_.
     rbind (ensure (get_or_none j ''done'' = VBool True
                    \<or> (get_or_none j ''credential_sha256'' = VStr (rn_fingerprint c) \<and> get_or_none j ''backend_url'' = VStr (rn_url c)))
       ''worker_journal_identity_mismatch'' 400) (\<lambda>_. Inr j))))"

definition new_journal :: "runner \<Rightarrow> dict" where
  "new_journal c =
     [(''schema'', VStr JOURNAL_SCHEMA), (''worker_id'', VStr (rn_worker c)), (''backend_url'', VStr (rn_url c)),
      (''credential_sha256'', VStr (rn_fingerprint c)), (''claim_id'', VStr (rn_claim c)),
      (''request'', VNull), (''result'', VNull), (''done'', VBool False)]"

definition is_pending :: "dict option \<Rightarrow> bool" where
  "is_pending j = (case j of None \<Rightarrow> False | Some d \<Rightarrow> get_or_none d ''done'' \<noteq> VBool True)"

text \<open>The journal of this run, or the answer that ends it at once.\<close>

definition open_journal :: "runner \<Rightarrow> bool \<Rightarrow> (bool \<times> dict option) run" where
  "open_journal c resume =
     abind (on_folder (load (rn_uid c) (rn_loads c))) (\<lambda>loaded.
     abind (lift (case loaded of None \<Rightarrow> Inr None | Some v \<Rightarrow> rbind (check_loaded c v) (\<lambda>j. Inr (Some j)))) (\<lambda>journal.
     abind (require (\<not> (is_pending journal \<and> \<not> resume)) ''explicit_worker_recovery_required'' 409) (\<lambda>_.
     if is_pending journal then ret (True, journal)
     else if resume then ret (False, None)
     else abind (save_journal c (new_journal c)) (\<lambda>_. ret (False, Some (new_journal c))))))"

definition close_journal :: "runner \<Rightarrow> dict \<Rightarrow> string \<Rightarrow> string run" where
  "close_journal c journal outcome = abind (save_journal c (put_key ''done'' (VBool True) journal)) (\<lambda>_. ret outcome)"

definition claim_request :: "runner \<Rightarrow> dict \<Rightarrow> (dict \<times> dict option) run" where
  \<comment> \<open>the journal with its request; no request: the run is idle\<close>
  "claim_request c journal =
     (if get_or_none journal ''request'' = VNull
      then abind (call_backend ''POST'' CLAIM_PATH (Some (VDict [(''operation_id'', get_or_none journal ''claim_id'')]))) (\<lambda>response0.
           abind (lift (dict_fields (VDict response0) [''request''] [])) (\<lambda>response.
           if get_or_none response ''request'' = VNull then ret (journal, None)
           else abind (lift (check_request c (get_or_none response ''request''))) (\<lambda>request.
                let journal' = put_key ''request'' (get_or_none response ''request'') journal in
                abind (save_journal c journal') (\<lambda>_. ret (journal', Some request)))))
      else abind (lift (check_request c (get_or_none journal ''request''))) (\<lambda>request. ret (journal, Some request)))"

definition failed_result :: "string \<Rightarrow> string \<Rightarrow> lifecycle \<Rightarrow> string \<Rightarrow> execution_result" where
  "failed_result attempt generation status error =
     \<lparr>r_attempt = attempt, r_generation = generation, r_status = status, r_outputs = [], r_error = Some error\<rparr>"

definition guarded_execute :: "executor \<Rightarrow> dict \<Rightarrow> string \<Rightarrow> string \<Rightarrow> execution_result run" where
  "guarded_execute exec request attempt generation s =
     (case exec (VDict request) s of
        (Inr r, s') \<Rightarrow> (Inr r, s')
      | (Inl (Problem _ _), s') \<Rightarrow> (Inr (failed_result attempt generation Failed ''cpu_execution_failed''), s')
      | (Inl (Raised e), s') \<Rightarrow>
          if e = ''KeyboardInterrupt'' then (Inr (failed_result attempt generation Interrupted ''cpu_interrupted''), s')
          else (Inl (Raised e), s'))"

definition decide :: "executor \<Rightarrow> bool \<Rightarrow> dict \<Rightarrow> dict \<Rightarrow> string \<Rightarrow> string \<Rightarrow> string \<Rightarrow> execution_result run" where
  "decide exec unfinished journal request attempt generation state =
     (if state = ''cancel_requested'' then ret (cancelled_result attempt generation)
      else if get_or_none journal ''result'' \<noteq> VNull
      then abind (lift (result_from_dict (get_or_none journal ''result''))) (\<lambda>r.
           abind (require (r_attempt r = attempt \<and> r_generation r = generation) ''worker_journal_attempt_mismatch'' 400) (\<lambda>_. ret r))
      else if unfinished then ret (failed_result attempt generation Interrupted ''cpu_interrupted'')
      else abind isolation (\<lambda>_. guarded_execute exec request attempt generation))"

definition publish_outcome :: "runner \<Rightarrow> dict \<Rightarrow> dict \<Rightarrow> string \<Rightarrow> execution_result \<Rightarrow> string run" where
  "publish_outcome c journal request attempt result =
     abind isolation (\<lambda>_.
     abind (call_backend ''POST'' (attempt_path attempt ''/finish'') (Some (result_to_dict result))) (\<lambda>ack.
     abind (lift (sub_dict request ''mission'')) (\<lambda>mission.
     abind (lift (check_acknowledgement mission ack)) (\<lambda>_.
     close_journal c journal (state_name (r_status result))))))"

definition with_result :: "execution_result \<Rightarrow> dict \<Rightarrow> dict" where
  "with_result r journal = put_key ''result'' (result_to_dict r) journal"

text \<open>The result is in the journal: observe cancellation once more, then publish.\<close>

definition settle :: "runner \<Rightarrow> dict \<Rightarrow> dict \<Rightarrow> string \<Rightarrow> string \<Rightarrow> execution_result \<Rightarrow> string run" where
  "settle c journal request attempt generation result =
     abind (attempt_status request) (\<lambda>state.
     if \<not> live_state state then close_journal c journal state
     else if state = ''cancel_requested'' \<and> r_status result \<noteq> Cancelled
     then abind (save_journal c (with_result (cancelled_result attempt generation) journal)) (\<lambda>_.
          publish_outcome c (with_result (cancelled_result attempt generation) journal) request attempt
            (cancelled_result attempt generation))
     else publish_outcome c journal request attempt result)"

definition run_attempt :: "runner \<Rightarrow> executor \<Rightarrow> bool \<Rightarrow> dict \<Rightarrow> dict \<Rightarrow> string run" where
  "run_attempt c exec unfinished journal request =
     abind (lift (check_request c (VDict request))) (\<lambda>_.
     abind (lift (text_item request ''attempt_id'')) (\<lambda>attempt.
     abind (lift (text_item request ''generation'')) (\<lambda>generation.
     abind (attempt_status request) (\<lambda>state.
     if \<not> live_state state then close_journal c journal state
     else abind (decide exec unfinished journal request attempt generation state) (\<lambda>result.
          abind (save_journal c (with_result result journal)) (\<lambda>_.
          settle c (with_result result journal) request attempt generation result))))))"

definition run_body :: "runner \<Rightarrow> executor \<Rightarrow> bool \<Rightarrow> string run" where
  "run_body c exec resume =
     abind isolation (\<lambda>_.
     abind (open_journal c resume) (\<lambda>(unfinished, opened).
     case opened of
       None \<Rightarrow> ret ''nothing_to_recover''
     | Some journal \<Rightarrow>
         abind (claim_request c journal) (\<lambda>(journal', claimed).
         case claimed of
           None \<Rightarrow> close_journal c journal' ''idle''
         | Some request \<Rightarrow> run_attempt c exec unfinished journal' request)))"

definition hold_lock :: "int \<Rightarrow> 'a run \<Rightarrow> 'a run" where
  \<comment> \<open>\<open>with private_io.locked(root)\<close> around an action of the run\<close>
  "hold_lock uid body =
     abind (on_folder (locked uid (ret ()))) (\<lambda>_ s.
     (case body (s\<lparr>re_folder := (re_folder s)\<lparr>fd_locked := True\<rparr>\<rparr>) of
        (r, s') \<Rightarrow> (r, s'\<lparr>re_folder := (re_folder s')\<lparr>fd_locked := False\<rparr>\<rparr>)))"

definition run_independent :: "runner \<Rightarrow> executor \<Rightarrow> bool \<Rightarrow> string run" where
  "run_independent c exec resume = hold_lock (rn_uid c) (run_body c exec resume)"

end
