(* ===== verification/Worker_Guarantees.thy ===== *)
theory Worker_Guarantees
  imports Worker_Runner Publication
begin

section \<open>What the independent worker guarantees\<close>

subsection \<open>The journal on disk\<close>

text \<open>The ways a save can end.\<close>

definition replaced :: "string \<Rightarrow> inode \<Rightarrow> (string \<times> inode) list \<Rightarrow> (string \<times> inode) list" where
  "replaced name i es = (JOURNAL, i) # filter (\<lambda>e. fst e \<noteq> name \<and> fst e \<noteq> JOURNAL) (es @ [(name, i)])"

lemma temporary_not_journal [simp]: "temporary s \<noteq> JOURNAL" "JOURNAL \<noteq> temporary s"
  by (simp_all add: temporary_def JOURNAL_def)

lemma map_of_appended: "n \<noteq> name \<Longrightarrow> map_of (es @ [(name, i)]) n = map_of es n"
  by (simp add: map_add_def split: option.split)

lemma map_of_replaced: "map_of (replaced name i es) n = (if n = JOURNAL then Some i else if n = name then None else map_of es n)"
proof -
  have "map_of (filter (\<lambda>e. fst e \<noteq> name \<and> fst e \<noteq> JOURNAL) xs) n = (if n \<noteq> name \<and> n \<noteq> JOURNAL then map_of xs n else None)"
    for xs :: "(string \<times> inode) list"
    by (induction xs) auto
  then show ?thesis by (simp add: replaced_def map_of_appended del: filter_append map_of_append)
qed

lemma filter_fresh: "map_of es name = None \<Longrightarrow> filter (\<lambda>e. fst e \<noteq> name) (es @ [(name, i)]) = es"
  by (induction es) (auto split: if_splits)

lemma creation_cases:
  assumes "create_entry f uid name raw s = (r, s1)"
  obtains (refused) e where "r = Inl e" "s1 = s"
  | (partial) n where "r = Inl os_error" "map_of (fd_entries s) name = None" "ft_cut f \<noteq> None \<or> \<not> ft_sync f"
      "s1 = s\<lparr>fd_entries := fd_entries s @ [(name, new_inode uid (take n raw))]\<rparr>"
  | (created) "r = Inr ()" "map_of (fd_entries s) name = None"
      "s1 = s\<lparr>fd_entries := fd_entries s @ [(name, new_inode uid raw)]\<rparr>"
proof (cases "ft_cut f")
  case None
  then show ?thesis
    using assms refused partial [of "length raw"] created by (auto simp: create_entry_def split: if_splits)
next
  case (Some n)
  then show ?thesis using assms refused partial [of n] by (auto simp: create_entry_def split: if_splits)
qed

lemma replacement_cases:
  assumes "lastly (abind (rename_entry f name JOURNAL) (\<lambda>_. sync_directory f)) (remove_created f name) s = (r, s')"
    and "fd_entries s = es @ [(name, i)]" "map_of es name = None" "name \<noteq> JOURNAL"
  obtains (kept) e where "r = Inl e" "\<not> ft_replace f" "s' = s\<lparr>fd_entries := es\<rparr>"
  | (left) "r = Inl os_error" "\<not> ft_replace f" "\<not> ft_unlink f" "s' = s"
  | (moved) "r = (if ft_sync_directory f then Inr () else Inl os_error)" "s' = s\<lparr>fd_entries := replaced name i es\<rparr>"
proof (cases "ft_replace f")
  case False
  have "map_of (fd_entries s) name = Some i" using assms(2,3) by (simp add: map_add_def)
  with False assms(1) have "(if ft_unlink f then (Inl os_error, s\<lparr>fd_entries := filter (\<lambda>e. fst e \<noteq> name) (fd_entries s)\<rparr>)
      else (Inl os_error, s)) = (r, s')"
    by (auto simp: lastly_def abind_def rename_entry_def remove_created_def split: if_splits)
  then show ?thesis
    using False kept left filter_fresh [OF assms(3)] unfolding assms(2) by (auto split: if_splits)
next
  case True
  have found: "map_of (fd_entries s) name = Some i" using assms(2,3) by (simp add: map_add_def)
  have step: "rename_entry f name JOURNAL s = (Inr (), s\<lparr>fd_entries := replaced name i es\<rparr>)"
    using True found by (simp add: rename_entry_def replaced_def assms(2))
  have gone: "map_of (replaced name i es) name = None" using assms(4) by (simp add: map_of_replaced)
  show ?thesis
    using assms(1) gone
    by (intro moved) (auto simp: lastly_def abind_def step sync_directory_def lift_def remove_created_def split: if_splits)
qed

lemma save_cases:
  assumes "save uid fr v s = (r, s')"
  obtains (refused) e where "r = Inl e" "fd_entries s' = fd_entries s"
  | (partial) t n where "canon fr v = Inr t" "r = Inl os_error" "map_of (fd_entries s) (temporary s) = None"
      "fd_entries s' = fd_entries s @ [(temporary s, new_inode uid (take n (utf8 t)))]" "fd_faults s (fd_draws s) \<noteq> no_faults"
  | (kept) e where "r = Inl e" "fd_entries s' = fd_entries s" "fd_faults s (fd_draws s) \<noteq> no_faults"
  | (moved) t where "canon fr v = Inr t" "int (length (utf8 t)) \<le> JOURNAL_MAX" "map_of (fd_entries s) (temporary s) = None"
      "r = (if ft_sync_directory (fd_faults s (fd_draws s)) then Inr () else Inl os_error)"
      "fd_owner s' = uid" "fd_mode s' = 448" "fd_locked s' = fd_locked s"
      "fd_entries s' = replaced (temporary s) (new_inode uid (utf8 t)) (fd_entries s)"
proof -
  let ?f = "fd_faults s (fd_draws s)" and ?n = "temporary s"
  let ?s1 = "s\<lparr>fd_draws := Suc (fd_draws s)\<rparr>"
  show thesis
  proof (cases "\<exists>t. canon fr v = Inr t \<and> int (length (utf8 t)) \<le> JOURNAL_MAX \<and> fd_owner s = uid \<and> fd_mode s = 448 \<and> fst (check_journal uid s) = Inr ()")
    case False
    then have "is_ok r \<or> fd_entries s' \<noteq> fd_entries s \<Longrightarrow> False"
      using assms
      by (cases "canon fr v") (auto simp: save_def abind_def act_defs ensure_def require_private_def check_journal_def is_ok_def
        split: if_splits sum.splits)
    then show thesis using refused by (cases r) (auto simp: is_ok_def)
  next
    case True
    then obtain t where t: "canon fr v = Inr t" "int (length (utf8 t)) \<le> JOURNAL_MAX" "fd_owner s = uid" "fd_mode s = 448"
      and "fst (check_journal uid s) = Inr ()" by blast
    then have ok: "check_journal uid s = (Inr (), s)" by (auto simp: check_journal_def split: sum.splits if_splits)
    have run: "abind (create_entry ?f uid ?n (utf8 t)) (\<lambda>_.
        lastly (abind (rename_entry ?f ?n JOURNAL) (\<lambda>_. sync_directory ?f)) (remove_created ?f ?n)) ?s1 = (r, s')"
      using assms t by (simp add: save_def abind_def act_defs require_private_def ok temporary_name_def)
    obtain r1 s2 where c: "create_entry ?f uid ?n (utf8 t) ?s1 = (r1, s2)" by fastforce
    from c show thesis
    proof (cases rule: creation_cases)
      case (refused e)
      with run c have "r = Inl e \<and> s' = ?s1" by (auto simp: abind_def)
      then show thesis by (intro that(1)) simp_all
    next
      case (partial n)
      then have "?f \<noteq> no_faults" by (auto simp: no_faults_def)
      moreover from partial run c have "r = Inl os_error
          \<and> fd_entries s' = fd_entries s @ [(?n, new_inode uid (take n (utf8 t)))] \<and> map_of (fd_entries s) ?n = None"
        by (auto simp: abind_def)
      ultimately show thesis using t(1) by (intro that(2)) simp_all
    next
      case created
      with run c have rest: "lastly (abind (rename_entry ?f ?n JOURNAL) (\<lambda>_. sync_directory ?f)) (remove_created ?f ?n) s2 = (r, s')"
        by (simp add: abind_def)
      have s2: "fd_entries s2 = fd_entries s @ [(?n, new_inode uid (utf8 t))]" "map_of (fd_entries s) ?n = None"
        "fd_owner s2 = uid" "fd_mode s2 = 448" "fd_locked s2 = fd_locked s" using created t by simp_all
      from rest s2(1,2) temporary_not_journal(1) show thesis
      proof (cases rule: replacement_cases)
        case (kept e)
        then have "?f \<noteq> no_faults" by (auto simp: no_faults_def)
        with kept that(3) show thesis by simp
      next
        case left
        then have "?f \<noteq> no_faults" by (auto simp: no_faults_def)
        with left s2 t(1) that(2) [of t "length (utf8 t)"] show thesis by simp
      next
        case moved
        with s2 t(1,2) that(4) show thesis by simp
      qed
    qed
  qed
qed

lemma save_Inr:
  assumes "save uid fr v s = (Inr u, s')"
  obtains t where "canon fr v = Inr t" "int (length (utf8 t)) \<le> JOURNAL_MAX" "fd_owner s' = uid" "fd_mode s' = 448"
    "map_of (fd_entries s') JOURNAL = Some (new_inode uid (utf8 t))" "fd_locked s' = fd_locked s"
  using assms by (cases rule: save_cases) (auto simp: map_of_replaced)

lemma save_journal_entry:
  assumes "save uid fr v s = (r, s')"
  shows "map_of (fd_entries s') JOURNAL = map_of (fd_entries s) JOURNAL
    \<or> (\<exists>t. canon fr v = Inr t \<and> int (length (utf8 t)) \<le> JOURNAL_MAX \<and> fd_owner s' = uid \<and> fd_mode s' = 448
         \<and> map_of (fd_entries s') JOURNAL = Some (new_inode uid (utf8 t)))"
  using assms by (cases rule: save_cases) (auto simp: map_of_replaced map_of_appended simp del: map_of_append)



text \<open>A save that goes well, and one whose directory cannot be synchronised.\<close>

definition demo_folder :: folder where
  "demo_folder = \<lparr>fd_owner = 1000, fd_mode = 448, fd_entries = [], fd_locked = False, fd_names = (\<lambda>_. ''x''),
     fd_faults = (\<lambda>_. no_faults), fd_draws = 0\<rparr>"



subsection \<open>Recovery\<close>

lemma decide_unfinished: "decide exec1 True = decide exec2 True"
  by (intro ext) (simp add: decide_def)

lemma run_attempt_unfinished: "run_attempt c exec1 True = run_attempt c exec2 True"
  unfolding run_attempt_def by (subst decide_unfinished [of exec1 exec2]) (rule refl)

lemma open_journal_resume:
  assumes "open_journal c True s = (Inr (unfinished, Some j), s')"
  shows "unfinished"
proof -
  from assms show ?thesis by (auto simp: open_journal_def abind_Inr ret_def split: if_splits)
qed

text \<open>
  C21. Recovery never computes: a run that recovers an unfinished journal (after a crash at any point)
  behaves the same whatever the executor is, so a result is published or an interruption reported,
  and no work is done twice.
\<close>
theorem recovery_never_recomputes:
  "run_independent c exec1 True s = run_independent c exec2 True s"
proof -
  have "run_body c exec1 True s = run_body c exec2 True s" for s
  proof -
    obtain r0 s0 where i: "isolation s = (r0, s0)" by fastforce
    obtain r1 s1 where o: "open_journal c True s0 = (r1, s1)" by fastforce
    show ?thesis
    proof (cases r0)
      case (Inl e)
      with i show ?thesis by (simp add: run_body_def abind_def)
    next
      case r0: (Inr u)
      show ?thesis
      proof (cases r1)
        case (Inl e)
        with i o r0 show ?thesis by (simp add: run_body_def abind_def)
      next
        case (Inr p)
        obtain unfinished opened where p: "p = (unfinished, opened)" by (cases p)
        show ?thesis
        proof (cases opened)
          case None
          with i o r0 Inr p show ?thesis by (simp add: run_body_def abind_def)
        next
          case (Some j)
          with o Inr p open_journal_resume [of c s0 unfinished j s1] have "unfinished" by simp
          with i o r0 Inr p Some show ?thesis
            by (simp add: run_body_def abind_def) (subst run_attempt_unfinished [of c exec1 exec2], rule refl)
        qed
      qed
    qed
  qed
  then show ?thesis by (simp add: run_independent_def hold_lock_def)
qed


subsection \<open>What a worker computes is what the server accepts\<close>

text \<open>The part of the server's contract that depends on the result alone (\<open>finish\<close>, \<open>publish_result\<close>).\<close>

definition deliverable :: "(string \<Rightarrow> string) \<Rightarrow> string \<Rightarrow> int \<Rightarrow> execution_result \<Rightarrow> bool" where
  "deliverable sha capability limit r \<longleftrightarrow> result_from_dict (result_to_dict r) = Inr r \<and>
     (if r_status r = Completed
      then r_error r = None \<and> (\<exists>out raw. r_outputs r = [out] \<and> output_data sha out limit = Inr (''resultat.md'', raw))
      else r_outputs r = [] \<and> r_error r \<in> set (failure_codes capability (r_status r)))"

lemma result_dict_round_trip:
  assumes "is_identifier (r_attempt r)" "is_identifier (r_generation r)"
    "r_status r = Completed \<or> r_status r = Failed \<or> r_status r = Interrupted \<or> r_status r = Cancelled"
    "length (r_outputs r) \<le> 1" "\<forall>e. r_error r = Some e \<longrightarrow> e \<in> set result_errors"
  shows "result_from_dict (result_to_dict r) = Inr r"
proof -
  have f: "dict_fields (result_to_dict r) [''schema'', ''attempt_id'', ''generation'', ''status'', ''outputs'', ''error_code''] []
      = Inr [(''schema'', schema_of ''execution-result''), (''attempt_id'', VStr (r_attempt r)),
        (''generation'', VStr (r_generation r)), (''status'', VStr (state_name (r_status r))),
        (''outputs'', VList (r_outputs r)), (''error_code'', opt_str (r_error r))]"
    by (auto simp: fields_Inr result_to_dict_def keys_def)
  have st: "map_of result_states (state_name (r_status r)) = Some (r_status r)"
    using assms(3) by (auto simp: result_states_def)
  show ?thesis
    using assms f st
    by (cases "r_error r")
      (auto simp: result_from_dict_def get_or_none_def opt_str_def identifier_Inr schema_of_def)
qed

lemma output_file_accepted:
  assumes "int (length content) \<le> limit" "hex_string 64 (sha content)" "expected = VNull \<or> (\<exists>i. expected = VStr i \<and> is_identifier i)"
  shows "output_data sha (output_file sha content expected) limit = Inr (''resultat.md'', content)"
proof -
  have name: "safe_name ''resultat.md''" by code_simp
  from assms(3) obtain e where e: "expected = opt_str e" "\<forall>i. e = Some i \<longrightarrow> is_identifier i"
  proof
    assume "expected = VNull"
    then show ?thesis using that [of None] by (simp add: opt_str_def)
  next
    assume "\<exists>i. expected = VStr i \<and> is_identifier i"
    then obtain i where "expected = VStr i" "is_identifier i" by blast
    then show ?thesis using that [of "Some i"] by (simp add: opt_str_def)
  qed
  then have "output_file sha content expected = output_entry sha ''resultat.md'' content e"
    by (simp add: output_file_def output_entry_def)
  with output_data_entry [OF name assms(1), of sha e] assms(2) e(2) show ?thesis by simp
qed

lemma validate_request_Inr:
  assumes "validate_request aware caps v = Inr ()"
  obtains request task mission title objective capability where
    "v = VDict request" "map_of request ''task'' = Some (VDict task)" "map_of request ''mission'' = Some (VDict mission)"
    "\<And>a. map_of request ''attempt_id'' = Some (VStr a) \<Longrightarrow> is_identifier a"
    "\<And>g. map_of request ''generation'' = Some (VStr g) \<Longrightarrow> is_identifier g"
    "\<And>t. map_of task ''id'' = Some (VStr t) \<Longrightarrow> is_identifier t"
    "\<exists>m. map_of mission ''id'' = Some (VStr m) \<and> is_identifier m" "\<exists>t. map_of task ''id'' = Some (VStr t)"
    "map_of mission ''title'' = Some (VStr title)" "length title \<le> 160"
    "map_of mission ''objective'' = Some (VStr objective)" "length objective \<le> 4000"
    "map_of task ''capability'' = Some (VStr capability)" "capability \<in> set caps"
    "\<exists>spec. SPECS capability = Some spec \<and> get_or_none task ''role'' = get_or_none spec ''role''"
    "get_or_none request ''expected_version'' = VNull
       \<or> (\<exists>i. get_or_none request ''expected_version'' = VStr i \<and> is_identifier i)"
    "\<exists>s. map_of request ''started_at'' = Some (VStr s) \<and> length s \<le> 64"
proof -
  from assms obtain request task mission title objective capability spec where r:
    "v = VDict request" "get_or_none request ''task'' = VDict task" "get_or_none request ''mission'' = VDict mission"
    "is_ok (identifier_value (get_or_none request ''attempt_id''))" "is_ok (identifier_value (get_or_none request ''generation''))"
    "is_ok (identifier_value (get_or_none task ''id''))" "is_ok (identifier_value (get_or_none mission ''id''))"
    "get_or_none mission ''title'' = VStr title" "length title \<le> 160"
    "get_or_none mission ''objective'' = VStr objective" "length objective \<le> 4000"
    "get_or_none task ''capability'' = VStr capability" "capability \<in> set caps"
    "SPECS capability = Some spec" "valid_task request task mission spec"
    "get_or_none request ''expected_version'' = VNull \<or> is_ok (identifier_value (get_or_none request ''expected_version''))"
    "\<exists>s. get_or_none request ''started_at'' = VStr s \<and> length s \<le> 64"
    unfolding validate_request_def
    by (auto simp: fields_Inr text_value_Inr is_ok_conv split: if_splits)
  show ?thesis
    by (rule that [of request task mission title objective capability])
      (use r in \<open>auto simp: is_ok_conv identifier_Inr valid_task_def\<close>)
qed


lemma blocks_error:
  "digest_blocks t n s = (Some e, s') \<Longrightarrow> e = ''cpu_interrupted'' \<or> e = ''cpu_deadline_exceeded''"
  by (induction t n s rule: digest_blocks.induct)
    (auto simp: interrupted_def Let_def split: prod.splits option.splits if_splits)

lemma interrupted_error: "interrupted t s = (Some e, s') \<Longrightarrow> e = ''cpu_interrupted'' \<or> e = ''cpu_deadline_exceeded''"
  by (auto simp: interrupted_def Let_def split: if_splits)

lemma stopped_deliverable:
  assumes "is_identifier (dt_attempt t)" "is_identifier (dt_generation t)" "e = ''cpu_interrupted'' \<or> e = ''cpu_deadline_exceeded''"
  shows "deliverable sha CPU_DIGEST limit (stopped t e)"
proof -
  have "result_from_dict (result_to_dict (stopped t e)) = Inr (stopped t e)"
    using assms by (intro result_dict_round_trip) (auto simp: stopped_def result_errors_def)
  moreover have "CPU_DIGEST \<noteq> DEMO" by code_simp
  ultimately show ?thesis using assms(3) by (auto simp: deliverable_def stopped_def failure_codes_def)
qed

lemma digest_run_deliverable:
  assumes "digest_run sha fr limits request mission raw t s = (Inr r, s')" "\<forall>x. hex_string 64 (sha x)"
    "map_of limits ''output_bytes'' = Some (VInt n)" "n \<le> limit"
    "is_identifier (dt_attempt t)" "is_identifier (dt_generation t)"
    "get_or_none request ''expected_version'' = VNull \<or> (\<exists>i. get_or_none request ''expected_version'' = VStr i \<and> is_identifier i)"
  shows "deliverable sha CPU_DIGEST limit r"
proof -
  obtain b s1 where b: "digest_blocks t (blocks_of (length raw)) s = (b, s1)" by fastforce
  show ?thesis
  proof (cases b)
    case (Some e)
    with assms(1) b have "r = stopped t e" by (simp add: digest_run_def)
    moreover have "e = ''cpu_interrupted'' \<or> e = ''cpu_deadline_exceeded''" using b Some blocks_error by blast
    ultimately show ?thesis using stopped_deliverable [OF assms(5,6)] by simp
  next
    case None
    with assms(1,3) b obtain content i s2 where c: "int (length content) \<le> n" "interrupted t s1 = (i, s2)"
      "case i of Some e \<Rightarrow> r = stopped t e
       | None \<Rightarrow> r = \<lparr>r_attempt = dt_attempt t, r_generation = dt_generation t, r_status = Completed,
                     r_outputs = [output_file sha content (get_or_none request ''expected_version'')], r_error = None\<rparr>"
      by (auto simp: digest_run_def integer_limit_def item_def split: sum.splits prod.splits option.splits)
    show ?thesis
    proof (cases i)
      case (Some e)
      with c have "interrupted t s1 = (Some e, s2)" and r: "r = stopped t e" by simp_all
      from interrupted_error [OF this(1)] show ?thesis unfolding r by (rule stopped_deliverable [OF assms(5,6)])
    next
      case None
      with c have r: "r = \<lparr>r_attempt = dt_attempt t, r_generation = dt_generation t, r_status = Completed,
                     r_outputs = [output_file sha content (get_or_none request ''expected_version'')], r_error = None\<rparr>" by simp
      have "result_from_dict (result_to_dict r) = Inr r"
        using assms(5,6) by (intro result_dict_round_trip) (simp_all add: r)
      moreover have "int (length content) \<le> limit" using c(1) assms(4) by simp
      then have "output_data sha (output_file sha content (get_or_none request ''expected_version'')) limit = Inr (''resultat.md'', content)"
        by (rule output_file_accepted [where sha = sha, OF _ spec [OF assms(2)] assms(7)])
      ultimately show ?thesis by (simp add: deliverable_def r)
    qed
  qed
qed

text \<open>
  C22. The independent worker only computes what the server accepts: whatever the clocks and the stop flag
  do, the result for a valid request names its attempt and generation, and is either one output
  within the limit that decodes to itself, or a cancellation or interruption with a code of the contract.
\<close>
theorem cpu_results_are_deliverable:
  assumes "cpu_execute sha fr aware limits v mode s = (Inr r, s')" "\<forall>x. hex_string 64 (sha x)"
    "map_of limits ''output_bytes'' = Some (VInt n)" "n \<le> limit"
  shows "deliverable sha CPU_DIGEST limit r"
proof -
  from assms(1) have valid: "validate_request aware [CPU_DIGEST] v = Inr ()"
    by (auto simp: cpu_execute_def abind_Inr lift_def)
  then obtain request where v: "v = VDict request"
    and ids: "\<And>a. map_of request ''attempt_id'' = Some (VStr a) \<Longrightarrow> is_identifier a"
      "\<And>g. map_of request ''generation'' = Some (VStr g) \<Longrightarrow> is_identifier g"
    and ev: "get_or_none request ''expected_version'' = VNull \<or> (\<exists>i. get_or_none request ''expected_version'' = VStr i \<and> is_identifier i)"
    by (rule validate_request_Inr) blast
  from assms(1) v obtain a g where ag: "map_of request ''attempt_id'' = Some (VStr a)" "map_of request ''generation'' = Some (VStr g)"
    and run: "r = cancelled_result a g \<or> (\<exists>mid raw t s1. dt_attempt t = a \<and> dt_generation t = g
        \<and> digest_run sha fr limits request mid raw t s1 = (Inr r, s'))"
    by (auto simp: cpu_execute_def act_simps text_item_def item_def split: if_splits option.splits) fastforce+
  note id = ids(1) [OF ag(1)] ids(2) [OF ag(2)]
  from run show ?thesis
  proof
    assume r: "r = cancelled_result a g"
    have "result_from_dict (result_to_dict r) = Inr r"
      using id by (intro result_dict_round_trip) (simp_all add: r cancelled_result_def)
    then show ?thesis by (simp add: deliverable_def r cancelled_result_def failure_codes_def)
  next
    assume "\<exists>mid raw t s1. dt_attempt t = a \<and> dt_generation t = g \<and> digest_run sha fr limits request mid raw t s1 = (Inr r, s')"
    then obtain mid raw t s1 where t: "dt_attempt t = a" "dt_generation t = g"
      and d: "digest_run sha fr limits request mid raw t s1 = (Inr r, s')" by blast
    from id have "is_identifier (dt_attempt t)" "is_identifier (dt_generation t)" unfolding t by simp_all
    then show ?thesis by (rule digest_run_deliverable [OF d assms(2-4) _ _ ev])
  qed
qed


definition hex_id :: "string \<Rightarrow> string" where "hex_id p = p @ ''_'' @ replicate 32 (CHR ''0'')"

definition sample_request :: dict where
  "sample_request =
     [(''schema'', schema_of ''execution-request''), (''attempt_id'', VStr (hex_id ''a'')), (''generation'', VStr (hex_id ''g'')),
      (''task'', VDict [(''schema'', schema_of ''task''), (''id'', VStr (hex_id ''t'')), (''mission_id'', VStr (hex_id ''m'')),
         (''role'', VStr ''cpu-text-digest''), (''capability'', VStr CPU_DIGEST), (''worker_id'', VStr (hex_id ''n'')),
         (''state'', VStr ''running''), (''simulated'', VBool False)]),
      (''mission'', VDict [(''id'', VStr (hex_id ''m'')), (''title'', VStr ''T''), (''objective'', VStr ''O'')]),
      (''authorized_files'', VList []), (''started_at'', VStr ''2026''), (''deadline'', VInt 60), (''expected_version'', VNull)]"

definition sample_limits :: dict where
  "sample_limits = [(''input_bytes'', VInt 16000), (''output_bytes'', VInt 65536), (''seconds'', VInt 30), (''tasks'', VInt 1)]"

definition quiet_probe :: probe where
  "quiet_probe = \<lparr>pb_stop = (\<lambda>_. False), pb_wall = (\<lambda>_. 0), pb_monotonic = (\<lambda>_. 0), pb_ticks = 0\<rparr>"

lemma hex_id_identifier: "is_lower p \<Longrightarrow> is_identifier (hex_id [p])"
proof -
  have "hex_string 32 (replicate 32 (CHR ''0''))" by code_simp
  then show "is_lower p \<Longrightarrow> is_identifier (hex_id [p])" by (simp add: is_identifier_def hex_id_def)
qed

lemma sample_valid: "validate_request (\<lambda>_. True) [CPU_DIGEST] (VDict sample_request) = Inr ()"
proof -
  have ids: "is_identifier (hex_id ''a'')" "is_identifier (hex_id ''g'')" "is_identifier (hex_id ''t'')" "is_identifier (hex_id ''m'')"
    "is_identifier (hex_id ''n'')"
    by (rule hex_id_identifier; code_simp)+
  have "CPU_DIGEST \<noteq> DEMO" by code_simp
  moreover have "strip ''T'' = ''T''" "strip ''O'' = ''O''" by code_simp+
  moreover have "starts_with ''n_'' (hex_id ''n'')" by code_simp
  ultimately show ?thesis using ids
    by (simp add: validate_request_def sample_request_def dict_fields_def request_keys_def task_keys_def keys_def get_or_none_def
        identifier_value_def text_value_def SPECS_def valid_task_def worker_name_def valid_deadline_def flt_less_def)
qed

theorem cpu_results_are_deliverable_witness:
  "\<exists>r s'. cpu_execute (\<lambda>_. replicate 64 (CHR ''0'')) (\<lambda>_. ''0'') (\<lambda>_. True) sample_limits (VDict sample_request) ''cancel'' quiet_probe = (Inr r, s')
     \<and> deliverable (\<lambda>_. replicate 64 (CHR ''0'')) CPU_DIGEST 65536 r"
proof -
  let ?r = "cancelled_result (hex_id ''a'') (hex_id ''g'')"
  have run: "cpu_execute (\<lambda>_. replicate 64 (CHR ''0'')) (\<lambda>_. ''0'') (\<lambda>_. True) sample_limits (VDict sample_request) ''cancel'' quiet_probe = (Inr ?r, quiet_probe)"
    by (simp add: cpu_execute_def abind_def act_defs ensure_def sample_valid)
      (simp add: sample_request_def text_item_def item_def get_or_none_def abind_def act_defs)
  have "hex_string 64 (replicate 64 (CHR ''0''))" by code_simp
  then have "\<forall>x::string. hex_string 64 (replicate 64 (CHR ''0''))" by simp
  moreover have "map_of sample_limits ''output_bytes'' = Some (VInt 65536)" by (simp add: sample_limits_def)
  ultimately have "deliverable (\<lambda>_. replicate 64 (CHR ''0'')) CPU_DIGEST 65536 ?r"
    using cpu_results_are_deliverable [OF run, of 65536 65536] by simp
  with run show ?thesis by blast
qed


subsection \<open>What is published is in the journal\<close>

type_synonym call = "string \<times> string \<times> val option"

definition finish_call :: "call \<Rightarrow> bool" where
  "finish_call x \<longleftrightarrow> fst x = ''POST'' \<and> (\<exists>a. fst (snd x) = attempt_path a ''/finish'')"

definition journal_is :: "runner \<Rightarrow> dict \<Rightarrow> run_env \<Rightarrow> bool" where
  "journal_is c j s \<longleftrightarrow> (\<exists>t. canon (rn_frepr c) (VDict j) = Inr t \<and> journal_bytes (re_folder s) = Some (utf8 t))"

text \<open>The journal that was on disk when a request was sent holds the result it sends.\<close>

definition written :: "runner \<Rightarrow> call \<times> string option \<Rightarrow> bool" where
  "written c x \<longleftrightarrow> (\<exists>j t. canon (rn_frepr c) (VDict j) = Inr t \<and> snd x = Some (utf8 t) \<and> snd (snd (fst x)) = Some (get_or_none j ''result''))"

definition silent :: "'a run \<Rightarrow> bool" where
  "silent m \<longleftrightarrow> (\<forall>s r s'. m s = (r, s') \<longrightarrow> (\<exists>new. re_calls s' = re_calls s @ new \<and> (\<forall>x\<in>set new. \<not> finish_call (fst x))))"

definition journalled :: "runner \<Rightarrow> run_env \<Rightarrow> run_env \<Rightarrow> bool" where
  "journalled c s s' \<longleftrightarrow> (\<exists>new. re_calls s' = re_calls s @ new
     \<and> (\<forall>x\<in>set new. finish_call (fst x) \<longrightarrow> written c x \<and> (\<exists>j. journal_is c j s' \<and> snd (snd (fst x)) = Some (get_or_none j ''result''))))"

definition publishes :: "runner \<Rightarrow> (run_env \<Rightarrow> bool) \<Rightarrow> 'a run \<Rightarrow> bool" where
  "publishes c P m \<longleftrightarrow> (\<forall>s r s'. P s \<longrightarrow> m s = (r, s') \<longrightarrow> journalled c s s')"

named_theorems silent_intros

lemma silent_publishes: "silent m \<Longrightarrow> publishes c P m"
  by (fastforce simp: silent_def publishes_def journalled_def)

lemma silent_abind [silent_intros]:
  assumes "silent m" "\<And>x. silent (f x)"
  shows "silent (abind m f)"
  unfolding silent_def
proof (intro allI impI)
  fix s r s' assume run: "abind m f s = (r, s')"
  obtain r1 s1 where m: "m s = (r1, s1)" by fastforce
  from assms(1) m obtain n1 where n1: "re_calls s1 = re_calls s @ n1" "\<forall>x\<in>set n1. \<not> finish_call (fst x)"
    unfolding silent_def by blast
  show "\<exists>new. re_calls s' = re_calls s @ new \<and> (\<forall>x\<in>set new. \<not> finish_call (fst x))"
  proof (cases r1)
    case (Inl e)
    with run m n1 show ?thesis by auto
  next
    case (Inr x)
    with run m have "f x s1 = (r, s')" by simp
    with assms(2) obtain n2 where "re_calls s' = re_calls s1 @ n2" "\<forall>x\<in>set n2. \<not> finish_call (fst x)"
      unfolding silent_def by blast
    with n1 show ?thesis by (intro exI [of _ "n1 @ n2"]) auto
  qed
qed

lemma publishes_abind:
  assumes "silent m" "\<And>x. publishes c (Q x) (f x)" "\<And>s x s1. P s \<Longrightarrow> m s = (Inr x, s1) \<Longrightarrow> Q x s1"
  shows "publishes c P (abind m f)"
  unfolding publishes_def
proof (intro allI impI)
  fix s r s' assume P: "P s" and run: "abind m f s = (r, s')"
  obtain r1 s1 where m: "m s = (r1, s1)" by fastforce
  from assms(1) m obtain n1 where n1: "re_calls s1 = re_calls s @ n1" "\<forall>x\<in>set n1. \<not> finish_call (fst x)"
    unfolding silent_def by blast
  show "journalled c s s'"
  proof (cases r1)
    case (Inl e)
    with run m n1 show ?thesis by (auto simp: journalled_def)
  next
    case (Inr x)
    with run m have f: "f x s1 = (r, s')" by simp
    from assms(3) [OF P] m Inr have "Q x s1" by blast
    with assms(2) f have "journalled c s1 s'" unfolding publishes_def by blast
    then obtain n2 where "re_calls s' = re_calls s1 @ n2"
      "\<forall>x\<in>set n2. finish_call (fst x) \<longrightarrow> written c x \<and> (\<exists>j. journal_is c j s' \<and> snd (snd (fst x)) = Some (get_or_none j ''result''))"
      unfolding journalled_def by blast
    with n1 show ?thesis unfolding journalled_def by (intro exI [of _ "n1 @ n2"]) auto
  qed
qed

lemma silent_if [silent_intros]: "silent a \<Longrightarrow> silent b \<Longrightarrow> silent (if p then a else b)"
  by simp

lemma silent_pure [silent_intros]:
  "silent (ret x)" "silent (fail e)" "silent (lift r)" "silent (gets g)" "silent (require p k n)"
  by (auto simp: silent_def act_defs)

lemma silent_on_folder [silent_intros]: "silent (on_folder m)"
  by (auto simp: silent_def on_folder_def split: prod.splits)

lemma silent_isolation [silent_intros]: "silent isolation"
  by (auto simp: silent_def isolation_def)

lemma silent_save [silent_intros]: "silent (save_journal c j)"
  unfolding save_journal_def by (rule silent_on_folder)

lemma paths_differ: "attempt_path a ''/finish'' \<noteq> attempt_path b ''/state''" "CLAIM_PATH \<noteq> attempt_path b ''/finish''"
proof -
  have "last (attempt_path a ''/finish'') = CHR ''h''" "last (attempt_path b ''/state'') = CHR ''e''"
    "last CLAIM_PATH = CHR ''m''" "last (attempt_path b ''/finish'') = CHR ''h''"
    by (simp_all add: attempt_path_def CLAIM_PATH_def)
  then show "attempt_path a ''/finish'' \<noteq> attempt_path b ''/state''" "CLAIM_PATH \<noteq> attempt_path b ''/finish''" by auto
qed

lemma silent_call: "\<not> finish_call (v, p, d) \<Longrightarrow> silent (call_backend v p d)"
  by (auto simp: silent_def call_backend_def)

lemma silent_status [silent_intros]: "silent (attempt_status request)"
  unfolding attempt_status_def by (intro silent_intros silent_call) (simp add: finish_call_def)

lemma silent_claim [silent_intros]: "silent (claim_request c j)"
  unfolding claim_request_def Let_def
  by (intro silent_intros silent_call) (simp add: finish_call_def paths_differ)

lemma silent_open [silent_intros]: "silent (open_journal c resume)"
  unfolding open_journal_def by (intro silent_intros)

lemma silent_close [silent_intros]: "silent (close_journal c j outcome)"
  unfolding close_journal_def by (intro silent_intros)


lemma journal_is_cong: "journal_bytes (re_folder s') = journal_bytes (re_folder s) \<Longrightarrow> journal_is c j s' = journal_is c j s"
  by (simp add: journal_is_def)

lemma save_journal_outcome:
  assumes "save_journal c j s = (r, s')"
  shows "re_calls s' = re_calls s" "is_ok r \<Longrightarrow> journal_is c j s'"
    "journal_is c j s' \<or> journal_bytes (re_folder s') = journal_bytes (re_folder s)"
proof -
  from assms obtain x where x: "save (rn_uid c) (rn_frepr c) (VDict j) (re_folder s) = (r, x)" "s' = s\<lparr>re_folder := x\<rparr>"
    by (auto simp: save_journal_def on_folder_def split: prod.splits)
  then show "re_calls s' = re_calls s" by simp
  show "journal_is c j s' \<or> journal_bytes (re_folder s') = journal_bytes (re_folder s)"
    using save_journal_entry [OF x(1)] x(2) by (auto simp: journal_is_def journal_bytes_def new_inode_def)
  assume "is_ok r"
  then obtain u where "r = Inr u" by (auto simp: is_ok_conv)
  with x(1) have "save (rn_uid c) (rn_frepr c) (VDict j) (re_folder s) = (Inr u, x)" by simp
  then obtain t where "canon (rn_frepr c) (VDict j) = Inr t"
    "map_of (fd_entries x) JOURNAL = Some (new_inode (rn_uid c) (utf8 t))" by (rule save_Inr)
  with x(2) show "journal_is c j s'" by (simp add: journal_is_def journal_bytes_def new_inode_def)
qed

lemma close_keeps_result:
  assumes "close_journal c j outcome s = (r, s')" "journal_is c j s"
  shows "re_calls s' = re_calls s \<and> (\<exists>j'. journal_is c j' s' \<and> get_or_none j' ''result'' = get_or_none j ''result'')"
proof -
  obtain r1 s1 where sv: "save_journal c (put_key ''done'' (VBool True) j) s = (r1, s1)" by fastforce
  with assms(1) have s1: "s' = s1" by (cases r1) (auto simp: close_journal_def abind_def ret_def)
  note O = save_journal_outcome [OF sv]
  have "get_or_none (put_key ''done'' (VBool True) j) ''result'' = get_or_none j ''result''"
    by (simp add: map_of_put_key get_or_none_def)
  moreover have "journal_is c j s1 \<or> journal_is c (put_key ''done'' (VBool True) j) s1" using O(3) assms(2) journal_is_cong by blast
  ultimately show ?thesis using O(1) s1 by auto
qed

definition holds_result :: "runner \<Rightarrow> dict \<Rightarrow> execution_result \<Rightarrow> run_env \<Rightarrow> bool" where
  "holds_result c j r s \<longleftrightarrow> journal_is c j s \<and> get_or_none j ''result'' = result_to_dict r"

lemma publishes_finish:
  "publishes c (holds_result c j r) (abind (call_backend ''POST'' (attempt_path a ''/finish'') (Some (result_to_dict r)))
     (\<lambda>ack. abind (lift (f ack)) (\<lambda>x. abind (lift (g ack x)) (\<lambda>_. close_journal c j outcome))))"
  unfolding publishes_def
proof (intro allI impI)
  fix s s' :: run_env and res
  let ?c = "((''POST'', attempt_path a ''/finish'', Some (result_to_dict r)), journal_bytes (re_folder s))"
  let ?s1 = "s\<lparr>re_calls := re_calls s @ [?c]\<rparr>"
  assume h: "holds_result c j r s" and run: "abind (call_backend ''POST'' (attempt_path a ''/finish'') (Some (result_to_dict r)))
     (\<lambda>ack. abind (lift (f ack)) (\<lambda>x. abind (lift (g ack x)) (\<lambda>_. close_journal c j outcome))) s = (res, s')"
  have j: "journal_is c j ?s1" using h by (simp add: holds_result_def journal_is_def)
  from run have "s' = ?s1 \<or> (\<exists>res'. close_journal c j outcome ?s1 = (res', s'))"
    by (auto simp: abind_def call_backend_def lift_def split: sum.splits)
  then obtain j' where j': "re_calls s' = re_calls ?s1" "journal_is c j' s'" "get_or_none j' ''result'' = result_to_dict r"
    using j h close_keeps_result unfolding holds_result_def by metis
  from h obtain t where t: "canon (rn_frepr c) (VDict j) = Inr t" "journal_bytes (re_folder s) = Some (utf8 t)"
      "get_or_none j ''result'' = result_to_dict r"
    unfolding holds_result_def journal_is_def by blast
  have "written c ?c" unfolding written_def by (rule exI [of _ j], rule exI [of _ t]) (simp add: t del: canon.simps)
  with j' show "journalled c s s'"
    unfolding journalled_def by (intro exI [of _ "[?c]"]) auto
qed

lemma publishes_outcome: "publishes c (holds_result c j r) (publish_outcome c j request a r)"
  unfolding publish_outcome_def
  by (rule publishes_abind [OF silent_isolation publishes_finish])
    (auto simp: isolation_def holds_result_def journal_is_def)

lemma publishes_saved:
  "publishes c P (abind (save_journal c (with_result r j)) (\<lambda>_. publish_outcome c (with_result r j) request a r))"
proof (rule publishes_abind [OF silent_save publishes_outcome])
  fix s x s1 assume "save_journal c (with_result r j) s = (Inr x, s1)"
  from save_journal_outcome(2) [OF this] show "holds_result c (with_result r j) r s1"
    by (simp add: holds_result_def with_result_def map_of_put_key get_or_none_def)
qed


lemma status_keeps_result: "attempt_status request s = (Inr x, s1) \<Longrightarrow> holds_result c j r s \<Longrightarrow> holds_result c j r s1"
  by (auto simp: attempt_status_def act_simps call_backend_def holds_result_def journal_is_def)

definition quiet :: "executor \<Rightarrow> bool" where "quiet exec \<longleftrightarrow> (\<forall>v. silent (exec v))"

lemma silent_execute: "quiet exec \<Longrightarrow> silent (guarded_execute exec request a g)"
  unfolding silent_def
proof (intro allI impI)
  fix s s' :: run_env and r
  assume q: "quiet exec" and run: "guarded_execute exec request a g s = (r, s')"
  obtain r1 s1 where e: "exec (VDict request) s = (r1, s1)" by fastforce
  with q obtain new where "re_calls s1 = re_calls s @ new" "\<forall>x\<in>set new. \<not> finish_call (fst x)"
    unfolding quiet_def silent_def by blast
  moreover have "s' = s1" using run e by (auto simp: guarded_execute_def split: sum.splits err.splits if_splits)
  ultimately show "\<exists>new. re_calls s' = re_calls s @ new \<and> (\<forall>x\<in>set new. \<not> finish_call (fst x))" by blast
qed

lemma silent_decide: "quiet exec \<Longrightarrow> silent (decide exec unfinished j request a g state)"
  unfolding decide_def by (intro silent_intros silent_execute)

lemma publishes_if: "publishes c P m1 \<Longrightarrow> publishes c P m2 \<Longrightarrow> publishes c P (if b then m1 else m2)"
  by simp

lemma publishes_after:
  assumes "silent m" "\<And>x. publishes c (\<lambda>_. True) (f x)"
  shows "publishes c P (abind m f)"
  by (rule publishes_abind [OF assms(1), where Q = "\<lambda>_ _. True"]) (simp_all add: assms(2))

lemma publishes_settle:
  "publishes c (holds_result c j r) (settle c j request a g r)"
  unfolding settle_def
  by (rule publishes_abind [OF silent_status, where Q = "\<lambda>_. holds_result c j r"])
    (intro publishes_if publishes_outcome publishes_saved silent_publishes silent_intros, rule status_keeps_result)

lemma publishes_save_settle:
  "publishes c P (abind (save_journal c (with_result r j)) (\<lambda>_. settle c (with_result r j) request a g r))"
proof (rule publishes_abind [OF silent_save publishes_settle])
  fix s x s1 assume "save_journal c (with_result r j) s = (Inr x, s1)"
  from save_journal_outcome(2) [OF this] show "holds_result c (with_result r j) r s1"
    by (simp add: holds_result_def with_result_def map_of_put_key get_or_none_def)
qed

lemma publishes_attempt:
  assumes "quiet exec"
  shows "publishes c P (run_attempt c exec unfinished j request)"
  unfolding run_attempt_def
  by (intro publishes_after publishes_if publishes_save_settle silent_decide [OF assms] silent_intros)
    (intro silent_publishes silent_intros)

lemma publishes_body:
  assumes "quiet exec"
  shows "publishes c P (run_body c exec resume)"
  unfolding run_body_def
proof (intro publishes_after silent_intros)
  fix p :: "bool \<times> dict option"
  have "publishes c (\<lambda>_. True) (abind (claim_request c journal) (\<lambda>(journal', claimed).
      case claimed of None \<Rightarrow> close_journal c journal' ''idle'' | Some request \<Rightarrow> run_attempt c exec u journal' request))"
    for journal u
  proof (rule publishes_after [OF silent_claim])
    fix x :: "dict \<times> dict option"
    show "publishes c (\<lambda>_. True) (case x of (journal', claimed) \<Rightarrow>
        (case claimed of None \<Rightarrow> close_journal c journal' ''idle'' | Some request \<Rightarrow> run_attempt c exec u journal' request))"
      using publishes_attempt [OF assms] silent_publishes [OF silent_close]
      by (auto split: prod.split option.split)
  qed
  then show "publishes c (\<lambda>_. True) (case p of (unfinished, opened) \<Rightarrow>
      (case opened of None \<Rightarrow> ret ''nothing_to_recover''
       | Some journal \<Rightarrow> abind (claim_request c journal) (\<lambda>(journal', claimed).
           case claimed of None \<Rightarrow> close_journal c journal' ''idle'' | Some request \<Rightarrow> run_attempt c exec unfinished journal' request)))"
    using silent_publishes [OF silent_pure(1)] by (auto split: prod.split option.split)
qed

text \<open>
  C23. A result is in the journal before it is sent: at every moment a run sends a result to the server, the journal on
  disk is the canonical text of a document that holds this result, whatever system calls fail and whatever the server
  answers, and the journal the run leaves behind still holds it, so that a restart can repeat the publication.
\<close>
theorem published_result_is_journalled:
  assumes "quiet exec" "run_independent c exec resume s = (r, s')"
  shows "\<exists>new. re_calls s' = re_calls s @ new \<and> (\<forall>p v disk. ((''POST'', attempt_path p ''/finish'', Some v), disk) \<in> set new \<longrightarrow>
    (\<exists>j t. canon (rn_frepr c) (VDict j) = Inr t \<and> disk = Some (utf8 t) \<and> get_or_none j ''result'' = v)
    \<and> (\<exists>j t. canon (rn_frepr c) (VDict j) = Inr t \<and> journal_bytes (re_folder s') = Some (utf8 t) \<and> get_or_none j ''result'' = v))"
proof -
  obtain r1 s1 where l: "on_folder (locked (rn_uid c) (ret ())) s = (r1, s1)" by fastforce
  then have calls: "re_calls s1 = re_calls s" by (auto simp: on_folder_def split: prod.splits)
  show ?thesis
  proof (cases r1)
    case (Inl e)
    with assms(2) l calls show ?thesis by (auto simp: run_independent_def hold_lock_def abind_def)
  next
    case (Inr u)
    let ?s2 = "s1\<lparr>re_folder := (re_folder s1)\<lparr>fd_locked := True\<rparr>\<rparr>"
    obtain r3 s3 where b: "run_body c exec resume ?s2 = (r3, s3)" by fastforce
    with assms(2) l Inr have s': "s' = s3\<lparr>re_folder := (re_folder s3)\<lparr>fd_locked := False\<rparr>\<rparr>"
      by (simp add: run_independent_def hold_lock_def abind_def)
    from publishes_body [OF assms(1), of c "\<lambda>_. True" resume] b have "journalled c ?s2 s3"
      unfolding publishes_def by blast
    then obtain new where new: "re_calls s3 = re_calls s @ new" and sent: "\<And>x. x \<in> set new \<Longrightarrow> finish_call (fst x) \<Longrightarrow>
        written c x \<and> (\<exists>j. journal_is c j s3 \<and> snd (snd (fst x)) = Some (get_or_none j ''result''))"
      using calls unfolding journalled_def by auto
    have bytes: "journal_bytes (re_folder s') = journal_bytes (re_folder s3)" "re_calls s' = re_calls s3"
      using s' by (simp_all add: journal_bytes_def)
    show ?thesis
    proof (intro exI [of _ new] conjI allI impI)
      show "re_calls s' = re_calls s @ new" using new bytes by simp
      fix p v disk
      assume "((''POST'', attempt_path p ''/finish'', Some v), disk) \<in> set new"
      from sent [OF this] show "\<exists>j t. canon (rn_frepr c) (VDict j) = Inr t \<and> disk = Some (utf8 t) \<and> get_or_none j ''result'' = v"
        and "\<exists>j t. canon (rn_frepr c) (VDict j) = Inr t \<and> journal_bytes (re_folder s') = Some (utf8 t) \<and> get_or_none j ''result'' = v"
        using bytes(1) by (fastforce simp: finish_call_def written_def journal_is_def)+
    qed
  qed
qed

text \<open>
  A worker that recovers a journal with a request: the server has cancelled the attempt, and the cancellation is sent.
\<close>

definition pending_journal :: dict where
  "pending_journal =
     [(''schema'', VStr JOURNAL_SCHEMA), (''worker_id'', VStr (hex_id ''n'')), (''backend_url'', VStr ''u''),
      (''credential_sha256'', VStr ''f''), (''claim_id'', VStr ''00000000-0000-4000-8000-000000000000''),
      (''request'', VDict sample_request), (''result'', VNull), (''done'', VBool False)]"

definition demo_runner :: runner where
  "demo_runner = \<lparr>rn_uid = 1000, rn_worker = hex_id ''n'', rn_url = ''u'', rn_fingerprint = ''f'', rn_claim = ''c'',
     rn_frepr = (\<lambda>_. ''0''), rn_loads = (\<lambda>_. Some (VDict pending_journal)), rn_aware = (\<lambda>_. True)\<rparr>"

definition recovering_env :: run_env where
  "recovering_env = \<lparr>re_folder = demo_folder\<lparr>fd_entries := [(JOURNAL, new_inode 1000 ''{}'')]\<rparr>, re_calls = [],
     re_replies = (\<lambda>n. Inr (if n < 2
        then [(''schema'', VStr ''pepeuch.control-plane/attempt-state/v1''), (''state'', VStr ''cancel_requested''), (''deadline'', VInt 60)]
        else [(''accepted'', VBool True), (''duplicate'', VBool False), (''mission_id'', VStr (hex_id ''m''))])),
     re_guard = (\<lambda>_. Inr ()), re_checks = 0\<rparr>"

definition failing :: executor where "failing v = fail (Problem ''cpu_input_limit'' 400)"

definition cancellation_sent :: "(string \<times> string \<times> val option) \<times> string option \<Rightarrow> bool" where
  "cancellation_sent x = (case x of ((verb, path, data), disk) \<Rightarrow> verb = ''POST'' \<and> path = attempt_path (hex_id ''a'') ''/finish''
     \<and> data = Some (result_to_dict (cancelled_result (hex_id ''a'') (hex_id ''g''))))"

lemma recovering_run:
  "case run_independent demo_runner failing True recovering_env of (r, s') \<Rightarrow> r = Inr ''cancelled'' \<and> list_ex cancellation_sent (re_calls s')"
  by code_simp

theorem published_result_is_journalled_witness:
  "\<exists>s' disk j t. run_independent demo_runner failing True recovering_env = (Inr ''cancelled'', s')
     \<and> ((''POST'', attempt_path (hex_id ''a'') ''/finish'', Some (result_to_dict (cancelled_result (hex_id ''a'') (hex_id ''g'')))), disk)
         \<in> set (re_calls s')
     \<and> canon (rn_frepr demo_runner) (VDict j) = Inr t \<and> disk = Some (utf8 t)
     \<and> get_or_none j ''result'' = result_to_dict (cancelled_result (hex_id ''a'') (hex_id ''g''))"
proof -
  obtain s' where run: "run_independent demo_runner failing True recovering_env = (Inr ''cancelled'', s')"
    and "list_ex cancellation_sent (re_calls s')" using recovering_run by (auto split: prod.splits)
  then obtain disk where sent: "((''POST'', attempt_path (hex_id ''a'') ''/finish'',
      Some (result_to_dict (cancelled_result (hex_id ''a'') (hex_id ''g'')))), disk) \<in> set (re_calls s')"
    by (auto simp: list_ex_iff cancellation_sent_def)
  have "quiet failing" by (simp add: quiet_def failing_def silent_pure)
  from published_result_is_journalled [OF this run] obtain new where new: "re_calls s' = re_calls recovering_env @ new"
    and held: "\<And>p v disk. ((''POST'', attempt_path p ''/finish'', Some v), disk) \<in> set new \<Longrightarrow>
      \<exists>j t. canon (rn_frepr demo_runner) (VDict j) = Inr t \<and> disk = Some (utf8 t) \<and> get_or_none j ''result'' = v" by blast
  have "re_calls s' = new" using new by (simp add: recovering_env_def)
  with sent held run show ?thesis by blast
qed

end
