(* ===== verification/Isolation_Policy.thy ===== *)
theory Isolation_Policy
  imports Worker_Policy
begin

section \<open>pepeuch_worker/verification.py: fail-closed isolation rules\<close>

text \<open>
  The requested policy, the binding of an observation, the validity of a receipt, and the read-only
  assessment. The assessment collects its findings while it reads untrusted observations, and keeps
  what it has when a reading raises: it is an action on \<open>findings\<close>. Ratios are exact (the source divides
  floats). \<open>SHA-256\<close> and the printing of floats are parameters.
\<close>

definition POLICY_SCHEMA :: string where "POLICY_SCHEMA = ''pepeuch.worker/isolation-policy/v1''"
definition RECEIPT_SCHEMA :: string where "RECEIPT_SCHEMA = ''pepeuch.worker/isolation-receipt/v1''"
definition ASSESSMENT_SCHEMA :: string where "ASSESSMENT_SCHEMA = ''pepeuch.worker/isolation-assessment/v1''"

definition CHECKS :: "string list" where
  "CHECKS = [''identity'', ''groups'', ''privileges'', ''cgroup'', ''cpu'', ''memory'', ''swap'', ''pids'', ''code_readonly'',
     ''filesystem'', ''devices'', ''network_ipv4'', ''network_ipv6'', ''backend_only_port'', ''account_exclusive'',
     ''group_stop'', ''runtime'', ''backend_identity'', ''inherited_sockets'', ''unit_binding'', ''code_integrity'']"

definition NEGATIVE :: "string list" where
  "NEGATIVE = [''secret'', ''sqlite'', ''workspace'', ''outside_write'', ''docker'', ''gpu'', ''backend_connect'',
     ''other_loopback'', ''controlled_peer'', ''ipv6'', ''child_stop'', ''expiration'', ''results_preserved'']"

definition digest :: "hashing \<Rightarrow> val \<Rightarrow> string res" where
  "digest h v = rbind (canon (hs_frepr h) v) (\<lambda>s. Inr (hs_sha h (utf8 s)))"

subsection \<open>Paths\<close>

text \<open>\<open>PurePosixPath\<close>: its root (exactly two leading slashes are kept) and its parts.\<close>

definition posix_root :: "string \<Rightarrow> string" where
  "posix_root s =
     (if starts_with ''//'' s \<and> \<not> starts_with ''///'' s then ''//'' else if starts_with ''/'' s then ''/'' else [])"

definition posix_parts :: "string \<Rightarrow> string list" where
  "posix_parts s = filter (\<lambda>p. p \<noteq> [] \<and> p \<noteq> ''.'') (split_on (CHR ''/'') s)"

definition posix_str :: "string \<Rightarrow> string" where
  "posix_str s = posix_root s @ join_with ''/'' (posix_parts s)"

definition below :: "string \<Rightarrow> string \<Rightarrow> bool" where
  \<comment> \<open>\<open>a == b or a in b.parents\<close>\<close>
  "below a b = (posix_root a = posix_root b \<and> take (length (posix_parts a)) (posix_parts b) = posix_parts a)"

definition safe_root :: "string \<Rightarrow> bool" where
  "safe_root s = (starts_with ''/'' s \<and> s \<noteq> ''/'' \<and> ''..'' \<notin> set (posix_parts s) \<and> posix_str s = s \<and> list_all (\<lambda>c. 33 \<le> ord c) s)"

definition overlapping :: "string \<Rightarrow> string \<Rightarrow> bool" where
  "overlapping a b = (below a b \<or> below b a)"

subsection \<open>The requested policy\<close>

definition policy_keys :: "string list" where
  "policy_keys = [''schema'', ''profile'', ''configuration_sha256'', ''unit'', ''invocation_id'', ''cgroup'', ''allowed_groups'',
     ''code_root'', ''worker_root'', ''backend_root'', ''cpu_ratio'', ''memory_bytes'', ''pids'', ''max_age_seconds'']"

definition hex_field :: "dict \<Rightarrow> string \<Rightarrow> nat \<Rightarrow> unit res" where
  "hex_field d k n =
     rbind (expect (as_str (get_or_none d k)) ''invalid_isolation_policy'' 400) (\<lambda>s.
     ensure (hex_string n s) ''invalid_isolation_policy'' 400)"

definition unit_char :: "char \<Rightarrow> bool" where
  "unit_char c = (is_letter c \<or> is_digit c \<or> c \<in> set ''_.@-'')"

definition unit_name :: "string \<Rightarrow> bool" where
  "unit_name s = (\<exists>m\<in>set_option (between [] ''.service'' s). list_all unit_char m \<and> 1 \<le> length m \<and> length m \<le> 128)"

definition group_list :: "val \<Rightarrow> int list res" where
  "group_list v =
     rbind (expect (as_list v) ''invalid_isolation_policy'' 400) (\<lambda>xs.
     rbind (ensure (length xs \<le> 16 \<and> list_all (\<lambda>x. case as_int x of Some i \<Rightarrow> 0 < i | None \<Rightarrow> False) xs)
       ''invalid_isolation_policy'' 400) (\<lambda>_.
     rbind (ensure (distinct (map (\<lambda>x. the (as_int x)) xs)) ''invalid_isolation_policy'' 400) (\<lambda>_.
     Inr (map (\<lambda>x. the (as_int x)) xs))))"

definition bounded_field :: "dict \<Rightarrow> string \<Rightarrow> int \<Rightarrow> unit res" where
  "bounded_field d k high =
     rbind (expect (as_int (get_or_none d k)) ''invalid_isolation_policy'' 400) (\<lambda>i.
     ensure (1 \<le> i \<and> i \<le> high) ''invalid_isolation_policy'' 400)"

definition path_field :: "dict \<Rightarrow> string \<Rightarrow> string res" where
  "path_field d k =
     rbind (expect (as_str (get_or_none d k)) ''invalid_isolation_policy'' 400) (\<lambda>s.
     rbind (ensure (safe_root s) ''invalid_isolation_policy'' 400) (\<lambda>_. Inr s))"

definition isolation_policy :: "val \<Rightarrow> dict res" where
  "isolation_policy v =
     rbind (dict_fields v policy_keys []) (\<lambda>d.
     rbind (ensure (get_or_none d ''schema'' = VStr POLICY_SCHEMA \<and> get_or_none d ''profile'' = VStr CPU_PROFILE)
       ''invalid_isolation_policy'' 400) (\<lambda>_.
     rbind (hex_field d ''configuration_sha256'' 64) (\<lambda>_.
     rbind (hex_field d ''invocation_id'' 32) (\<lambda>_.
     rbind (expect (as_str (get_or_none d ''unit'')) ''invalid_isolation_policy'' 400) (\<lambda>unit.
     rbind (ensure (unit_name unit) ''invalid_isolation_policy'' 400) (\<lambda>_.
     rbind (path_field d ''code_root'') (\<lambda>code.
     rbind (path_field d ''worker_root'') (\<lambda>worker.
     rbind (path_field d ''backend_root'') (\<lambda>backend.
     rbind (path_field d ''cgroup'') (\<lambda>_.
     rbind (ensure (\<not> overlapping code worker \<and> \<not> overlapping code backend \<and> \<not> overlapping worker backend)
       ''overlapping_isolation_paths'' 400) (\<lambda>_.
     rbind (group_list (get_or_none d ''allowed_groups'')) (\<lambda>_.
     rbind (bounded_field d ''memory_bytes'' 134217728) (\<lambda>_.
     rbind (bounded_field d ''pids'' 8) (\<lambda>_.
     rbind (bounded_field d ''max_age_seconds'' 55) (\<lambda>_.
     rbind (expect (strict_number (get_or_none d ''cpu_ratio'')) ''invalid_isolation_policy'' 400) (\<lambda>ratio.
     rbind (ensure (flt_less (Fin 0) ratio \<and> flt_le ratio (Fin (1 / 2))) ''invalid_isolation_policy'' 400) (\<lambda>_.
     Inr d)))))))))))))))))"

subsection \<open>Receipts\<close>

definition binding :: "hashing \<Rightarrow> dict \<Rightarrow> dict \<Rightarrow> val res" where
  "binding h observations requested =
     rbind (item observations ''process'') (\<lambda>process.
     rbind (item observations ''configuration_sha256'') (\<lambda>configuration.
     rbind (digest h (VDict requested)) (\<lambda>p.
     Inr (VDict [(''process'', process), (''profile'', get_or_none requested ''profile''), (''unit'', get_or_none requested ''unit''),
                 (''invocation_id'', get_or_none requested ''invocation_id''), (''configuration_sha256'', configuration),
                 (''policy_sha256'', VStr p)]))))"

definition fresh_window :: "val \<Rightarrow> val \<Rightarrow> rat \<Rightarrow> rat \<Rightarrow> bool res" where
  "fresh_window issued expires now max_age =
     rbind (finite_number issued) (\<lambda>i0.
     (case i0 of
        None \<Rightarrow> Inr False
      | Some i \<Rightarrow>
          rbind (finite_number expires) (\<lambda>e0.
          (case e0 of None \<Rightarrow> Inr False | Some e \<Rightarrow> Inr (i \<le> now \<and> now < e \<and> e \<le> i + max_age)))))"

text \<open>Neither \<open>receipt_errors\<close> nor its callers handle the exception of \<open>isfinite\<close>.\<close>

lemma fresh_window_overflow: "FLOAT_LIMIT \<le> \<bar>i\<bar> \<Longrightarrow> fresh_window (VInt i) expires now max_age = Inl (Raised ''OverflowError'')"
  by (simp add: fresh_window_def finite_number_def)

definition proved_test :: "val \<Rightarrow> bool res" where
  "proved_test v =
     rbind (dict_fields v [''outcome'', ''method'', ''evidence_sha256''] []) (\<lambda>d.
     Inr (get_or_none d ''outcome'' = VStr ''pass'' \<and> get_or_none d ''method'' = VStr ''independent-os-probe/v1''
          \<and> (\<exists>s\<in>set_option (as_str (get_or_none d ''evidence_sha256'')). hex_string 64 s)))"

fun first_unproved :: "(string \<times> val) list \<Rightarrow> string list res" where
  "first_unproved [] = Inr []"
| "first_unproved ((name, v) # ts) =
     rbind (proved_test v) (\<lambda>ok. if ok then first_unproved ts else Inr [''negative_test_not_proved:'' @ name])"

definition receipt_tests :: "val \<Rightarrow> string list res" where
  "receipt_tests v =
     (case as_dict v of
        None \<Rightarrow> Inr [''negative_tests_incomplete'']
      | Some ts \<Rightarrow> if set (keys ts) \<noteq> set NEGATIVE then Inr [''negative_tests_incomplete''] else first_unproved ts)"

definition receipt_body :: "hashing \<Rightarrow> val \<Rightarrow> val \<Rightarrow> rat \<Rightarrow> rat \<Rightarrow> string list res" where
  "receipt_body h receipt context now max_age =
     rbind (dict_fields receipt [''schema'', ''binding'', ''issued_monotonic'', ''expires_monotonic'', ''tests''] []) (\<lambda>d.
     if get_or_none d ''schema'' \<noteq> VStr RECEIPT_SCHEMA then Inr [''receipt_binding_mismatch'']
     else rbind (digest h (get_or_none d ''binding'')) (\<lambda>b.
          rbind (digest h context) (\<lambda>c.
          if b \<noteq> c then Inr [''receipt_binding_mismatch'']
          else rbind (fresh_window (get_or_none d ''issued_monotonic'') (get_or_none d ''expires_monotonic'') now max_age) (\<lambda>fresh.
               if \<not> fresh then Inr [''receipt_expired_or_invalid_time''] else receipt_tests (get_or_none d ''tests'')))))"

definition caught :: "err \<Rightarrow> bool" where
  \<comment> \<open>\<open>except (Problem, TypeError, KeyError, ValueError)\<close>\<close>
  "caught e = (case e of Problem _ _ \<Rightarrow> True | Raised n \<Rightarrow> n \<in> {''TypeError'', ''ValueError'', ''KeyError''})"

definition receipt_errors :: "hashing \<Rightarrow> val \<Rightarrow> val \<Rightarrow> rat \<Rightarrow> rat \<Rightarrow> string list res" where
  "receipt_errors h receipt context now max_age =
     (if receipt = VNull then Inr [''receipt_missing'']
      else (case receipt_body h receipt context now max_age of
              Inl e \<Rightarrow> if caught e then Inr [''invalid_receipt''] else Inl e
            | Inr es \<Rightarrow> Inr es))"

subsection \<open>The assessment\<close>

text \<open>
  The configuration is one the contract of the worker accepted, so the fields of its profile are there.
  Observations may be anything, but where a container of strings is expected (controllers, mounts, mount
  options) only lists are modelled, which is what \<open>collect\<close> writes.
\<close>

record findings =
  fg_checks :: "(string \<times> bool) list"
  fg_errors :: "string list"

type_synonym 'a assessing = "(findings, 'a) act"

definition check :: "string \<Rightarrow> bool res \<Rightarrow> unit assessing" where
  \<comment> \<open>a condition that raises leaves the earlier checks as they are\<close>
  "check name condition =
     abind (lift condition) (\<lambda>b. modify (\<lambda>s. s\<lparr>fg_checks := (name, b) # fg_checks s\<rparr>))"

definition add_errors :: "string list \<Rightarrow> unit assessing" where
  "add_errors es = modify (\<lambda>s. s\<lparr>fg_errors := fg_errors s @ es\<rparr>)"

definition attribute_dict :: "val \<Rightarrow> dict res" where
  "attribute_dict v = present (as_dict v) ''AttributeError''"

definition or_default :: "val \<Rightarrow> val \<Rightarrow> val" where "or_default v d = (if truthy v then v else d)"

definition four :: "val \<Rightarrow> val" where "four v = VList [v, v, v, v]"

definition identity_check :: "dict \<Rightarrow> dict \<Rightarrow> bool res" where
  "identity_check status profile =
     rbind (item profile ''expected_uid'') (\<lambda>uid.
     rbind (item profile ''expected_gid'') (\<lambda>gid.
     rbind (item profile ''backend_uid'') (\<lambda>backend.
     Inr (py_eq (get_or_none status ''Uid'') (four uid) \<and> \<not> py_eq uid (VInt 0) \<and> py_eq (get_or_none status ''Gid'') (four gid)
          \<and> \<not> py_eq gid (VInt 0) \<and> \<not> py_eq uid backend))))"

definition CAPABILITY_SETS :: "string list" where
  "CAPABILITY_SETS = [''CapInh'', ''CapPrm'', ''CapEff'', ''CapBnd'', ''CapAmb'']"

definition privileges_check :: "dict \<Rightarrow> bool" where
  "privileges_check status =
     (py_eq (get_or_none status ''NoNewPrivs'') (VInt 1) \<and> py_eq (get_or_none status ''Seccomp'') (VInt 2)
      \<and> list_all (\<lambda>k. py_eq (get_or_none status k) (VInt 0)) CAPABILITY_SETS)"

definition group_check :: "dict \<Rightarrow> dict \<Rightarrow> dict \<Rightarrow> bool res" where
  "group_check process applied requested =
     (if py_eq (get_or_none process ''cgroup'') (get_or_none requested ''cgroup'') \<and> truthy (get_or_none process ''cgroup_inode'')
      then rbind (present (as_list (or_default (get_or_none applied ''controllers'') (VList []))) ''TypeError'') (\<lambda>cs.
           Inr ({VStr ''cpu'', VStr ''memory'', VStr ''pids''} \<subseteq> set cs))
      else Inr False)"

definition cpu_check :: "dict \<Rightarrow> rat \<Rightarrow> bool res" where
  "cpu_check applied ratio =
     rbind (present (as_str (or_default (get_or_none applied ''cpu.max'') (VStr []))) ''AttributeError'') (\<lambda>text.
     (case words_of text of
        [quota, period] \<Rightarrow>
          if \<not> isdigit quota \<or> \<not> isdigit period then Inr False
          else rbind (parse_int 10 period) (\<lambda>p.
               if p \<le> 0 then Inr False
               else rbind (parse_int 10 quota) (\<lambda>q. Inr (0 < q \<and> rat_of_int q / rat_of_int p \<le> ratio)))
      | _ \<Rightarrow> Inr False))"

definition limit_check :: "dict \<Rightarrow> string \<Rightarrow> int \<Rightarrow> bool res" where
  "limit_check applied file maximum =
     (case as_str (get_or_none applied file) of
        None \<Rightarrow> Inr False
      | Some s \<Rightarrow> if \<not> isdigit s then Inr False else rbind (parse_int 10 s) (\<lambda>n. Inr (0 < n \<and> n \<le> maximum)))"

definition plain_text :: "val \<Rightarrow> string option" where
  \<comment> \<open>\<open>str(pid)\<close> for what a process id can be\<close>
  "plain_text v = (case v of VStr s \<Rightarrow> Some s | VInt i \<Rightarrow> Some (int_str i) | _ \<Rightarrow> None)"

definition unit_check :: "dict \<Rightarrow> dict \<Rightarrow> dict \<Rightarrow> bool res" where
  "unit_check unit process requested =
     (if get_or_none unit ''Id'' = get_or_none requested ''unit''
         \<and> get_or_none unit ''InvocationID'' = get_or_none requested ''invocation_id''
      then rbind (item process ''pid'') (\<lambda>pid.
           if plain_text pid = None \<or> as_str (get_or_none unit ''MainPID'') \<noteq> plain_text pid then Inr False
           else if get_or_none unit ''ControlGroup'' \<noteq> get_or_none requested ''cgroup'' then Inr False
           else rbind (item process ''cgroup'') (\<lambda>g. Inr (get_or_none requested ''cgroup'' = g)))
      else Inr False)"

definition mount_entry :: "val \<Rightarrow> (string \<times> dict) res" where
  "mount_entry m =
     rbind (present (as_dict m) ''TypeError'') (\<lambda>d.
     rbind (item d ''mountpoint'') (\<lambda>p.
     rbind (present (as_str p) ''TypeError'') (\<lambda>s. Inr (s, d))))"

definition readonly_check :: "string \<Rightarrow> val list \<Rightarrow> bool option res" where
  \<comment> \<open>\<open>None\<close>: no mount covers the code\<close>
  "readonly_check code mounts =
     rbind (collect mount_entry mounts) (\<lambda>entries.
     let covering = filter (\<lambda>(p, _). below p code) entries in
     if covering = [] then Inr None
     else let deepest = Max (set (map (\<lambda>(p, _). length p) covering));
              selected = filter (\<lambda>(p, _). length p = deepest) covering
          in if length selected \<noteq> 1 then Inr (Some False)
             else rbind (item (snd (hd selected)) ''options'') (\<lambda>opts.
                  rbind (present (as_list opts) ''TypeError'') (\<lambda>os. Inr (Some (VStr ''ro'' \<in> set os)))))"

definition requested_int :: "dict \<Rightarrow> string \<Rightarrow> int" where
  "requested_int d k = (case as_int (get_or_none d k) of Some i \<Rightarrow> i | None \<Rightarrow> 0)"

definition requested_ratio :: "dict \<Rightarrow> rat" where
  "requested_ratio d = (case strict_number (get_or_none d ''cpu_ratio'') of Some (Fin x) \<Rightarrow> x | _ \<Rightarrow> 0)"

definition requested_text :: "dict \<Rightarrow> string \<Rightarrow> string" where
  "requested_text d k = (case as_str (get_or_none d k) of Some s \<Rightarrow> s | None \<Rightarrow> [])"

definition sorted_groups :: "dict \<Rightarrow> val" where
  "sorted_groups d =
     (case as_list (get_or_none d ''allowed_groups'') of
        Some xs \<Rightarrow> VList (map VInt (sort (map (\<lambda>x. the (as_int x)) xs))) | None \<Rightarrow> VNull)"

definition check_unit :: "dict \<Rightarrow> dict \<Rightarrow> dict \<Rightarrow> unit assessing" where
  "check_unit applied process requested =
     (case as_dict (get_or_none applied ''systemd'') of
        Some unit \<Rightarrow> check ''unit_binding'' (unit_check unit process requested)
      | None \<Rightarrow> ret ())"

definition check_code :: "dict \<Rightarrow> dict \<Rightarrow> unit assessing" where
  "check_code applied requested =
     abind (lift (present (as_list (or_default (get_or_none applied ''mounts'') (VList []))) ''TypeError'')) (\<lambda>mounts.
     abind (lift (readonly_check (requested_text requested ''code_root'') mounts)) (\<lambda>r.
     case r of None \<Rightarrow> ret () | Some b \<Rightarrow> check ''code_readonly'' (Inr b)))"

definition check_stability :: "hashing \<Rightarrow> dict \<Rightarrow> dict \<Rightarrow> dict \<Rightarrow> unit assessing" where
  "check_stability h config requested observations =
     abind (add_errors (if get_or_none observations ''stable'' \<noteq> VBool True \<or> truthy (get_or_none observations ''unavailable'')
                        then [''incomplete_or_unstable_observations''] else [])) (\<lambda>_.
     abind (lift (digest h (VDict config))) (\<lambda>d.
     add_errors (if get_or_none observations ''configuration_sha256'' \<noteq> VStr d \<or> get_or_none requested ''configuration_sha256'' \<noteq> VStr d
                 then [''configuration_changed''] else [])))"

definition assess_body :: "hashing \<Rightarrow> dict \<Rightarrow> dict \<Rightarrow> dict \<Rightarrow> val \<Rightarrow> rat \<Rightarrow> unit assessing" where
  "assess_body h config requested observations receipt now =
     abind (lift (item observations ''process'')) (\<lambda>process0.
     abind (lift (present (as_dict process0) ''TypeError'')) (\<lambda>process.
     abind (lift (item process ''status'')) (\<lambda>status0.
     abind (lift (item observations ''applied'')) (\<lambda>applied0.
     abind (lift (sub_dict config ''os_profile'')) (\<lambda>profile.
     abind (lift (attribute_dict (or_default status0 (VDict [])))) (\<lambda>status.
     abind (check ''identity'' (identity_check status profile)) (\<lambda>_.
     abind (check ''groups'' (Inr (py_eq (get_or_none status ''Groups'') (sorted_groups requested)))) (\<lambda>_.
     abind (check ''privileges'' (Inr (privileges_check status))) (\<lambda>_.
     abind (lift (attribute_dict applied0)) (\<lambda>applied.
     abind (check ''cgroup'' (group_check process applied requested)) (\<lambda>_.
     abind (check ''cpu'' (cpu_check applied (requested_ratio requested))) (\<lambda>_.
     abind (check ''memory'' (limit_check applied ''memory.max'' (requested_int requested ''memory_bytes''))) (\<lambda>_.
     abind (check ''pids'' (limit_check applied ''pids.max'' (requested_int requested ''pids''))) (\<lambda>_.
     abind (check ''swap'' (Inr (get_or_none applied ''memory.swap.max'' = VStr ''0''))) (\<lambda>_.
     abind (check_unit applied process requested) (\<lambda>_.
     abind (check_code applied requested) (\<lambda>_.
     abind (check_stability h config requested observations) (\<lambda>_.
     abind (lift (binding h observations requested)) (\<lambda>b.
     abind (lift (receipt_errors h receipt b now (of_int (requested_int requested ''max_age_seconds'')))) (\<lambda>es.
     add_errors es))))))))))))))))))))"

definition guarantee :: "findings \<Rightarrow> string \<Rightarrow> val" where
  "guarantee s name =
     (case map_of (fg_checks s) name of
        None \<Rightarrow> VDict [(''declared'', VBool True), (''enforced'', VNull), (''verified'', VBool False),
                        (''reason'', VStr ''independent_evidence_missing'')]
      | Some b \<Rightarrow> VDict [(''declared'', VBool True), (''enforced'', VBool b), (''verified'', VBool False),
                        (''reason'', VStr (if b then ''observed_match'' else ''observed_mismatch''))])"

definition assessment :: "dict \<Rightarrow> dict \<Rightarrow> dict \<Rightarrow> val \<Rightarrow> findings \<Rightarrow> val" where
  "assessment config requested observations receipt s =
     VDict [(''schema'', VStr ASSESSMENT_SCHEMA), (''status'', VStr ''NOT VERIFIED''), (''configuration_requested'', VDict config),
            (''policy_requested'', VDict requested), (''observations'', VDict observations), (''negative_tests'', receipt),
            (''guarantees'', VDict (map (\<lambda>name. (name, guarantee s name)) CHECKS)),
            (''errors'', VList (map VStr (sort (remdups (fg_errors s @ [''independent_authority_not_authenticated''])))))]"

definition assess :: "hashing \<Rightarrow> dict \<Rightarrow> val \<Rightarrow> dict \<Rightarrow> val \<Rightarrow> rat \<Rightarrow> val res" where
  "assess h config policy0 observations receipt now =
     rbind (isolation_policy policy0) (\<lambda>requested.
     (case assess_body h config requested observations receipt now \<lparr>fg_checks = [], fg_errors = []\<rparr> of
        (Inr _, s) \<Rightarrow> Inr (assessment config requested observations receipt s)
      | (Inl e, s) \<Rightarrow>
          if caught e
          then Inr (assessment config requested observations receipt (s\<lparr>fg_errors := fg_errors s @ [''invalid_observations'']\<rparr>))
          else Inl e))"

end
