(* ===== verification/Linux_Observer.thy ===== *)
theory Linux_Observer
  imports Isolation_Policy
begin

section \<open>pepeuch_worker/linux_observer.py: reading the kernel's files\<close>

text \<open>
  The parsers of \<open>/proc\<close> and cgroup files, and \<open>collect\<close>. The kernel is an environment that answers every
  reading (\<open>os_read\<close>, by number and path, with what \<open>bounded\<close> returns or raises) so that two readings of the
  same file may differ. The entries of the directory of open descriptors, with their links, are one reading.
\<close>

definition bounded :: "int \<Rightarrow> string \<Rightarrow> string res" where
  \<comment> \<open>\<open>stream.read(maximum + 1)\<close>: only the length matters; invalid UTF-8 is in the environment\<close>
  "bounded maximum raw = rbind (ensure (int (length raw) \<le> maximum) ''oversized_kernel_observation'' 400) (\<lambda>_. Inr raw)"

definition leading_pid :: "string \<Rightarrow> bool" where
  \<comment> \<open>\<open>re.match(r"[1-9][0-9]* \(", raw)\<close>\<close>
  "leading_pid raw =
     (let digits = takeWhile is_digit raw; rest = dropWhile is_digit raw
      in digits \<noteq> [] \<and> hd digits \<noteq> CHR ''0'' \<and> starts_with '' ('' rest)"

definition process_start :: "string \<Rightarrow> int res" where
  "process_start raw =
     (if \<not> leading_pid raw \<or> CHR '')'' \<notin> set raw \<or> length (before_last (CHR '')'') raw) < length (before_char (CHR ''('') raw)
      then bad ''invalid_process_observation''
      else let tail = words_of (drop 1 (after_last (CHR '')'') raw))
           in if length tail < 20 \<or> \<not> isdigit (tail ! 19) then bad ''invalid_process_observation''
              else parse_int 10 (tail ! 19))"

definition STATUS_KEYS :: "string list" where
  "STATUS_KEYS = [''Uid'', ''Gid'', ''Groups'', ''NoNewPrivs'', ''CapInh'', ''CapPrm'', ''CapEff'', ''CapBnd'', ''CapAmb'', ''Seccomp'']"

definition status_value :: "string \<Rightarrow> string \<Rightarrow> val res" where
  "status_value key text =
     (let values = words_of text in
      if key = ''Uid'' \<or> key = ''Gid''
      then rbind (ensure (length values = 4) ''invalid_process_observation'' 400) (\<lambda>_.
           rbind (collect (parse_int 10) values) (\<lambda>is. Inr (VList (map VInt is))))
      else if key = ''Groups'' then rbind (collect (parse_int 10) values) (\<lambda>is. Inr (VList (map VInt (sort is))))
      else rbind (parse_int (if starts_with ''Cap'' key then 16 else 10) (strip text)) (\<lambda>i. Inr (VInt i)))"

fun status_lines :: "string list \<Rightarrow> dict \<Rightarrow> dict res" where
  "status_lines [] result = Inr result"
| "status_lines (line # rest) result =
     (let key = before_char (CHR '':'') line in
      if CHR '':'' \<in> set line \<and> key \<in> set STATUS_KEYS
      then rbind (ensure (map_of result key = None) ''duplicate_kernel_observation'' 400) (\<lambda>_.
           rbind (status_value key (after_char (CHR '':'') line)) (\<lambda>v. status_lines rest (result @ [(key, v)])))
      else status_lines rest result)"

definition process_status :: "string \<Rightarrow> dict res" where
  "process_status raw =
     rbind (status_lines (lines_of raw) []) (\<lambda>result.
     rbind (ensure (set (keys result) = set STATUS_KEYS) ''missing_process_observation'' 400) (\<lambda>_. Inr result))"

definition cgroup_path :: "string \<Rightarrow> string res" where
  "cgroup_path raw =
     (case lines_of (strip raw) of
        [l] \<Rightarrow>
          if \<not> starts_with ''0::/'' l then bad ''cgroup_v2_required''
          else (let path = drop 3 l
                in if ''..'' \<in> set (posix_parts path) \<or> list_ex (\<lambda>c. ord c < 32) path then bad ''invalid_cgroup_observation''
                   else Inr path)
      | _ \<Rightarrow> bad ''cgroup_v2_required'')"

definition is_octal :: "char \<Rightarrow> bool" where "is_octal c = (48 \<le> ord c \<and> ord c \<le> 55)"

fun unescape :: "string \<Rightarrow> string" where
  \<comment> \<open>\<open>re.sub\<close> of a backslash and three octal digits; the character of a code above 255 is outside the model and wraps\<close>
  "unescape (b # x # y # z # s) =
     (if b = CHR 0x5C \<and> is_octal x \<and> is_octal y \<and> is_octal z
      then char_of ((ord x - 48) * 64 + (ord y - 48) * 8 + (ord z - 48)) # unescape s
      else b # unescape (x # y # z # s))"
| "unescape s = s"

definition SAFE_OPTIONS :: "string list" where "SAFE_OPTIONS = [''nodev'', ''noexec'', ''nosuid'', ''ro'', ''rw'']"

definition safe_options :: "string \<Rightarrow> val" where
  "safe_options s = VList (map VStr (filter (\<lambda>o'. o' \<in> set (split_on (CHR '','') s)) SAFE_OPTIONS))"

definition cut_separator :: "string \<Rightarrow> (string \<times> string) option" where
  \<comment> \<open>\<open>line.partition(" - ")\<close>\<close>
  "cut_separator line =
     (case List.find (\<lambda>i. starts_with '' - '' (drop i line)) [0..<length line] of
        None \<Rightarrow> None | Some i \<Rightarrow> Some (take i line, drop (i + 3) line))"

definition mount_line :: "string \<Rightarrow> val res" where
  "mount_line line =
     rbind (expect (cut_separator line) ''invalid_mount_observation'' 400) (\<lambda>(before, after).
     let left = words_of before; right = words_of after in
     rbind (ensure (6 \<le> length left \<and> 3 \<le> length right) ''invalid_mount_observation'' 400) (\<lambda>_.
     Inr (VDict [(''root'', VStr (unescape (left ! 3))), (''mountpoint'', VStr (unescape (left ! 4))),
                 (''options'', safe_options (left ! 5)), (''type'', VStr (right ! 0)), (''super_options'', safe_options (right ! 2))])))"

definition mountinfo :: "string \<Rightarrow> val res" where
  "mountinfo raw = rbind (collect mount_line (lines_of raw)) (\<lambda>ms. Inr (VList ms))"

subsection \<open>Collecting\<close>

record kernel =
  os_read :: "nat \<Rightarrow> string \<Rightarrow> string res"
  os_link :: "string \<Rightarrow> string res"
  os_inode :: "string \<Rightarrow> int res"
  os_descriptors :: "(string \<times> string res) list res"
  os_reads :: nat
  os_missing :: "string list"

type_synonym 'a observing = "(kernel, 'a) act"

definition read_file :: "int \<Rightarrow> string \<Rightarrow> string observing" where
  "read_file maximum path s = (rbind (os_read s (os_reads s) path) (bounded maximum), s\<lparr>os_reads := Suc (os_reads s)\<rparr>)"

definition observed :: "err \<Rightarrow> bool" where
  \<comment> \<open>\<open>except (OSError, ValueError, UnicodeError, Problem)\<close>\<close>
  "observed e = (case e of Problem _ _ \<Rightarrow> True
     | Raised n \<Rightarrow> n \<in> {''OSError'', ''FileNotFoundError'', ''PermissionError'', ''ValueError'', ''UnicodeError''})"

definition observe :: "string \<Rightarrow> 'a observing \<Rightarrow> 'a option observing" where
  "observe label m s =
     (case m s of
        (Inr x, s') \<Rightarrow> (Inr (Some x), s')
      | (Inl e, s') \<Rightarrow> if observed e then (Inr None, s'\<lparr>os_missing := os_missing s' @ [label]\<rparr>) else (Inl e, s'))"

definition reading :: "string \<Rightarrow> int \<Rightarrow> string \<Rightarrow> (string \<Rightarrow> 'a res) \<Rightarrow> 'a option observing" where
  "reading label maximum path parser = observe label (abind (read_file maximum path) (\<lambda>raw. lift (parser raw)))"

definition stripped :: "string \<Rightarrow> val res" where "stripped raw = Inr (VStr (strip raw))"

definition opt_val :: "val option \<Rightarrow> val" where "opt_val v = (case v of None \<Rightarrow> VNull | Some x \<Rightarrow> x)"

definition namespaces :: "string \<Rightarrow> val observing" where
  "namespaces target =
     abind (mapA (\<lambda>n. abind (observe (''namespace_'' @ n) (\<lambda>s. (os_link s (target @ ''/ns/'' @ n), s))) (\<lambda>r.
                   ret (n, case r of None \<Rightarrow> VNull | Some x \<Rightarrow> VStr x)))
            [''user'', ''mnt'', ''net'', ''pid'', ''cgroup'', ''time'']) (\<lambda>ns.
     ret (VDict ns))"

definition unit_hint :: "string option \<Rightarrow> val" where
  "unit_hint g =
     (case g of None \<Rightarrow> VNull
      | Some p \<Rightarrow> (case List.find (ends_with ''.service'') (rev (split_on (CHR ''/'') p)) of None \<Rightarrow> VNull | Some u \<Rightarrow> VStr u))"

definition limit_files :: "string list" where "limit_files = [''cpu.max'', ''memory.max'', ''memory.swap.max'', ''pids.max'']"

definition strip_slashes :: "string \<Rightarrow> string" where "strip_slashes s = dropWhile (\<lambda>c. c = CHR ''/'') s"

definition group_limits :: "string \<Rightarrow> string \<Rightarrow> (val \<times> dict) observing" where
  "group_limits cgroups grp =
     (let directory = cgroups @ ''/'' @ strip_slashes grp in
      abind (observe ''cgroup_inode'' (\<lambda>s. (os_inode s directory, s))) (\<lambda>i.
      abind (reading ''controllers'' 4096 (cgroups @ ''/cgroup.controllers'') (\<lambda>raw. Inr (VList (map VStr (words_of raw))))) (\<lambda>cs.
      abind (mapA (\<lambda>n. abind (reading n 256 (directory @ ''/'' @ n) stripped) (\<lambda>r. ret (n, opt_val r))) limit_files) (\<lambda>ls.
      ret (case i of None \<Rightarrow> VNull | Some n \<Rightarrow> VInt n, (''controllers'', opt_val cs) # ls)))))"

definition descriptor_kind :: "string \<Rightarrow> string" where
  "descriptor_kind destination =
     (if starts_with ''socket:['' destination then ''socket'' else if starts_with ''pipe:['' destination then ''pipe'' else ''other'')"

fun descriptor_loop :: "hashing \<Rightarrow> (string \<times> string res) list \<Rightarrow> (int \<times> val) list \<Rightarrow> (int \<times> val) list res" where
  \<comment> \<open>the entries of \<open>fd/\<close> with the links they point to; one that has gone in between is skipped\<close>
  "descriptor_loop h [] result = Inr result"
| "descriptor_loop h ((name, link) # rest) result =
     (if 128 \<le> int (length result) then bad ''too_many_process_descriptors''
      else if \<not> isdigit name then descriptor_loop h rest result
      else (case link of
              Inl e \<Rightarrow> if e = Raised ''FileNotFoundError'' then descriptor_loop h rest result else Inl e
            | Inr destination \<Rightarrow>
                rbind (parse_int 10 name) (\<lambda>fd.
                descriptor_loop h rest (result @ [(fd, VDict [(''fd'', VInt fd), (''kind'', VStr (descriptor_kind destination)),
                  (''target_sha256'', VStr (hs_sha h (utf8 destination)))])]))))"

definition descriptors :: "hashing \<Rightarrow> val observing" where
  "descriptors h s =
     (rbind (os_descriptors s) (\<lambda>entries. rbind (descriptor_loop h entries []) (\<lambda>ds. Inr (VList (map snd (sort_key fst ds))))), s)"

definition process_part :: "int \<Rightarrow> int option \<Rightarrow> dict option \<Rightarrow> val option \<Rightarrow> val option \<Rightarrow> val \<Rightarrow> string option \<Rightarrow> dict" where
  "process_part pid start status boot release ns grp =
     [(''pid'', VInt pid), (''start_ticks'', case start of None \<Rightarrow> VNull | Some i \<Rightarrow> VInt i),
      (''status'', case status of None \<Rightarrow> VNull | Some d \<Rightarrow> VDict d), (''boot_id'', opt_val boot), (''kernel'', opt_val release),
      (''namespaces'', ns), (''cgroup'', case grp of None \<Rightarrow> VNull | Some g \<Rightarrow> VStr g), (''unit_hint'', unit_hint grp)]"

definition stable_reading :: "int option \<Rightarrow> int option \<Rightarrow> string option \<Rightarrow> string option option \<Rightarrow> bool" where
  "stable_reading start again grp after = (start \<noteq> None \<and> start = again \<and> (case after of None \<Rightarrow> True | Some g \<Rightarrow> g = grp))"

definition report_dict :: "int \<Rightarrow> bool \<Rightarrow> rat \<Rightarrow> string \<Rightarrow> dict \<Rightarrow> dict \<Rightarrow> string list \<Rightarrow> bool \<Rightarrow> dict" where
  "report_dict uid synthetic now config_digest process applied missing steady =
     [(''schema'', VStr ''pepeuch.worker/linux-observations/v1''), (''origin'', VStr ''readonly-observer''),
      (''observer_uid'', VInt uid), (''synthetic'', VBool synthetic), (''observed_monotonic'', VFloat (Fin now)),
      (''configuration_sha256'', VStr config_digest), (''process'', VDict process), (''applied'', VDict applied),
      (''unavailable'', VList (map VStr missing)), (''stable'', VBool steady)]"

definition collect_report :: "hashing \<Rightarrow> string \<Rightarrow> string \<Rightarrow> int \<Rightarrow> rat \<Rightarrow> val \<Rightarrow> val \<Rightarrow> dict observing" where
  "collect_report h proc cgroups uid now config pid0 =
     abind (lift (expect (as_int pid0) ''invalid_process_identity'' 400)) (\<lambda>pid.
     abind (require (1 \<le> pid \<and> pid < 2147483648) ''invalid_process_identity'' 400) (\<lambda>_.
     abind (lift (digest h config)) (\<lambda>config_digest.
     let target = proc @ ''/'' @ int_str pid in
     abind (reading ''process_start'' 4096 (target @ ''/stat'') process_start) (\<lambda>start.
     abind (reading ''process_status'' 16384 (target @ ''/status'') process_status) (\<lambda>status.
     abind (reading ''boot_id'' 128 (proc @ ''/sys/kernel/random/boot_id'') stripped) (\<lambda>boot.
     abind (reading ''kernel'' 256 (proc @ ''/sys/kernel/osrelease'') stripped) (\<lambda>release.
     abind (namespaces target) (\<lambda>ns.
     abind (reading ''cgroup'' 4096 (target @ ''/cgroup'') cgroup_path) (\<lambda>grp.
     abind (observe ''descriptor_inventory'' (descriptors h)) (\<lambda>fds.
     abind (reading ''mounts'' 65536 (target @ ''/mountinfo'') mountinfo) (\<lambda>mounts.
     abind (case grp of None \<Rightarrow> ret None | Some g \<Rightarrow> abind (group_limits cgroups g) (\<lambda>x. ret (Some x))) (\<lambda>limits.
     abind (reading ''process_start_after'' 4096 (target @ ''/stat'') process_start) (\<lambda>finish_start.
     abind (case grp of None \<Rightarrow> ret None
            | Some g \<Rightarrow> abind (reading ''cgroup_after'' 4096 (target @ ''/cgroup'') cgroup_path) (\<lambda>x. ret (Some x))) (\<lambda>after.
     abind (gets os_missing) (\<lambda>missing.
     ret (report_dict uid (proc \<noteq> ''/proc'' \<or> cgroups \<noteq> ''/sys/fs/cgroup'') now config_digest
           (process_part pid start status boot release ns grp @ (case limits of None \<Rightarrow> [] | Some (i, _) \<Rightarrow> [(''cgroup_inode'', i)]))
           ([(''descriptor_inventory'', opt_val fds), (''mounts'', opt_val mounts)] @ (case limits of None \<Rightarrow> [] | Some (_, d) \<Rightarrow> d))
           missing (stable_reading start finish_start grp after)))))))))))))))))"

end
