(* ===== verification/Verification_Channel.thy ===== *)
theory Verification_Channel
  imports Linux_Observer
begin

section \<open>pepeuch_worker/verification_channel.py: the inherited root channel\<close>

text \<open>
  Frames of the channel, the kernel's credentials on every received part, the validation of a decision and
  \<open>VerificationSession.check\<close>. The socket is a \<open>channel\<close>: the peer answers the \<open>n\<close>-th receive from what it
  has been sent (\<open>ch_recv\<close>), the clock is a sequence of readings, and what the program sends and the
  descriptors it closes are recorded. The operating system around one check is the record \<open>host\<close>.
\<close>

definition REQUEST :: string where "REQUEST = ''pepeuch.worker/verification-request/v1''"
definition REPLY :: string where "REPLY = ''pepeuch.worker/verification-decision/v1''"
definition MAX_FRAME :: int where "MAX_FRAME = 131072"

definition DENIED :: err where "DENIED = Problem ''os_isolation_not_verified'' 503"

subsection \<open>Frames\<close>

text \<open>\<open>struct.pack("!I", n)\<close> and \<open>struct.unpack("!I", raw)\<close>.\<close>

definition pack32 :: "nat \<Rightarrow> string" where
  "pack32 n =
     (let b = n div 256; c = b div 256; d = c div 256
      in [char_of (d mod 256), char_of (c mod 256), char_of (b mod 256), char_of (n mod 256)])"

definition unpack32 :: "string \<Rightarrow> nat res" where
  "unpack32 raw =
     (case raw of
        [a, b, c, d] \<Rightarrow> Inr (((ord a * 256 + ord b) * 256 + ord c) * 256 + ord d)
      | _ \<Rightarrow> Inl (Raised ''struct.error''))"

datatype control = Credentials int int int | Rights "int list" | Unknown_control

record packet =
  pk_data :: string
  pk_control :: "control list"
  pk_truncated :: bool

type_synonym credentials = "int \<times> int \<times> int"

record channel =
  ch_recv :: "string list \<Rightarrow> nat \<Rightarrow> int \<Rightarrow> packet res"
  ch_clock :: "nat \<Rightarrow> rat"
  ch_broken :: bool
  ch_turns :: nat
  ch_sent :: "string list"
  ch_closed :: "int list"

type_synonym 'a speaking = "(channel, 'a) act"

definition read_clock :: "rat speaking" where
  "read_clock s = (Inr (ch_clock s (ch_turns s)), s\<lparr>ch_turns := Suc (ch_turns s)\<rparr>)"

definition recv_packet :: "int \<Rightarrow> packet speaking" where
  "recv_packet n s = (ch_recv s (ch_sent s) (ch_turns s) n, s\<lparr>ch_turns := Suc (ch_turns s)\<rparr>)"

fun found_credentials :: "control list \<Rightarrow> credentials list" where
  "found_credentials [] = []"
| "found_credentials (Credentials p u g # cs) = (p, u, g) # found_credentials cs"
| "found_credentials (_ # cs) = found_credentials cs"

fun received_descriptors :: "control list \<Rightarrow> int list" where
  "received_descriptors [] = []"
| "received_descriptors (Rights fds # cs) = fds @ received_descriptors cs"
| "received_descriptors (_ # cs) = received_descriptors cs"

definition unexpected_control :: "control list \<Rightarrow> bool" where
  "unexpected_control cs = list_ex (\<lambda>c. case c of Credentials _ _ _ \<Rightarrow> False | _ \<Rightarrow> True) cs"

text \<open>Who may write, from the packet and the writer of the parts before it.\<close>

definition root_writer :: "credentials option \<Rightarrow> packet \<Rightarrow> credentials option res" where
  "root_writer writer p =
     (case found_credentials (pk_control p) of
        [c] \<Rightarrow> if pk_truncated p \<or> unexpected_control (pk_control p) \<or> fst c \<le> 0 \<or> snd c \<noteq> (0, 0)
                  \<or> (writer \<noteq> None \<and> writer \<noteq> Some c) \<or> pk_data p = []
               then Inl DENIED else Inr (Some c)
      | _ \<Rightarrow> Inl DENIED)"

definition any_writer :: "credentials option \<Rightarrow> packet \<Rightarrow> credentials option res" where
  "any_writer writer p = (if pk_data p = [] then Inl DENIED else Inr writer)"

fun receive_loop :: "err \<Rightarrow> (credentials option \<Rightarrow> packet \<Rightarrow> credentials option res) \<Rightarrow> rat \<Rightarrow> nat \<Rightarrow> int \<Rightarrow> string
    \<Rightarrow> credentials option \<Rightarrow> (string \<times> credentials option) speaking" where
  \<comment> \<open>every turn adds a byte, so as many turns as bytes are enough\<close>
  "receive_loop refusal writer_of deadline 0 wanted parts writer = ret (parts, writer)"
| "receive_loop refusal writer_of deadline (Suc n) wanted parts writer =
     (if wanted \<le> int (length parts) then ret (parts, writer)
      else abind read_clock (\<lambda>now.
           if deadline \<le> now then fail refusal
           else abind (recv_packet (wanted - int (length parts))) (\<lambda>p.
                abind (modify (\<lambda>s. s\<lparr>ch_closed := ch_closed s @ received_descriptors (pk_control p)\<rparr>)) (\<lambda>_.
                abind (lift (writer_of writer p)) (\<lambda>w.
                receive_loop refusal writer_of deadline n wanted (parts @ pk_data p) w)))))"

definition receive_parts :: "err \<Rightarrow> (credentials option \<Rightarrow> packet \<Rightarrow> credentials option res) \<Rightarrow> rat \<Rightarrow> int
    \<Rightarrow> credentials option \<Rightarrow> (string \<times> credentials option) speaking" where
  "receive_parts refusal writer_of deadline wanted = receive_loop refusal writer_of deadline (nat wanted) wanted []"

definition receive_frame :: "err \<Rightarrow> (credentials option \<Rightarrow> packet \<Rightarrow> credentials option res) \<Rightarrow> (string \<Rightarrow> val option) \<Rightarrow> rat
    \<Rightarrow> (val \<times> credentials option) speaking" where
  "receive_frame refusal writer_of loads deadline =
     abind (receive_parts refusal writer_of deadline 4 None) (\<lambda>(header, w1).
     abind (lift (unpack32 header)) (\<lambda>n.
     if n = 0 \<or> MAX_FRAME < int n then fail refusal
     else abind (receive_parts refusal writer_of deadline (int n) w1) (\<lambda>(raw, w2).
          abind (lift (rbind (expect (loads raw) ''invalid_json'' 400) decode_tree)) (\<lambda>v. ret (v, w2)))))"

definition send_frame :: "string \<Rightarrow> unit speaking" where
  "send_frame payload s =
     (if ch_broken s then (Inl (Raised ''OSError''), s)
      else (Inr (), s\<lparr>ch_sent := ch_sent s @ [pack32 (length payload) @ payload]\<rparr>))"

definition transfer :: "hashing \<Rightarrow> (string \<Rightarrow> val option) \<Rightarrow> val option \<Rightarrow> bool \<Rightarrow> (val \<times> credentials option) speaking" where
  "transfer h loads raw root_only =
     abind read_clock (\<lambda>now.
     abind (case raw of
              None \<Rightarrow> ret ()
            | Some v \<Rightarrow> abind (lift (rbind (canon (hs_frepr h) v) (\<lambda>s. Inr (utf8 s)))) (\<lambda>payload.
                        if MAX_FRAME < int (length payload) then fail DENIED else send_frame payload)) (\<lambda>_.
     receive_frame DENIED (if root_only then root_writer else any_writer) loads (now + 2)))"

subsection \<open>Decisions\<close>

definition decision_keys :: "string list" where
  "decision_keys = [''schema'', ''nonce'', ''context_sha256'', ''configuration_sha256'', ''profile'', ''policy_sha256'',
     ''issued_monotonic'', ''expires_monotonic'', ''decision'', ''guarantees'', ''receipt_sha256'']"

definition denied_unless :: "bool \<Rightarrow> unit res" where "denied_unless b = (if b then Inr () else Inl DENIED)"

definition nonzero_digest :: "val \<Rightarrow> bool" where
  "nonzero_digest v = (case as_str v of Some s \<Rightarrow> hex_string 64 s \<and> s \<noteq> replicate 64 (CHR ''0'') | None \<Rightarrow> False)"

definition proved_guarantee :: "val \<Rightarrow> unit res" where
  "proved_guarantee v =
     rbind (dict_fields v [''enforced'', ''verified'', ''evidence_sha256''] []) (\<lambda>d.
     denied_unless (get_or_none d ''enforced'' = VBool True \<and> get_or_none d ''verified'' = VBool True
       \<and> (\<exists>s\<in>set_option (as_str (get_or_none d ''evidence_sha256'')). hex_string 64 s)))"

definition matches_request :: "hashing \<Rightarrow> dict \<Rightarrow> dict \<Rightarrow> unit res" where
  "matches_request h reply request =
     rbind (denied_unless (get_or_none reply ''schema'' = VStr REPLY \<and> py_eq (get_or_none reply ''nonce'') (get_or_none request ''nonce'')
                           \<and> get_or_none reply ''decision'' = VStr ''permit'')) (\<lambda>_.
     rbind (digest h (get_or_none request ''context'')) (\<lambda>c.
     rbind (denied_unless (get_or_none reply ''context_sha256'' = VStr c)) (\<lambda>_.
     rbind (digest h (get_or_none request ''configuration'')) (\<lambda>g.
     rbind (denied_unless (get_or_none reply ''configuration_sha256'' = VStr g)) (\<lambda>_.
     rbind (present (as_dict (get_or_none request ''configuration'')) ''TypeError'') (\<lambda>config.
     rbind (sub_dict config ''os_profile'') (\<lambda>profile.
     rbind (item profile ''schema'') (\<lambda>schema.
     denied_unless (py_eq (get_or_none reply ''profile'') schema)))))))))"

definition check_guarantees :: "val \<Rightarrow> unit res" where
  "check_guarantees v =
     (case as_dict v of
        None \<Rightarrow> Inl DENIED
      | Some gs \<Rightarrow> rbind (denied_unless (set (keys gs) = set CHECKS)) (\<lambda>_. each (\<lambda>(_, x). proved_guarantee x) gs))"

definition validate_decision :: "hashing \<Rightarrow> val \<Rightarrow> dict \<Rightarrow> rat \<Rightarrow> dict res" where
  "validate_decision h v request now =
     rbind (dict_fields v decision_keys []) (\<lambda>reply.
     rbind (matches_request h reply request) (\<lambda>_.
     rbind (denied_unless (nonzero_digest (get_or_none reply ''policy_sha256'') \<and> nonzero_digest (get_or_none reply ''receipt_sha256''))) (\<lambda>_.
     rbind (fresh_window (get_or_none reply ''issued_monotonic'') (get_or_none reply ''expires_monotonic'') now 2) (\<lambda>fresh.
     rbind (denied_unless fresh) (\<lambda>_.
     rbind (check_guarantees (get_or_none reply ''guarantees'')) (\<lambda>_. Inr reply))))))"

subsection \<open>A session\<close>

record host =
  hs_dup :: "unit res"
  hs_socket :: "bool res"
  hs_peer :: "int \<times> int \<times> int"
  hs_uid_map :: "string res"
  hs_pid :: int
  hs_uid :: int
  hs_euid :: int
  hs_gid :: int
  hs_egid :: int
  hs_observe :: "dict res"
  hs_nonce :: string
  hs_channel :: channel

text \<open>\<open>se_open\<close> counts the duplicates of the descriptor that are open.\<close>

record verification_session =
  se_config :: dict
  se_descriptor :: val
  se_context :: "val option"
  se_writer :: "credentials option"
  se_policy :: "val option"
  se_open :: nat

definition unit_items :: "string \<Rightarrow> bool" where
  \<comment> \<open>the initial user namespace\<close>
  "unit_items raw = (words_of raw = [''0'', ''0'', ''4294967295''])"

definition own_identity :: "host \<Rightarrow> dict \<Rightarrow> dict \<Rightarrow> dict \<Rightarrow> bool res" where
  "own_identity w profile context status =
     rbind (item profile ''expected_uid'') (\<lambda>uid.
     rbind (item profile ''expected_gid'') (\<lambda>gid.
     rbind (item profile ''backend_uid'') (\<lambda>backend.
     Inr (py_eq (get_or_none context ''pid'') (VInt (hs_pid w)) \<and> hs_uid w = hs_euid w \<and> hs_gid w = hs_egid w
          \<and> py_eq (VInt (hs_euid w)) uid \<and> py_eq (VInt (hs_egid w)) gid \<and> hs_euid w \<noteq> 0 \<and> hs_egid w \<noteq> 0
          \<and> \<not> py_eq (VInt (hs_euid w)) backend
          \<and> py_eq (get_or_none status ''Uid'') (four uid) \<and> py_eq (get_or_none status ''Gid'') (four gid)
          \<and> py_eq (get_or_none status ''NoNewPrivs'') (VInt 1)
          \<and> list_all (\<lambda>k. py_eq (get_or_none status k) (VInt 0)) CAPABILITY_SETS))))"

definition own_context :: "hashing \<Rightarrow> host \<Rightarrow> dict \<Rightarrow> val res" where
  \<comment> \<open>the observations of this very process, or a refusal\<close>
  "own_context h w config =
     rbind (hs_observe w) (\<lambda>observations.
     rbind (denied_unless (get_or_none observations ''synthetic'' = VBool False \<and> get_or_none observations ''stable'' = VBool True
                           \<and> \<not> truthy (get_or_none observations ''unavailable''))) (\<lambda>_.
     rbind (item observations ''process'') (\<lambda>context0.
     rbind (sub_dict config ''os_profile'') (\<lambda>profile.
     rbind (attribute_dict context0) (\<lambda>context.
     rbind (attribute_dict (or_default (get_or_none context ''status'') (VDict []))) (\<lambda>status.
     rbind (own_identity w profile context status) (\<lambda>ok.
     rbind (digest h (VDict config)) (\<lambda>d.
     rbind (denied_unless (ok \<and> get_or_none observations ''configuration_sha256'' = VStr d)) (\<lambda>_.
     Inr context0)))))))))"

definition check_peer :: "host \<Rightarrow> unit res" where
  "check_peer w =
     rbind (hs_socket w) (\<lambda>unix_stream.
     rbind (denied_unless unix_stream) (\<lambda>_.
     (case hs_peer w of (pid, uid, gid) \<Rightarrow>
        rbind (denied_unless (0 < pid \<and> uid = 0 \<and> gid = 0)) (\<lambda>_.
        rbind (hs_uid_map w) (\<lambda>m. denied_unless (unit_items m))))))"

definition same_context :: "hashing \<Rightarrow> val option \<Rightarrow> val \<Rightarrow> unit res" where
  "same_context h pinned context =
     (case pinned of None \<Rightarrow> Inr ()
      | Some p \<Rightarrow> rbind (digest h p) (\<lambda>a. rbind (digest h context) (\<lambda>b. denied_unless (a = b))))"

definition exchange :: "hashing \<Rightarrow> (string \<Rightarrow> val option) \<Rightarrow> dict \<Rightarrow> (dict \<times> credentials option) speaking" where
  \<comment> \<open>send the request, receive the decision of root, validate it at the time it is there\<close>
  "exchange h loads request =
     abind (transfer h loads (Some (VDict request)) True) (\<lambda>(v, writer).
     abind read_clock (\<lambda>now.
     abind (lift (validate_decision h v request now)) (\<lambda>reply. ret (reply, writer))))"

definition request_of :: "host \<Rightarrow> dict \<Rightarrow> val \<Rightarrow> dict" where
  "request_of w config context =
     [(''schema'', VStr REQUEST), (''nonce'', VStr (hs_nonce w)), (''configuration'', VDict config), (''context'', context)]"

definition pinned :: "'a option \<Rightarrow> 'a \<Rightarrow> bool" where "pinned p x = (p = None \<or> p = Some x)"

definition check_body :: "hashing \<Rightarrow> (string \<Rightarrow> val option) \<Rightarrow> host \<Rightarrow> verification_session
    \<Rightarrow> (val \<times> credentials \<times> val) res" where
  \<comment> \<open>what the \<open>with\<close> block computes before it assigns the fields\<close>
  "check_body h loads w s =
     rbind (check_peer w) (\<lambda>_.
     rbind (own_context h w (se_config s)) (\<lambda>context.
     rbind (same_context h (se_context s) context) (\<lambda>_.
     rbind (fst (exchange h loads (request_of w (se_config s) context) (hs_channel w))) (\<lambda>(reply, writer0).
     rbind (expect writer0 ''os_isolation_not_verified'' 503) (\<lambda>writer.
     rbind (denied_unless (pinned (se_writer s) writer \<and> pinned (se_policy s) (get_or_none reply ''policy_sha256''))) (\<lambda>_.
     Inr (context, writer, get_or_none reply ''policy_sha256'')))))))"

definition refused_as :: "err \<Rightarrow> err" where
  "refused_as e =
     (case e of Problem _ _ \<Rightarrow> DENIED
      | Raised n \<Rightarrow> if n \<in> {''OSError'', ''FileNotFoundError'', ''PermissionError'', ''ValueError'', ''UnicodeError'', ''TypeError'',
                           ''KeyError'', ''AttributeError'', ''struct.error''} then DENIED else e)"

definition valid_descriptor :: "val \<Rightarrow> bool" where
  "valid_descriptor v = (case as_int v of Some i \<Rightarrow> 3 \<le> i \<and> i \<le> 1024 | None \<Rightarrow> False)"

definition open_duplicate :: "host \<Rightarrow> (verification_session, unit) act" where
  "open_duplicate w s =
     (case hs_dup w of Inl e \<Rightarrow> (Inl e, s) | Inr _ \<Rightarrow> (Inr (), s\<lparr>se_open := Suc (se_open s)\<rparr>))"

definition close_duplicate :: "(verification_session, unit) act" where
  "close_duplicate = modify (\<lambda>s. s\<lparr>se_open := se_open s - 1\<rparr>)"

definition session_check :: "hashing \<Rightarrow> (string \<Rightarrow> val option) \<Rightarrow> host \<Rightarrow> (verification_session, unit) act" where
  \<comment> \<open>the duplicate is closed by the socket or by the \<open>finally\<close> clause, whatever happens in between\<close>
  "session_check h loads w s =
     (case abind (lift (denied_unless (valid_descriptor (se_descriptor s)))) (\<lambda>_. open_duplicate w) s of
        (Inl e, s1) \<Rightarrow> (Inl (refused_as e), s1)
      | (Inr _, s1) \<Rightarrow>
          (case check_body h loads w s1 of
             Inl e \<Rightarrow> (Inl (refused_as e), snd (close_duplicate s1))
           | Inr (context, writer, p) \<Rightarrow>
               (Inr (), snd (close_duplicate (s1\<lparr>se_context := Some context, se_writer := Some writer, se_policy := Some p\<rparr>)))))"

definition new_session :: "val \<Rightarrow> val \<Rightarrow> verification_session res" where
  "new_session config0 descriptor =
     rbind (configuration config0) (\<lambda>config.
     Inr \<lparr>se_config = config, se_descriptor = descriptor, se_context = None, se_writer = None, se_policy = None, se_open = 0\<rparr>)"

definition require_isolation :: "hashing \<Rightarrow> (string \<Rightarrow> val option) \<Rightarrow> host \<Rightarrow> val \<Rightarrow> val \<Rightarrow> verification_session res" where
  "require_isolation h loads w config descriptor =
     rbind (new_session config descriptor) (\<lambda>s.
     (case session_check h loads w s of (Inl e, _) \<Rightarrow> Inl e | (Inr _, s') \<Rightarrow> Inr s'))"

end
