(* ===== verification/Verifier.thy ===== *)
theory Verifier
  imports Verification_Channel
begin

section \<open>pepeuch_worker/verifier.py and isolation.py: the diagnostic controller\<close>

text \<open>
  The properties of a systemd unit, the request of a worker with the credentials the kernel attaches, and the
  one answer of the diagnostic controller, which is always a denial. \<open>inspect\<close> is the report of
  \<open>isolation.py\<close>. \<open>systemctl\<close> is a parameter: the code and the output of the fixed command, or its error.
\<close>

subsection \<open>The unit\<close>

definition UNIT_NAMES :: "string list" where
  "UNIT_NAMES = [''Id'', ''MainPID'', ''ControlGroup'', ''InvocationID'', ''KillMode'', ''RuntimeMaxUSec'', ''TimeoutStopUSec'']"

fun unit_lines :: "string list \<Rightarrow> dict \<Rightarrow> dict res" where
  "unit_lines [] d = Inr d"
| "unit_lines (line # rest) d =
     (let key = before_char (CHR ''='') line in
      rbind (ensure (CHR ''='' \<in> set line \<and> key \<in> set UNIT_NAMES \<and> map_of d key = None) ''invalid_unit_observation'' 400) (\<lambda>_.
      unit_lines rest (d @ [(key, VStr (after_char (CHR ''='') line))])))"

definition unit_metadata :: "(string \<Rightarrow> (int \<times> string) res) \<Rightarrow> val \<Rightarrow> dict res" where
  "unit_metadata systemctl v =
     rbind (expect (as_str v) ''invalid_unit_observation'' 400) (\<lambda>unit.
     rbind (ensure (unit_name unit) ''invalid_unit_observation'' 400) (\<lambda>_.
     (case systemctl unit of
        Inl _ \<Rightarrow> bad ''unit_observation_unavailable''
      | Inr (code, out) \<Rightarrow>
          rbind (ensure (code = 0 \<and> int (length out) \<le> 16384) ''unit_observation_unavailable'' 400) (\<lambda>_.
          rbind (unit_lines (lines_of out) []) (\<lambda>d.
          rbind (ensure (set (keys d) = set UNIT_NAMES) ''unit_observation_unavailable'' 400) (\<lambda>_. Inr d))))))"

subsection \<open>The request of a worker\<close>

definition REFUSED :: err where "REFUSED = Problem ''verifier_request_refused'' 400"

definition peer_writer :: "credentials option \<Rightarrow> packet \<Rightarrow> credentials option res" where
  "peer_writer writer p =
     (case found_credentials (pk_control p) of
        [c] \<Rightarrow> if pk_data p = [] \<or> pk_truncated p \<or> unexpected_control (pk_control p) \<or> (writer \<noteq> None \<and> writer \<noteq> Some c)
               then Inl REFUSED else Inr (Some c)
      | _ \<Rightarrow> Inl REFUSED)"

definition receive_authenticated_request :: "(string \<Rightarrow> val option) \<Rightarrow> (val \<times> credentials option) speaking" where
  "receive_authenticated_request loads = abind read_clock (\<lambda>now. receive_frame REFUSED peer_writer loads (now + 2))"

subsection \<open>The answer\<close>

record controller =
  co_channel :: channel
  co_kernel :: kernel

definition on_channel :: "'a speaking \<Rightarrow> (controller, 'a) act" where
  "on_channel m s = (case m (co_channel s) of (r, c) \<Rightarrow> (r, s\<lparr>co_channel := c\<rparr>))"

definition on_kernel :: "'a observing \<Rightarrow> (controller, 'a) act" where
  "on_kernel m s = (case m (co_kernel s) of (r, k) \<Rightarrow> (r, s\<lparr>co_kernel := k\<rparr>))"

definition checked_request :: "hashing \<Rightarrow> dict \<Rightarrow> val \<Rightarrow> credentials \<Rightarrow> dict res" where
  "checked_request h config v credentials =
     rbind (dict_fields v [''schema'', ''nonce'', ''configuration'', ''context''] []) (\<lambda>request.
     rbind (if get_or_none request ''schema'' \<noteq> VStr REQUEST then Inl REFUSED else Inr ()) (\<lambda>_.
     rbind (sub_dict config ''os_profile'') (\<lambda>profile.
     rbind (item profile ''expected_uid'') (\<lambda>uid.
     rbind (item profile ''expected_gid'') (\<lambda>gid.
     rbind (if \<not> py_eq (VInt (fst (snd credentials))) uid \<or> \<not> py_eq (VInt (snd (snd credentials))) gid then Inl REFUSED else Inr ()) (\<lambda>_.
     rbind (digest h (get_or_none request ''configuration'')) (\<lambda>a.
     rbind (digest h (VDict config)) (\<lambda>b.
     rbind (if a \<noteq> b \<or> (\<forall>s\<in>set_option (as_str (get_or_none request ''nonce'')). length s \<noteq> 64) then Inl REFUSED else Inr ()) (\<lambda>_.
     Inr request)))))))))"

definition with_unit :: "dict \<Rightarrow> dict res \<Rightarrow> dict res" where
  \<comment> \<open>the unit's properties become an observation, or one more unavailable one\<close>
  "with_unit actual unit =
     (case unit of
        Inr u \<Rightarrow> rbind (sub_dict actual ''applied'') (\<lambda>a. Inr (put_key ''applied'' (VDict (put_key ''systemd'' (VDict u) a)) actual))
      | Inl e \<Rightarrow>
          if observed e
          then rbind (item actual ''unavailable'') (\<lambda>v. rbind (present (as_list v) ''AttributeError'') (\<lambda>xs.
               Inr (put_key ''unavailable'' (VList (xs @ [VStr ''unit_metadata''])) actual)))
          else Inl e)"

definition denial :: "dict \<Rightarrow> dict \<Rightarrow> string \<Rightarrow> string \<Rightarrow> string \<Rightarrow> rat \<Rightarrow> val \<Rightarrow> val" where
  "denial request requested context_digest config_digest policy_digest now guarantees =
     VDict [(''schema'', VStr REPLY), (''nonce'', get_or_none request ''nonce''), (''context_sha256'', VStr context_digest),
       (''configuration_sha256'', VStr config_digest), (''profile'', get_or_none requested ''profile''),
       (''policy_sha256'', VStr policy_digest), (''receipt_sha256'', VStr (replicate 64 (CHR ''0''))),
       (''issued_monotonic'', VFloat (Fin now)), (''expires_monotonic'', VFloat (Fin (now + 1))),
       (''decision'', VStr ''deny''), (''guarantees'', guarantees)]"

definition guarantees_of :: "val \<Rightarrow> val res" where
  "guarantees_of assessment0 = rbind (present (as_dict assessment0) ''TypeError'') (\<lambda>a. item a ''guarantees'')"

definition diagnose :: "hashing \<Rightarrow> (string \<Rightarrow> (int \<times> string) res) \<Rightarrow> (int \<Rightarrow> dict observing) \<Rightarrow> dict \<Rightarrow> dict
    \<Rightarrow> val \<Rightarrow> credentials \<Rightarrow> (controller, val) act" where
  \<comment> \<open>the body of the loop between the request and the frame of the response\<close>
  "diagnose h systemctl observer config requested v credentials =
     abind (lift (checked_request h config v credentials)) (\<lambda>request.
     abind (on_kernel (observer (fst credentials))) (\<lambda>actual.
     abind (lift (item actual ''process'')) (\<lambda>process.
     abind (lift (digest h process)) (\<lambda>pd.
     abind (lift (digest h (get_or_none request ''context''))) (\<lambda>cd.
     abind (if pd \<noteq> cd then fail REFUSED else ret ()) (\<lambda>_.
     abind (lift (with_unit actual (unit_metadata systemctl (get_or_none requested ''unit'')))) (\<lambda>actual'.
     abind (on_channel read_clock) (\<lambda>now0.
     abind (lift (assess h config (VDict requested) actual' VNull now0)) (\<lambda>assessment0.
     abind (on_channel read_clock) (\<lambda>now.
     abind (lift (digest h (VDict config))) (\<lambda>gd.
     abind (lift (digest h (VDict requested))) (\<lambda>rd.
     abind (lift (guarantees_of assessment0)) (\<lambda>gs.
     ret (denial request requested pd gd rd now gs))))))))))))))"

definition serve_diagnostic :: "hashing \<Rightarrow> (string \<Rightarrow> val option) \<Rightarrow> (string \<Rightarrow> (int \<times> string) res) \<Rightarrow> (int \<Rightarrow> dict observing)
    \<Rightarrow> int \<Rightarrow> dict \<Rightarrow> dict \<Rightarrow> (controller, unit) act" where
  \<comment> \<open>the loop ends with its first response, so it is its first turn\<close>
  "serve_diagnostic h loads systemctl observer euid config requested =
     abind (lift (if euid \<noteq> 0 then Inl (Problem ''independent_root_controller_required'' 400) else Inr ())) (\<lambda>_.
     abind (on_channel read_clock) (\<lambda>start.
     abind (on_channel read_clock) (\<lambda>now.
     if start + 55 \<le> now then ret ()
     else abind (on_channel (receive_authenticated_request loads)) (\<lambda>(v, writer).
          abind (lift (present writer ''TypeError'')) (\<lambda>credentials.
          abind (diagnose h systemctl observer config requested v credentials) (\<lambda>response.
          abind (lift (rbind (canon (hs_frepr h) response) (\<lambda>s. Inr (utf8 s)))) (\<lambda>raw.
          on_channel (send_frame raw))))))))"

subsection \<open>The report of isolation.py\<close>

definition local_only :: string where "local_only = ''local observation only; no independent authority authenticated''"
definition not_verified :: string where "not_verified = ''NOT VERIFIED: requires authorized OS negative tests''"

definition declared_properties :: "dict \<Rightarrow> (string \<times> val) list" where
  "declared_properties config =
     [(''account_exclusivity'', VStr ''dedicated account, no backend supplementary groups''),
      (''privileges'', VStr ''NoNewPrivileges, empty permitted/effective/bounding capabilities''),
      (''filesystem'', VStr ''host read-only, backend inaccessible, only own work/tmp writable''),
      (''devices'', VStr ''no GPU or Docker socket''),
      (''network'', VDict [(''backend_url'', get_or_none config ''backend_url''), (''provider_network'', VBool False)]),
      (''cpu'', VStr ''CPUQuota=50%''), (''memory'', VStr ''MemoryMax=128M, MemorySwapMax=0''),
      (''processes'', VStr ''TasksMax=8''), (''temporary_directory'', VStr ''PrivateTmp=yes''),
      (''runtime_and_group_stop'', VStr ''RuntimeMaxSec=55s, KillMode=control-group, TimeoutStopSec=5s'')]"

record identity_of_process =
  ip_pid :: int
  ip_uid :: int
  ip_euid :: int
  ip_gid :: int
  ip_egid :: int
  ip_groups :: "int list"

definition separate :: "identity_of_process \<Rightarrow> dict \<Rightarrow> bool res" where
  "separate p profile =
     rbind (item profile ''expected_uid'') (\<lambda>uid.
     rbind (item profile ''expected_gid'') (\<lambda>gid.
     rbind (item profile ''backend_uid'') (\<lambda>backend.
     Inr (ip_uid p = ip_euid p \<and> py_eq (VInt (ip_euid p)) uid \<and> \<not> py_eq uid (VInt 0)
          \<and> ip_gid p = ip_egid p \<and> py_eq (VInt (ip_egid p)) gid \<and> \<not> py_eq gid (VInt 0) \<and> \<not> py_eq (VInt (ip_uid p)) backend))))"

definition shown_status_keys :: "string list" where
  "shown_status_keys = [''Uid'', ''Gid'', ''Groups'', ''CapInh'', ''CapPrm'', ''CapEff'', ''CapBnd'', ''CapAmb'', ''NoNewPrivs'', ''Seccomp'']"

definition shown_status :: "string \<Rightarrow> string" where
  "shown_status raw = join_with NL (filter (\<lambda>l. hd (split_on (CHR '':'') l) \<in> set shown_status_keys) (lines_of raw))"

definition shown_file :: "(string \<Rightarrow> string) \<Rightarrow> string res \<Rightarrow> val res" where
  "shown_file show_text reading0 =
     (case reading0 of
        Inr raw \<Rightarrow> Inr (VStr (show_text (take 16384 raw)))
      | Inl (Raised n) \<Rightarrow> if n \<in> {''OSError'', ''FileNotFoundError'', ''PermissionError''} then Inr (VStr ''NOT AVAILABLE'') else Inl (Raised n)
      | Inl e \<Rightarrow> Inl e)"

definition inspect :: "identity_of_process \<Rightarrow> string res \<Rightarrow> string res \<Rightarrow> dict res \<Rightarrow> dict \<Rightarrow> val res" where
  "inspect p status_text cgroup_text evidence config =
     rbind (sub_dict config ''os_profile'') (\<lambda>profile.
     rbind (separate p profile) (\<lambda>sep.
     rbind (make_property (VDict profile) (VBool sep) (VBool False) local_only) (\<lambda>process_identity.
     rbind (collect (\<lambda>(n, d). rbind (make_property d VNull (VBool False) not_verified) (\<lambda>q. Inr (n, property_dict q)))
              (declared_properties config)) (\<lambda>others.
     rbind (shown_file shown_status status_text) (\<lambda>st.
     rbind (shown_file (\<lambda>s. s) cgroup_text) (\<lambda>cg.
     rbind (item profile ''schema'') (\<lambda>schema.
     rbind evidence (\<lambda>linux.
     Inr (VDict [(''schema'', VStr EVIDENCE_SCHEMA), (''profile'', schema), (''status'', VStr ''NOT VERIFIED''),
            (''properties'', VDict ((''process_identity'', property_dict process_identity) # others)),
            (''observations'', VDict [(''pid'', VInt (ip_pid p)), (''uid'', VInt (ip_uid p)), (''gid'', VInt (ip_gid p)),
               (''groups'', VList (map VInt (ip_groups p))), (''process_status'', st), (''cgroup_membership'', cg)]),
            (''linux_evidence'', VDict linux), (''authority'', VStr ''not_authenticated'')])))))))))"

end
