(* ===== verification/Isolation_Guarantees.thy ===== *)
theory Isolation_Guarantees
  imports Verifier
begin

section \<open>What the isolation channel and the diagnostic verifier guarantee\<close>

lemma denied_unless_Inr [simp]: "denied_unless b = Inr u \<longleftrightarrow> b"
  by (simp add: denied_unless_def)

subsection \<open>A denial is never taken for a permit\<close>

lemma validate_decision_permit:
  assumes "validate_decision h v request now = Inr reply"
  shows "v = VDict reply \<and> get_or_none reply ''decision'' = VStr ''permit''"
  using assms by (auto simp: validate_decision_def matches_request_def fields_Inr)

lemma denial_refused: "validate_decision h (denial request requested c g p now gs) request' now' \<noteq> Inr reply"
proof
  assume "validate_decision h (denial request requested c g p now gs) request' now' = Inr reply"
  from validate_decision_permit [OF this] show False
    by (auto simp: denial_def get_or_none_def split: option.splits)
qed

lemma diagnose_denies:
  assumes "diagnose h systemctl observer config requested v credentials s = (Inr response, s')"
  shows "\<exists>request c g p now gs. response = denial request requested c g p now gs"
proof -
  from assms have "\<exists>request c g p now gs. Inr response = (Inr (denial request requested c g p now gs) :: val res)"
    by (simp add: diagnose_def act_simps split: if_splits) metis
  then show ?thesis by simp
qed

lemma keeps_on_channel: "keeps P m \<Longrightarrow> keeps (\<lambda>s. P (co_channel s)) (on_channel m)"
  by (auto simp: keeps_def on_channel_def split: prod.splits)

lemma keeps_on_kernel [keeps_intros]: "keeps (\<lambda>s. P (co_channel s)) (on_kernel m)"
  by (auto simp: keeps_def on_kernel_def split: prod.splits)

lemma sent_read_clock [keeps_intros]: "keeps (\<lambda>c. ch_sent c = S) read_clock"
  and sent_recv_packet [keeps_intros]: "keeps (\<lambda>c. ch_sent c = S) (recv_packet n)"
  by (simp_all add: keeps_def read_clock_def recv_packet_def)

lemma sent_receive_loop [keeps_intros]: "keeps (\<lambda>c. ch_sent c = S) (receive_loop e f deadline n wanted parts writer)"
proof (induction n arbitrary: parts writer)
  case 0
  then show ?case by (simp add: keeps_def ret_def)
next
  case (Suc n)
  have "keeps (\<lambda>c. ch_sent c = S) (modify (\<lambda>s. s\<lparr>ch_closed := ch_closed s @ xs\<rparr>))" for xs
    by (simp add: keeps_modify)
  with Suc show ?case by (auto intro!: keeps_intros)
qed

lemma keeps_case_prod [keeps_intros]: "(\<And>a b. keeps P (f a b)) \<Longrightarrow> keeps P (case p of (a, b) \<Rightarrow> f a b)"
  by (cases p) simp

lemma sent_receive_frame [keeps_intros]: "keeps (\<lambda>c. ch_sent c = S) (receive_frame e f loads deadline)"
  unfolding receive_frame_def receive_parts_def by (intro keeps_intros)

lemma sent_receive_request [keeps_intros]: "keeps (\<lambda>c. ch_sent c = S) (receive_authenticated_request loads)"
  unfolding receive_authenticated_request_def by (intro keeps_intros)

lemma sent_diagnose [keeps_intros]:
  "keeps (\<lambda>s. ch_sent (co_channel s) = S) (diagnose h systemctl observer config requested v credentials)"
  unfolding diagnose_def by (intro keeps_intros keeps_on_channel [where P = "\<lambda>c. ch_sent c = S"])

definition frame_of :: "string \<Rightarrow> string" where "frame_of payload = pack32 (length payload) @ payload"

lemma abind_assoc: "abind (abind m f) g = abind m (\<lambda>x. abind (f x) g)"
  by (rule ext) (auto simp: abind_def split: prod.splits sum.splits)

lemma abind_if: "abind (if b then m else n) f = (if b then abind m f else abind n f)"
  by simp

lemma abind_ret: "abind (ret x) f = f x"
  by (rule ext) (simp add: abind_def ret_def)

text \<open>The loop up to the frame of the response: it sends nothing.\<close>

definition prepare_response :: "hashing \<Rightarrow> (string \<Rightarrow> val option) \<Rightarrow> (string \<Rightarrow> (int \<times> string) res) \<Rightarrow> (int \<Rightarrow> dict observing)
    \<Rightarrow> int \<Rightarrow> dict \<Rightarrow> dict \<Rightarrow> (controller, (val \<times> string) option) act" where
  "prepare_response h loads systemctl observer euid config requested =
     abind (lift (if euid \<noteq> 0 then Inl (Problem ''independent_root_controller_required'' 400) else Inr ())) (\<lambda>_.
     abind (on_channel read_clock) (\<lambda>start.
     abind (on_channel read_clock) (\<lambda>now.
     if start + 55 \<le> now then ret None
     else abind (on_channel (receive_authenticated_request loads)) (\<lambda>(v, writer).
          abind (lift (present writer ''TypeError'')) (\<lambda>credentials.
          abind (diagnose h systemctl observer config requested v credentials) (\<lambda>response.
          abind (lift (rbind (canon (hs_frepr h) response) (\<lambda>s. Inr (utf8 s)))) (\<lambda>raw. ret (Some (response, raw)))))))))"

lemma serve_diagnostic_split:
  "serve_diagnostic h loads systemctl observer euid config requested
     = abind (prepare_response h loads systemctl observer euid config requested)
         (\<lambda>x. case x of None \<Rightarrow> ret () | Some (response, raw) \<Rightarrow> on_channel (send_frame raw))"
  by (simp add: serve_diagnostic_def prepare_response_def abind_assoc abind_ret abind_if case_prod_beta' cong: if_cong)

lemma prepare_response_silent:
  assumes "prepare_response h loads systemctl observer euid config requested s = (x, s')"
  shows "ch_sent (co_channel s') = ch_sent (co_channel s)"
proof -
  have k: "keeps (\<lambda>s. ch_sent (co_channel s) = S) (prepare_response h loads systemctl observer euid config requested)" for S
    unfolding prepare_response_def by (intro keeps_intros keeps_on_channel [where P = "\<lambda>c. ch_sent c = S"])
  show ?thesis by (rule keepsD [OF k refl assms])
qed

lemma prepare_response_denies:
  assumes "prepare_response h loads systemctl observer euid config requested s = (Inr (Some (response, raw)), s')"
  obtains t where "canon (hs_frepr h) response = Inr t" "raw = utf8 t"
    "\<And>h' request now. \<not> is_ok (validate_decision h' response request now)"
proof -
  from assms obtain v c s2 s3 t where "diagnose h systemctl observer config requested v c s2 = (Inr response, s3)"
    and t: "canon (hs_frepr h) response = Inr t" "raw = utf8 t"
    by (auto simp: prepare_response_def act_simps split: if_splits)
  then have "\<not> is_ok (validate_decision h' response request now)" for h' request now
    using diagnose_denies [of h systemctl observer config requested v c s2 response s3] denial_refused
    by (auto simp: is_ok_conv)
  with t that show thesis by blast
qed

text \<open>
  C24. The diagnostic controller never issues a permit: whatever it is asked and whatever it observes, it
  sends nothing, or one frame holding a decision that no worker accepts, for any request and at any time.
\<close>
theorem diagnostic_never_permits:
  "case serve_diagnostic h loads systemctl observer euid config requested s of (r, s') \<Rightarrow>
     ch_sent (co_channel s') = ch_sent (co_channel s)
     \<or> (\<exists>response t. ch_sent (co_channel s') = ch_sent (co_channel s) @ [frame_of (utf8 t)] \<and> canon (hs_frepr h) response = Inr t
         \<and> (\<forall>h' request now. is_ok (validate_decision h' response request now) = False))"
proof -
  obtain r s' where run: "serve_diagnostic h loads systemctl observer euid config requested s = (r, s')" by fastforce
  obtain x s1 where b: "prepare_response h loads systemctl observer euid config requested s = (x, s1)" by fastforce
  note same = prepare_response_silent [OF b]
  show ?thesis
  proof (cases "\<exists>response raw. x = Inr (Some (response, raw))")
    case True
    then obtain response raw where x: "x = Inr (Some (response, raw))" by blast
    obtain t where t: "canon (hs_frepr h) response = Inr t" "raw = utf8 t"
        "\<And>h' request now. \<not> is_ok (validate_decision h' response request now)"
      using prepare_response_denies [OF b [unfolded x]] by blast
    have "ch_sent (co_channel s') = ch_sent (co_channel s1) \<or> ch_sent (co_channel s') = ch_sent (co_channel s1) @ [frame_of raw]"
      using run b x
      by (auto simp: serve_diagnostic_split abind_def on_channel_def send_frame_def frame_of_def split: if_splits)
    moreover have "\<forall>h' request now. is_ok (validate_decision h' response request now) = False" using t(3) by simp
    ultimately show ?thesis unfolding run prod.case same t(2) using t(1) by blast
  next
    case False
    then have "ch_sent (co_channel s') = ch_sent (co_channel s1)"
      using run b by (auto simp: serve_diagnostic_split abind_def ret_def split: sum.splits option.splits)
    with same run show ?thesis by simp
  qed
qed

subsection \<open>What a successful check has established\<close>

definition root_peer :: "credentials \<Rightarrow> bool" where "root_peer c = (0 < fst c \<and> snd c = (0, 0))"

lemma root_writer_Inr: "root_writer w p = Inr w' \<Longrightarrow> \<exists>c. w' = Some c \<and> root_peer c"
  by (auto simp: root_writer_def root_peer_def split: list.splits if_splits)

lemma receive_loop_root:
  assumes "receive_loop e root_writer deadline n wanted parts writer s = (Inr (raw, w), s')" "\<forall>c. writer = Some c \<longrightarrow> root_peer c"
  shows "(\<forall>c. w = Some c \<longrightarrow> root_peer c) \<and> (w = None \<longrightarrow> writer = None)"
  using assms
proof (induction n arbitrary: parts writer s)
  case 0
  then show ?case by (auto simp: ret_def)
next
  case (Suc n)
  show ?case
  proof (cases "wanted \<le> int (length parts)")
    case True
    with Suc.prems show ?thesis by (auto simp: ret_def)
  next
    case False
    with Suc.prems obtain p w1 s1 where w1: "root_writer writer p = Inr w1"
      and rest: "receive_loop e root_writer deadline n wanted (parts @ pk_data p) w1 s1 = (Inr (raw, w), s')"
      by (auto simp: act_simps split: if_splits)
    from root_writer_Inr [OF w1] obtain c where c: "w1 = Some c" "root_peer c" by blast
    from Suc.IH [OF rest] c show ?thesis by auto
  qed
qed

lemma receive_frame_root:
  assumes "receive_frame e root_writer loads deadline s = (Inr (v, w), s')"
  shows "\<forall>c. w = Some c \<longrightarrow> root_peer c"
proof -
  from assms obtain hd w1 s1 n raw s2 where
    1: "receive_loop e root_writer deadline 4 4 [] None s = (Inr (hd, w1), s1)" and
    2: "receive_loop e root_writer deadline n (int n) [] w1 s1 = (Inr (raw, w), s2)"
    by (auto simp: receive_frame_def receive_parts_def act_simps split: if_splits)
  from receive_loop_root [OF 1] have "\<forall>c. w1 = Some c \<longrightarrow> root_peer c" by simp
  from receive_loop_root [OF 2 this] show ?thesis by simp
qed

lemma exchange_Inr:
  assumes "fst (exchange h loads request s) = Inr (reply, w)"
  obtains after where "transfer h loads (Some (VDict request)) True s = (Inr (VDict reply, w), after)"
    "validate_decision h (VDict reply) request (ch_clock after (ch_turns after)) = Inr reply" "\<forall>c. w = Some c \<longrightarrow> root_peer c"
proof -
  obtain s' where "exchange h loads request s = (Inr (reply, w), s')" using assms by (metis prod.collapse)
  then obtain v s1 where t: "transfer h loads (Some (VDict request)) True s = (Inr (v, w), s1)"
    and d: "validate_decision h v request (ch_clock s1 (ch_turns s1)) = Inr reply"
    by (auto simp: exchange_def act_simps read_clock_def)
  from t obtain deadline s3 where "receive_frame DENIED root_writer loads deadline s3 = (Inr (v, w), s1)"
    by (auto simp: transfer_def act_simps)
  then have "\<forall>c. w = Some c \<longrightarrow> root_peer c" by (rule receive_frame_root)
  with t d validate_decision_permit [OF d] show ?thesis using that by auto
qed

lemma checked_guarantees:
  assumes "check_guarantees v = Inr ()"
  obtains gs where "v = VDict gs" "\<And>name. name \<in> set CHECKS \<Longrightarrow> \<exists>g. map_of gs name = Some (VDict g)
      \<and> map_of g ''enforced'' = Some (VBool True) \<and> map_of g ''verified'' = Some (VBool True)"
proof -
  from assms obtain gs where gs: "v = VDict gs" "set (keys gs) = set CHECKS" "\<forall>x\<in>set gs. is_ok (proved_guarantee (snd x))"
    by (auto simp: check_guarantees_def case_prod_beta' split: option.splits)
  show ?thesis
  proof (rule that [OF gs(1)])
    fix name assume "name \<in> set CHECKS"
    then have "name \<in> fst ` set gs" using gs(2) by (simp add: keys_def)
    then obtain x where x: "map_of gs name = Some x" by (metis map_of_eq_None_iff not_None_eq)
    from map_of_SomeD [OF x] gs(3) have "is_ok (proved_guarantee x)" by force
    with x show "\<exists>g. map_of gs name = Some (VDict g) \<and> map_of g ''enforced'' = Some (VBool True) \<and> map_of g ''verified'' = Some (VBool True)"
      by (auto simp: proved_guarantee_def is_ok_conv fields_Inr)
  qed
qed

lemma item_Inr: "item d k = Inr v \<longleftrightarrow> map_of d k = Some v"
  by (simp add: item_def split: option.splits)

lemma own_identity_True:
  assumes "own_identity w profile ctx status = Inr True"
  shows "py_eq (get_or_none ctx ''pid'') (VInt (hs_pid w)) \<and> hs_euid w \<noteq> 0 \<and> hs_egid w \<noteq> 0"
  using assms by (auto simp: own_identity_def item_Inr simp del: py_eq.simps)

lemma own_context_Inr:
  assumes "own_context h w config = Inr c"
  obtains observations ctx where "hs_observe w = Inr observations" "get_or_none observations ''synthetic'' = VBool False"
    "get_or_none observations ''stable'' = VBool True" "map_of observations ''process'' = Some c" "c = VDict ctx"
    "py_eq (get_or_none ctx ''pid'') (VInt (hs_pid w))" "hs_euid w \<noteq> 0" "hs_egid w \<noteq> 0"
proof -
  from assms obtain observations ctx profile status where o: "hs_observe w = Inr observations"
    "get_or_none observations ''synthetic'' = VBool False" "get_or_none observations ''stable'' = VBool True"
    "map_of observations ''process'' = Some c" "c = VDict ctx" and i: "own_identity w profile ctx status = Inr True"
    by (auto simp: own_context_def attribute_dict_def item_Inr)
  from own_identity_True [OF i] that o show ?thesis by blast
qed

definition root_socket :: "host \<Rightarrow> bool" where
  "root_socket w \<longleftrightarrow> (\<exists>pid. 0 < pid \<and> hs_peer w = (pid, 0, 0))
     \<and> (\<exists>t. hs_uid_map w = Inr t \<and> words_of t = [''0'', ''0'', ''4294967295''])"

definition own_observation :: "host \<Rightarrow> dict \<Rightarrow> dict \<Rightarrow> bool" where
  "own_observation w observations ctx \<longleftrightarrow> hs_observe w = Inr observations
     \<and> get_or_none observations ''synthetic'' = VBool False \<and> get_or_none observations ''stable'' = VBool True
     \<and> map_of observations ''process'' = Some (VDict ctx) \<and> py_eq (get_or_none ctx ''pid'') (VInt (hs_pid w))
     \<and> hs_euid w \<noteq> 0 \<and> hs_egid w \<noteq> 0"

definition proved_check :: "dict \<Rightarrow> string \<Rightarrow> bool" where
  "proved_check gs name \<longleftrightarrow> (\<exists>g. map_of gs name = Some (VDict g)
      \<and> map_of g ''enforced'' = Some (VBool True) \<and> map_of g ''verified'' = Some (VBool True))"

definition full_permit :: "hashing \<Rightarrow> string \<Rightarrow> dict \<Rightarrow> dict \<Rightarrow> dict \<Rightarrow> rat \<Rightarrow> bool" where
  "full_permit h nonce config ctx reply now \<longleftrightarrow> get_or_none reply ''decision'' = VStr ''permit'' \<and> get_or_none reply ''nonce'' = VStr nonce
     \<and> (\<exists>d. digest h (VDict ctx) = Inr d \<and> get_or_none reply ''context_sha256'' = VStr d)
     \<and> (\<exists>d. digest h (VDict config) = Inr d \<and> get_or_none reply ''configuration_sha256'' = VStr d)
     \<and> fresh_window (get_or_none reply ''issued_monotonic'') (get_or_none reply ''expires_monotonic'') now 2 = Inr True
     \<and> (\<exists>gs. get_or_none reply ''guarantees'' = VDict gs \<and> list_all (proved_check gs) CHECKS)"

lemma request_fields:
  "get_or_none (request_of w config c) ''nonce'' = VStr (hs_nonce w)"
  "get_or_none (request_of w config c) ''context'' = c"
  "get_or_none (request_of w config c) ''configuration'' = VDict config"
  by (simp_all add: request_of_def) (simp_all add: get_or_none_def)

lemma validated_is_full_permit:
  assumes "validate_decision h (VDict reply) (request_of w config (VDict ctx)) now = Inr reply"
  shows "full_permit h (hs_nonce w) config ctx reply now"
proof -
  from assms have "py_eq (get_or_none reply ''nonce'') (VStr (hs_nonce w))"
    by (auto simp: validate_decision_def matches_request_def fields_Inr request_fields simp del: get_or_none_eq)
  then have n: "get_or_none reply ''nonce'' = VStr (hs_nonce w)"
    by (cases "get_or_none reply ''nonce''") (auto split: val.splits option.splits)
  have g: "\<exists>gs. get_or_none reply ''guarantees'' = VDict gs \<and> list_all (proved_check gs) CHECKS"
    using assms by (auto simp: validate_decision_def fields_Inr proved_check_def list_all_iff elim!: checked_guarantees)
  have "get_or_none reply ''decision'' = VStr ''permit'' \<and> (\<exists>d. digest h (VDict ctx) = Inr d \<and> get_or_none reply ''context_sha256'' = VStr d)
      \<and> (\<exists>d. digest h (VDict config) = Inr d \<and> get_or_none reply ''configuration_sha256'' = VStr d)
      \<and> fresh_window (get_or_none reply ''issued_monotonic'') (get_or_none reply ''expires_monotonic'') now 2 = Inr True"
    using assms by (auto simp: validate_decision_def matches_request_def fields_Inr request_fields simp del: get_or_none_eq)
  with n g show ?thesis by (simp add: full_permit_def)
qed

lemma session_check_Inr:
  assumes "session_check h loads w s = (Inr u, s')"
  obtains c writer p s1 where "check_body h loads w s1 = Inr (c, writer, p)" "s1 = s\<lparr>se_open := Suc (se_open s)\<rparr>"
    "s' = s\<lparr>se_context := Some c, se_writer := Some writer, se_policy := Some p\<rparr>"
  using assms
  by (cases s) (auto simp: session_check_def close_duplicate_def modify_def open_duplicate_def act_simps abind_Inl
      split: prod.splits sum.splits)

text \<open>\<open>permitted_by s ctx reply writer after\<close>: the request for this configuration and context was sent on the
  channel of the host, the frame that came back through it is \<open>reply\<close>, every part of it carried the kernel's
  credentials \<open>writer\<close>, and it permits at \<open>ch_clock after (ch_turns after)\<close>, the reading of the clock the
  exchange takes when the frame is there.\<close>

definition permitted_by :: "hashing \<Rightarrow> (string \<Rightarrow> val option) \<Rightarrow> host \<Rightarrow> dict \<Rightarrow> dict \<Rightarrow> dict \<Rightarrow> credentials \<Rightarrow> channel \<Rightarrow> bool" where
  "permitted_by h loads w config ctx reply writer after \<longleftrightarrow>
     transfer h loads (Some (VDict (request_of w config (VDict ctx)))) True (hs_channel w) = (Inr (VDict reply, Some writer), after)
     \<and> root_peer writer \<and> full_permit h (hs_nonce w) config ctx reply (ch_clock after (ch_turns after))"

text \<open>
  C25. A check that returns has seen, for this very process: a peer socket opened by root of the initial
  namespace, stable real observations of itself under an identity that is not root's, and, in answer to the
  request it sent on its channel, a frame written by one root process. That frame is the decision: it has the
  nonce of the request and the digests of this configuration and of the observed context, it permits with
  every guarantee enforced and verified, and the clock read once the frame is there lies inside its window
  of at most two seconds. The context, the writer and the policy the session keeps are those.
\<close>
theorem permit_needs_root_proof:
  assumes "session_check h loads w s = (Inr u, s')"
  shows "\<exists>observations ctx writer reply after. root_socket w \<and> own_observation w observations ctx
     \<and> permitted_by h loads w (se_config s) ctx reply writer after \<and> se_context s' = Some (VDict ctx)
     \<and> se_writer s' = Some writer \<and> se_policy s' = Some (get_or_none reply ''policy_sha256'')"
proof -
  from assms obtain c writer p s1 where body: "check_body h loads w s1 = Inr (c, writer, p)"
    and s1: "s1 = s\<lparr>se_open := Suc (se_open s)\<rparr>"
    and s': "s' = s\<lparr>se_context := Some c, se_writer := Some writer, se_policy := Some p\<rparr>" by (rule session_check_Inr)
  from body s1 obtain reply w0 where peer: "check_peer w = Inr ()" and own: "own_context h w (se_config s) = Inr c"
    and ex: "fst (exchange h loads (request_of w (se_config s) c) (hs_channel w)) = Inr (reply, w0)"
    and w0: "w0 = Some writer" and p: "p = get_or_none reply ''policy_sha256''"
    by (auto simp: check_body_def)
  from own obtain observations ctx where o: "own_observation w observations ctx" "c = VDict ctx"
    by (rule own_context_Inr) (simp add: own_observation_def)
  from exchange_Inr [OF ex] obtain after where
    t: "transfer h loads (Some (VDict (request_of w (se_config s) c))) True (hs_channel w) = (Inr (VDict reply, w0), after)"
    and d: "validate_decision h (VDict reply) (request_of w (se_config s) c) (ch_clock after (ch_turns after)) = Inr reply"
    and root: "\<forall>c. w0 = Some c \<longrightarrow> root_peer c" by metis
  have "root_socket w"
    using peer by (auto simp: check_peer_def unit_items_def root_socket_def split: prod.splits)
  moreover have "permitted_by h loads w (se_config s) ctx reply writer after"
    using t d root w0 o(2) by (simp add: permitted_by_def validated_is_full_permit)
  ultimately have "root_socket w \<and> own_observation w observations ctx \<and> permitted_by h loads w (se_config s) ctx reply writer after
      \<and> se_context s' = Some (VDict ctx) \<and> se_writer s' = Some writer \<and> se_policy s' = Some (get_or_none reply ''policy_sha256'')"
    using o s' p by simp
  then show ?thesis by blast
qed

definition demo_hashing :: hashing where
  "demo_hashing = \<lparr>hs_sha = (\<lambda>_. replicate 64 (CHR ''a'')), hs_frepr = (\<lambda>_. ''0'')\<rparr>"

definition demo_status :: dict where
  "demo_status = [(''Uid'', four (VInt 7)), (''Gid'', four (VInt 8)), (''NoNewPrivs'', VInt 1), (''CapInh'', VInt 0), (''CapPrm'', VInt 0),
     (''CapEff'', VInt 0), (''CapBnd'', VInt 0), (''CapAmb'', VInt 0)]"

definition demo_observations :: dict where
  "demo_observations = [(''synthetic'', VBool False), (''stable'', VBool True), (''unavailable'', VList []),
     (''configuration_sha256'', VStr (replicate 64 (CHR ''a''))),
     (''process'', VDict [(''pid'', VInt 5), (''status'', VDict demo_status)])]"

definition demo_reply :: dict where
  "demo_reply = [(''schema'', VStr REPLY), (''nonce'', VStr ''n''), (''context_sha256'', VStr (replicate 64 (CHR ''a''))),
     (''configuration_sha256'', VStr (replicate 64 (CHR ''a''))), (''profile'', VStr CPU_PROFILE),
     (''policy_sha256'', VStr (replicate 64 (CHR ''b''))), (''issued_monotonic'', VInt 0), (''expires_monotonic'', VInt 1),
     (''decision'', VStr ''permit''), (''receipt_sha256'', VStr (replicate 64 (CHR ''c''))),
     (''guarantees'', VDict (map (\<lambda>name. (name, VDict [(''enforced'', VBool True), (''verified'', VBool True),
        (''evidence_sha256'', VStr (replicate 64 (CHR ''d'')))])) CHECKS))]"

definition demo_channel :: channel where
  "demo_channel = \<lparr>ch_recv = (\<lambda>_ _ n. Inr \<lparr>pk_data = (if n = 4 then pack32 1 else ''x''), pk_control = [Credentials 3 0 0], pk_truncated = False\<rparr>),
     ch_clock = (\<lambda>_. 0), ch_broken = False, ch_turns = 0, ch_sent = [], ch_closed = []\<rparr>"

definition demo_host :: host where
  "demo_host = \<lparr>hs_dup = Inr (), hs_socket = Inr True, hs_peer = (1, 0, 0), hs_uid_map = Inr ''0 0 4294967295'', hs_pid = 5,
     hs_uid = 7, hs_euid = 7, hs_gid = 8, hs_egid = 8, hs_observe = Inr demo_observations, hs_nonce = ''n'', hs_channel = demo_channel\<rparr>"

definition demo_session :: verification_session where
  "demo_session = \<lparr>se_config = [(''os_profile'', VDict [(''schema'', VStr CPU_PROFILE), (''expected_uid'', VInt 7),
       (''expected_gid'', VInt 8), (''backend_uid'', VInt 9)])],
     se_descriptor = VInt 3, se_context = None, se_writer = None, se_policy = None, se_open = 0\<rparr>"

definition demo_context :: val where "demo_context = VDict [(''pid'', VInt 5), (''status'', VDict demo_status)]"

definition demo_request :: dict where "demo_request = request_of demo_host (se_config demo_session) demo_context"

lemma demo_transfer:
  "fst (abind (transfer demo_hashing (\<lambda>_. Some (VDict demo_reply)) (Some (VDict demo_request)) True)
          (\<lambda>(v, writer). abind read_clock (\<lambda>now. ret (v, writer, now))) demo_channel)
     = Inr (VDict demo_reply, Some (3, 0, 0), 0)"
  by code_simp

lemma proved_guarantees:
  assumes "is_ok (proved_guarantee g)"
  shows "check_guarantees (VDict (map (\<lambda>name. (name, g)) CHECKS)) = Inr ()"
proof -
  have "keys (map (\<lambda>name. (name, g)) CHECKS) = CHECKS" by (simp add: keys_def comp_def)
  then show ?thesis using assms by (simp add: check_guarantees_def denied_unless_def)
qed

lemma demo_decision: "validate_decision demo_hashing (VDict demo_reply) demo_request 0 = Inr demo_reply"
proof -
  have "dict_fields (VDict demo_reply) decision_keys [] = Inr demo_reply" by code_simp
  moreover have "matches_request demo_hashing demo_reply demo_request = Inr ()" by code_simp
  moreover have "nonzero_digest (get_or_none demo_reply ''policy_sha256'') \<and> nonzero_digest (get_or_none demo_reply ''receipt_sha256'')"
    by code_simp
  moreover have "fresh_window (get_or_none demo_reply ''issued_monotonic'') (get_or_none demo_reply ''expires_monotonic'') 0 2 = Inr True"
    by (simp add: demo_reply_def get_or_none_def fresh_window_def finite_number_def FLOAT_LIMIT_def)
  moreover have "is_ok (proved_guarantee (VDict [(''enforced'', VBool True), (''verified'', VBool True),
      (''evidence_sha256'', VStr (replicate 64 (CHR ''d'')))]))" by code_simp
  from proved_guarantees [OF this] have "check_guarantees (get_or_none demo_reply ''guarantees'') = Inr ()"
    by (simp add: demo_reply_def get_or_none_def)
  ultimately show ?thesis by (simp add: validate_decision_def denied_unless_def)
qed

lemma demo_exchange:
  "fst (exchange demo_hashing (\<lambda>_. Some (VDict demo_reply)) demo_request demo_channel) = Inr (demo_reply, Some (3, 0, 0))"
proof -
  let ?t = "transfer demo_hashing (\<lambda>_. Some (VDict demo_reply)) (Some (VDict demo_request)) True demo_channel"
  obtain s1 where t: "?t = (Inr (VDict demo_reply, Some (3, 0, 0)), s1)" "ch_clock s1 (ch_turns s1) = 0"
    using demo_transfer by (cases ?t; cases "fst ?t") (auto simp: abind_def read_clock_def ret_def)
  then show ?thesis by (simp add: exchange_def read_clock_def lift_def ret_def demo_decision abind_def)
qed

lemma demo_check: "\<exists>s'. session_check demo_hashing (\<lambda>_. Some (VDict demo_reply)) demo_host demo_session = (Inr (), s')"
proof -
  define s1 where "s1 = demo_session\<lparr>se_open := 1\<rparr>"
  have s1: "se_config s1 = se_config demo_session" "se_context s1 = None" "se_writer s1 = None" "se_policy s1 = None"
    by (simp_all add: s1_def demo_session_def)
  have "check_peer demo_host = Inr ()" by code_simp
  moreover have "own_context demo_hashing demo_host (se_config demo_session) = Inr demo_context" by code_simp
  ultimately have "is_ok (check_body demo_hashing (\<lambda>_. Some (VDict demo_reply)) demo_host s1)"
    using demo_exchange s1
    by (simp add: check_body_def same_context_def pinned_def denied_unless_def demo_request_def demo_host_def)
  moreover have "abind (lift (denied_unless (valid_descriptor (se_descriptor demo_session)))) (\<lambda>_. open_duplicate demo_host) demo_session
      = (Inr (), s1)"
    by (simp add: s1_def demo_session_def demo_host_def valid_descriptor_def denied_unless_def open_duplicate_def abind_def lift_def)
  ultimately show ?thesis by (auto simp: session_check_def is_ok_conv close_duplicate_def modify_def)
qed

theorem permit_needs_root_proof_witness:
  "\<exists>s'. session_check demo_hashing (\<lambda>_. Some (VDict demo_reply)) demo_host demo_session = (Inr (), s')
     \<and> (\<exists>observations ctx writer reply after. root_socket demo_host \<and> own_observation demo_host observations ctx
        \<and> permitted_by demo_hashing (\<lambda>_. Some (VDict demo_reply)) demo_host (se_config demo_session) ctx reply writer after
        \<and> se_context s' = Some (VDict ctx)
        \<and> se_writer s' = Some writer \<and> se_policy s' = Some (get_or_none reply ''policy_sha256''))"
proof -
  obtain s' where run: "session_check demo_hashing (\<lambda>_. Some (VDict demo_reply)) demo_host demo_session = (Inr (), s')"
    using demo_check by blast
  from permit_needs_root_proof [OF run] run show ?thesis by blast
qed

text \<open>
  C26. A session is pinned by its first success and never leaks: whatever the checks see, the configuration,
  the descriptor and the number of open duplicates stay, a check that fails changes nothing, and once set
  the writer, the policy and the digest of the context are those of every later success.
\<close>
theorem session_is_pinned:
  "case fold (\<lambda>w s. snd (session_check h loads w s)) ws s of s' \<Rightarrow>
     se_open s' = se_open s \<and> se_config s' = se_config s \<and> se_descriptor s' = se_descriptor s
     \<and> (se_writer s = None \<or> se_writer s' = se_writer s) \<and> (se_policy s = None \<or> se_policy s' = se_policy s)
     \<and> map_option (digest h) (se_context s) \<in> {None, map_option (digest h) (se_context s')}
     \<and> list_all (\<lambda>w. case session_check h loads w s' of (Inl e, s'') \<Rightarrow> s'' = s' | (Inr _, _) \<Rightarrow> True) ws"
proof -
  have failed: "s'' = s" if "session_check h loads w s = (Inl e, s'')" for w s e s''
    using that by (cases s) (auto simp: session_check_def close_duplicate_def modify_def open_duplicate_def act_simps abind_Inl
        split: prod.splits sum.splits)
  have step: "se_open s' = se_open s \<and> se_config s' = se_config s \<and> se_descriptor s' = se_descriptor s
     \<and> (se_writer s = None \<or> se_writer s' = se_writer s) \<and> (se_policy s = None \<or> se_policy s' = se_policy s)
     \<and> map_option (digest h) (se_context s) \<in> {None, map_option (digest h) (se_context s')}"
    if "s' = snd (session_check h loads w s)" for w s s'
  proof (cases "session_check h loads w s")
    case (Pair r s1)
    show ?thesis
    proof (cases r)
      case (Inl e)
      with Pair failed that show ?thesis by auto
    next
      case (Inr u)
      with Pair obtain c writer p s2 where body: "check_body h loads w s2 = Inr (c, writer, p)" and s2: "s2 = s\<lparr>se_open := Suc (se_open s)\<rparr>"
        and s1: "s1 = s\<lparr>se_context := Some c, se_writer := Some writer, se_policy := Some p\<rparr>" by (metis session_check_Inr)
      from body s2 have "same_context h (se_context s) c = Inr ()" "pinned (se_writer s) writer" "pinned (se_policy s) p"
        by (auto simp: check_body_def)
      with s1 Pair that show ?thesis
        by (auto simp: pinned_def same_context_def split: option.splits)
    qed
  qed
  have "se_open s' = se_open s \<and> se_config s' = se_config s \<and> se_descriptor s' = se_descriptor s
     \<and> (se_writer s = None \<or> se_writer s' = se_writer s) \<and> (se_policy s = None \<or> se_policy s' = se_policy s)
     \<and> map_option (digest h) (se_context s) \<in> {None, map_option (digest h) (se_context s')}"
    if "s' = fold (\<lambda>w s. snd (session_check h loads w s)) ws s" for s'
    using that
  proof (induction ws arbitrary: s)
    case Nil
    then show ?case by simp
  next
    case (Cons w ws)
    from Cons.IH [of "snd (session_check h loads w s)"] Cons.prems step [OF refl, of w s] show ?case by auto
  qed
  moreover have "case session_check h loads w s' of (Inl e, s'') \<Rightarrow> s'' = s' | (Inr _, _) \<Rightarrow> True" for w s'
    by (cases "session_check h loads w s'"; cases "fst (session_check h loads w s')") (simp_all add: failed)
  ultimately show ?thesis by (simp add: list_all_iff)
qed

subsection \<open>Frames\<close>

text \<open>A root peer that delivers its bytes one at a time, from the turn its channel is at.\<close>

definition trickle :: "int \<Rightarrow> string \<Rightarrow> (nat \<Rightarrow> rat) \<Rightarrow> channel" where
  "trickle pid bytes clock =
     \<lparr>ch_recv = (\<lambda>_ t _. Inr \<lparr>pk_data = take 1 (drop (t div 2) bytes), pk_control = [Credentials pid 0 0], pk_truncated = False\<rparr>),
      ch_clock = clock, ch_broken = False, ch_turns = 0, ch_sent = [], ch_closed = []\<rparr>"

lemma trickle_loop:
  assumes "0 < pid" "\<forall>t. clock t < deadline" "w = None \<or> w = Some (pid, 0, 0)"
  shows "receive_loop e root_writer deadline n (int (length parts + n)) parts w ((trickle pid bytes clock)\<lparr>ch_turns := 2 * k\<rparr>)
     = (if k + n \<le> length bytes
        then (Inr (parts @ take n (drop k bytes), if n = 0 then w else Some (pid, 0, 0)), (trickle pid bytes clock)\<lparr>ch_turns := 2 * (k + n)\<rparr>)
        else if n = 0 then (Inr (parts, w), (trickle pid bytes clock)\<lparr>ch_turns := 2 * k\<rparr>)
        else (Inl DENIED, (trickle pid bytes clock)\<lparr>ch_turns := 2 * (max k (length bytes) + 1)\<rparr>))"
  using assms(3)
proof (induction n arbitrary: parts w k)
  case 0
  then show ?case by (simp add: ret_def)
next
  case (Suc n)
  let ?s = "trickle pid bytes clock"
  have c: "\<not> deadline \<le> clock (2 * k)" using assms(2) by (metis not_le)
  show ?case
  proof (cases "k < length bytes")
    case True
    then have b: "take 1 (drop k bytes) = [bytes ! k]" and tk: "take (Suc n) (drop k bytes) = bytes ! k # take n (drop (Suc k) bytes)"
      by (simp_all add: take_Suc_conv_app_nth Cons_nth_drop_Suc [symmetric])
    have rw: "root_writer w \<lparr>pk_data = [bytes ! k], pk_control = [Credentials pid 0 0], pk_truncated = False\<rparr> = Inr (Some (pid, 0, 0))"
      using Suc.prems assms(1) by (auto simp: root_writer_def unexpected_control_def)
    have "receive_loop e root_writer deadline (Suc n) (int (length parts + Suc n)) parts w (?s\<lparr>ch_turns := 2 * k\<rparr>)
        = receive_loop e root_writer deadline n (int (length (parts @ [bytes ! k]) + n)) (parts @ [bytes ! k]) (Some (pid, 0, 0))
            (?s\<lparr>ch_turns := 2 * Suc k\<rparr>)"
      using c b rw by (simp add: abind_def read_clock_def recv_packet_def trickle_def modify_def lift_def)
    with Suc.IH [of "Some (pid, 0, 0)" "parts @ [bytes ! k]" "Suc k"] True tk show ?thesis by simp
  next
    case False
    then have "take 1 (drop k bytes) = []" by simp
    with c False show ?thesis
      by (simp add: abind_def read_clock_def recv_packet_def trickle_def modify_def lift_def root_writer_def)
  qed
qed

lemma unpack_pack32: "n < 2 ^ 32 \<Longrightarrow> unpack32 (pack32 n) = Inr n"
proof -
  assume n: "n < 2 ^ 32"
  have o: "ord (char_of (m mod 256)) = m mod 256" for m :: nat by (rule ord_char_of) simp
  have d: "n div 256 div 256 div 256 < 256" using n by (simp add: div_less_iff_less_mult)
  have "((n div 256 div 256 div 256 mod 256 * 256 + n div 256 div 256 mod 256) * 256 + n div 256 mod 256) * 256 + n mod 256 = n"
    using d by (simp add: mod_less)
  then show ?thesis by (simp only: unpack32_def pack32_def Let_def list.case o)
qed


lemma pack32_length [simp]: "length (pack32 n) = 4"
  by (simp add: pack32_def Let_def)

lemma trickle_parts:
  assumes "0 < pid" "\<forall>t. clock t < deadline" "w = None \<or> w = Some (pid, 0, 0)" "0 < n"
  shows "receive_parts DENIED root_writer deadline (int n) w ((trickle pid bytes clock)\<lparr>ch_turns := 2 * k\<rparr>)
     = (if k + n \<le> length bytes
        then (Inr (take n (drop k bytes), Some (pid, 0, 0)), (trickle pid bytes clock)\<lparr>ch_turns := 2 * (k + n)\<rparr>)
        else (Inl DENIED, (trickle pid bytes clock)\<lparr>ch_turns := 2 * (max k (length bytes) + 1)\<rparr>))"
  using trickle_loop [OF assms(1-3), where e = DENIED and n = n and parts = "[]" and bytes = bytes and k = k] assms(4) by (simp add: receive_parts_def)

text \<open>
  Frames survive any fragmentation: a frame sent with \<open>send_frame\<close> and delivered by root byte by byte is read
  back as the value that was sent, with its writer, and a stream that ends anywhere inside it is refused.
\<close>
theorem frames_are_read_back:
  assumes "canon fr v = Inr t" "plain v" "loads (utf8 t) = Some v" "utf8 t \<noteq> []" "int (length (utf8 t)) \<le> MAX_FRAME"
    "0 < pid" "\<forall>n. clock n < deadline" "k < length (frame_of (utf8 t))"
  shows "fst (receive_frame DENIED root_writer loads deadline (trickle pid (frame_of (utf8 t)) clock)) = Inr (v, Some (pid, 0, 0))
     \<and> fst (receive_frame DENIED root_writer loads deadline (trickle pid (take k (frame_of (utf8 t))) clock)) = Inl DENIED"
proof -
  let ?p = "utf8 t"
  have start: "trickle pid bytes clock = (trickle pid bytes clock)\<lparr>ch_turns := 2 * 0\<rparr>" for bytes
    by (simp add: trickle_def)
  have small: "unpack32 (pack32 (length ?p)) = Inr (length ?p)" "\<not> MAX_FRAME < int (length ?p)"
    using assms(5) by (auto simp: MAX_FRAME_def intro!: unpack_pack32)
  have d4: "drop 4 (frame_of ?p) = ?p" by (simp add: frame_of_def)
  have len: "length (frame_of ?p) = 4 + length ?p" by (simp add: frame_of_def)
  have head: "receive_parts DENIED root_writer deadline 4 None (trickle pid bytes clock)
      = (if 4 \<le> length bytes then (Inr (take 4 bytes, Some (pid, 0, 0)), (trickle pid bytes clock)\<lparr>ch_turns := 8\<rparr>)
         else (Inl DENIED, (trickle pid bytes clock)\<lparr>ch_turns := 2 * (length bytes + 1)\<rparr>))" for bytes
    using trickle_parts [OF assms(6,7), where w = None and n = 4 and bytes = bytes and k = 0] by (subst start) simp
  have body: "receive_parts DENIED root_writer deadline (int (length ?p)) (Some (pid, 0, 0)) ((trickle pid bytes clock)\<lparr>ch_turns := 8\<rparr>)
      = (if 4 + length ?p \<le> length bytes
         then (Inr (take (length ?p) (drop 4 bytes), Some (pid, 0, 0)), (trickle pid bytes clock)\<lparr>ch_turns := 2 * (4 + length ?p)\<rparr>)
         else (Inl DENIED, (trickle pid bytes clock)\<lparr>ch_turns := 2 * (max 4 (length bytes) + 1)\<rparr>))" for bytes
    using trickle_parts [OF assms(6,7), where w = "Some (pid, 0, 0)" and n = "length ?p" and bytes = bytes and k = 4] assms(4) by simp
  have tk: "take 4 (take j (frame_of ?p)) = pack32 (length ?p)" if "4 \<le> j" for j
    using that by (simp add: frame_of_def)
  have "fst (receive_frame DENIED root_writer loads deadline (trickle pid (take j (frame_of ?p)) clock))
      = (if j < length (frame_of ?p) then Inl DENIED else Inr (v, Some (pid, 0, 0)))" for j
  proof (cases "4 \<le> j")
    case False
    then show ?thesis by (simp add: receive_frame_def head len abind_def)
  next
    case True
    with len have l: "4 \<le> length (take j (frame_of ?p))" by simp
    have d: "drop 4 (take j (frame_of ?p)) = take (j - 4) ?p" using True by (simp add: frame_of_def drop_take)
    show ?thesis
      using l small assms(2,3,4) len tk [OF True] True
      by (simp add: receive_frame_def head body abind_def lift_def ret_def decode_tree_def d d4)
  qed
  from this [of k] this [of "length (frame_of ?p)"] assms(8) show ?thesis by simp
qed

theorem frames_are_read_back_witness:
  "fst (receive_frame DENIED root_writer (\<lambda>s. if s = ''true'' then Some (VBool True) else None) 1 (trickle 3 (frame_of (utf8 ''true'')) (\<lambda>_. 0)))
     = Inr (VBool True, Some (3, 0, 0))"
proof -
  have u: "utf8 ''true'' = ''true''" by code_simp
  show ?thesis
    using frames_are_read_back [where v = "VBool True" and t = "''true''" and fr = "\<lambda>_. ''0''" and pid = 3 and deadline = 1 and k = 0
        and clock = "\<lambda>_. 0" and loads = "\<lambda>s. if s = ''true'' then Some (VBool True) else None"]
    by (simp add: u MAX_FRAME_def frame_of_def)
qed

subsection \<open>Complete observations\<close>

text \<open>Every label of a reading that failed is on the list, so an empty list means every reading succeeded.\<close>

definition nothing_missing :: "kernel \<Rightarrow> bool" where "nothing_missing s = (os_missing s = [])"

definition missing_grows :: "'a observing \<Rightarrow> bool" where
  "missing_grows m \<longleftrightarrow> (\<forall>s. \<exists>xs. os_missing (snd (m s)) = os_missing s @ xs)"

lemma grows_pure [intro]: "missing_grows (lift r)" "missing_grows (ret x)" "missing_grows (gets f)" "missing_grows (require b c n)"
  "missing_grows (read_file k p)"
  by (simp_all add: missing_grows_def act_defs read_file_def)

lemma grows_abind [intro]:
  assumes "missing_grows m" "\<And>x. missing_grows (f x)"
  shows "missing_grows (abind m f)"
  unfolding missing_grows_def
proof
  fix s
  obtain r s1 where m: "m s = (r, s1)" by fastforce
  with assms(1) obtain xs where xs: "os_missing s1 = os_missing s @ xs" by (auto simp: missing_grows_def dest: spec [of _ s])
  show "\<exists>xs. os_missing (snd (abind m f s)) = os_missing s @ xs"
  proof (cases r)
    case (Inl e)
    with m xs show ?thesis by (simp add: abind_def)
  next
    case (Inr x)
    obtain ys where "os_missing (snd (f x s1)) = os_missing s1 @ ys" using assms(2) by (auto simp: missing_grows_def)
    with m xs Inr show ?thesis by (simp add: abind_def)
  qed
qed

lemma grows_observe [intro]: "missing_grows m \<Longrightarrow> missing_grows (observe l m)"
  unfolding missing_grows_def observe_def
  by (auto split: prod.splits sum.splits) (metis snd_conv append_assoc)+

lemma grows_mapA [intro]: "(\<And>x. missing_grows (f x)) \<Longrightarrow> missing_grows (mapA f xs)"
proof (induction xs)
  case Nil
  then show ?case by (simp add: missing_grows_def)
next
  case (Cons x xs)
  have "mapA f (x # xs) = abind (f x) (\<lambda>y. abind (mapA f xs) (\<lambda>ys. ret (y # ys)))"
    by (rule ext) (auto simp: abind_def ret_def split: prod.splits sum.splits)
  with Cons show ?case by auto
qed

text \<open>What a run that ends with nothing missing went through.\<close>

lemma clean_before: "missing_grows m \<Longrightarrow> m s = (r, s') \<Longrightarrow> os_missing s' = [] \<Longrightarrow> os_missing s = []"
  unfolding missing_grows_def by (metis Nil_is_append_conv snd_conv)

lemma observe_clean: "observe l m s = (Inr x, s') \<Longrightarrow> os_missing s' = [] \<Longrightarrow> \<exists>y. x = Some y \<and> m s = (Inr y, s')"
  by (auto simp: observe_def split: prod.splits sum.splits if_splits)

lemma grows_reading [intro]: "missing_grows (reading l n p f)"
  unfolding reading_def by blast

lemma reading_clean: "reading l n p f s = (Inr x, s') \<Longrightarrow> os_missing s' = [] \<Longrightarrow> \<exists>y raw. x = Some y \<and> f raw = Inr y"
  unfolding reading_def using observe_clean by (fastforce simp: act_simps)

lemma grows_plain_observe [intro]: "missing_grows (observe l (\<lambda>s. (g s, s)))"
  by (rule grows_observe) (simp add: missing_grows_def)

lemma grows_descriptors [intro]: "missing_grows (observe l (descriptors h))"
  by (rule grows_observe) (simp add: missing_grows_def descriptors_def)

lemmas grows_rules = grows_pure grows_abind grows_plain_observe grows_reading grows_mapA

lemma grows_namespaces [intro]: "missing_grows (namespaces t)"
  unfolding namespaces_def by (intro grows_rules)

lemma grows_group_limits [intro]: "missing_grows (group_limits c g)"
  unfolding group_limits_def Let_def by (intro grows_rules)

lemma abind_InrE:
  assumes "abind m f s = (Inr y, s')"
  obtains x s1 where "m s = (Inr x, s1)" "f x s1 = (Inr y, s')"
  using assms by (auto simp: abind_Inr)

lemma abind_pureE:
  assumes "abind (lift r) f s = (Inr y, s')"
  obtains x where "r = Inr x" "f x s = (Inr y, s')"
  using assms by (auto simp: act_simps)

lemma abind_requireE:
  assumes "abind (require b c n) f s = (Inr y, s')"
  obtains u where "b" "f u s = (Inr y, s')"
  using assms by (auto simp: act_simps)

lemma abind_getsE:
  assumes "abind (gets g) f s = (Inr y, s')"
  obtains "f (g s) s = (Inr y, s')"
  using assms by (auto simp: act_simps)

lemma ret_runE:
  assumes "ret x s = (Inr y, s')"
  obtains "y = x" "s' = s"
  using assms by (auto simp: act_simps)

lemmas run_elims = abind_pureE abind_requireE abind_getsE ret_runE abind_InrE

lemma status_keys: "process_status raw = Inr st \<Longrightarrow> set (keys st) = set STATUS_KEYS"
  by (auto simp: process_status_def)

text \<open>
  A report that is stable with nothing unavailable is complete: it is about the process that was asked, under the
  digest of the configuration, with its start time, every line of its status that the rules read, and a
  control group without parent references, read the same before and after.
\<close>
theorem stable_reports_are_complete:
  assumes "collect_report h proc cgroups uid now config v s = (Inr d, s')"
    "get_or_none d ''unavailable'' = VList []" "get_or_none d ''stable'' = VBool True"
  shows "\<exists>pid p start st g. v = VInt pid \<and> 1 \<le> pid \<and> pid < 2147483648
     \<and> digest h config = (case as_str (get_or_none d ''configuration_sha256'') of Some x \<Rightarrow> Inr x | None \<Rightarrow> Inl DENIED)
     \<and> map_of d ''process'' = Some (VDict p) \<and> map_of p ''pid'' = Some (VInt pid) \<and> map_of p ''start_ticks'' = Some (VInt start)
     \<and> map_of p ''status'' = Some (VDict st) \<and> set (keys st) = set STATUS_KEYS
     \<and> map_of p ''cgroup'' = Some (VStr g) \<and> ''..'' \<notin> set (posix_parts g)"
proof -
  let ?target = "\<lambda>pid. proc @ ''/'' @ int_str pid"
  from assms(1) obtain pid dg start status boot release ns grp fds mounts limits again after s1 s2 s3 s4 s5 s6 s7 s8 s9 s10 s11 where
    r1: "reading ''process_start'' 4096 (?target pid @ ''/stat'') process_start s = (Inr start, s1)" and
    r2: "reading ''process_status'' 16384 (?target pid @ ''/status'') process_status s1 = (Inr status, s2)" and
    r3: "reading ''boot_id'' 128 (proc @ ''/sys/kernel/random/boot_id'') stripped s2 = (Inr boot, s3)" and
    r4: "reading ''kernel'' 256 (proc @ ''/sys/kernel/osrelease'') stripped s3 = (Inr release, s4)" and
    r5: "namespaces (?target pid) s4 = (Inr ns, s5)" and
    r6: "reading ''cgroup'' 4096 (?target pid @ ''/cgroup'') cgroup_path s5 = (Inr grp, s6)" and
    r7: "observe ''descriptor_inventory'' (descriptors h) s6 = (Inr fds, s7)" and
    r8: "reading ''mounts'' 65536 (?target pid @ ''/mountinfo'') mountinfo s7 = (Inr mounts, s8)" and
    r9: "(case grp of None \<Rightarrow> ret None | Some g \<Rightarrow> abind (group_limits cgroups g) (\<lambda>x. ret (Some x))) s8 = (Inr limits, s9)" and
    r10: "reading ''process_start_after'' 4096 (?target pid @ ''/stat'') process_start s9 = (Inr again, s10)" and
    r11: "(case grp of None \<Rightarrow> ret None
            | Some g \<Rightarrow> abind (reading ''cgroup_after'' 4096 (?target pid @ ''/cgroup'') cgroup_path) (\<lambda>x. ret (Some x))) s10 = (Inr after, s11)" and
    d: "d = report_dict uid (proc \<noteq> ''/proc'' \<or> cgroups \<noteq> ''/sys/fs/cgroup'') now dg
           (process_part pid start status boot release ns grp @ (case limits of None \<Rightarrow> [] | Some (i, _) \<Rightarrow> [(''cgroup_inode'', i)]))
           ([(''descriptor_inventory'', opt_val fds), (''mounts'', opt_val mounts)] @ (case limits of None \<Rightarrow> [] | Some (_, d) \<Rightarrow> d))
           (os_missing s11) (stable_reading start again grp after)" and
    v: "v = VInt pid" "1 \<le> pid" "pid < 2147483648" and dg: "digest h config = Inr dg"
    unfolding collect_report_def Let_def
    by (elim run_elims) (rule that, assumption+, simp_all)
  have m11: "os_missing s11 = []" and stable: "stable_reading start again grp after"
    using assms(2,3) by (simp_all add: d report_dict_def get_or_none_def)
  have g11: "missing_grows (case grp of None \<Rightarrow> ret None
      | Some g \<Rightarrow> abind (reading ''cgroup_after'' 4096 (?target pid @ ''/cgroup'') cgroup_path) (\<lambda>x. ret (Some x)))"
    and g9: "missing_grows (case grp of None \<Rightarrow> ret None | Some g \<Rightarrow> abind (group_limits cgroups g) (\<lambda>x. ret (Some x)))"
    by (cases grp; auto)+
  note m10 = clean_before [OF g11 r11 m11]
  note m9 = clean_before [OF grows_reading r10 m10]
  note m8 = clean_before [OF g9 r9 m9]
  note m7 = clean_before [OF grows_reading r8 m8]
  note m6 = clean_before [OF grows_descriptors r7 m7]
  note m5 = clean_before [OF grows_reading r6 m6]
  note m4 = clean_before [OF grows_namespaces r5 m5]
  note m3 = clean_before [OF grows_reading r4 m4]
  note m2 = clean_before [OF grows_reading r3 m3]
  from reading_clean [OF r2 m2] obtain st raw where st: "status = Some st" "process_status raw = Inr st" by blast
  from reading_clean [OF r6 m6] obtain g raw' where g: "grp = Some g" "cgroup_path raw' = Inr g" by blast
  from stable obtain t where t: "start = Some t" by (auto simp: stable_reading_def)
  have "''..'' \<notin> set (posix_parts g)"
    using g(2) by (auto simp: cgroup_path_def Let_def split: list.splits if_splits)
  with v dg st g t status_keys [OF st(2)] show ?thesis
    by (simp add: d report_dict_def get_or_none_def process_part_def)
qed

definition demo_status_text :: string where
  "demo_status_text = concat (map (\<lambda>k. k @ '':'' @ (if k = ''Uid'' \<or> k = ''Gid'' then ''7 7 7 7'' else ''1'') @ NL) STATUS_KEYS)"

definition demo_file :: "nat \<Rightarrow> string res" where
  \<comment> \<open>by the number of the reading\<close>
  "demo_file n =
     (if n = 0 \<or> n = 11 then Inr (''5 (w) S'' @ concat (replicate 19 '' 1'')) else if n = 1 then Inr demo_status_text
      else if n = 4 \<or> n = 12 then Inr ''0::/s'' else if n = 5 then Inr ''1 2 0:1 / / ro - ext4 d ro'' else Inr ''1'')"

definition demo_kernel :: kernel where
  "demo_kernel = \<lparr>os_read = (\<lambda>n _. demo_file n), os_link = (\<lambda>_. Inr ''user:[1]''), os_inode = (\<lambda>_. Inr 9), os_descriptors = Inr [(''3'', Inr ''socket:[1]'')],
     os_reads = 0, os_missing = []\<rparr>"

theorem stable_reports_are_complete_witness:
  "\<exists>d s' p st. collect_report \<lparr>hs_sha = (\<lambda>_. ''a''), hs_frepr = (\<lambda>_. ''0'')\<rparr> ''/p'' ''/g'' 0 0 VNull (VInt 5) demo_kernel = (Inr d, s')
     \<and> map_of d ''process'' = Some (VDict p) \<and> map_of p ''status'' = Some (VDict st) \<and> set (keys st) = set STATUS_KEYS"
proof -
  let ?run = "collect_report \<lparr>hs_sha = (\<lambda>_. ''a''), hs_frepr = (\<lambda>_. ''0'')\<rparr> ''/p'' ''/g'' 0 0 VNull (VInt 5) demo_kernel"
  have "case fst ?run of Inl _ \<Rightarrow> False | Inr d \<Rightarrow> get_or_none d ''unavailable'' = VList [] \<and> get_or_none d ''stable'' = VBool True"
    by (code_simp)
  then obtain d s' where run: "?run = (Inr d, s')" "get_or_none d ''unavailable'' = VList []" "get_or_none d ''stable'' = VBool True"
    by (cases ?run; cases "fst ?run") auto
  from stable_reports_are_complete [OF run] run(1) show ?thesis by blast
qed

end
