(* ===== verification/Metadata.thy ===== *)
theory Metadata
  imports Text_Utils Contracts
begin

section \<open>database/poc/metadata_primitives.py: metadata without secrets\<close>

text \<open>
  The checks every document of the discovery tools goes through: typed fields, refusal of credential-like
  field names at any depth, strict JSON, and the detached copy. Refusals are \<open>ValueError\<close>. A value of
  \<^typ>\<open>val\<close> is a finite tree, so the cycle and recursion limits of the source cannot be met; printing and
  reading back a plain value is the identity (the documented inverse of \<open>json\<close>), and strings have code points
  below 256.
\<close>

definition invalid :: "'a res" where "invalid = Inl (Raised ''ValueError'')"
definition must :: "bool \<Rightarrow> unit res" where "must b = (if b then Inr () else invalid)"
definition needed :: "'a option \<Rightarrow> 'a res" where "needed v = (case v of None \<Rightarrow> invalid | Some x \<Rightarrow> Inr x)"

lemma invalid_Inr [simp]: "invalid \<noteq> Inr x" "Inr x \<noteq> invalid"
  by (simp_all add: invalid_def)

lemma must_Inr [simp]: "must b = Inr u \<longleftrightarrow> b"
  by (simp add: must_def)

lemma must_simps [simp]: "must True = Inr ()" "must False = invalid"
  by (simp_all add: must_def)

lemma needed_Inr [simp]: "needed v = Inr x \<longleftrightarrow> v = Some x"
  by (cases v) (simp_all add: needed_def)

lemma needed_simps [simp]: "needed None = invalid" "needed (Some x) = Inr x"
  by (simp_all add: needed_def)

subsection \<open>Fields\<close>

definition object_value :: "val \<Rightarrow> dict res" where "object_value v = needed (as_dict v)"

definition nonempty_string :: "val \<Rightarrow> string res" where
  "nonempty_string v = rbind (needed (as_str v)) (\<lambda>s. rbind (must (strip s \<noteq> [])) (\<lambda>_. Inr s))"

definition optional_nonnegative_int :: "val \<Rightarrow> int option res" where
  "optional_nonnegative_int v =
     (if v = VNull then Inr None
      else rbind (needed (as_int v)) (\<lambda>i. rbind (must (0 \<le> i)) (\<lambda>_. Inr (Some i))))"

subsection \<open>Secrets\<close>

definition SECRET_KEYS :: "string list" where
  "SECRET_KEYS = [''apikey'', ''xapikey'', ''apitoken'', ''accesstoken'', ''refreshtoken'', ''idtoken'',
     ''authorization'', ''proxyauthorization'', ''credentials'', ''password'', ''passwd'',
     ''secret'', ''clientsecret'', ''apisecret'', ''secretkey'', ''privatekey'', ''token'',
     ''sessiontoken'', ''bearertoken'', ''cookie'', ''setcookie'']"

text \<open>\<open>str.casefold\<close> and \<open>str.isalnum\<close> on code points below 256; the sharp s folds to two letters.\<close>

definition alphanumeric :: "char \<Rightarrow> bool" where
  "alphanumeric c =
     (is_letter c \<or> is_digit c \<or> ord c \<in> {170, 178, 179, 181, 185, 186, 188, 189, 190}
      \<or> (192 \<le> ord c \<and> ord c \<noteq> 215 \<and> ord c \<noteq> 247))"

definition fold_char :: "char \<Rightarrow> string" where
  "fold_char c = (if ord c = 223 then ''ss'' else [lower_char c])"

definition folded :: "string \<Rightarrow> string" where
  "folded key = filter alphanumeric (concat (map fold_char key))"

fun secret_free :: "val \<Rightarrow> bool"
  and secret_free_list :: "val list \<Rightarrow> bool"
  and secret_free_items :: "(string \<times> val) list \<Rightarrow> bool" where
  "secret_free (VDict d) = secret_free_items d"
| "secret_free (VList xs) = secret_free_list xs"
| "secret_free _ = True"
| "secret_free_list [] = True"
| "secret_free_list (x # xs) = (secret_free x \<and> secret_free_list xs)"
| "secret_free_items [] = True"
| "secret_free_items ((key, child) # d) = (folded key \<notin> set SECRET_KEYS \<and> secret_free child \<and> secret_free_items d)"

definition assert_secret_free :: "val \<Rightarrow> unit res" where "assert_secret_free v = must (secret_free v)"

subsection \<open>JSON\<close>

text \<open>
  The hooks of \<open>strict_json_loads\<close> run over the tree that the parser of the standard library reads (with
  repeated keys and non-finite numbers still in it); \<open>loads\<close> is that parser, \<open>None\<close> where it raises
  \<open>JSONDecodeError\<close> (a \<open>ValueError\<close>).
\<close>

definition strict_tree :: "val \<Rightarrow> val res" where "strict_tree t = rbind (must (plain t)) (\<lambda>_. Inr t)"

definition strict_json_loads :: "(string \<Rightarrow> val option) \<Rightarrow> string \<Rightarrow> val res" where
  "strict_json_loads loads payload =
     (case loads payload of None \<Rightarrow> Inl (Raised ''JSONDecodeError'') | Some t \<Rightarrow> strict_tree t)"

definition copy_metadata :: "val \<Rightarrow> val res" where
  "copy_metadata v = rbind (assert_secret_free v) (\<lambda>_. strict_tree v)"

definition copy_dict :: "dict \<Rightarrow> dict res" where
  "copy_dict d = rbind (copy_metadata (VDict d)) (\<lambda>_. Inr d)"

definition error_summary :: "string \<Rightarrow> string \<Rightarrow> int option \<Rightarrow> string" where
  \<comment> \<open>the class of the exception, or the status of an \<open>HTTPError\<close> that has one\<close>
  "error_summary source kind code =
     source @ '' metadata operation failed ('' @
     (case code of Some c \<Rightarrow> if 100 \<le> c \<and> c \<le> 599 then ''HTTP '' @ int_str c else kind | None \<Rightarrow> kind) @
     ''); no snapshot written''"

text \<open>\<open>set(d) == {...}\<close>: exactly these keys.\<close>

definition exact_keys :: "dict \<Rightarrow> string list \<Rightarrow> bool" where "exact_keys d ks = (set (keys d) = set ks)"

lemma copy_metadata_Inr [simp]: "copy_metadata v = Inr w \<longleftrightarrow> w = v \<and> secret_free v \<and> plain v"
  by (auto simp: copy_metadata_def assert_secret_free_def strict_tree_def)

lemma copy_dict_Inr [simp]: "copy_dict d = Inr e \<longleftrightarrow> e = d \<and> secret_free (VDict d) \<and> plain (VDict d)"
  by (auto simp: copy_dict_def)

lemma nonempty_string_Inr [simp]: "nonempty_string v = Inr s \<longleftrightarrow> v = VStr s \<and> strip s \<noteq> []"
  by (auto simp: nonempty_string_def)

lemma object_value_Inr [simp]: "object_value v = Inr d \<longleftrightarrow> v = VDict d"
  by (simp add: object_value_def)

text \<open>A subtree of a document without secrets has none, and no key of it folds to a secret name.\<close>

lemma secret_free_list_iff: "secret_free_list xs \<longleftrightarrow> (\<forall>x\<in>set xs. secret_free x)"
  by (induction xs) auto

lemma secret_free_items_iff: "secret_free_items d \<longleftrightarrow> (\<forall>(k, v)\<in>set d. folded k \<notin> set SECRET_KEYS \<and> secret_free v)"
  by (induction d) auto

end
