(* ===== verification/Source_Specs.thy ===== *)
theory Source_Specs
  imports Metadata
begin

section \<open>database/poc/source_spec_design.py: descriptions of the sources\<close>

text \<open>
  The transport and source descriptions with their validation, the index that refuses duplicates, and the seven
  registered sources. A field of a frozen set is a list; a Python value of an unknown type (\<open>timeout_seconds\<close>)
  is a \<^typ>\<open>val\<close>.
\<close>

definition RESOURCE_TYPES :: "string list" where
  "RESOURCE_TYPES = [''model_reference'', ''model_artifact'', ''agent_resource'', ''nim_microservice'', ''inference_endpoint'']"

definition SELECTION_MODES :: "string list" where
  "SELECTION_MODES = [''first_n_sorted'', ''exact_ids'', ''first_n_unique'', ''exact_tag'']"

definition CAPABILITIES :: "string list" where
  "CAPABILITIES = [''metadata'', ''offline_fixture'', ''local_pinning'', ''catalog_pinning'',
     ''explicit_model_relationships'', ''file_listing'', ''observed_formats'', ''deployment_profiles'', ''served_model_listing'']"

record transport_spec =
  tr_kind :: string
  tr_hosts :: "string list"
  tr_max_bytes :: val
  tr_timeout :: val
  tr_redirects :: string
  tr_strict :: val

definition bounded_timeout :: "val \<Rightarrow> unit res" where
  "bounded_timeout v =
     rbind (finite_number v) (\<lambda>x. must (case x of None \<Rightarrow> False | Some t \<Rightarrow> 0 < t \<and> t \<le> 60))"

definition http_transport :: "transport_spec \<Rightarrow> unit res" where
  "http_transport t =
     rbind (must (tr_hosts t \<noteq> [] \<and> (case as_int (tr_max_bytes t) of Some n \<Rightarrow> 0 < n | None \<Rightarrow> False))) (\<lambda>_.
     rbind (bounded_timeout (tr_timeout t)) (\<lambda>_.
     rbind (must (\<not> (tr_kind t = ''bounded_http'' \<and> (tr_strict t \<noteq> VBool True \<or> tr_redirects t \<noteq> ''forbidden'')))) (\<lambda>_.
     must (\<not> (tr_kind t = ''legacy_http'' \<and> (tr_strict t \<noteq> VBool False \<or> tr_redirects t \<noteq> ''urllib_default''))))))"

definition make_transport :: "transport_spec \<Rightarrow> transport_spec res" where
  "make_transport t =
     rbind (must (tr_kind t \<in> {''local_files'', ''legacy_http'', ''bounded_http'', ''official_sdk''})) (\<lambda>_.
     rbind (must (as_bool (tr_strict t) \<noteq> None)) (\<lambda>_.
     rbind (if tr_kind t = ''local_files''
            then must (tr_hosts t = [] \<and> tr_max_bytes t = VNull \<and> tr_timeout t = VNull
                       \<and> tr_redirects t = ''not_applicable'' \<and> tr_strict t = VBool False)
            else if tr_kind t = ''official_sdk''
            then must (tr_hosts t \<noteq> [] \<and> tr_max_bytes t = VNull \<and> tr_timeout t = VNull
                       \<and> tr_redirects t = ''sdk_managed'' \<and> tr_strict t = VBool False)
            else http_transport t) (\<lambda>_.
     Inr t)))"

record source_spec =
  ss_source :: string
  ss_types :: "string list"
  ss_modes :: "string list"
  ss_strategy :: string
  ss_revision :: string
  ss_validation :: string
  ss_nullable :: bool
  ss_access :: string
  ss_transport :: transport_spec
  ss_capabilities :: "string list"

definition namespace_char :: "char \<Rightarrow> bool" where "namespace_char c = (is_lower c \<or> is_digit c)"

definition source_namespace :: "string \<Rightarrow> bool" where
  "source_namespace s =
     (case s of [] \<Rightarrow> False | c # cs \<Rightarrow> namespace_char c \<and> list_all (\<lambda>x. namespace_char x \<or> x = CHR ''.'' \<or> x = CHR ''-'') cs)"

definition make_source :: "source_spec \<Rightarrow> source_spec res" where
  \<comment> \<open>the types of the fields (\<open>isinstance\<close> tests) are those of the record\<close>
  "make_source s =
     rbind (must (source_namespace (ss_source s))) (\<lambda>_.
     rbind (must (ss_types s \<noteq> [] \<and> set (ss_types s) \<subseteq> set RESOURCE_TYPES)) (\<lambda>_.
     rbind (must (ss_modes s \<noteq> [] \<and> set (ss_modes s) \<subseteq> set SELECTION_MODES)) (\<lambda>_.
     rbind (must (ss_strategy s \<noteq> [])) (\<lambda>_.
     rbind (must (ss_revision s \<in> {''catalog_commit'', ''repository_sha'', ''mutable_container_tag'', ''none''})) (\<lambda>_.
     rbind (must (ss_validation s \<in> {''sha1_exact'', ''nonempty_string'', ''full_hash_if_available'', ''container_tag'', ''none''})) (\<lambda>_.
     rbind (must (ss_access s \<in> {''local_pinned'', ''anonymous'', ''sdk_managed''})) (\<lambda>_.
     rbind (must (''metadata'' \<in> set (ss_capabilities s) \<and> set (ss_capabilities s) \<subseteq> set CAPABILITIES)) (\<lambda>_.
     Inr s))))))))"

fun source_index :: "source_spec list \<Rightarrow> (string \<times> source_spec) list \<Rightarrow> (string \<times> source_spec) list res" where
  "source_index [] index = Inr index"
| "source_index (s # rest) index =
     rbind (must (map_of index (ss_source s) = None)) (\<lambda>_. source_index rest (index @ [(ss_source s, s)]))"

definition local_transport :: transport_spec where
  "local_transport = \<lparr>tr_kind = ''local_files'', tr_hosts = [], tr_max_bytes = VNull, tr_timeout = VNull,
     tr_redirects = ''not_applicable'', tr_strict = VBool False\<rparr>"

definition legacy :: "string list \<Rightarrow> transport_spec" where
  "legacy hosts = \<lparr>tr_kind = ''legacy_http'', tr_hosts = hosts, tr_max_bytes = VInt 3000000, tr_timeout = VInt 20,
     tr_redirects = ''urllib_default'', tr_strict = VBool False\<rparr>"

definition bounded_http :: "string \<Rightarrow> transport_spec" where
  "bounded_http h = \<lparr>tr_kind = ''bounded_http'', tr_hosts = [h], tr_max_bytes = VInt 2000000, tr_timeout = VInt 20,
     tr_redirects = ''forbidden'', tr_strict = VBool True\<rparr>"

definition sdk_transport :: transport_spec where
  "sdk_transport = \<lparr>tr_kind = ''official_sdk'', tr_hosts = [''modelscope.cn'', ''modelscope.ai''], tr_max_bytes = VNull,
     tr_timeout = VNull, tr_redirects = ''sdk_managed'', tr_strict = VBool False\<rparr>"

definition SOURCES :: "source_spec list" where
  "SOURCES =
    [\<lparr>ss_source = ''models.dev'', ss_types = [''model_reference''], ss_modes = [''first_n_sorted''], ss_strategy = ''pinned TOML files'',
      ss_revision = ''catalog_commit'', ss_validation = ''sha1_exact'', ss_nullable = False, ss_access = ''local_pinned'',
      ss_transport = local_transport, ss_capabilities = [''metadata'', ''offline_fixture'', ''local_pinning'']\<rparr>,
     \<lparr>ss_source = ''huggingface'', ss_types = [''model_artifact''], ss_modes = [''exact_ids''],
      ss_strategy = ''targeted repository metadata GET'',
      ss_revision = ''repository_sha'', ss_validation = ''nonempty_string'', ss_nullable = True, ss_access = ''anonymous'',
      ss_transport = legacy [''huggingface.co''],
      ss_capabilities = [''metadata'', ''offline_fixture'', ''explicit_model_relationships'', ''file_listing'', ''observed_formats'']\<rparr>,
     \<lparr>ss_source = ''awesome-ai-agents'', ss_types = [''agent_resource''], ss_modes = [''first_n_unique''],
      ss_strategy = ''pin catalog commit then sample unique entries'',
      ss_revision = ''catalog_commit'', ss_validation = ''sha1_exact'', ss_nullable = False, ss_access = ''anonymous'',
      ss_transport = legacy [''api.github.com'', ''raw.githubusercontent.com''],
      ss_capabilities = [''metadata'', ''offline_fixture'', ''catalog_pinning'']\<rparr>,
     \<lparr>ss_source = ''nvidia-nim-metadata'', ss_types = [''nim_microservice''], ss_modes = [''exact_tag''],
      ss_strategy = ''one resourceId and tag metadata GET'',
      ss_revision = ''mutable_container_tag'', ss_validation = ''container_tag'', ss_nullable = False, ss_access = ''anonymous'',
      ss_transport = legacy [''api.ngc.nvidia.com''],
      ss_capabilities = [''metadata'', ''offline_fixture'', ''deployment_profiles'']\<rparr>,
     \<lparr>ss_source = ''modelscope'', ss_types = [''model_artifact''], ss_modes = [''exact_ids''],
      ss_strategy = ''official SDK get_repo model metadata'',
      ss_revision = ''repository_sha'', ss_validation = ''full_hash_if_available'', ss_nullable = True, ss_access = ''sdk_managed'',
      ss_transport = sdk_transport, ss_capabilities = [''metadata'', ''offline_fixture'']\<rparr>,
     \<lparr>ss_source = ''csghub'', ss_types = [''model_artifact''], ss_modes = [''exact_ids''],
      ss_strategy = ''official csg repository metadata GET at main'',
      ss_revision = ''repository_sha'', ss_validation = ''full_hash_if_available'', ss_nullable = True, ss_access = ''anonymous'',
      ss_transport = bounded_http ''hub.opencsg.com'',
      ss_capabilities = [''metadata'', ''offline_fixture'', ''file_listing'', ''observed_formats'']\<rparr>,
     \<lparr>ss_source = ''moark'', ss_types = [''inference_endpoint''], ss_modes = [''exact_ids''],
      ss_strategy = ''public text roster GET then exact model ID selection'',
      ss_revision = ''none'', ss_validation = ''none'', ss_nullable = True, ss_access = ''anonymous'',
      ss_transport = bounded_http ''moark.ai'',
      ss_capabilities = [''metadata'', ''offline_fixture'', ''served_model_listing'']\<rparr>]"

definition SOURCE_SPECS :: "string \<Rightarrow> source_spec option" where
  "SOURCE_SPECS source = map_of (map (\<lambda>s. (ss_source s, s)) SOURCES) source"

text \<open>The module loads: every description is accepted and the index has no duplicate.\<close>

lemma index_of_distinct:
  "distinct (map fst index @ map ss_source ss) \<Longrightarrow> source_index ss index = Inr (index @ map (\<lambda>s. (ss_source s, s)) ss)"
proof (induction ss arbitrary: index)
  case Nil
  then show ?case by simp
next
  case (Cons s ss)
  then have "map_of index (ss_source s) = None" by (auto simp: map_of_eq_None_iff)
  with Cons show ?case by simp
qed

lemma sources_registered: "source_index SOURCES [] = Inr (map (\<lambda>s. (ss_source s, s)) SOURCES)"
  by (subst index_of_distinct) (simp_all add: SOURCES_def)

end
