(* ===== verification/Source_Adapters.thy ===== *)
theory Source_Adapters
  imports Source_Specs
begin

section \<open>database/poc/source_adapters.py: records of the providers\<close>

text \<open>
  The pure normalisers of provider documents into source records, and the screening of a NIM profile against a
  GPU. Every refusal is a \<open>ValueError\<close>, except the \<open>OverflowError\<close> of an integer that is no double. \<open>float(value)\<close>
  keeps the value (rounding of integers beyond 53 bits is not modelled).
\<close>

record source_record =
  sr_source :: string
  sr_id :: string
  sr_revision :: "string option"
  sr_type :: string
  sr_name :: string
  sr_attributes :: dict
  sr_relationships :: "dict list"
  sr_raw :: dict

definition make_record :: "source_record \<Rightarrow> source_record res" where
  "make_record r =
     rbind (copy_dict (sr_attributes r)) (\<lambda>_.
     rbind (copy_metadata (VList (map VDict (sr_relationships r)))) (\<lambda>_.
     rbind (copy_dict (sr_raw r)) (\<lambda>_. Inr r)))"

subsection \<open>Fields\<close>

definition optional_string :: "val \<Rightarrow> string option res" where
  "optional_string v = (if v = VNull then Inr None else rbind (nonempty_string v) (\<lambda>s. Inr (Some s)))"

definition optional_strings :: "val \<Rightarrow> string list option res" where
  "optional_strings v =
     (if v = VNull then Inr None
      else rbind (needed (as_list v)) (\<lambda>xs. rbind (collect nonempty_string xs) (\<lambda>ss. Inr (Some ss))))"

definition one_or_strings :: "val \<Rightarrow> string list option res" where
  \<comment> \<open>\<open>_base_models\<close> and \<open>_gpu_targets\<close>: a string is a list of one\<close>
  "one_or_strings v =
     (case as_str v of Some _ \<Rightarrow> rbind (nonempty_string v) (\<lambda>s. Inr (Some [s])) | None \<Rightarrow> optional_strings v)"

definition optional_object :: "dict \<Rightarrow> string \<Rightarrow> dict res" where
  \<comment> \<open>\<open>_object(data[k], k) if data.get(k) is not None else {}\<close>\<close>
  "optional_object d k = (if get_or_none d k = VNull then Inr [] else object_value (get_or_none d k))"

definition optional_bool :: "val \<Rightarrow> val res" where
  "optional_bool v = rbind (must (v = VNull \<or> as_bool v \<noteq> None)) (\<lambda>_. Inr v)"

definition optional_positive_int :: "val \<Rightarrow> int option res" where
  "optional_positive_int v =
     (if v = VNull then Inr None
      else rbind (needed (as_int v)) (\<lambda>i. rbind (must (1 \<le> i)) (\<lambda>_. Inr (Some i))))"

definition optional_nonnegative_number :: "val \<Rightarrow> rat option res" where
  "optional_nonnegative_number v =
     (if v = VNull then Inr None
      else rbind (must (strict_number v \<noteq> None)) (\<lambda>_.
           rbind (finite_number v) (\<lambda>x.
           rbind (needed x) (\<lambda>q. rbind (must (0 \<le> q)) (\<lambda>_. Inr (Some q))))))"

definition opt_strs :: "string list option \<Rightarrow> val" where
  "opt_strs v = (case v of None \<Rightarrow> VNull | Some ss \<Rightarrow> VList (map VStr ss))"

definition opt_int :: "int option \<Rightarrow> val" where "opt_int v = (case v of None \<Rightarrow> VNull | Some i \<Rightarrow> VInt i)"
definition opt_float :: "rat option \<Rightarrow> val" where "opt_float v = (case v of None \<Rightarrow> VNull | Some x \<Rightarrow> VFloat (Fin x))"

definition count_of :: "'a list option \<Rightarrow> val" where
  "count_of v = (case v of None \<Rightarrow> VNull | Some xs \<Rightarrow> VInt (int (length xs)))"

subsection \<open>Hugging Face\<close>

definition gating :: "val \<Rightarrow> (string \<times> val) res" where
  "gating v =
     (if v = VNull then Inr (''unknown'', VNull)
      else if v = VBool False then Inr (''public'', VNull)
      else if v = VBool True then Inr (''gated'', VStr ''unspecified'')
      else if v = VStr ''auto'' \<or> v = VStr ''manual'' then Inr (''gated'', v)
      else invalid)"

definition sibling_files :: "dict \<Rightarrow> string list option res" where
  "sibling_files d =
     (if get_or_none d ''siblings'' = VNull then Inr None
      else rbind (needed (as_list (get_or_none d ''siblings''))) (\<lambda>xs.
           rbind (collect (\<lambda>x. rbind (object_value x) (\<lambda>e. nonempty_string (get_or_none e ''rfilename''))) xs) (\<lambda>fs.
           Inr (Some fs))))"

definition some_file :: "string list option \<Rightarrow> string \<Rightarrow> bool" where
  "some_file files suffix = (case files of None \<Rightarrow> False | Some fs \<Rightarrow> list_ex (\<lambda>f. ends_with suffix (lower f)) fs)"

definition available_formats :: "dict \<Rightarrow> string list option \<Rightarrow> string list" where
  "available_formats d files =
     (if get_or_none d ''gguf'' \<noteq> VNull \<or> some_file files ''.gguf'' then [''gguf''] else []) @
     (if get_or_none d ''safetensors'' \<noteq> VNull \<or> some_file files ''.safetensors'' then [''safetensors''] else [])"

definition base_relationship :: "string \<Rightarrow> dict" where
  "base_relationship parent =
     [(''relation'', VStr ''declared_base_model''), (''source'', VStr ''huggingface''), (''target_id'', VStr parent)]"

definition or_empty :: "'a list option \<Rightarrow> 'a list" where "or_empty v = (case v of None \<Rightarrow> [] | Some xs \<Rightarrow> xs)"

definition normalize_huggingface_model :: "val \<Rightarrow> source_record res" where
  "normalize_huggingface_model v =
     rbind (object_value v) (\<lambda>d.
     rbind (nonempty_string (get_or_none d ''id'')) (\<lambda>model.
     rbind (optional_string (get_or_none d ''sha'')) (\<lambda>revision.
     rbind (optional_object d ''cardData'') (\<lambda>card.
     rbind (optional_object d ''config'') (\<lambda>config.
     rbind (one_or_strings (get_or_none card ''base_model'')) (\<lambda>bases.
     rbind (optional_strings (get_or_none config ''architectures'')) (\<lambda>architecture.
     rbind (optional_string (get_or_none card ''license'')) (\<lambda>license.
     rbind (gating (get_or_none d ''gated'')) (\<lambda>(access, approval).
     rbind (sibling_files d) (\<lambda>files.
     make_record
       \<lparr>sr_source = ''huggingface'', sr_id = model, sr_revision = revision, sr_type = ''model_artifact'',
        sr_name = last_part (CHR ''/'') model,
        sr_attributes = [(''access'', VStr access), (''approval_mode'', approval), (''license'', opt_str license),
          (''architectures'', opt_strs architecture), (''base_models'', opt_strs bases),
          (''available_formats'', VList (map VStr (available_formats d files))), (''file_count'', count_of files)],
        sr_relationships = map base_relationship (or_empty bases), sr_raw = d\<rparr>))))))))))"

subsection \<open>awesome-ai-agents\<close>

definition source_urls :: "val list \<Rightarrow> string list res" where
  "source_urls xs =
     rbind (collect (\<lambda>x. rbind (object_value x) (\<lambda>e.
        if get_or_none e ''source_url'' = VNull then Inr []
        else rbind (nonempty_string (get_or_none e ''source_url'')) (\<lambda>u. Inr [u]))) xs) (\<lambda>us. Inr (concat us))"

definition optional_sources :: "val \<Rightarrow> val list option res" where
  "optional_sources v = (if v = VNull then Inr None else rbind (needed (as_list v)) (\<lambda>xs. Inr (Some xs)))"

definition normalize_awesome_agent :: "string \<Rightarrow> val \<Rightarrow> source_record res" where
  "normalize_awesome_agent source_commit v =
     rbind (object_value v) (\<lambda>d.
     rbind (nonempty_string (VStr source_commit)) (\<lambda>revision.
     rbind (must (hex_string 40 revision)) (\<lambda>_.
     rbind (nonempty_string (get_or_none d ''id'')) (\<lambda>agent.
     rbind (nonempty_string (get_or_none d ''project'')) (\<lambda>project.
     rbind (optional_strings (get_or_none d ''categories'')) (\<lambda>categories.
     rbind (optional_sources (get_or_none d ''sources'')) (\<lambda>raw_sources.
     rbind (source_urls (or_empty raw_sources)) (\<lambda>urls.
     rbind (optional_bool (get_or_none d ''has_public_repository'')) (\<lambda>public.
     rbind (optional_string (get_or_none d ''project_description'')) (\<lambda>description.
     make_record
       \<lparr>sr_source = ''awesome-ai-agents'', sr_id = agent, sr_revision = Some revision, sr_type = ''agent_resource'',
        sr_name = project,
        sr_attributes = [(''description'', opt_str description), (''categories'', opt_strs categories),
          (''has_public_repository'', public),
          (''source_urls'', opt_strs (map_option (\<lambda>_. urls) raw_sources)), (''source_count'', count_of raw_sources)],
        sr_relationships = [], sr_raw = d\<rparr>))))))))))"

fun unique_agents :: "source_record list \<Rightarrow> source_record list \<Rightarrow> source_record list res" where
  \<comment> \<open>an identical entry may be repeated; a different one under the same id is refused\<close>
  "unique_agents unique [] = Inr unique"
| "unique_agents unique (r # rs) =
     (case List.find (\<lambda>p. sr_id p = sr_id r) unique of
        None \<Rightarrow> unique_agents (unique @ [r]) rs
      | Some prior \<Rightarrow> if py_eq (VDict (sr_raw prior)) (VDict (sr_raw r)) then unique_agents unique rs else invalid)"

definition normalize_awesome_catalog :: "string \<Rightarrow> val \<Rightarrow> source_record list res" where
  \<comment> \<open>the loop normalises and compares one entry at a time; every refusal is the same\<close>
  "normalize_awesome_catalog source_commit v =
     rbind (object_value v) (\<lambda>catalog.
     rbind (needed (as_list (get_or_none catalog ''agents''))) (\<lambda>agents.
     rbind (collect (normalize_awesome_agent source_commit) agents) (\<lambda>rs.
     unique_agents [] rs)))"

subsection \<open>NVIDIA NIM\<close>

definition pci_device :: "string \<Rightarrow> string res" where
  "pci_device s =
     rbind (must (length s = 9 \<and> s ! 4 = CHR '':'' \<and> list_all (\<lambda>c. is_hex (lower_char c)) (take 4 s)
                  \<and> list_all (\<lambda>c. is_hex (lower_char c)) (drop 5 s))) (\<lambda>_. Inr (lower s))"

record nim_profile =
  np_id :: string
  np_gpu :: "string list option"
  np_device :: "string list option"
  np_tested :: "string list"
  np_precision :: "string option"
  np_backend :: "string option"
  np_tensor :: "int option"
  np_pipeline :: "int option"
  np_max_gpus :: "int option"
  np_min_vram :: "rat option"
  np_driver :: "string option"
  np_min_cpu :: "int option"
  np_memory :: "rat option"
  np_disk :: "rat option"
  np_lora :: val
  np_workspace :: "string option"

definition normalize_nim_profile :: "val \<Rightarrow> nim_profile res" where
  "normalize_nim_profile v =
     rbind (object_value v) (\<lambda>d.
     rbind (nonempty_string (get_or_none d ''profile_id'')) (\<lambda>pid.
     rbind (one_or_strings (get_or_none d ''gpu_device'')) (\<lambda>targets.
     rbind (optional_strings (get_or_none d ''tested_gpu_devices'')) (\<lambda>tested0.
     rbind (needed tested0) (\<lambda>tested.
     rbind (one_or_strings (get_or_none d ''gpu'')) (\<lambda>gpu.
     rbind (case targets of None \<Rightarrow> Inr None | Some ts \<Rightarrow> rbind (collect pci_device ts) (\<lambda>ds. Inr (Some ds))) (\<lambda>devices.
     rbind (collect pci_device tested) (\<lambda>tested_devices.
     rbind (optional_string (get_or_none d ''precision'')) (\<lambda>precision.
     rbind (optional_string (get_or_none d ''inference_backend'')) (\<lambda>backend.
     rbind (optional_positive_int (get_or_none d ''tensor_parallel_size'')) (\<lambda>tensor.
     rbind (optional_positive_int (get_or_none d ''pipeline_parallel_size'')) (\<lambda>pipeline.
     rbind (optional_positive_int (get_or_none d ''max_gpu_count'')) (\<lambda>max_gpus.
     rbind (optional_nonnegative_number (get_or_none d ''min_vram_per_device_gb'')) (\<lambda>vram.
     rbind (optional_string (get_or_none d ''min_driver_version'')) (\<lambda>driver.
     rbind (optional_positive_int (get_or_none d ''min_cpu_count'')) (\<lambda>cpus.
     rbind (optional_nonnegative_number (get_or_none d ''system_memory_per_device_gb'')) (\<lambda>memory.
     rbind (optional_nonnegative_number (get_or_none d ''disk_space_per_device_gb'')) (\<lambda>disk.
     rbind (optional_bool (get_or_none d ''feat_lora'')) (\<lambda>lora.
     rbind (optional_string (get_or_none d ''workspace_hash'')) (\<lambda>ws.
     Inr \<lparr>np_id = pid, np_gpu = gpu, np_device = devices, np_tested = tested_devices, np_precision = precision,
          np_backend = backend, np_tensor = tensor, np_pipeline = pipeline, np_max_gpus = max_gpus, np_min_vram = vram,
          np_driver = driver, np_min_cpu = cpus, np_memory = memory, np_disk = disk, np_lora = lora, np_workspace = ws\<rparr>))))))))))))))))))))"

definition nim_profile_dict :: "nim_profile \<Rightarrow> val" where
  "nim_profile_dict p =
     VDict [(''profile_id'', VStr (np_id p)), (''gpu'', opt_strs (np_gpu p)), (''gpu_device'', opt_strs (np_device p)),
       (''tested_gpu_devices'', VList (map VStr (np_tested p))), (''precision'', opt_str (np_precision p)),
       (''inference_backend'', opt_str (np_backend p)), (''tensor_parallel_size'', opt_int (np_tensor p)),
       (''pipeline_parallel_size'', opt_int (np_pipeline p)), (''max_gpu_count'', opt_int (np_max_gpus p)),
       (''min_vram_per_device_gb'', opt_float (np_min_vram p)), (''min_driver_version'', opt_str (np_driver p)),
       (''min_cpu_count'', opt_int (np_min_cpu p)), (''system_memory_per_device_gb'', opt_float (np_memory p)),
       (''disk_space_per_device_gb'', opt_float (np_disk p)), (''feat_lora'', np_lora p), (''workspace_hash'', opt_str (np_workspace p))]"

definition word_char :: "char \<Rightarrow> bool" where
  "word_char c = (is_letter c \<or> is_digit c \<or> c = CHR ''_'' \<or> c = CHR ''.'' \<or> c = CHR ''-'')"

definition nim_resource :: "string \<Rightarrow> bool" where
  "nim_resource s =
     (let parts = split_on (CHR ''/'') s
      in (length parts = 2 \<or> length parts = 3) \<and> list_all (\<lambda>p. p \<noteq> [] \<and> list_all word_char p) parts)"

definition container_tag :: "string \<Rightarrow> bool" where
  "container_tag s =
     (case s of [] \<Rightarrow> False
      | c # cs \<Rightarrow> (is_letter c \<or> is_digit c \<or> c = CHR ''_'') \<and> list_all word_char cs \<and> length cs \<le> 127)"

definition optional_profiles :: "val \<Rightarrow> nim_profile list option res" where
  "optional_profiles v =
     (if v = VNull then Inr None
      else rbind (needed (as_list v)) (\<lambda>xs. rbind (collect normalize_nim_profile xs) (\<lambda>ps. Inr (Some ps))))"

definition normalize_nim_metadata :: "string \<Rightarrow> string \<Rightarrow> val \<Rightarrow> source_record res" where
  "normalize_nim_metadata resource tag v =
     rbind (object_value v) (\<lambda>d.
     rbind (nonempty_string (VStr resource)) (\<lambda>_.
     rbind (must (nim_resource resource)) (\<lambda>_.
     rbind (nonempty_string (VStr tag)) (\<lambda>_.
     rbind (must (container_tag tag)) (\<lambda>_.
     rbind (optional_profiles (get_or_none d ''profiles'')) (\<lambda>profiles.
     rbind (optional_object d ''features'') (\<lambda>features.
     rbind (optional_object d ''release_details'') (\<lambda>release.
     rbind (optional_strings (get_or_none d ''related_urls'')) (\<lambda>related.
     rbind (optional_nonnegative_int (get_or_none features ''context_window'')) (\<lambda>window.
     rbind (optional_string (get_or_none release ''container_version'')) (\<lambda>version.
     rbind (optional_bool (get_or_none features ''tool_calling'')) (\<lambda>tools.
     rbind (optional_bool (get_or_none features ''vgpu_support'')) (\<lambda>vgpu.
     make_record
       \<lparr>sr_source = ''nvidia-nim-metadata'', sr_id = resource, sr_revision = Some tag, sr_type = ''nim_microservice'',
        sr_name = last_part (CHR ''/'') resource,
        sr_attributes = [(''profiles'', case profiles of None \<Rightarrow> VNull | Some ps \<Rightarrow> VList (map nim_profile_dict ps)),
          (''profiles_count'', count_of profiles), (''container_version'', opt_str version), (''tool_calling'', tools),
          (''vgpu_support'', vgpu), (''context_window'', opt_int window), (''related_urls'', opt_strs related),
          (''registry_entitlement'', VStr ''unknown'')],
        sr_relationships = [], sr_raw = d\<rparr>)))))))))))))"

subsection \<open>Screening a profile\<close>

record gpu_target =
  gt_device :: string
  gt_vram :: val
  gt_count :: val

datatype targeting = Direct | Tested | Gpu_Agnostic | Other_Gpu

fun targeting_name :: "targeting \<Rightarrow> string" where
  "targeting_name Direct = ''direct''"
| "targeting_name Tested = ''tested''"
| "targeting_name Gpu_Agnostic = ''gpu_agnostic''"
| "targeting_name Other_Gpu = ''other_gpu''"

definition target_match :: "nim_profile \<Rightarrow> string \<Rightarrow> targeting" where
  "target_match p target =
     (if target \<in> set (or_empty (np_device p)) then Direct
      else if target \<in> set (np_tested p) then Tested
      else if np_gpu p = None \<and> np_device p = None then Gpu_Agnostic else Other_Gpu)"

definition or_one :: "int option \<Rightarrow> int" where
  "or_one v = (case v of None \<Rightarrow> 1 | Some i \<Rightarrow> if i = 0 then 1 else i)"

definition required_gpus :: "nim_profile \<Rightarrow> int" where
  "required_gpus p = or_one (np_tensor p) * or_one (np_pipeline p)"

definition blocking_reasons :: "nim_profile \<Rightarrow> string \<Rightarrow> rat \<Rightarrow> int \<Rightarrow> string list" where
  "blocking_reasons p target vram count =
     (if target_match p target = Other_Gpu then [''target_gpu_not_listed''] else []) @
     (if count < required_gpus p then [''insufficient_gpu_count''] else []) @
     (case np_max_gpus p of Some m \<Rightarrow> if m < required_gpus p then [''profile_gpu_count_inconsistent''] else [] | None \<Rightarrow> []) @
     (case np_min_vram p of Some f \<Rightarrow> if vram < f then [''insufficient_vram_per_gpu''] else [] | None \<Rightarrow> [])"

definition unverified_requirements :: "nim_profile \<Rightarrow> string list" where
  "unverified_requirements p =
     (if np_min_vram p = None then [''minimum_vram_not_published''] else []) @
     (if np_driver p \<noteq> None then [''min_driver_version_not_checked''] else []) @
     (if np_min_cpu p \<noteq> None then [''min_cpu_count_not_checked''] else []) @
     (if np_memory p \<noteq> None then [''system_memory_per_device_gb_not_checked''] else []) @
     (if np_disk p \<noteq> None then [''disk_space_per_device_gb_not_checked''] else [])"

record screening =
  sc_profile :: string
  sc_targeting :: targeting
  sc_status :: string
  sc_required :: int
  sc_blocking :: "string list"
  sc_unverified :: "string list"
  sc_runtime_verified :: bool

definition assess_nim_gpu_profile :: "nim_profile \<Rightarrow> gpu_target \<Rightarrow> screening res" where
  "assess_nim_gpu_profile p hardware =
     rbind (pci_device (gt_device hardware)) (\<lambda>target.
     rbind (optional_nonnegative_number (gt_vram hardware)) (\<lambda>vram0.
     rbind (optional_positive_int (gt_count hardware)) (\<lambda>count0.
     rbind (needed vram0) (\<lambda>vram.
     rbind (needed count0) (\<lambda>count.
     let blocking = blocking_reasons p target vram count; unverified = unverified_requirements p in
     Inr \<lparr>sc_profile = np_id p, sc_targeting = target_match p target,
          sc_status = (if blocking \<noteq> [] then ''excluded'' else if unverified \<noteq> [] then ''candidate_unverified''
                       else ''candidate_recorded_constraints_met''),
          sc_required = required_gpus p, sc_blocking = blocking, sc_unverified = unverified, sc_runtime_verified = False\<rparr>)))))"

end
