(* ===== verification/Snapshots.thy ===== *)
theory Snapshots
  imports Source_Adapters "HOL-Library.AList"
begin

section \<open>database/poc/discovery_cache.py: discovery snapshots\<close>

text \<open>
  The deterministic snapshot of source records: records keyed by a digest of their identity, sorted, with the
  digest of every payload, under an identifier that binds the scope and all the digests. Parameters: SHA-256 and
  the printing of floats (\<open>hashing\<close>), and \<open>clk\<close>, the parser \<open>datetime.fromisoformat\<close> of the standard library
  (\<open>None\<close> where it raises, \<open>Some None\<close> for a naive time, else the instant).
\<close>

definition SNAPSHOT_FORMAT :: string where "SNAPSHOT_FORMAT = ''pepeuch-ai.discovery-cache/v1''"

type_synonym clock_reader = "string \<Rightarrow> rat option option"

definition canonical_json :: "hashing \<Rightarrow> val \<Rightarrow> string res" where
  "canonical_json h v = canon (hs_frepr h) v"

definition json_digest :: "hashing \<Rightarrow> val \<Rightarrow> string res" where
  "json_digest h v = rbind (canonical_json h v) (\<lambda>s. Inr (hs_sha h (utf8 s)))"

definition record_key :: "hashing \<Rightarrow> string \<Rightarrow> string \<Rightarrow> string \<Rightarrow> string res" where
  "record_key h source type source_id =
     rbind (json_digest h (VList [VStr source, VStr type, VStr source_id])) (\<lambda>d. Inr (''d_'' @ d))"

definition payload_of :: "source_record \<Rightarrow> dict" where
  "payload_of r =
     [(''source'', VStr (sr_source r)), (''entity_type'', VStr (sr_type r)), (''source_id'', VStr (sr_id r)),
      (''source_revision'', opt_str (sr_revision r)), (''display_name'', VStr (sr_name r)),
      (''attributes'', VDict (sr_attributes r)), (''relationships'', VList (map VDict (sr_relationships r))),
      (''raw_metadata'', VDict (sr_raw r))]"

definition record_payload :: "source_record \<Rightarrow> dict res" where "record_payload r = copy_dict (payload_of r)"

definition string_items :: "val \<Rightarrow> dict option" where
  \<comment> \<open>an object whose values are strings\<close>
  "string_items v = (case as_dict v of Some d \<Rightarrow> if list_all (\<lambda>(_, x). as_str x \<noteq> None) d then Some d else None | None \<Rightarrow> None)"

definition record_from_payload :: "dict \<Rightarrow> source_record res" where
  "record_from_payload d =
     rbind (nonempty_string (get_or_none d ''source'')) (\<lambda>source.
     rbind (nonempty_string (get_or_none d ''entity_type'')) (\<lambda>type.
     rbind (nonempty_string (get_or_none d ''source_id'')) (\<lambda>source_id.
     rbind (nonempty_string (get_or_none d ''display_name'')) (\<lambda>name.
     rbind (must (type \<in> set RESOURCE_TYPES)) (\<lambda>_.
     rbind (must (get_or_none d ''source_revision'' = VNull \<or> as_str (get_or_none d ''source_revision'') \<noteq> None)) (\<lambda>_.
     rbind (needed (as_dict (get_or_none d ''attributes''))) (\<lambda>attributes.
     rbind (needed (as_dict (get_or_none d ''raw_metadata''))) (\<lambda>raw.
     rbind (needed (as_list (get_or_none d ''relationships''))) (\<lambda>relations.
     rbind (collect (\<lambda>x. needed (string_items x)) relations) (\<lambda>rs.
     make_record
       \<lparr>sr_source = source, sr_id = source_id, sr_revision = as_str (get_or_none d ''source_revision''), sr_type = type,
        sr_name = name, sr_attributes = attributes, sr_relationships = rs, sr_raw = raw\<rparr>))))))))))"

subsection \<open>Building\<close>

fun replace_z :: "string \<Rightarrow> string" where
  "replace_z [] = []"
| "replace_z (c # cs) = (if c = CHR ''Z'' then ''+00:00'' @ replace_z cs else c # replace_z cs)"

definition validate_time :: "clock_reader \<Rightarrow> val \<Rightarrow> unit res" where
  "validate_time clk v =
     rbind (needed (as_str v)) (\<lambda>s.
     rbind (needed (clk (replace_z s))) (\<lambda>stamp. must (stamp \<noteq> None)))"

record entry =
  en_key :: string
  en_digest :: string
  en_payload :: dict

definition entry_dict :: "entry \<Rightarrow> dict" where
  "entry_dict e = [(''record_key'', VStr (en_key e)), (''payload_sha256'', VStr (en_digest e))] @ en_payload e"

definition same_entry :: "entry \<Rightarrow> entry \<Rightarrow> bool" where
  "same_entry a b = py_eq (VDict (entry_dict a)) (VDict (entry_dict b))"

definition make_entry :: "hashing \<Rightarrow> source_record \<Rightarrow> entry res" where
  "make_entry h r =
     rbind (record_payload r) (\<lambda>payload.
     rbind (record_from_payload payload) (\<lambda>_.
     rbind (record_key h (sr_source r) (sr_type r) (sr_id r)) (\<lambda>key.
     rbind (json_digest h (VDict payload)) (\<lambda>d.
     Inr \<lparr>en_key = key, en_digest = d, en_payload = payload\<rparr>))))"

fun add_entries :: "hashing \<Rightarrow> source_record list \<Rightarrow> (string \<times> entry) list \<Rightarrow> (string \<times> entry) list res" where
  "add_entries h [] by_key = Inr by_key"
| "add_entries h (r # rs) by_key =
     rbind (make_entry h r) (\<lambda>e.
     rbind (must (case map_of by_key (en_key e) of None \<Rightarrow> True | Some prior \<Rightarrow> same_entry prior e)) (\<lambda>_.
     add_entries h rs (AList.update (en_key e) e by_key)))"

definition entries_signature :: "entry list \<Rightarrow> val" where
  "entries_signature es = VList (map (\<lambda>e. VList [VStr (en_key e), VStr (en_digest e)]) es)"

definition snapshot_id :: "hashing \<Rightarrow> dict \<Rightarrow> entry list \<Rightarrow> string res" where
  "snapshot_id h scope es =
     rbind (json_digest h (VDict [(''scope'', VDict scope), (''content'', entries_signature es)])) (\<lambda>d. Inr (''s_'' @ d))"

definition snapshot_dict :: "string \<Rightarrow> val \<Rightarrow> dict \<Rightarrow> entry list \<Rightarrow> dict" where
  "snapshot_dict i captured scope es =
     [(''format'', VStr SNAPSHOT_FORMAT), (''snapshot_id'', VStr i), (''captured_at'', captured), (''scope'', VDict scope),
      (''records'', VList (map (VDict \<circ> entry_dict) es))]"

definition declared_scope :: "val \<Rightarrow> dict res" where
  "declared_scope v = rbind (needed (as_dict v)) (\<lambda>d. rbind (must (d \<noteq> [])) (\<lambda>_. copy_dict d))"

definition make_snapshot :: "hashing \<Rightarrow> clock_reader \<Rightarrow> string \<Rightarrow> source_record list \<Rightarrow> val \<Rightarrow> val \<Rightarrow> dict res" where
  \<comment> \<open>\<open>now\<close> is the text of the current time, used when no capture time is given\<close>
  "make_snapshot h clk now records scope0 captured0 =
     rbind (declared_scope scope0) (\<lambda>scope.
     let captured = (if captured0 = VNull then VStr now else captured0) in
     rbind (validate_time clk captured) (\<lambda>_.
     rbind (add_entries h records []) (\<lambda>by_key.
     rbind (must (by_key \<noteq> [])) (\<lambda>_.
     let es = map snd (sort_key fst by_key) in
     rbind (snapshot_id h scope es) (\<lambda>i.
     Inr (snapshot_dict i captured scope es))))))"

subsection \<open>Validation\<close>

definition is_record_key :: "string \<Rightarrow> bool" where
  "is_record_key s = (starts_with ''d_'' s \<and> hex_string 64 (drop 2 s))"

definition entry_payload :: "dict \<Rightarrow> dict" where
  "entry_payload d = filter (\<lambda>p. fst p \<noteq> ''record_key'' \<and> fst p \<noteq> ''payload_sha256'') d"

definition validate_entry :: "hashing \<Rightarrow> val \<Rightarrow> source_record res" where
  "validate_entry h v =
     rbind (needed (as_dict v)) (\<lambda>d.
     rbind (needed (as_str (get_or_none d ''record_key''))) (\<lambda>key.
     rbind (must (is_record_key key)) (\<lambda>_.
     rbind (needed (as_str (get_or_none d ''payload_sha256''))) (\<lambda>sha.
     rbind (must (hex_string 64 sha)) (\<lambda>_.
     let payload = entry_payload d in
     rbind (record_from_payload payload) (\<lambda>r.
     rbind (record_payload r) (\<lambda>expected.
     rbind (must (exact_keys payload (keys expected))) (\<lambda>_.
     rbind (json_digest h (VDict payload)) (\<lambda>actual.
     rbind (must (actual = sha)) (\<lambda>_.
     rbind (record_key h (sr_source r) (sr_type r) (sr_id r)) (\<lambda>k.
     rbind (must (k = key)) (\<lambda>_. Inr r))))))))))))"

definition validate_snapshot :: "hashing \<Rightarrow> clock_reader \<Rightarrow> string \<Rightarrow> val \<Rightarrow> dict res" where
  "validate_snapshot h clk now v =
     rbind (needed (as_dict v)) (\<lambda>data.
     rbind (must (get_or_none data ''format'' = VStr SNAPSHOT_FORMAT)) (\<lambda>_.
     rbind (needed (as_list (get_or_none data ''records''))) (\<lambda>records.
     rbind (collect (validate_entry h) records) (\<lambda>recovered.
     rbind (make_snapshot h clk now recovered (get_or_none data ''scope'') (get_or_none data ''captured_at'')) (\<lambda>expected.
     rbind (must (get_or_none data ''snapshot_id'' = get_or_none expected ''snapshot_id''
                  \<and> py_eq (VList records) (get_or_none expected ''records''))) (\<lambda>_.
     Inr data))))))"

subsection \<open>Comparison\<close>

definition records_by_key :: "dict \<Rightarrow> (string \<times> dict) list" where
  \<comment> \<open>the records of a validated snapshot\<close>
  "records_by_key data =
     (case get_or_none data ''records'' of
        VList rs \<Rightarrow> concat (map (\<lambda>r. case r of VDict d \<Rightarrow> (case get_or_none d ''record_key'' of VStr k \<Rightarrow> [(k, d)] | _ \<Rightarrow> []) | _ \<Rightarrow> []) rs)
      | _ \<Rightarrow> [])"

record comparison =
  cm_before :: val
  cm_after :: val
  cm_added :: "string list"
  cm_changed :: "string list"
  cm_not_observed :: "string list"
  cm_unchanged :: nat

definition changed_key :: "(string \<times> dict) list \<Rightarrow> (string \<times> dict) list \<Rightarrow> string \<Rightarrow> bool" where
  "changed_key old new k =
     (case (map_of old k, map_of new k) of
        (Some a, Some b) \<Rightarrow> get_or_none a ''payload_sha256'' \<noteq> get_or_none b ''payload_sha256''
      | _ \<Rightarrow> False)"

definition compare_snapshots :: "hashing \<Rightarrow> clock_reader \<Rightarrow> string \<Rightarrow> val \<Rightarrow> val \<Rightarrow> comparison res" where
  "compare_snapshots h clk now before after =
     rbind (validate_snapshot h clk now before) (\<lambda>b.
     rbind (validate_snapshot h clk now after) (\<lambda>a.
     rbind (must (py_eq (get_or_none b ''scope'') (get_or_none a ''scope''))) (\<lambda>_.
     let old = records_by_key b; new = records_by_key a; ko = map fst old; kn = map fst new;
         common = filter (\<lambda>k. k \<in> set kn) ko in
     Inr \<lparr>cm_before = get_or_none b ''snapshot_id'', cm_after = get_or_none a ''snapshot_id'',
          cm_added = sort (filter (\<lambda>k. k \<notin> set ko) kn), cm_changed = sort (filter (changed_key old new) common),
          cm_not_observed = sort (filter (\<lambda>k. k \<notin> set kn) ko),
          cm_unchanged = length (filter (\<lambda>k. \<not> changed_key old new k) common)\<rparr>)))"

definition comparison_dict :: "comparison \<Rightarrow> val" where
  "comparison_dict c =
     VDict [(''before'', cm_before c), (''after'', cm_after c), (''added'', VList (map VStr (cm_added c))),
       (''changed'', VList (map VStr (cm_changed c))), (''not_observed'', VList (map VStr (cm_not_observed c))),
       (''unchanged_count'', VInt (int (cm_unchanged c))),
       (''note'', VStr ''not_observed is NOT a deletion instruction (sample or source may be partial)'')]"

end
