(* ===== verification/Snapshot_Guarantees.thy ===== *)
theory Snapshot_Guarantees
  imports Snapshots
begin

section \<open>Guarantees of discovery snapshots\<close>

text \<open>
  What \<open>make_snapshot\<close> builds is what \<open>validate_snapshot\<close> accepts; the identifier depends on the set of the records
  only; the comparison is the difference of the two finite maps from record keys to records.
\<close>

subsection \<open>Equality of Python values is reflexive on plain values\<close>

lemma py_eq_items_self:
  "(\<And>k v. (k, v) \<in> set d \<Longrightarrow> map_of e k = Some v \<and> py_eq v v) \<Longrightarrow> py_eq_items d e"
proof (induction d)
  case Nil
  then show ?case by simp
next
  case (Cons p d)
  obtain k v where p: "p = (k, v)" by fastforce
  have "map_of e k = Some v \<and> py_eq v v" using Cons.prems [of k v] p by simp
  moreover have "py_eq_items d e" by (rule Cons.IH) (metis Cons.prems list.set_intros(2))
  ultimately show ?case using p by simp
qed

lemma py_eq_refl:
  "plain v \<Longrightarrow> py_eq v v"
  "plain_list xs \<Longrightarrow> py_eq_list xs xs"
  "plain_items d \<Longrightarrow> (k, v) \<in> set d \<Longrightarrow> py_eq v v"
proof (induction v and xs and d arbitrary: and and k v rule: plain_plain_list_plain_items.induct)
  case (1 f)
  then show ?case by (cases f) auto
next
  case (3 d)
  then have "py_eq_items d d" by (intro py_eq_items_self) auto
  then show ?case by simp
qed auto

subsection \<open>Entries\<close>

lemma payload_keys [simp]: "map fst (payload_of r) = [''source'', ''entity_type'', ''source_id'', ''source_revision'',
     ''display_name'', ''attributes'', ''relationships'', ''raw_metadata'']"
  by (simp add: payload_of_def)

lemma string_items_Some: "string_items v = Some d \<Longrightarrow> v = VDict d"
  by (auto simp: string_items_def split: option.splits if_splits)

lemma collect_string_items: "collect (\<lambda>x. needed (string_items x)) (map VDict ds) = Inr rs \<Longrightarrow> rs = ds"
  by (induction ds arbitrary: rs) (auto split: sum.splits dest: string_items_Some)

lemma record_from_own_payload:
  assumes "record_from_payload (payload_of r) = Inr r'"
  shows "r' = r"
proof -
  have rev: "as_str (opt_str x) = x" for x by (cases x) (simp_all add: opt_str_def)
  from assms obtain rs where "collect (\<lambda>x. needed (string_items x)) (map VDict (sr_relationships r)) = Inr rs"
    "make_record \<lparr>sr_source = sr_source r, sr_id = sr_id r, sr_revision = as_str (opt_str (sr_revision r)), sr_type = sr_type r,
        sr_name = sr_name r, sr_attributes = sr_attributes r, sr_relationships = rs, sr_raw = sr_raw r\<rparr> = Inr r'"
    by (auto simp: record_from_payload_def payload_of_def get_or_none_def)
  then show ?thesis by (auto simp: make_record_def rev dest: collect_string_items)
qed

text \<open>The entry of a record: what was checked when it was made.\<close>

lemma make_entry_Inr:
  assumes "make_entry h r = Inr e"
  shows "en_payload e = payload_of r" "record_from_payload (payload_of r) = Inr r" "record_payload r = Inr (payload_of r)"
    "record_key h (sr_source r) (sr_type r) (sr_id r) = Inr (en_key e)" "json_digest h (VDict (payload_of r)) = Inr (en_digest e)"
    "plain (VDict (payload_of r))"
  using assms record_from_own_payload
  by (auto simp: make_entry_def record_payload_def)

definition digests :: "hashing \<Rightarrow> bool" where
  \<comment> \<open>SHA-256 in hexadecimal\<close>
  "digests h \<longleftrightarrow> (\<forall>s. hex_string 64 (hs_sha h s))"

lemma json_digest_hex: "digests h \<Longrightarrow> json_digest h v = Inr d \<Longrightarrow> hex_string 64 d"
  by (auto simp: json_digest_def digests_def)

lemma record_key_hex: "digests h \<Longrightarrow> record_key h a b c = Inr k \<Longrightarrow> is_record_key k"
  by (auto simp: record_key_def is_record_key_def starts_with_def dest: json_digest_hex)

lemma entry_payload_own: "entry_payload (entry_dict e) = en_payload e"
  if "en_payload e = payload_of r" for e r
  using that by (simp add: entry_payload_def entry_dict_def payload_of_def)

lemma validate_own_entry:
  assumes "digests h" and "make_entry h r = Inr e"
  shows "validate_entry h (VDict (entry_dict e)) = Inr r"
proof -
  note e = make_entry_Inr [OF assms(2)]
  have "exact_keys (payload_of r) (keys (payload_of r))" by (simp add: exact_keys_def)
  moreover have "entry_payload (entry_dict e) = payload_of r" using entry_payload_own [OF e(1)] e(1) by simp
  moreover have "get_or_none (entry_dict e) ''record_key'' = VStr (en_key e)"
    "get_or_none (entry_dict e) ''payload_sha256'' = VStr (en_digest e)"
    by (simp_all add: entry_dict_def get_or_none_def)
  ultimately show ?thesis
    using e json_digest_hex [OF assms(1) e(5)] record_key_hex [OF assms(1) e(4)]
    by (simp add: validate_entry_def Let_def del: get_or_none_eq)
qed

subsection \<open>The table of entries\<close>

definition entries_of :: "hashing \<Rightarrow> source_record set \<Rightarrow> (string \<times> entry) list \<Rightarrow> bool" where
  \<comment> \<open>a table of entries of the given records, one per key, with every digest that occurs\<close>
  "entries_of h R t \<longleftrightarrow>
     distinct (map fst t) \<and> (\<forall>(k, e)\<in>set t. k = en_key e \<and> (\<exists>r\<in>R. make_entry h r = Inr e))
     \<and> (\<forall>r\<in>R. \<exists>e. make_entry h r = Inr e \<and> (\<exists>e'. (en_key e, e') \<in> set t \<and> en_digest e' = en_digest e))"

lemma same_entry_digest: "same_entry a b \<Longrightarrow> en_digest a = en_digest b"
  by (simp add: same_entry_def entry_dict_def)

lemma entries_of_update:
  assumes t: "entries_of h R t" and e: "make_entry h r = Inr e"
    and same: "case map_of t (en_key e) of None \<Rightarrow> True | Some prior \<Rightarrow> same_entry prior e"
  shows "entries_of h (insert r R) (AList.update (en_key e) e t)"
proof -
  have dist: "distinct (map fst (AList.update (en_key e) e t))"
    using t by (simp add: entries_of_def distinct_update)
  have mem: "(k, x) \<in> set (AList.update (en_key e) e t) \<longleftrightarrow> (if k = en_key e then x = e else (k, x) \<in> set t)" for k x
  proof -
    have "(k, x) \<in> set (AList.update (en_key e) e t) \<longleftrightarrow> map_of (AList.update (en_key e) e t) k = Some x"
      using dist by simp
    also have "\<dots> \<longleftrightarrow> (if k = en_key e then x = e else map_of t k = Some x)" by (auto simp: update_conv)
    also have "\<dots> \<longleftrightarrow> (if k = en_key e then x = e else (k, x) \<in> set t)" using t by (simp add: entries_of_def)
    finally show ?thesis .
  qed
  have prior: "en_digest x = en_digest e" if "(en_key e, x) \<in> set t" for x
  proof -
    from t that have "map_of t (en_key e) = Some x" by (simp add: entries_of_def)
    with same show ?thesis using same_entry_digest by simp
  qed
  show ?thesis
    unfolding entries_of_def
  proof (intro conjI ballI)
    show "distinct (map fst (AList.update (en_key e) e t))" by (rule dist)
  next
    fix p assume p: "p \<in> set (AList.update (en_key e) e t)"
    obtain k x where kx: "p = (k, x)" by fastforce
    show "case p of (k, x) \<Rightarrow> k = en_key x \<and> (\<exists>r\<in>insert r R. make_entry h r = Inr x)"
      using p t e unfolding kx mem entries_of_def by (auto split: if_splits)
  next
    fix q assume "q \<in> insert r R"
    then consider "q = r" | "q \<in> R" by blast
    then show "\<exists>x. make_entry h q = Inr x \<and> (\<exists>e'. (en_key x, e') \<in> set (AList.update (en_key e) e t) \<and> en_digest e' = en_digest x)"
    proof cases
      case 1
      with e show ?thesis unfolding mem by auto
    next
      case 2
      with t obtain x e' where x: "make_entry h q = Inr x" "(en_key x, e') \<in> set t" "en_digest e' = en_digest x"
        unfolding entries_of_def by blast
      show ?thesis
      proof (cases "en_key x = en_key e")
        case True
        with x prior show ?thesis unfolding mem by (intro exI [of _ x]) auto
      next
        case False
        with x show ?thesis unfolding mem by auto
      qed
    qed
  qed
qed

lemma add_entries_Inr:
  assumes "add_entries h rs t = Inr t'" and "entries_of h R t"
  shows "entries_of h (R \<union> set rs) t'"
  using assms
proof (induction rs arbitrary: t R)
  case Nil
  then show ?case by simp
next
  case (Cons r rs)
  then obtain e where e: "make_entry h r = Inr e"
    "case map_of t (en_key e) of None \<Rightarrow> True | Some prior \<Rightarrow> same_entry prior e"
    "add_entries h rs (AList.update (en_key e) e t) = Inr t'" by auto
  from Cons.IH [OF e(3) entries_of_update [OF Cons.prems(2) e(1,2)]] show ?case by simp
qed

lemma entries_of_empty: "entries_of h {} []"
  by (simp add: entries_of_def)

text \<open>Records whose entries have different keys are added in order, whatever the table was.\<close>

lemma add_own_entries:
  assumes "list_all2 (\<lambda>r e. make_entry h r = Inr e) rs es" and "distinct (map fst t @ map en_key es)"
  shows "add_entries h rs t = Inr (t @ map (\<lambda>e. (en_key e, e)) es)"
  using assms
proof (induction rs es arbitrary: t rule: list_all2_induct)
  case Nil
  then show ?case by simp
next
  case (Cons r rs e es)
  then have new: "map_of t (en_key e) = None" by (auto simp: map_of_eq_None_iff)
  moreover have "AList.update (en_key e) e t = t @ [(en_key e, e)]"
    using new by (induction t) (auto split: if_splits)
  ultimately show ?case using Cons by (simp add: Cons.IH)
qed

subsection \<open>Building a snapshot\<close>

definition built :: "hashing \<Rightarrow> source_record list \<Rightarrow> dict \<Rightarrow> val \<Rightarrow> entry list \<Rightarrow> dict \<Rightarrow> bool" where
  \<comment> \<open>what a successful \<open>make_snapshot\<close> has established\<close>
  "built h records scope captured es s \<longleftrightarrow>
     (\<exists>t i. entries_of h (set records) t \<and> es = map snd (sort_key fst t) \<and> es \<noteq> [] \<and> scope \<noteq> []
        \<and> secret_free (VDict scope) \<and> plain (VDict scope) \<and> captured \<noteq> VNull
        \<and> snapshot_id h scope es = Inr i \<and> s = snapshot_dict i captured scope es)"

definition captured_time :: "string \<Rightarrow> val \<Rightarrow> val" where
  "captured_time now captured0 = (if captured0 = VNull then VStr now else captured0)"

lemma captured_time_again [simp]:
  "captured_time now v \<noteq> VNull" "captured_time later (captured_time now v) = captured_time now v"
  by (simp_all add: captured_time_def)

lemma make_snapshot_alt:
  "make_snapshot h clk now records (VDict d) captured0 =
     rbind (must (d \<noteq> [])) (\<lambda>_. rbind (copy_dict d) (\<lambda>scope.
     rbind (validate_time clk (captured_time now captured0)) (\<lambda>_.
     rbind (add_entries h records []) (\<lambda>t.
     rbind (must (t \<noteq> [])) (\<lambda>_.
     rbind (snapshot_id h scope (map snd (sort_key fst t))) (\<lambda>i.
     Inr (snapshot_dict i (captured_time now captured0) scope (map snd (sort_key fst t)))))))))"
  by (cases "d = []") (simp_all add: make_snapshot_def declared_scope_def Let_def captured_time_def invalid_def cong: if_cong)

lemma make_snapshot_built:
  assumes "make_snapshot h clk now records (VDict scope) captured0 = Inr s"
  obtains es where "built h records scope (captured_time now captured0) es s"
    "validate_time clk (captured_time now captured0) = Inr ()"
proof -
  obtain t i where t: "add_entries h records [] = Inr t" "t \<noteq> []" "scope \<noteq> []"
    "secret_free (VDict scope)" "plain (VDict scope)" "validate_time clk (captured_time now captured0) = Inr ()"
    "snapshot_id h scope (map snd (sort_key fst t)) = Inr i"
    "s = snapshot_dict i (captured_time now captured0) scope (map snd (sort_key fst t))"
    using assms unfolding make_snapshot_alt rbind_Inr must_Inr copy_dict_Inr by (elim exE conjE) simp
  have "entries_of h (set records) t" using add_entries_Inr [OF t(1) entries_of_empty] by simp
  moreover have "map snd (sort_key fst t) \<noteq> []" using t(2) by (metis length_0_conv length_map length_sort)
  ultimately have "built h records scope (captured_time now captured0) (map snd (sort_key fst t)) s"
    unfolding built_def using t(3-5,7,8) captured_time_again(1) by blast
  with t(6) that show thesis by blast
qed

lemma sorted_entries:
  assumes "entries_of h R t"
  shows "sorted (map en_key (map snd (sort_key fst t)))" "distinct (map en_key (map snd (sort_key fst t)))"
    "(\<lambda>e. (en_key e, en_digest e)) ` set (map snd (sort_key fst t)) = {(en_key e, en_digest e) |e r. r \<in> R \<and> make_entry h r = Inr e}"
    "\<And>e. e \<in> set (map snd (sort_key fst t)) \<Longrightarrow> \<exists>r\<in>R. make_entry h r = Inr e"
proof -
  have keys: "map en_key (map snd (sort_key fst t)) = map fst (sort_key fst t)"
    using assms by (auto simp: entries_of_def)
  show "sorted (map en_key (map snd (sort_key fst t)))" unfolding keys by (rule sorted_sort_key)
  have "distinct (map fst (sort_key fst t))"
    using assms by (simp add: entries_of_def distinct_map)
  then show "distinct (map en_key (map snd (sort_key fst t)))" unfolding keys .
  show "\<exists>r\<in>R. make_entry h r = Inr e" if "e \<in> set (map snd (sort_key fst t))" for e
    using that assms by (fastforce simp: entries_of_def)
  show "(\<lambda>e. (en_key e, en_digest e)) ` set (map snd (sort_key fst t)) = {(en_key e, en_digest e) |e r. r \<in> R \<and> make_entry h r = Inr e}"
    (is "?lhs = ?rhs")
  proof
    show "?lhs \<subseteq> ?rhs" using assms by (fastforce simp: entries_of_def)
    show "?rhs \<subseteq> ?lhs"
    proof
      fix x assume "x \<in> ?rhs"
      then obtain e r where x: "x = (en_key e, en_digest e)" "r \<in> R" "make_entry h r = Inr e" by blast
      with assms obtain e' where e': "(en_key e, e') \<in> set t" "en_digest e' = en_digest e"
        unfolding entries_of_def by fastforce
      with assms have "en_key e' = en_key e" by (fastforce simp: entries_of_def)
      with e'(2) x have "x = (en_key e', en_digest e')" by simp
      moreover have "e' \<in> set (map snd (sort_key fst t))" using e'(1) by force
      ultimately show "x \<in> ?lhs" by blast
    qed
  qed
qed

lemma sorted_entries_again:
  assumes "sorted (map en_key es)" and "distinct (map en_key es)"
  shows "map snd (sort_key fst (map (\<lambda>e. (en_key e, e)) es)) = es"
proof -
  have "sort_key fst (map (\<lambda>e. (en_key e, e)) es) = map (\<lambda>e. (en_key e, e)) es"
    using assms(1) by (intro sort_key_id_if_sorted) (simp add: comp_def)
  then show ?thesis by (simp add: comp_def)
qed

lemma plain_entry: "make_entry h r = Inr e \<Longrightarrow> plain (VDict (entry_dict e))"
  using make_entry_Inr [of h r e] by (auto simp: entry_dict_def payload_of_def)

lemma list_all2_choice: "(\<And>e. e \<in> set es \<Longrightarrow> \<exists>r. P r e) \<Longrightarrow> \<exists>rs. list_all2 P rs es"
proof (induction es)
  case Nil
  show ?case by (rule exI [of _ "[]"]) simp
next
  case (Cons e es)
  then obtain r rs where "P r e" "list_all2 P rs es" by (metis list.set_intros)
  then show ?case by (intro exI [of _ "r # rs"]) simp
qed

lemma collect_own_entries:
  assumes "digests h" and "list_all2 (\<lambda>r e. make_entry h r = Inr e) rs es"
  shows "collect (validate_entry h) (map (VDict \<circ> entry_dict) es) = Inr rs"
  using assms(2) by (induction rule: list_all2_induct) (simp_all add: validate_own_entry [OF assms(1)])

lemma own_snapshot_validates:
  assumes "digests h" and "make_snapshot h clk now records scope0 captured0 = Inr s"
  shows "validate_snapshot h clk later (VDict s) = Inr s"
proof -
  from assms(2) obtain scope where scope0: "scope0 = VDict scope"
    by (auto simp: make_snapshot_def declared_scope_def)
  let ?captured = "captured_time now captured0"
  obtain es where built: "built h records scope ?captured es s" and time: "validate_time clk ?captured = Inr ()"
    using assms(2) unfolding scope0 by (rule make_snapshot_built)
  then obtain t i where t: "entries_of h (set records) t" "es = map snd (sort_key fst t)" "es \<noteq> []" "scope \<noteq> []"
    "secret_free (VDict scope)" "plain (VDict scope)" "snapshot_id h scope es = Inr i"
    "s = snapshot_dict i ?captured scope es"
    unfolding built_def by blast
  note sorted = sorted_entries [OF t(1), folded t(2)]
  obtain rs where rs: "list_all2 (\<lambda>r e. make_entry h r = Inr e) rs es"
    using sorted(4) list_all2_choice [of es "\<lambda>r e. make_entry h r = Inr e"] by blast
  have added: "add_entries h rs [] = Inr (map (\<lambda>e. (en_key e, e)) es)"
    using add_own_entries [OF rs, of "[]"] sorted(2) by simp
  have fields: "get_or_none s ''format'' = VStr SNAPSHOT_FORMAT" "get_or_none s ''records'' = VList (map (VDict \<circ> entry_dict) es)"
    "get_or_none s ''scope'' = VDict scope" "get_or_none s ''captured_at'' = ?captured" "get_or_none s ''snapshot_id'' = VStr i"
    unfolding t(8) by (simp_all add: snapshot_dict_def get_or_none_def)
  have again: "make_snapshot h clk later rs (VDict scope) ?captured = Inr s"
    unfolding make_snapshot_alt captured_time_again
    using t(3-8) added sorted_entries_again [OF sorted(1,2)] time by simp
  have "plain_list (map (VDict \<circ> entry_dict) es)"
    using sorted(4) plain_entry by (fastforce simp: plain_list_iff)
  then have "py_eq (VList (map (VDict \<circ> entry_dict) es)) (VList (map (VDict \<circ> entry_dict) es))"
    by (intro py_eq_refl) simp
  with fields again collect_own_entries [OF assms(1) rs] show ?thesis
    by (simp add: validate_snapshot_def del: get_or_none_eq)
qed

text \<open>
  C29. A snapshot that \<open>make_snapshot\<close> returns is accepted by \<open>validate_snapshot\<close> as it is, at any later time: the
  records are rebuilt from the payloads, the digests and the order agree and the identifier is recomputed. SHA-256 is
  used as 64 hexadecimal digits.
\<close>

theorem built_snapshot_validates:
  assumes "digests h" and "make_snapshot h clk now records scope0 captured0 = Inr s"
  shows "validate_snapshot h clk later (VDict s) = Inr s"
  using assms by (rule own_snapshot_validates)

text \<open>
  C30. The identifier of a snapshot is a function of its scope and of the set of its records: two snapshots built from
  the same records in any order, with any repetitions, at any times, have the same identifier.
\<close>

theorem snapshot_id_ignores_order:
  assumes "make_snapshot h clk1 now1 records1 (VDict scope) captured1 = Inr s1"
    and "make_snapshot h clk2 now2 records2 (VDict scope) captured2 = Inr s2"
    and "set records1 = set records2"
  shows "get_or_none s1 ''snapshot_id'' = get_or_none s2 ''snapshot_id''"
proof -
  have field: "get_or_none (snapshot_dict i c scope es) ''snapshot_id'' = VStr i" for i c es
    by (simp add: snapshot_dict_def get_or_none_def)
  obtain es1 where "built h records1 scope (captured_time now1 captured1) es1 s1"
    using assms(1) by (rule make_snapshot_built)
  then obtain t1 i1 where b1: "entries_of h (set records1) t1" "es1 = map snd (sort_key fst t1)" "snapshot_id h scope es1 = Inr i1"
    "get_or_none s1 ''snapshot_id'' = VStr i1"
    unfolding built_def using field by blast
  obtain es2 where "built h records2 scope (captured_time now2 captured2) es2 s2"
    using assms(2) by (rule make_snapshot_built)
  then obtain t2 i2 where b2: "entries_of h (set records2) t2" "es2 = map snd (sort_key fst t2)" "snapshot_id h scope es2 = Inr i2"
    "get_or_none s2 ''snapshot_id'' = VStr i2"
    unfolding built_def using field by blast
  note k1 = sorted_entries [OF b1(1), folded b1(2)] and k2 = sorted_entries [OF b2(1), folded b2(2)]
  let ?p = "\<lambda>e. (en_key e, en_digest e)"
  have sets: "set (map ?p es1) = set (map ?p es2)"
    using k1(3) k2(3) assms(3) by simp
  have keys: "map fst (map ?p es) = map en_key es" for es by simp
  have same: "map ?p es1 = map ?p es2"
  proof (rule map_sorted_distinct_set_unique [of fst])
    have "distinct (map fst (map ?p es1))" using k1(2) unfolding keys .
    then show "inj_on fst (set (map ?p es1) \<union> set (map ?p es2))"
      unfolding sets [symmetric] Un_absorb distinct_map by blast
    show "sorted (map fst (map ?p es1))" "sorted (map fst (map ?p es2))" unfolding keys by (rule k1(1) k2(1))+
    show "distinct (map fst (map ?p es1))" "distinct (map fst (map ?p es2))" unfolding keys by (rule k1(2) k2(2))+
    show "set (map ?p es1) = set (map ?p es2)" by (rule sets)
  qed
  have "entries_signature es = VList (map (\<lambda>(k, d). VList [VStr k, VStr d]) (map ?p es))" for es
    by (simp add: entries_signature_def)
  from this [of es1] this [of es2] have "entries_signature es1 = entries_signature es2"
    by (simp only: same)
  then have "snapshot_id h scope es1 = snapshot_id h scope es2" by (simp only: snapshot_id_def)
  then have "i1 = i2" using b1(3) b2(3) by simp
  then show ?thesis using b1(4) b2(4) by (simp only:)
qed

subsection \<open>Comparing two snapshots\<close>

definition keyed :: "val \<Rightarrow> (string \<times> dict) list" where
  "keyed r = (case r of VDict d \<Rightarrow> (case get_or_none d ''record_key'' of VStr k \<Rightarrow> [(k, d)] | _ \<Rightarrow> []) | _ \<Rightarrow> [])"

lemma records_by_key_keyed: "get_or_none data ''records'' = VList rs \<Longrightarrow> records_by_key data = concat (map keyed rs)"
  by (simp add: records_by_key_def keyed_def [abs_def] del: get_or_none_eq)

lemma py_eq_items_mem: "py_eq_items d e \<Longrightarrow> (k, v) \<in> set d \<Longrightarrow> \<exists>w. map_of e k = Some w \<and> py_eq v w"
  by (induction d) (auto split: option.splits)

lemma keyed_entry:
  assumes "py_eq (VDict d) (VDict (entry_dict e))" and "map_of d ''record_key'' = Some (VStr k)"
  shows "keyed (VDict d) = [(en_key e, d)]"
proof -
  have "(''record_key'', VStr k) \<in> set d" using assms(2) by (rule map_of_SomeD)
  with assms(1) obtain w where "map_of (entry_dict e) ''record_key'' = Some w" "py_eq (VStr k) w"
    using py_eq_items_mem by fastforce
  then have "w = VStr (en_key e)" "py_eq (VStr k) w" by (simp_all add: entry_dict_def)
  then have "k = en_key e" by simp
  with assms(2) show ?thesis by (simp add: keyed_def get_or_none_def)
qed

lemma keyed_records:
  "collect (validate_entry h) rs = Inr ys \<Longrightarrow> py_eq_list rs (map (VDict \<circ> entry_dict) es) \<Longrightarrow>
   map fst (concat (map keyed rs)) = map en_key es"
proof (induction rs arbitrary: ys es)
  case Nil
  then show ?case by simp
next
  case (Cons r rs)
  have eq: "py_eq_list (r # rs) (map (VDict \<circ> entry_dict) es)" by (rule Cons.prems)
  then obtain e es' where split: "es = e # es'" by (cases es) auto
  with eq have es: "es = e # es'" "py_eq r (VDict (entry_dict e))" "py_eq_list rs (map (VDict \<circ> entry_dict) es')"
    by simp_all
  from Cons.prems(1) obtain x zs where "validate_entry h r = Inr x" and rest: "collect (validate_entry h) rs = Inr zs"
    by (auto split: sum.splits)
  then obtain d k where "r = VDict d" "map_of d ''record_key'' = Some (VStr k)"
    by (auto simp: validate_entry_def)
  with es have "keyed r = [(en_key e, d)]" using keyed_entry by blast
  with Cons.IH [OF rest es(3)] es(1) show ?case by simp
qed

lemma validated_keys:
  assumes "validate_snapshot h clk now v = Inr data"
  shows "v = VDict data" "sorted (map fst (records_by_key data))" "distinct (map fst (records_by_key data))"
proof -
  obtain rs recovered expected where v: "v = VDict data" "get_or_none data ''records'' = VList rs"
    "collect (validate_entry h) rs = Inr recovered"
    "make_snapshot h clk now recovered (get_or_none data ''scope'') (get_or_none data ''captured_at'') = Inr expected"
    "py_eq (VList rs) (get_or_none expected ''records'')"
    using assms unfolding validate_snapshot_def by (auto simp del: get_or_none_eq py_eq.simps)
  obtain scope where scope: "get_or_none data ''scope'' = VDict scope"
    using v(4) by (auto simp: make_snapshot_def declared_scope_def)
  obtain es where "built h recovered scope (captured_time now (get_or_none data ''captured_at'')) es expected"
    using v(4) unfolding scope by (rule make_snapshot_built)
  then obtain t i where es: "entries_of h (set recovered) t" "es = map snd (sort_key fst t)"
    "expected = snapshot_dict i (captured_time now (get_or_none data ''captured_at'')) scope es"
    unfolding built_def by blast
  have "get_or_none expected ''records'' = VList (map (VDict \<circ> entry_dict) es)"
    unfolding es(3) by (simp add: snapshot_dict_def get_or_none_def)
  with v(5) have "py_eq_list rs (map (VDict \<circ> entry_dict) es)" by simp
  then have "map fst (records_by_key data) = map en_key es"
    using keyed_records [OF v(3)] records_by_key_keyed [OF v(2)] by simp
  with v(1) sorted_entries(1,2) [OF es(1), folded es(2)]
  show "v = VDict data" "sorted (map fst (records_by_key data))" "distinct (map fst (records_by_key data))" by simp_all
qed

definition table :: "dict \<Rightarrow> string \<Rightarrow> dict option" where "table data = map_of (records_by_key data)"

definition digest_at :: "(string \<Rightarrow> dict option) \<Rightarrow> string \<Rightarrow> val option" where
  "digest_at m k = map_option (\<lambda>d. get_or_none d ''payload_sha256'') (m k)"

lemma changed_key_iff:
  "changed_key (records_by_key b) (records_by_key a) k \<longleftrightarrow>
     k \<in> dom (table b) \<inter> dom (table a) \<and> digest_at (table b) k \<noteq> digest_at (table a) k"
  by (auto simp: changed_key_def table_def digest_at_def split: option.splits)

lemma table_keys: "set (map fst (records_by_key d)) = dom (table d)"
  by (simp add: table_def dom_map_of_conv_image_fst)

text \<open>The lists of a comparison, as filters of the keys of both snapshots.\<close>

lemma compare_snapshots_Inr:
  assumes "compare_snapshots h clk now before after = Inr c"
  obtains b a where "before = VDict b" "after = VDict a"
    "distinct (map fst (records_by_key b))" "distinct (map fst (records_by_key a))"
    "cm_added c = sort (filter (\<lambda>k. k \<notin> set (map fst (records_by_key b))) (map fst (records_by_key a)))"
    "cm_not_observed c = sort (filter (\<lambda>k. k \<notin> set (map fst (records_by_key a))) (map fst (records_by_key b)))"
    "cm_changed c = sort (filter (changed_key (records_by_key b) (records_by_key a))
       (filter (\<lambda>k. k \<in> set (map fst (records_by_key a))) (map fst (records_by_key b))))"
    "cm_unchanged c = length (filter (\<lambda>k. \<not> changed_key (records_by_key b) (records_by_key a) k)
       (filter (\<lambda>k. k \<in> set (map fst (records_by_key a))) (map fst (records_by_key b))))"
proof -
  from assms obtain b a where val: "validate_snapshot h clk now before = Inr b" "validate_snapshot h clk now after = Inr a"
    by (auto simp: compare_snapshots_def Let_def)
  note keys = validated_keys [OF val(1)] validated_keys [OF val(2)]
  show thesis
    using keys assms val by (intro that [of b a]) (auto simp: compare_snapshots_def Let_def simp del: set_map)
qed

text \<open>Two lists without repetition that hold the same elements common to both have as many of them.\<close>

lemma common_length:
  assumes "distinct xs" "distinct ys"
  shows "length (filter (\<lambda>k. k \<in> set ys) xs) = length (filter (\<lambda>k. k \<in> set xs) ys)"
proof -
  have "set (filter (\<lambda>k. k \<in> set ys) xs) = set (filter (\<lambda>k. k \<in> set xs) ys)" by auto
  then show ?thesis using assms by (metis distinct_card distinct_filter)
qed

lemma partition_lengths:
  assumes "distinct xs" "distinct ys"
  defines "common \<equiv> filter (\<lambda>k. k \<in> set ys) xs"
  shows "length xs = length (filter (\<lambda>k. k \<notin> set ys) xs) + (length (filter P common) + length (filter (\<lambda>k. \<not> P k) common))"
    "length ys = length (filter (\<lambda>k. k \<notin> set xs) ys) + (length (filter P common) + length (filter (\<lambda>k. \<not> P k) common))"
  using sum_length_filter_compl [of "\<lambda>k. k \<in> set ys" xs] sum_length_filter_compl [of "\<lambda>k. k \<in> set xs" ys]
    sum_length_filter_compl [of P common] common_length [OF assms(1,2)]
  by (simp_all add: common_def)

text \<open>
  C31. A comparison is the difference of the two snapshots as finite maps from record keys to records: the added keys
  are those of the second map only, the ones not observed those of the first only, the changed ones are in both with
  another payload digest, all without repetition and in order, and the count is that of the remaining common keys, so
  that the keys of both snapshots are accounted for exactly once.
\<close>

theorem comparison_is_map_difference:
  assumes "compare_snapshots h clk now before after = Inr c"
  shows "\<exists>b a. before = VDict b \<and> after = VDict a
     \<and> set (cm_added c) = dom (table a) - dom (table b)
     \<and> set (cm_not_observed c) = dom (table b) - dom (table a)
     \<and> set (cm_changed c) = {k \<in> dom (table b) \<inter> dom (table a). digest_at (table b) k \<noteq> digest_at (table a) k}
     \<and> cm_unchanged c = card {k \<in> dom (table b) \<inter> dom (table a). digest_at (table b) k = digest_at (table a) k}
     \<and> sorted (cm_added c) \<and> sorted (cm_not_observed c) \<and> sorted (cm_changed c)
     \<and> distinct (cm_added c @ cm_not_observed c @ cm_changed c)
     \<and> card (dom (table b)) = length (cm_not_observed c) + length (cm_changed c) + cm_unchanged c
     \<and> card (dom (table a)) = length (cm_added c) + length (cm_changed c) + cm_unchanged c"
proof -
  from assms obtain b a where v: "before = VDict b" "after = VDict a"
    and d: "distinct (map fst (records_by_key b))" "distinct (map fst (records_by_key a))"
    and c: "cm_added c = sort (filter (\<lambda>k. k \<notin> set (map fst (records_by_key b))) (map fst (records_by_key a)))"
      "cm_not_observed c = sort (filter (\<lambda>k. k \<notin> set (map fst (records_by_key a))) (map fst (records_by_key b)))"
      "cm_changed c = sort (filter (changed_key (records_by_key b) (records_by_key a))
         (filter (\<lambda>k. k \<in> set (map fst (records_by_key a))) (map fst (records_by_key b))))"
      "cm_unchanged c = length (filter (\<lambda>k. \<not> changed_key (records_by_key b) (records_by_key a) k)
         (filter (\<lambda>k. k \<in> set (map fst (records_by_key a))) (map fst (records_by_key b))))"
    by (rule compare_snapshots_Inr)
  have sets: "set (map fst (records_by_key b)) = dom (table b)" "set (map fst (records_by_key a)) = dom (table a)"
    by (rule table_keys)+
  have parts: "set (cm_added c) = dom (table a) - dom (table b)" "set (cm_not_observed c) = dom (table b) - dom (table a)"
    unfolding c set_sort set_filter sets by blast+
  have changed: "set (cm_changed c) = {k \<in> dom (table b) \<inter> dom (table a). digest_at (table b) k \<noteq> digest_at (table a) k}"
    unfolding c set_sort set_filter sets changed_key_iff by blast
  have "distinct (filter (\<lambda>k. \<not> changed_key (records_by_key b) (records_by_key a) k)
      (filter (\<lambda>k. k \<in> set (map fst (records_by_key a))) (map fst (records_by_key b))))"
    by (intro distinct_filter d)
  then have "cm_unchanged c = card (set (filter (\<lambda>k. \<not> changed_key (records_by_key b) (records_by_key a) k)
      (filter (\<lambda>k. k \<in> set (map fst (records_by_key a))) (map fst (records_by_key b)))))"
    unfolding c(4) by (rule distinct_card [symmetric])
  also have "set (filter (\<lambda>k. \<not> changed_key (records_by_key b) (records_by_key a) k)
      (filter (\<lambda>k. k \<in> set (map fst (records_by_key a))) (map fst (records_by_key b))))
      = {k \<in> dom (table b) \<inter> dom (table a). digest_at (table b) k = digest_at (table a) k}"
    unfolding set_filter sets changed_key_iff by blast
  finally have unchanged: "cm_unchanged c = card {k \<in> dom (table b) \<inter> dom (table a). digest_at (table b) k = digest_at (table a) k}" .
  have "distinct (cm_added c)" "distinct (cm_not_observed c)" "distinct (cm_changed c)"
    unfolding c using d by (simp_all only: distinct_sort distinct_filter)
  then have dist: "distinct (cm_added c @ cm_not_observed c @ cm_changed c)"
    unfolding distinct_append set_append parts changed by blast
  have "card (dom (table b)) = length (map fst (records_by_key b))" "card (dom (table a)) = length (map fst (records_by_key a))"
    using d sets by (metis distinct_card)+
  then have counts: "card (dom (table b)) = length (cm_not_observed c) + length (cm_changed c) + cm_unchanged c"
    "card (dom (table a)) = length (cm_added c) + length (cm_changed c) + cm_unchanged c"
    unfolding c length_sort
    using partition_lengths [OF d, of "changed_key (records_by_key b) (records_by_key a)"] by linarith+
  have "sorted (cm_added c)" "sorted (cm_not_observed c)" "sorted (cm_changed c)" unfolding c by (rule sorted_sort)+
  with v parts changed unchanged dist counts show ?thesis by blast
qed

subsection \<open>Two collections of one source\<close>

definition flat_hashing :: hashing where
  "flat_hashing = \<lparr>hs_sha = (\<lambda>s. replicate 64 (CHR ''0'')), hs_frepr = (\<lambda>r. [])\<rparr>"

definition any_clock :: clock_reader where "any_clock s = Some (Some 0)"

definition observed :: source_record where
  "observed = \<lparr>sr_source = ''huggingface'', sr_id = ''org/model'', sr_revision = None, sr_type = ''model_artifact'', sr_name = ''model'',
     sr_attributes = [], sr_relationships = [], sr_raw = []\<rparr>"

lemma flat_digests: "digests flat_hashing"
  by (simp add: digests_def flat_hashing_def hex_string_def list_all_iff is_hex_def is_digit_def ord_def)

lemma observed_plain: "plain (VDict (payload_of observed))"
  by (simp add: payload_of_def observed_def opt_str_def)

lemma observed_public: "secret_free (VDict (payload_of observed))"
  by code_simp

lemma observed_recovered: "record_from_payload (payload_of observed) = Inr observed"
  by code_simp

lemma flat_digest: "plain v \<Longrightarrow> json_digest flat_hashing v = Inr (replicate 64 (CHR ''0''))"
  using canon_total(1) [of v "hs_frepr flat_hashing"] by (auto simp: json_digest_def canonical_json_def flat_hashing_def)

definition zeros :: string where "zeros = replicate 64 (CHR ''0'')"

definition observed_entry :: entry where
  "observed_entry = \<lparr>en_key = ''d_'' @ zeros, en_digest = zeros, en_payload = payload_of observed\<rparr>"

lemma flat_key: "record_key flat_hashing a b c = Inr (''d_'' @ zeros)"
  by (simp add: record_key_def flat_digest zeros_def)

lemma observed_made: "make_entry flat_hashing observed = Inr observed_entry"
  using observed_plain observed_public observed_recovered
  by (simp add: make_entry_def record_payload_def flat_digest flat_key observed_entry_def zeros_def del: plain.simps secret_free.simps)

lemma observed_same: "same_entry observed_entry observed_entry"
  unfolding same_entry_def by (intro py_eq_refl plain_entry [OF observed_made])

definition whole_selection :: dict where
  "whole_selection = [(''mode'', VStr ''exact_ids''), (''ids'', VList [VStr ''org/model''])]"

definition whole_scope :: dict where "whole_scope = [(''huggingface'', VDict whole_selection)]"

lemma whole_scope_ok: "copy_dict whole_scope = Inr whole_scope" "whole_scope \<noteq> []"
  by code_simp (simp add: whole_scope_def)

definition observed_snapshot :: dict where
  "observed_snapshot = snapshot_dict (''s_'' @ zeros) (VStr ''2026-01-01T00:00:00+00:00'') whole_scope [observed_entry]"

lemma observed_built:
  "make_snapshot flat_hashing any_clock ''now'' rs (VDict whole_scope) (VStr ''2026-01-01T00:00:00+00:00'') = Inr observed_snapshot"
  if "rs = [observed] \<or> rs = [observed, observed]"
proof -
  have "add_entries flat_hashing rs [] = Inr [(en_key observed_entry, observed_entry)]"
    using that by (auto simp: observed_made observed_same)
  moreover have "validate_time any_clock (VStr t) = Inr ()" for t by (simp add: validate_time_def any_clock_def)
  moreover have "snapshot_id flat_hashing whole_scope [observed_entry] = Inr (''s_'' @ zeros)"
    using whole_scope_ok(1) by (auto simp: snapshot_id_def entries_signature_def zeros_def flat_digest)
  ultimately show ?thesis
    by (simp add: make_snapshot_alt whole_scope_ok captured_time_def observed_snapshot_def)
qed

lemma built_snapshot_validates_witness:
  "validate_snapshot flat_hashing any_clock ''later'' (VDict observed_snapshot) = Inr observed_snapshot"
  using built_snapshot_validates [OF flat_digests observed_built] by blast

lemma snapshot_id_ignores_order_witness:
  "get_or_none observed_snapshot ''snapshot_id'' = get_or_none observed_snapshot ''snapshot_id''
   \<and> set [observed] = set [observed, observed]"
  using snapshot_id_ignores_order [OF observed_built observed_built, of "[observed]" "[observed, observed]"] by simp

text \<open>A comparison of the snapshot with one that has lost its capture time, which \<open>validate_snapshot\<close> accepts.\<close>

definition undated_snapshot :: dict where
  "undated_snapshot = snapshot_dict (''s_'' @ zeros) VNull whole_scope [observed_entry]"

lemma undated_snapshot_accepted:
  "validate_snapshot flat_hashing any_clock ''later'' (VDict undated_snapshot) = Inr undated_snapshot"
proof -
  have fields: "get_or_none (snapshot_dict i c scope es) ''format'' = VStr SNAPSHOT_FORMAT"
    "get_or_none (snapshot_dict i c scope es) ''records'' = VList (map (VDict \<circ> entry_dict) es)"
    "get_or_none (snapshot_dict i c scope es) ''scope'' = VDict scope" "get_or_none (snapshot_dict i c scope es) ''captured_at'' = c"
    "get_or_none (snapshot_dict i c scope es) ''snapshot_id'' = VStr i" for i c scope es
    by (simp_all add: snapshot_dict_def get_or_none_def)
  have "make_snapshot flat_hashing any_clock ''later'' [observed] (VDict whole_scope) VNull
      = Inr (snapshot_dict (''s_'' @ zeros) (VStr ''later'') whole_scope [observed_entry])"
    using whole_scope_ok
    by (auto simp: make_snapshot_alt captured_time_def observed_made validate_time_def any_clock_def snapshot_id_def
        entries_signature_def zeros_def flat_digest)
  then show ?thesis
    using validate_own_entry [OF flat_digests observed_made] observed_same
    by (simp add: validate_snapshot_def undated_snapshot_def fields same_entry_def del: get_or_none_eq py_eq.simps(4))
qed

lemma observed_compared:
  "\<exists>c. compare_snapshots flat_hashing any_clock ''later'' (VDict observed_snapshot) (VDict undated_snapshot) = Inr c
       \<and> cm_unchanged c = 1"
proof -
  have dated: "validate_snapshot flat_hashing any_clock ''later'' (VDict observed_snapshot) = Inr observed_snapshot"
    using own_snapshot_validates [OF flat_digests observed_built] by blast
  have scopes: "get_or_none observed_snapshot ''scope'' = VDict whole_scope" "get_or_none undated_snapshot ''scope'' = VDict whole_scope"
    "get_or_none observed_snapshot ''records'' = VList [VDict (entry_dict observed_entry)]"
    "get_or_none undated_snapshot ''records'' = VList [VDict (entry_dict observed_entry)]"
    by (simp_all add: observed_snapshot_def undated_snapshot_def snapshot_dict_def get_or_none_def)
  have "keyed (VDict (entry_dict observed_entry)) = [(''d_'' @ zeros, entry_dict observed_entry)]"
    by (simp add: keyed_def entry_dict_def get_or_none_def observed_entry_def)
  then have keyed: "records_by_key observed_snapshot = [(''d_'' @ zeros, entry_dict observed_entry)]"
    "records_by_key undated_snapshot = [(''d_'' @ zeros, entry_dict observed_entry)]"
    using records_by_key_keyed [OF scopes(3)] records_by_key_keyed [OF scopes(4)] by simp_all
  have "py_eq (VDict whole_scope) (VDict whole_scope)" by (simp add: whole_scope_def whole_selection_def)
  with dated undated_snapshot_accepted keyed scopes show ?thesis
    by (simp add: compare_snapshots_def changed_key_def Let_def del: get_or_none_eq py_eq.simps)
qed

lemma comparison_is_map_difference_witness:
  "\<exists>c::comparison. cm_unchanged c = 1 \<and> cm_unchanged c
     = card {k \<in> dom (table observed_snapshot) \<inter> dom (table undated_snapshot). digest_at (table observed_snapshot) k = digest_at (table undated_snapshot) k}"
proof -
  obtain c where c: "compare_snapshots flat_hashing any_clock ''later'' (VDict observed_snapshot) (VDict undated_snapshot) = Inr c"
    "cm_unchanged c = 1" using observed_compared by blast
  obtain b a where "VDict observed_snapshot = VDict b" "VDict undated_snapshot = VDict a"
    "cm_unchanged c = card {k \<in> dom (table b) \<inter> dom (table a). digest_at (table b) k = digest_at (table a) k}"
    using comparison_is_map_difference [OF c(1)] by (elim exE conjE)
  then have "cm_unchanged c
     = card {k \<in> dom (table observed_snapshot) \<inter> dom (table undated_snapshot). digest_at (table observed_snapshot) k = digest_at (table undated_snapshot) k}"
    by (simp only: val.inject)
  from conjI [OF c(2) this] show ?thesis by (rule exI)
qed

end
