(* ===== verification/Retry_After.thy ===== *)
theory Retry_After
  imports Metadata
begin

section \<open>database/poc/retry_after.py: the Retry-After header\<close>

text \<open>
  The normalised value of the header and its parser: decimal seconds, or one of the three date forms of HTTP.
  Dates are those of \<open>datetime\<close> (proleptic Gregorian calendar, years 1 to 9999); \<open>ordinal\<close> is the day number of
  \<open>datetime.toordinal\<close>, and \<open>timestamp\<close> the seconds since 1970 in UTC. The fields are cut at the columns the
  regular expressions fix, and read the way \<open>email.utils.parsedate_to_datetime\<close> does (a year below 100 is
  taken into 1969 to 2068).
\<close>

subsection \<open>The calendar\<close>

definition leap_year :: "int \<Rightarrow> bool" where
  "leap_year y = (4 dvd y \<and> (\<not> 100 dvd y \<or> 400 dvd y))"

definition month_days :: "int \<Rightarrow> int \<Rightarrow> int" where
  "month_days y m = (if m = 2 then (if leap_year y then 29 else 28) else if m \<in> {4, 6, 9, 11} then 30 else 31)"

definition days_before_year :: "int \<Rightarrow> int" where
  "days_before_year y = (y - 1) * 365 + (y - 1) div 4 - (y - 1) div 100 + (y - 1) div 400"

definition days_before_month :: "int \<Rightarrow> int \<Rightarrow> int" where
  "days_before_month y m = sum_list (map (month_days y) [1..m - 1])"

definition ordinal :: "int \<Rightarrow> int \<Rightarrow> int \<Rightarrow> int" where
  "ordinal y m d = days_before_year y + days_before_month y m + d"

record moment =
  mt_year :: int
  mt_month :: int
  mt_day :: int
  mt_hour :: int
  mt_minute :: int
  mt_second :: int

definition valid_moment :: "moment \<Rightarrow> bool" where
  \<comment> \<open>what \<open>datetime(...)\<close> accepts\<close>
  "valid_moment t =
     (1 \<le> mt_year t \<and> mt_year t \<le> 9999 \<and> 1 \<le> mt_month t \<and> mt_month t \<le> 12
      \<and> 1 \<le> mt_day t \<and> mt_day t \<le> month_days (mt_year t) (mt_month t)
      \<and> 0 \<le> mt_hour t \<and> mt_hour t < 24 \<and> 0 \<le> mt_minute t \<and> mt_minute t < 60
      \<and> 0 \<le> mt_second t \<and> mt_second t < 60)"

definition moment_ordinal :: "moment \<Rightarrow> int" where
  "moment_ordinal t = ordinal (mt_year t) (mt_month t) (mt_day t)"

definition weekday :: "moment \<Rightarrow> int" where "weekday t = (moment_ordinal t + 6) mod 7"

definition moment_timestamp :: "moment \<Rightarrow> int" where
  "moment_timestamp t =
     (moment_ordinal t - 719163) * 86400 + mt_hour t * 3600 + mt_minute t * 60 + mt_second t"

subsection \<open>The normalised value\<close>

record retry_after =
  ra_seconds :: "int option"
  ra_not_before :: "rat option"
  ra_legacy_date :: "int list option"
  ra_excessive :: bool

definition no_retry :: retry_after where
  "no_retry = \<lparr>ra_seconds = None, ra_not_before = None, ra_legacy_date = None, ra_excessive = False\<rparr>"

definition legacy_moment :: "int list \<Rightarrow> int \<Rightarrow> moment" where
  \<comment> \<open>\<open>datetime(century + parts[0], *parts[1:6])\<close>\<close>
  "legacy_moment parts century =
     \<lparr>mt_year = century + parts ! 0, mt_month = parts ! 1, mt_day = parts ! 2, mt_hour = parts ! 3,
      mt_minute = parts ! 4, mt_second = parts ! 5\<rparr>"

definition legacy_parts :: "int list \<Rightarrow> bool" where
  "legacy_parts parts =
     (length parts = 7 \<and> 0 \<le> parts ! 0 \<and> parts ! 0 < 100 \<and> 0 \<le> last parts \<and> last parts < 7
      \<and> valid_moment (legacy_moment parts 2000))"

definition optional :: "('a \<Rightarrow> 'b res) \<Rightarrow> 'a option \<Rightarrow> 'b option res" where
  "optional f x = (case x of None \<Rightarrow> Inr None | Some y \<Rightarrow> rbind (f y) (\<lambda>z. Inr (Some z)))"

definition not_null :: "val \<Rightarrow> val option" where "not_null v = (if v = VNull then None else Some v)"

definition retry_seconds :: "val \<Rightarrow> int res" where
  "retry_seconds v = rbind (needed (as_int v)) (\<lambda>i. rbind (must (0 \<le> i \<and> i < 10 ^ 18)) (\<lambda>_. Inr i))"

definition retry_date :: "val \<Rightarrow> rat res" where
  "retry_date v = (case finite_number v of Inr (Some x) \<Rightarrow> Inr x | _ \<Rightarrow> invalid)"

definition retry_calendar :: "val \<Rightarrow> int list res" where
  \<comment> \<open>\<open>tuple(self.legacy_date)\<close> of a value that cannot be iterated is a \<open>TypeError\<close>\<close>
  "retry_calendar v =
     rbind (case v of VList xs \<Rightarrow> Inr xs | VStr s \<Rightarrow> Inr (map (\<lambda>c. VStr [c]) s) | VDict d \<Rightarrow> Inr (map VStr (keys d))
            | _ \<Rightarrow> Inl (Raised ''TypeError'')) (\<lambda>xs.
     rbind (collect (\<lambda>x. needed (as_int x)) xs) (\<lambda>parts.
     rbind (must (legacy_parts parts)) (\<lambda>_. Inr parts)))"

definition make_retry_after :: "val \<Rightarrow> val \<Rightarrow> val \<Rightarrow> val \<Rightarrow> retry_after res" where
  "make_retry_after seconds not_before legacy_date excessive =
     rbind (needed (as_bool excessive)) (\<lambda>ex.
     rbind (must (length (filter (\<lambda>b. b) [seconds \<noteq> VNull, not_before \<noteq> VNull, legacy_date \<noteq> VNull, ex]) = 1)) (\<lambda>_.
     rbind (optional retry_seconds (not_null seconds)) (\<lambda>s.
     rbind (optional retry_date (not_null not_before)) (\<lambda>b.
     rbind (optional retry_calendar (not_null legacy_date)) (\<lambda>l.
     Inr \<lparr>ra_seconds = s, ra_not_before = b, ra_legacy_date = l, ra_excessive = ex\<rparr>)))))"

subsection \<open>The parser\<close>

definition DAYS :: "string list" where
  "DAYS = [''Monday'', ''Tuesday'', ''Wednesday'', ''Thursday'', ''Friday'', ''Saturday'', ''Sunday'']"

definition SHORT_DAYS :: "string list" where
  "SHORT_DAYS = [''Mon'', ''Tue'', ''Wed'', ''Thu'', ''Fri'', ''Sat'', ''Sun'']"

definition MONTHS :: "string list" where
  "MONTHS = [''Jan'', ''Feb'', ''Mar'', ''Apr'', ''May'', ''Jun'', ''Jul'', ''Aug'', ''Sep'', ''Oct'', ''Nov'', ''Dec'']"

fun position_of :: "string list \<Rightarrow> string \<Rightarrow> int option" where
  "position_of [] s = None"
| "position_of (x # xs) s = (if x = s then Some 0 else map_option (\<lambda>i. i + 1) (position_of xs s))"

definition slice :: "nat \<Rightarrow> nat \<Rightarrow> string \<Rightarrow> string" where "slice a n s = take n (drop a s)"

definition digit_field :: "nat \<Rightarrow> nat \<Rightarrow> string \<Rightarrow> int option" where
  "digit_field a n s =
     (if length (slice a n s) = n \<and> decimal (slice a n s) then Some (int (nat_of_digits (slice a n s))) else None)"

definition clock_field :: "nat \<Rightarrow> string \<Rightarrow> (int \<times> int \<times> int) option" where
  \<comment> \<open>\<open>[0-9]{2}:[0-9]{2}:[0-9]{2}\<close> from a column\<close>
  "clock_field a s =
     (if slice (a + 2) 1 s = '':'' \<and> slice (a + 5) 1 s = '':''
      then (case (digit_field a 2 s, digit_field (a + 3) 2 s, digit_field (a + 6) 2 s) of
              (Some h, Some m, Some sec) \<Rightarrow> Some (h, m, sec) | _ \<Rightarrow> None)
      else None)"

definition email_year :: "int \<Rightarrow> int" where
  "email_year y = (if y < 100 then (if 68 < y then 1900 + y else 2000 + y) else y)"

definition read_moment :: "int option \<Rightarrow> int option \<Rightarrow> int option \<Rightarrow> (int \<times> int \<times> int) option \<Rightarrow> moment option" where
  "read_moment y mo d clock =
     (case (y, mo, d, clock) of
        (Some y', Some m', Some d', Some (h, mi, s)) \<Rightarrow>
          Some \<lparr>mt_year = email_year y', mt_month = m' + 1, mt_day = d', mt_hour = h, mt_minute = mi, mt_second = s\<rparr>
      | _ \<Rightarrow> None)"

definition imf_date :: "string \<Rightarrow> (int \<times> moment) option" where
  \<comment> \<open>\<open>Sun, 06 Nov 1994 08:49:37 GMT\<close>, with the index of its day name\<close>
  "imf_date s =
     (if length s = 29 \<and> slice 3 2 s = '', '' \<and> slice 7 1 s = '' '' \<and> slice 11 1 s = '' '' \<and> slice 16 1 s = '' ''
         \<and> slice 25 4 s = '' GMT''
      then (case (position_of SHORT_DAYS (take 3 s),
                  read_moment (digit_field 12 4 s) (position_of MONTHS (slice 8 3 s)) (digit_field 5 2 s) (clock_field 17 s)) of
              (Some w, Some t) \<Rightarrow> Some (w, t) | _ \<Rightarrow> None)
      else None)"

definition asctime_day :: "string \<Rightarrow> int option" where
  "asctime_day s = (if slice 8 1 s = '' '' then digit_field 9 1 s else digit_field 8 2 s)"

definition asctime_date :: "string \<Rightarrow> (int \<times> moment) option" where
  \<comment> \<open>\<open>Sun Nov  6 08:49:37 1994\<close>\<close>
  "asctime_date s =
     (if length s = 24 \<and> slice 3 1 s = '' '' \<and> slice 7 1 s = '' '' \<and> slice 10 1 s = '' '' \<and> slice 19 1 s = '' ''
      then (case (position_of SHORT_DAYS (take 3 s),
                  read_moment (digit_field 20 4 s) (position_of MONTHS (slice 4 3 s)) (asctime_day s) (clock_field 11 s)) of
              (Some w, Some t) \<Rightarrow> Some (w, t) | _ \<Rightarrow> None)
      else None)"

definition legacy_date :: "string \<Rightarrow> (int \<times> moment) option" where
  \<comment> \<open>\<open>Sunday, 06-Nov-94 08:49:37 GMT\<close>; the columns follow the comma\<close>
  "legacy_date text =
     (let s = after_char (CHR '','') text in
      if CHR '','' \<in> set text \<and> length s = 23 \<and> slice 0 1 s = '' '' \<and> slice 3 1 s = ''-'' \<and> slice 7 1 s = ''-''
         \<and> slice 10 1 s = '' '' \<and> slice 19 4 s = '' GMT''
      then (case (position_of DAYS (before_char (CHR '','') text),
                  read_moment (digit_field 8 2 s) (position_of MONTHS (slice 4 3 s)) (digit_field 1 2 s) (clock_field 11 s)) of
              (Some w, Some t) \<Rightarrow> Some (w, t) | _ \<Rightarrow> None)
      else None)"

definition retry_number :: "string \<Rightarrow> retry_after" where
  "retry_number text =
     (let stripped = dropWhile (\<lambda>c. c = CHR ''0'') text; digits = (if stripped = [] then ''0'' else stripped)
      in if 18 < length digits then no_retry\<lparr>ra_excessive := True\<rparr>
         else no_retry\<lparr>ra_seconds := Some (int (nat_of_digits digits))\<rparr>)"

definition retry_legacy :: "int \<Rightarrow> moment \<Rightarrow> retry_after" where
  "retry_legacy w t =
     no_retry\<lparr>ra_legacy_date :=
       Some [mt_year t mod 100, mt_month t, mt_day t, mt_hour t, mt_minute t, mt_second t, w]\<rparr>"

definition retry_moment :: "int \<Rightarrow> moment \<Rightarrow> retry_after option" where
  "retry_moment w t =
     (if weekday t = w then Some (no_retry\<lparr>ra_not_before := Some (of_int (moment_timestamp t))\<rparr>) else None)"

definition retry_text :: "string \<Rightarrow> retry_after option" where
  "retry_text text =
     (if decimal text then Some (retry_number text)
      else case legacy_date text of
             Some (w, t) \<Rightarrow> if valid_moment t then Some (retry_legacy w t) else None
           | None \<Rightarrow>
        (case (case imf_date text of Some r \<Rightarrow> Some r | None \<Rightarrow> asctime_date text) of
           Some (w, t) \<Rightarrow> if valid_moment t then retry_moment w t else None
         | None \<Rightarrow> None))"

definition parse_retry_after :: "val \<Rightarrow> retry_after option" where
  "parse_retry_after v = (case as_str v of None \<Rightarrow> None | Some s \<Rightarrow> retry_text (strip s))"

definition normalised :: "retry_after \<Rightarrow> bool" where
  \<comment> \<open>exactly the values the constructor accepts\<close>
  "normalised r =
     (length (filter (\<lambda>b. b) [ra_seconds r \<noteq> None, ra_not_before r \<noteq> None, ra_legacy_date r \<noteq> None, ra_excessive r]) = 1
      \<and> (case ra_seconds r of Some s \<Rightarrow> 0 \<le> s \<and> s < 10 ^ 18 | None \<Rightarrow> True)
      \<and> (case ra_legacy_date r of Some parts \<Rightarrow> legacy_parts parts | None \<Rightarrow> True))"

end
