(* ===== verification/Execution_Models.thy ===== *)
theory Execution_Models
  imports Snapshots Retry_After "HOL-Library.Product_Lexorder"
begin

section \<open>database/poc/execution_models.py: plans, observations and results\<close>

text \<open>
  The typed plan of one collection (policy, selection, resources, operation), the validation of what was observed
  and the result published for a source. An \<open>ExecutionError\<close> carries one of the normalised reasons; every other
  exception is known by its class. The operation of a task is a tree: what it does next depends on the reply to
  each metadata request it makes through the context, and it ends by returning or raising. A tree is finite, so
  the model is of operations that return (the executor of the source cannot preempt one either).
\<close>

datatype status = Success | Unchanged | Deferred | Failed

fun status_text :: "status \<Rightarrow> string" where
  "status_text Success = ''success''"
| "status_text Unchanged = ''unchanged''"
| "status_text Deferred = ''deferred''"
| "status_text Failed = ''failed''"

datatype reason =
    Authentication | Forbidden | Target_Unavailable | Nim_Tag_Unavailable | Quota | Provider | Http_Error | Redirect
  | Cache_Required | Timeout | Connection | Invalid_Json | Invalid_Schema | Identity | Selection | Incomplete
  | Request_Budget | Attempt_Budget | Time_Budget | Retry_After_Budget | Retry_After_Extreme | Delay_Limit
  | Wait_Interrupted | Runtime | Unexpected

fun reason_text :: "reason \<Rightarrow> string" where
  "reason_text Authentication = ''authentication_refused''"
| "reason_text Forbidden = ''access_forbidden''"
| "reason_text Target_Unavailable = ''target_unavailable''"
| "reason_text Nim_Tag_Unavailable = ''metadata_unavailable_for_tag''"
| "reason_text Quota = ''temporary_quota''"
| "reason_text Provider = ''temporary_provider_error''"
| "reason_text Http_Error = ''http_error''"
| "reason_text Redirect = ''redirect_rejected''"
| "reason_text Cache_Required = ''validated_cache_required''"
| "reason_text Timeout = ''timeout''"
| "reason_text Connection = ''connection_interrupted''"
| "reason_text Invalid_Json = ''invalid_json_or_response''"
| "reason_text Invalid_Schema = ''invalid_schema''"
| "reason_text Identity = ''identity_mismatch''"
| "reason_text Selection = ''selection_forbidden''"
| "reason_text Incomplete = ''selection_incomplete''"
| "reason_text Request_Budget = ''request_budget_exhausted''"
| "reason_text Attempt_Budget = ''attempt_budget_exhausted''"
| "reason_text Time_Budget = ''time_budget_exhausted''"
| "reason_text Retry_After_Budget = ''retry_after_exceeds_time_budget''"
| "reason_text Retry_After_Extreme = ''retry_after_excessive''"
| "reason_text Delay_Limit = ''retry_delay_exceeds_policy''"
| "reason_text Wait_Interrupted = ''retry_wait_interrupted''"
| "reason_text Runtime = ''invalid_execution_runtime''"
| "reason_text Unexpected = ''unexpected_error''"

text \<open>
  Exceptions: an \<open>ExecutionError\<close>; an \<open>HTTPError\<close> with its code and what its headers give (\<open>Normalized\<close> for a
  \<open>MetadataHTTPError\<close>; \<open>Header None\<close> where reading the field raises); a \<open>URLError\<close> (whether its reason is a
  \<open>TimeoutError\<close>); any other, by the name of its class.
\<close>

datatype retry_field = Normalized "retry_after option" | No_Headers | Header "val option"

datatype exc = Execution_Error reason | HTTP_Error val retry_field | URL_Error bool | Other_Error string

type_synonym 'a exres = "exc + 'a"

definition xbind :: "'a exres \<Rightarrow> ('a \<Rightarrow> 'b exres) \<Rightarrow> 'b exres" where
  "xbind m f = (case m of Inl e \<Rightarrow> Inl e | Inr x \<Rightarrow> f x)"

definition demand :: "bool \<Rightarrow> reason \<Rightarrow> unit exres" where
  "demand b r = (if b then Inr () else Inl (Execution_Error r))"

definition raised :: "'a res \<Rightarrow> 'a exres" where
  \<comment> \<open>the exceptions of the modules below\<close>
  "raised m = (case m of Inr x \<Rightarrow> Inr x | Inl (Raised c) \<Rightarrow> Inl (Other_Error c) | Inl (Problem c s) \<Rightarrow> Inl (Other_Error ''Problem''))"

lemma xbind_simps [simp]: "xbind (Inl e) f = Inl e" "xbind (Inr x) f = f x"
  by (simp_all add: xbind_def)

lemma xbind_Inr [simp]: "xbind m f = Inr y \<longleftrightarrow> (\<exists>x. m = Inr x \<and> f x = Inr y)"
  by (cases m) auto

lemma demand_Inr [simp]: "demand b r = Inr u \<longleftrightarrow> b"
  by (simp add: demand_def)

lemma raised_Inr [simp]: "raised m = Inr x \<longleftrightarrow> m = Inr x"
  by (auto simp: raised_def split: sum.splits err.splits)

lemma raised_simps [simp]: "raised (Inr x) = Inr x"
  by (simp add: raised_def)

subsection \<open>Numbers, identifiers, resources\<close>

definition number :: "bool \<Rightarrow> val \<Rightarrow> rat res" where
  "number positive v =
     (case finite_number v of
        Inr (Some x) \<Rightarrow> if x < 0 \<or> (positive \<and> x = 0) then invalid else Inr x
      | _ \<Rightarrow> invalid)"

definition seconds :: "val \<Rightarrow> rat" where
  \<comment> \<open>the value of a field that \<open>number\<close> has accepted\<close>
  "seconds v = (case finite_number v of Inr (Some x) \<Rightarrow> x | _ \<Rightarrow> 0)"

definition identifier_char :: "char \<Rightarrow> bool" where
  "identifier_char c = (is_letter c \<or> is_digit c \<or> c \<in> {CHR ''.'', CHR ''_'', CHR ''/'', CHR ''-''})"

definition public_identifier :: "string \<Rightarrow> bool" where
  "public_identifier s =
     (length s \<le> 256
      \<and> (case s of [] \<Rightarrow> False | c # cs \<Rightarrow> (is_letter c \<or> is_digit c) \<and> list_all identifier_char cs)
      \<and> list_all (\<lambda>part. part \<noteq> [] \<and> part \<noteq> ''.'' \<and> part \<noteq> ''..'') (split_on (CHR ''/'') s))"

definition identifier_field :: "val \<Rightarrow> string res" where
  "identifier_field v = rbind (needed (as_str v)) (\<lambda>s. rbind (must (public_identifier s)) (\<lambda>_. Inr s))"

record resource_ref =
  rf_source :: string
  rf_id :: string

definition make_ref :: "string \<Rightarrow> val \<Rightarrow> resource_ref res" where
  "make_ref source source_id =
     rbind (must (SOURCE_SPECS source \<noteq> None)) (\<lambda>_.
     rbind (identifier_field source_id) (\<lambda>i. Inr \<lparr>rf_source = source, rf_id = i\<rparr>))"

subsection \<open>The selection\<close>

definition hashable :: "val \<Rightarrow> bool" where
  "hashable v = (case v of VList _ \<Rightarrow> False | VDict _ \<Rightarrow> False | _ \<Rightarrow> True)"

definition mode_fields :: "string \<Rightarrow> dict \<Rightarrow> string list res" where
  "mode_fields mode scope =
     (if mode = ''exact_ids'' then
        rbind (needed (as_list (get_or_none scope ''ids''))) (\<lambda>ids.
        rbind (must (ids \<noteq> [])) (\<lambda>_.
        rbind (collect (\<lambda>x. needed (as_str x)) ids) (\<lambda>names.
        rbind (must (distinct names)) (\<lambda>_.
        rbind (each (\<lambda>x. must (public_identifier x)) names) (\<lambda>_. Inr [''mode'', ''ids''])))))
      else if mode = ''first_n_sorted'' \<or> mode = ''first_n_unique'' then
        rbind (needed (as_int (get_or_none scope ''limit''))) (\<lambda>n.
        rbind (must (0 \<le> n)) (\<lambda>_. Inr [''mode'', ''limit'']))
      else
        rbind (identifier_field (get_or_none scope ''resource_id'')) (\<lambda>_.
        rbind (needed (as_str (get_or_none scope ''tag''))) (\<lambda>tag.
        rbind (must (container_tag tag)) (\<lambda>_. Inr [''mode'', ''resource_id'', ''tag'']))))"

definition endpoint_fields :: "source_spec \<Rightarrow> dict \<Rightarrow> string list res" where
  \<comment> \<open>\<open>unhashable in {...}\<close> is a \<open>TypeError\<close>\<close>
  "endpoint_fields spec scope =
     (if ss_source spec = ''modelscope'' \<or> ss_source spec = ''csghub'' then
        rbind (if hashable (get_or_none scope ''endpoint'') then Inr () else Inl (Raised ''TypeError'')) (\<lambda>_.
        rbind (must (get_or_none scope ''endpoint'' \<in> set (map (\<lambda>host. VStr (''https://'' @ host)) (tr_hosts (ss_transport spec))))) (\<lambda>_.
        Inr [''endpoint'']))
      else Inr [])"

definition csghub_fields :: "source_spec \<Rightarrow> dict \<Rightarrow> string list res" where
  "csghub_fields spec scope =
     (if ss_source spec = ''csghub'' then
        rbind (must (get_or_none scope ''source'' = VStr ''csg'' \<and> get_or_none scope ''revision_request'' = VStr ''main'')) (\<lambda>_.
        Inr [''source'', ''revision_request''])
      else Inr [])"

definition moark_fields :: "source_spec \<Rightarrow> dict \<Rightarrow> string list res" where
  "moark_fields spec scope =
     (if ss_source spec = ''moark'' then
        rbind (must (get_or_none scope ''endpoint'' = VStr ''https://moark.ai/v1''
               \<and> get_or_none scope ''catalog_url'' = VStr ''https://moark.ai/v1/models?type=text2text&include_details=false''
               \<and> get_or_none scope ''authentication'' = VStr ''anonymous''
               \<and> get_or_none scope ''input'' \<in> {VStr ''synthetic_fixture'', VStr ''public_api''})) (\<lambda>_.
        Inr [''endpoint'', ''catalog_url'', ''authentication'', ''input''])
      else Inr [])"

definition safe_selection :: "string \<Rightarrow> val \<Rightarrow> dict res" where
  "safe_selection source v =
     rbind (needed (SOURCE_SPECS source)) (\<lambda>spec.
     rbind (needed (as_dict v)) (\<lambda>d.
     rbind (copy_dict d) (\<lambda>scope.
     rbind (needed (as_str (get_or_none scope ''mode''))) (\<lambda>mode.
     rbind (must (mode \<in> set (ss_modes spec))) (\<lambda>_.
     rbind (mode_fields mode scope) (\<lambda>f1.
     rbind (endpoint_fields spec scope) (\<lambda>f2.
     rbind (csghub_fields spec scope) (\<lambda>f3.
     rbind (moark_fields spec scope) (\<lambda>f4.
     rbind (must (exact_keys scope (f1 @ f2 @ f3 @ f4))) (\<lambda>_.
     Inr scope))))))))))"

subsection \<open>The policy\<close>

record execution_policy =
  pl_max_requests :: int
  pl_max_attempts :: int
  pl_total :: val
  pl_max_delay :: val
  pl_backoff :: val
  pl_resources :: "resource_ref list"
  pl_statuses :: "int list"
  pl_transport :: bool

definition TRANSIENT :: "int list" where "TRANSIENT = [429, 500, 502, 503, 504]"

definition make_policy ::
  "val \<Rightarrow> val \<Rightarrow> val \<Rightarrow> val \<Rightarrow> val \<Rightarrow> resource_ref list \<Rightarrow> val list \<Rightarrow> val \<Rightarrow> execution_policy res" where
  "make_policy requests attempts all_seconds max_delay backoff resources statuses transport =
     rbind (needed (as_int requests)) (\<lambda>mr.
     rbind (must (0 \<le> mr)) (\<lambda>_.
     rbind (needed (as_int attempts)) (\<lambda>ma.
     rbind (must (1 \<le> ma)) (\<lambda>_.
     rbind (number False requests) (\<lambda>_.
     rbind (number True attempts) (\<lambda>_.
     rbind (number True all_seconds) (\<lambda>_.
     rbind (number False max_delay) (\<lambda>md.
     rbind (number False backoff) (\<lambda>bo.
     rbind (must (bo \<le> md)) (\<lambda>_.
     rbind (if list_all hashable statuses then Inr () else Inl (Raised ''TypeError'')) (\<lambda>_.
     rbind (must (resources \<noteq> [])) (\<lambda>_.
     rbind (collect (\<lambda>x. needed (as_int x)) statuses) (\<lambda>codes.
     rbind (must (set codes \<subseteq> set TRANSIENT)) (\<lambda>_.
     rbind (needed (as_bool transport)) (\<lambda>tr.
     Inr \<lparr>pl_max_requests = mr, pl_max_attempts = ma, pl_total = all_seconds, pl_max_delay = max_delay,
          pl_backoff = backoff, pl_resources = remdups resources, pl_statuses = remdups codes, pl_transport = tr\<rparr>)))))))))))))))"

subsection \<open>Tasks\<close>

datatype outcome = Observed val val | Not_Observation | Threw exc

datatype 'e operation =
    Answered outcome
  | Request resource_ref "rat \<Rightarrow> 'e \<Rightarrow> val exres \<times> 'e" "val exres \<Rightarrow> 'e operation"

definition selected_ids :: "dict \<Rightarrow> string list" where
  "selected_ids scope =
     (case get_or_none scope ''ids'' of VList xs \<Rightarrow> concat (map (\<lambda>x. case x of VStr s \<Rightarrow> [s] | _ \<Rightarrow> []) xs) | _ \<Rightarrow> [])"

definition planned_resources :: "string \<Rightarrow> dict \<Rightarrow> resource_ref list \<Rightarrow> resource_ref list res" where
  "planned_resources source scope refs =
     rbind (must (refs \<noteq> [] \<and> list_all (\<lambda>r. rf_source r = source) refs \<and> distinct refs)) (\<lambda>_.
     let ids = set (map rf_id refs); mode = get_or_none scope ''mode'' in
     rbind (must (\<not> (mode = VStr ''exact_ids'' \<and> ids \<noteq> set (selected_ids scope)))) (\<lambda>_.
     rbind (must (\<not> (mode = VStr ''exact_tag'' \<and> VStr ` ids \<noteq> {get_or_none scope ''resource_id''}))) (\<lambda>_.
     Inr refs)))"

record 'e source_task =
  tk_source :: string
  tk_selection :: dict
  tk_resources :: "resource_ref list"
  tk_policy :: execution_policy
  tk_operation :: "'e \<Rightarrow> 'e operation"
  tk_idempotent :: bool
  tk_synthetic :: bool

definition check_task :: "'e source_task \<Rightarrow> unit res" where
  "check_task t =
     rbind (safe_selection (tk_source t) (VDict (tk_selection t))) (\<lambda>scope.
     rbind (planned_resources (tk_source t) scope (tk_resources t)) (\<lambda>_.
     must (\<not> (tk_source t = ''moark'' \<and> tk_synthetic t \<noteq> (get_or_none scope ''input'' = VStr ''synthetic_fixture'')))))"

definition make_task :: "'e source_task \<Rightarrow> 'e source_task res" where
  \<comment> \<open>the accepted plan: the selection and the resources are copies, which are equal values\<close>
  "make_task t = rbind (check_task t) (\<lambda>_. Inr t)"

subsection \<open>Observations\<close>

definition record_dicts :: "dict \<Rightarrow> dict list" where
  \<comment> \<open>\<open>data["records"]\<close> of a validated snapshot\<close>
  "record_dicts data =
     (case get_or_none data ''records'' of
        VList rs \<Rightarrow> concat (map (\<lambda>r. case r of VDict d \<Rightarrow> [d] | _ \<Rightarrow> []) rs) | _ \<Rightarrow> [])"

definition observed_type :: "source_spec \<Rightarrow> dict \<Rightarrow> bool" where
  "observed_type spec r =
     (get_or_none r ''source'' = VStr (ss_source spec) \<and> get_or_none r ''entity_type'' \<in> VStr ` set (ss_types spec))"

definition observed_revision :: "source_spec \<Rightarrow> dict \<Rightarrow> bool" where
  "observed_revision spec r =
     (if get_or_none r ''source_revision'' = VNull then ss_nullable spec else ss_revision spec \<noteq> ''none'')"

definition validate_observation ::
  "hashing \<Rightarrow> clock_reader \<Rightarrow> string \<Rightarrow> string \<Rightarrow> dict \<Rightarrow> resource_ref list \<Rightarrow> val \<Rightarrow> dict exres" where
  "validate_observation h clk now source selection resources snapshot =
     xbind (raised (copy_metadata snapshot)) (\<lambda>copied.
     xbind (raised (validate_snapshot h clk now copied)) (\<lambda>data.
     xbind (raised (canonical_json h (get_or_none data ''scope''))) (\<lambda>observed.
     xbind (raised (canonical_json h (VDict [(source, VDict selection)]))) (\<lambda>planned.
     xbind (demand (observed = planned) Identity) (\<lambda>_.
     xbind (raised (present (SOURCE_SPECS source) ''KeyError'')) (\<lambda>spec.
     let rs = record_dicts data;
         actual = set (map (\<lambda>r. get_or_none r ''source_id'') rs); expected = set (map (VStr \<circ> rf_id) resources) in
     xbind (demand (list_all (observed_type spec) rs) Identity) (\<lambda>_.
     xbind (demand (list_all (observed_revision spec) rs) Invalid_Schema) (\<lambda>_.
     xbind (demand (actual \<subseteq> expected) Identity) (\<lambda>_.
     xbind (demand (expected \<subseteq> actual) Incomplete) (\<lambda>_.
     xbind (demand (\<not> (get_or_none selection ''mode'' = VStr ''exact_tag''
                    \<and> \<not> list_all (\<lambda>r. get_or_none r ''source_revision'' = get_or_none selection ''tag'') rs)) Identity) (\<lambda>_.
     Inr data)))))))))))"

subsection \<open>Results\<close>

record source_result =
  rs_source :: string
  rs_selection :: dict
  rs_resources :: "resource_ref list"
  rs_status :: status
  rs_reason :: "reason option"
  rs_last_error :: "reason option"
  rs_attempts :: int
  rs_requests :: int
  rs_elapsed :: rat
  rs_wait :: rat
  rs_policy :: execution_policy
  rs_idempotent :: bool
  rs_synthetic :: bool
  rs_complete :: bool
  rs_snapshot :: "val option"

definition positive_result :: "source_result \<Rightarrow> bool" where
  "positive_result r = (rs_status r = Success \<or> rs_status r = Unchanged)"

definition check_counters :: "source_result \<Rightarrow> unit res" where
  "check_counters r =
     rbind (must (0 \<le> rs_attempts r \<and> rs_attempts r \<le> pl_max_attempts (rs_policy r)
                  \<and> 0 \<le> rs_requests r \<and> rs_requests r \<le> pl_max_requests (rs_policy r))) (\<lambda>_.
     must (0 \<le> rs_elapsed r \<and> 0 \<le> rs_wait r))"

definition make_result :: "hashing \<Rightarrow> clock_reader \<Rightarrow> string \<Rightarrow> source_result \<Rightarrow> source_result exres" where
  "make_result h clk now r =
     xbind (raised (safe_selection (rs_source r) (VDict (rs_selection r)))) (\<lambda>scope.
     xbind (raised (planned_resources (rs_source r) scope (rs_resources r))) (\<lambda>refs.
     xbind (raised (check_counters r)) (\<lambda>_.
     if positive_result r then
       xbind (raised (must (rs_complete r \<and> rs_reason r = None))) (\<lambda>_.
       xbind (raised (needed (rs_snapshot r))) (\<lambda>snapshot.
       xbind (raised (must (set refs \<subseteq> set (pl_resources (rs_policy r))))) (\<lambda>_.
       xbind (validate_observation h clk now (rs_source r) scope refs snapshot) (\<lambda>data.
       Inr (r\<lparr>rs_selection := scope, rs_snapshot := Some (VDict data)\<rparr>)))))
     else
       xbind (raised (must (\<not> rs_complete r \<and> rs_snapshot r = None \<and> rs_reason r \<noteq> None))) (\<lambda>_.
       Inr (r\<lparr>rs_selection := scope\<rparr>)))))"

definition ref_dict :: "resource_ref \<Rightarrow> val" where
  "ref_dict r = VDict [(''source'', VStr (rf_source r)), (''source_id'', VStr (rf_id r))]"

definition reason_value :: "reason option \<Rightarrow> val" where
  "reason_value r = (case r of None \<Rightarrow> VNull | Some x \<Rightarrow> VStr (reason_text x))"

definition budget_dict :: "source_result \<Rightarrow> dict" where
  "budget_dict r =
     (let p = rs_policy r in
      [(''requests_used'', VInt (rs_requests r)), (''max_requests'', VInt (pl_max_requests p)),
       (''max_attempts'', VInt (pl_max_attempts p)), (''elapsed_seconds'', VFloat (Fin (rs_elapsed r))),
       (''total_seconds'', pl_total p), (''wait_seconds'', VFloat (Fin (rs_wait r))),
       (''overrun'', VBool (seconds (pl_total p) \<le> rs_elapsed r)),
       (''max_delay_seconds'', pl_max_delay p), (''backoff_seconds'', pl_backoff p),
       (''retry_http_statuses'', VList (map VInt (sort (pl_statuses p)))),
       (''retry_transport_errors'', VBool (pl_transport p)),
       (''resources'', VList (map ref_dict (sort_key (\<lambda>x. (rf_source x, rf_id x)) (pl_resources p))))])"

definition result_manifest :: "hashing \<Rightarrow> clock_reader \<Rightarrow> string \<Rightarrow> source_result \<Rightarrow> val exres" where
  "result_manifest h clk now r =
     xbind (case rs_snapshot r of None \<Rightarrow> Inr VNull
            | Some s \<Rightarrow> xbind (validate_observation h clk now (rs_source r) (rs_selection r) (rs_resources r) s)
                          (\<lambda>data. Inr (get_or_none data ''snapshot_id''))) (\<lambda>snapshot.
     xbind (raised (safe_selection (rs_source r) (VDict (rs_selection r)))) (\<lambda>scope.
     raised (copy_metadata (VDict
       [(''source'', VStr (rs_source r)), (''selection'', VDict scope), (''status'', VStr (status_text (rs_status r))),
        (''complete'', VBool (rs_complete r)), (''synthetic'', VBool (rs_synthetic r)),
        (''idempotent'', VBool (rs_idempotent r)), (''requested_resources'', VList (map ref_dict (rs_resources r))),
        (''attempts'', VInt (rs_attempts r)), (''reason'', reason_value (rs_reason r)),
        (''last_error'', reason_value (rs_last_error r)), (''snapshot_id'', snapshot),
        (''budget'', VDict (budget_dict r))]))))"

subsection \<open>Reports\<close>

definition make_report :: "source_result list \<Rightarrow> source_result list res" where
  "make_report rs = rbind (must (rs \<noteq> [] \<and> distinct (map rs_source rs))) (\<lambda>_. Inr rs)"

fun xcollect :: "('a \<Rightarrow> 'b exres) \<Rightarrow> 'a list \<Rightarrow> 'b list exres" where
  "xcollect f [] = Inr []"
| "xcollect f (x # xs) = xbind (f x) (\<lambda>y. xbind (xcollect f xs) (\<lambda>ys. Inr (y # ys)))"

definition data_kind :: "source_result list \<Rightarrow> string" where
  "data_kind rs =
     (if list_all rs_synthetic rs \<and> rs \<noteq> [] then ''synthetic''
      else if list_all (\<lambda>r. \<not> rs_synthetic r) rs \<and> rs \<noteq> [] then ''real'' else ''mixed'')"

definition report_manifest :: "hashing \<Rightarrow> clock_reader \<Rightarrow> string \<Rightarrow> source_result list \<Rightarrow> val exres" where
  "report_manifest h clk now rs =
     xbind (xcollect (result_manifest h clk now) rs) (\<lambda>ms.
     Inr (VDict
       [(''format'', VStr ''pepeuch-ai.discovery-execution/v1''), (''data_kind'', VStr (data_kind rs)),
        (''requested_sources'', VList (map (VStr \<circ> rs_source) rs)), (''complete'', VBool (list_all rs_complete rs)),
        (''sources'', VList ms)]))"

definition successful_snapshots :: "hashing \<Rightarrow> clock_reader \<Rightarrow> string \<Rightarrow> source_result list \<Rightarrow> dict exres" where
  "successful_snapshots h clk now rs =
     xcollect (\<lambda>r. xbind (validate_observation h clk now (rs_source r) (rs_selection r) (rs_resources r)
                            (case rs_snapshot r of Some s \<Rightarrow> s | None \<Rightarrow> VNull))
                     (\<lambda>data. Inr (rs_source r, VDict data)))
       (filter positive_result rs)"

end
