(* ===== verification/Discovery_Execution.thy ===== *)
theory Discovery_Execution
  imports Execution_Models
begin

section \<open>database/poc/discovery_execution.py: bounded sequential execution\<close>

text \<open>
  The classification of errors, the budget of one execution, the request gate of an attempt, the delays and the
  retry loop. The clocks, the wait and the jitter are those of the injected runtime, which reads and changes the
  environment \<open>'e\<close>, as the callbacks of the operation do; \<open>None\<close> (or \<open>False\<close> for the wait) is an exception. Sums
  and products of finite floats are exact; a difference beyond the range of a double is refused as the source
  refuses an infinite one.
\<close>

subsection \<open>Classification of errors\<close>

record classified =
  cl_reason :: reason
  cl_retryable :: bool
  cl_retry_after :: "retry_after option"

definition final_error :: "reason \<Rightarrow> classified" where
  "final_error r = \<lparr>cl_reason = r, cl_retryable = False, cl_retry_after = None\<rparr>"

definition http_reason :: "string \<Rightarrow> int \<Rightarrow> reason" where
  "http_reason source code =
     (if code = 401 then Authentication
      else if code = 403 then Forbidden
      else if code = 404 then (if source = ''nvidia-nim-metadata'' then Nim_Tag_Unavailable else Target_Unavailable)
      else if code = 429 then Quota
      else if code = 304 then Cache_Required
      else if code \<in> {500, 502, 503, 504} then Provider
      else if 300 \<le> code \<and> code < 400 then Redirect else Http_Error)"

definition retry_after_of :: "retry_field \<Rightarrow> retry_after option option" where
  \<comment> \<open>\<open>None\<close> where reading the field raises\<close>
  "retry_after_of f =
     (case f of Normalized r \<Rightarrow> Some r | No_Headers \<Rightarrow> Some None | Header None \<Rightarrow> None
      | Header (Some v) \<Rightarrow> Some (parse_retry_after v))"

definition classify_http :: "string \<Rightarrow> execution_policy \<Rightarrow> val \<Rightarrow> retry_field \<Rightarrow> classified" where
  "classify_http source p code f =
     (case as_int code of
        None \<Rightarrow> final_error Invalid_Schema
      | Some c \<Rightarrow>
          if 100 \<le> c \<and> c \<le> 599
          then (case retry_after_of f of
                  None \<Rightarrow> final_error Invalid_Schema
                | Some r \<Rightarrow> \<lparr>cl_reason = http_reason source c, cl_retryable = (c \<in> set (pl_statuses p)), cl_retry_after = r\<rparr>)
          else final_error Invalid_Schema)"

definition TIMEOUT_ERRORS :: "string list" where "TIMEOUT_ERRORS = [''TimeoutError'', ''MetadataTimeoutError'']"

definition CONNECTION_ERRORS :: "string list" where
  "CONNECTION_ERRORS = [''MetadataNetworkError'', ''ConnectionError'', ''BrokenPipeError'', ''ConnectionAbortedError'',
     ''ConnectionRefusedError'', ''ConnectionResetError'', ''RemoteDisconnected'', ''IncompleteRead'']"

definition JSON_ERRORS :: "string list" where
  "JSON_ERRORS = [''MetadataResponseError'', ''JSONDecodeError'', ''UnicodeError'', ''UnicodeDecodeError'', ''UnicodeEncodeError'']"

definition SCHEMA_ERRORS :: "string list" where "SCHEMA_ERRORS = [''ValueError'', ''TypeError'', ''KeyError'']"

definition transport_error :: "execution_policy \<Rightarrow> reason \<Rightarrow> classified" where
  "transport_error p r = \<lparr>cl_reason = r, cl_retryable = pl_transport p, cl_retry_after = None\<rparr>"

definition classify_class :: "execution_policy \<Rightarrow> string \<Rightarrow> classified" where
  "classify_class p c =
     (if c \<in> set TIMEOUT_ERRORS then transport_error p Timeout
      else if c \<in> set CONNECTION_ERRORS then transport_error p Connection
      else if c \<in> set JSON_ERRORS then final_error Invalid_Json
      else if c \<in> set SCHEMA_ERRORS then final_error Invalid_Schema else final_error Unexpected)"

definition classify_error :: "string \<Rightarrow> execution_policy \<Rightarrow> exc \<Rightarrow> classified" where
  "classify_error source p e =
     (case e of
        Execution_Error r \<Rightarrow> final_error r
      | HTTP_Error code f \<Rightarrow> classify_http source p code f
      | URL_Error timed_out \<Rightarrow> transport_error p (if timed_out then Timeout else Connection)
      | Other_Error c \<Rightarrow> classify_class p c)"

subsection \<open>The runtime and the budget\<close>

record 'e runtime =
  rt_monotonic :: "'e \<Rightarrow> val option \<times> 'e"
  rt_wall_time :: "'e \<Rightarrow> val option \<times> 'e"
  rt_sleep :: "rat \<Rightarrow> 'e \<Rightarrow> bool \<times> 'e"
  rt_jitter :: "rat \<Rightarrow> 'e \<Rightarrow> val option \<times> 'e"

record 'e budget =
  bg_env :: 'e
  bg_attempts :: int
  bg_requests :: int
  bg_elapsed :: rat
  bg_waited :: rat
  bg_start :: rat
  bg_last :: rat
  bg_error :: "reason option"

text \<open>A step of the execution: it may raise, and the budget it leaves is visible even then.\<close>

type_synonym ('e, 'a) step = "'e budget \<Rightarrow> 'a exres \<times> 'e budget"

definition give :: "'a \<Rightarrow> ('e, 'a) step" where "give x s = (Inr x, s)"
definition throw :: "reason \<Rightarrow> ('e, 'a) step" where "throw r s = (Inl (Execution_Error r), s)"
definition pure :: "'a exres \<Rightarrow> ('e, 'a) step" where "pure m s = (m, s)"

definition sbind :: "('e, 'a) step \<Rightarrow> ('a \<Rightarrow> ('e, 'b) step) \<Rightarrow> ('e, 'b) step" where
  "sbind m f s = (case m s of (Inl e, s') \<Rightarrow> (Inl e, s') | (Inr x, s') \<Rightarrow> f x s')"

definition in_env :: "('e \<Rightarrow> 'a \<times> 'e) \<Rightarrow> ('e, 'a) step" where
  "in_env f s = (case f (bg_env s) of (x, e) \<Rightarrow> (Inr x, s\<lparr>bg_env := e\<rparr>))"

definition look :: "('e budget \<Rightarrow> 'a) \<Rightarrow> ('e, 'a) step" where "look f s = (Inr (f s), s)"
definition put :: "('e budget \<Rightarrow> 'e budget) \<Rightarrow> ('e, unit) step" where "put f s = (Inr (), f s)"

definition clock_value :: "val option \<Rightarrow> rat exres" where
  \<comment> \<open>whatever is not a finite number is the reason \<open>RUNTIME\<close>\<close>
  "clock_value v =
     (case v of None \<Rightarrow> Inl (Execution_Error Runtime)
      | Some w \<Rightarrow> (case finite_number w of Inr (Some x) \<Rightarrow> Inr x | _ \<Rightarrow> Inl (Execution_Error Runtime)))"

definition read_clock :: "'e runtime \<Rightarrow> ('e, rat) step" where
  "read_clock rt = sbind (in_env (rt_monotonic rt)) (\<lambda>v. pure (clock_value v))"

definition start_budget :: "'e runtime \<Rightarrow> ('e, unit) step" where
  "start_budget rt = sbind (read_clock rt) (\<lambda>now. put (\<lambda>s. s\<lparr>bg_start := now, bg_last := now\<rparr>))"

definition sample :: "'e runtime \<Rightarrow> execution_policy \<Rightarrow> ('e, rat) step" where
  "sample rt p =
     sbind (read_clock rt) (\<lambda>now.
     sbind (look (\<lambda>s. bg_last s \<le> now \<and> now - bg_start s < of_int FLOAT_LIMIT)) (\<lambda>ok.
     sbind (pure (demand ok Runtime)) (\<lambda>_.
     sbind (put (\<lambda>s. s\<lparr>bg_last := now, bg_elapsed := now - bg_start s\<rparr>)) (\<lambda>_.
     look (\<lambda>s. max 0 (seconds (pl_total p) - bg_elapsed s))))))"

definition check_time :: "'e runtime \<Rightarrow> execution_policy \<Rightarrow> ('e, rat) step" where
  "check_time rt p =
     sbind (sample rt p) (\<lambda>remaining.
     sbind (pure (demand (0 < remaining) Time_Budget)) (\<lambda>_. give remaining))"

subsection \<open>One attempt\<close>

definition request ::
  "'e runtime \<Rightarrow> 'e source_task \<Rightarrow> bool \<Rightarrow> resource_ref \<Rightarrow> (rat \<Rightarrow> 'e \<Rightarrow> val exres \<times> 'e) \<Rightarrow> ('e, val) step" where
  \<comment> \<open>\<open>AttemptContext.request\<close>; \<open>is_open\<close> until the context is closed\<close>
  "request rt t is_open resource callback =
     sbind (pure (demand (is_open \<and> resource \<in> set (tk_resources t) \<and> resource \<in> set (pl_resources (tk_policy t))) Selection)) (\<lambda>_.
     sbind (check_time rt (tk_policy t)) (\<lambda>remaining.
     sbind (look (\<lambda>s. bg_requests s < pl_max_requests (tk_policy t))) (\<lambda>ok.
     sbind (pure (demand ok Request_Budget)) (\<lambda>_.
     sbind (put (\<lambda>s. s\<lparr>bg_requests := bg_requests s + 1\<rparr>)) (\<lambda>_.
     sbind (in_env (callback remaining)) (\<lambda>reply.
     sbind (pure reply) (\<lambda>result.
     sbind (check_time rt (tk_policy t)) (\<lambda>_. give result))))))))"

primrec run_operation :: "'e runtime \<Rightarrow> 'e source_task \<Rightarrow> 'e operation \<Rightarrow> 'e budget \<Rightarrow> outcome \<times> 'e budget" where
  "run_operation rt t (Answered x) = (\<lambda>s. (x, s))"
| "run_operation rt t (Request resource callback k) =
     (\<lambda>s. case request rt t True resource callback s of (reply, s') \<Rightarrow> run_operation rt t (k reply) s')"

definition observe :: "hashing \<Rightarrow> clock_reader \<Rightarrow> string \<Rightarrow> 'e source_task \<Rightarrow> outcome \<Rightarrow> dict exres" where
  "observe h clk now t x =
     (case x of
        Threw e \<Rightarrow> Inl e
      | Not_Observation \<Rightarrow> Inl (Execution_Error Invalid_Schema)
      | Observed snapshot whole \<Rightarrow>
          (case as_bool whole of
             None \<Rightarrow> Inl (Execution_Error Invalid_Schema)
           | Some b \<Rightarrow> xbind (demand b Incomplete) (\<lambda>_.
                       validate_observation h clk now (tk_source t) (tk_selection t) (tk_resources t) snapshot)))"

definition attempt :: "hashing \<Rightarrow> clock_reader \<Rightarrow> string \<Rightarrow> 'e runtime \<Rightarrow> 'e source_task \<Rightarrow> ('e, dict) step" where
  "attempt h clk now rt t s =
     (case run_operation rt t (tk_operation t (bg_env s)) s of
        (x, s') \<Rightarrow> sbind (pure (observe h clk now t x)) (\<lambda>data.
                   sbind (check_time rt (tk_policy t)) (\<lambda>_. give data)) s')"

subsection \<open>Delays\<close>

function backoff_loop :: "rat \<Rightarrow> nat \<Rightarrow> rat \<Rightarrow> rat" where
  "backoff_loop limit 0 delay = min delay limit"
| "backoff_loop limit (Suc n) delay =
     (if delay = 0 \<or> limit / 2 \<le> delay then (if delay = 0 then 0 else limit) else backoff_loop limit n (delay * 2))"
  by pat_completeness auto
termination by (relation "measure (\<lambda>(l, n, d). n)") auto

definition backoff :: "execution_policy \<Rightarrow> int \<Rightarrow> rat" where
  "backoff p n = backoff_loop (seconds (pl_max_delay p)) (nat (n - 1)) (seconds (pl_backoff p))"

text \<open>\<open>datetime.fromtimestamp(now, utc)\<close>: microseconds rounded half to even, years 1 to 9999.\<close>

definition round_half_even :: "rat \<Rightarrow> int" where
  "round_half_even x =
     (let f = \<lfloor>x\<rfloor>; r = x - of_int f in
      if r < 1 / 2 then f else if 1 / 2 < r then f + 1 else if even f then f else f + 1)"

definition year_of :: "int \<Rightarrow> int" where
  \<comment> \<open>the year a day number falls in: the cycles of 400, 100, 4 and 1 years of \<open>_ord2ymd\<close>\<close>
  "year_of n =
     (let m = n - 1; n400 = m div 146097; r = m mod 146097; n100 = r div 36524; r2 = r mod 36524;
          n4 = r2 div 1461; r3 = r2 mod 1461; n1 = r3 div 365; y = n400 * 400 + n100 * 100 + n4 * 4 + n1 + 1
      in if n1 = 4 \<or> n100 = 4 then y - 1 else y)"

fun month_from :: "int \<Rightarrow> int list \<Rightarrow> int \<Rightarrow> int \<times> int" where
  \<comment> \<open>the month and day of the \<open>d\<close>-th day of a year\<close>
  "month_from y [] d = (12, d)"
| "month_from y (m # ms) d = (if d \<le> month_days y m \<or> ms = [] then (m, d) else month_from y ms (d - month_days y m))"

definition utc_moment :: "int \<Rightarrow> moment" where
  "utc_moment t =
     (let n = t div 86400 + 719163; r = t mod 86400; y = year_of n; md = month_from y [1..12] (n - days_before_year y) in
      \<lparr>mt_year = y, mt_month = fst md, mt_day = snd md, mt_hour = r div 3600, mt_minute = r mod 3600 div 60,
       mt_second = r mod 60\<rparr>)"

definition fifty_years_on :: "moment \<Rightarrow> moment" where
  \<comment> \<open>\<open>current.replace(year=current.year + 50)\<close>, on the 28th when the day does not exist\<close>
  "fifty_years_on t =
     (let u = t\<lparr>mt_year := mt_year t + 50\<rparr> in if valid_moment u then u else u\<lparr>mt_day := 28\<rparr>)"

definition resolved_year :: "moment \<Rightarrow> moment \<Rightarrow> moment option" where
  \<comment> \<open>the century of a two-digit year; \<open>None\<close> where \<open>replace\<close> raises\<close>
  "resolved_year current date =
     (if mt_year current \<le> 9949 \<and> moment_timestamp (fifty_years_on current) < moment_timestamp date
      then (let u = date\<lparr>mt_year := mt_year date - 100\<rparr> in if valid_moment u then Some u else None)
      else Some date)"

definition legacy_target :: "int list \<Rightarrow> rat \<Rightarrow> rat option exres" where
  \<comment> \<open>the instant of a date with a two-digit year; \<open>None\<close> where it is no date or its week day is wrong\<close>
  "legacy_target parts now =
     (let current = utc_moment (round_half_even (now * 1000000) div 1000000) in
      if valid_moment current
      then (let date = legacy_moment parts (mt_year current div 100 * 100) in
            if valid_moment date
            then (case resolved_year current date of
                    None \<Rightarrow> Inr None
                  | Some d \<Rightarrow> if weekday d = last parts then Inr (Some (of_int (moment_timestamp d))) else Inr None)
            else Inr None)
      else Inl (Execution_Error Runtime))"

definition delay_until :: "rat option \<Rightarrow> rat \<Rightarrow> rat exres" where
  "delay_until target now =
     (case target of None \<Rightarrow> Inr 0
      | Some x \<Rightarrow> xbind (demand (x - now < of_int FLOAT_LIMIT) Runtime) (\<lambda>_. Inr (max 0 (x - now))))"

definition server_delay :: "'e runtime \<Rightarrow> retry_after option \<Rightarrow> ('e, rat) step" where
  "server_delay rt info =
     (case info of None \<Rightarrow> give 0
      | Some r \<Rightarrow>
          if ra_excessive r then throw Retry_After_Extreme
          else (case ra_seconds r of Some n \<Rightarrow> give (of_int n)
          | None \<Rightarrow>
              sbind (in_env (rt_wall_time rt)) (\<lambda>v.
              sbind (pure (clock_value v)) (\<lambda>now.
              case ra_legacy_date r of
                Some parts \<Rightarrow> sbind (pure (legacy_target parts now)) (\<lambda>target. pure (delay_until target now))
              | None \<Rightarrow> pure (delay_until (ra_not_before r) now)))))"

subsection \<open>The retry loop\<close>

datatype step_result = Finished status "reason option" "dict option" | Again

definition deferred :: "reason \<Rightarrow> ('e, step_result) step" where "deferred r = give (Finished Deferred (Some r) None)"
definition failed :: "reason \<Rightarrow> ('e, step_result) step" where "failed r = give (Finished Failed (Some r) None)"

definition jittered :: "'e runtime \<Rightarrow> rat \<Rightarrow> ('e, rat) step" where
  "jittered rt base =
     sbind (in_env (rt_jitter rt base)) (\<lambda>v.
     case v of None \<Rightarrow> throw Runtime
     | Some w \<Rightarrow> (case number False w of Inr x \<Rightarrow> give x | Inl _ \<Rightarrow> throw Runtime))"

definition add_wait :: "rat \<Rightarrow> ('e, unit) step" where
  "add_wait before = put (\<lambda>s. s\<lparr>bg_waited := bg_waited s + (bg_last s - before)\<rparr>)"

definition wait_for :: "'e runtime \<Rightarrow> execution_policy \<Rightarrow> rat \<Rightarrow> rat \<Rightarrow> ('e, unit) step" where
  \<comment> \<open>\<open>runtime.sleep(delay)\<close>; the time of a wait that raises is counted too\<close>
  "wait_for rt p before delay =
     (if delay = 0 then give ()
      else sbind (in_env (rt_sleep rt delay)) (\<lambda>ok.
           if ok then give ()
           else sbind (sample rt p) (\<lambda>_. sbind (add_wait before) (\<lambda>_. throw Runtime))))"

definition resume :: "'e runtime \<Rightarrow> execution_policy \<Rightarrow> rat \<Rightarrow> ('e, step_result) step" where
  \<comment> \<open>from \<open>before = budget.last\<close> to the end of the loop body\<close>
  "resume rt p delay =
     sbind (look bg_last) (\<lambda>before.
     sbind (wait_for rt p before delay) (\<lambda>_.
     sbind (sample rt p) (\<lambda>remaining.
     sbind (if delay = 0 then give () else add_wait before) (\<lambda>_.
     sbind (look bg_last) (\<lambda>after.
     if remaining \<le> 0 then deferred Time_Budget
     else if after - before < delay then deferred Wait_Interrupted
     else give Again)))))"

definition pause :: "'e runtime \<Rightarrow> 'e source_task \<Rightarrow> rat \<Rightarrow> ('e, step_result) step" where
  \<comment> \<open>from \<open>base = _backoff(...)\<close>\<close>
  "pause rt t server =
     (let p = tk_policy t in
      sbind (look (\<lambda>s. backoff p (bg_attempts s))) (\<lambda>base.
      sbind (jittered rt base) (\<lambda>jitter.
      sbind (check_time rt p) (\<lambda>remaining.
      if remaining \<le> server then deferred Retry_After_Budget
      else
        let delay = max server (base + min jitter (seconds (pl_max_delay p) - base)) in
        if remaining \<le> delay then deferred Time_Budget else resume rt p delay))))"

definition recover_from :: "'e runtime \<Rightarrow> 'e source_task \<Rightarrow> classified \<Rightarrow> ('e, step_result) step" where
  \<comment> \<open>from \<open>last_error = error.reason\<close>\<close>
  "recover_from rt t c =
     (let p = tk_policy t in
      sbind (put (\<lambda>s. s\<lparr>bg_error := Some (cl_reason c)\<rparr>)) (\<lambda>_.
      sbind (sample rt p) (\<lambda>remaining.
      if cl_reason c = Request_Budget \<or> cl_reason c = Time_Budget then deferred (cl_reason c)
      else if \<not> cl_retryable c \<or> \<not> tk_idempotent t then failed (cl_reason c)
      else if remaining \<le> 0 then deferred Time_Budget
      else sbind (look (\<lambda>s. (bg_requests s, bg_attempts s))) (\<lambda>(requests, attempts).
        if pl_max_requests p \<le> requests then deferred Request_Budget
        else if pl_max_attempts p \<le> attempts then deferred Attempt_Budget
        else sbind (server_delay rt (cl_retry_after c)) (\<lambda>server.
          if remaining \<le> server then deferred Retry_After_Budget
          else if seconds (pl_max_delay p) < server then deferred Delay_Limit
          else pause rt t server)))))"

definition one_round :: "hashing \<Rightarrow> clock_reader \<Rightarrow> string \<Rightarrow> 'e runtime \<Rightarrow> 'e source_task \<Rightarrow> ('e, step_result) step" where
  "one_round h clk now rt t =
     sbind (check_time rt (tk_policy t)) (\<lambda>_.
     sbind (put (\<lambda>s. s\<lparr>bg_attempts := bg_attempts s + 1\<rparr>)) (\<lambda>_.
     \<lambda>s. case attempt h clk now rt t s of
           (Inr data, s') \<Rightarrow> (Inr (Finished Success None (Some data)), s')
         | (Inl e, s') \<Rightarrow> recover_from rt t (classify_error (tk_source t) (tk_policy t) e) s'))"

fun attempt_loop ::
  "hashing \<Rightarrow> clock_reader \<Rightarrow> string \<Rightarrow> 'e runtime \<Rightarrow> 'e source_task \<Rightarrow> nat \<Rightarrow> ('e, step_result) step" where
  \<comment> \<open>\<open>while budget.attempts < max_attempts\<close>; the number is that of the attempts left\<close>
  "attempt_loop h clk now rt t 0 = deferred Attempt_Budget"
| "attempt_loop h clk now rt t (Suc n) =
     sbind (one_round h clk now rt t) (\<lambda>r. case r of Again \<Rightarrow> attempt_loop h clk now rt t n | _ \<Rightarrow> give r)"

subsection \<open>The result\<close>

definition result_of :: "'e source_task \<Rightarrow> 'e budget \<Rightarrow> status \<Rightarrow> reason option \<Rightarrow> dict option \<Rightarrow> source_result" where
  "result_of t s st r snapshot =
     \<lparr>rs_source = tk_source t, rs_selection = tk_selection t, rs_resources = tk_resources t, rs_status = st,
      rs_reason = r, rs_last_error = bg_error s, rs_attempts = bg_attempts s, rs_requests = bg_requests s,
      rs_elapsed = bg_elapsed s, rs_wait = bg_waited s, rs_policy = tk_policy t, rs_idempotent = tk_idempotent t,
      rs_synthetic = tk_synthetic t, rs_complete = (st = Success \<or> st = Unchanged), rs_snapshot = map_option VDict snapshot\<rparr>"

definition finish_source ::
  "hashing \<Rightarrow> clock_reader \<Rightarrow> string \<Rightarrow> 'e runtime \<Rightarrow> 'e source_task \<Rightarrow> status \<Rightarrow> reason option \<Rightarrow> dict option
     \<Rightarrow> ('e, source_result) step" where
  "finish_source h clk now rt t st r snapshot =
     sbind (look (\<lambda>s. result_of t s st r snapshot)) (\<lambda>r0.
     sbind (pure (make_result h clk now r0)) (\<lambda>result.
     if st = Success \<or> st = Unchanged then
       sbind (check_time rt (tk_policy t)) (\<lambda>_.
       sbind (look bg_elapsed) (\<lambda>elapsed. give (result\<lparr>rs_elapsed := elapsed\<rparr>)))
     else give result))"

definition execution_body ::
  "hashing \<Rightarrow> clock_reader \<Rightarrow> string \<Rightarrow> 'e runtime \<Rightarrow> 'e source_task \<Rightarrow> ('e, source_result) step" where
  \<comment> \<open>the body of the \<open>try\<close>, after the budget is created\<close>
  "execution_body h clk now rt t =
     (if set (tk_resources t) \<subseteq> set (pl_resources (tk_policy t))
      then sbind (attempt_loop h clk now rt t (nat (pl_max_attempts (tk_policy t)))) (\<lambda>r.
           case r of Finished st reason snapshot \<Rightarrow> finish_source h clk now rt t st reason snapshot
           | Again \<Rightarrow> finish_source h clk now rt t Deferred (Some Attempt_Budget) None)
      else finish_source h clk now rt t Failed (Some Selection) None)"

definition stop_status :: "reason \<Rightarrow> status" where
  "stop_status r = (if r = Time_Budget \<or> r = Retry_After_Extreme then Deferred else Failed)"

definition stopped ::
  "hashing \<Rightarrow> clock_reader \<Rightarrow> string \<Rightarrow> 'e runtime \<Rightarrow> 'e source_task \<Rightarrow> reason \<Rightarrow> bool \<Rightarrow> ('e, source_result) step" where
  \<comment> \<open>\<open>except ExecutionError\<close>; a failing clock keeps the last valid measurement\<close>
  "stopped h clk now rt t r measured s =
     finish_source h clk now rt t (stop_status r) (Some r) None
       (if measured \<and> r \<noteq> Time_Budget then snd (sample rt (tk_policy t) s) else s)"

definition fresh_budget :: "'e \<Rightarrow> 'e budget" where
  "fresh_budget e = \<lparr>bg_env = e, bg_attempts = 0, bg_requests = 0, bg_elapsed = 0, bg_waited = 0, bg_start = 0,
     bg_last = 0, bg_error = None\<rparr>"

definition execute_source ::
  "hashing \<Rightarrow> clock_reader \<Rightarrow> string \<Rightarrow> 'e runtime \<Rightarrow> 'e source_task \<Rightarrow> 'e \<Rightarrow> source_result exres \<times> 'e" where
  "execute_source h clk now rt t env =
     (let finished = (case start_budget rt (fresh_budget env) of
        (Inl (Execution_Error r), s) \<Rightarrow> stopped h clk now rt t r False s
      | (Inl e, s) \<Rightarrow> (Inl e, s)
      | (Inr _, s) \<Rightarrow>
          (case execution_body h clk now rt t s of
             (Inl (Execution_Error r), s') \<Rightarrow> stopped h clk now rt t r True s'
           | other \<Rightarrow> other))
      in (fst finished, bg_env (snd finished)))"

fun execute_each ::
  "hashing \<Rightarrow> clock_reader \<Rightarrow> string \<Rightarrow> 'e runtime \<Rightarrow> 'e source_task list \<Rightarrow> 'e \<Rightarrow> source_result list exres \<times> 'e" where
  "execute_each h clk now rt [] env = (Inr [], env)"
| "execute_each h clk now rt (t # ts) env =
     (case execute_source h clk now rt t env of
        (Inl e, env') \<Rightarrow> (Inl e, env')
      | (Inr r, env') \<Rightarrow>
          (case execute_each h clk now rt ts env' of
             (Inl e, env'') \<Rightarrow> (Inl e, env'') | (Inr rs, env'') \<Rightarrow> (Inr (r # rs), env'')))"

definition execute_sources ::
  "hashing \<Rightarrow> clock_reader \<Rightarrow> string \<Rightarrow> 'e runtime \<Rightarrow> 'e source_task list \<Rightarrow> 'e \<Rightarrow> source_result list exres \<times> 'e" where
  "execute_sources h clk now rt tasks env =
     (if tasks = [] \<or> \<not> distinct (map tk_source tasks) then (raised invalid, env)
      else case raised (collect make_task tasks) of
        Inl e \<Rightarrow> (Inl e, env)
      | Inr plan \<Rightarrow>
          (case execute_each h clk now rt plan env of
             (Inl e, env') \<Rightarrow> (Inl e, env')
           | (Inr rs, env') \<Rightarrow> (raised (make_report rs), env')))"

end
