(* ===== verification/Discovery_Guarantees.thy ===== *)
theory Discovery_Guarantees
  imports Discovery_Execution
begin

section \<open>Guarantees of the bounded execution of discovery tasks\<close>

text \<open>
  Two judgements carry the proofs: \<open>moves R m\<close> (whatever the step \<open>m\<close> does, \<open>R\<close> relates the budget before it to
  the one after it) and \<open>tame m\<close> (the only exception that leaves \<open>m\<close> is an \<open>ExecutionError\<close>), with one rule per
  combinator in the collections \<open>moves_intros\<close> and \<open>tame_intros\<close>.
\<close>

named_theorems moves_intros \<open>what a step does to the budget\<close>
named_theorems tame_intros \<open>steps that raise nothing but an ExecutionError\<close>

definition moves :: "('e budget \<Rightarrow> 'e budget \<Rightarrow> bool) \<Rightarrow> ('e, 'a) step \<Rightarrow> bool" where
  "moves R m \<longleftrightarrow> (\<forall>s. R s (snd (m s)))"

definition tame :: "('e, 'a) step \<Rightarrow> bool" where
  "tame m \<longleftrightarrow> (\<forall>s e s'. m s = (Inl e, s') \<longrightarrow> (\<exists>r. e = Execution_Error r))"

lemmas step_defs = give_def throw_def pure_def look_def put_def

lemma budget_moveD: "moves R m \<Longrightarrow> m s = (r, s') \<Longrightarrow> R s s'"
  by (metis moves_def snd_conv)

lemma tameD: "tame m \<Longrightarrow> m s = (Inl e, s') \<Longrightarrow> \<exists>r. e = Execution_Error r"
  unfolding tame_def by blast

lemma sbind_Inr:
  "sbind m f s = (Inr y, s') \<longleftrightarrow> (\<exists>x s1. m s = (Inr x, s1) \<and> f x s1 = (Inr y, s'))"
  by (auto simp: sbind_def split: prod.splits sum.splits)

lemma sbind_run [simp]:
  "m s = (Inr x, s1) \<Longrightarrow> sbind m f s = f x s1"
  "m s = (Inl e, s1) \<Longrightarrow> sbind m f s = (Inl e, s1)"
  by (simp_all add: sbind_def)

subsection \<open>Rules of the judgements\<close>

locale budget_order =
  fixes R :: "'e budget \<Rightarrow> 'e budget \<Rightarrow> bool"
  assumes stays: "R s s"
    and chains: "R s1 s2 \<Longrightarrow> R s2 s3 \<Longrightarrow> R s1 s3"
begin

lemma moves_still: "moves R (give x)" "moves R (throw r)" "moves R (pure m)" "moves R (look f)"
  by (simp_all add: moves_def step_defs stays)

lemma moves_sbind:
  assumes "moves R m" and "\<And>x. moves R (f x)"
  shows "moves R (sbind m f)"
  unfolding moves_def
proof
  fix s
  obtain r s1 where run: "m s = (r, s1)" by fastforce
  with assms(1) have "R s s1" by (rule budget_moveD)
  then show "R s (snd (sbind m f s))"
    using run assms(2) by (cases r) (auto simp: moves_def intro: chains)
qed

end

lemma tame_still [tame_intros]: "tame (give x)" "tame (throw r)" "tame (look f)" "tame (put g)" "tame (in_env k)"
  by (auto simp: tame_def step_defs in_env_def split: prod.splits)

lemma tame_demand [tame_intros]: "tame (pure (demand b r))"
  by (auto simp: tame_def step_defs demand_def)

lemma tame_clock [tame_intros]: "tame (pure (clock_value v))"
  by (auto simp: tame_def step_defs clock_value_def split: option.splits sum.splits)

lemma tame_sbind [tame_intros]:
  assumes "tame m" and "\<And>x. tame (f x)"
  shows "tame (sbind m f)"
  unfolding tame_def
proof (intro allI impI)
  fix s e s'
  assume run: "sbind m f s = (Inl e, s')"
  obtain r s1 where "m s = (r, s1)" by fastforce
  with run assms show "\<exists>r. e = Execution_Error r"
    by (cases r) (auto dest: tameD)
qed

lemma tame_if [tame_intros]: "tame m1 \<Longrightarrow> tame m2 \<Longrightarrow> tame (if b then m1 else m2)"
  by simp

lemma tame_steps [tame_intros]: "tame (deferred r)" "tame (failed r)" "tame (add_wait b)"
  by (simp_all add: deferred_def failed_def add_wait_def tame_intros)

lemma tame_read_clock [tame_intros]: "tame (read_clock rt)"
  unfolding read_clock_def by (intro tame_intros)

lemma tame_sample [tame_intros]: "tame (sample rt p)"
  unfolding sample_def by (intro tame_intros)

lemma tame_check_time [tame_intros]: "tame (check_time rt p)"
  unfolding check_time_def by (intro tame_intros)

lemma tame_start [tame_intros]: "tame (start_budget rt)"
  unfolding start_budget_def by (intro tame_intros)

lemma tame_legacy [tame_intros]: "tame (pure (legacy_target parts now))"
  by (auto simp: tame_def step_defs legacy_target_def Let_def split: if_splits option.splits)

lemma tame_until [tame_intros]: "tame (pure (delay_until target now))"
  by (auto simp: tame_def step_defs delay_until_def demand_def split: if_splits option.splits)

lemma tame_server_delay [tame_intros]: "tame (server_delay rt info)"
  unfolding server_delay_def
  by (cases info) (auto intro!: tame_intros split: option.split)

lemma tame_jittered [tame_intros]: "tame (jittered rt base)"
  unfolding jittered_def by (auto intro!: tame_intros split: option.split sum.split)

lemma tame_wait_for [tame_intros]: "tame (wait_for rt p before delay)"
  unfolding wait_for_def by (auto intro!: tame_intros)

lemma tame_resume [tame_intros]: "tame (resume rt p delay)"
  unfolding resume_def by (auto intro!: tame_intros)

lemma tame_pause [tame_intros]: "tame (pause rt t server)"
  unfolding pause_def Let_def by (auto intro!: tame_intros)

lemma tame_recover [tame_intros]: "tame (recover_from rt t c)"
  unfolding recover_from_def Let_def by (auto intro!: tame_intros split: prod.split)

lemma tame_round [tame_intros]: "tame (one_round h clk now rt t)"
  unfolding one_round_def
proof (intro tame_intros)
  show "tame (\<lambda>s. case attempt h clk now rt t s of
      (Inl e, s') \<Rightarrow> recover_from rt t (classify_error (tk_source t) (tk_policy t) e) s'
    | (Inr data, s') \<Rightarrow> (Inr (Finished Success None (Some data)), s'))"
    unfolding tame_def by (auto split: prod.splits sum.splits dest: tameD [OF tame_recover])
qed

lemma tame_loop [tame_intros]: "tame (attempt_loop h clk now rt t n)"
  by (induction n) (auto intro!: tame_intros split: step_result.split)

subsection \<open>What the steps do to the budget\<close>

definition budget_ok :: "execution_policy \<Rightarrow> 'e budget \<Rightarrow> bool" where
  "budget_ok p s \<longleftrightarrow>
     0 \<le> bg_requests s \<and> bg_requests s \<le> pl_max_requests p \<and> bg_start s \<le> bg_last s
     \<and> bg_elapsed s = bg_last s - bg_start s \<and> 0 \<le> bg_waited s \<and> bg_waited s \<le> bg_elapsed s"

definition budget_step :: "execution_policy \<Rightarrow> 'e budget \<Rightarrow> 'e budget \<Rightarrow> bool" where
  "budget_step p s s' \<longleftrightarrow> (budget_ok p s \<longrightarrow> budget_ok p s' \<and> bg_attempts s' = bg_attempts s)"

interpretation kept: budget_order "budget_step p" for p
  by unfold_locales (auto simp: budget_step_def)

lemmas kept_intros [moves_intros] = kept.moves_still kept.moves_sbind

text \<open>What a measurement can do: the environment moves on, and a valid time replaces the last one.\<close>

lemma read_clock_run: "read_clock rt s = (r, s') \<Longrightarrow> \<exists>e. s' = s\<lparr>bg_env := e\<rparr>"
  by (auto simp: read_clock_def sbind_def in_env_def step_defs split: prod.splits)

abbreviation ticked :: "'e runtime \<Rightarrow> 'e budget \<Rightarrow> 'e budget" where
  "ticked rt s \<equiv> s\<lparr>bg_env := snd (rt_monotonic rt (bg_env s))\<rparr>"

lemma sample_run:
  assumes "sample rt p s = (r, s')"
  obtains (refused) "s' = ticked rt s" "r = Inl (Execution_Error Runtime)"
  | (measured) now where "bg_last s \<le> now"
      "s' = (ticked rt s)\<lparr>bg_last := now, bg_elapsed := now - bg_start s\<rparr>"
      "r = Inr (max 0 (seconds (pl_total p) - (now - bg_start s)))"
proof -
  obtain v e where clock: "rt_monotonic rt (bg_env s) = (v, e)" by fastforce
  show ?thesis
  proof (cases "clock_value v")
    case (Inl x)
    then have "x = Execution_Error Runtime"
      by (auto simp: clock_value_def split: option.splits sum.splits)
    with Inl clock assms refused show ?thesis
      by (simp add: sample_def read_clock_def sbind_def in_env_def step_defs)
  next
    case (Inr now)
    show ?thesis
    proof (cases "bg_last s \<le> now \<and> now - bg_start s < of_int FLOAT_LIMIT")
      case True
      with Inr clock assms measured [of now] show ?thesis
        by (simp add: sample_def read_clock_def sbind_def in_env_def step_defs demand_def)
    next
      case False
      with Inr clock assms refused show ?thesis
        by (simp add: sample_def read_clock_def sbind_def in_env_def step_defs demand_def)
    qed
  qed
qed

lemma check_time_run:
  assumes "check_time rt p s = (r, s')"
  obtains (stopped_clock) "s' = ticked rt s" "r = Inl (Execution_Error Runtime)"
  | (measured) now where "bg_last s \<le> now"
      "s' = (ticked rt s)\<lparr>bg_last := now, bg_elapsed := now - bg_start s\<rparr>"
      "r = (if now - bg_start s < seconds (pl_total p) then Inr (seconds (pl_total p) - (now - bg_start s))
            else Inl (Execution_Error Time_Budget))"
proof -
  obtain r0 s0 where run: "sample rt p s = (r0, s0)" by fastforce
  then show ?thesis
  proof (cases rule: sample_run)
    case refused
    with run assms stopped_clock show ?thesis by (simp add: check_time_def)
  next
    case (measured now)
    show ?thesis
    proof (cases "now - bg_start s < seconds (pl_total p)")
      case True
      with run measured assms that(2) [of now] show ?thesis
        by (simp add: check_time_def step_defs demand_def max_def sbind_def)
    next
      case False
      then have "max 0 (seconds (pl_total p) - (now - bg_start s)) = 0" by simp
      with False run measured assms that(2) [of now] show ?thesis
        by (simp add: check_time_def step_defs demand_def sbind_def)
    qed
  qed
qed

lemma request_run:
  assumes "request rt t is_open ref callback s = (r, s')"
  obtains (refused) "s' = s"
  | (unsent) r1 where "check_time rt (tk_policy t) s = (r1, s')"
  | (sent) left s1 reply e where is_open "ref \<in> set (tk_resources t)" "ref \<in> set (pl_resources (tk_policy t))"
      "check_time rt (tk_policy t) s = (Inr left, s1)" "bg_requests s1 < pl_max_requests (tk_policy t)"
      "callback left (bg_env s1) = (reply, e)"
      "s' = s1\<lparr>bg_requests := bg_requests s1 + 1, bg_env := e\<rparr>
       \<or> (\<exists>r2. check_time rt (tk_policy t) (s1\<lparr>bg_requests := bg_requests s1 + 1, bg_env := e\<rparr>) = (r2, s'))"
proof (cases "is_open \<and> ref \<in> set (tk_resources t) \<and> ref \<in> set (pl_resources (tk_policy t))")
  case False
  with assms refused show ?thesis by (simp add: request_def sbind_def step_defs demand_def)
next
  case True
  obtain r1 s1 where time: "check_time rt (tk_policy t) s = (r1, s1)" by fastforce
  show ?thesis
  proof (cases r1)
    case (Inl e)
    with True time assms have "s' = s1" by (auto simp: request_def sbind_def step_defs demand_def)
    with time unsent show ?thesis by simp
  next
    case (Inr left)
    show ?thesis
    proof (cases "bg_requests s1 < pl_max_requests (tk_policy t)")
      case False
      with True time Inr assms have "s' = s1" by (auto simp: request_def sbind_def step_defs demand_def)
      with time unsent show ?thesis by simp
    next
      case within: True
      let ?s2 = "s1\<lparr>bg_requests := bg_requests s1 + 1\<rparr>"
      obtain reply e where called: "callback left (bg_env s1) = (reply, e)" by fastforce
      have "s' = ?s2\<lparr>bg_env := e\<rparr> \<or> (\<exists>r2. check_time rt (tk_policy t) (?s2\<lparr>bg_env := e\<rparr>) = (r2, s'))"
        using True time Inr assms within called
        by (cases reply) (auto simp: request_def sbind_def step_defs demand_def in_env_def split: prod.splits sum.splits)
      with True time Inr within called sent show ?thesis by simp
    qed
  qed
qed

lemma budget_ok_env [simp]: "budget_ok p (s\<lparr>bg_env := e\<rparr>) = budget_ok p s"
  by (simp add: budget_ok_def)

lemma kept_sample [moves_intros]: "moves (budget_step p) (sample rt p')"
  unfolding moves_def
proof
  fix s :: "'a budget"
  obtain r s' where run: "sample rt p' s = (r, s')" by fastforce
  then show "budget_step p s (snd (sample rt p' s))"
    by (cases rule: sample_run) (auto simp: run budget_step_def budget_ok_def)
qed

lemma kept_env [moves_intros]: "moves (budget_step p) (in_env f)"
  by (auto simp: moves_def budget_step_def in_env_def split: prod.splits)

lemma kept_error [moves_intros]: "moves (budget_step p) (put (\<lambda>s. s\<lparr>bg_error := x\<rparr>))"
  by (auto simp: moves_def budget_step_def budget_ok_def put_def)

lemma kept_check_time [moves_intros]: "moves (budget_step p) (check_time rt p')"
  unfolding check_time_def by (intro moves_intros)

lemma kept_request: "moves (budget_step (tk_policy t)) (request rt t b ref callback)"
  unfolding moves_def
proof
  fix s :: "'a budget"
  let ?R = "budget_step (tk_policy t)"
  have time: "?R s1 s2" if "check_time rt (tk_policy t) s1 = (r1, s2)" for r1 s1 s2
    using kept_check_time that by (rule budget_moveD)
  obtain r s' where run: "request rt t b ref callback s = (r, s')" by fastforce
  then have "?R s s'"
  proof (cases rule: request_run)
    case refused
    then show ?thesis by (simp add: kept.stays)
  next
    case (unsent r1)
    then show ?thesis by (rule time)
  next
    case (sent left s1 reply e)
    have "?R s s1" using sent(4) by (rule time)
    moreover have "?R s1 (s1\<lparr>bg_requests := bg_requests s1 + 1, bg_env := e\<rparr>)"
      using sent(5) by (auto simp: budget_step_def budget_ok_def)
    moreover have "?R (s1\<lparr>bg_requests := bg_requests s1 + 1, bg_env := e\<rparr>) s'"
      using sent(7) time by (auto simp: kept.stays)
    ultimately show ?thesis by (blast intro: kept.chains)
  qed
  with run show "?R s (snd (request rt t b ref callback s))" by simp
qed

lemma kept_operation: "budget_step (tk_policy t) s (snd (run_operation rt t oper s))"
proof (induction oper arbitrary: s)
  case (Answered x)
  then show ?case by (simp add: kept.stays)
next
  case (Request ref callback k)
  obtain reply s1 where run: "request rt t True ref callback s = (reply, s1)" by fastforce
  then have "budget_step (tk_policy t) s s1" by (rule budget_moveD [OF kept_request])
  moreover have "budget_step (tk_policy t) s1 (snd (run_operation rt t (k reply) s1))"
    by (rule Request.IH) simp
  ultimately show ?case by (simp add: run kept.chains)
qed

lemma kept_attempt [moves_intros]: "moves (budget_step (tk_policy t)) (attempt h clk now rt t)"
  unfolding moves_def
proof
  fix s :: "'a budget"
  obtain x s1 where run: "run_operation rt t (tk_operation t (bg_env s)) s = (x, s1)" by fastforce
  let ?rest = "sbind (pure (observe h clk now t x)) (\<lambda>data. sbind (check_time rt (tk_policy t)) (\<lambda>_. give data))"
  have "budget_step (tk_policy t) s s1" by (metis kept_operation run snd_conv)
  moreover have "moves (budget_step (tk_policy t)) ?rest" by (intro moves_intros)
  then have "budget_step (tk_policy t) s1 (snd (?rest s1))" by (simp add: moves_def)
  ultimately show "budget_step (tk_policy t) s (snd (attempt h clk now rt t s))"
    by (auto simp: attempt_def run intro: kept.chains)
qed

text \<open>While a wait that began at \<open>before\<close> runs, the time already accounted for ends at \<open>before\<close>.\<close>

definition waiting :: "execution_policy \<Rightarrow> rat \<Rightarrow> 'e budget \<Rightarrow> bool" where
  "waiting p before s \<longleftrightarrow> budget_ok p s \<and> before \<le> bg_last s \<and> bg_waited s \<le> before - bg_start s"

definition waiting_step :: "execution_policy \<Rightarrow> rat \<Rightarrow> 'e budget \<Rightarrow> 'e budget \<Rightarrow> bool" where
  "waiting_step p before s s' \<longleftrightarrow> (waiting p before s \<longrightarrow> waiting p before s' \<and> bg_attempts s' = bg_attempts s)"

lemma waiting_sample: "waiting p before s \<Longrightarrow> sample rt p' s = (r, s') \<Longrightarrow> waiting p before s' \<and> bg_attempts s' = bg_attempts s"
  by (erule sample_run) (auto simp: waiting_def budget_ok_def)

lemma waiting_added:
  "waiting p before s \<Longrightarrow> add_wait before s = (r, s') \<Longrightarrow> budget_ok p s' \<and> bg_attempts s' = bg_attempts s"
  by (auto simp: waiting_def budget_ok_def add_wait_def put_def)

lemma waiting_ok: "waiting p before s \<Longrightarrow> budget_ok p s"
  by (simp add: waiting_def)

lemma waiting_env [simp]: "waiting p before (s\<lparr>bg_env := e\<rparr>) = waiting p before s"
  by (simp add: waiting_def)

lemma wait_for_run:
  assumes "wait_for rt p' before delay s = (r, s')" and "waiting p before s"
  shows "budget_ok p s' \<and> bg_attempts s' = bg_attempts s \<and> (r = Inr () \<longrightarrow> waiting p before s')"
proof -
  obtain ok e where slept: "rt_sleep rt delay (bg_env s) = (ok, e)" by fastforce
  obtain r1 s1 where sampled: "sample rt p' (s\<lparr>bg_env := e\<rparr>) = (r1, s1)" by fastforce
  have w1: "waiting p before s1 \<and> bg_attempts s1 = bg_attempts s"
    using waiting_sample [OF _ sampled] assms(2) by simp
  obtain s2 where added: "add_wait before s1 = (Inr (), s2)" by (simp add: add_wait_def put_def)
  with w1 have "budget_ok p s2 \<and> bg_attempts s2 = bg_attempts s" by (auto dest: waiting_added)
  with assms slept sampled w1 added show ?thesis
    by (cases r1) (auto simp: wait_for_def in_env_def sbind_def step_defs waiting_ok split: if_splits)
qed

lemma kept_resume [moves_intros]: "moves (budget_step p) (resume rt p' delay)"
  unfolding moves_def budget_step_def
proof (intro allI impI)
  fix s :: "'a budget"
  assume ok: "budget_ok p s"
  define before where "before = bg_last s"
  have w: "waiting p before s" using ok by (auto simp: waiting_def before_def budget_ok_def)
  obtain r1 s1 where waited: "wait_for rt p' before delay s = (r1, s1)" by fastforce
  note w1 = wait_for_run [OF waited w]
  show "budget_ok p (snd (resume rt p' delay s)) \<and> bg_attempts (snd (resume rt p' delay s)) = bg_attempts s"
  proof (cases r1)
    case (Inl e)
    with waited w1 show ?thesis by (simp add: resume_def look_def sbind_def before_def)
  next
    case (Inr u)
    obtain r2 s2 where sampled: "sample rt p' s1 = (r2, s2)" by fastforce
    have w2: "waiting p before s2 \<and> bg_attempts s2 = bg_attempts s"
      using waiting_sample [OF _ sampled, of p before] w1 Inr by auto
    obtain s3 where added: "add_wait before s2 = (Inr (), s3)" by (simp add: add_wait_def put_def)
    with w2 have "budget_ok p s3 \<and> bg_attempts s3 = bg_attempts s" by (auto dest: waiting_added)
    with waited Inr sampled w2 added show ?thesis
      by (cases r2) (auto simp: resume_def sbind_def step_defs before_def deferred_def waiting_ok)
  qed
qed

lemma kept_final [moves_intros]: "moves (budget_step p) (deferred r)" "moves (budget_step p) (failed r)"
  by (simp_all add: deferred_def failed_def moves_intros)

lemma kept_jittered [moves_intros]: "moves (budget_step p) (jittered rt base)"
  unfolding jittered_def by (auto intro!: moves_intros split: option.split sum.split)

lemma kept_pause [moves_intros]: "moves (budget_step p) (pause rt t server)"
  unfolding pause_def Let_def by (auto intro!: moves_intros)

lemma kept_server_delay [moves_intros]: "moves (budget_step p) (server_delay rt info)"
  unfolding server_delay_def by (cases info) (auto intro!: moves_intros split: option.split)

lemma kept_recover [moves_intros]: "moves (budget_step p) (recover_from rt t c)"
  unfolding recover_from_def Let_def by (auto intro!: moves_intros split: prod.split)

lemma one_round_run:
  assumes "one_round h clk now rt t s = (r, s')" and "budget_ok (tk_policy t) s"
  shows "budget_ok (tk_policy t) s' \<and> bg_attempts s \<le> bg_attempts s' \<and> bg_attempts s' \<le> bg_attempts s + 1"
proof -
  let ?R = "budget_step (tk_policy t)"
  obtain r1 s1 where time: "check_time rt (tk_policy t) s = (r1, s1)" by fastforce
  with assms(2) have ok1: "budget_ok (tk_policy t) s1" "bg_attempts s1 = bg_attempts s"
    using budget_moveD [OF kept_check_time [of "tk_policy t"] time] by (auto simp: budget_step_def)
  let ?s2 = "s1\<lparr>bg_attempts := bg_attempts s1 + 1\<rparr>"
  from ok1 have ok2: "budget_ok (tk_policy t) ?s2" by (simp add: budget_ok_def)
  obtain r3 s3 where tried: "attempt h clk now rt t ?s2 = (r3, s3)" by fastforce
  with ok2 have ok3: "budget_ok (tk_policy t) s3" "bg_attempts s3 = bg_attempts s + 1"
    using budget_moveD [OF kept_attempt tried] ok1 by (auto simp: budget_step_def)
  have "budget_ok (tk_policy t) s4 \<and> bg_attempts s4 = bg_attempts s + 1" if "recover_from rt t c s3 = (r4, s4)" for c r4 s4
    using budget_moveD [OF kept_recover that] ok3 by (auto simp: budget_step_def)
  with assms time ok1 tried ok3 show ?thesis
    by (cases r1; cases r3) (auto simp: one_round_def put_def)
qed

lemma attempt_loop_run:
  assumes "attempt_loop h clk now rt t n s = (r, s')" and "budget_ok (tk_policy t) s"
  shows "budget_ok (tk_policy t) s' \<and> bg_attempts s \<le> bg_attempts s' \<and> bg_attempts s' \<le> bg_attempts s + int n"
  using assms
proof (induction n arbitrary: s)
  case 0
  then show ?case by (auto simp: deferred_def give_def)
next
  case (Suc n)
  obtain r1 s1 where first: "one_round h clk now rt t s = (r1, s1)" by fastforce
  note one_round_run [OF this Suc.prems(2)]
  moreover have "budget_ok (tk_policy t) s' \<and> bg_attempts s1 \<le> bg_attempts s' \<and> bg_attempts s' \<le> bg_attempts s1 + int n"
    if "r1 = Inr Again"
    using Suc.IH [of s1] Suc.prems(1) first that calculation by simp
  ultimately show ?case
    using Suc.prems(1) first
    by (cases r1) (auto simp: give_def split: step_result.splits)
qed

subsection \<open>What the loop returns\<close>

definition gives :: "('a \<Rightarrow> bool) \<Rightarrow> ('e, 'a) step \<Rightarrow> bool" where
  "gives P m \<longleftrightarrow> (\<forall>s x s'. m s = (Inr x, s') \<longrightarrow> P x)"

named_theorems gives_intros \<open>what the value of a step satisfies\<close>

lemma gives_sbind [gives_intros]: "(\<And>x. gives P (f x)) \<Longrightarrow> gives P (sbind m f)"
  by (auto simp: gives_def sbind_Inr)

lemma gives_if [gives_intros]: "gives P m1 \<Longrightarrow> gives P m2 \<Longrightarrow> gives P (if b then m1 else m2)"
  by simp

fun retry_result :: "step_result \<Rightarrow> bool" where
  "retry_result Again = True"
| "retry_result (Finished st r d) = (st \<in> {Deferred, Failed} \<and> r \<noteq> None \<and> d = None)"

lemma gives_final [gives_intros]:
  "gives retry_result (deferred r)" "gives retry_result (failed r)" "gives retry_result (give Again)"
  by (simp_all add: gives_def deferred_def failed_def give_def)

lemma gives_recover: "gives retry_result (recover_from rt t c)"
  unfolding recover_from_def pause_def resume_def Let_def
  by (auto intro!: gives_intros split: prod.split)

definition observed_result :: "hashing \<Rightarrow> clock_reader \<Rightarrow> string \<Rightarrow> 'e source_task \<Rightarrow> step_result \<Rightarrow> bool" where
  "observed_result h clk now t x \<longleftrightarrow>
     (case x of
        Finished Success r d \<Rightarrow>
          r = None \<and> (\<exists>data. d = Some data
            \<and> validate_observation h clk now (tk_source t) (tk_selection t) (tk_resources t) (VDict data) = Inr data)
      | _ \<Rightarrow> retry_result x)"

lemma validate_observation_again:
  assumes "validate_observation h clk now source selection refs v = Inr data"
  shows "validate_observation h clk now source selection refs (VDict data) = Inr data"
proof -
  have "v = VDict data"
    using assms by (auto simp: validate_observation_def validate_snapshot_def Let_def)
  with assms show ?thesis by simp
qed

lemma observe_Inr:
  assumes "observe h clk now t x = Inr data"
  shows "validate_observation h clk now (tk_source t) (tk_selection t) (tk_resources t) (VDict data) = Inr data"
  using assms validate_observation_again
  by (auto simp: observe_def split: outcome.splits option.splits)

lemma attempt_Inr:
  assumes "attempt h clk now rt t s = (Inr data, s')"
  shows "validate_observation h clk now (tk_source t) (tk_selection t) (tk_resources t) (VDict data) = Inr data"
  using assms observe_Inr by (auto simp: attempt_def sbind_Inr step_defs split: prod.splits)

lemma retry_observed: "retry_result x \<Longrightarrow> observed_result h clk now t x"
  by (cases x) (auto simp: observed_result_def split: status.splits)

lemma gives_round: "gives (observed_result h clk now t) (one_round h clk now rt t)"
proof -
  have recovered: "observed_result h clk now t x" if "recover_from rt t c s = (Inr x, s')" for c s x s'
    using that gives_recover retry_observed unfolding gives_def by blast
  show ?thesis
    unfolding gives_def
  proof (intro allI impI)
    fix s x s'
    assume "one_round h clk now rt t s = (Inr x, s')"
    then obtain s2 where run: "(case attempt h clk now rt t s2 of
        (Inr data, s') \<Rightarrow> (Inr (Finished Success None (Some data)), s')
      | (Inl e, s') \<Rightarrow> recover_from rt t (classify_error (tk_source t) (tk_policy t) e) s') = (Inr x, s')"
      by (auto simp: one_round_def sbind_Inr)
    obtain r3 s3 where tried: "attempt h clk now rt t s2 = (r3, s3)" by fastforce
    show "observed_result h clk now t x"
    proof (cases r3)
      case (Inl e)
      with run tried recovered show ?thesis by simp
    next
      case (Inr data)
      with run tried attempt_Inr show ?thesis by (auto simp: observed_result_def)
    qed
  qed
qed

lemma gives_loop: "gives (\<lambda>x. observed_result h clk now t x \<and> x \<noteq> Again) (attempt_loop h clk now rt t n)"
proof (induction n)
  case 0
  then show ?case by (auto simp: gives_def deferred_def give_def observed_result_def)
next
  case (Suc n)
  show ?case
    unfolding gives_def
  proof (intro allI impI)
    fix s x s'
    assume "attempt_loop h clk now rt t (Suc n) s = (Inr x, s')"
    then obtain y s1 where "one_round h clk now rt t s = (Inr y, s1)"
      and rest: "(case y of Again \<Rightarrow> attempt_loop h clk now rt t n | _ \<Rightarrow> give y) s1 = (Inr x, s')"
      by (auto simp: sbind_Inr)
    then have "observed_result h clk now t y" using gives_round unfolding gives_def by blast
    with rest Suc show "observed_result h clk now t x \<and> x \<noteq> Again"
      unfolding gives_def by (cases y) (auto simp: give_def)
  qed
qed

subsection \<open>The result of a source\<close>

definition counters_ok :: "execution_policy \<Rightarrow> 'e budget \<Rightarrow> bool" where
  "counters_ok p s \<longleftrightarrow> budget_ok p s \<and> 0 \<le> bg_attempts s \<and> bg_attempts s \<le> pl_max_attempts p"

lemma safe_selection_same: "safe_selection source (VDict d) = Inr e \<Longrightarrow> e = d"
  by (auto simp: safe_selection_def)

lemma planned_resources_same: "planned_resources source scope refs = Inr rs \<Longrightarrow> rs = refs"
  by (auto simp: planned_resources_def Let_def)

lemma make_result_final:
  assumes "check_task t = Inr ()" and "counters_ok (tk_policy t) s" and "st \<in> {Deferred, Failed}"
  shows "make_result h clk now (result_of t s st (Some r) None) = Inr (result_of t s st (Some r) None)"
  using assms safe_selection_same planned_resources_same
  by (fastforce simp: check_task_def make_result_def result_of_def check_counters_def positive_result_def
        counters_ok_def budget_ok_def)

lemma make_result_success:
  assumes "check_task t = Inr ()" and "counters_ok (tk_policy t) s"
    and "set (tk_resources t) \<subseteq> set (pl_resources (tk_policy t))"
    and "validate_observation h clk now (tk_source t) (tk_selection t) (tk_resources t) (VDict data) = Inr data"
  shows "make_result h clk now (result_of t s Success None (Some data)) = Inr (result_of t s Success None (Some data))"
proof -
  from assms(1) obtain scope refs where "safe_selection (tk_source t) (VDict (tk_selection t)) = Inr scope"
    "planned_resources (tk_source t) scope (tk_resources t) = Inr refs"
    by (auto simp: check_task_def)
  with safe_selection_same planned_resources_same
  have "safe_selection (tk_source t) (VDict (tk_selection t)) = Inr (tk_selection t)"
    "planned_resources (tk_source t) (tk_selection t) (tk_resources t) = Inr (tk_resources t)" by metis+
  with assms(2-4) show ?thesis
    by (simp add: make_result_def result_of_def check_counters_def positive_result_def counters_ok_def budget_ok_def)
qed

text \<open>A result published for a task: counted within its policy, with a validated snapshot exactly on success.\<close>

definition faithful_result :: "hashing \<Rightarrow> clock_reader \<Rightarrow> string \<Rightarrow> 'e source_task \<Rightarrow> source_result \<Rightarrow> bool" where
  "faithful_result h clk now t r \<longleftrightarrow>
     rs_source r = tk_source t \<and> rs_selection r = tk_selection t \<and> rs_resources r = tk_resources t \<and> rs_policy r = tk_policy t
     \<and> 0 \<le> rs_attempts r \<and> rs_attempts r \<le> pl_max_attempts (tk_policy t)
     \<and> 0 \<le> rs_requests r \<and> rs_requests r \<le> pl_max_requests (tk_policy t)
     \<and> 0 \<le> rs_wait r \<and> rs_wait r \<le> rs_elapsed r
     \<and> (if rs_status r = Success
        then rs_complete r \<and> rs_reason r = None \<and> rs_elapsed r < seconds (pl_total (tk_policy t))
             \<and> set (tk_resources t) \<subseteq> set (pl_resources (tk_policy t))
             \<and> (case rs_snapshot r of
                  Some (VDict data) \<Rightarrow>
                    validate_observation h clk now (tk_source t) (tk_selection t) (tk_resources t) (VDict data) = Inr data
                | _ \<Rightarrow> False)
        else rs_status r \<in> {Deferred, Failed} \<and> \<not> rs_complete r \<and> rs_reason r \<noteq> None \<and> rs_snapshot r = None)"

lemma finish_final:
  assumes "check_task t = Inr ()" and "counters_ok (tk_policy t) s" and "st \<in> {Deferred, Failed}"
  shows "\<exists>x. finish_source h clk now rt t st (Some r) None s = (Inr x, s) \<and> faithful_result h clk now t x"
  using make_result_final [OF assms] assms(2,3)
  by (auto simp: finish_source_def step_defs faithful_result_def result_of_def counters_ok_def budget_ok_def)

lemma finish_success:
  assumes "check_task t = Inr ()" and "counters_ok (tk_policy t) s"
    and "set (tk_resources t) \<subseteq> set (pl_resources (tk_policy t))"
    and "validate_observation h clk now (tk_source t) (tk_selection t) (tk_resources t) (VDict data) = Inr data"
    and "finish_source h clk now rt t Success None (Some data) s = (r, s')"
  shows "case r of Inr x \<Rightarrow> faithful_result h clk now t x
         | Inl e \<Rightarrow> (\<exists>q. e = Execution_Error q) \<and> counters_ok (tk_policy t) s'"
proof -
  obtain r1 s1 where time: "check_time rt (tk_policy t) s = (r1, s1)" by fastforce
  have ok: "budget_ok (tk_policy t) s1 \<and> bg_attempts s1 = bg_attempts s"
    using budget_moveD [OF kept_check_time [of "tk_policy t"] time] assms(2) by (simp add: budget_step_def counters_ok_def)
  have "finish_source h clk now rt t Success None (Some data) s = (case r1 of Inl e \<Rightarrow> (Inl e, s1)
      | Inr _ \<Rightarrow> (Inr ((result_of t s Success None (Some data))\<lparr>rs_elapsed := bg_elapsed s1\<rparr>), s1))"
    using make_result_success [OF assms(1-4)] time
    by (cases r1) (simp_all add: finish_source_def sbind_def step_defs)
  with assms(5) have run: "(r, s') = (case r1 of Inl e \<Rightarrow> (Inl e, s1)
      | Inr _ \<Rightarrow> (Inr ((result_of t s Success None (Some data))\<lparr>rs_elapsed := bg_elapsed s1\<rparr>), s1))" by simp
  show ?thesis
  proof (cases r1)
    case (Inl e)
    have "\<exists>q. e = Execution_Error q" using tame_check_time time unfolding Inl by (rule tameD)
    with run Inl ok assms(2) show ?thesis by (simp add: counters_ok_def)
  next
    case (Inr left)
    from time have "bg_elapsed s1 < seconds (pl_total (tk_policy t)) \<and> bg_waited s \<le> bg_elapsed s1 \<and> bg_requests s1 = bg_requests s"
      using assms(2) Inr
      by (cases rule: check_time_run) (auto simp: counters_ok_def budget_ok_def split: if_splits)
    with run Inr ok assms(2-4) show ?thesis
      by (auto simp: faithful_result_def result_of_def counters_ok_def budget_ok_def)
  qed
qed

lemma body_run:
  assumes "check_task t = Inr ()" and "budget_ok (tk_policy t) s" "bg_attempts s = 0" and "0 \<le> pl_max_attempts (tk_policy t)"
    and "execution_body h clk now rt t s = (r, s')"
  shows "case r of Inr x \<Rightarrow> faithful_result h clk now t x
         | Inl e \<Rightarrow> (\<exists>q. e = Execution_Error q) \<and> counters_ok (tk_policy t) s'"
proof (cases "set (tk_resources t) \<subseteq> set (pl_resources (tk_policy t))")
  case False
  have "counters_ok (tk_policy t) s" using assms(2-4) by (simp add: counters_ok_def)
  then obtain x where "finish_source h clk now rt t Failed (Some Selection) None s = (Inr x, s)" "faithful_result h clk now t x"
    using finish_final [OF assms(1), of s Failed] by blast
  moreover have "finish_source h clk now rt t Failed (Some Selection) None s = (r, s')"
    using False assms(5) unfolding execution_body_def by (simp only: if_False)
  ultimately show ?thesis by simp
next
  case allowed: True
  obtain r1 s1 where loop: "attempt_loop h clk now rt t (nat (pl_max_attempts (tk_policy t))) s = (r1, s1)" by fastforce
  then have ok: "counters_ok (tk_policy t) s1"
    using attempt_loop_run [OF loop assms(2)] assms(3,4) by (simp add: counters_ok_def)
  show ?thesis
  proof (cases r1)
    case (Inl e)
    have "\<exists>q. e = Execution_Error q" using tame_loop loop unfolding Inl by (rule tameD)
    with Inl loop ok allowed assms(5) show ?thesis by (auto simp: execution_body_def)
  next
    case (Inr x)
    with loop have good: "observed_result h clk now t x" "x \<noteq> Again"
      using gives_loop unfolding gives_def by blast+
    then obtain st reason d where x: "x = Finished st reason d" by (cases x) auto
    with loop Inr allowed assms(5) have run: "finish_source h clk now rt t st reason d s1 = (r, s')"
      by (simp add: execution_body_def)
    show ?thesis
    proof (cases "st = Success")
      case True
      with good x obtain data where "reason = None" "d = Some data"
        "validate_observation h clk now (tk_source t) (tk_selection t) (tk_resources t) (VDict data) = Inr data"
        by (auto simp: observed_result_def)
      with run True finish_success [OF assms(1) ok allowed] show ?thesis by blast
    next
      case False
      with good x obtain q where final: "st \<in> {Deferred, Failed}" "d = None" "reason = Some q"
        by (auto simp: observed_result_def split: status.splits)
      then obtain y where "finish_source h clk now rt t st (Some q) None s1 = (Inr y, s1)" "faithful_result h clk now t y"
        using finish_final [OF assms(1) ok] by blast
      with run final show ?thesis by auto
    qed
  qed
qed

lemma stopped_run:
  assumes "check_task t = Inr ()" and "counters_ok (tk_policy t) s"
  shows "\<exists>x s'. stopped h clk now rt t q measured s = (Inr x, s') \<and> faithful_result h clk now t x"
proof -
  let ?s = "if measured \<and> q \<noteq> Time_Budget then snd (sample rt (tk_policy t) s) else s"
  have "counters_ok (tk_policy t) ?s"
    using kept_sample [of "tk_policy t" rt "tk_policy t"] assms(2)
    by (simp add: moves_def budget_step_def counters_ok_def)
  moreover have "stop_status q \<in> {Deferred, Failed}" by (simp add: stop_status_def)
  ultimately obtain x where "finish_source h clk now rt t (stop_status q) (Some q) None ?s = (Inr x, ?s)"
    "faithful_result h clk now t x"
    using finish_final [OF assms(1)] by blast
  then show ?thesis unfolding stopped_def by blast
qed

lemma policy_limits:
  "make_policy mr ma ts md bo refs sts tr = Inr p \<Longrightarrow> 0 \<le> pl_max_requests p \<and> 1 \<le> pl_max_attempts p"
  by (auto simp: make_policy_def)

lemma execution_reports:
  assumes "make_task t0 = Inr t"
    and "make_policy mr ma ts md bo refs sts tr = Inr (tk_policy t)"
  shows "case execute_source h clk now rt t env of (Inr r, _) \<Rightarrow> faithful_result h clk now t r | (Inl _, _) \<Rightarrow> False"
proof -
  have task: "check_task t = Inr ()" using assms(1) by (auto simp: make_task_def)
  note limits = policy_limits [OF assms(2)]
  have fresh: "budget_ok (tk_policy t) (fresh_budget env)"
    using limits by (simp add: fresh_budget_def budget_ok_def)
  obtain r1 s1 where start: "start_budget rt (fresh_budget env) = (r1, s1)" by fastforce
  have "budget_ok (tk_policy t) s1 \<and> bg_attempts s1 = 0"
    using start fresh
    by (auto simp: start_budget_def fresh_budget_def budget_ok_def sbind_def put_def dest!: read_clock_run
        split: prod.splits sum.splits)
  then have ok: "budget_ok (tk_policy t) s1" "bg_attempts s1 = 0" "counters_ok (tk_policy t) s1"
    using limits by (auto simp: counters_ok_def)
  show ?thesis
  proof (cases r1)
    case (Inl e)
    then obtain q where "e = Execution_Error q" using tameD [OF tame_start] start by blast
    with Inl start show ?thesis
      using stopped_run [OF task ok(3), of h clk now rt q False] by (auto simp: execute_source_def)
  next
    case (Inr u)
    obtain r2 s2 where body: "execution_body h clk now rt t s1 = (r2, s2)" by fastforce
    note run = body_run [OF task ok(1,2) _ body]
    show ?thesis
    proof (cases r2)
      case (Inl e)
      with run limits obtain q where "e = Execution_Error q" "counters_ok (tk_policy t) s2" by auto
      with Inl Inr start body show ?thesis
        using stopped_run [OF task, of s2 h clk now rt q True] by (auto simp: execute_source_def)
    next
      case (Inr x)
      with \<open>r1 = Inr u\<close> start body run limits show ?thesis by (simp add: execute_source_def)
    qed
  qed
qed

text \<open>
  C27. A planned task always ends in a result: whatever the clocks, the wait, the jitter and the operation do (raise,
  go backwards, answer nonsense), \<open>execute_source\<close> returns, no exception leaves it, the result counts attempts,
  requests and time within the policy, and it carries a snapshot exactly when it is a success: then the snapshot is
  the validated observation of the whole selection, every resource is authorised and the time budget is not spent.
\<close>

theorem execution_always_reports:
  assumes "make_task t0 = Inr t"
    and "make_policy mr ma ts md bo refs sts tr = Inr (tk_policy t)"
  shows "case execute_source h clk now rt t env of (Inr r, _) \<Rightarrow> faithful_result h clk now t r | (Inl _, _) \<Rightarrow> False"
  using assms by (rule execution_reports)

subsection \<open>Delays\<close>

lemma backoff_loop_power:
  assumes "0 \<le> delay" and "delay \<le> limit"
  shows "backoff_loop limit n delay = min (delay * 2 ^ n) limit"
  using assms
proof (induction n arbitrary: delay)
  case 0
  then show ?case by simp
next
  case (Suc n)
  show ?case
  proof (cases "delay = 0 \<or> limit / 2 \<le> delay")
    case True
    show ?thesis
    proof (cases "delay = 0")
      case True
      with Suc.prems show ?thesis by simp
    next
      case False
      with True have "limit \<le> delay * 2" by (simp add: field_simps)
      also have "\<dots> \<le> delay * 2 * 2 ^ n" using Suc.prems by (simp add: mult_le_cancel_left1)
      finally show ?thesis using True False by (simp add: min_def mult.assoc)
    qed
  next
    case False
    with Suc.IH [of "delay * 2"] Suc.prems show ?thesis
      by (simp add: mult.assoc)
  qed
qed

text \<open>
  The delay before the next attempt doubles from the configured one and saturates: the loop, which never computes
  a power, returns \<open>min (backoff * 2 ^ (attempt - 1)) max_delay\<close> for every policy the constructor accepts.
\<close>

theorem backoff_doubles_and_saturates:
  assumes "make_policy mr ma ts md bo refs sts tr = Inr p"
  shows "backoff p n = min (seconds (pl_backoff p) * 2 ^ nat (n - 1)) (seconds (pl_max_delay p))"
proof -
  have "0 \<le> seconds (pl_backoff p)" "seconds (pl_backoff p) \<le> seconds (pl_max_delay p)"
    using assms by (auto simp: make_policy_def number_def seconds_def split: sum.splits option.splits if_splits)
  then show ?thesis by (simp add: backoff_def backoff_loop_power)
qed

subsection \<open>What is sent and waited for\<close>

text \<open>
  An environment that keeps a record of the events: a callback adds the resource and the time it was given, the wait
  adds its delay, and nothing else adds anything.
\<close>

datatype event = Dispatched resource_ref rat | Waited rat

definition dispatched :: "event \<Rightarrow> bool" where "dispatched ev = (case ev of Dispatched _ _ \<Rightarrow> True | Waited _ \<Rightarrow> False)"

primrec recorded_operation :: "('e \<Rightarrow> event list) \<Rightarrow> 'e operation \<Rightarrow> bool" where
  "recorded_operation trail (Answered x) = True"
| "recorded_operation trail (Request ref callback k) =
     ((\<forall>left e. trail (snd (callback left e)) = trail e @ [Dispatched ref left]) \<and> (\<forall>reply. recorded_operation trail (k reply)))"

definition recorded_runtime :: "('e \<Rightarrow> event list) \<Rightarrow> 'e runtime \<Rightarrow> bool" where
  "recorded_runtime trail rt \<longleftrightarrow>
     (\<forall>e. trail (snd (rt_monotonic rt e)) = trail e \<and> trail (snd (rt_wall_time rt e)) = trail e)
     \<and> (\<forall>d e. trail (snd (rt_sleep rt d e)) = trail e @ [Waited d] \<and> trail (snd (rt_jitter rt d e)) = trail e)"

fun permitted :: "'e source_task \<Rightarrow> event \<Rightarrow> bool" where
  "permitted t (Dispatched ref left) =
     (ref \<in> set (tk_resources t) \<and> ref \<in> set (pl_resources (tk_policy t)) \<and> 0 < left \<and> left \<le> seconds (pl_total (tk_policy t)))"
| "permitted t (Waited d) =
     (0 < d \<and> d < seconds (pl_total (tk_policy t)) \<and> d \<le> seconds (pl_max_delay (tk_policy t)))"

definition accounted :: "('e \<Rightarrow> event list) \<Rightarrow> 'e source_task \<Rightarrow> event list \<Rightarrow> 'e budget \<Rightarrow> bool" where
  "accounted trail t before s \<longleftrightarrow>
     bg_start s \<le> bg_last s \<and> bg_elapsed s = bg_last s - bg_start s
     \<and> (\<exists>new. trail (bg_env s) = before @ new \<and> bg_requests s = int (length (filter dispatched new)) \<and> list_all (permitted t) new)"

definition account_step :: "('e \<Rightarrow> event list) \<Rightarrow> 'e source_task \<Rightarrow> event list \<Rightarrow> 'e budget \<Rightarrow> 'e budget \<Rightarrow> bool" where
  "account_step trail t before s s' \<longleftrightarrow> (accounted trail t before s \<longrightarrow> accounted trail t before s')"

interpretation noted: budget_order "account_step trail t before" for trail t before
  by unfold_locales (auto simp: account_step_def)

named_theorems noted_intros \<open>steps that keep the record of events\<close>

lemmas noted_still [noted_intros] = noted.moves_still noted.moves_sbind

lemma accounted_env: "trail e = trail (bg_env s) \<Longrightarrow> accounted trail t before s \<Longrightarrow> accounted trail t before (s\<lparr>bg_env := e\<rparr>)"
  by (simp add: accounted_def)

lemma noted_sample [noted_intros]:
  assumes "recorded_runtime trail rt"
  shows "moves (account_step trail t before) (sample rt p)"
  unfolding moves_def
proof
  fix s :: "'a budget"
  obtain r s' where run: "sample rt p s = (r, s')" by fastforce
  then show "account_step trail t before s (snd (sample rt p s))"
    using assms by (cases rule: sample_run) (auto simp: run account_step_def accounted_def recorded_runtime_def)
qed

lemma noted_check_time [noted_intros]:
  "recorded_runtime trail rt \<Longrightarrow> moves (account_step trail t before) (check_time rt p)"
  unfolding check_time_def by (intro noted_intros)

lemma noted_env [noted_intros]:
  "(\<And>e. trail (snd (f e)) = trail e) \<Longrightarrow> moves (account_step trail t before) (in_env f)"
  by (auto simp: moves_def account_step_def in_env_def accounted_def split: prod.splits) (metis snd_conv)+

lemma noted_put [noted_intros]:
  "moves (account_step trail t before) (put (\<lambda>s. s\<lparr>bg_error := x\<rparr>))" "moves (account_step trail t before) (add_wait b)"
  "moves (account_step trail t before) (put (\<lambda>s. s\<lparr>bg_attempts := bg_attempts s + 1\<rparr>))"
  by (auto simp: moves_def account_step_def accounted_def put_def add_wait_def)

lemma noted_final [noted_intros]: "moves (account_step trail t before) (deferred r)" "moves (account_step trail t before) (failed r)"
  by (simp_all add: deferred_def failed_def noted_intros)

lemma noted_request:
  assumes rt: "recorded_runtime trail rt" and cb: "\<And>left e. trail (snd (callback left e)) = trail e @ [Dispatched ref left]"
  shows "moves (account_step trail t before) (request rt t b ref callback)"
  unfolding moves_def
proof
  fix s :: "'a budget"
  let ?R = "account_step trail t before"
  have time: "?R s1 s2" if "check_time rt (tk_policy t) s1 = (r1, s2)" for r1 s1 s2
    using noted_check_time [OF rt] that by (rule budget_moveD)
  obtain r s' where run: "request rt t b ref callback s = (r, s')" by fastforce
  then have "?R s s'"
  proof (cases rule: request_run)
    case refused
    then show ?thesis by (simp add: noted.stays)
  next
    case (unsent r1)
    then show ?thesis by (rule time)
  next
    case (sent left s1 reply e)
    let ?s2 = "s1\<lparr>bg_requests := bg_requests s1 + 1, bg_env := e\<rparr>"
    have "?R s ?s2"
      unfolding account_step_def
    proof
      assume acc: "accounted trail t before s"
      from sent(4) have bounds: "0 < left \<and> (accounted trail t before s \<longrightarrow> left \<le> seconds (pl_total (tk_policy t)))"
        by (cases rule: check_time_run) (auto simp: accounted_def split: if_splits)
      from acc time [OF sent(4)] obtain new where new: "trail (bg_env s1) = before @ new"
        "bg_requests s1 = int (length (filter dispatched new))" "list_all (permitted t) new"
        "bg_start s1 \<le> bg_last s1" "bg_elapsed s1 = bg_last s1 - bg_start s1"
        by (auto simp: account_step_def accounted_def)
      have "trail e = before @ (new @ [Dispatched ref left])"
        using cb [of left "bg_env s1"] sent(6) new(1) by simp
      with new bounds acc sent(2,3) show "accounted trail t before ?s2"
        unfolding accounted_def by (intro conjI exI [of _ "new @ [Dispatched ref left]"]) (auto simp: dispatched_def)
    qed
    moreover have "?R ?s2 s'"
      using sent(7) time by (auto simp: noted.stays)
    ultimately show ?thesis by (blast intro: noted.chains)
  qed
  with run show "?R s (snd (request rt t b ref callback s))" by simp
qed

lemma noted_operation:
  assumes "recorded_runtime trail rt" and "recorded_operation trail oper"
  shows "account_step trail t before s (snd (run_operation rt t oper s))"
  using assms(2)
proof (induction oper arbitrary: s)
  case (Answered x)
  then show ?case by (simp add: noted.stays)
next
  case (Request ref callback k)
  obtain reply s1 where run: "request rt t True ref callback s = (reply, s1)" by fastforce
  have "trail (snd (callback left e)) = trail e @ [Dispatched ref left]" for left e
    using Request.prems by simp
  then have "account_step trail t before s s1" by (rule budget_moveD [OF noted_request [OF assms(1)] run])
  moreover have "account_step trail t before s1 (snd (run_operation rt t (k reply) s1))"
    using Request.prems by (intro Request.IH) auto
  ultimately show ?case by (simp add: run noted.chains)
qed

lemma noted_attempt:
  assumes rt: "recorded_runtime trail rt" and "\<And>e. recorded_operation trail (tk_operation t e)"
  shows "moves (account_step trail t before) (attempt h clk now rt t)"
  unfolding moves_def
proof
  fix s :: "'a budget"
  obtain x s1 where run: "run_operation rt t (tk_operation t (bg_env s)) s = (x, s1)" by fastforce
  let ?rest = "sbind (pure (observe h clk now t x)) (\<lambda>data. sbind (check_time rt (tk_policy t)) (\<lambda>_. give data))"
  have "account_step trail t before s s1" using noted_operation [OF assms] by (metis run snd_conv)
  moreover have "moves (account_step trail t before) ?rest" using rt by (intro noted_intros)
  then have "account_step trail t before s1 (snd (?rest s1))" by (simp add: moves_def)
  ultimately show "account_step trail t before s (snd (attempt h clk now rt t s))"
    by (auto simp: attempt_def run intro: noted.chains)
qed

lemma noted_wait_for:
  assumes rt: "recorded_runtime trail rt" and "delay = 0 \<or> permitted t (Waited delay)"
  shows "moves (account_step trail t before) (wait_for rt p since delay)"
proof (cases "delay = 0")
  case True
  then show ?thesis by (simp add: wait_for_def noted_intros)
next
  case False
  have "accounted trail t before (s\<lparr>bg_env := snd (rt_sleep rt delay (bg_env s))\<rparr>)"
    if acc: "accounted trail t before s" for s :: "'a budget"
  proof -
    from acc obtain new where new: "trail (bg_env s) = before @ new"
      "bg_requests s = int (length (filter dispatched new))" "list_all (permitted t) new"
      "bg_start s \<le> bg_last s" "bg_elapsed s = bg_last s - bg_start s"
      by (auto simp: accounted_def)
    with rt False assms(2) show ?thesis
      unfolding accounted_def
      by (intro conjI exI [of _ "new @ [Waited delay]"]) (auto simp: recorded_runtime_def dispatched_def)
  qed
  then have slept: "moves (account_step trail t before) (in_env (rt_sleep rt delay))"
    by (auto simp: moves_def account_step_def in_env_def split: prod.splits) (metis snd_conv)
  show ?thesis
    unfolding wait_for_def using False rt by (auto intro!: noted_intros slept)
qed

lemma noted_resume:
  assumes "recorded_runtime trail rt" and "delay = 0 \<or> permitted t (Waited delay)"
  shows "moves (account_step trail t before) (resume rt p delay)"
  unfolding resume_def using assms by (auto intro!: noted_intros noted_wait_for)

lemma number_nonneg: "number positive w = Inr x \<Longrightarrow> 0 \<le> x"
  by (auto simp: number_def split: sum.splits option.splits if_splits)

lemma jittered_Inr:
  assumes "jittered rt base s = (Inr j, s')"
  shows "0 \<le> j"
proof -
  obtain v e where "rt_jitter rt base (bg_env s) = (v, e)" by fastforce
  then obtain s1 where "in_env (rt_jitter rt base) s = (Inr v, s1)" by (simp add: in_env_def)
  with assms have run: "(case v of None \<Rightarrow> throw Runtime
     | Some w \<Rightarrow> (case number False w of Inr x \<Rightarrow> give x | Inl _ \<Rightarrow> throw Runtime)) s1 = (Inr j, s')"
    by (simp add: jittered_def)
  then obtain w where w: "v = Some w" by (cases v) (auto simp: throw_def)
  with run have "number False w = Inr j" by (cases "number False w") (auto simp: throw_def give_def)
  then show ?thesis by (rule number_nonneg)
qed

lemma noted_jittered [noted_intros]: "recorded_runtime trail rt \<Longrightarrow> moves (account_step trail t before) (jittered rt base)"
  unfolding jittered_def
  by (auto intro!: noted_intros simp: recorded_runtime_def split: option.split sum.split)

lemma policy_delays:
  assumes "make_policy mr ma ts md bo refs sts tr = Inr p"
  shows "0 \<le> seconds (pl_backoff p) \<and> seconds (pl_backoff p) \<le> seconds (pl_max_delay p)"
  using assms by (auto simp: make_policy_def number_def seconds_def split: sum.splits option.splits if_splits)

lemma backoff_bounds:
  assumes "make_policy mr ma ts md bo refs sts tr = Inr p"
  shows "0 \<le> backoff p n \<and> backoff p n \<le> seconds (pl_max_delay p)"
  using policy_delays [OF assms] by (simp add: backoff_def backoff_loop_power)

lemma noted_pause:
  assumes rt: "recorded_runtime trail rt" and policy: "make_policy mr ma ts md bo refs sts tr = Inr (tk_policy t)"
    and server: "server \<le> seconds (pl_max_delay (tk_policy t))"
  shows "moves (account_step trail t before) (pause rt t server)"
  unfolding moves_def
proof
  fix s :: "'a budget"
  let ?R = "account_step trail t before" and ?p = "tk_policy t"
  let ?base = "backoff ?p (bg_attempts s)"
  obtain r1 s1 where j: "jittered rt ?base s = (r1, s1)" by fastforce
  have R1: "?R s s1" using noted_jittered [OF rt] j by (rule budget_moveD)
  obtain r2 s2 where time: "check_time rt ?p s1 = (r2, s2)" by fastforce
  have R2: "?R s1 s2" using noted_check_time [OF rt] time by (rule budget_moveD)
  show "?R s (snd (pause rt t server s))"
  proof (cases r1)
    case (Inl e)
    with j R1 show ?thesis by (simp add: pause_def look_def Let_def sbind_def)
  next
    case jit: (Inr jitter)
    show ?thesis
    proof (cases r2)
      case (Inl e)
      with jit j time R1 R2 show ?thesis
        by (auto simp: pause_def look_def Let_def sbind_def intro: noted.chains)
    next
      case (Inr left)
      let ?d = "max server (?base + min jitter (seconds (pl_max_delay ?p) - ?base))"
      have run: "pause rt t server s =
          (if left \<le> server then deferred Retry_After_Budget
           else if left \<le> ?d then deferred Time_Budget else resume rt ?p ?d) s2"
        using jit j Inr time by (simp add: pause_def look_def Let_def sbind_def)
      have "?R s2 (snd (pause rt t server s))" if "accounted trail t before s"
      proof -
        from time Inr have "accounted trail t before s1 \<longrightarrow> left \<le> seconds (pl_total ?p)"
          by (cases rule: check_time_run) (auto simp: accounted_def split: if_splits)
        with that R1 have "left \<le> seconds (pl_total ?p)" by (simp add: account_step_def)
        moreover have "0 \<le> ?d \<and> ?d \<le> seconds (pl_max_delay ?p)"
          using backoff_bounds [OF policy, of "bg_attempts s"] jittered_Inr j jit server by fastforce
        ultimately have "left \<le> ?d \<or> ?d = 0 \<or> permitted t (Waited ?d)" by auto
        then have "moves ?R (if left \<le> server then deferred Retry_After_Budget
           else if left \<le> ?d then deferred Time_Budget else resume rt ?p ?d)"
          using noted_resume [OF rt, of ?d t] by (auto intro!: noted_intros)
        then show ?thesis unfolding run by (simp add: moves_def)
      qed
      with R1 R2 show ?thesis by (meson account_step_def)
    qed
  qed
qed

lemma noted_server_delay [noted_intros]:
  "recorded_runtime trail rt \<Longrightarrow> moves (account_step trail t before) (server_delay rt info)"
  unfolding server_delay_def
  by (cases info) (auto intro!: noted_intros simp: recorded_runtime_def split: option.split)

lemma noted_recover:
  assumes "recorded_runtime trail rt" and "make_policy mr ma ts md bo refs sts tr = Inr (tk_policy t)"
  shows "moves (account_step trail t before) (recover_from rt t c)"
  unfolding recover_from_def Let_def
  using assms by (auto intro!: noted_intros noted_pause split: prod.split)

lemma noted_round:
  assumes "recorded_runtime trail rt" and "make_policy mr ma ts md bo refs sts tr = Inr (tk_policy t)"
    and "\<And>e. recorded_operation trail (tk_operation t e)"
  shows "moves (account_step trail t before) (one_round h clk now rt t)"
proof -
  let ?R = "account_step trail t before"
  have "?R s (snd (case attempt h clk now rt t s of
      (Inr data, s') \<Rightarrow> (Inr (Finished Success None (Some data)), s')
    | (Inl e, s') \<Rightarrow> recover_from rt t (classify_error (tk_source t) (tk_policy t) e) s'))" for s
  proof -
    obtain r1 s1 where tried: "attempt h clk now rt t s = (r1, s1)" by fastforce
    have "?R s s1" using noted_attempt [OF assms(1,3)] tried by (rule budget_moveD)
    moreover have "?R s1 (snd (recover_from rt t c s1))" for c
      using noted_recover [OF assms(1,2)] by (simp add: moves_def)
    ultimately show ?thesis using tried by (cases r1) (auto intro: noted.chains)
  qed
  then have "moves ?R (\<lambda>s. case attempt h clk now rt t s of
      (Inr data, s') \<Rightarrow> (Inr (Finished Success None (Some data)), s')
    | (Inl e, s') \<Rightarrow> recover_from rt t (classify_error (tk_source t) (tk_policy t) e) s')"
    unfolding moves_def by blast
  with assms(1) show ?thesis
    unfolding one_round_def by (intro noted_intros)
qed

lemma noted_loop:
  assumes "recorded_runtime trail rt" and "make_policy mr ma ts md bo refs sts tr = Inr (tk_policy t)"
    and "\<And>e. recorded_operation trail (tk_operation t e)"
  shows "moves (account_step trail t before) (attempt_loop h clk now rt t n)"
proof (induction n)
  case 0
  then show ?case by (simp add: noted_intros)
next
  case (Suc n)
  then show ?case using noted_round [OF assms] by (auto intro!: noted_intros split: step_result.split)
qed

lemma finish_requests:
  assumes "finish_source h clk now rt t st reason d s = (Inr x, s')"
  shows "rs_requests x = bg_requests s'"
proof -
  have same: "bg_requests s2 = bg_requests s1" if "check_time rt (tk_policy t) s1 = (r, s2)" for r s1 s2
    using that by (cases rule: check_time_run) auto
  obtain y where made: "make_result h clk now (result_of t s st reason d) = Inr y"
    and rest: "(if st = Success \<or> st = Unchanged then
       sbind (check_time rt (tk_policy t)) (\<lambda>_.
       sbind (look bg_elapsed) (\<lambda>elapsed. give (y\<lparr>rs_elapsed := elapsed\<rparr>)))
     else give y) s = (Inr x, s')"
    using assms by (auto simp: finish_source_def sbind_Inr look_def pure_def)
  have y: "rs_requests y = bg_requests s"
    using made by (auto simp: make_result_def result_of_def split: if_splits)
  show ?thesis
  proof (cases "st = Success \<or> st = Unchanged")
    case True
    with rest obtain left s1 where "check_time rt (tk_policy t) s = (Inr left, s1)" "x = y\<lparr>rs_elapsed := bg_elapsed s1\<rparr>" "s' = s1"
      by (auto simp: sbind_Inr look_def give_def)
    with same y show ?thesis by simp
  next
    case False
    with rest y show ?thesis by (simp add: give_def)
  qed
qed

lemma body_requests:
  assumes "execution_body h clk now rt t s = (Inr y, s')"
  shows "rs_requests y = bg_requests s'"
proof (cases "set (tk_resources t) \<subseteq> set (pl_resources (tk_policy t))")
  case True
  with assms obtain x s1 where "(case x of Finished st reason d \<Rightarrow> finish_source h clk now rt t st reason d
       | Again \<Rightarrow> finish_source h clk now rt t Deferred (Some Attempt_Budget) None) s1 = (Inr y, s')"
    by (auto simp: execution_body_def sbind_Inr)
  then show ?thesis by (cases x) (auto dest: finish_requests)
next
  case False
  then have "finish_source h clk now rt t Failed (Some Selection) None s = (Inr y, s')"
    using assms unfolding execution_body_def by (simp only: if_False)
  then show ?thesis by (rule finish_requests)
qed

lemma noted_finish [noted_intros]:
  "recorded_runtime trail rt \<Longrightarrow> moves (account_step trail t before) (finish_source h clk now rt t' st reason d)"
  unfolding finish_source_def by (auto intro!: noted_intros)

lemma noted_opening:
  assumes "recorded_runtime trail rt" "start_budget rt (fresh_budget env) = (r1, s1)"
  shows "accounted trail t (trail env) s1"
proof -
  obtain v e where clock: "rt_monotonic rt env = (v, e)" by fastforce
  then have "trail e = trail env" using assms(1) by (metis recorded_runtime_def snd_conv)
  then show ?thesis
    using assms(2) clock
    by (auto simp: start_budget_def read_clock_def in_env_def sbind_def step_defs fresh_budget_def accounted_def
        split: sum.splits prod.splits)
qed

lemma stopped_accounts:
  assumes "recorded_runtime trail rt" "stopped h clk now rt t q measured s = (Inr y, s')" "accounted trail t before s"
  shows "accounted trail t before s' \<and> rs_requests y = bg_requests s'"
proof -
  let ?s = "if measured \<and> q \<noteq> Time_Budget then snd (sample rt (tk_policy t) s) else s"
  have "accounted trail t before ?s"
    using noted_sample [OF assms(1), of t before "tk_policy t"] assms(3) by (simp add: moves_def account_step_def)
  moreover have finished: "finish_source h clk now rt t (stop_status q) (Some q) None ?s = (Inr y, s')"
    using assms(2) by (simp add: stopped_def)
  ultimately show ?thesis
    using budget_moveD [OF noted_finish [OF assms(1)] finished] finish_requests [OF finished] by (simp add: account_step_def)
qed

lemma noted_body:
  assumes "recorded_runtime trail rt" and "make_policy mr ma ts md bo refs sts tr = Inr (tk_policy t)"
    and "\<And>e. recorded_operation trail (tk_operation t e)"
  shows "moves (account_step trail t before) (execution_body h clk now rt t)"
  unfolding execution_body_def using assms(1) noted_loop [OF assms]
  by (auto intro!: noted_intros split: step_result.split)

lemma projected_run:
  assumes "fst m = Inr r" "bg_env (snd m) = env'"
  obtains s where "m = (Inr r, s)" "env' = bg_env s"
  using assms by (cases m) auto

text \<open>The budget that a report is made of, and what the trail says of it.\<close>

lemma execution_accounts:
  assumes "recorded_runtime trail rt" and "make_policy mr ma ts md bo refs sts tr = Inr (tk_policy t)"
    and "\<And>e. recorded_operation trail (tk_operation t e)" and "execute_source h clk now rt t env = (Inr r, env')"
  shows "\<exists>s. env' = bg_env s \<and> accounted trail t (trail env) s \<and> rs_requests r = bg_requests s"
proof -
  obtain r1 s1 where start: "start_budget rt (fresh_budget env) = (r1, s1)" by fastforce
  have acc1: "accounted trail t (trail env) s1" by (rule noted_opening [OF assms(1) start])
  show ?thesis
  proof (cases r1)
    case (Inl e1)
    then obtain q where "e1 = Execution_Error q" using tameD [OF tame_start] start by blast
    with Inl assms(4) start obtain s2 where "stopped h clk now rt t q False s1 = (Inr r, s2)" "env' = bg_env s2"
      by (auto simp: execute_source_def Let_def elim: projected_run)
    with stopped_accounts [OF assms(1) _ acc1] show ?thesis by blast
  next
    case (Inr u)
    obtain r2 s2 where body: "execution_body h clk now rt t s1 = (r2, s2)" by fastforce
    have acc2: "accounted trail t (trail env) s2"
      using budget_moveD [OF noted_body [OF assms(1,2,3)] body] acc1 by (simp add: account_step_def)
    show ?thesis
    proof (cases r2)
      case (Inl e2)
      with assms(4) start Inr body obtain q s3 where "stopped h clk now rt t q True s2 = (Inr r, s3)" "env' = bg_env s3"
        by (auto simp: execute_source_def Let_def split: exc.splits elim: projected_run)
      with stopped_accounts [OF assms(1) _ acc2] show ?thesis by blast
    next
      case out: (Inr y)
      have "rs_requests y = bg_requests s2" using body out by (simp add: body_requests)
      with acc2 out Inr start body assms(4) show ?thesis by (auto simp: execute_source_def)
    qed
  qed
qed

text \<open>
  C28. Nothing goes out beyond the plan: over an environment that records its events, every dispatched request is for a
  resource that the task plans and the policy authorises, with a positive part of the time budget left, the counted
  requests are exactly the dispatched ones and stay within the limit, and every wait is positive, shorter than the
  time budget and at most the delay limit.
\<close>

theorem only_planned_requests_are_sent:
  assumes "make_task t0 = Inr t"
    and "make_policy mr ma ts md bo refs sts tr = Inr (tk_policy t)"
    and "recorded_runtime trail rt" and "\<And>e. recorded_operation trail (tk_operation t e)"
    and "execute_source h clk now rt t env = (Inr r, env')"
  shows "\<exists>new. trail env' = trail env @ new \<and> list_all (permitted t) new
           \<and> rs_requests r = int (length (filter dispatched new)) \<and> rs_requests r \<le> pl_max_requests (tk_policy t)"
proof -
  obtain s where "env' = bg_env s" "accounted trail t (trail env) s" "rs_requests r = bg_requests s"
    using execution_accounts [OF assms(3,2,4,5)] by blast
  moreover have "rs_requests r \<le> pl_max_requests (tk_policy t)"
    using execution_reports [OF assms(1,2), of h clk now rt env] assms(5) by (simp add: faithful_result_def)
  ultimately show ?thesis by (auto simp: accounted_def)
qed

subsection \<open>A task whose provider times out twice\<close>

text \<open>The environment is the list of events, and the clock is its length.\<close>

definition demo_ref :: resource_ref where "demo_ref = \<lparr>rf_source = ''huggingface'', rf_id = ''org/model''\<rparr>"

definition demo_policy :: execution_policy where
  "demo_policy = \<lparr>pl_max_requests = 5, pl_max_attempts = 2, pl_total = VInt 100, pl_max_delay = VInt 1, pl_backoff = VInt 1,
     pl_resources = [demo_ref], pl_statuses = [429], pl_transport = True\<rparr>"

definition demo_operation :: "event list operation" where
  "demo_operation = Request demo_ref (\<lambda>left e. (Inl (Other_Error ''TimeoutError''), e @ [Dispatched demo_ref left]))
     (\<lambda>reply. Answered (case reply of Inl e \<Rightarrow> Threw e | Inr v \<Rightarrow> Observed v (VBool True)))"

definition demo_task :: "event list source_task" where
  "demo_task = \<lparr>tk_source = ''huggingface'', tk_selection = [(''mode'', VStr ''exact_ids''), (''ids'', VList [VStr ''org/model''])],
     tk_resources = [demo_ref], tk_policy = demo_policy, tk_operation = (\<lambda>e. demo_operation), tk_idempotent = True,
     tk_synthetic = False\<rparr>"

definition demo_runtime :: "event list runtime" where
  "demo_runtime = \<lparr>rt_monotonic = (\<lambda>e. (Some (VInt (int (length e))), e)), rt_wall_time = (\<lambda>e. (None, e)),
     rt_sleep = (\<lambda>d e. (True, e @ [Waited d])), rt_jitter = (\<lambda>d e. (Some (VInt 0), e))\<rparr>"

definition demo_hashing :: hashing where "demo_hashing = \<lparr>hs_sha = (\<lambda>s. s), hs_frepr = (\<lambda>r. [])\<rparr>"

definition demo_events :: "event list" where "demo_events = [Dispatched demo_ref 100, Waited 1, Dispatched demo_ref 98]"

definition demo_result :: source_result where
  "demo_result = \<lparr>rs_source = ''huggingface'', rs_selection = tk_selection demo_task, rs_resources = [demo_ref],
     rs_status = Deferred, rs_reason = Some Attempt_Budget, rs_last_error = Some Timeout, rs_attempts = 2, rs_requests = 2,
     rs_elapsed = 3, rs_wait = 1, rs_policy = demo_policy, rs_idempotent = True, rs_synthetic = False, rs_complete = False,
     rs_snapshot = None\<rparr>"

lemma demo_checked: "check_task demo_task = Inr ()"
  by code_simp

lemma demo_accepted: "make_task demo_task = Inr demo_task"
  by (simp add: make_task_def demo_checked)

lemma demo_policy_accepted:
  "make_policy (VInt 5) (VInt 2) (VInt 100) (VInt 1) (VInt 1) [demo_ref] [VInt 429] (VBool True) = Inr (tk_policy demo_task)"
  by code_simp

lemma demo_execution:
  "execute_source demo_hashing (\<lambda>s. None) ''now'' demo_runtime demo_task [] = (Inr demo_result, demo_events)"
  by code_simp

lemma demo_recorded: "recorded_runtime (\<lambda>e. e) demo_runtime" "recorded_operation (\<lambda>e. e) (tk_operation demo_task e)"
  by (simp_all add: recorded_runtime_def demo_runtime_def demo_task_def demo_operation_def)

lemma execution_always_reports_witness:
  "case execute_source demo_hashing (\<lambda>s. None) ''now'' demo_runtime demo_task [] of
     (Inr r, events) \<Rightarrow> faithful_result demo_hashing (\<lambda>s. None) ''now'' demo_task r \<and> rs_attempts r = 2 \<and> events = demo_events
   | (Inl _, _) \<Rightarrow> False"
  using execution_always_reports [OF demo_accepted demo_policy_accepted, of demo_hashing "\<lambda>s. None" "''now''" demo_runtime "[]"]
  by (simp add: demo_execution demo_result_def)

lemma backoff_doubles_and_saturates_witness: "backoff demo_policy 2 = 1"
  using backoff_doubles_and_saturates [OF demo_policy_accepted, of 2]
  by (simp add: demo_task_def demo_policy_def seconds_def finite_number_def FLOAT_LIMIT_def)

lemma only_planned_requests_are_sent_witness:
  "list_all (permitted demo_task) demo_events \<and> rs_requests demo_result = 2 \<and> length (filter dispatched demo_events) = 2"
  using only_planned_requests_are_sent [OF demo_accepted demo_policy_accepted demo_recorded demo_execution]
  by (auto simp: demo_result_def demo_events_def dispatched_def)

end
