(* ===== verification/Provenance.thy ===== *)
theory Provenance
  imports Execution_Models
begin

section \<open>database/poc/discovery_provenance.py: local attestations of snapshots\<close>

text \<open>
  The manifest that binds a snapshot to a category, a context and, for a controlled observation, to the key of an
  enrolled issuer. \<open>mac\<close> is \<open>hmac.new(key, message, sha256).hexdigest()\<close>; \<open>trusted\<close> maps the enrolled aliases to
  their keys. A missing key or issuer is \<open>None\<close> (\<open>VNull\<close>), and a given key is a byte string.
\<close>

type_synonym mac = "string \<Rightarrow> string \<Rightarrow> string"
type_synonym issuers = "string \<Rightarrow> string option"

definition PROVENANCE_FORMAT :: string where "PROVENANCE_FORMAT = ''pepeuch-ai.discovery-provenance/v1''"

definition KINDS :: "string list" where "KINDS = [''synthetic'', ''controlled_observation'', ''historical_unknown'']"

definition alias_char :: "char \<Rightarrow> bool" where "alias_char c = (is_lower c \<or> is_digit c)"

definition is_alias :: "string \<Rightarrow> bool" where
  "is_alias s =
     (case s of [] \<Rightarrow> False
      | c # cs \<Rightarrow> alias_char c \<and> length cs \<le> 63 \<and> list_all (\<lambda>x. alias_char x \<or> x \<in> {CHR ''.'', CHR ''_'', CHR ''-''}) cs)"

definition public_alias :: "val \<Rightarrow> string res" where
  "public_alias v = rbind (needed (as_str v)) (\<lambda>s. rbind (must (is_alias s)) (\<lambda>_. Inr s))"

definition CONTEXT_KEYS :: "string list" where "CONTEXT_KEYS = [''domain'', ''account_partition'', ''representation'']"

definition validation_context :: "val \<Rightarrow> dict res" where
  "validation_context v =
     rbind (copy_metadata v) (\<lambda>c.
     rbind (needed (as_dict c)) (\<lambda>d.
     rbind (must (exact_keys d CONTEXT_KEYS)) (\<lambda>_.
     rbind (each public_alias (map snd d)) (\<lambda>_. Inr d))))"

definition SNAPSHOT_KEYS :: "string list" where
  "SNAPSHOT_KEYS = [''format'', ''snapshot_id'', ''captured_at'', ''scope'', ''records'']"

definition snapshot_copy :: "hashing \<Rightarrow> clock_reader \<Rightarrow> string \<Rightarrow> val \<Rightarrow> dict res" where
  "snapshot_copy h clk now v =
     rbind (copy_metadata v) (\<lambda>c.
     rbind (validate_snapshot h clk now c) (\<lambda>d.
     rbind (must (exact_keys d SNAPSHOT_KEYS)) (\<lambda>_. Inr d)))"

definition issuer_key :: "string option \<Rightarrow> string res" where
  \<comment> \<open>\<open>_key\<close>\<close>
  "issuer_key k = rbind (needed k) (\<lambda>b. rbind (must (32 \<le> length b)) (\<lambda>_. Inr b))"

definition manifest_mac :: "hashing \<Rightarrow> mac \<Rightarrow> dict \<Rightarrow> string option \<Rightarrow> string res" where
  "manifest_mac h mac manifest k =
     rbind (issuer_key k) (\<lambda>b. rbind (canonical_json h (VDict manifest)) (\<lambda>text. Inr (mac b (utf8 text))))"

definition synthetic_scope :: "dict \<Rightarrow> bool" where
  "synthetic_scope data =
     (case get_or_none data ''scope'' of
        VDict scope \<Rightarrow> list_ex (\<lambda>(_, s). case s of VDict d \<Rightarrow> get_or_none d ''input'' = VStr ''synthetic_fixture'' | _ \<Rightarrow> False) scope
      | _ \<Rightarrow> False)"

definition known_kind :: "val \<Rightarrow> string res" where
  \<comment> \<open>\<open>kind not in KINDS\<close>; an unhashable value is a \<open>TypeError\<close>\<close>
  "known_kind v =
     rbind (if hashable v then Inr () else Inl (Raised ''TypeError'')) (\<lambda>_.
     rbind (needed (as_str v)) (\<lambda>s. rbind (must (s \<in> set KINDS)) (\<lambda>_. Inr s)))"

definition provenance_manifest :: "string \<Rightarrow> dict \<Rightarrow> string \<Rightarrow> dict \<Rightarrow> val \<Rightarrow> dict" where
  "provenance_manifest kind data sha ctx issuer =
     [(''format'', VStr PROVENANCE_FORMAT), (''kind'', VStr kind), (''snapshot_id'', get_or_none data ''snapshot_id''),
      (''snapshot_sha256'', VStr sha), (''scope'', get_or_none data ''scope''), (''context'', VDict ctx), (''issuer'', issuer)]"

definition make_provenance ::
  "hashing \<Rightarrow> mac \<Rightarrow> clock_reader \<Rightarrow> string \<Rightarrow> val \<Rightarrow> val \<Rightarrow> val \<Rightarrow> val \<Rightarrow> string option \<Rightarrow> dict res" where
  "make_provenance h mac clk now snapshot kind0 context0 issuer key =
     rbind (snapshot_copy h clk now snapshot) (\<lambda>data.
     rbind (known_kind kind0) (\<lambda>kind.
     rbind (validation_context context0) (\<lambda>ctx.
     rbind (if kind = ''controlled_observation'' then
              rbind (public_alias issuer) (\<lambda>_. rbind (issuer_key key) (\<lambda>_. must (\<not> synthetic_scope data)))
            else must (issuer = VNull \<and> key = None)) (\<lambda>_.
     rbind (json_digest h (VDict data)) (\<lambda>sha.
     let manifest = provenance_manifest kind data sha ctx issuer in
     if issuer = VNull then Inr (manifest @ [(''attestation'', VNull)])
     else rbind (manifest_mac h mac manifest key) (\<lambda>m. Inr (manifest @ [(''attestation'', VStr m)])))))))"

definition PROVENANCE_KEYS :: "string list" where
  "PROVENANCE_KEYS = [''format'', ''kind'', ''snapshot_id'', ''snapshot_sha256'', ''scope'', ''context'', ''issuer'', ''attestation'']"

definition attested ::
  "hashing \<Rightarrow> mac \<Rightarrow> clock_reader \<Rightarrow> string \<Rightarrow> issuers \<Rightarrow> dict \<Rightarrow> dict \<Rightarrow> dict \<Rightarrow> unit res" where
  \<comment> \<open>the branch of a controlled observation\<close>
  "attested h mac clk now trusted data p ctx =
     rbind (public_alias (get_or_none p ''issuer'')) (\<lambda>issuer.
     rbind (needed (trusted issuer)) (\<lambda>key.
     rbind (make_provenance h mac clk now (VDict data) (get_or_none p ''kind'') (VDict ctx) (VStr issuer) (Some key)) (\<lambda>expected.
     rbind (needed (as_str (get_or_none p ''attestation''))) (\<lambda>a.
     must (hex_string 64 a \<and> get_or_none expected ''attestation'' = VStr a)))))"

definition validate_provenance ::
  "hashing \<Rightarrow> mac \<Rightarrow> clock_reader \<Rightarrow> string \<Rightarrow> issuers \<Rightarrow> val \<Rightarrow> val \<Rightarrow> dict res" where
  "validate_provenance h mac clk now trusted snapshot provenance =
     rbind (snapshot_copy h clk now snapshot) (\<lambda>data.
     rbind (copy_metadata provenance) (\<lambda>c.
     rbind (needed (as_dict c)) (\<lambda>p.
     rbind (must (exact_keys p PROVENANCE_KEYS)) (\<lambda>_.
     rbind (must (get_or_none p ''format'' = VStr PROVENANCE_FORMAT)) (\<lambda>_.
     rbind (known_kind (get_or_none p ''kind'')) (\<lambda>kind.
     rbind (validation_context (get_or_none p ''context'')) (\<lambda>ctx.
     rbind (json_digest h (VDict data)) (\<lambda>sha.
     rbind (must (py_eq (get_or_none p ''snapshot_id'') (get_or_none data ''snapshot_id'')
                  \<and> get_or_none p ''snapshot_sha256'' = VStr sha \<and> py_eq (get_or_none p ''scope'') (get_or_none data ''scope''))) (\<lambda>_.
     rbind (if kind = ''controlled_observation'' then attested h mac clk now trusted data p ctx
            else must (get_or_none p ''issuer'' = VNull \<and> get_or_none p ''attestation'' = VNull)) (\<lambda>_.
     Inr p))))))))))"

end
