(* ===== verification/Validated_Cache.thy ===== *)
theory Validated_Cache
  imports Provenance
begin

section \<open>database/poc/validated_discovery_cache.py: validated caches and 304 reuse\<close>

text \<open>
  A cache entry binds a request, a validated observation, its provenance and the HTTP validators. Its exceptions are
  those of the observation (an \<open>ExecutionError\<close> too).
\<close>

definition CACHE_FORMAT :: string where "CACHE_FORMAT = ''pepeuch-ai.validated-discovery-cache/v1''"

definition iterate :: "val \<Rightarrow> val list res" where
  \<comment> \<open>the elements of a value in a \<open>for\<close>\<close>
  "iterate v =
     (case v of VList xs \<Rightarrow> Inr xs | VStr s \<Rightarrow> Inr (map (\<lambda>c. VStr [c]) s) | VDict d \<Rightarrow> Inr (map VStr (keys d))
      | _ \<Rightarrow> Inl (Raised ''TypeError''))"

definition source_name :: "val \<Rightarrow> string res" where
  \<comment> \<open>\<open>source not in SOURCE_SPECS\<close>\<close>
  "source_name v =
     rbind (if hashable v then Inr () else Inl (Raised ''TypeError'')) (\<lambda>_.
     rbind (needed (as_str v)) (\<lambda>s. rbind (must (SOURCE_SPECS s \<noteq> None)) (\<lambda>_. Inr s)))"

definition revision_value :: "val \<Rightarrow> bool" where
  "revision_value v = (v = VNull \<or> (case as_str v of Some s \<Rightarrow> s \<noteq> [] \<and> length s \<le> 256 | None \<Rightarrow> False))"

definition request_dict :: "string \<Rightarrow> dict \<Rightarrow> string list \<Rightarrow> dict \<Rightarrow> dict \<Rightarrow> dict" where
  "request_dict source selection ids ctx revisions =
     [(''source'', VStr source), (''selection'', VDict selection), (''resources'', VList (map VStr ids)),
      (''context'', VDict ctx), (''revisions'', VDict revisions)]"

definition cache_request :: "val \<Rightarrow> val \<Rightarrow> val list \<Rightarrow> val \<Rightarrow> val \<Rightarrow> dict res" where
  "cache_request source0 selection0 resources context0 revisions0 =
     rbind (source_name source0) (\<lambda>source.
     rbind (safe_selection source selection0) (\<lambda>selection.
     rbind (collect (make_ref source) resources) (\<lambda>refs.
     rbind (must (refs \<noteq> [] \<and> distinct refs)) (\<lambda>_.
     let ids = sort (map rf_id refs); mode = get_or_none selection ''mode'' in
     rbind (must (\<not> (mode = VStr ''exact_ids'' \<and> set ids \<noteq> set (selected_ids selection)))) (\<lambda>_.
     rbind (must (\<not> (mode = VStr ''exact_tag'' \<and> map VStr ids \<noteq> [get_or_none selection ''resource_id'']))) (\<lambda>_.
     rbind (copy_metadata revisions0) (\<lambda>rv.
     rbind (needed (as_dict rv)) (\<lambda>revisions.
     rbind (must (exact_keys revisions ids \<and> list_all (\<lambda>(_, v). revision_value v) revisions)) (\<lambda>_.
     rbind (validation_context context0) (\<lambda>ctx.
     Inr (request_dict source selection ids ctx revisions)))))))))))"

definition REQUEST_KEYS :: "string list" where
  "REQUEST_KEYS = [''source'', ''selection'', ''resources'', ''context'', ''revisions'']"

definition exact_request :: "val \<Rightarrow> dict res" where
  \<comment> \<open>\<open>_request\<close>\<close>
  "exact_request v =
     rbind (copy_metadata v) (\<lambda>c.
     rbind (needed (as_dict c)) (\<lambda>data.
     rbind (must (exact_keys data REQUEST_KEYS)) (\<lambda>_.
     rbind (iterate (get_or_none data ''resources'')) (\<lambda>resources.
     rbind (cache_request (get_or_none data ''source'') (get_or_none data ''selection'') resources
              (get_or_none data ''context'') (get_or_none data ''revisions'')) (\<lambda>expected.
     rbind (must (py_eq (VDict data) (VDict expected))) (\<lambda>_. Inr expected))))))"

definition quoted :: "string \<Rightarrow> bool" where
  "quoted s = ((starts_with [CHR 0x22] s \<and> ends_with [CHR 0x22] s) \<or> (starts_with (''W/'' @ [CHR 0x22]) s \<and> ends_with [CHR 0x22] s))"

definition validator_item :: "string \<times> val \<Rightarrow> unit res" where
  "validator_item = (\<lambda>(field, v).
     if v = VNull then Inr ()
     else rbind (needed (as_str v)) (\<lambda>s.
          rbind (must (s \<noteq> [] \<and> length s \<le> 256 \<and> list_all (\<lambda>c. 32 \<le> ord c \<and> ord c \<le> 126) s)) (\<lambda>_.
          must (\<not> (field = ''etag'' \<and> \<not> quoted s)))))"

definition http_validators :: "val \<Rightarrow> dict res" where
  "http_validators v =
     rbind (copy_metadata v) (\<lambda>c.
     rbind (needed (as_dict c)) (\<lambda>data.
     rbind (must (exact_keys data [''etag'', ''last_modified''])) (\<lambda>_.
     rbind (each validator_item data) (\<lambda>_. Inr data))))"

definition observed_revisions :: "dict \<Rightarrow> dict" where
  \<comment> \<open>\<open>{r["source_id"]: r["source_revision"] for r in records}\<close>\<close>
  "observed_revisions data =
     fold (\<lambda>r d. case get_or_none r ''source_id'' of VStr i \<Rightarrow> put_key i (get_or_none r ''source_revision'') d | _ \<Rightarrow> d)
       (record_dicts data) []"

definition request_refs :: "dict \<Rightarrow> resource_ref list" where
  \<comment> \<open>the resources of an exact request\<close>
  "request_refs request =
     (case (get_or_none request ''source'', get_or_none request ''resources'') of
        (VStr s, VList xs) \<Rightarrow> concat (map (\<lambda>x. case x of VStr i \<Rightarrow> [\<lparr>rf_source = s, rf_id = i\<rparr>] | _ \<Rightarrow> []) xs) | _ \<Rightarrow> [])"

definition dict_at :: "dict \<Rightarrow> string \<Rightarrow> dict" where
  "dict_at d k = (case get_or_none d k of VDict e \<Rightarrow> e | _ \<Rightarrow> [])"

definition string_at :: "dict \<Rightarrow> string \<Rightarrow> string" where
  "string_at d k = (case get_or_none d k of VStr s \<Rightarrow> s | _ \<Rightarrow> [])"

definition cache_dict :: "dict \<Rightarrow> dict \<Rightarrow> string \<Rightarrow> dict \<Rightarrow> dict \<Rightarrow> dict" where
  "cache_dict request data sha p validators =
     [(''format'', VStr CACHE_FORMAT), (''request'', VDict request), (''snapshot'', VDict data), (''snapshot_sha256'', VStr sha),
      (''provenance'', VDict p), (''validators'', VDict validators), (''validation'', VStr ''complete'')]"

definition make_cache ::
  "hashing \<Rightarrow> mac \<Rightarrow> clock_reader \<Rightarrow> string \<Rightarrow> issuers \<Rightarrow> val \<Rightarrow> val \<Rightarrow> val \<Rightarrow> val \<Rightarrow> dict exres" where
  "make_cache h mac clk now trusted request0 snapshot provenance validators =
     xbind (raised (exact_request request0)) (\<lambda>request.
     xbind (raised (snapshot_copy h clk now snapshot)) (\<lambda>copied.
     xbind (validate_observation h clk now (string_at request ''source'') (dict_at request ''selection'')
              (request_refs request) (VDict copied)) (\<lambda>data.
     xbind (raised (must (py_eq (VDict (observed_revisions data)) (get_or_none request ''revisions'')))) (\<lambda>_.
     xbind (raised (validate_provenance h mac clk now trusted (VDict data) provenance)) (\<lambda>p.
     xbind (raised (must (py_eq (get_or_none p ''context'') (get_or_none request ''context'')))) (\<lambda>_.
     xbind (raised (json_digest h (VDict data))) (\<lambda>sha.
     xbind (raised (http_validators validators)) (\<lambda>vs.
     Inr (cache_dict request data sha p vs)))))))))"

definition CACHE_KEYS :: "string list" where
  "CACHE_KEYS = [''format'', ''request'', ''snapshot'', ''snapshot_sha256'', ''provenance'', ''validators'', ''validation'']"

definition validate_cache :: "hashing \<Rightarrow> mac \<Rightarrow> clock_reader \<Rightarrow> string \<Rightarrow> issuers \<Rightarrow> val \<Rightarrow> dict exres" where
  "validate_cache h mac clk now trusted entry0 =
     xbind (raised (copy_metadata entry0)) (\<lambda>c.
     xbind (raised (needed (as_dict c))) (\<lambda>data.
     xbind (raised (must (exact_keys data CACHE_KEYS \<and> get_or_none data ''format'' = VStr CACHE_FORMAT
                          \<and> get_or_none data ''validation'' = VStr ''complete''))) (\<lambda>_.
     xbind (make_cache h mac clk now trusted (get_or_none data ''request'') (get_or_none data ''snapshot'')
              (get_or_none data ''provenance'') (get_or_none data ''validators'')) (\<lambda>rebuilt.
     xbind (raised (must (py_eq (VDict rebuilt) (VDict data)))) (\<lambda>_.
     Inr rebuilt)))))"

definition reuse_not_modified ::
  "hashing \<Rightarrow> mac \<Rightarrow> clock_reader \<Rightarrow> string \<Rightarrow> issuers \<Rightarrow> val \<Rightarrow> val \<Rightarrow> val \<Rightarrow> dict exres" where
  "reuse_not_modified h mac clk now trusted entry0 request0 sent0 =
     xbind (raised (must (entry0 \<noteq> VNull))) (\<lambda>_.
     xbind (validate_cache h mac clk now trusted entry0) (\<lambda>cached.
     xbind (raised (must (get_or_none (dict_at cached ''provenance'') ''kind'' \<noteq> VStr ''historical_unknown''))) (\<lambda>_.
     xbind (raised (exact_request request0)) (\<lambda>request.
     xbind (raised (http_validators sent0)) (\<lambda>sent.
     xbind (raised (must (py_eq (get_or_none cached ''request'') (VDict request)))) (\<lambda>_.
     xbind (raised (must (\<not> list_all (\<lambda>(_, v). v = VNull) sent \<and> py_eq (VDict sent) (get_or_none cached ''validators'')))) (\<lambda>_.
     Inr [(''status'', VStr ''unchanged''), (''snapshot'', get_or_none cached ''snapshot''),
          (''provenance'', get_or_none cached ''provenance'')])))))))"

end
