(* ===== verification/Cache_Guarantees.thy ===== *)
theory Cache_Guarantees
  imports Validated_Cache Snapshot_Guarantees
begin

section \<open>Guarantees of provenance manifests and validated caches\<close>

subsection \<open>Accepted documents are the ones given\<close>

lemma snapshot_copy_same: "snapshot_copy h clk now v = Inr d \<Longrightarrow> v = VDict d \<and> secret_free (VDict d) \<and> plain (VDict d)"
  by (auto simp: snapshot_copy_def validate_snapshot_def)

lemma validation_context_same: "validation_context v = Inr d \<Longrightarrow> v = VDict d \<and> secret_free (VDict d) \<and> plain (VDict d)"
  by (auto simp: validation_context_def)

lemma http_validators_same: "http_validators v = Inr d \<Longrightarrow> v = VDict d \<and> secret_free (VDict d) \<and> plain (VDict d)"
  by (auto simp: http_validators_def)

lemma validate_provenance_same:
  "validate_provenance h mac clk now trusted s v = Inr p \<Longrightarrow> v = VDict p \<and> secret_free (VDict p) \<and> plain (VDict p)"
  by (auto simp: validate_provenance_def)

lemma validate_observation_same:
  "validate_observation h clk now source selection refs v = Inr d \<Longrightarrow> v = VDict d \<and> secret_free (VDict d) \<and> plain (VDict d)"
  by (auto simp: validate_observation_def validate_snapshot_def Let_def)

lemma safe_selection_plain: "safe_selection source v = Inr d \<Longrightarrow> v = VDict d \<and> secret_free (VDict d) \<and> plain (VDict d)"
  by (auto simp: safe_selection_def)

subsection \<open>Attestations\<close>

text \<open>
  C32. A manifest of a controlled observation is accepted only with the MAC of an enrolled issuer: its alias is known,
  its key has at least 32 bytes, the attestation is the MAC under that key of the manifest that binds the digest of
  the whole snapshot, its scope and the context, and the scope is not a synthetic fixture.
\<close>

theorem controlled_needs_enrolled_key:
  assumes "validate_provenance h mac clk now trusted snapshot provenance = Inr p"
    and "get_or_none p ''kind'' = VStr ''controlled_observation''"
  shows "\<exists>data ctx sha issuer key message. snapshot = VDict data \<and> snapshot_copy h clk now snapshot = Inr data
     \<and> json_digest h (VDict data) = Inr sha \<and> get_or_none p ''snapshot_sha256'' = VStr sha
     \<and> get_or_none p ''issuer'' = VStr issuer \<and> trusted issuer = Some key \<and> 32 \<le> length key
     \<and> validation_context (get_or_none p ''context'') = Inr ctx \<and> \<not> synthetic_scope data
     \<and> canonical_json h (VDict (provenance_manifest ''controlled_observation'' data sha ctx (VStr issuer))) = Inr message
     \<and> get_or_none p ''attestation'' = VStr (mac key (utf8 message))"
proof -
  from assms obtain data sha ctx where base: "snapshot_copy h clk now snapshot = Inr data"
    "validation_context (get_or_none p ''context'') = Inr ctx" "json_digest h (VDict data) = Inr sha"
    "get_or_none p ''snapshot_sha256'' = VStr sha" "attested h mac clk now trusted data p ctx = Inr ()"
    unfolding validate_provenance_def
    by (auto simp: known_kind_def simp del: get_or_none_eq)
  then obtain issuer key expected a where made: "public_alias (get_or_none p ''issuer'') = Inr issuer" "trusted issuer = Some key"
    "make_provenance h mac clk now (VDict data) (get_or_none p ''kind'') (VDict ctx) (VStr issuer) (Some key) = Inr expected"
    "get_or_none p ''attestation'' = VStr a" "get_or_none expected ''attestation'' = VStr a"
    unfolding attested_def by (auto simp del: get_or_none_eq)
  have issuer: "get_or_none p ''issuer'' = VStr issuer" using made(1) by (auto simp: public_alias_def simp del: get_or_none_eq)
  have snapshot: "snapshot = VDict data" using snapshot_copy_same [OF base(1)] by blast
  have ctx: "validation_context (VDict ctx) = Inr ctx"
    using base(2) validation_context_same [OF base(2)] by simp
  from made(3) obtain m where m: "32 \<le> length key" "\<not> synthetic_scope data"
    "manifest_mac h mac (provenance_manifest ''controlled_observation'' data sha ctx (VStr issuer)) (Some key) = Inr m"
    "expected = provenance_manifest ''controlled_observation'' data sha ctx (VStr issuer) @ [(''attestation'', VStr m)]"
    using base(1,3) ctx assms(2) unfolding make_provenance_def snapshot
    by (auto simp: known_kind_def issuer_key_def Let_def simp del: get_or_none_eq)
  have "get_or_none expected ''attestation'' = VStr m"
    unfolding m(4) by (simp add: provenance_manifest_def get_or_none_def)
  then have "a = m" using made(5) by simp
  moreover obtain message where "canonical_json h (VDict (provenance_manifest ''controlled_observation'' data sha ctx (VStr issuer))) = Inr message"
    "m = mac key (utf8 message)" using m(3) by (auto simp: manifest_mac_def issuer_key_def)
  ultimately show ?thesis
    using base snapshot issuer made(2,4) m(1,2) by blast
qed

subsection \<open>Exact requests\<close>

lemma public_names: "secret_free (VDict (map (\<lambda>k. (k, VNull)) (REQUEST_KEYS @ CACHE_KEYS)))"
  by code_simp

lemma request_dict_public:
  assumes "secret_free (VDict selection)" "secret_free (VDict ctx)" "secret_free (VDict revisions)"
  shows "secret_free (VDict (request_dict source selection ids ctx revisions))"
proof -
  have "secret_free_list (map VStr ids)" by (induction ids) simp_all
  with assms public_names show ?thesis by (simp add: request_dict_def REQUEST_KEYS_def CACHE_KEYS_def)
qed

lemma request_dict_plain:
  assumes "plain (VDict selection)" "plain (VDict ctx)" "plain (VDict revisions)"
  shows "plain (VDict (request_dict source selection ids ctx revisions))"
proof -
  have "plain_list (map VStr ids)" by (induction ids) simp_all
  with assms show ?thesis by (simp add: request_dict_def)
qed

lemma make_ref_Inr: "make_ref source v = Inr r \<Longrightarrow> v = VStr (rf_id r) \<and> rf_source r = source"
  by (auto simp: make_ref_def identifier_field_def)

lemma make_ref_again: "make_ref source v = Inr r \<Longrightarrow> make_ref source (VStr (rf_id r)) = Inr r"
  using make_ref_Inr by metis

lemma collect_refs:
  "(\<And>r. r \<in> set rs \<Longrightarrow> make_ref source (VStr (rf_id r)) = Inr r) \<Longrightarrow> collect (make_ref source) (map (VStr \<circ> rf_id) rs) = Inr rs"
  by (induction rs) simp_all

lemma collect_refs_made: "collect (make_ref source) xs = Inr rs \<Longrightarrow> r \<in> set rs \<Longrightarrow> make_ref source (VStr (rf_id r)) = Inr r"
  by (induction xs arbitrary: rs) (auto split: sum.splits dest: make_ref_again)

text \<open>A request that \<open>cache_request\<close> has built is exact: rebuilding it from its own fields gives it back.\<close>

lemma cache_request_exact:
  assumes "cache_request source0 selection0 resources context0 revisions0 = Inr request"
  shows "exact_request (VDict request) = Inr request \<and> secret_free (VDict request) \<and> plain (VDict request)"
proof -
  obtain source selection refs ctx revisions where r:
    "source_name source0 = Inr source" "safe_selection source selection0 = Inr selection"
    "collect (make_ref source) resources = Inr refs" "refs \<noteq> []" "distinct refs"
    "\<not> (get_or_none selection ''mode'' = VStr ''exact_ids'' \<and> set (sort (map rf_id refs)) \<noteq> set (selected_ids selection))"
    "\<not> (get_or_none selection ''mode'' = VStr ''exact_tag'' \<and> map VStr (sort (map rf_id refs)) \<noteq> [get_or_none selection ''resource_id''])"
    "copy_metadata revisions0 = Inr (VDict revisions)" "exact_keys revisions (sort (map rf_id refs))"
    "list_all (\<lambda>(_, v). revision_value v) revisions" "validation_context context0 = Inr ctx"
    "request = request_dict source selection (sort (map rf_id refs)) ctx revisions"
    using assms unfolding cache_request_def Let_def rbind_Inr must_Inr needed_Inr as_Some
    by (elim exE conjE) simp
  define ordered where "ordered = map (\<lambda>i. \<lparr>rf_source = source, rf_id = i\<rparr>) (sort (map rf_id refs))"
  have made: "make_ref source (VStr (rf_id x)) = Inr x" if "x \<in> set refs" for x
    using collect_refs_made [OF r(3) that] .
  have ids: "map rf_id ordered = sort (map rf_id refs)" by (simp add: ordered_def comp_def)
  have mem: "set ordered = set refs"
  proof -
    have "\<lparr>rf_source = source, rf_id = rf_id x\<rparr> = x" if "x \<in> set refs" for x
      using make_ref_Inr [OF made [OF that]] by (cases x) simp
    then show ?thesis by (simp add: ordered_def image_image cong: image_cong)
  qed
  have "inj_on rf_id (set refs)"
    using made make_ref_Inr by (intro inj_onI) (metis Inr_inject)
  then have "distinct (map rf_id ordered)" using r(5) by (simp add: ids distinct_map)
  then have dist: "distinct ordered" by (simp add: distinct_map)
  have ne: "ordered \<noteq> []" using r(4) mem by auto
  have refs: "collect (make_ref source) (map VStr (sort (map rf_id refs))) = Inr ordered"
    using collect_refs [of ordered source] made mem ids by (simp flip: map_map)
  have again: "cache_request (VStr source) (VDict selection) (map VStr (sort (map rf_id refs))) (VDict ctx) (VDict revisions) = Inr request"
  proof -
    have "source_name (VStr source) = Inr source" using r(1) by (auto simp: source_name_def hashable_def)
    moreover have "safe_selection source (VDict selection) = Inr selection"
      using r(2) safe_selection_plain [OF r(2)] by simp
    moreover have "validation_context (VDict ctx) = Inr ctx"
      using r(11) validation_context_same [OF r(11)] by simp
    moreover have "copy_metadata (VDict revisions) = Inr (VDict revisions)" using r(8) by simp
    moreover have "sort (map rf_id ordered) = sort (map rf_id refs)" unfolding ids by (simp add: sort_key_id_if_sorted)
    ultimately show ?thesis
      unfolding cache_request_def Let_def using refs ne dist mem r(6,7,9,10,12) by simp
  qed
  have "secret_free (VDict revisions) \<and> plain (VDict revisions)" using r(8) by (simp only: copy_metadata_Inr)
  then have public: "secret_free (VDict request)" "plain (VDict request)"
    unfolding r(12) using safe_selection_plain [OF r(2)] validation_context_same [OF r(11)]
    by (blast intro: request_dict_public request_dict_plain)+
  have fields: "get_or_none request ''source'' = VStr source" "get_or_none request ''selection'' = VDict selection"
    "get_or_none request ''resources'' = VList (map VStr (sort (map rf_id refs)))" "get_or_none request ''context'' = VDict ctx"
    "get_or_none request ''revisions'' = VDict revisions" "exact_keys request REQUEST_KEYS"
    unfolding r(12) by (auto simp: request_dict_def get_or_none_def exact_keys_def REQUEST_KEYS_def keys_def)
  have "py_eq (VDict request) (VDict request)" using public(2) by (rule py_eq_refl)
  with public again fields show ?thesis
    by (simp add: exact_request_def iterate_def del: get_or_none_eq py_eq.simps plain.simps secret_free.simps)
qed

lemma exact_request_again:
  assumes "exact_request v = Inr request"
  shows "exact_request (VDict request) = Inr request" "secret_free (VDict request)" "plain (VDict request)"
  using assms cache_request_exact by (auto simp: exact_request_def)

subsection \<open>Entries\<close>

lemma make_cache_Inr:
  assumes "make_cache h mac clk now trusted request0 snapshot provenance validators = Inr entry"
  obtains request data p sha vs where "exact_request request0 = Inr request" "snapshot_copy h clk now (VDict data) = Inr data"
    "validate_observation h clk now (string_at request ''source'') (dict_at request ''selection'') (request_refs request) (VDict data) = Inr data"
    "py_eq (VDict (observed_revisions data)) (get_or_none request ''revisions'')"
    "validate_provenance h mac clk now trusted (VDict data) (VDict p) = Inr p"
    "py_eq (get_or_none p ''context'') (get_or_none request ''context'')" "json_digest h (VDict data) = Inr sha"
    "http_validators (VDict vs) = Inr vs" "entry = cache_dict request data sha p vs"
proof -
  obtain request copied data p sha vs where c: "exact_request request0 = Inr request" "snapshot_copy h clk now snapshot = Inr copied"
    "validate_observation h clk now (string_at request ''source'') (dict_at request ''selection'') (request_refs request) (VDict copied) = Inr data"
    "py_eq (VDict (observed_revisions data)) (get_or_none request ''revisions'')"
    "validate_provenance h mac clk now trusted (VDict data) provenance = Inr p"
    "py_eq (get_or_none p ''context'') (get_or_none request ''context'')" "json_digest h (VDict data) = Inr sha"
    "http_validators validators = Inr vs" "entry = cache_dict request data sha p vs"
    using assms unfolding make_cache_def xbind_Inr raised_Inr must_Inr by (elim exE conjE) simp
  have "copied = data" using validate_observation_same [OF c(3)] by simp
  with c that show thesis
    using snapshot_copy_same [OF c(2)] validate_provenance_same [OF c(5)] http_validators_same [OF c(8)] by simp
qed

lemma own_cache_validates:
  assumes "make_cache h mac clk now trusted request0 snapshot provenance validators = Inr entry"
  shows "validate_cache h mac clk now trusted (VDict entry) = Inr entry"
proof -
  obtain request data p sha vs where c: "exact_request request0 = Inr request" "snapshot_copy h clk now (VDict data) = Inr data"
    "validate_observation h clk now (string_at request ''source'') (dict_at request ''selection'') (request_refs request) (VDict data) = Inr data"
    "py_eq (VDict (observed_revisions data)) (get_or_none request ''revisions'')"
    "validate_provenance h mac clk now trusted (VDict data) (VDict p) = Inr p"
    "py_eq (get_or_none p ''context'') (get_or_none request ''context'')" "json_digest h (VDict data) = Inr sha"
    "http_validators (VDict vs) = Inr vs" "entry = cache_dict request data sha p vs"
    using assms by (rule make_cache_Inr)
  note request = exact_request_again [OF c(1)]
  have again: "make_cache h mac clk now trusted (VDict request) (VDict data) (VDict p) (VDict vs) = Inr entry"
    unfolding make_cache_def using request(1) c by simp
  have parts: "secret_free (VDict data) \<and> plain (VDict data)" "secret_free (VDict p) \<and> plain (VDict p)"
    "secret_free (VDict vs) \<and> plain (VDict vs)"
    using snapshot_copy_same [OF c(2)] validate_provenance_same [OF c(5)] http_validators_same [OF c(8)] by blast+
  have public: "secret_free (VDict entry)" "plain (VDict entry)"
    unfolding c(9) using parts request(2,3) public_names by (simp_all add: cache_dict_def REQUEST_KEYS_def CACHE_KEYS_def)
  have fields: "get_or_none entry ''request'' = VDict request" "get_or_none entry ''snapshot'' = VDict data"
    "get_or_none entry ''provenance'' = VDict p" "get_or_none entry ''validators'' = VDict vs"
    "get_or_none entry ''format'' = VStr CACHE_FORMAT" "get_or_none entry ''validation'' = VStr ''complete''" "exact_keys entry CACHE_KEYS"
    unfolding c(9) by (auto simp: cache_dict_def get_or_none_def exact_keys_def CACHE_KEYS_def keys_def)
  have "py_eq (VDict entry) (VDict entry)" using public(2) by (rule py_eq_refl)
  with public fields again show ?thesis
    by (simp add: validate_cache_def del: get_or_none_eq py_eq.simps plain.simps secret_free.simps)
qed

text \<open>
  A cache entry is stable: what \<open>make_cache\<close> builds, \<open>validate_cache\<close> rebuilds and returns unchanged under
  the same clock and the same enrolled issuers; so no stored entry is ever accepted in another form.
\<close>

theorem built_cache_validates:
  assumes "make_cache h mac clk now trusted request0 snapshot provenance validators = Inr entry"
  shows "validate_cache h mac clk now trusted (VDict entry) = Inr entry"
  by (rule own_cache_validates [OF assms])

subsection \<open>A fixture and an attested observation\<close>

definition flat_mac :: mac where "flat_mac key message = zeros"

definition enrolled :: issuers where
  "enrolled issuer = (if issuer = ''ops'' then Some (replicate 32 (CHR ''k'')) else None)"

definition sample_context :: dict where
  "sample_context = [(''domain'', VStr ''fixtures''), (''account_partition'', VStr ''anonymous''), (''representation'', VStr ''v1'')]"

definition sample_manifest :: "string \<Rightarrow> val \<Rightarrow> val \<Rightarrow> dict" where
  "sample_manifest kind issuer att =
     provenance_manifest kind observed_snapshot zeros sample_context issuer @ [(''attestation'', att)]"

lemma sample_context_ok: "validation_context (VDict sample_context) = Inr sample_context"
  by code_simp

lemma sample_names: "secret_free (VDict (map (\<lambda>k. (k, VNull)) (SNAPSHOT_KEYS @ PROVENANCE_KEYS @ [''record_key'', ''payload_sha256''])))"
  by code_simp

lemma observed_snapshot_public: "secret_free (VDict observed_snapshot)" "plain (VDict observed_snapshot)"
  using sample_names observed_public observed_plain whole_scope_ok(1)
  by (simp_all add: observed_snapshot_def snapshot_dict_def observed_entry_def entry_dict_def SNAPSHOT_KEYS_def PROVENANCE_KEYS_def payload_of_def)

lemma observed_snapshot_copy: "snapshot_copy flat_hashing any_clock ''later'' (VDict observed_snapshot) = Inr observed_snapshot"
proof -
  have "exact_keys observed_snapshot SNAPSHOT_KEYS"
    by (auto simp: exact_keys_def observed_snapshot_def snapshot_dict_def SNAPSHOT_KEYS_def keys_def)
  with observed_snapshot_public own_snapshot_validates [OF flat_digests observed_built, of "[observed]" "''later''"]
  show ?thesis by (simp add: snapshot_copy_def del: plain.simps secret_free.simps)
qed

lemma observed_snapshot_digest: "json_digest flat_hashing (VDict observed_snapshot) = Inr zeros"
  using observed_snapshot_public(2) by (simp add: flat_digest zeros_def del: plain.simps)

lemma sample_manifest_facts:
  assumes "kind = ''synthetic'' \<or> kind = ''controlled_observation''" "secret_free issuer" "plain issuer" "secret_free att" "plain att"
  shows "copy_metadata (VDict (sample_manifest kind issuer att)) = Inr (VDict (sample_manifest kind issuer att))"
    "exact_keys (sample_manifest kind issuer att) PROVENANCE_KEYS"
    "get_or_none (sample_manifest kind issuer att) ''format'' = VStr PROVENANCE_FORMAT"
    "get_or_none (sample_manifest kind issuer att) ''kind'' = VStr kind"
    "get_or_none (sample_manifest kind issuer att) ''snapshot_id'' = get_or_none observed_snapshot ''snapshot_id''"
    "get_or_none (sample_manifest kind issuer att) ''snapshot_sha256'' = VStr zeros"
    "get_or_none (sample_manifest kind issuer att) ''scope'' = VDict whole_scope"
    "get_or_none (sample_manifest kind issuer att) ''context'' = VDict sample_context"
    "get_or_none (sample_manifest kind issuer att) ''issuer'' = issuer"
    "get_or_none (sample_manifest kind issuer att) ''attestation'' = att"
proof -
  have fields: "get_or_none observed_snapshot ''snapshot_id'' = VStr (''s_'' @ zeros)" "get_or_none observed_snapshot ''scope'' = VDict whole_scope"
    by (simp_all add: observed_snapshot_def snapshot_dict_def get_or_none_def)
  have scope: "secret_free (VDict whole_scope)" "plain (VDict whole_scope)" using whole_scope_ok(1) by simp_all
  have ctx: "secret_free (VDict sample_context)" "plain (VDict sample_context)"
    using validation_context_same [OF sample_context_ok] by simp_all
  show "copy_metadata (VDict (sample_manifest kind issuer att)) = Inr (VDict (sample_manifest kind issuer att))"
    using assms scope ctx sample_names unfolding sample_manifest_def provenance_manifest_def fields
    by (simp add: SNAPSHOT_KEYS_def PROVENANCE_KEYS_def)
  show "exact_keys (sample_manifest kind issuer att) PROVENANCE_KEYS"
    by (auto simp: exact_keys_def sample_manifest_def provenance_manifest_def PROVENANCE_KEYS_def keys_def)
qed (simp_all add: sample_manifest_def provenance_manifest_def get_or_none_def observed_snapshot_def snapshot_dict_def)

lemma same_scope: "py_eq (VDict whole_scope) (VDict whole_scope)"
  by (rule py_eq_refl) (simp add: whole_scope_def whole_selection_def)

lemma known_kinds: "known_kind (VStr ''synthetic'') = Inr ''synthetic''"
  "known_kind (VStr ''controlled_observation'') = Inr ''controlled_observation''"
  by (simp_all add: known_kind_def hashable_def KINDS_def)

lemma observed_fields: "get_or_none observed_snapshot ''scope'' = VDict whole_scope"
  "get_or_none observed_snapshot ''snapshot_id'' = VStr (''s_'' @ zeros)"
  by (simp_all add: observed_snapshot_def snapshot_dict_def get_or_none_def)

lemma synthetic_accepted:
  "validate_provenance flat_hashing flat_mac any_clock ''later'' enrolled (VDict observed_snapshot)
     (VDict (sample_manifest ''synthetic'' VNull VNull)) = Inr (sample_manifest ''synthetic'' VNull VNull)"
  using sample_manifest_facts [of "''synthetic''" VNull VNull] same_scope
  by (simp add: validate_provenance_def observed_snapshot_copy observed_snapshot_digest sample_context_ok known_kinds observed_fields
      del: get_or_none_eq py_eq.simps(4) copy_metadata_Inr)

lemma zeros_hex: "hex_string 64 zeros"
  using flat_digests by (simp add: digests_def flat_hashing_def zeros_def)

lemma ops_alias: "public_alias (VStr ''ops'') = Inr ''ops''"
  by code_simp

lemma sample_made:
  "make_provenance flat_hashing flat_mac any_clock ''later'' (VDict observed_snapshot) (VStr ''controlled_observation'')
     (VDict sample_context) (VStr ''ops'') (Some (replicate 32 (CHR ''k'')))
   = Inr (sample_manifest ''controlled_observation'' (VStr ''ops'') (VStr zeros))"
proof -
  let ?m = "provenance_manifest ''controlled_observation'' observed_snapshot zeros sample_context (VStr ''ops'')"
  have "plain (VDict (sample_manifest ''controlled_observation'' (VStr ''ops'') (VStr zeros)))"
    using sample_manifest_facts(1) [of "''controlled_observation''" "VStr ''ops''" "VStr zeros"] by (simp only: copy_metadata_Inr) simp
  then have "plain (VDict ?m)" by (simp add: sample_manifest_def plain_items_iff)
  then obtain message where "canonical_json flat_hashing (VDict ?m) = Inr message"
    using canon_total(1) unfolding canonical_json_def by blast
  then have "manifest_mac flat_hashing flat_mac ?m (Some (replicate 32 (CHR ''k''))) = Inr zeros"
    by (simp add: manifest_mac_def issuer_key_def flat_mac_def)
  moreover have "\<not> synthetic_scope observed_snapshot"
    using observed_fields(1) by (simp add: synthetic_scope_def whole_scope_def whole_selection_def get_or_none_def)
  ultimately show ?thesis
    by (simp add: make_provenance_def observed_snapshot_copy known_kinds sample_context_ok ops_alias issuer_key_def
        observed_snapshot_digest sample_manifest_def Let_def)
qed

lemma controlled_accepted:
  "validate_provenance flat_hashing flat_mac any_clock ''later'' enrolled (VDict observed_snapshot)
     (VDict (sample_manifest ''controlled_observation'' (VStr ''ops'') (VStr zeros)))
   = Inr (sample_manifest ''controlled_observation'' (VStr ''ops'') (VStr zeros))"
proof -
  note facts = sample_manifest_facts [of "''controlled_observation''" "VStr ''ops''" "VStr zeros"]
  have "attested flat_hashing flat_mac any_clock ''later'' enrolled observed_snapshot
      (sample_manifest ''controlled_observation'' (VStr ''ops'') (VStr zeros)) sample_context = Inr ()"
    using facts zeros_hex sample_made ops_alias by (simp add: attested_def enrolled_def del: get_or_none_eq)
  with facts same_scope show ?thesis
    by (simp add: validate_provenance_def observed_snapshot_copy observed_snapshot_digest sample_context_ok known_kinds observed_fields
        del: get_or_none_eq py_eq.simps(4) copy_metadata_Inr)
qed

lemma controlled_needs_enrolled_key_witness:
  "\<exists>key. enrolled ''ops'' = Some key \<and> 32 \<le> length key
     \<and> get_or_none (sample_manifest ''controlled_observation'' (VStr ''ops'') (VStr zeros)) ''issuer'' = VStr ''ops''"
proof -
  note facts = sample_manifest_facts [of "''controlled_observation''" "VStr ''ops''" "VStr zeros"]
  have "get_or_none (sample_manifest ''controlled_observation'' (VStr ''ops'') (VStr zeros)) ''kind'' = VStr ''controlled_observation''"
    and issuer: "get_or_none (sample_manifest ''controlled_observation'' (VStr ''ops'') (VStr zeros)) ''issuer'' = VStr ''ops''"
    using facts by simp_all
  from controlled_needs_enrolled_key [OF controlled_accepted this(1)] issuer show ?thesis
    by (elim exE conjE) (simp del: get_or_none_eq)
qed

definition sample_ref :: resource_ref where "sample_ref = \<lparr>rf_source = ''huggingface'', rf_id = ''org/model''\<rparr>"

definition sample_request :: dict where
  "sample_request = request_dict ''huggingface'' whole_selection [''org/model''] sample_context [(''org/model'', VNull)]"

lemma sample_request_made:
  "cache_request (VStr ''huggingface'') (VDict whole_selection) [VStr ''org/model''] (VDict sample_context)
     (VDict [(''org/model'', VNull)]) = Inr sample_request"
  by code_simp

lemma observed_records: "record_dicts observed_snapshot = [entry_dict observed_entry]"
  by (simp add: record_dicts_def observed_snapshot_def snapshot_dict_def get_or_none_def)

lemma observed_entry_fields:
  "get_or_none (entry_dict observed_entry) ''source'' = VStr ''huggingface''"
  "get_or_none (entry_dict observed_entry) ''entity_type'' = VStr ''model_artifact''"
  "get_or_none (entry_dict observed_entry) ''source_id'' = VStr ''org/model''"
  "get_or_none (entry_dict observed_entry) ''source_revision'' = VNull"
  by (simp_all add: entry_dict_def observed_entry_def payload_of_def observed_def opt_str_def get_or_none_def)

lemma sample_observation:
  "validate_observation flat_hashing any_clock ''later'' ''huggingface'' whole_selection [sample_ref] (VDict observed_snapshot)
   = Inr observed_snapshot"
proof -
  obtain message where "canonical_json flat_hashing (VDict whole_scope) = Inr message"
    using canon_total(1) [of "VDict whole_scope" "hs_frepr flat_hashing"] whole_scope_ok(1)
    by (auto simp: canonical_json_def)
  moreover obtain spec where spec: "SOURCE_SPECS ''huggingface'' = Some spec" "ss_source spec = ''huggingface''"
    "ss_types spec = [''model_artifact'']" "ss_nullable spec"
    by (simp add: SOURCE_SPECS_def SOURCES_def)
  moreover have "observed_type spec (entry_dict observed_entry)" "observed_revision spec (entry_dict observed_entry)"
    using observed_entry_fields spec by (simp_all add: observed_type_def observed_revision_def del: get_or_none_eq)
  moreover have "get_or_none whole_selection ''mode'' = VStr ''exact_ids''" by (simp add: whole_selection_def)
  ultimately show ?thesis
    using observed_snapshot_public own_snapshot_validates [OF flat_digests observed_built, of "[observed]" "''later''"]
      observed_records observed_entry_fields observed_fields
    by (simp add: validate_observation_def sample_ref_def Let_def demand_def flip: whole_scope_def
        del: get_or_none_eq plain.simps secret_free.simps)
qed

lemma unknown_validators: "http_validators (VDict [(''etag'', VNull), (''last_modified'', VNull)]) = Inr [(''etag'', VNull), (''last_modified'', VNull)]"
  by code_simp

lemma sample_cache:
  "make_cache flat_hashing flat_mac any_clock ''later'' enrolled (VDict sample_request) (VDict observed_snapshot)
     (VDict (sample_manifest ''synthetic'' VNull VNull)) (VDict [(''etag'', VNull), (''last_modified'', VNull)])
   = Inr (cache_dict sample_request observed_snapshot zeros (sample_manifest ''synthetic'' VNull VNull)
       [(''etag'', VNull), (''last_modified'', VNull)])"
proof -
  have fields: "string_at sample_request ''source'' = ''huggingface''" "dict_at sample_request ''selection'' = whole_selection"
    "request_refs sample_request = [sample_ref]" "get_or_none sample_request ''revisions'' = VDict [(''org/model'', VNull)]"
    "get_or_none sample_request ''context'' = VDict sample_context"
    by (simp_all add: sample_request_def request_dict_def string_at_def dict_at_def request_refs_def sample_ref_def get_or_none_def)
  have revisions: "observed_revisions observed_snapshot = [(''org/model'', VNull)]"
    using observed_records observed_entry_fields by (simp add: observed_revisions_def del: get_or_none_eq)
  have "py_eq (VDict sample_context) (VDict sample_context)" by (rule py_eq_refl) (simp add: sample_context_def)
  moreover have "exact_request (VDict sample_request) = Inr sample_request"
    using cache_request_exact [OF sample_request_made] by blast
  ultimately show ?thesis
    using sample_manifest_facts(8) [of "''synthetic''" VNull VNull]
    by (simp add: make_cache_def observed_snapshot_copy sample_observation synthetic_accepted observed_snapshot_digest
        unknown_validators fields revisions del: get_or_none_eq)
qed

lemma built_cache_validates_witness:
  "validate_cache flat_hashing flat_mac any_clock ''later'' enrolled
     (VDict (cache_dict sample_request observed_snapshot zeros (sample_manifest ''synthetic'' VNull VNull)
       [(''etag'', VNull), (''last_modified'', VNull)]))
   = Inr (cache_dict sample_request observed_snapshot zeros (sample_manifest ''synthetic'' VNull VNull)
       [(''etag'', VNull), (''last_modified'', VNull)])"
  by (rule built_cache_validates [OF sample_cache])

end
