(* ===== verification/Checkpoints.thy ===== *)
theory Checkpoints
  imports Validated_Cache "HOL-Library.AList"
begin

section \<open>database/poc/discovery_checkpoints.py: append-only checkpoints on disk\<close>

text \<open>
  A checkpoint is one immutable file, named by the digests of the request and of the entry, in a private directory
  with one writer. The operating system is a parameter: the directories a path reaches without following links, the
  counts its \<open>write\<close> calls return, whether \<open>fsync\<close> and \<open>rename\<close> succeed, the random name of the temporary file, and
  whether another process holds the writer lock. A step of the code that the system interrupts raises \<open>OSError\<close>.
\<close>

definition CHECKPOINT_FORMAT :: string where "CHECKPOINT_FORMAT = ''pepeuch-ai.discovery-checkpoint/v1''"
definition MAX_BYTES :: int where "MAX_BYTES = 16 * 1024 * 1024"

datatype node_kind = Regular | Symlink | Special

record node =
  nd_kind :: node_kind
  nd_owner :: nat
  nd_links :: nat
  nd_mode :: nat
  nd_data :: string

record directory =
  dr_owner :: nat
  dr_mode :: nat
  dr_locked :: bool
  dr_files :: "(string \<times> node) list"

record system =
  sy_uid :: nat
  sy_token :: string
  sy_writes :: "int list"
  sy_fsync :: bool
  sy_rename :: bool
  sy_sync_dir :: bool

type_synonym tree = "string list \<Rightarrow> directory option"

definition os_error :: "'a res" where "os_error = Inl (Raised ''OSError'')"

definition private_mode :: "nat \<Rightarrow> bool" where "private_mode m = (m mod 64 = 0)"

definition path_parts :: "string \<Rightarrow> string list" where
  "path_parts s = filter (\<lambda>c. c \<noteq> [] \<and> c \<noteq> ''.'') (split_on (CHR ''/'') s)"

definition open_directory :: "system \<Rightarrow> tree \<Rightarrow> string \<Rightarrow> (string list \<times> directory) res" where
  \<comment> \<open>\<open>_directory\<close>: the tree holds what opening each component with \<open>O_NOFOLLOW\<close> reaches\<close>
  "open_directory sys t raw =
     rbind (must (starts_with ''/'' raw \<and> ''..'' \<notin> set (split_on (CHR ''/'') raw))) (\<lambda>_.
     rbind (present (t (path_parts raw)) ''OSError'') (\<lambda>d.
     rbind (must (dr_owner d = sy_uid sys \<and> private_mode (dr_mode d))) (\<lambda>_.
     Inr (path_parts raw, d))))"

definition regular_file :: "system \<Rightarrow> node \<Rightarrow> unit res" where
  "regular_file sys n =
     must (nd_kind n = Regular \<and> nd_owner n = sy_uid sys \<and> nd_links n = 1 \<and> private_mode (nd_mode n))"

definition open_file :: "directory \<Rightarrow> string \<Rightarrow> node res" where
  "open_file d name =
     rbind (present (map_of (dr_files d) name) ''FileNotFoundError'') (\<lambda>n.
     if nd_kind n = Symlink then os_error else Inr n)"

definition read_file :: "system \<Rightarrow> directory \<Rightarrow> string \<Rightarrow> string res" where
  \<comment> \<open>\<open>_read\<close>; the size and the data are those of one instant\<close>
  "read_file sys d name =
     rbind (open_file d name) (\<lambda>n.
     rbind (regular_file sys n) (\<lambda>_.
     rbind (must (int (length (nd_data n)) \<le> MAX_BYTES)) (\<lambda>_. Inr (nd_data n))))"

definition new_node :: "system \<Rightarrow> string \<Rightarrow> node" where
  \<comment> \<open>a file created with mode \<open>0o600\<close>\<close>
  "new_node sys data = \<lparr>nd_kind = Regular, nd_owner = sy_uid sys, nd_links = 1, nd_mode = 384, nd_data = data\<rparr>"

definition put_file :: "string \<Rightarrow> node \<Rightarrow> directory \<Rightarrow> directory" where
  "put_file name n d = d\<lparr>dr_files := AList.update name n (dr_files d)\<rparr>"

definition remove_file :: "string \<Rightarrow> directory \<Rightarrow> directory" where
  "remove_file name d = d\<lparr>dr_files := AList.delete name (dr_files d)\<rparr>"

definition LOCK :: string where "LOCK = ''.writer.lock''"

definition lock_directory :: "system \<Rightarrow> directory \<Rightarrow> unit res \<times> directory" where
  \<comment> \<open>\<open>_writer\<close>, up to the \<open>yield\<close>\<close>
  "lock_directory sys d =
     (let d' = (if map_of (dr_files d) LOCK = None then put_file LOCK (new_node sys []) d else d) in
      (rbind (open_file d' LOCK) (\<lambda>n. rbind (regular_file sys n) (\<lambda>_. must (\<not> dr_locked d))), d'))"

fun write_all :: "int list \<Rightarrow> string \<Rightarrow> string \<Rightarrow> string option" where
  \<comment> \<open>what has been written when the loop ends; \<open>None\<close> where a call fails or writes nothing\<close>
  "write_all counts written [] = Some written"
| "write_all [] written (b # bs) = None"
| "write_all (c # counts) written (b # bs) =
     (if c \<le> 0 then None else write_all counts (written @ take (nat c) (b # bs)) (drop (nat c) (b # bs)))"

definition publish_file :: "system \<Rightarrow> string \<Rightarrow> string \<Rightarrow> directory \<Rightarrow> unit res \<times> directory" where
  \<comment> \<open>from the temporary file to the rename and the sync of the directory; the temporary file never stays\<close>
  "publish_file sys name raw d =
     (let temporary = ''.pending-'' @ sy_token sys in
      if map_of (dr_files d) temporary \<noteq> None then (Inl (Raised ''FileExistsError''), d)
      else let d1 = put_file temporary (new_node sys []) d in
        case write_all (sy_writes sys) [] raw of
          None \<Rightarrow> (os_error, remove_file temporary d1)
        | Some written \<Rightarrow>
            let d2 = put_file temporary (new_node sys written) d1 in
            if \<not> sy_fsync sys \<or> \<not> sy_rename sys then (os_error, remove_file temporary d2)
            else let d3 = put_file name (new_node sys written) (remove_file temporary d2) in
              if sy_sync_dir sys then (Inr (), d3) else (os_error, d3))"

definition save_file :: "system \<Rightarrow> string \<Rightarrow> string \<Rightarrow> directory \<Rightarrow> unit res \<times> directory" where
  \<comment> \<open>under the writer lock: an equal file is kept, another one is a conflict\<close>
  "save_file sys name raw d =
     (case lock_directory sys d of
        (Inl e, d') \<Rightarrow> (Inl e, d')
      | (Inr _, d') \<Rightarrow>
          (case read_file sys d' name of
             Inr existing \<Rightarrow> (must (existing = raw), d')
           | Inl e \<Rightarrow> if e = Raised ''FileNotFoundError'' then publish_file sys name raw d' else (Inl e, d')))"

definition checkpoint_document :: "string \<Rightarrow> string \<Rightarrow> dict \<Rightarrow> val" where
  "checkpoint_document request_hash entry_hash entry =
     VDict [(''format'', VStr CHECKPOINT_FORMAT), (''request_sha256'', VStr request_hash), (''entry_sha256'', VStr entry_hash),
       (''entry'', VDict entry)]"

definition prepare_checkpoint ::
  "hashing \<Rightarrow> mac \<Rightarrow> clock_reader \<Rightarrow> string \<Rightarrow> issuers \<Rightarrow> val \<Rightarrow> (string \<times> string) exres" where
  \<comment> \<open>the identity and the bytes, before anything is written\<close>
  "prepare_checkpoint h mac clk now trusted entry0 =
     xbind (validate_cache h mac clk now trusted entry0) (\<lambda>entry.
     xbind (raised (json_digest h (get_or_none entry ''request''))) (\<lambda>request_hash.
     xbind (raised (json_digest h (VDict entry))) (\<lambda>entry_hash.
     xbind (raised (canonical_json h (checkpoint_document request_hash entry_hash entry))) (\<lambda>text.
     xbind (raised (must (int (length (utf8 text)) \<le> MAX_BYTES))) (\<lambda>_.
     Inr (request_hash @ ''.'' @ entry_hash, utf8 text))))))"

definition save_checkpoint ::
  "hashing \<Rightarrow> mac \<Rightarrow> clock_reader \<Rightarrow> string \<Rightarrow> issuers \<Rightarrow> system \<Rightarrow> string \<Rightarrow> val \<Rightarrow> tree \<Rightarrow> string exres \<times> tree" where
  "save_checkpoint h mac clk now trusted sys folder entry0 t =
     (case prepare_checkpoint h mac clk now trusted entry0 of
        Inl e \<Rightarrow> (Inl e, t)
      | Inr (checkpoint_name, raw) \<Rightarrow>
          (case raised (open_directory sys t folder) of
             Inl e \<Rightarrow> (Inl e, t)
           | Inr (path, d) \<Rightarrow>
               (case save_file sys (checkpoint_name @ ''.json'') raw d of
                  (r, d') \<Rightarrow> (xbind (raised r) (\<lambda>_. Inr checkpoint_name), t(path \<mapsto> d')))))"

subsection \<open>Loading\<close>

definition checkpoint_id :: "string \<Rightarrow> bool" where
  "checkpoint_id s = (length s = 129 \<and> hex_string 64 (take 64 s) \<and> s ! 64 = CHR ''.'' \<and> hex_string 64 (drop 65 s))"

definition CHECKPOINT_KEYS :: "string list" where
  "CHECKPOINT_KEYS = [''format'', ''request_sha256'', ''entry_sha256'', ''entry'']"

definition load_checkpoint ::
  "hashing \<Rightarrow> mac \<Rightarrow> clock_reader \<Rightarrow> string \<Rightarrow> issuers \<Rightarrow> (string \<Rightarrow> val option) \<Rightarrow> system \<Rightarrow> string \<Rightarrow> val \<Rightarrow> val \<Rightarrow> tree \<Rightarrow> dict exres" where
  \<comment> \<open>\<open>loads\<close> decodes UTF-8 and parses JSON\<close>
  "load_checkpoint h mac clk now trusted loads sys folder request0 identity0 t =
     xbind (raised (exact_request request0)) (\<lambda>request.
     xbind (raised (needed (as_str identity0))) (\<lambda>checkpoint_name.
     xbind (raised (must (checkpoint_id checkpoint_name))) (\<lambda>_.
     xbind (raised (json_digest h (VDict request))) (\<lambda>request_hash.
     xbind (raised (must (take 64 checkpoint_name = request_hash))) (\<lambda>_.
     xbind (raised (open_directory sys t folder)) (\<lambda>(path, d).
     xbind (raised (read_file sys d (checkpoint_name @ ''.json''))) (\<lambda>raw.
     xbind (raised (strict_json_loads loads raw)) (\<lambda>tree_value.
     xbind (raised (copy_metadata tree_value)) (\<lambda>copied.
     xbind (raised (needed (as_dict copied))) (\<lambda>data.
     xbind (raised (must (exact_keys data CHECKPOINT_KEYS \<and> get_or_none data ''format'' = VStr CHECKPOINT_FORMAT
                          \<and> get_or_none data ''request_sha256'' = VStr request_hash))) (\<lambda>_.
     xbind (raised (json_digest h (get_or_none data ''entry''))) (\<lambda>entry_hash.
     xbind (raised (must (get_or_none data ''entry_sha256'' = VStr entry_hash \<and> checkpoint_name = request_hash @ ''.'' @ entry_hash))) (\<lambda>_.
     xbind (validate_cache h mac clk now trusted (get_or_none data ''entry'')) (\<lambda>entry.
     xbind (raised (must (py_eq (get_or_none entry ''request'') (VDict request)))) (\<lambda>_. Inr entry)))))))))))))))"

subsection \<open>Files are immutable\<close>

lemma write_all_complete: "write_all counts written raw = Some out \<Longrightarrow> out = written @ raw"
proof (induction counts written raw rule: write_all.induct)
  case (3 c counts written b bs)
  then have "write_all counts (written @ take (nat c) (b # bs)) (drop (nat c) (b # bs)) = Some out" "0 < c"
    by (auto split: if_splits)
  with 3(1) have "out = (written @ take (nat c) (b # bs)) @ drop (nat c) (b # bs)" by simp
  then show ?case by (simp only: append_assoc append_take_drop_id)
qed auto

lemma put_file_lookup: "map_of (dr_files (put_file name n d)) = (map_of (dr_files d))(name \<mapsto> n)"
  by (simp add: put_file_def update_conv')

lemma remove_file_lookup: "map_of (dr_files (remove_file name d)) = (map_of (dr_files d))(name := None)"
  by (simp add: remove_file_def delete_conv')

lemmas file_lookups = put_file_lookup remove_file_lookup

definition appended :: "system \<Rightarrow> string \<Rightarrow> string \<Rightarrow> directory \<Rightarrow> directory \<Rightarrow> bool" where
  \<comment> \<open>nothing but the lock and one complete private file under the name may be new, and no file changes\<close>
  "appended sys name raw d d' \<longleftrightarrow>
     map_of (dr_files d) \<subseteq>\<^sub>m map_of (dr_files d')
     \<and> (\<forall>n. n \<in> dom (map_of (dr_files d')) - dom (map_of (dr_files d)) \<longrightarrow>
          (n = LOCK \<and> map_of (dr_files d') n = Some (new_node sys []))
          \<or> (n = name \<and> map_of (dr_files d') n = Some (new_node sys raw)))"

lemma appended_refl: "appended sys name raw d d"
  by (simp add: appended_def)

lemma appended_remove_put:
  assumes "map_of (dr_files d) t = None"
  shows "map_of (dr_files (remove_file t (put_file t n d))) = map_of (dr_files d)"
  using assms by (auto simp: file_lookups fun_eq_iff)

lemma lock_directory_appended: "appended sys name raw d (snd (lock_directory sys d))"
  by (auto simp: lock_directory_def Let_def appended_def file_lookups map_le_def)

lemma publish_file_appended:
  assumes "map_of (dr_files d) name = None"
  shows "map_of (dr_files (snd (publish_file sys name raw d))) = map_of (dr_files d)
    \<or> map_of (dr_files (snd (publish_file sys name raw d))) = (map_of (dr_files d))(name \<mapsto> new_node sys raw)"
  using assms by (auto simp: publish_file_def Let_def file_lookups fun_eq_iff dest!: write_all_complete split: option.split)

lemma publish_file_success:
  assumes "fst (publish_file sys name raw d) = Inr ()"
  shows "map_of (dr_files (snd (publish_file sys name raw d))) name = Some (new_node sys raw)"
  using assms by (auto simp: publish_file_def Let_def file_lookups os_error_def dest!: write_all_complete
    split: option.splits if_splits)

lemma read_file_missing:
  "read_file sys d name = Inl (Raised ''FileNotFoundError'') \<Longrightarrow> map_of (dr_files d) name = None"
  by (auto simp: read_file_def open_file_def present_def regular_file_def must_def invalid_def os_error_def rbind_def
    split: option.splits if_splits)

lemma read_new_file:
  assumes "map_of (dr_files d) name = Some (new_node sys raw)" "int (length raw) \<le> MAX_BYTES"
  shows "read_file sys d name = Inr raw"
  using assms by (simp add: read_file_def open_file_def new_node_def regular_file_def must_def private_mode_def)

end
