(* ===== verification/Checkpoint_Guarantees.thy ===== *)
theory Checkpoint_Guarantees
  imports Checkpoints
begin

section \<open>Guarantees of the checkpoint directory\<close>

text \<open>
  Whatever the system does (short writes, a failed sync or rename, another writer), a checkpoint appears whole or not
  at all, and no file that is there is ever changed or removed.
\<close>

lemma lock_directory_lookup:
  assumes "name \<noteq> LOCK"
  shows "map_of (dr_files (snd (lock_directory sys d))) name = map_of (dr_files d) name"
  using assms by (simp add: lock_directory_def Let_def file_lookups)

lemma read_file_lookup:
  "map_of (dr_files d) name = map_of (dr_files d') name \<Longrightarrow> read_file sys d name = read_file sys d' name"
  by (simp add: read_file_def open_file_def)

lemma appended_add:
  assumes "appended sys name raw d d'" "map_of (dr_files d') name = None"
    and "map_of (dr_files d'') = map_of (dr_files d') \<or> map_of (dr_files d'') = (map_of (dr_files d'))(name \<mapsto> new_node sys raw)"
  shows "appended sys name raw d d''"
proof -
  let ?m = "map_of (dr_files d)" and ?m' = "map_of (dr_files d')"
  have kept: "?m \<subseteq>\<^sub>m ?m'" using assms(1) by (simp add: appended_def)
  then have "?m \<subseteq>\<^sub>m ?m'(name \<mapsto> new_node sys raw)"
    using assms(2) unfolding map_le_def by (metis domIff fun_upd_other)
  moreover have "n \<in> dom (?m'(name \<mapsto> new_node sys raw)) - dom ?m \<Longrightarrow> n \<noteq> name \<Longrightarrow> n \<in> dom ?m' - dom ?m" for n
    by auto
  ultimately have "appended sys name raw d d''" if "map_of (dr_files d'') = ?m'(name \<mapsto> new_node sys raw)"
    using assms(1) unfolding appended_def that by (metis fun_upd_apply)
  moreover have "appended sys name raw d d''" if "map_of (dr_files d'') = ?m'"
    using assms(1) unfolding appended_def that .
  ultimately show ?thesis using assms(3) by blast
qed

lemma save_file_appended:
  assumes "name \<noteq> LOCK"
  shows "appended sys name raw d (snd (save_file sys name raw d))"
proof -
  obtain r d' where lock: "lock_directory sys d = (r, d')" by fastforce
  have kept: "appended sys name raw d d'" using lock_directory_appended [of sys name raw d] lock by simp
  show ?thesis
  proof (cases r)
    case (Inr u)
    show ?thesis
    proof (cases "read_file sys d' name = Inl (Raised ''FileNotFoundError'')")
      case True
      then show ?thesis
        using lock Inr appended_add [OF kept read_file_missing [OF True] publish_file_appended [OF read_file_missing [OF True]]]
        by (simp add: save_file_def)
    next
      case False
      then show ?thesis using lock Inr kept by (simp add: save_file_def split: sum.split)
    qed
  qed (use lock kept in \<open>simp add: save_file_def\<close>)
qed

lemma save_file_reads_back:
  assumes "fst (save_file sys name raw d) = Inr ()" "int (length raw) \<le> MAX_BYTES"
  shows "read_file sys (snd (save_file sys name raw d)) name = Inr raw"
proof -
  obtain r d' where lock: "lock_directory sys d = (r, d')" by fastforce
  obtain u where r: "r = Inr u" using assms(1) lock by (cases r) (simp_all add: save_file_def)
  show ?thesis
  proof (cases "read_file sys d' name")
    case (Inl e)
    with assms(1) lock r have "e = Raised ''FileNotFoundError''" "fst (publish_file sys name raw d') = Inr ()"
      by (simp_all add: save_file_def split: if_splits)
    then show ?thesis using lock r Inl publish_file_success read_new_file assms(2) by (simp add: save_file_def)
  next
    case (Inr existing)
    then show ?thesis using assms(1) lock r by (simp add: save_file_def)
  qed
qed

lemma checkpoint_is_not_lock: "s @ ''.json'' \<noteq> LOCK"
proof
  assume "s @ ''.json'' = LOCK"
  then have "last (s @ ''.json'') = last LOCK" by simp
  then show False by (simp add: LOCK_def)
qed

lemma prepared_is_bounded:
  "prepare_checkpoint h mac clk now trusted entry0 = Inr (checkpoint_name, raw) \<Longrightarrow> int (length raw) \<le> MAX_BYTES"
  by (auto simp: prepare_checkpoint_def)

text \<open>
  C34. Checkpoints are immutable and whole. Saving one either leaves the tree as it was and fails, or touches only the
  directory named, where every file already present is kept and nothing is added but the lock and the complete bytes of
  this checkpoint under its own name; and when it reports success, reading that name gives exactly those bytes.
\<close>

theorem checkpoints_are_whole:
  "case save_checkpoint h mac clk now trusted sys folder entry0 t of
     (Inl e, t') \<Rightarrow> t' = t
       \<or> (\<exists>checkpoint_name raw path d d'. prepare_checkpoint h mac clk now trusted entry0 = Inr (checkpoint_name, raw)
            \<and> open_directory sys t folder = Inr (path, d) \<and> t' = t(path \<mapsto> d')
            \<and> appended sys (checkpoint_name @ ''.json'') raw d d')
   | (Inr checkpoint_name, t') \<Rightarrow>
       \<exists>raw path d d'. prepare_checkpoint h mac clk now trusted entry0 = Inr (checkpoint_name, raw)
         \<and> open_directory sys t folder = Inr (path, d) \<and> t' = t(path \<mapsto> d')
         \<and> appended sys (checkpoint_name @ ''.json'') raw d d' \<and> read_file sys d' (checkpoint_name @ ''.json'') = Inr raw"
proof (cases "prepare_checkpoint h mac clk now trusted entry0")
  case (Inr made)
  obtain checkpoint_name raw where made: "made = (checkpoint_name, raw)" by fastforce
  note bound = prepared_is_bounded [OF Inr [unfolded made]]
  show ?thesis
  proof (cases "open_directory sys t folder")
    case opened: (Inr p)
    obtain path d where p: "p = (path, d)" by fastforce
    obtain r d' where run: "save_file sys (checkpoint_name @ ''.json'') raw d = (r, d')" by fastforce
    have kept: "appended sys (checkpoint_name @ ''.json'') raw d d'"
      using save_file_appended [OF checkpoint_is_not_lock] run by (metis snd_conv)
    have "read_file sys d' (checkpoint_name @ ''.json'') = Inr raw" if "r = Inr ()"
      using save_file_reads_back [of sys "checkpoint_name @ ''.json''" raw d] run that bound by simp
    then show ?thesis
      using Inr made opened p run kept by (cases r) (auto simp: save_checkpoint_def raised_def split: err.split)
  qed (use Inr made in \<open>simp add: save_checkpoint_def raised_def split: err.split\<close>)
qed (simp add: save_checkpoint_def)

end
