(* ===== verification/Deliveries.thy ===== *)
theory Deliveries
  imports Metadata "HOL-Library.Sublist"
begin

section \<open>database/poc: SQL batches with confirmed delivery\<close>

text \<open>
  \<open>sql_batches\<close> of \<open>isolated_bench_workload.py\<close>, \<open>confirmed_sql_batches.py\<close> and \<open>isolated_bench_ingestion.py\<close>. The
  engine is a parameter: the actions that send a batch and read its receipt back, over a state of any type. A generator
  is the list of what it yields; the first exception of one ends the caller.
\<close>

subsection \<open>Batches of whole statements\<close>

definition statement_size :: "string \<Rightarrow> nat" where "statement_size s = length (utf8 s) + 1"

definition join_lines :: "string list \<Rightarrow> string" where "join_lines = join_with [CHR 0x0A]"

fun batch_loop :: "nat \<Rightarrow> nat \<Rightarrow> string list \<Rightarrow> nat \<Rightarrow> string list \<Rightarrow> string list list res" where
  \<comment> \<open>the open batch and its size; a batch is yielded before it is joined\<close>
  "batch_loop max_bytes max_statements batch used [] = Inr (if batch = [] then [] else [batch])"
| "batch_loop max_bytes max_statements batch used (s # ss) =
     (if max_bytes < statement_size s then invalid
      else if batch \<noteq> [] \<and> (max_bytes < used + statement_size s \<or> max_statements \<le> length batch)
      then rbind (batch_loop max_bytes max_statements [s] (statement_size s) ss) (\<lambda>bs. Inr (batch # bs))
      else batch_loop max_bytes max_statements (batch @ [s]) (used + statement_size s) ss)"

definition sql_batches :: "nat \<Rightarrow> nat \<Rightarrow> string list \<Rightarrow> string list res" where
  "sql_batches max_bytes max_statements statements =
     rbind (batch_loop max_bytes max_statements [] 0 statements) (\<lambda>bs. Inr (map join_lines bs))"

subsection \<open>Plans\<close>

definition MAX_BODY_BYTES :: nat where "MAX_BODY_BYTES = 512 * 1024"
definition RESERVED_BYTES :: nat where "RESERVED_BYTES = 2048"

record batch =
  bt_id :: string
  bt_seq :: nat
  bt_sql :: string
  bt_sha :: string
  bt_bytes :: nat

definition receipt :: "batch \<Rightarrow> dict" where
  "receipt b = [(''batch_id'', VStr (bt_id b)), (''seq_no'', VInt (int (bt_seq b))), (''payload_sha256'', VStr (bt_sha b)),
     (''body_bytes'', VInt (int (bt_bytes b)))]"

definition batch_id :: "nat \<Rightarrow> string" where
  \<comment> \<open>\<open>f"b{index:06d}"\<close>\<close>
  "batch_id i = ''b'' @ replicate (6 - length (nat_digits i)) (CHR ''0'') @ nat_digits i"

definition make_batch :: "hashing \<Rightarrow> nat \<Rightarrow> string \<Rightarrow> batch" where
  "make_batch h i sql = \<lparr>bt_id = batch_id i, bt_seq = i, bt_sql = sql, bt_sha = hs_sha h (utf8 sql), bt_bytes = length (utf8 sql)\<rparr>"

definition plan_batches :: "hashing \<Rightarrow> nat \<Rightarrow> string list \<Rightarrow> batch list res" where
  "plan_batches h max_statements statements =
     rbind (sql_batches (MAX_BODY_BYTES - RESERVED_BYTES) max_statements statements) (\<lambda>sqls.
     rbind (must (sqls \<noteq> [])) (\<lambda>_.
     Inr (map (\<lambda>(i, sql). make_batch h i sql) (enumerate 0 sqls))))"

definition manifest_sha256 :: "hashing \<Rightarrow> batch list \<Rightarrow> string res" where
  \<comment> \<open>\<open>ensure_ascii\<close> does not show: identifiers and digests are ASCII\<close>
  "manifest_sha256 h batches =
     rbind (canon (hs_frepr h) (VList (map (VDict \<circ> receipt) batches))) (\<lambda>s. Inr (hs_sha h (utf8 s)))"

subsection \<open>Delivery\<close>

definition matches :: "hashing \<Rightarrow> val \<Rightarrow> dict \<Rightarrow> bool res" where
  \<comment> \<open>two values print the same with sorted keys, whatever the separators\<close>
  "matches h given wanted =
     rbind (canon (hs_frepr h) given) (\<lambda>a. rbind (canon (hs_frepr h) (VDict wanted)) (\<lambda>b. Inr (a = b)))"

fun matching_prefix :: "hashing \<Rightarrow> val list \<Rightarrow> batch list \<Rightarrow> bool res" where
  "matching_prefix h (r # rs) (b # bs) =
     rbind (matches h r (receipt b)) (\<lambda>same. if same then matching_prefix h rs bs else Inr False)"
| "matching_prefix h _ _ = Inr True"

record 'e engine =
  en_send :: "batch \<Rightarrow> ('e, unit) act"
  en_confirm :: "batch \<Rightarrow> ('e, val) act"
  en_receipt :: "val \<Rightarrow> ('e, unit) act"

definition confirm_batch :: "hashing \<Rightarrow> 'e engine \<Rightarrow> batch \<Rightarrow> ('e, val) act" where
  "confirm_batch h en b =
     abind (en_send en b) (\<lambda>_.
     abind (en_confirm en b) (\<lambda>r.
     abind (lift (matches h r (receipt b))) (\<lambda>same.
     abind (lift (must same)) (\<lambda>_. ret r))))"

fun deliver_loop :: "hashing \<Rightarrow> 'e engine \<Rightarrow> int option \<Rightarrow> int \<Rightarrow> batch list \<Rightarrow> ('e, int) act" where
  "deliver_loop h en interrupt_after applied [] = ret applied"
| "deliver_loop h en interrupt_after applied (b # bs) =
     abind (confirm_batch h en b) (\<lambda>r.
     abind (en_receipt en r) (\<lambda>_.
     if interrupt_after = Some (applied + 1) then fail (Raised ''DeliveryInterrupted'')
     else deliver_loop h en interrupt_after (applied + 1) bs))"

definition valid_interruption :: "val \<Rightarrow> nat \<Rightarrow> int option res" where
  "valid_interruption v pending_count =
     (if v = VNull then Inr None
      else rbind (needed (as_int v)) (\<lambda>i. rbind (must (0 < i \<and> i < int pending_count)) (\<lambda>_. Inr (Some i))))"

definition resumption :: "hashing \<Rightarrow> batch list \<Rightarrow> val list \<Rightarrow> val \<Rightarrow> int option res" where
  \<comment> \<open>the checks of \<open>deliver\<close> before the first send\<close>
  "resumption h batches existing interrupt_after =
     rbind (must (length existing \<le> length batches)) (\<lambda>_.
     rbind (matching_prefix h existing batches) (\<lambda>same.
     rbind (must same) (\<lambda>_. valid_interruption interrupt_after (length batches - length existing))))"

definition deliver ::
  "hashing \<Rightarrow> 'e engine \<Rightarrow> batch list \<Rightarrow> val list \<Rightarrow> val \<Rightarrow> ('e, dict) act" where
  "deliver h en batches existing interrupt_after =
     abind (lift (resumption h batches existing interrupt_after)) (\<lambda>stop.
     abind (deliver_loop h en stop 0 (drop (length existing) batches)) (\<lambda>applied.
     abind (lift (manifest_sha256 h batches)) (\<lambda>sha.
     ret [(''planned'', VInt (int (length batches))), (''already_acknowledged'', VInt (int (length existing))),
          (''applied'', VInt applied), (''manifest_sha256'', VStr sha), (''verified'', VBool True)])))"

subsection \<open>Ingestion into a database\<close>

datatype sql_engine = Postgresql | Surrealdb

definition RECEIPT_FIELDS :: string where "RECEIPT_FIELDS = ''batch_id,payload_sha256,seq_no,body_bytes''"

definition insert_receipt :: "hashing \<Rightarrow> sql_engine \<Rightarrow> dict \<Rightarrow> string res" where
  "insert_receipt h kind r =
     rbind (canon (hs_frepr h) (VDict r)) (\<lambda>raw.
     case kind of
       Postgresql \<Rightarrow>
         Inr (''INSERT INTO bench_batch_receipt SELECT * FROM jsonb_to_record('' @ [CHR 0x27] @ raw @ [CHR 0x27] @ ''::jsonb) AS x(''
              @ ''batch_id text,payload_sha256 text,seq_no integer,body_bytes integer);'')
     | Surrealdb \<Rightarrow>
         rbind (needed (as_str (get_or_none r ''batch_id''))) (\<lambda>i.
         Inr (''CREATE bench_batch_receipt:'' @ i @ '' CONTENT '' @ raw @ '' RETURN NONE;'')))"

definition transaction :: "hashing \<Rightarrow> sql_engine \<Rightarrow> batch \<Rightarrow> bool \<Rightarrow> string res" where
  \<comment> \<open>the batch and its receipt in one transaction\<close>
  "transaction h kind b inject_failure =
     (let failure = (case kind of Postgresql \<Rightarrow> ''SELECT 1/0;'' | Surrealdb \<Rightarrow> ''THROW '' @ [CHR 0x27] @ ''synthetic-atomic-batch-failure'' @ [CHR 0x27] @ '';'');
          begins = (case kind of Postgresql \<Rightarrow> ''BEGIN;'' | Surrealdb \<Rightarrow> ''BEGIN TRANSACTION;'');
          commits = (case kind of Postgresql \<Rightarrow> ''COMMIT;'' | Surrealdb \<Rightarrow> ''COMMIT TRANSACTION;'') in
      rbind (insert_receipt h kind (receipt b)) (\<lambda>stored.
      let body = begins @ [CHR 0x0A] @ bt_sql b @ [CHR 0x0A] @ (if inject_failure then failure @ [CHR 0x0A] else []) @ stored
                 @ [CHR 0x0A] @ commits in
      rbind (must (length (utf8 body) \<le> MAX_BODY_BYTES)) (\<lambda>_. Inr body)))"

record 'e client =
  cl_sql :: "string \<Rightarrow> ('e, unit) act"
  cl_query :: "string \<Rightarrow> ('e, val list) act"

definition manifest_receipt :: "hashing \<Rightarrow> batch list \<Rightarrow> dict res" where
  "manifest_receipt h batches =
     rbind (manifest_sha256 h batches) (\<lambda>sha.
     Inr [(''batch_id'', VStr ''manifest''), (''payload_sha256'', VStr sha), (''seq_no'', VInt (-1)), (''body_bytes'', VInt 0)])"

definition receipts_where :: "string \<Rightarrow> string" where
  "receipts_where condition = ''SELECT '' @ RECEIPT_FIELDS @ '' FROM bench_batch_receipt WHERE '' @ condition"

definition quoted_id :: "string \<Rightarrow> string" where "quoted_id i = [CHR 0x27] @ i @ [CHR 0x27]"

definition claim_manifest :: "hashing \<Rightarrow> 'e client \<Rightarrow> sql_engine \<Rightarrow> dict \<Rightarrow> ('e, unit) act" where
  \<comment> \<open>the database is bound to one manifest before its first batch\<close>
  "claim_manifest h cl kind manifest =
     (let query = receipts_where (''batch_id='' @ quoted_id ''manifest''); same = (\<lambda>rows. py_eq (VList rows) (VList [VDict manifest])) in
      abind (cl_query cl query) (\<lambda>current.
      if current \<noteq> [] then lift (must (same current))
      else abind (lift (insert_receipt h kind manifest)) (\<lambda>statement.
           abind (cl_sql cl statement) (\<lambda>_.
           abind (cl_query cl query) (\<lambda>confirmed. lift (must (same confirmed)))))))"

definition client_engine :: "hashing \<Rightarrow> 'e client \<Rightarrow> sql_engine \<Rightarrow> (val \<Rightarrow> ('e, unit) act) \<Rightarrow> 'e engine" where
  "client_engine h cl kind on_receipt =
     \<lparr>en_send = (\<lambda>b. abind (lift (transaction h kind b False)) (cl_sql cl)),
      en_confirm = (\<lambda>b. abind (cl_query cl (receipts_where (''batch_id='' @ quoted_id (bt_id b)))) (\<lambda>rows.
                     ret (case rows of [r] \<Rightarrow> r | _ \<Rightarrow> VNull))),
      en_receipt = on_receipt\<rparr>"

definition ingest ::
  "hashing \<Rightarrow> 'e client \<Rightarrow> sql_engine \<Rightarrow> batch list \<Rightarrow> (val \<Rightarrow> ('e, unit) act) \<Rightarrow> val \<Rightarrow> ('e, dict) act" where
  "ingest h cl kind batches on_receipt interrupt_after =
     abind (lift (manifest_receipt h batches)) (\<lambda>manifest.
     abind (claim_manifest h cl kind manifest) (\<lambda>_.
     abind (cl_query cl (receipts_where (''batch_id!='' @ quoted_id ''manifest'' @ '' ORDER BY seq_no''))) (\<lambda>existing.
     deliver h (client_engine h cl kind on_receipt) batches existing interrupt_after)))"

end
