(* ===== verification/Delivery_Guarantees.thy ===== *)
theory Delivery_Guarantees
  imports Deliveries Snapshot_Guarantees
begin

section \<open>Guarantees of confirmed delivery\<close>

subsection \<open>Batches are complete and bounded\<close>

definition batch_size :: "string list \<Rightarrow> nat" where "batch_size ss = sum_list (map statement_size ss)"

definition fits :: "nat \<Rightarrow> nat \<Rightarrow> string list \<Rightarrow> bool" where
  "fits max_bytes max_statements ss \<longleftrightarrow> ss \<noteq> [] \<and> batch_size ss \<le> max_bytes \<and> length ss \<le> max 1 max_statements"

lemma batch_loop_complete:
  assumes "batch_loop mb ms batch used ss = Inr bs" "used = batch_size batch" "batch = [] \<or> fits mb ms batch"
  shows "concat bs = batch @ ss \<and> list_all (fits mb ms) bs"
  using assms
proof (induction mb ms batch used ss arbitrary: bs rule: batch_loop.induct)
  case (1 mb ms batch used)
  then show ?case by auto
next
  case (2 mb ms batch used s ss)
  have s: "\<not> mb < statement_size s" using "2.prems"(1) by (auto split: if_splits)
  show ?case
  proof (cases "batch \<noteq> [] \<and> (mb < used + statement_size s \<or> ms \<le> length batch)")
    case True
    then obtain rest where rest: "batch_loop mb ms [s] (statement_size s) ss = Inr rest" "bs = batch # rest"
      using "2.prems"(1) s by auto
    have "fits mb ms [s]" using s by (simp add: fits_def batch_size_def)
    with "2.IH"(1) [OF s True rest(1)] "2.prems"(3) rest(2) True show ?thesis by (simp add: batch_size_def)
  next
    case False
    have "fits mb ms (batch @ [s])" using s False "2.prems"(2,3) by (auto simp: fits_def batch_size_def)
    with "2.IH"(2) [OF s False] "2.prems" s False show ?thesis by (auto simp: batch_size_def)
  qed
qed

lemma utf8_append: "utf8 (a @ b) = utf8 a @ utf8 b"
  by (simp add: utf8_def)

lemma join_lines_size: "ss \<noteq> [] \<Longrightarrow> length (utf8 (join_lines ss)) + 1 = batch_size ss"
proof (induction ss rule: induct_list012)
  case (3 s s' ss)
  have "length (utf8 (CHR 0x0A # w)) = Suc (length (utf8 w))" for w
    by (simp add: utf8_def ord_def)
  with 3 show ?case by (simp add: join_lines_def batch_size_def statement_size_def utf8_append)
qed (simp_all add: join_lines_def batch_size_def statement_size_def)

lemma join_lines_append: "a \<noteq> [] \<Longrightarrow> b \<noteq> [] \<Longrightarrow> join_lines (a @ b) = join_lines a @ [CHR 0x0A] @ join_lines b"
proof (induction a rule: induct_list012)
  case (2 s)
  then show ?case by (cases b) (simp_all add: join_lines_def)
next
  case (3 s s' ss)
  then show ?case by (simp add: join_lines_def)
qed simp

lemma join_lines_concat: "list_all (\<lambda>ss. ss \<noteq> []) bs \<Longrightarrow> join_lines (map join_lines bs) = join_lines (concat bs)"
proof (induction bs rule: induct_list012)
  case (3 b b' bs)
  then have "join_lines (b @ concat (b' # bs)) = join_lines b @ [CHR 0x0A] @ join_lines (concat (b' # bs))"
    by (intro join_lines_append) auto
  with 3 show ?case by (simp add: join_lines_def)
qed (simp_all add: join_lines_def)

lemma sql_batches_complete:
  assumes "sql_batches mb ms statements = Inr sqls"
  shows "join_lines sqls = join_lines statements" "list_all (\<lambda>sql. length (utf8 sql) < mb) sqls"
proof -
  obtain bs where bs: "batch_loop mb ms [] 0 statements = Inr bs" "sqls = map join_lines bs"
    using assms by (auto simp: sql_batches_def)
  note loop = batch_loop_complete [OF bs(1)]
  have fit: "concat bs = statements" "list_all (fits mb ms) bs" using loop by (simp_all add: batch_size_def)
  then have "list_all (\<lambda>ss. ss \<noteq> []) bs" by (simp add: list_all_iff fits_def)
  then show "join_lines sqls = join_lines statements" using join_lines_concat bs(2) fit(1) by simp
  have "length (utf8 (join_lines ss)) < mb" if "ss \<in> set bs" for ss
    using that fit(2) join_lines_size [of ss] by (auto simp: list_all_iff fits_def)
  then show "list_all (\<lambda>sql. length (utf8 sql) < mb) sqls" by (simp add: bs(2) list_all_iff)
qed

lemma plan_batches_script:
  assumes "plan_batches h ms statements = Inr batches"
  shows "join_lines (map bt_sql batches) = join_lines statements" "map bt_seq batches = [0..<length batches]"
    "list_all (\<lambda>b. bt_bytes b = length (utf8 (bt_sql b)) \<and> bt_bytes b < MAX_BODY_BYTES - RESERVED_BYTES) batches"
proof -
  obtain sqls where sqls: "sql_batches (MAX_BODY_BYTES - RESERVED_BYTES) ms statements = Inr sqls"
    "batches = map (\<lambda>(i, sql). make_batch h i sql) (enumerate 0 sqls)"
    using assms by (auto simp: plan_batches_def)
  have texts: "map bt_sql batches = sqls" unfolding sqls(2) by (rule nth_equalityI) (simp_all add: make_batch_def nth_enumerate_eq)
  show "map bt_seq batches = [0..<length batches]"
    unfolding sqls(2) by (rule nth_equalityI) (simp_all add: make_batch_def nth_enumerate_eq)
  note whole = sql_batches_complete [OF sqls(1)]
  show "join_lines (map bt_sql batches) = join_lines statements" using whole(1) texts by simp
  have "bt_bytes b = length (utf8 (bt_sql b))" if "b \<in> set batches" for b
    using that by (auto simp: sqls(2) make_batch_def)
  with whole(2) texts show "list_all (\<lambda>b. bt_bytes b = length (utf8 (bt_sql b)) \<and> bt_bytes b < MAX_BODY_BYTES - RESERVED_BYTES) batches"
    by (fastforce simp: list_all_iff)
qed

subsection \<open>Each batch is applied once, in order\<close>

definition atomic_on :: "'e engine \<Rightarrow> ('e \<Rightarrow> batch list) \<Rightarrow> batch list \<Rightarrow> bool" where
  \<comment> \<open>a batch is applied as a whole or its send fails; reading a receipt applies nothing\<close>
  "atomic_on en applied batches \<longleftrightarrow>
     (\<forall>b e. b \<in> set batches \<longrightarrow> applied (snd (en_send en b e)) = applied e @ [b]
        \<or> (applied (snd (en_send en b e)) = applied e \<and> fst (en_send en b e) \<noteq> Inr ()))
     \<and> (\<forall>b e. applied (snd (en_confirm en b e)) = applied e) \<and> (\<forall>r e. applied (snd (en_receipt en r e)) = applied e)"

lemma confirm_batch_applies:
  assumes "atomic_on en applied batches" "b \<in> set batches" "confirm_batch h en b e = (r, e')"
  shows "applied e' = applied e @ [b] \<or> (applied e' = applied e \<and> \<not> is_ok r)"
proof -
  obtain r1 e1 where send: "en_send en b e = (r1, e1)" by fastforce
  obtain r2 e2 where conf: "en_confirm en b e1 = (r2, e2)" by fastforce
  have sent: "applied e1 = applied e @ [b] \<or> (applied e1 = applied e \<and> r1 \<noteq> Inr ())"
    using assms(1,2) send unfolding atomic_on_def by (metis fst_conv snd_conv)
  have "applied e2 = applied e1" using assms(1) conf unfolding atomic_on_def by (metis snd_conv)
  then show ?thesis
    using assms(3) send conf sent
    by (cases r1; cases r2) (auto simp: confirm_batch_def abind_def lift_def ret_def is_ok_def split: sum.splits prod.splits)
qed

lemma deliver_loop_applies:
  assumes "atomic_on en applied batches" "set bs \<subseteq> set batches" "deliver_loop h en stop n bs e = (r, e')"
  shows "\<exists>k \<le> length bs. applied e' = applied e @ take k bs \<and> (is_ok r \<longrightarrow> k = length bs)"
  using assms(2,3)
proof (induction bs arbitrary: n e)
  case Nil
  then show ?case by (auto simp: ret_def)
next
  case (Cons b bs)
  obtain r1 e1 where first: "confirm_batch h en b e = (r1, e1)" by fastforce
  have step: "applied e1 = applied e @ [b] \<or> (applied e1 = applied e \<and> \<not> is_ok r1)"
    using confirm_batch_applies [OF assms(1) _ first] Cons.prems(1) by simp
  show ?case
  proof (cases r1)
    case (Inl err)
    with Cons.prems first step have "applied e' = applied e @ take 1 (b # bs) \<or> applied e' = applied e @ take 0 (b # bs)" "\<not> is_ok r"
      by (auto simp: abind_def is_ok_def)
    then show ?thesis
    proof (elim disjE)
      assume "applied e' = applied e @ take 1 (b # bs)"
      with \<open>\<not> is_ok r\<close> show ?thesis by (intro exI [of _ 1]) simp
    next
      assume "applied e' = applied e @ take 0 (b # bs)"
      with \<open>\<not> is_ok r\<close> show ?thesis by (intro exI [of _ 0]) simp
    qed
  next
    case (Inr v)
    obtain r2 e2 where second: "en_receipt en v e1 = (r2, e2)" by fastforce
    have now: "applied e2 = applied e @ [b]"
      using assms(1) second step Inr unfolding atomic_on_def by (metis snd_conv is_ok_simps(1))
    have one: "applied e2 = applied e @ take 1 (b # bs)" using now by simp
    show ?thesis
    proof (cases "is_ok r2 \<and> stop \<noteq> Some (n + 1)")
      case True
      then have "deliver_loop h en stop (n + 1) bs e2 = (r, e')"
        using Cons.prems(2) first second Inr by (cases r2) (auto simp: abind_def is_ok_def)
      with Cons.IH [of "n + 1" e2] Cons.prems(1) obtain k where
        "k \<le> length bs" "applied e' = applied e2 @ take k bs" "is_ok r \<longrightarrow> k = length bs" by auto
      then show ?thesis using now by (intro exI [of _ "Suc k"]) simp
    next
      case False
      then have "e' = e2 \<and> \<not> is_ok r"
        using Cons.prems(2) first second Inr by (cases r2) (auto simp: abind_def is_ok_def fail_def)
      with one show ?thesis by (intro exI [of _ 1]) simp
    qed
  qed
qed

lemma deliver_applies:
  assumes "atomic_on en applied batches" "deliver h en batches existing stop e = (r, e')"
  shows "\<exists>k. applied e' = applied e @ take k (drop (length existing) batches)
    \<and> (is_ok r \<longrightarrow> applied e' = applied e @ drop (length existing) batches)"
proof (cases "resumption h batches existing stop")
  case (Inl err)
  with assms(2) show ?thesis by (intro exI [of _ 0]) (auto simp: deliver_def lift_def is_ok_def)
next
  case (Inr v)
  obtain r1 e1 where loop: "deliver_loop h en v 0 (drop (length existing) batches) e = (r1, e1)" by fastforce
  obtain k where k: "applied e1 = applied e @ take k (drop (length existing) batches)"
    "is_ok r1 \<longrightarrow> k = length (drop (length existing) batches)"
    using deliver_loop_applies [OF assms(1) _ loop] set_drop_subset by metis
  have "e' = e1 \<and> (is_ok r \<longrightarrow> is_ok r1)"
    using assms(2) Inr loop
    by (cases r1) (auto simp: deliver_def abind_def lift_def ret_def is_ok_def split: sum.splits prod.splits)
  with k show ?thesis by (intro exI [of _ k]) auto
qed

subsection \<open>Ingestion resumes without losing or repeating a batch\<close>

definition client_contract :: "hashing \<Rightarrow> 'e client \<Rightarrow> sql_engine \<Rightarrow> batch list \<Rightarrow> ('e \<Rightarrow> batch list) \<Rightarrow> bool" where
  \<comment> \<open>what an engine with transactions documents: the transaction of a batch takes effect as a whole or fails (it may
      also take effect and the answer be lost), the other statements apply no batch, a query changes nothing and the
      receipts are those of the batches applied\<close>
  "client_contract h cl kind batches applied \<longleftrightarrow>
     (\<forall>b text e. b \<in> set batches \<longrightarrow> transaction h kind b False = Inr text \<longrightarrow>
        applied (snd (cl_sql cl text e)) = applied e @ [b]
        \<or> (applied (snd (cl_sql cl text e)) = applied e \<and> fst (cl_sql cl text e) \<noteq> Inr ()))
     \<and> (\<forall>manifest text e. manifest_receipt h batches = Inr manifest \<longrightarrow> insert_receipt h kind manifest = Inr text \<longrightarrow>
        applied (snd (cl_sql cl text e)) = applied e)
     \<and> (\<forall>q e. applied (snd (cl_query cl q e)) = applied e)
     \<and> (\<forall>rows e. fst (cl_query cl (receipts_where (''batch_id!='' @ quoted_id ''manifest'' @ '' ORDER BY seq_no'')) e) = Inr rows \<longrightarrow>
        length rows = length (applied e))"

lemma abind_cases:
  assumes "abind m f s = (r, s')"
  obtains x s1 where "m s = (Inr x, s1)" "f x s1 = (r, s')" | e where "m s = (Inl e, s')" "r = Inl e"
  using assms by (auto simp: abind_def split: prod.splits sum.splits)

lemma client_engine_atomic:
  assumes "client_contract h cl kind batches applied" "\<And>v e. applied (snd (on_receipt v e)) = applied e"
  shows "atomic_on (client_engine h cl kind on_receipt) applied batches"
proof -
  have query: "applied (snd (cl_query cl q e)) = applied e" for q e
    using assms(1) by (simp add: client_contract_def)
  have sent: "applied (snd (cl_sql cl sql e)) = applied e @ [b]
      \<or> (applied (snd (cl_sql cl sql e)) = applied e \<and> fst (cl_sql cl sql e) \<noteq> Inr ())"
    if "b \<in> set batches" "transaction h kind b False = Inr sql" for b sql e
    using assms(1) that unfolding client_contract_def by blast
  have "applied (snd (en_send (client_engine h cl kind on_receipt) b e)) = applied e @ [b]
      \<or> (applied (snd (en_send (client_engine h cl kind on_receipt) b e)) = applied e
          \<and> fst (en_send (client_engine h cl kind on_receipt) b e) \<noteq> Inr ())" if "b \<in> set batches" for b e
  proof (cases "transaction h kind b False")
    case (Inr sql)
    then show ?thesis using sent [OF that Inr] by (simp add: client_engine_def abind_def lift_def)
  qed (simp add: client_engine_def abind_def lift_def)
  moreover have "applied (snd (en_confirm (client_engine h cl kind on_receipt) b e)) = applied e" for b e
  proof -
    obtain r e1 where "cl_query cl (receipts_where (''batch_id='' @ quoted_id (bt_id b))) e = (r, e1)" by fastforce
    with query [of "receipts_where (''batch_id='' @ quoted_id (bt_id b))" e] show ?thesis
      by (cases r) (simp_all add: client_engine_def abind_def ret_def)
  qed
  ultimately show ?thesis using assms(2) by (simp add: atomic_on_def client_engine_def)
qed

lemma claim_manifest_applies_nothing:
  assumes "client_contract h cl kind batches applied" "manifest_receipt h batches = Inr manifest"
    and "claim_manifest h cl kind manifest e = (r, e')"
  shows "applied e' = applied e"
proof -
  have query: "cl_query cl q s = (v, s') \<Longrightarrow> applied s' = applied s" for q s v s'
    using assms(1) unfolding client_contract_def by (metis snd_conv)
  have inserted: "insert_receipt h kind manifest = Inr sql \<Longrightarrow> cl_sql cl sql s = (v, s') \<Longrightarrow> applied s' = applied s" for sql s v s'
    using assms(1,2) unfolding client_contract_def by (metis snd_conv)
  let ?q = "receipts_where (''batch_id='' @ quoted_id ''manifest'')"
  obtain v e1 where first: "cl_query cl ?q e = (v, e1)" by fastforce
  show ?thesis
  proof (cases "(\<exists>err. v = Inl err) \<or> (\<exists>rows. v = Inr rows \<and> rows \<noteq> []) \<or> (\<exists>err. insert_receipt h kind manifest = Inl err)")
    case True
    with assms(3) first have "e' = e1"
      by (cases v) (auto simp: claim_manifest_def Let_def lift_def abind_def simp del: append_Cons split: if_splits)
    then show ?thesis using query [OF first] by simp
  next
    case False
    then obtain sql where sql: "v = Inr []" "insert_receipt h kind manifest = Inr sql"
      by (cases v; cases "insert_receipt h kind manifest") auto
    obtain u e2 where second: "cl_sql cl sql e1 = (u, e2)" by fastforce
    obtain w e3 where third: "cl_query cl ?q e2 = (w, e3)" by fastforce
    have "e' = e2 \<or> e' = e3"
      using assms(3) first second third sql
      by (cases u; cases w) (auto simp: claim_manifest_def Let_def lift_def abind_def)
    then show ?thesis using query [OF first] inserted [OF sql(2) second] query [OF third] by auto
  qed
qed

lemma ingest_applies:
  assumes "client_contract h cl kind batches applied" "\<And>v s. applied (snd (on_receipt v s)) = applied s"
    and "ingest h cl kind batches on_receipt stop e = (r, e')"
  shows "\<exists>k. applied e' = applied e @ take k (drop (length (applied e)) batches)
    \<and> (is_ok r \<longrightarrow> applied e' = applied e @ drop (length (applied e)) batches)"
proof -
  have query: "cl_query cl q s = (v, s') \<Longrightarrow> applied s' = applied s" for q s v s'
    using assms(1) unfolding client_contract_def by (metis snd_conv)
  have stopped: ?thesis if "applied e' = applied e" "\<not> is_ok r"
    using that by (intro exI [of _ 0]) simp
  from assms(3) show ?thesis unfolding ingest_def
  proof (cases rule: abind_cases)
    case (1 manifest e1)
    then have manifest: "manifest_receipt h batches = Inr manifest" "e1 = e" by (simp_all add: lift_def)
    from 1(2) show ?thesis
    proof (cases rule: abind_cases)
      case claimed: (1 u e2)
      note kept = claim_manifest_applies_nothing [OF assms(1) manifest(1) claimed(1)]
      from claimed(2) show ?thesis
      proof (cases rule: abind_cases)
        case rows: (1 existing e3)
        have same: "applied e3 = applied e" using query [OF rows(1)] kept manifest(2) by (simp only:)
        have "fst (cl_query cl (receipts_where (''batch_id!='' @ quoted_id ''manifest'' @ '' ORDER BY seq_no'')) e2) = Inr existing"
          by (simp only: rows(1) fst_conv)
        then have "length existing = length (applied e2)"
          using assms(1) unfolding client_contract_def by blast
        with kept manifest(2) have len: "length existing = length (applied e)" by (simp only:)
        note atomic = client_engine_atomic [of h cl kind batches applied on_receipt, OF assms(1,2)]
        from deliver_applies [OF atomic rows(2)] show ?thesis by (simp only: same len)
      next
        case (2 err)
        then show ?thesis using stopped query [OF 2(1)] kept manifest(2) by simp
      qed
    next
      case (2 err)
      then show ?thesis
        using stopped claim_manifest_applies_nothing [OF assms(1) manifest(1) 2(1)] manifest(2) by simp
    qed
  next
    case (2 err)
    then show ?thesis using stopped by (simp add: lift_def)
  qed
qed

text \<open>
  C35. Ingestion applies each batch once, in order. Started from a database that holds a prefix of the plan, and
  whatever fails or is interrupted, it leaves a longer or equal prefix of the plan, so it can be resumed; and when it
  reports success, the SQL that has been applied in all is exactly the script it was planned from.
\<close>

theorem ingestion_is_exactly_once:
  assumes "plan_batches h max_statements statements = Inr batches" "client_contract h cl kind batches applied"
    and "\<And>v s. applied (snd (on_receipt v s)) = applied s" "prefix (applied e) batches"
  shows "case ingest h cl kind batches on_receipt stop e of (r, e') \<Rightarrow>
    prefix (applied e') batches \<and> prefix (applied e) (applied e')
    \<and> (is_ok r \<longrightarrow> applied e' = batches \<and> join_lines (map bt_sql (applied e')) = join_lines statements)"
proof -
  obtain r e' where run: "ingest h cl kind batches on_receipt stop e = (r, e')" by fastforce
  obtain rest where rest: "batches = applied e @ rest" using assms(4) by (auto simp: prefix_def)
  obtain k where k: "applied e' = applied e @ take k rest" "is_ok r \<longrightarrow> applied e' = batches"
    using ingest_applies [OF assms(2,3) run] unfolding rest append_eq_conv_conj by force
  have "prefix (applied e') batches" unfolding k(1) rest by (simp add: take_is_prefix)
  then show ?thesis using run k plan_batches_script(1) [OF assms(1)] by (auto simp: k(1))
qed

subsection \<open>A database that works\<close>

definition one_digest :: hashing where
  "one_digest = \<lparr>hs_sha = (\<lambda>s. ''0''), hs_frepr = (\<lambda>r. [])\<rparr>"

definition first_batch :: batch where "first_batch = make_batch one_digest 0 ''a''"
definition second_batch :: batch where "second_batch = make_batch one_digest 1 ''b''"

lemma two_batches: "plan_batches one_digest 1 [''a'', ''b''] = Inr [first_batch, second_batch]"
  by (simp add: plan_batches_def sql_batches_def MAX_BODY_BYTES_def RESERVED_BYTES_def statement_size_def utf8_def ord_def
      join_lines_def first_batch_def second_batch_def)

record store =
  st_manifest :: bool
  st_applied :: "batch list"

definition sample_client :: "store client" where
  \<comment> \<open>keeps the batches whose transactions it runs and answers the three queries of the code\<close>
  "sample_client =
     \<lparr>cl_sql = (\<lambda>sql s. (Inr (),
        if transaction one_digest Postgresql first_batch False = Inr sql then s\<lparr>st_applied := st_applied s @ [first_batch]\<rparr>
        else if transaction one_digest Postgresql second_batch False = Inr sql then s\<lparr>st_applied := st_applied s @ [second_batch]\<rparr>
        else s\<lparr>st_manifest := True\<rparr>)),
      cl_query = (\<lambda>q s. (Inr (
        if q = receipts_where (''batch_id='' @ quoted_id ''manifest'')
        then if st_manifest s then (case manifest_receipt one_digest [first_batch, second_batch] of Inr m \<Rightarrow> [VDict m] | _ \<Rightarrow> []) else []
        else if q = receipts_where (''batch_id='' @ quoted_id (bt_id first_batch))
        then map (VDict \<circ> receipt) (filter (\<lambda>b. b = first_batch) (st_applied s))
        else if q = receipts_where (''batch_id='' @ quoted_id (bt_id second_batch))
        then map (VDict \<circ> receipt) (filter (\<lambda>b. b = second_batch) (st_applied s))
        else map (VDict \<circ> receipt) (st_applied s)), s))\<rparr>"

lemma sample_ids: "bt_id first_batch = ''b000000''" "bt_id second_batch = ''b000001''"
  by code_simp+

lemma sample_batches: "first_batch \<noteq> second_batch" using sample_ids by auto

lemma sample_transactions:
  "\<exists>text. transaction one_digest Postgresql first_batch False = Inr text"
  "\<exists>text. transaction one_digest Postgresql second_batch False = Inr text"
  by (simp_all add: transaction_def insert_receipt_def receipt_def sample_ids first_batch_def second_batch_def make_batch_def
      one_digest_def batch_id_def nat_digits.simps Let_def int_str_def sort_key_def quote_def escape_char_def utf8_def ord_def
      MAX_BODY_BYTES_def)

lemma transactions_differ:
  "transaction one_digest Postgresql first_batch False = Inr sql \<Longrightarrow> transaction one_digest Postgresql second_batch False \<noteq> Inr sql"
  by (auto simp: transaction_def Let_def first_batch_def second_batch_def make_batch_def)

lemma transaction_is_not_insert:
  "transaction one_digest Postgresql b False = Inr sql \<Longrightarrow> insert_receipt one_digest Postgresql d \<noteq> Inr sql"
  by (auto simp: transaction_def insert_receipt_def Let_def)

lemma sample_contract: "client_contract one_digest sample_client Postgresql [first_batch, second_batch] st_applied"
  using transactions_differ transaction_is_not_insert
  by (auto simp: client_contract_def sample_client_def receipts_where_def quoted_id_def)

lemma own_receipt_matches: "matches one_digest (VDict (receipt b)) (receipt b) = Inr True"
proof -
  have "plain (VDict (receipt b))" by (simp add: receipt_def)
  from canon_total(1) [OF this] show ?thesis by (auto simp: matches_def)
qed

lemma sample_manifest_made:
  "\<exists>m sha. manifest_sha256 one_digest [first_batch, second_batch] = Inr sha
     \<and> manifest_receipt one_digest [first_batch, second_batch] = Inr m \<and> plain (VDict m)"
proof -
  have "plain (VList (map (VDict \<circ> receipt) [first_batch, second_batch]))" by (simp add: receipt_def)
  then obtain s where "canon (hs_frepr one_digest) (VList (map (VDict \<circ> receipt) [first_batch, second_batch])) = Inr s"
    using canon_total(1) by blast
  then have "manifest_sha256 one_digest [first_batch, second_batch] = Inr (hs_sha one_digest (utf8 s))"
    by (simp add: manifest_sha256_def del: canon.simps list.map)
  then show ?thesis by (simp add: manifest_receipt_def)
qed

lemma sample_insert: "manifest_receipt one_digest [first_batch, second_batch] = Inr m \<Longrightarrow> \<exists>sql. insert_receipt one_digest Postgresql m = Inr sql"
  using sample_manifest_made canon_total(1) [of "VDict m"] by (auto simp: insert_receipt_def simp del: canon.simps)

definition empty_store :: store where "empty_store = \<lparr>st_manifest = False, st_applied = []\<rparr>"

lemma sample_claimed:
  assumes "manifest_receipt one_digest [first_batch, second_batch] = Inr m"
  shows "claim_manifest one_digest sample_client Postgresql m empty_store = (Inr (), \<lparr>st_manifest = True, st_applied = []\<rparr>)"
proof -
  obtain sql where "insert_receipt one_digest Postgresql m = Inr sql" using sample_insert assms by blast
  moreover have "plain (VDict m)" using sample_manifest_made assms by auto
  then have "py_eq (VDict m) (VDict m)" by (rule py_eq_refl(1))
  moreover have "transaction one_digest Postgresql b False \<noteq> Inr sql" for b
    using calculation(1) transaction_is_not_insert by blast
  ultimately show ?thesis
    by (simp add: claim_manifest_def sample_client_def abind_def lift_def empty_store_def Let_def assms del: py_eq.simps(7))
qed

lemma sample_confirmed:
  "confirm_batch one_digest (client_engine one_digest sample_client Postgresql rec) first_batch \<lparr>st_manifest = True, st_applied = []\<rparr>
   = (Inr (VDict (receipt first_batch)), \<lparr>st_manifest = True, st_applied = [first_batch]\<rparr>)"
  "confirm_batch one_digest (client_engine one_digest sample_client Postgresql rec) second_batch \<lparr>st_manifest = True, st_applied = [first_batch]\<rparr>
   = (Inr (VDict (receipt second_batch)), \<lparr>st_manifest = True, st_applied = [first_batch, second_batch]\<rparr>)"
proof -
  obtain t1 t2 where texts: "transaction one_digest Postgresql first_batch False = Inr t1" "transaction one_digest Postgresql second_batch False = Inr t2"
    using sample_transactions by blast
  then have "t1 \<noteq> t2" using transactions_differ by blast
  with texts show
    "confirm_batch one_digest (client_engine one_digest sample_client Postgresql rec) first_batch \<lparr>st_manifest = True, st_applied = []\<rparr>
     = (Inr (VDict (receipt first_batch)), \<lparr>st_manifest = True, st_applied = [first_batch]\<rparr>)"
    "confirm_batch one_digest (client_engine one_digest sample_client Postgresql rec) second_batch \<lparr>st_manifest = True, st_applied = [first_batch]\<rparr>
     = (Inr (VDict (receipt second_batch)), \<lparr>st_manifest = True, st_applied = [first_batch, second_batch]\<rparr>)"
    using own_receipt_matches sample_batches
    by (simp_all add: confirm_batch_def client_engine_def sample_client_def abind_def lift_def ret_def receipts_where_def
        quoted_id_def sample_ids)
qed

lemma sample_ingested:
  "is_ok (fst (ingest one_digest sample_client Postgresql [first_batch, second_batch] (\<lambda>_. ret ()) VNull empty_store))"
proof -
  obtain m sha where m: "manifest_sha256 one_digest [first_batch, second_batch] = Inr sha"
    "manifest_receipt one_digest [first_batch, second_batch] = Inr m" using sample_manifest_made by blast
  have none: "cl_query sample_client (receipts_where (''batch_id!='' @ quoted_id ''manifest'' @ '' ORDER BY seq_no''))
      \<lparr>st_manifest = True, st_applied = []\<rparr> = (Inr [], \<lparr>st_manifest = True, st_applied = []\<rparr>)"
    by (simp add: sample_client_def receipts_where_def quoted_id_def)
  have receipts: "en_receipt (client_engine one_digest sample_client Postgresql (\<lambda>_. ret ())) r = ret ()" for r
    by (simp add: client_engine_def)
  have "is_ok (fst (deliver one_digest (client_engine one_digest sample_client Postgresql (\<lambda>_. ret ())) [first_batch, second_batch]
      [] VNull \<lparr>st_manifest = True, st_applied = []\<rparr>))"
    by (simp add: deliver_def resumption_def valid_interruption_def sample_confirmed receipts m(1) ret_def lift_def abind_def)
  then show ?thesis
    by (simp add: ingest_def m(2) sample_claimed [OF m(2)] none lift_def abind_def del: append_Cons)
qed

lemma ingestion_is_exactly_once_witness:
  "st_applied (snd (ingest one_digest sample_client Postgresql [first_batch, second_batch] (\<lambda>_. ret ()) VNull empty_store))
   = [first_batch, second_batch]"
proof -
  obtain r s where run: "ingest one_digest sample_client Postgresql [first_batch, second_batch] (\<lambda>_. ret ()) VNull empty_store = (r, s)"
    by fastforce
  have "is_ok r" using sample_ingested run by simp
  with ingestion_is_exactly_once [OF two_batches sample_contract, of "\<lambda>_. ret ()" empty_store VNull] run show ?thesis
    by (simp add: ret_def empty_store_def)
qed

end
