(* ===== verification/Manual_Run.thy ===== *)
theory Manual_Run
  imports Checkpoints Discovery_Execution
begin

section \<open>database/poc/manual_discovery_run.py: runs that archive each source\<close>

text \<open>
  A run executes its tasks one source after the other and publishes a checkpoint of each success before the next; a
  resumed source is served from the checkpoint named. The state is the environment of the operations and the tree of
  directories; the system that answers the writes of a source is a parameter, and so are the parser of the checkpoint
  files and the callback that receives each event. \<open>now\<close> is the text of the current time, \<open>evaluated\<close> the time the
  caller gives. A run that raises leaves the state it has reached.
\<close>

definition RUN_FORMAT :: string where "RUN_FORMAT = ''pepeuch-ai.manual-discovery-run/v1''"

definition timestamp :: "clock_reader \<Rightarrow> val \<Rightarrow> rat res" where
  "timestamp clk v =
     rbind (needed (as_str v)) (\<lambda>s.
     rbind (must (length s \<le> 64)) (\<lambda>_.
     rbind (needed (clk s)) (\<lambda>date. needed date)))"

record 'e archive_state =
  ar_env :: 'e
  ar_tree :: tree

record 'e manual =
  mn_hashing :: hashing
  mn_mac :: mac
  mn_clock :: clock_reader
  mn_now :: string
  mn_loads :: "string \<Rightarrow> val option"
  mn_runtime :: "'e runtime"
  mn_systems :: "string \<Rightarrow> system"
  mn_archive :: string
  mn_trusted :: issuers
  mn_issuer :: val
  mn_key :: "string option"
  mn_on_event :: "val \<Rightarrow> 'e \<Rightarrow> unit exres \<times> 'e"

subsection \<open>The plan\<close>

definition check_issuer :: "'e manual \<Rightarrow> 'e source_task list \<Rightarrow> unit res" where
  \<comment> \<open>a controlled operation needs the enrolled key before anything is executed\<close>
  "check_issuer m tasks =
     (if list_all tk_synthetic tasks then Inr ()
      else rbind (public_alias (mn_issuer m)) (\<lambda>issuer.
           rbind (needed (mn_key m)) (\<lambda>key.
           must (32 \<le> length key \<and> mn_trusted m issuer = Some key))))"

definition freshness_bound :: "val \<Rightarrow> rat res" where
  \<comment> \<open>\<open>math.isfinite\<close> of an integer beyond the doubles is an \<open>OverflowError\<close>\<close>
  "freshness_bound v =
     rbind (finite_number v) (\<lambda>x.
     rbind (needed x) (\<lambda>n. rbind (must (0 \<le> n \<and> n \<le> 604800)) (\<lambda>_. Inr n)))"

fun check_contexts :: "(string \<times> val) list \<Rightarrow> (string \<times> dict) list res" where
  "check_contexts [] = Inr []"
| "check_contexts ((s, c) # cs) =
     rbind (validation_context c) (\<lambda>d. rbind (check_contexts cs) (\<lambda>ds. Inr ((s, d) # ds)))"

definition check_plan ::
  "'e manual \<Rightarrow> 'e source_task list \<Rightarrow> (string \<times> val) list \<Rightarrow> val \<Rightarrow> val \<Rightarrow> val
     \<Rightarrow> ('e source_task list \<times> rat \<times> rat \<times> (string \<times> dict) list \<times> dict) res" where
  "check_plan m tasks0 contexts0 evaluated max_age resume0 =
     rbind (collect make_task tasks0) (\<lambda>tasks.
     rbind (must (tasks \<noteq> [] \<and> distinct (map tk_source tasks))) (\<lambda>_.
     rbind (must (list_all (\<lambda>t. set (tk_resources t) \<subseteq> set (pl_resources (tk_policy t))) tasks)) (\<lambda>_.
     rbind (check_issuer m tasks) (\<lambda>_.
     rbind (freshness_bound max_age) (\<lambda>bound.
     rbind (timestamp (mn_clock m) evaluated) (\<lambda>epoch.
     rbind (must (set (map fst contexts0) = set (map tk_source tasks))) (\<lambda>_.
     rbind (check_contexts contexts0) (\<lambda>contexts.
     rbind (copy_metadata (if resume0 = VNull then VDict [] else resume0)) (\<lambda>copied.
     rbind (needed (as_dict copied)) (\<lambda>resumes.
     rbind (must (set (keys resumes) \<subseteq> set (map fst contexts))) (\<lambda>_.
     Inr (tasks, bound, epoch, contexts, resumes))))))))))))"

subsection \<open>Resumed sources\<close>

definition context_of :: "(string \<times> dict) list \<Rightarrow> string \<Rightarrow> dict" where
  "context_of contexts source = (case map_of contexts source of Some c \<Rightarrow> c | None \<Rightarrow> [])"

definition sorted_ids :: "'e source_task \<Rightarrow> val" where
  "sorted_ids t = VList (map VStr (sort (map rf_id (tk_resources t))))"

definition same_plan :: "'e source_task \<Rightarrow> dict \<Rightarrow> dict \<Rightarrow> bool" where
  \<comment> \<open>the checkpoint is of this plan, in this context and of the same kind\<close>
  "same_plan t ctx entry =
     (let wanted = dict_at entry ''request''; kind = get_or_none (dict_at entry ''provenance'') ''kind'' in
      get_or_none wanted ''source'' = VStr (tk_source t) \<and> py_eq (get_or_none wanted ''selection'') (VDict (tk_selection t))
      \<and> py_eq (get_or_none wanted ''resources'') (sorted_ids t) \<and> py_eq (get_or_none wanted ''context'') (VDict ctx)
      \<and> (kind = VStr ''synthetic'') = tk_synthetic t \<and> kind \<noteq> VStr ''historical_unknown'')"

definition captured_at :: "dict \<Rightarrow> val" where "captured_at snapshot = get_or_none snapshot ''captured_at''"

definition load_resumed ::
  "'e manual \<Rightarrow> rat \<Rightarrow> rat \<Rightarrow> (string \<times> dict) list \<Rightarrow> dict \<Rightarrow> tree \<Rightarrow> 'e source_task \<Rightarrow> (dict \<times> rat) option exres" where
  \<comment> \<open>\<open>None\<close> where the source is not resumed or its checkpoint is too old\<close>
  "load_resumed m bound epoch contexts resumes t task =
     (case map_of resumes (tk_source task) of
        None \<Rightarrow> Inr None
      | Some descriptor0 \<Rightarrow>
          xbind (raised (needed (as_dict descriptor0))) (\<lambda>descriptor.
          xbind (raised (must (exact_keys descriptor [''request'', ''identity'']))) (\<lambda>_.
          xbind (load_checkpoint (mn_hashing m) (mn_mac m) (mn_clock m) (mn_now m) (mn_trusted m) (mn_loads m)
                   (mn_systems m (tk_source task)) (mn_archive m) (get_or_none descriptor ''request'')
                   (get_or_none descriptor ''identity'') t) (\<lambda>entry.
          xbind (raised (must (same_plan task (context_of contexts (tk_source task)) entry))) (\<lambda>_.
          xbind (raised (timestamp (mn_clock m) (captured_at (dict_at entry ''snapshot'')))) (\<lambda>seen_at.
          xbind (raised (must (0 \<le> epoch - seen_at))) (\<lambda>_.
          Inr (if epoch - seen_at < bound then Some (entry, epoch - seen_at) else None))))))))"

fun load_all ::
  "'e manual \<Rightarrow> rat \<Rightarrow> rat \<Rightarrow> (string \<times> dict) list \<Rightarrow> dict \<Rightarrow> tree \<Rightarrow> 'e source_task list \<Rightarrow> (string \<times> dict \<times> rat) list exres" where
  "load_all m bound epoch contexts resumes t [] = Inr []"
| "load_all m bound epoch contexts resumes t (task # tasks) =
     xbind (load_resumed m bound epoch contexts resumes t task) (\<lambda>hit.
     xbind (load_all m bound epoch contexts resumes t tasks) (\<lambda>cached.
     Inr (case hit of None \<Rightarrow> cached | Some x \<Rightarrow> (tk_source task, x) # cached)))"

subsection \<open>Events\<close>

definition event_dict ::
  "string \<Rightarrow> string \<Rightarrow> bool \<Rightarrow> val \<Rightarrow> val \<Rightarrow> val \<Rightarrow> val \<Rightarrow> val \<Rightarrow> dict" where
  "event_dict source state whole snapshot captured age resumed execution =
     [(''source'', VStr source), (''status'', VStr state), (''complete'', VBool whole), (''snapshot_id'', snapshot),
      (''captured_at'', captured), (''age_seconds'', age), (''remote_revalidated'', VBool False), (''resume'', resumed),
      (''execution'', execution)]"

definition cached_event :: "dict \<Rightarrow> string \<Rightarrow> dict \<Rightarrow> rat \<Rightarrow> dict" where
  "cached_event resumes source entry age =
     (let snapshot = dict_at entry ''snapshot'' in
      event_dict source ''resumed_cached'' True (get_or_none snapshot ''snapshot_id'') (captured_at snapshot)
        (VFloat (Fin age)) (get_or_none resumes source) VNull)"

definition descriptor :: "dict \<Rightarrow> string \<Rightarrow> val" where
  "descriptor wanted checkpoint_name = VDict [(''request'', VDict wanted), (''identity'', VStr checkpoint_name)]"

definition snapshot_revisions :: "dict \<Rightarrow> val" where "snapshot_revisions snapshot = VDict (observed_revisions snapshot)"

definition build_entry ::
  "'e manual \<Rightarrow> rat \<Rightarrow> (string \<times> dict) list \<Rightarrow> 'e source_task \<Rightarrow> dict \<Rightarrow> (rat \<times> dict \<times> dict) exres" where
  \<comment> \<open>the age, the request and the cache entry of a successful observation\<close>
  "build_entry m epoch contexts task snapshot =
     (let source = tk_source task; ctx = VDict (context_of contexts source) in
      xbind (raised (rbind (item snapshot ''captured_at'') (timestamp (mn_clock m)))) (\<lambda>seen_at.
      xbind (raised (must (0 \<le> epoch - seen_at))) (\<lambda>_.
      xbind (raised (cache_request (VStr source) (VDict (tk_selection task)) (map (VStr \<circ> rf_id) (tk_resources task)) ctx
               (snapshot_revisions snapshot))) (\<lambda>wanted.
      xbind (raised (make_provenance (mn_hashing m) (mn_mac m) (mn_clock m) (mn_now m) (VDict snapshot)
               (VStr (if tk_synthetic task then ''synthetic'' else ''controlled_observation'')) ctx
               (if tk_synthetic task then VNull else mn_issuer m) (if tk_synthetic task then None else mn_key m))) (\<lambda>provenance.
      xbind (make_cache (mn_hashing m) (mn_mac m) (mn_clock m) (mn_now m) (mn_trusted m) (VDict wanted) (VDict snapshot)
               (VDict provenance) (VDict [(''etag'', VNull), (''last_modified'', VNull)])) (\<lambda>entry.
      Inr (epoch - seen_at, wanted, entry)))))))"

definition result_snapshot :: "source_result \<Rightarrow> dict" where
  "result_snapshot r = (case rs_snapshot r of Some (VDict d) \<Rightarrow> d | _ \<Rightarrow> [])"

definition archive_success ::
  "'e manual \<Rightarrow> rat \<Rightarrow> (string \<times> dict) list \<Rightarrow> 'e source_task \<Rightarrow> source_result \<Rightarrow> val \<Rightarrow> 'e archive_state
     \<Rightarrow> dict exres \<times> 'e archive_state" where
  \<comment> \<open>the checkpoint is published before the event exists\<close>
  "archive_success m epoch contexts task result manifest s =
     (let snapshot = result_snapshot result in
      case build_entry m epoch contexts task snapshot of
        Inl e \<Rightarrow> (Inl e, s)
      | Inr (age, wanted, entry) \<Rightarrow>
          (case save_checkpoint (mn_hashing m) (mn_mac m) (mn_clock m) (mn_now m) (mn_trusted m)
                  (mn_systems m (tk_source task)) (mn_archive m) (VDict entry) (ar_tree s) of
             (r, t) \<Rightarrow>
               (xbind r (\<lambda>checkpoint_name.
                  Inr (event_dict (tk_source task) (status_text (rs_status result)) (rs_complete result)
                         (get_or_none snapshot ''snapshot_id'') (captured_at snapshot) (VFloat (Fin age))
                         (descriptor wanted checkpoint_name) manifest)),
                s\<lparr>ar_tree := t\<rparr>)))"

definition run_task ::
  "'e manual \<Rightarrow> rat \<Rightarrow> (string \<times> dict) list \<Rightarrow> 'e source_task \<Rightarrow> 'e archive_state \<Rightarrow> dict exres \<times> 'e archive_state" where
  "run_task m epoch contexts task s =
     (case execute_source (mn_hashing m) (mn_clock m) (mn_now m) (mn_runtime m) task (ar_env s) of
        (Inl e, env) \<Rightarrow> (Inl e, s\<lparr>ar_env := env\<rparr>)
      | (Inr result, env) \<Rightarrow>
          (case result_manifest (mn_hashing m) (mn_clock m) (mn_now m) result of
             Inl e \<Rightarrow> (Inl e, s\<lparr>ar_env := env\<rparr>)
           | Inr manifest \<Rightarrow>
               if rs_status result = Success
               then archive_success m epoch contexts task result manifest (s\<lparr>ar_env := env\<rparr>)
               else (Inr (event_dict (tk_source task) (status_text (rs_status result)) (rs_complete result) VNull VNull VNull
                            VNull manifest), s\<lparr>ar_env := env\<rparr>)))"

definition task_event ::
  "'e manual \<Rightarrow> rat \<Rightarrow> (string \<times> dict) list \<Rightarrow> dict \<Rightarrow> (string \<times> dict \<times> rat) list \<Rightarrow> 'e source_task \<Rightarrow> 'e archive_state
     \<Rightarrow> dict exres \<times> 'e archive_state" where
  "task_event m epoch contexts resumes cached task s =
     (case map_of cached (tk_source task) of
        Some (entry, age) \<Rightarrow> (Inr (cached_event resumes (tk_source task) entry age), s)
      | None \<Rightarrow> run_task m epoch contexts task s)"

fun run_tasks ::
  "'e manual \<Rightarrow> rat \<Rightarrow> (string \<times> dict) list \<Rightarrow> dict \<Rightarrow> (string \<times> dict \<times> rat) list \<Rightarrow> 'e source_task list \<Rightarrow> 'e archive_state
     \<Rightarrow> dict list exres \<times> 'e archive_state" where
  \<comment> \<open>an event is copied and handed to the callback before the next source\<close>
  "run_tasks m epoch contexts resumes cached [] s = (Inr [], s)"
| "run_tasks m epoch contexts resumes cached (task # tasks) s =
     (case task_event m epoch contexts resumes cached task s of
        (Inl e, s1) \<Rightarrow> (Inl e, s1)
      | (Inr event, s1) \<Rightarrow>
          (case raised (copy_metadata (VDict event)) of
             Inl e \<Rightarrow> (Inl e, s1)
           | Inr copied \<Rightarrow>
               (case mn_on_event m copied (ar_env s1) of
                  (Inl e, env) \<Rightarrow> (Inl e, s1\<lparr>ar_env := env\<rparr>)
                | (Inr _, env) \<Rightarrow>
                    (case run_tasks m epoch contexts resumes cached tasks (s1\<lparr>ar_env := env\<rparr>) of
                       (Inl e, s2) \<Rightarrow> (Inl e, s2) | (Inr events, s2) \<Rightarrow> (Inr (event # events), s2)))))"

definition run_report :: "'e source_task list \<Rightarrow> dict list \<Rightarrow> val \<Rightarrow> val \<Rightarrow> dict" where
  "run_report tasks events evaluated max_age =
     [(''format'', VStr RUN_FORMAT), (''complete'', VBool (list_all (\<lambda>e. get_or_none e ''complete'' = VBool True) events)),
      (''requested_sources'', VList (map (VStr \<circ> tk_source) tasks)), (''sources'', VList (map VDict events)),
      (''data_kind'', VStr (if list_all tk_synthetic tasks then ''synthetic'' else ''controlled_or_mixed'')),
      (''policy'', VDict [(''now'', evaluated), (''max_age_seconds'', max_age), (''retention'', VStr ''append_only_no_pruning'')]),
      (''database_imported'', VBool False), (''remote_freshness_verified'', VBool False)]"

definition run_manual ::
  "'e manual \<Rightarrow> 'e source_task list \<Rightarrow> (string \<times> val) list \<Rightarrow> val \<Rightarrow> val \<Rightarrow> val \<Rightarrow> 'e archive_state \<Rightarrow> dict exres \<times> 'e archive_state" where
  "run_manual m tasks0 contexts0 evaluated max_age resume0 s =
     (case raised (check_plan m tasks0 contexts0 evaluated max_age resume0) of
        Inl e \<Rightarrow> (Inl e, s)
      | Inr (tasks, bound, epoch, contexts, resumes) \<Rightarrow>
          (case raised (open_directory (mn_systems m []) (ar_tree s) (mn_archive m)) of
             Inl e \<Rightarrow> (Inl e, s)
           | Inr _ \<Rightarrow>
               (case load_all m bound epoch contexts resumes (ar_tree s) tasks of
                  Inl e \<Rightarrow> (Inl e, s)
                | Inr cached \<Rightarrow>
                    (case run_tasks m epoch contexts resumes cached tasks s of
                       (Inl e, s') \<Rightarrow> (Inl e, s')
                     | (Inr events, s') \<Rightarrow> (Inr (run_report tasks events evaluated max_age), s')))))"

end
