(* ===== verification/Manual_Guarantees.thy ===== *)
theory Manual_Guarantees
  imports Manual_Run Checkpoint_Guarantees Discovery_Guarantees
begin

section \<open>Guarantees of a manual run\<close>

subsection \<open>What a result says\<close>

lemma finish_source_status:
  assumes "finish_source h clk now rt t st reason d s = (Inr x, s')"
  shows "rs_status x = st \<and> rs_complete x = (st = Success \<or> st = Unchanged)"
proof -
  have "rs_status r' = rs_status r \<and> rs_complete r' = rs_complete r" if "make_result h clk now r = Inr r'" for r r'
    using that unfolding make_result_def by (auto split: if_splits)
  then show ?thesis
    using assms unfolding finish_source_def
    by (auto simp: sbind_Inr look_def pure_def give_def result_of_def split: if_splits)
qed

lemma execution_body_status:
  assumes "execution_body h clk now rt t s = (Inr x, s')"
  shows "rs_complete x = (rs_status x = Success)"
proof (cases "set (tk_resources t) \<subseteq> set (pl_resources (tk_policy t))")
  case False
  with assms have "finish_source h clk now rt t Failed (Some Selection) None s = (Inr x, s')"
    unfolding execution_body_def by (simp only: if_False)
  from finish_source_status [OF this] show ?thesis by simp
next
  case True
  with assms obtain r s1 where loop: "attempt_loop h clk now rt t (nat (pl_max_attempts (tk_policy t))) s = (Inr r, s1)"
    and run: "(case r of Finished st reason snapshot \<Rightarrow> finish_source h clk now rt t st reason snapshot
           | Again \<Rightarrow> finish_source h clk now rt t Deferred (Some Attempt_Budget) None) s1 = (Inr x, s')"
    unfolding execution_body_def by (auto simp: sbind_Inr)
  have "observed_result h clk now t r \<and> r \<noteq> Again" using gives_loop loop unfolding gives_def by blast
  then obtain st reason d where "r = Finished st reason d" "st \<noteq> Unchanged"
    by (cases r) (auto simp: observed_result_def split: status.splits)
  with run show ?thesis using finish_source_status [of h clk now rt t st reason d s1 x s'] by auto
qed

lemma stopped_status:
  assumes "stopped h clk now rt t q b s = (Inr x, s')"
  shows "rs_complete x = (rs_status x = Success)"
  using finish_source_status [OF assms [unfolded stopped_def]] by (auto simp: stop_status_def split: if_splits)

lemma execute_source_status:
  assumes "execute_source h clk now rt t env = (Inr x, env')"
  shows "rs_complete x = (rs_status x = Success)"
proof -
  obtain r1 s1 where start: "start_budget rt (fresh_budget env) = (r1, s1)" by fastforce
  obtain r2 s2 where body: "execution_body h clk now rt t s1 = (r2, s2)" by fastforce
  have stop: "rs_complete x = (rs_status x = Success)" if "fst (stopped h clk now rt t q b s) = Inr x" for q b s
    using that stopped_status [of h clk now rt t q b s x] by (metis prod.collapse)
  show ?thesis
    using assms start body stop execution_body_status [of h clk now rt t s1 x s2]
    by (auto simp: execute_source_def Let_def split: sum.splits exc.splits)
qed

subsection \<open>Trees only grow\<close>

definition kept_directory :: "directory \<Rightarrow> directory \<Rightarrow> bool" where
  \<comment> \<open>the same owner and mode, and every file of before\<close>
  "kept_directory d d' \<longleftrightarrow> dr_owner d' = dr_owner d \<and> dr_mode d' = dr_mode d \<and> map_of (dr_files d) \<subseteq>\<^sub>m map_of (dr_files d')"

definition grows :: "tree \<Rightarrow> tree \<Rightarrow> bool" where
  "grows t t' \<longleftrightarrow> (\<forall>path. rel_option kept_directory (t path) (t' path))"

lemma kept_directory_refl: "kept_directory d d"
  by (simp add: kept_directory_def)

lemma kept_directory_trans: "kept_directory d1 d2 \<Longrightarrow> kept_directory d2 d3 \<Longrightarrow> kept_directory d1 d3"
  unfolding kept_directory_def by (metis map_le_trans)

lemma grows_refl: "grows t t"
  by (simp add: grows_def option.rel_refl kept_directory_refl)

lemma grows_trans:
  assumes "grows t1 t2" "grows t2 t3"
  shows "grows t1 t3"
  unfolding grows_def
proof
  fix path
  have "rel_option kept_directory (t1 path) (t2 path)" "rel_option kept_directory (t2 path) (t3 path)"
    using assms by (simp_all add: grows_def)
  then show "rel_option kept_directory (t1 path) (t3 path)"
    by (cases "t1 path"; cases "t2 path"; cases "t3 path") (auto intro: kept_directory_trans)
qed

lemma lock_directory_owner: "dr_owner (snd (lock_directory sys d)) = dr_owner d \<and> dr_mode (snd (lock_directory sys d)) = dr_mode d"
  by (simp add: lock_directory_def put_file_def Let_def)

lemma publish_file_owner: "dr_owner (snd (publish_file sys name raw d)) = dr_owner d \<and> dr_mode (snd (publish_file sys name raw d)) = dr_mode d"
  by (simp add: publish_file_def put_file_def remove_file_def Let_def split: option.split)

lemma save_file_owner: "dr_owner (snd (save_file sys name raw d)) = dr_owner d \<and> dr_mode (snd (save_file sys name raw d)) = dr_mode d"
proof -
  obtain r d' where "lock_directory sys d = (r, d')" by fastforce
  with lock_directory_owner [of sys d] publish_file_owner [of sys name raw d'] show ?thesis
    by (simp add: save_file_def split: sum.split)
qed

lemma open_directory_Inr:
  "open_directory sys t raw = Inr (path, d) \<Longrightarrow> path = path_parts raw \<and> t path = Some d \<and> dr_owner d = sy_uid sys \<and> private_mode (dr_mode d)"
  by (auto simp: open_directory_def)

lemma open_directory_grown:
  assumes "open_directory sys t raw = Inr (path, d)" "t' path = Some d'" "dr_owner d' = dr_owner d" "dr_mode d' = dr_mode d"
  shows "open_directory sys t' raw = Inr (path, d')"
  using assms by (auto simp: open_directory_def)

lemma saved_checkpoint:
  assumes "save_checkpoint h mac clk now trusted sys folder entry0 t = (r, t')"
  shows "grows t t'"
    and "r = Inr checkpoint_name \<Longrightarrow> \<exists>path d raw. open_directory sys t' folder = Inr (path, d)
      \<and> read_file sys d (checkpoint_name @ ''.json'') = Inr raw"
proof -
  have "t' = t \<and> \<not> (\<exists>x. r = Inr x)
      \<or> (\<exists>name raw path d. prepare_checkpoint h mac clk now trusted entry0 = Inr (name, raw)
          \<and> open_directory sys t folder = Inr (path, d) \<and> t' = t(path \<mapsto> snd (save_file sys (name @ ''.json'') raw d))
          \<and> (\<forall>x. r = Inr x \<longrightarrow> x = name \<and> fst (save_file sys (name @ ''.json'') raw d) = Inr ()))"
    using assms unfolding save_checkpoint_def
    by (auto simp: raised_def split: sum.splits prod.splits err.splits)
  then consider (none) "t' = t" "\<not> (\<exists>x. r = Inr x)"
    | (saved) name raw path d where "prepare_checkpoint h mac clk now trusted entry0 = Inr (name, raw)"
        "open_directory sys t folder = Inr (path, d)" "t' = t(path \<mapsto> snd (save_file sys (name @ ''.json'') raw d))"
        "\<forall>x. r = Inr x \<longrightarrow> x = name \<and> fst (save_file sys (name @ ''.json'') raw d) = Inr ()"
    by blast
  then have "grows t t' \<and> (r = Inr checkpoint_name \<longrightarrow> (\<exists>path d raw. open_directory sys t' folder = Inr (path, d)
      \<and> read_file sys d (checkpoint_name @ ''.json'') = Inr raw))"
  proof cases
    case none
    then show ?thesis by (simp add: grows_refl)
  next
    case saved
    let ?d = "snd (save_file sys (name @ ''.json'') raw d)"
    note opened = open_directory_Inr [OF saved(2)]
    have "kept_directory d ?d"
      using save_file_appended [OF checkpoint_is_not_lock, of sys name raw d] save_file_owner [of sys "name @ ''.json''" raw d]
      by (simp add: appended_def kept_directory_def)
    moreover have "t path = Some d" using opened by blast
    ultimately have "grows t t'"
      unfolding saved(3) grows_def by (simp add: option.rel_refl kept_directory_refl)
    moreover have "open_directory sys t' folder = Inr (path, ?d)"
      using open_directory_grown [OF saved(2)] save_file_owner [of sys "name @ ''.json''" raw d] saved(3) by simp
    moreover have "read_file sys ?d (name @ ''.json'') = Inr raw" if "r = Inr x" for x
      using save_file_reads_back saved(4) that prepared_is_bounded [OF saved(1)] by blast
    ultimately show ?thesis using saved(4) by auto
  qed
  then show "grows t t'"
    and "r = Inr checkpoint_name \<Longrightarrow> \<exists>path d raw. open_directory sys t' folder = Inr (path, d)
      \<and> read_file sys d (checkpoint_name @ ''.json'') = Inr raw"
    by auto
qed

subsection \<open>Complete events are archived\<close>

definition archived :: "'e manual \<Rightarrow> tree \<Rightarrow> dict \<Rightarrow> bool" where
  \<comment> \<open>the checkpoint the event names can be read from the archive\<close>
  "archived m t event =
     (case (get_or_none event ''source'', get_or_none (dict_at event ''resume'') ''identity'') of
        (VStr source, VStr checkpoint_name) \<Rightarrow>
          (\<exists>path d raw. open_directory (mn_systems m source) t (mn_archive m) = Inr (path, d)
             \<and> read_file (mn_systems m source) d (checkpoint_name @ ''.json'') = Inr raw)
      | _ \<Rightarrow> False)"

definition complete_event :: "dict \<Rightarrow> bool" where "complete_event event = (get_or_none event ''complete'' = VBool True)"

lemma read_file_kept:
  assumes "read_file sys d name = Inr raw" "map_of (dr_files d) \<subseteq>\<^sub>m map_of (dr_files d')"
  shows "read_file sys d' name = Inr raw"
proof -
  obtain n where "map_of (dr_files d) name = Some n"
    using assms(1) by (auto simp: read_file_def open_file_def present_def split: option.splits)
  then have "map_of (dr_files d') name = map_of (dr_files d) name"
    using assms(2) unfolding map_le_def by (metis domI)
  then show ?thesis using assms(1) read_file_lookup by metis
qed

lemma archived_grows:
  assumes "archived m t event" "grows t t'"
  shows "archived m t' event"
proof -
  obtain source name path d raw where e: "get_or_none event ''source'' = VStr source"
    "get_or_none (dict_at event ''resume'') ''identity'' = VStr name"
    "open_directory (mn_systems m source) t (mn_archive m) = Inr (path, d)"
    "read_file (mn_systems m source) d (name @ ''.json'') = Inr raw"
    using assms(1) unfolding archived_def by (auto simp del: get_or_none_eq split: val.splits)
  have "t path = Some d" using open_directory_Inr [OF e(3)] by blast
  then have "rel_option kept_directory (Some d) (t' path)" using assms(2) unfolding grows_def by metis
  then obtain d' where d': "t' path = Some d'" "kept_directory d d'" by (cases "t' path") auto
  then have "open_directory (mn_systems m source) t' (mn_archive m) = Inr (path, d')"
    using open_directory_grown [OF e(3)] by (simp add: kept_directory_def)
  moreover have "read_file (mn_systems m source) d' (name @ ''.json'') = Inr raw"
    using read_file_kept [OF e(4)] d'(2) by (simp add: kept_directory_def)
  ultimately show ?thesis using e(1,2) by (simp add: archived_def del: get_or_none_eq)
qed

lemma event_dict_fields:
  "get_or_none (event_dict source state whole i captured age resumed execution) ''source'' = VStr source"
  "get_or_none (event_dict source state whole i captured age resumed execution) ''complete'' = VBool whole"
  "get_or_none (event_dict source state whole i captured age resumed execution) ''resume'' = resumed"
  by (simp_all add: event_dict_def get_or_none_def)

lemma archive_success_archives:
  assumes "archive_success m epoch contexts task result manifest s = (r, s')"
  shows "grows (ar_tree s) (ar_tree s') \<and> (case r of Inl e \<Rightarrow> True | Inr event \<Rightarrow> archived m (ar_tree s') event)"
proof (cases "build_entry m epoch contexts task (result_snapshot result)")
  case (Inl e)
  with assms show ?thesis by (auto simp: archive_success_def Let_def grows_refl)
next
  case (Inr built)
  obtain age wanted entry where built: "built = (age, wanted, entry)" by (cases built) auto
  obtain r1 t where save: "save_checkpoint (mn_hashing m) (mn_mac m) (mn_clock m) (mn_now m) (mn_trusted m)
      (mn_systems m (tk_source task)) (mn_archive m) (VDict entry) (ar_tree s) = (r1, t)" by fastforce
  have s': "ar_tree s' = t" using assms Inr built save by (auto simp: archive_success_def Let_def)
  have "archived m t event" if run: "r = Inr event" for event
  proof -
    obtain name where name: "r1 = Inr name" "event = event_dict (tk_source task) (status_text (rs_status result)) (rs_complete result)
        (get_or_none (result_snapshot result) ''snapshot_id'') (captured_at (result_snapshot result)) (VFloat (Fin age))
        (descriptor wanted name) manifest"
      using assms Inr built save run by (auto simp: archive_success_def Let_def)
    have "get_or_none (dict_at event ''resume'') ''identity'' = VStr name"
      unfolding dict_at_def name(2) event_dict_fields descriptor_def by (simp add: get_or_none_def)
    then show ?thesis
      using saved_checkpoint(2) [OF save name(1)] name(2) event_dict_fields(1)
      by (simp add: archived_def del: get_or_none_eq)
  qed
  then show ?thesis using saved_checkpoint(1) [OF save] s' by (cases r) simp_all
qed

lemma run_task_archives:
  assumes "run_task m epoch contexts task s = (r, s')"
  shows "grows (ar_tree s) (ar_tree s') \<and> (case r of Inl e \<Rightarrow> True | Inr event \<Rightarrow> complete_event event \<longrightarrow> archived m (ar_tree s') event)"
proof -
  obtain r1 env where first: "execute_source (mn_hashing m) (mn_clock m) (mn_now m) (mn_runtime m) task (ar_env s) = (r1, env)"
    by fastforce
  consider (stopped) e where "r = Inl e" "ar_tree s' = ar_tree s"
    | (success) result manifest where "r1 = Inr result" "rs_status result = Success"
        "archive_success m epoch contexts task result manifest (s\<lparr>ar_env := env\<rparr>) = (r, s')"
    | (other) result manifest where "r1 = Inr result" "rs_status result \<noteq> Success" "ar_tree s' = ar_tree s"
        "r = Inr (event_dict (tk_source task) (status_text (rs_status result)) (rs_complete result) VNull VNull VNull VNull manifest)"
    using assms first unfolding run_task_def by (auto split: sum.splits if_splits)
  then show ?thesis
  proof cases
    case stopped
    then show ?thesis by (simp add: grows_refl)
  next
    case success
    with archive_success_archives [OF success(3)] show ?thesis by (cases r) simp_all
  next
    case other
    then have "\<not> rs_complete result" using execute_source_status first by metis
    with other show ?thesis by (simp add: grows_refl complete_event_def event_dict_fields del: get_or_none_eq)
  qed
qed

definition resumable :: "'e manual \<Rightarrow> dict \<Rightarrow> tree \<Rightarrow> string \<Rightarrow> bool" where
  \<comment> \<open>the checkpoint named for the source can be read\<close>
  "resumable m resumes t source =
     (case get_or_none (dict_at resumes source) ''identity'' of
        VStr checkpoint_name \<Rightarrow>
          (\<exists>path d raw. open_directory (mn_systems m source) t (mn_archive m) = Inr (path, d)
             \<and> read_file (mn_systems m source) d (checkpoint_name @ ''.json'') = Inr raw)
      | _ \<Rightarrow> False)"

lemma load_checkpoint_reads:
  assumes "load_checkpoint h mac clk now trusted loads sys folder request0 identity0 t = Inr entry"
  shows "\<exists>checkpoint_name path d raw. identity0 = VStr checkpoint_name \<and> open_directory sys t folder = Inr (path, d)
    \<and> read_file sys d (checkpoint_name @ ''.json'') = Inr raw"
  using assms unfolding load_checkpoint_def xbind_Inr raised_Inr needed_Inr
  by (auto simp del: get_or_none_eq)

lemma load_resumed_resumable:
  assumes "load_resumed m bound epoch contexts resumes t task = Inr (Some hit)"
  shows "resumable m resumes t (tk_source task)"
proof -
  obtain descriptor0 where "map_of resumes (tk_source task) = Some descriptor0"
    using assms by (cases "map_of resumes (tk_source task)") (simp_all add: load_resumed_def)
  moreover from this assms obtain d entry where "descriptor0 = VDict d"
    "load_checkpoint (mn_hashing m) (mn_mac m) (mn_clock m) (mn_now m) (mn_trusted m) (mn_loads m)
       (mn_systems m (tk_source task)) (mn_archive m) (get_or_none d ''request'') (get_or_none d ''identity'') t = Inr entry"
    unfolding load_resumed_def by (auto simp del: get_or_none_eq)
  ultimately show ?thesis
    using load_checkpoint_reads by (fastforce simp: resumable_def dict_at_def get_or_none_def split: option.splits)
qed

lemma load_all_resumable:
  assumes "load_all m bound epoch contexts resumes t tasks = Inr cached" "map_of cached source = Some hit"
  shows "resumable m resumes t source"
  using assms
proof (induction tasks arbitrary: cached)
  case (Cons task tasks)
  then obtain x rest where first: "load_resumed m bound epoch contexts resumes t task = Inr x"
    "load_all m bound epoch contexts resumes t tasks = Inr rest"
    "cached = (case x of None \<Rightarrow> rest | Some y \<Rightarrow> (tk_source task, y) # rest)" by auto
  show ?case
  proof (cases "\<exists>y. x = Some y \<and> source = tk_source task")
    case True
    then show ?thesis using load_resumed_resumable first(1) by auto
  next
    case False
    then have "map_of rest source = Some hit" using Cons.prems(2) first(3) by (cases x) auto
    then show ?thesis using Cons.IH [OF first(2)] by blast
  qed
qed simp

lemma cached_event_archived:
  assumes "resumable m resumes t source"
  shows "archived m t (cached_event resumes source entry age)"
proof -
  have "dict_at (cached_event resumes source entry age) ''resume'' = dict_at resumes source"
    unfolding dict_at_def cached_event_def Let_def event_dict_fields by simp
  moreover have "get_or_none (cached_event resumes source entry age) ''source'' = VStr source"
    unfolding cached_event_def Let_def event_dict_fields by simp
  ultimately show ?thesis using assms by (simp add: archived_def resumable_def del: get_or_none_eq)
qed

lemma task_event_archives:
  assumes "task_event m epoch contexts resumes cached task s = (r, s')" "grows t0 (ar_tree s)"
    and "\<And>source hit. map_of cached source = Some hit \<Longrightarrow> resumable m resumes t0 source"
  shows "grows (ar_tree s) (ar_tree s') \<and> (case r of Inl e \<Rightarrow> True | Inr event \<Rightarrow> complete_event event \<longrightarrow> archived m (ar_tree s') event)"
proof (cases "map_of cached (tk_source task)")
  case None
  with assms(1) have "run_task m epoch contexts task s = (r, s')" by (simp add: task_event_def)
  then show ?thesis by (rule run_task_archives)
next
  case (Some hit)
  obtain entry age where hit: "hit = (entry, age)" by fastforce
  have "archived m t0 (cached_event resumes (tk_source task) entry age)"
    using cached_event_archived assms(3) Some by blast
  then show ?thesis using assms(1,2) Some hit archived_grows by (auto simp: task_event_def grows_refl)
qed

lemma run_tasks_archives:
  assumes "\<And>source hit. map_of cached source = Some hit \<Longrightarrow> resumable m resumes t0 source"
    and "run_tasks m epoch contexts resumes cached tasks s = (r, s')" "grows t0 (ar_tree s)"
  shows "grows (ar_tree s) (ar_tree s') \<and> (case r of Inl e \<Rightarrow> True
    | Inr events \<Rightarrow> length events = length tasks \<and> list_all (archived m (ar_tree s')) (filter complete_event events))"
  using assms(2,3)
proof (induction tasks arbitrary: s r s')
  case Nil
  then show ?case by (auto simp: grows_refl)
next
  case (Cons task tasks)
  obtain r1 s1 where first: "task_event m epoch contexts resumes cached task s = (r1, s1)" by fastforce
  note one = task_event_archives [OF first Cons.prems(2) assms(1)]
  show ?case
  proof (cases "\<exists>event copied env. r1 = Inr event \<and> raised (copy_metadata (VDict event)) = Inr copied
      \<and> mn_on_event m copied (ar_env s1) = (Inr (), env)")
    case False
    then have "\<not> (\<exists>events. r = Inr events) \<and> ar_tree s' = ar_tree s1"
      using Cons.prems(1) first by (auto split: sum.splits prod.splits)
    with one show ?thesis by (cases r) auto
  next
    case True
    then obtain event copied env where ok: "r1 = Inr event" "raised (copy_metadata (VDict event)) = Inr copied"
      "mn_on_event m copied (ar_env s1) = (Inr (), env)" by blast
    obtain r2 s2 where rest: "run_tasks m epoch contexts resumes cached tasks (s1\<lparr>ar_env := env\<rparr>) = (r2, s2)" by fastforce
    have result: "s' = s2" "r = (case r2 of Inl e \<Rightarrow> Inl e | Inr events \<Rightarrow> Inr (event # events))"
      using Cons.prems(1) first ok rest by (auto split: sum.splits)
    have "grows t0 (ar_tree (s1\<lparr>ar_env := env\<rparr>))" using grows_trans [OF Cons.prems(2)] one by simp
    note more = Cons.IH [OF rest this]
    then have "grows (ar_tree s1) (ar_tree s2)" by simp
    then show ?thesis
      using one more result ok(1) archived_grows [of m "ar_tree s1" event "ar_tree s2"] grows_trans [of "ar_tree s" "ar_tree s1" "ar_tree s2"]
      by (cases r2) auto
  qed
qed

text \<open>
  C36. A run loses nothing it has archived. However it ends (an invalid plan, a source that fails, an interrupted write,
  a callback that raises), every directory keeps its owner, its mode and every file it had; and when it reports, there
  is one event per task and each event that claims to be complete names a checkpoint that can be read from the archive,
  whether it was published by this run or resumed.
\<close>

theorem runs_archive_what_they_claim:
  "case run_manual m tasks0 contexts0 evaluated max_age resume0 s of
     (Inl e, s') \<Rightarrow> grows (ar_tree s) (ar_tree s')
   | (Inr report, s') \<Rightarrow> grows (ar_tree s) (ar_tree s')
       \<and> (\<exists>events. get_or_none report ''sources'' = VList (map VDict events) \<and> length events = length tasks0
            \<and> list_all (archived m (ar_tree s')) (filter complete_event events))"
proof -
  obtain r s' where run: "run_manual m tasks0 contexts0 evaluated max_age resume0 s = (r, s')" by fastforce
  consider (refused) "s' = s" "\<not> (\<exists>report. r = Inr report)"
    | (executed) tasks bound epoch contexts resumes cached r1 where "check_plan m tasks0 contexts0 evaluated max_age resume0 = Inr (tasks, bound, epoch, contexts, resumes)"
        "load_all m bound epoch contexts resumes (ar_tree s) tasks = Inr cached"
        "run_tasks m epoch contexts resumes cached tasks s = (r1, s')"
        "r = (case r1 of Inl e \<Rightarrow> Inl e | Inr events \<Rightarrow> Inr (run_report tasks events evaluated max_age))"
    using run unfolding run_manual_def
    by (auto simp: raised_def split: sum.splits prod.splits err.splits)
  then show ?thesis
  proof cases
    case refused
    with run show ?thesis by (cases r) (simp_all add: grows_refl)
  next
    case executed
    have "length tasks = length tasks0"
      using executed(1) by (auto simp: check_plan_def dest!: collect_Inr_length)
    then show ?thesis
      using run executed(4) run_tasks_archives [OF load_all_resumable [OF executed(2)] executed(3) grows_refl]
      by (cases r1) (auto simp: run_report_def get_or_none_def)
  qed
qed

subsection \<open>A bound beyond the doubles\<close>

text \<open>
  An integer bound that no double reaches is not refused as out of range: \<open>math.isfinite\<close> raises \<open>OverflowError\<close>,
  which the command line does not catch.
\<close>

lemma freshness_bound_overflow:
  "FLOAT_LIMIT \<le> i \<Longrightarrow> freshness_bound (VInt i) = Inl (Raised ''OverflowError'')"
  using abs_ge_self [of i] by (simp add: freshness_bound_def finite_number_def rbind_def)

end
