(* ===== verification/Import_Emission.thy ===== *)
theory Import_Emission
  imports Provenance Discovery_Execution
begin

section \<open>database/poc/emit_discovery_import.py: SQL of a validated snapshot\<close>

text \<open>
  The scripts that import one snapshot. A stream is the text written to it; an exception
  leaves no result here, and the code has then written nothing or, for a snapshot without a capture time given to
  \<open>emit_pg\<close> directly, a script that is cut off before its commit. \<open>csv.writer\<close> with its default dialect and a line feed is written out.
\<close>

definition LF :: string where "LF = [CHR 0x0A]"
definition lines_text :: "string list \<Rightarrow> string" where "lines_text ls = concat (map (\<lambda>l. l @ LF) ls)"

subsection \<open>CSV\<close>

definition QUOTE :: char where "QUOTE = CHR 0x22"

definition needs_quotes :: "string \<Rightarrow> bool" where
  "needs_quotes s = list_ex (\<lambda>c. c = CHR '','' \<or> c = QUOTE \<or> c = CHR 0x0A \<or> c = CHR 0x0D) s"

definition double_quotes :: "string \<Rightarrow> string" where
  "double_quotes s = concat (map (\<lambda>c. if c = QUOTE then [QUOTE, QUOTE] else [c]) s)"

definition csv_field :: "string \<Rightarrow> string" where
  "csv_field s = (if needs_quotes s then [QUOTE] @ double_quotes s @ [QUOTE] else s)"

definition csv_row :: "string list \<Rightarrow> string" where
  \<comment> \<open>a row of several fields\<close>
  "csv_row columns = join_with '','' (map csv_field columns) @ LF"

subsection \<open>Records\<close>

definition PG_COLUMNS :: "string list" where
  "PG_COLUMNS = [''record_key'', ''source'', ''entity_type'', ''source_id'', ''source_revision'', ''display_name'',
     ''attributes'', ''relationships'', ''raw_metadata'', ''payload_sha256'', ''last_seen_snapshot'', ''last_seen_at'']"

definition JSON_COLUMNS :: "string list" where "JSON_COLUMNS = [''attributes'', ''relationships'', ''raw_metadata'']"

definition TEXT_COLUMNS :: "string list" where
  "TEXT_COLUMNS = [''source'', ''entity_type'', ''source_id'', ''source_revision'', ''display_name'']"

definition MAX_SURREAL_IMPORT_BYTES :: nat where "MAX_SURREAL_IMPORT_BYTES = 512 * 1024"

definition import_record :: "dict \<Rightarrow> dict \<Rightarrow> dict res" where
  "import_record e snapshot =
     rbind (item snapshot ''snapshot_id'') (\<lambda>i.
     rbind (item snapshot ''captured_at'') (\<lambda>t.
     Inr (put_key ''last_seen_at'' t (put_key ''last_seen_snapshot'' i e))))"

definition single_line :: "dict \<Rightarrow> bool" where
  "single_line e =
     list_all (\<lambda>f. case get_or_none e f of VStr s \<Rightarrow> CHR 0x0A \<notin> set s \<and> CHR 0x0D \<notin> set s | _ \<Rightarrow> True) TEXT_COLUMNS"

definition csv_text :: "val \<Rightarrow> string" where
  \<comment> \<open>what \<open>csv.writer\<close> prints for a text or for the empty string of \<open>None\<close>\<close>
  "csv_text v = (case v of VStr s \<Rightarrow> s | _ \<Rightarrow> [])"

definition column_text :: "hashing \<Rightarrow> dict \<Rightarrow> string \<Rightarrow> string res" where
  "column_text h r f =
     (if f \<in> set JSON_COLUMNS then canonical_json h (get_or_none r f) else Inr (csv_text (get_or_none r f)))"

definition row_fields :: "hashing \<Rightarrow> dict \<Rightarrow> dict \<Rightarrow> string list res" where
  "row_fields h snapshot e = rbind (import_record e snapshot) (\<lambda>r. collect (column_text h r) PG_COLUMNS)"

subsection \<open>PostgreSQL\<close>

definition pg_columns :: string where "pg_columns = join_with '', '' PG_COLUMNS"

definition pg_prologue :: string where
  "pg_prologue = lines_text
     [''BEGIN;'', ''SET TRANSACTION ISOLATION LEVEL READ COMMITTED;'',
      ''CREATE TEMP TABLE _discovery_stage (LIKE poc.discovery_cache INCLUDING DEFAULTS) ON COMMIT DROP;'',
      ''COPY _discovery_stage ('' @ pg_columns @ '') FROM STDIN WITH (FORMAT csv, HEADER true);'']"

definition pg_guard :: string where
  "pg_guard = lines_text
     [''LOCK TABLE poc.discovery_cache IN SHARE ROW EXCLUSIVE MODE;'', ''DO $discovery_guard$ BEGIN'',
      ''  IF EXISTS (SELECT 1 FROM poc.discovery_cache c'', ''    JOIN _discovery_stage s USING (record_key)'',
      ''    WHERE c.last_seen_at > s.last_seen_at'', ''       OR (c.last_seen_at = s.last_seen_at AND'',
      ''           to_jsonb(c) IS DISTINCT FROM to_jsonb(s))) THEN'',
      ''    RAISE EXCEPTION '' @ [CHR 0x27] @ ''Discovery observation is stale or conflicting'' @ [CHR 0x27] @ '';'',
      ''  END IF;'', ''END $discovery_guard$;'']"

definition pg_upsert :: string where
  "pg_upsert = lines_text
     [''INSERT INTO poc.discovery_cache ('' @ pg_columns @ '')'', ''SELECT '' @ pg_columns @ '' FROM _discovery_stage WHERE true'',
      ''ON CONFLICT (record_key) DO UPDATE SET'', ''  source_revision = EXCLUDED.source_revision,'',
      ''  display_name = EXCLUDED.display_name,'', ''  attributes = EXCLUDED.attributes,'',
      ''  relationships = EXCLUDED.relationships,'', ''  raw_metadata = EXCLUDED.raw_metadata,'',
      ''  payload_sha256 = EXCLUDED.payload_sha256,'', ''  last_seen_snapshot = EXCLUDED.last_seen_snapshot,'',
      ''  last_seen_at = EXCLUDED.last_seen_at;'', ''COMMIT;'']"

definition END_OF_COPY :: string where "END_OF_COPY = [CHR 0x5C, CHR ''.'']"

definition copy_data :: "string list list \<Rightarrow> string" where
  "copy_data rows = concat (map csv_row (PG_COLUMNS # rows))"

definition emit_pg :: "hashing \<Rightarrow> clock_reader \<Rightarrow> string \<Rightarrow> val \<Rightarrow> string res" where
  "emit_pg h clk now snapshot =
     rbind (validate_snapshot h clk now snapshot) (\<lambda>data.
     rbind (must (list_all single_line (record_dicts data))) (\<lambda>_.
     rbind (collect (row_fields h data) (record_dicts data)) (\<lambda>rows.
     Inr (pg_prologue @ copy_data rows @ END_OF_COPY @ LF @ pg_guard @ pg_upsert))))"

subsection \<open>SurrealDB\<close>

definition padded :: "nat \<Rightarrow> int \<Rightarrow> string" where
  "padded n i = (let d = nat_digits (nat i) in replicate (n - length d) (CHR ''0'') @ d)"

definition observation_time :: "clock_reader \<Rightarrow> val \<Rightarrow> string res" where
  \<comment> \<open>in UTC with microseconds; out of the years of a date it is an \<open>OverflowError\<close>\<close>
  "observation_time clk v =
     rbind (present (as_str v) ''AttributeError'') (\<lambda>s.
     rbind (needed (clk (replace_z s))) (\<lambda>stamp.
     rbind (needed stamp) (\<lambda>x.
     let micros = \<lfloor>x * 1000000\<rfloor>; t = utc_moment (micros div 1000000) in
     rbind (if valid_moment t then Inr () else Inl (Raised ''OverflowError'')) (\<lambda>_.
     Inr (padded 4 (mt_year t) @ ''-'' @ padded 2 (mt_month t) @ ''-'' @ padded 2 (mt_day t) @ ''T'' @ padded 2 (mt_hour t) @ '':''
          @ padded 2 (mt_minute t) @ '':'' @ padded 2 (mt_second t) @ ''.'' @ padded 6 (micros mod 1000000) @ ''Z'')))))"

definition quoted_text :: "string \<Rightarrow> string" where "quoted_text s = [CHR 0x27] @ s @ [CHR 0x27]"

definition surreal_record :: "hashing \<Rightarrow> string \<Rightarrow> dict \<Rightarrow> dict \<Rightarrow> string res" where
  "surreal_record h instant data e =
     rbind (import_record e data) (\<lambda>r.
     let k = csv_text (get_or_none r ''record_key'') in
      rbind (canonical_json h (VDict (pop_key ''last_seen_at'' r))) (\<lambda>content.
      rbind (canonical_json h (VDict r)) (\<lambda>whole.
      Inr (lines_text
        [''LET $current = (SELECT * FROM ONLY discovery_cache:'' @ k @ '');'', ''IF $current != NONE {'',
         ''  LET $seen = <datetime> $current.last_seen_at;'',
         ''  LET $payload = (SELECT * OMIT id, last_seen_at FROM ONLY discovery_cache:'' @ k @ '');'',
         ''  IF $seen > <datetime> '' @ instant @ '' OR ($seen = <datetime> '' @ instant @ '' AND $payload != '' @ content @ '') {'',
         ''    THROW '' @ quoted_text ''Discovery observation is stale or conflicting'' @ '';'', ''  };'', ''};'',
         ''UPSERT discovery_cache:'' @ k @ '' CONTENT '' @ whole @ '' RETURN NONE;'']))))"

definition emit_surreal :: "hashing \<Rightarrow> clock_reader \<Rightarrow> string \<Rightarrow> val \<Rightarrow> string res" where
  "emit_surreal h clk now snapshot =
     rbind (validate_snapshot h clk now snapshot) (\<lambda>data.
     rbind (item data ''captured_at'') (\<lambda>captured.
     rbind (observation_time clk captured) (\<lambda>time_text.
     rbind (canonical_json h (VStr time_text)) (\<lambda>instant.
     rbind (collect (surreal_record h instant data) (record_dicts data)) (\<lambda>parts.
     let body = lines_text
           [''OPTION IMPORT;'', ''-- B2 discovery cache; import via /surreal import, NOT /surreal sql.'', ''BEGIN TRANSACTION;'',
            ''DEFINE TABLE IF NOT EXISTS discovery_cache SCHEMALESS;''] @ concat parts @ lines_text [''COMMIT TRANSACTION;''] in
     rbind (must (length (utf8 body) \<le> MAX_SURREAL_IMPORT_BYTES)) (\<lambda>_. Inr body))))))"

subsection \<open>Protected imports\<close>

definition emit_protected ::
  "hashing \<Rightarrow> mac \<Rightarrow> clock_reader \<Rightarrow> string \<Rightarrow> issuers \<Rightarrow> val \<Rightarrow> val \<Rightarrow> val \<Rightarrow> string res" where
  \<comment> \<open>\<open>discovery_provenance.emit_protected\<close>: nothing is written unless the whole script has been made\<close>
  "emit_protected h mac clk now trusted snapshot provenance engine0 =
     rbind (snapshot_copy h clk now snapshot) (\<lambda>data.
     rbind (validate_provenance h mac clk now trusted (VDict data) provenance) (\<lambda>p.
     rbind (must (get_or_none p ''kind'' = VStr ''controlled_observation'')) (\<lambda>_.
     rbind (if hashable engine0 then Inr () else Inl (Raised ''TypeError'')) (\<lambda>_.
     rbind (must (engine0 \<in> {VStr ''pg'', VStr ''surreal''})) (\<lambda>_.
     (if engine0 = VStr ''pg'' then emit_pg else emit_surreal) h clk now (VDict data))))))"

end
