(* ===== verification/Emission_Guarantees.thy ===== *)
theory Emission_Guarantees
  imports Import_Emission Snapshot_Guarantees
begin

section \<open>Guarantees of the generated imports\<close>

subsection \<open>Reading CSV\<close>










subsection \<open>Physical lines\<close>













subsection \<open>Rows are single lines but for the observation time\<close>

definition unbroken :: "string \<Rightarrow> bool" where "unbroken s = (CHR 0x0A \<notin> set s)"

lemma unbroken_simps [simp]:
  "unbroken []" "unbroken (c # s) \<longleftrightarrow> c \<noteq> CHR 0x0A \<and> unbroken s" "unbroken (a @ b) \<longleftrightarrow> unbroken a \<and> unbroken b"
  by (auto simp: unbroken_def)


lemma newline_ord [simp]: "ord (CHR 0x0A) = 10" by (simp add: ord_def)













subsection \<open>The script\<close>






end
