(* ===== verification/Provider_Adapters.thy ===== *)
theory Provider_Adapters
  imports Execution_Models
begin

section \<open>database/poc: adapters of CSGHub, MoArk and ModelScope\<close>

text \<open>
  \<open>csghub_adapter.py\<close>, \<open>moark_adapter.py\<close> and \<open>modelscope_adapter.py\<close>: the pure normalisers of three more providers.
  Every refusal is a \<open>ValueError\<close>. The metadata is JSON-native (the dates and enumerations that a SDK may hold are
  converted by the JSON printer before, and are not values here).
\<close>

definition two_parts :: "string \<Rightarrow> (string \<times> string) option" where
  \<comment> \<open>exactly one slash\<close>
  "two_parts s = (case split_on (CHR ''/'') s of [a, b] \<Rightarrow> Some (a, b) | _ \<Rightarrow> None)"

definition commit_hash :: "string \<Rightarrow> bool" where
  "commit_hash s = ((length s = 40 \<or> length s = 64) \<and> list_all (\<lambda>c. is_hex (lower_char c)) s)"

definition text_or_none :: "val \<Rightarrow> string option res" where
  \<comment> \<open>a text of white space is no text\<close>
  "text_or_none v =
     (if v = VNull then Inr None
      else rbind (needed (as_str v)) (\<lambda>s. Inr (if strip s = [] then None else Some s)))"

definition optional_tags :: "val \<Rightarrow> val res" where
  "optional_tags v = rbind (optional_strings v) (\<lambda>_. Inr v)"

definition last_name :: "string \<Rightarrow> string" where "last_name s = last_part (CHR ''/'') s"

definition lower_revision :: "string option \<Rightarrow> string option" where
  "lower_revision v = (case v of Some s \<Rightarrow> if commit_hash s then Some (lower s) else None | None \<Rightarrow> None)"

subsection \<open>CSGHub\<close>

definition csghub_part :: "string \<Rightarrow> bool" where
  "csghub_part s = (case s of [] \<Rightarrow> False | c # cs \<Rightarrow> (is_letter c \<or> is_digit c) \<and> list_all word_char cs)"

definition csghub_id :: "val \<Rightarrow> string res" where
  "csghub_id v =
     rbind (needed (as_str v)) (\<lambda>s.
     rbind (must (case two_parts s of Some (a, b) \<Rightarrow> csghub_part a \<and> csghub_part b | None \<Rightarrow> False)) (\<lambda>_. Inr s))"

definition csghub_gating :: "val \<Rightarrow> (string option \<times> val) res" where
  "csghub_gating v =
     (if v = VNull then Inr (None, VNull)
      else case as_bool v of Some b \<Rightarrow> Inr (Some (if b then ''gated'' else ''not_gated''), VNull)
      | None \<Rightarrow> rbind (must (v = VStr ''auto'' \<or> v = VStr ''manual'')) (\<lambda>_. Inr (Some ''gated'', v)))"

definition csghub_access :: "val \<Rightarrow> string option \<Rightarrow> string" where
  "csghub_access private gate =
     (if private = VBool True then ''private'' else if gate = Some ''gated'' then ''gated''
      else if private = VBool False \<and> gate = Some ''not_gated'' then ''public'' else ''unknown'')"

definition csghub_visibility :: "val \<Rightarrow> string" where
  "csghub_visibility private = (if private = VNull then ''unknown'' else if private = VBool True then ''private'' else ''public'')"

definition csghub_files :: "val \<Rightarrow> string list option res" where
  "csghub_files v =
     (if v = VNull then Inr None
      else rbind (needed (as_list v)) (\<lambda>xs.
           rbind (collect (\<lambda>x. rbind (needed (as_dict x)) (\<lambda>e.
             rbind (text_or_none (get_or_none e ''rfilename'')) needed)) xs) (\<lambda>fs. Inr (Some fs))))"

definition observed_formats :: "string list option \<Rightarrow> val" where
  "observed_formats files =
     (case files of None \<Rightarrow> VNull
      | Some fs \<Rightarrow> VList (map VStr (filter (\<lambda>e. list_ex (\<lambda>f. ends_with (''.'' @ e) (lower f)) fs) [''gguf'', ''safetensors''])))"

definition csghub_license :: "dict \<Rightarrow> string option res" where
  \<comment> \<open>the repository and the model card must not disagree\<close>
  "csghub_license raw =
     rbind (must (get_or_none raw ''cardData'' = VNull \<or> as_dict (get_or_none raw ''cardData'') \<noteq> None)) (\<lambda>_.
     rbind (text_or_none (get_or_none raw ''license'')) (\<lambda>own.
     rbind (case as_dict (get_or_none raw ''cardData'') of Some c \<Rightarrow> text_or_none (get_or_none c ''license'') | None \<Rightarrow> Inr None) (\<lambda>sheet.
     rbind (must (\<not> (own \<noteq> None \<and> sheet \<noteq> None \<and> own \<noteq> sheet))) (\<lambda>_.
     Inr (if own = None then sheet else own)))))"

definition normalize_csghub_model :: "val \<Rightarrow> val \<Rightarrow> source_record res" where
  "normalize_csghub_model requested v =
     rbind (csghub_id requested) (\<lambda>rid.
     rbind (needed (as_dict v)) (\<lambda>d.
     rbind (copy_dict d) (\<lambda>raw.
     rbind (csghub_id (get_or_none raw ''id'')) (\<lambda>own.
     rbind (must (own = rid)) (\<lambda>_.
     rbind (must (get_or_none raw ''repo_type'' = VNull \<or> get_or_none raw ''repo_type'' = VStr ''model'')) (\<lambda>_.
     rbind (optional_bool (get_or_none raw ''private'')) (\<lambda>private.
     rbind (csghub_gating (get_or_none raw ''gated'')) (\<lambda>(gate, approval).
     rbind (text_or_none (get_or_none raw ''sha'')) (\<lambda>sha.
     rbind (optional_tags (get_or_none raw ''tags'')) (\<lambda>tags.
     rbind (csghub_files (get_or_none raw ''siblings'')) (\<lambda>files.
     rbind (csghub_license raw) (\<lambda>license.
     rbind (text_or_none (get_or_none raw ''author'')) (\<lambda>author.
     rbind (text_or_none (get_or_none raw ''pipeline_tag'')) (\<lambda>pipeline.
     rbind (text_or_none (get_or_none raw ''library_name'')) (\<lambda>library.
     rbind (optional_nonnegative_int (get_or_none raw ''downloads'')) (\<lambda>downloads.
     rbind (optional_nonnegative_int (get_or_none raw ''likes'')) (\<lambda>likes.
     rbind (text_or_none (get_or_none raw ''created_at'')) (\<lambda>created.
     rbind (text_or_none (get_or_none raw ''last_modified'')) (\<lambda>modified.
     make_record
       \<lparr>sr_source = ''csghub'', sr_id = rid, sr_revision = lower_revision sha, sr_type = ''model_artifact'', sr_name = last_name rid,
        sr_attributes = [(''visibility'', VStr (csghub_visibility private)), (''access'', VStr (csghub_access private gate)),
          (''gated'', case gate of None \<Rightarrow> VNull | Some g \<Rightarrow> VBool (g = ''gated'')), (''approval_mode'', approval),
          (''license'', opt_str license), (''author'', opt_str author), (''pipeline_tag'', opt_str pipeline),
          (''library_name'', opt_str library), (''tags'', tags), (''downloads'', opt_int downloads), (''likes'', opt_int likes),
          (''created_at'', opt_str created), (''last_modified'', opt_str modified), (''file_count'', count_of files),
          (''observed_formats'', observed_formats files)],
        sr_relationships = [], sr_raw = raw\<rparr>)))))))))))))))))))"

subsection \<open>MoArk\<close>

definition API_BASE :: string where "API_BASE = ''https://moark.ai/v1''"
definition CATALOG_URL :: string where "CATALOG_URL = API_BASE @ ''/models?type=text2text&include_details=false''"

definition moark_id :: "val \<Rightarrow> string res" where
  \<comment> \<open>the pattern is that of the public identifiers\<close>
  "moark_id v = rbind (needed (as_str v)) (\<lambda>s. rbind (must (public_identifier s)) (\<lambda>_. Inr s))"

definition moark_owner :: "val \<Rightarrow> val res" where
  "moark_owner v = rbind (must (v = VNull \<or> (case as_str v of Some s \<Rightarrow> strip s \<noteq> [] | None \<Rightarrow> False))) (\<lambda>_. Inr v)"

definition normalize_moark_model :: "val \<Rightarrow> val \<Rightarrow> source_record res" where
  "normalize_moark_model requested v =
     rbind (moark_id requested) (\<lambda>rid.
     rbind (needed (as_dict v)) (\<lambda>d.
     rbind (must (get_or_none d ''object'' = VStr ''model'')) (\<lambda>_.
     rbind (copy_dict d) (\<lambda>raw.
     rbind (moark_id (get_or_none raw ''id'')) (\<lambda>own.
     rbind (must (own = rid)) (\<lambda>_.
     rbind (optional_nonnegative_int (get_or_none raw ''created'')) (\<lambda>created.
     rbind (moark_owner (get_or_none raw ''owned_by'')) (\<lambda>owner.
     make_record
       \<lparr>sr_source = ''moark'', sr_id = rid, sr_revision = None, sr_type = ''inference_endpoint'', sr_name = rid,
        sr_attributes = [(''api_base'', VStr API_BASE), (''catalog_url'', VStr CATALOG_URL), (''owned_by'', owner),
          (''created'', opt_int created), (''access'', VStr ''unknown''), (''license'', VNull), (''weights_available'', VNull)],
        sr_relationships = [], sr_raw = raw\<rparr>))))))))"

fun find_moark :: "string \<Rightarrow> string list \<Rightarrow> val option \<Rightarrow> val list \<Rightarrow> val option res" where
  \<comment> \<open>the whole roster is read: every identifier is checked and none may be repeated\<close>
  "find_moark rid known selected [] = Inr selected"
| "find_moark rid known selected (x # xs) =
     rbind (needed (as_dict x)) (\<lambda>e.
     rbind (must (get_or_none e ''object'' = VStr ''model'')) (\<lambda>_.
     rbind (moark_id (get_or_none e ''id'')) (\<lambda>i.
     rbind (must (i \<notin> set known)) (\<lambda>_.
     find_moark rid (i # known) (if i = rid then Some x else selected) xs))))"

definition paginated :: "dict \<Rightarrow> bool" where
  "paginated raw =
     ((get_or_none raw ''has_more'' \<noteq> VNull \<and> get_or_none raw ''has_more'' \<noteq> VBool False)
      \<or> get_or_none raw ''next'' \<noteq> VNull \<or> get_or_none raw ''next_page'' \<noteq> VNull)"

definition select_moark_model :: "val \<Rightarrow> val \<Rightarrow> source_record res" where
  "select_moark_model requested v =
     rbind (moark_id requested) (\<lambda>rid.
     rbind (needed (as_dict v)) (\<lambda>d.
     rbind (must (get_or_none d ''object'' = VStr ''list'')) (\<lambda>_.
     rbind (needed (as_list (get_or_none d ''data''))) (\<lambda>roster.
     rbind (copy_dict d) (\<lambda>raw.
     rbind (must (\<not> paginated raw)) (\<lambda>_.
     rbind (find_moark rid [] None roster) (\<lambda>selected.
     rbind (needed selected) (\<lambda>x.
     normalize_moark_model (VStr rid) x))))))))"

subsection \<open>ModelScope\<close>

definition modelscope_part :: "string \<Rightarrow> bool" where
  "modelscope_part s = (s \<noteq> [] \<and> s \<noteq> ''.'' \<and> s \<noteq> ''..'' \<and> list_all (\<lambda>c. \<not> is_space c \<and> 32 \<le> ord c) s)"

definition modelscope_id :: "val \<Rightarrow> string res" where
  "modelscope_id v =
     rbind (needed (as_str v)) (\<lambda>s.
     rbind (must (case two_parts s of Some (a, b) \<Rightarrow> modelscope_part a \<and> modelscope_part b | None \<Rightarrow> False)) (\<lambda>_. Inr s))"

definition timestamp_or_none :: "val \<Rightarrow> val res" where
  "timestamp_or_none v =
     (if v = VNull \<or> v = VStr [] then Inr VNull
      else case as_str v of Some s \<Rightarrow> rbind (must (strip s \<noteq> [])) (\<lambda>_. Inr v)
      | None \<Rightarrow> (case strict_number v of Some x \<Rightarrow> rbind (must (\<not> flt_less x (Fin 0))) (\<lambda>_. Inr v) | None \<Rightarrow> invalid))"

definition modelscope_visibility :: "val \<Rightarrow> string res" where
  "modelscope_visibility v =
     (case v of
        VNull \<Rightarrow> Inr ''unknown''
      | VInt i \<Rightarrow> Inr (if i = 1 then ''private'' else if i = 3 then ''internal'' else if i = 5 then ''public'' else ''unknown'')
      | VStr s \<Rightarrow> Inr (if lower s \<in> {''public'', ''private'', ''internal''} then lower s else ''unknown'')
      | _ \<Rightarrow> invalid)"

definition resolved_id :: "dict \<Rightarrow> val" where
  \<comment> \<open>\<open>repo_id\<close>, else an \<open>id\<close> with a slash, else owner and name\<close>
  "resolved_id raw =
     (if get_or_none raw ''repo_id'' \<noteq> VNull then get_or_none raw ''repo_id''
      else case as_str (get_or_none raw ''id'') of
        Some s \<Rightarrow> if CHR ''/'' \<in> set s then VStr s else
          (case (as_str (get_or_none raw ''owner''), as_str (get_or_none raw ''name'')) of
             (Some a, Some b) \<Rightarrow> VStr (a @ ''/'' @ b) | _ \<Rightarrow> VNull)
      | None \<Rightarrow> (case (as_str (get_or_none raw ''owner''), as_str (get_or_none raw ''name'')) of
             (Some a, Some b) \<Rightarrow> VStr (a @ ''/'' @ b) | _ \<Rightarrow> VNull))"

definition settled_visibility :: "val \<Rightarrow> val \<Rightarrow> string \<Rightarrow> string res" where
  \<comment> \<open>\<open>private\<close> fills an unknown visibility and must not contradict a known one; a public model is not gated\<close>
  "settled_visibility gated private declared =
     (let v = (if declared = ''unknown'' \<and> private \<noteq> VNull then (if private = VBool True then ''private'' else ''public'') else declared) in
      rbind (must (\<not> (private \<noteq> VNull \<and> v \<in> {''public'', ''private''} \<and> (private = VBool True) \<noteq> (v = ''private'')))) (\<lambda>_.
      rbind (must (\<not> (gated = VBool True \<and> v = ''public''))) (\<lambda>_. Inr v)))"

definition commit_field :: "dict \<Rightarrow> val" where
  \<comment> \<open>\<open>raw.get("sha", raw.get("commit_sha"))\<close>: a \<open>sha\<close> that is null hides the other\<close>
  "commit_field raw = (case map_of raw ''sha'' of Some v \<Rightarrow> v | None \<Rightarrow> get_or_none raw ''commit_sha'')"

definition optional_text :: "val \<Rightarrow> string option res" where
  "optional_text v = (if v = VNull then Inr None else rbind (needed (as_str v)) (\<lambda>s. Inr (Some s)))"

definition normalize_modelscope_repo :: "val \<Rightarrow> val \<Rightarrow> source_record res" where
  "normalize_modelscope_repo requested v =
     rbind (modelscope_id requested) (\<lambda>rid.
     rbind (needed (as_dict v)) (\<lambda>d.
     rbind (copy_dict d) (\<lambda>raw.
     rbind (must (get_or_none raw ''repo_type'' = VNull \<or> get_or_none raw ''repo_type'' = VStr ''model'')) (\<lambda>_.
     rbind (modelscope_id (resolved_id raw)) (\<lambda>own.
     rbind (must (own = rid)) (\<lambda>_.
     rbind (optional_bool (get_or_none raw ''gated'')) (\<lambda>gated.
     rbind (optional_bool (get_or_none raw ''private'')) (\<lambda>private.
     rbind (modelscope_visibility (get_or_none raw ''visibility'')) (\<lambda>declared.
     rbind (settled_visibility gated private declared) (\<lambda>visibility.
     rbind (optional_tags (get_or_none raw ''tags'')) (\<lambda>tags.
     rbind (optional_text (commit_field raw)) (\<lambda>commit.
     rbind (timestamp_or_none (get_or_none raw ''last_modified'')) (\<lambda>modified.
     rbind (text_or_none (get_or_none raw ''display_name'')) (\<lambda>name.
     rbind (text_or_none (get_or_none raw ''license'')) (\<lambda>license.
     rbind (text_or_none (get_or_none raw ''description'')) (\<lambda>description.
     rbind (optional_nonnegative_int (get_or_none raw ''downloads'')) (\<lambda>downloads.
     rbind (optional_nonnegative_int (get_or_none raw ''likes'')) (\<lambda>likes.
     rbind (text_or_none (get_or_none raw ''revision'')) (\<lambda>revision.
     make_record
       \<lparr>sr_source = ''modelscope'', sr_id = rid, sr_revision = lower_revision commit, sr_type = ''model_artifact'',
        sr_name = (case name of Some s \<Rightarrow> s | None \<Rightarrow> last_name rid),
        sr_attributes = [(''visibility'', VStr visibility), (''gated'', gated),
          (''access'', VStr (if gated = VBool True then ''gated'' else visibility)), (''license'', opt_str license),
          (''description'', opt_str description), (''tags'', tags), (''downloads'', opt_int downloads), (''likes'', opt_int likes),
          (''last_modified'', modified), (''revision_label'', opt_str revision), (''files'', VNull)],
        sr_relationships = [], sr_raw = raw\<rparr>)))))))))))))))))))"

end
