(* ===== verification/Models_Dev.thy ===== *)
theory Models_Dev
  imports Source_Adapters
begin

section \<open>database/poc: rows and records of a models.dev checkout\<close>

text \<open>
  \<open>make_row\<close> of \<open>import_models_dev.py\<close> and \<open>collect_modelsdev\<close> of \<open>collect_discovery_snapshot.py\<close>. The checkout is a
  parameter: the TOML files in sorted order, each with its path below \<open>models\<close>, whether it is a symbolic link, and what
  \<open>tomllib\<close> and the JSON conversion of its dates make of it (\<open>None\<close> where the parser raises). The \<open>str\<close> of a name that
  is no text is a parameter too. A float that is not finite ends the collection here when it is printed, in the source
  when the printed text is read back, with the same exception.
\<close>

record toml_file =
  tf_path :: "string list"
  tf_symlink :: bool
  tf_model :: "val option"

record model_row =
  mr_commit :: string
  mr_path :: string
  mr_model :: string
  mr_name :: string
  mr_family :: string
  mr_open :: string
  mr_context :: "int option"
  mr_tools :: string
  mr_weights :: nat
  mr_benchmarks :: nat
  mr_metadata :: string

definition stem :: "string \<Rightarrow> string" where
  \<comment> \<open>a name without its last suffix, as \<open>pathlib\<close> cuts it\<close>
  "stem name =
     (if CHR ''.'' \<in> set name \<and> before_last (CHR ''.'') name \<noteq> [] \<and> after_last (CHR ''.'') name \<noteq> [] then before_last (CHR ''.'') name else name)"

definition model_path :: "string list \<Rightarrow> string" where
  "model_path parts = join_with ''/'' (butlast parts @ [stem (last parts)])"

definition strict_bool :: "val \<Rightarrow> bool option" where "strict_bool v = as_bool v"

definition nested :: "val \<Rightarrow> string \<Rightarrow> val" where
  \<comment> \<open>a field of what is an object, else \<open>None\<close>\<close>
  "nested v k = (case as_dict v of Some d \<Rightarrow> get_or_none d k | None \<Rightarrow> VNull)"

definition supported_tools :: "dict \<Rightarrow> bool option res" where
  "supported_tools m =
     (let legacy_tools = strict_bool (get_or_none m ''tool_call'');
          modern = strict_bool (nested (nested (get_or_none m ''capabilities'') ''tools'') ''supported'') in
      rbind (must (\<not> (modern \<noteq> None \<and> legacy_tools \<noteq> None \<and> modern \<noteq> legacy_tools))) (\<lambda>_.
      Inr (if modern \<noteq> None then modern else legacy_tools)))"

definition bool_csv :: "bool option \<Rightarrow> string" where
  "bool_csv v = (case v of None \<Rightarrow> [] | Some b \<Rightarrow> if b then ''true'' else ''false'')"

definition count_items :: "val \<Rightarrow> nat" where "count_items v = (case as_list v of Some xs \<Rightarrow> length xs | None \<Rightarrow> 0)"

definition context_tokens :: "val \<Rightarrow> int option" where
  "context_tokens v = (case as_int (nested v ''context'') of Some i \<Rightarrow> if i < 0 then None else Some i | None \<Rightarrow> None)"

definition one_line :: "string \<Rightarrow> bool" where "one_line s = (CHR 0x0A \<notin> set s \<and> CHR 0x0D \<notin> set s)"

definition make_row :: "(rat \<Rightarrow> string) \<Rightarrow> (val \<Rightarrow> string) \<Rightarrow> string \<Rightarrow> toml_file \<Rightarrow> model_row res" where
  "make_row frepr py_str commit f =
     rbind (must (\<not> tf_symlink f)) (\<lambda>_.
     rbind (present (tf_model f) ''TOMLDecodeError'') (\<lambda>v.
     rbind (needed (as_dict v)) (\<lambda>m.
     let given = get_or_none m ''name'';
         name = (if truthy given then (case given of VStr s \<Rightarrow> s | _ \<Rightarrow> py_str given) else stem (last (tf_path f)));
         family = (case as_str (get_or_none m ''family'') of Some s \<Rightarrow> s | None \<Rightarrow> []);
         path = join_with ''/'' (''models'' # tf_path f) in
     rbind (must (one_line path \<and> one_line name \<and> one_line family)) (\<lambda>_.
     rbind (canon frepr (VDict m)) (\<lambda>metadata.
     rbind (supported_tools m) (\<lambda>tools.
     Inr \<lparr>mr_commit = commit, mr_path = path, mr_model = model_path (tf_path f), mr_name = name, mr_family = family,
          mr_open = bool_csv (strict_bool (get_or_none m ''open_weights'')), mr_context = context_tokens (get_or_none m ''limit''),
          mr_tools = bool_csv tools, mr_weights = count_items (get_or_none m ''weights''),
          mr_benchmarks = count_items (get_or_none m ''benchmarks''), mr_metadata = metadata\<rparr>))))))"

definition bool_or_none :: "string \<Rightarrow> val res" where
  "bool_or_none s =
     (if s = ''true'' then Inr (VBool True) else if s = ''false'' then Inr (VBool False) else if s = [] then Inr VNull else invalid)"

definition modelsdev_record :: "(rat \<Rightarrow> string) \<Rightarrow> (val \<Rightarrow> string) \<Rightarrow> string \<Rightarrow> toml_file \<Rightarrow> source_record res" where
  \<comment> \<open>the printed metadata is read back: it is that of the file\<close>
  "modelsdev_record frepr py_str commit f =
     rbind (make_row frepr py_str commit f) (\<lambda>row.
     rbind (needed (case tf_model f of Some v \<Rightarrow> as_dict v | None \<Rightarrow> None)) (\<lambda>raw.
     rbind (bool_or_none (mr_open row)) (\<lambda>opened.
     rbind (bool_or_none (mr_tools row)) (\<lambda>tools.
     make_record
       \<lparr>sr_source = ''models.dev'', sr_id = mr_model row, sr_revision = Some commit, sr_type = ''model_reference'', sr_name = mr_name row,
        sr_attributes = [(''source_path'', VStr (mr_path row)), (''family'', if mr_family row = [] then VNull else VStr (mr_family row)),
          (''open_weights'', opened), (''context_tokens'', opt_int (mr_context row)), (''tools_supported'', tools),
          (''weights_count'', VInt (int (mr_weights row))), (''benchmarks_count'', VInt (int (mr_benchmarks row)))],
        sr_relationships = [], sr_raw = raw\<rparr>))))"

definition collect_modelsdev :: "(rat \<Rightarrow> string) \<Rightarrow> (val \<Rightarrow> string) \<Rightarrow> string \<Rightarrow> int \<Rightarrow> toml_file list \<Rightarrow> source_record list res" where
  "collect_modelsdev frepr py_str commit limit files =
     rbind (must (0 \<le> limit)) (\<lambda>_.
     rbind (must (files \<noteq> [])) (\<lambda>_.
     collect (modelsdev_record frepr py_str commit) (if limit = 0 then files else take (nat limit) files)))"

end
