(* ===== verification/Fixture_Registry.thy ===== *)
theory Fixture_Registry
  imports Provider_Adapters Models_Dev
begin

section \<open>database/poc/discovery_registry.py: fixtures bound to the registered sources\<close>

text \<open>
  The files below the directory of the manifest are a parameter: what a path holds, which components are symbolic
  links, and whether a path resolves below the directory. \<open>loads\<close> is the JSON parser. The bindings are the seven
  registered sources.
\<close>

record fixture_files =
  fx_read :: "string list \<Rightarrow> string option"
  fx_symlink :: "string list \<Rightarrow> bool"
  fx_inside :: "string list \<Rightarrow> bool"
  fx_models_linked :: "string list \<Rightarrow> bool"
  fx_models :: "string list \<Rightarrow> toml_file list"
  fx_loads :: "string \<Rightarrow> val option"
  fx_frepr :: "rat \<Rightarrow> string"
  fx_str :: "val \<Rightarrow> string"

definition MAX_FIXTURE_BYTES :: nat where "MAX_FIXTURE_BYTES = 2000000"

definition read_object :: "fixture_files \<Rightarrow> string option \<Rightarrow> dict res" where
  \<comment> \<open>the bytes of the file, \<open>None\<close> where opening or reading raises\<close>
  "read_object fx content =
     rbind (present content ''OSError'') (\<lambda>bytes.
     rbind (must (length bytes \<le> MAX_FIXTURE_BYTES)) (\<lambda>_.
     rbind (strict_json_loads (fx_loads fx) bytes) (\<lambda>v.
     rbind (needed (as_dict v)) copy_dict)))"

definition relative_parts :: "string \<Rightarrow> string list" where
  "relative_parts s = filter (\<lambda>c. c \<noteq> [] \<and> c \<noteq> ''.'') (split_on (CHR ''/'') s)"

definition fixture_path :: "fixture_files \<Rightarrow> val \<Rightarrow> string list res" where
  "fixture_path fx v =
     rbind (nonempty_string v) (\<lambda>s.
     let parts = relative_parts s in
     rbind (must (\<not> starts_with ''/'' s \<and> ''..'' \<notin> set parts)) (\<lambda>_.
     rbind (must (list_all (\<lambda>n. \<not> fx_symlink fx (take n parts)) [1..<Suc (length parts)])) (\<lambda>_.
     rbind (must (fx_inside fx parts)) (\<lambda>_. Inr parts))))"

record fixture_selection =
  fs_source :: string
  fs_path :: "string list"
  fs_scope :: dict
  fs_revision :: "string option"
  fs_key :: "string option"

definition fixture_payload :: "fixture_files \<Rightarrow> fixture_selection \<Rightarrow> dict res" where
  "fixture_payload fx sel =
     rbind (read_object fx (fx_read fx (fs_path sel))) (\<lambda>data.
     needed (as_dict (case fs_key sel of None \<Rightarrow> VDict data | Some k \<Rightarrow> get_or_none data k)))"

definition requested_id :: "fixture_selection \<Rightarrow> val" where
  "requested_id sel = (case get_or_none (fs_scope sel) ''ids'' of VList (x # _) \<Rightarrow> x | _ \<Rightarrow> VNull)"

definition scope_limit :: "fixture_selection \<Rightarrow> int" where
  "scope_limit sel = (case as_int (get_or_none (fs_scope sel) ''limit'') of Some n \<Rightarrow> n | None \<Rightarrow> 0)"

definition scope_text :: "fixture_selection \<Rightarrow> string \<Rightarrow> string" where
  "scope_text sel k = (case get_or_none (fs_scope sel) k of VStr s \<Rightarrow> s | _ \<Rightarrow> [])"

definition or_blank :: "string option \<Rightarrow> string" where "or_blank v = (case v of None \<Rightarrow> [] | Some s \<Rightarrow> s)"

definition single :: "'a res \<Rightarrow> 'a list res" where "single m = rbind m (\<lambda>x. Inr [x])"

subsection \<open>The bindings\<close>

definition normalize_fixture :: "fixture_files \<Rightarrow> fixture_selection \<Rightarrow> source_record list res" where
  \<comment> \<open>the seven callbacks, by the source of the selection\<close>
  "normalize_fixture fx sel =
     (let payload = rbind (fixture_payload fx sel) (\<lambda>d. Inr (VDict d)) in
      if fs_source sel = ''models.dev'' then
        rbind (must (\<not> fx_models_linked fx (fs_path sel))) (\<lambda>_.
        collect_modelsdev (fx_frepr fx) (fx_str fx) (or_blank (fs_revision sel)) (scope_limit sel) (fx_models fx (fs_path sel)))
      else if fs_source sel = ''huggingface'' then rbind payload (\<lambda>p. single (normalize_huggingface_model p))
      else if fs_source sel = ''awesome-ai-agents'' then
        rbind payload (\<lambda>p.
        rbind (normalize_awesome_catalog (or_blank (fs_revision sel)) (VDict [(''agents'', VList [p])])) (\<lambda>rs.
        Inr (if scope_limit sel = 0 then rs else take (nat (scope_limit sel)) rs)))
      else if fs_source sel = ''nvidia-nim-metadata'' then
        rbind payload (\<lambda>p. single (normalize_nim_metadata (scope_text sel ''resource_id'') (scope_text sel ''tag'') p))
      else if fs_source sel = ''modelscope'' then rbind payload (\<lambda>p. single (normalize_modelscope_repo (requested_id sel) p))
      else if fs_source sel = ''csghub'' then rbind payload (\<lambda>p. single (normalize_csghub_model (requested_id sel) p))
      else rbind payload (\<lambda>p. single (select_moark_model (requested_id sel) p)))"

definition conforms :: "source_spec \<Rightarrow> source_record \<Rightarrow> bool" where
  \<comment> \<open>the three tests of \<open>FixtureBinding.collect\<close> on one record\<close>
  "conforms spec r =
     (sr_source r = ss_source spec \<and> sr_type r \<in> set (ss_types spec) \<and> (sr_revision r \<noteq> None \<or> ss_nullable spec)
      \<and> \<not> (ss_revision spec = ''none'' \<and> sr_revision r \<noteq> None))"

definition same_identity :: "fixture_selection \<Rightarrow> source_record list \<Rightarrow> bool" where
  "same_identity sel rs =
     (let mode = get_or_none (fs_scope sel) ''mode'' in
      \<not> (mode = VStr ''exact_ids'' \<and> VList (map (VStr \<circ> sr_id) rs) \<noteq> get_or_none (fs_scope sel) ''ids'')
      \<and> \<not> (mode = VStr ''exact_tag''
           \<and> \<not> (case rs of [r] \<Rightarrow> VStr (sr_id r) = get_or_none (fs_scope sel) ''resource_id''
                                 \<and> opt_str (sr_revision r) = get_or_none (fs_scope sel) ''tag'' | _ \<Rightarrow> False)))"

definition collect_binding :: "fixture_files \<Rightarrow> source_spec \<Rightarrow> fixture_selection \<Rightarrow> source_record list res" where
  "collect_binding fx spec sel =
     rbind (must (fs_source sel = ss_source spec)) (\<lambda>_.
     rbind (normalize_fixture fx sel) (\<lambda>rs.
     rbind (must (rs \<noteq> [])) (\<lambda>_.
     rbind (must (list_all (conforms spec) rs)) (\<lambda>_.
     rbind (must (same_identity sel rs)) (\<lambda>_. Inr rs)))))"

subsection \<open>Selections\<close>

definition fixture_mode_fields :: "string \<Rightarrow> dict \<Rightarrow> string list res" where
  "fixture_mode_fields mode scope =
     (if mode = ''exact_ids'' then
        rbind (needed (as_list (get_or_none scope ''ids''))) (\<lambda>ids.
        rbind (must (length ids = 1)) (\<lambda>_.
        rbind (nonempty_string (hd ids)) (\<lambda>_. Inr [''mode'', ''ids''])))
      else if mode = ''first_n_sorted'' \<or> mode = ''first_n_unique'' then
        rbind (needed (as_int (get_or_none scope ''limit''))) (\<lambda>n. rbind (must (0 \<le> n)) (\<lambda>_. Inr [''mode'', ''limit'']))
      else
        rbind (nonempty_string (get_or_none scope ''resource_id'')) (\<lambda>_.
        rbind (nonempty_string (get_or_none scope ''tag'')) (\<lambda>_. Inr [''mode'', ''resource_id'', ''tag''])))"

definition fixture_moark_fields :: "source_spec \<Rightarrow> dict \<Rightarrow> string list res" where
  "fixture_moark_fields spec scope =
     (if ss_source spec = ''moark'' then
        rbind (must (get_or_none scope ''endpoint'' = VStr API_BASE \<and> get_or_none scope ''catalog_url'' = VStr CATALOG_URL
               \<and> get_or_none scope ''authentication'' = VStr ''anonymous'' \<and> get_or_none scope ''input'' = VStr ''synthetic_fixture'')) (\<lambda>_.
        Inr [''endpoint'', ''catalog_url'', ''authentication'', ''input''])
      else Inr [])"

definition fixture_revision :: "string \<Rightarrow> val \<Rightarrow> string option res" where
  \<comment> \<open>a pinned commit for the two catalogues, nothing for the others\<close>
  "fixture_revision source v =
     (if source = ''models.dev'' \<or> source = ''awesome-ai-agents''
      then rbind (needed (as_str v)) (\<lambda>s. rbind (must (hex_string 40 s)) (\<lambda>_. Inr (Some s)))
      else rbind (must (v = VNull)) (\<lambda>_. Inr None))"

definition fixture_key :: "string \<Rightarrow> val \<Rightarrow> string option res" where
  "fixture_key source v =
     (if v = VNull then Inr None
      else rbind (nonempty_string v) (\<lambda>s. rbind (must (source \<noteq> ''models.dev'')) (\<lambda>_. Inr (Some s))))"

definition make_selection :: "fixture_files \<Rightarrow> string \<Rightarrow> val \<Rightarrow> fixture_selection res" where
  \<comment> \<open>\<open>_selection\<close>\<close>
  "make_selection fx source entry0 =
     rbind (present (SOURCE_SPECS source) ''KeyError'') (\<lambda>spec.
     rbind (needed (as_dict entry0)) (\<lambda>e.
     rbind (must ({''fixture'', ''scope''} \<subseteq> set (keys e) \<and> set (keys e) \<subseteq> {''fixture'', ''scope'', ''revision'', ''payload_key''})) (\<lambda>_.
     rbind (copy_metadata (get_or_none e ''scope'')) (\<lambda>copied.
     rbind (needed (as_dict copied)) (\<lambda>scope.
     rbind (if hashable (get_or_none scope ''mode'') then Inr () else Inl (Raised ''TypeError'')) (\<lambda>_.
     rbind (needed (as_str (get_or_none scope ''mode''))) (\<lambda>mode.
     rbind (must (mode \<in> set (ss_modes spec))) (\<lambda>_.
     rbind (fixture_mode_fields mode scope) (\<lambda>f1.
     rbind (endpoint_fields spec scope) (\<lambda>f2.
     rbind (csghub_fields spec scope) (\<lambda>f3.
     rbind (fixture_moark_fields spec scope) (\<lambda>f4.
     rbind (must (exact_keys scope (f1 @ f2 @ f3 @ f4))) (\<lambda>_.
     rbind (fixture_revision source (get_or_none e ''revision'')) (\<lambda>revision.
     rbind (fixture_key source (get_or_none e ''payload_key'')) (\<lambda>k.
     rbind (fixture_path fx (get_or_none e ''fixture'')) (\<lambda>path.
     Inr \<lparr>fs_source = source, fs_path = path, fs_scope = scope, fs_revision = revision, fs_key = k\<rparr>))))))))))))))))"

subsection \<open>A synthetic snapshot\<close>

definition MANIFEST_KEYS :: "string list" where "MANIFEST_KEYS = [''format'', ''synthetic'', ''captured_at'', ''sources'']"

definition fixture_manifest :: "dict \<Rightarrow> dict res" where
  \<comment> \<open>the sources of an explicit synthetic manifest\<close>
  "fixture_manifest manifest =
     rbind (must (exact_keys manifest MANIFEST_KEYS \<and> get_or_none manifest ''format'' = VStr ''pepeuch-ai.fixture-discovery/v1''
                  \<and> get_or_none manifest ''synthetic'' = VBool True)) (\<lambda>_.
     rbind (needed (as_dict (get_or_none manifest ''sources''))) (\<lambda>sources.
     rbind (must (set (keys sources) \<subseteq> ss_source ` set SOURCES)) (\<lambda>_. Inr sources)))"

definition collect_selection :: "fixture_files \<Rightarrow> fixture_selection \<Rightarrow> source_record list res" where
  "collect_selection fx sel =
     rbind (present (SOURCE_SPECS (fs_source sel)) ''KeyError'') (\<lambda>spec. collect_binding fx spec sel)"

definition discover_fixtures ::
  "hashing \<Rightarrow> clock_reader \<Rightarrow> string \<Rightarrow> fixture_files \<Rightarrow> string option \<Rightarrow> string list option \<Rightarrow> val \<Rightarrow> dict res" where
  \<comment> \<open>the manifest as bytes, the sources chosen (all of them by default), the capture time given\<close>
  "discover_fixtures h clk now fx manifest0 sources captured =
     (let selected = (case sources of None \<Rightarrow> map ss_source SOURCES | Some xs \<Rightarrow> xs) in
      rbind (must (selected \<noteq> [] \<and> distinct selected \<and> set selected \<subseteq> ss_source ` set SOURCES)) (\<lambda>_.
      rbind (read_object fx manifest0) (\<lambda>manifest.
      rbind (fixture_manifest manifest) (\<lambda>declared.
      rbind (must (set selected \<subseteq> set (keys declared))) (\<lambda>_.
      rbind (nonempty_string (get_or_none manifest ''captured_at'')) (\<lambda>_.
      rbind (collect (\<lambda>s. make_selection fx s (get_or_none declared s)) selected) (\<lambda>selections.
      rbind (collect (collect_selection fx) selections) (\<lambda>groups.
      rbind (make_snapshot h clk now (concat groups) (VDict (map (\<lambda>s. (fs_source s, VDict (fs_scope s))) selections))
               (if captured = VNull then get_or_none manifest ''captured_at'' else captured)) (\<lambda>snapshot.
      validate_snapshot h clk now (VDict snapshot))))))))))"

end
