(* ===== verification/Fixture_Guarantees.thy ===== *)
theory Fixture_Guarantees
  imports Fixture_Registry Snapshot_Guarantees
begin

section \<open>Guarantees of the fixtures and their adapters\<close>

definition public_record :: "source_record \<Rightarrow> bool" where
  \<comment> \<open>what a record carries can be printed as JSON and has no secret-like name\<close>
  "public_record r =
     (secret_free (VDict (sr_attributes r)) \<and> plain (VDict (sr_attributes r)) \<and> secret_free (VDict (sr_raw r)) \<and> plain (VDict (sr_raw r)))"

lemma make_record_Inr: "make_record r = Inr r' \<Longrightarrow> r' = r \<and> public_record r"
  by (auto simp: make_record_def public_record_def copy_dict_Inr)

subsection \<open>What each adapter makes\<close>

definition made :: "string \<Rightarrow> string \<Rightarrow> source_record \<Rightarrow> bool" where
  "made source type r = (sr_source r = source \<and> sr_type r = type \<and> public_record r)"

lemma huggingface_made: "normalize_huggingface_model v = Inr r \<Longrightarrow> made ''huggingface'' ''model_artifact'' r"
  by (auto simp: normalize_huggingface_model_def made_def dest!: make_record_Inr)

lemma csghub_made: "normalize_csghub_model i v = Inr r \<Longrightarrow> made ''csghub'' ''model_artifact'' r"
  by (auto simp: normalize_csghub_model_def made_def dest!: make_record_Inr)

lemma modelscope_made: "normalize_modelscope_repo i v = Inr r \<Longrightarrow> made ''modelscope'' ''model_artifact'' r"
  by (auto simp: normalize_modelscope_repo_def made_def dest!: make_record_Inr)

lemma nim_made:
  "normalize_nim_metadata i t v = Inr r \<Longrightarrow> made ''nvidia-nim-metadata'' ''nim_microservice'' r \<and> sr_revision r = Some t"
  by (auto simp: normalize_nim_metadata_def made_def dest!: make_record_Inr)

lemma moark_made: "select_moark_model i v = Inr r \<Longrightarrow> made ''moark'' ''inference_endpoint'' r \<and> sr_revision r = None"
  by (auto simp: select_moark_model_def normalize_moark_model_def made_def dest!: make_record_Inr)

lemma agent_made:
  "normalize_awesome_agent c v = Inr r \<Longrightarrow> made ''awesome-ai-agents'' ''agent_resource'' r \<and> sr_revision r = Some c"
  by (auto simp: normalize_awesome_agent_def made_def nonempty_string_def dest!: make_record_Inr)

lemma modelsdev_made:
  "modelsdev_record fr st c f = Inr r \<Longrightarrow> made ''models.dev'' ''model_reference'' r \<and> sr_revision r = Some c"
  by (auto simp: modelsdev_record_def made_def dest!: make_record_Inr)

subsection \<open>Revisions\<close>

definition valid_revision :: "string \<Rightarrow> string option \<Rightarrow> bool" where
  \<comment> \<open>what each declared \<open>revision_validation\<close> promises\<close>
  "valid_revision kind given =
     (if kind = ''sha1_exact'' then (case given of Some s \<Rightarrow> hex_string 40 s | None \<Rightarrow> False)
      else if kind = ''nonempty_string'' then (case given of Some s \<Rightarrow> strip s \<noteq> [] | None \<Rightarrow> True)
      else if kind = ''full_hash_if_available'' then (case given of Some s \<Rightarrow> hex_string 40 s \<or> hex_string 64 s | None \<Rightarrow> True)
      else if kind = ''container_tag'' then (case given of Some s \<Rightarrow> container_tag s | None \<Rightarrow> False)
      else given = None)"

lemma lowered_hash: "valid_revision ''full_hash_if_available'' (lower_revision v)"
  by (auto simp: valid_revision_def lower_revision_def commit_hash_def hex_string_def lower_def list_all_iff split: option.splits)

lemma huggingface_revision:
  assumes "normalize_huggingface_model v = Inr r"
  shows "valid_revision ''nonempty_string'' (sr_revision r)"
proof -
  obtain d where "optional_string (get_or_none d ''sha'') = Inr (sr_revision r)"
    using assms by (auto simp: normalize_huggingface_model_def simp del: get_or_none_eq dest!: make_record_Inr)
  then show ?thesis
    by (cases "sr_revision r") (auto simp: optional_string_def nonempty_string_def valid_revision_def simp del: get_or_none_eq split: if_splits)
qed

lemma csghub_revision: "normalize_csghub_model i v = Inr r \<Longrightarrow> valid_revision ''full_hash_if_available'' (sr_revision r)"
  using lowered_hash by (auto simp: normalize_csghub_model_def dest!: make_record_Inr)

lemma modelscope_revision: "normalize_modelscope_repo i v = Inr r \<Longrightarrow> valid_revision ''full_hash_if_available'' (sr_revision r)"
  using lowered_hash by (auto simp: normalize_modelscope_repo_def dest!: make_record_Inr)

lemma nim_revision: "normalize_nim_metadata i t v = Inr r \<Longrightarrow> valid_revision ''container_tag'' (sr_revision r)"
  by (auto simp: normalize_nim_metadata_def valid_revision_def dest!: make_record_Inr)

lemma agent_revision: "normalize_awesome_agent c v = Inr r \<Longrightarrow> valid_revision ''sha1_exact'' (sr_revision r)"
  by (auto simp: normalize_awesome_agent_def nonempty_string_def valid_revision_def dest!: make_record_Inr)

subsection \<open>Catalogues\<close>

lemma unique_agents_kept: "unique_agents us rs = Inr vs \<Longrightarrow> list_all P us \<Longrightarrow> list_all P rs \<Longrightarrow> list_all P vs"
  by (induction us rs rule: unique_agents.induct) (auto split: option.splits if_splits)

lemma collect_made: "collect f xs = Inr ys \<Longrightarrow> (\<And>x y. f x = Inr y \<Longrightarrow> P y) \<Longrightarrow> list_all P ys"
  by (induction xs arbitrary: ys) (auto split: sum.splits)

lemma catalog_made:
  assumes "normalize_awesome_catalog c v = Inr rs"
  shows "list_all (\<lambda>r. made ''awesome-ai-agents'' ''agent_resource'' r \<and> sr_revision r = Some c \<and> hex_string 40 c) rs"
proof -
  obtain agents us where "collect (normalize_awesome_agent c) agents = Inr us" "unique_agents [] us = Inr rs"
    using assms by (auto simp: normalize_awesome_catalog_def)
  moreover have "made ''awesome-ai-agents'' ''agent_resource'' r \<and> sr_revision r = Some c \<and> hex_string 40 c"
    if "normalize_awesome_agent c x = Inr r" for x r
    using agent_made [OF that] agent_revision [OF that] by (simp add: valid_revision_def)
  ultimately have "list_all (\<lambda>r. made ''awesome-ai-agents'' ''agent_resource'' r \<and> sr_revision r = Some c \<and> hex_string 40 c) us"
    by (blast intro: collect_made)
  with \<open>unique_agents [] us = Inr rs\<close> show ?thesis using unique_agents_kept list.pred_inject(1) by blast
qed

lemma modelsdev_all_made:
  "collect_modelsdev fr st c n fs = Inr rs \<Longrightarrow> list_all (\<lambda>r. made ''models.dev'' ''model_reference'' r \<and> sr_revision r = Some c) rs"
  by (auto simp: collect_modelsdev_def elim!: collect_made dest: modelsdev_made)

lemma selected:
  assumes "make_selection fx source entry = Inr sel"
  shows "fs_source sel = source" "\<exists>spec. SOURCE_SPECS source = Some spec"
    "source = ''models.dev'' \<Longrightarrow> \<exists>s. fs_revision sel = Some s \<and> hex_string 40 s"
  using assms by (auto simp: make_selection_def fixture_revision_def)

subsection \<open>The descriptions\<close>

text \<open>What the description of a source asks of a record of that source.\<close>

definition description :: "string \<Rightarrow> (string list \<times> string \<times> string \<times> bool) option" where
  "description source = map_option (\<lambda>s. (ss_types s, ss_revision s, ss_validation s, ss_nullable s)) (SOURCE_SPECS source)"

lemma descriptions:
  "description ''models.dev'' = Some ([''model_reference''], ''catalog_commit'', ''sha1_exact'', False)"
  "description ''huggingface'' = Some ([''model_artifact''], ''repository_sha'', ''nonempty_string'', True)"
  "description ''awesome-ai-agents'' = Some ([''agent_resource''], ''catalog_commit'', ''sha1_exact'', False)"
  "description ''nvidia-nim-metadata'' = Some ([''nim_microservice''], ''mutable_container_tag'', ''container_tag'', False)"
  "description ''modelscope'' = Some ([''model_artifact''], ''repository_sha'', ''full_hash_if_available'', True)"
  "description ''csghub'' = Some ([''model_artifact''], ''repository_sha'', ''full_hash_if_available'', True)"
  "description ''moark'' = Some ([''inference_endpoint''], ''none'', ''none'', True)"
  by code_simp+

lemma spec_source: "SOURCE_SPECS source = Some spec \<Longrightarrow> ss_source spec = source"
  unfolding SOURCE_SPECS_def by (auto dest!: map_of_SomeD)

lemma declared:
  assumes "SOURCE_SPECS source = Some spec" "description source = Some ([type], kind, form, nullable)" "made source type r"
    and "if kind = ''none'' then sr_revision r = None else nullable \<or> sr_revision r \<noteq> None" "kind = ''none'' \<longrightarrow> nullable"
  shows "conforms spec r" "ss_validation spec = form"
  using assms spec_source by (auto simp: description_def conforms_def made_def split: if_splits)

lemma registered: "map ss_source SOURCES =
    [''models.dev'', ''huggingface'', ''awesome-ai-agents'', ''nvidia-nim-metadata'', ''modelscope'', ''csghub'', ''moark'']"
  by (simp add: SOURCES_def)

lemma made_public: "made s t r \<Longrightarrow> public_record r"
  by (simp add: made_def)

text \<open>What a record of the fixture satisfies, source by source.\<close>

definition well_described :: "source_spec \<Rightarrow> source_record \<Rightarrow> bool" where
  "well_described spec r = (conforms spec r \<and> valid_revision (ss_validation spec) (sr_revision r) \<and> public_record r)"

lemma modelsdev_described:
  assumes "make_selection fx source entry = Inr sel" "normalize_fixture fx sel = Inr rs" "source = ''models.dev''"
    and spec: "SOURCE_SPECS source = Some spec"
  shows "list_all (well_described spec) rs"
proof -
  note sel = selected [OF assms(1)]
  with assms obtain n fs where "collect_modelsdev (fx_frepr fx) (fx_str fx) (or_blank (fs_revision sel)) n fs = Inr rs"
    by (auto simp: normalize_fixture_def)
  moreover obtain c where c: "fs_revision sel = Some c" "hex_string 40 c" using sel(3) [OF assms(3)] by blast
  ultimately have all: "list_all (\<lambda>r. made ''models.dev'' ''model_reference'' r \<and> sr_revision r = Some c) rs"
    using modelsdev_all_made by (simp add: or_blank_def)
  have "well_described spec r" if r: "made ''models.dev'' ''model_reference'' r" "sr_revision r = Some c" for r
    using declared [OF spec [unfolded assms(3)] descriptions(1) r(1)] made_public [OF r(1)] r(2) c(2)
    by (simp add: well_described_def valid_revision_def)
  with all show ?thesis unfolding list_all_iff by blast
qed

lemma catalog_described:
  assumes "make_selection fx source entry = Inr sel" "normalize_fixture fx sel = Inr rs" "source = ''awesome-ai-agents''"
    and spec: "SOURCE_SPECS source = Some spec"
  shows "list_all (well_described spec) rs"
proof -
  from assms(2,3) selected(1) [OF assms(1)] obtain c v us where us: "normalize_awesome_catalog c v = Inr us" "set rs \<subseteq> set us"
    by (fastforce simp: normalize_fixture_def dest: in_set_takeD split: if_splits)
  have "well_described spec r"
    if r: "made ''awesome-ai-agents'' ''agent_resource'' r" "sr_revision r = Some c" "hex_string 40 c" for r
    using declared [OF spec [unfolded assms(3)] descriptions(3) r(1)] made_public [OF r(1)] r(2,3)
    by (simp add: well_described_def valid_revision_def)
  with catalog_made [OF us(1)] us(2) show ?thesis unfolding list_all_iff by blast
qed

lemma huggingface_described:
  assumes "normalize_huggingface_model p = Inr r" "SOURCE_SPECS ''huggingface'' = Some spec"
  shows "well_described spec r"
  using declared [OF assms(2) descriptions(2) huggingface_made [OF assms(1)]] huggingface_revision [OF assms(1)]
    made_public [OF huggingface_made [OF assms(1)]] by (simp add: well_described_def)

lemma nim_described:
  assumes "normalize_nim_metadata i t p = Inr r" "SOURCE_SPECS ''nvidia-nim-metadata'' = Some spec"
  shows "well_described spec r"
proof -
  have m: "made ''nvidia-nim-metadata'' ''nim_microservice'' r" "sr_revision r \<noteq> None" using nim_made [OF assms(1)] by simp_all
  show ?thesis
    using declared [OF assms(2) descriptions(4) m(1)] m(2) nim_revision [OF assms(1)] made_public [OF m(1)]
    by (simp add: well_described_def)
qed

lemma modelscope_described:
  assumes "normalize_modelscope_repo i p = Inr r" "SOURCE_SPECS ''modelscope'' = Some spec"
  shows "well_described spec r"
  using declared [OF assms(2) descriptions(5) modelscope_made [OF assms(1)]] modelscope_revision [OF assms(1)]
    made_public [OF modelscope_made [OF assms(1)]] by (simp add: well_described_def)

lemma csghub_described:
  assumes "normalize_csghub_model i p = Inr r" "SOURCE_SPECS ''csghub'' = Some spec"
  shows "well_described spec r"
  using declared [OF assms(2) descriptions(6) csghub_made [OF assms(1)]] csghub_revision [OF assms(1)]
    made_public [OF csghub_made [OF assms(1)]] by (simp add: well_described_def)

lemma moark_described:
  assumes "select_moark_model i p = Inr r" "SOURCE_SPECS ''moark'' = Some spec"
  shows "well_described spec r"
proof -
  have m: "made ''moark'' ''inference_endpoint'' r" "sr_revision r = None" using moark_made [OF assms(1)] by simp_all
  show ?thesis
    using declared [OF assms(2) descriptions(7) m(1)] m(2) made_public [OF m(1)] by (simp add: well_described_def valid_revision_def)
qed

lemma registered_source:
  assumes "SOURCE_SPECS source = Some spec"
  shows "source = ''models.dev'' \<or> source = ''huggingface'' \<or> source = ''awesome-ai-agents'' \<or> source = ''nvidia-nim-metadata''
    \<or> source = ''modelscope'' \<or> source = ''csghub'' \<or> source = ''moark''"
proof -
  have "source \<in> set (map ss_source SOURCES)" using assms unfolding SOURCE_SPECS_def by (auto dest!: map_of_SomeD)
  then show ?thesis unfolding registered by (simp only: list.set insert_iff empty_iff simp_thms)
qed

lemma single_described:
  assumes "make_selection fx source entry = Inr sel" "normalize_fixture fx sel = Inr rs"
    and "source \<noteq> ''models.dev''" "source \<noteq> ''awesome-ai-agents''" and spec: "SOURCE_SPECS source = Some spec"
  shows "list_all (well_described spec) rs"
proof -
  note picked = selected(1) [OF assms(1)]
  have "\<exists>r. rs = [r] \<and> well_described spec r"
    using registered_source [OF spec]
  proof (elim disjE)
    assume "source = ''models.dev''"
    with assms(3) show ?thesis by (rule notE)
  next
    assume source: "source = ''huggingface''"
    with assms(2) picked obtain p r where r: "normalize_huggingface_model p = Inr r" "rs = [r]"
      by (auto simp: normalize_fixture_def single_def)
    show ?thesis using huggingface_described [OF r(1) spec [unfolded source]] r(2) by simp
  next
    assume "source = ''awesome-ai-agents''"
    with assms(4) show ?thesis by (rule notE)
  next
    assume source: "source = ''nvidia-nim-metadata''"
    with assms(2) picked obtain i t p r where r: "normalize_nim_metadata i t p = Inr r" "rs = [r]"
      by (auto simp: normalize_fixture_def single_def)
    show ?thesis using nim_described [OF r(1) spec [unfolded source]] r(2) by simp
  next
    assume source: "source = ''modelscope''"
    with assms(2) picked obtain i p r where r: "normalize_modelscope_repo i p = Inr r" "rs = [r]"
      by (auto simp: normalize_fixture_def single_def)
    show ?thesis using modelscope_described [OF r(1) spec [unfolded source]] r(2) by simp
  next
    assume source: "source = ''csghub''"
    with assms(2) picked obtain i p r where r: "normalize_csghub_model i p = Inr r" "rs = [r]"
      by (auto simp: normalize_fixture_def single_def)
    show ?thesis using csghub_described [OF r(1) spec [unfolded source]] r(2) by simp
  next
    assume source: "source = ''moark''"
    with assms(2) picked obtain i p r where r: "select_moark_model i p = Inr r" "rs = [r]"
      by (auto simp: normalize_fixture_def single_def)
    show ?thesis using moark_described [OF r(1) spec [unfolded source]] r(2) by simp
  qed
  then show ?thesis by auto
qed

text \<open>
  C38. Whatever a fixture holds, the records an adapter makes of it are of the type that the description of their source
  declares: the source, the resource type and the presence of a revision are the declared ones, the revision has the
  declared form (a full commit hash in lower case, a container tag, a text that is not blank, or nothing), and the
  attributes and the raw metadata can be printed as JSON and hold no secret-like name. So the three tests with which
  the binding compares an adapter with its description never fail.
\<close>

theorem fixture_records_conform:
  assumes "make_selection fx source entry = Inr sel" and "normalize_fixture fx sel = Inr rs"
  shows "\<exists>spec. SOURCE_SPECS source = Some spec
    \<and> list_all (\<lambda>r. conforms spec r \<and> valid_revision (ss_validation spec) (sr_revision r) \<and> public_record r) rs"
proof -
  obtain spec where spec: "SOURCE_SPECS source = Some spec" using selected(2) [OF assms(1)] ..
  have "list_all (well_described spec) rs"
  proof (cases "source = ''models.dev'' \<or> source = ''awesome-ai-agents''")
    case True
    then show ?thesis using modelsdev_described [OF assms _ spec] catalog_described [OF assms _ spec] by (elim disjE)
  next
    case False
    then show ?thesis unfolding de_Morgan_disj by (elim conjE) (rule single_described [OF assms _ _ spec])
  qed
  with spec show ?thesis unfolding well_described_def by blast
qed

text \<open>A fixture of one Hugging Face model.\<close>

definition sample_fixture :: fixture_files where
  "sample_fixture =
     \<lparr>fx_read = (\<lambda>p. if p = [''a.json''] then Some ''x'' else None), fx_symlink = (\<lambda>p. False), fx_inside = (\<lambda>p. True),
      fx_models_linked = (\<lambda>p. False), fx_models = (\<lambda>p. []), fx_loads = (\<lambda>s. Some (VDict [(''id'', VStr ''o/m'')])),
      fx_frepr = (\<lambda>x. []), fx_str = (\<lambda>v. [])\<rparr>"

definition sample_record :: source_record where
  "sample_record =
     \<lparr>sr_source = ''huggingface'', sr_id = ''o/m'', sr_revision = None, sr_type = ''model_artifact'', sr_name = ''m'',
      sr_attributes = [(''access'', VStr ''unknown''), (''approval_mode'', VNull), (''license'', VNull), (''architectures'', VNull),
        (''base_models'', VNull), (''available_formats'', VList []), (''file_count'', VNull)],
      sr_relationships = [], sr_raw = [(''id'', VStr ''o/m'')]\<rparr>"


definition sample_scope :: dict where "sample_scope = [(''mode'', VStr ''exact_ids''), (''ids'', VList [VStr ''o/m''])]"

definition sample_entry :: val where
  "sample_entry = VDict [(''fixture'', VStr ''a.json''), (''scope'', VDict sample_scope)]"

definition sample_selection :: fixture_selection where
  "sample_selection =
     \<lparr>fs_source = ''huggingface'', fs_path = [''a.json''], fs_scope = sample_scope, fs_revision = None, fs_key = None\<rparr>"

lemma sample_parts:
  "copy_metadata (VDict sample_scope) = Inr (VDict sample_scope)" "map_of sample_scope ''mode'' = Some (VStr ''exact_ids'')"
  "fixture_path sample_fixture (VStr ''a.json'') = Inr [''a.json'']" "fixture_mode_fields ''exact_ids'' sample_scope = Inr [''mode'', ''ids'']"
  "exact_keys sample_scope [''mode'', ''ids'']"
  by code_simp+

lemma sample_spec:
  "map_option (\<lambda>spec. (ss_modes spec, endpoint_fields spec sample_scope, csghub_fields spec sample_scope,
     fixture_moark_fields spec sample_scope)) (SOURCE_SPECS ''huggingface'') = Some ([''exact_ids''], Inr [], Inr [], Inr [])"
  by code_simp

lemma sample_selected: "make_selection sample_fixture ''huggingface'' sample_entry = Inr sample_selection"
proof -
  obtain spec where spec: "SOURCE_SPECS ''huggingface'' = Some spec" "ss_modes spec = [''exact_ids'']"
    "endpoint_fields spec sample_scope = Inr []" "csghub_fields spec sample_scope = Inr []"
    "fixture_moark_fields spec sample_scope = Inr []" using sample_spec by (auto simp del: get_or_none_eq)
  show ?thesis
    by (simp add: make_selection_def sample_entry_def spec(1) present_def spec sample_parts fixture_revision_def fixture_key_def hashable_def
        get_or_none_def keys_def sample_selection_def)
qed

lemma sample_payload: "fixture_payload sample_fixture sample_selection = Inr [(''id'', VStr ''o/m'')]"
proof -
  have "copy_dict [(''id'', VStr ''o/m'')] = Inr [(''id'', VStr ''o/m'')]" by code_simp
  moreover have "strict_json_loads (fx_loads sample_fixture) ''x'' = Inr (VDict [(''id'', VStr ''o/m'')])" by code_simp
  ultimately show ?thesis
    by (simp add: fixture_payload_def read_object_def sample_selection_def sample_fixture_def present_def MAX_FIXTURE_BYTES_def)
qed

lemma sample_normalized: "normalize_fixture sample_fixture sample_selection = Inr [sample_record]"
proof -
  have "normalize_huggingface_model (VDict [(''id'', VStr ''o/m'')]) = Inr sample_record" by code_simp
  then show ?thesis using sample_payload by (simp add: normalize_fixture_def sample_selection_def single_def)
qed

lemma fixture_records_conform_witness:
  "\<exists>spec. SOURCE_SPECS ''huggingface'' = Some spec \<and> conforms spec sample_record \<and> public_record sample_record"
  using fixture_records_conform [OF sample_selected sample_normalized] by auto

end
