(* ===== verification/Metadata_Http.thy ===== *)
theory Metadata_Http
  imports Discovery_Execution Urls
begin

section \<open>database/poc/metadata_http.py and metadata_sdk.py: one bounded metadata request\<close>

text \<open>
  The policy of a request, the check of its URL, the transport over \<open>urllib\<close> and the translation of every outcome.
  A transport is a function of the URL, the timeout and the byte limit that answers with a result or an exception;
  the opener of \<open>urllib\<close> is a parameter of the same kind, whose answer is read with a bound. \<open>loads\<close> is the JSON
  parser, \<open>ip_literal\<close> the test of a bracketed host, \<open>decode\<close> the decoder of percent-encoded bytes.
\<close>

subsection \<open>The policy\<close>

record http_policy =
  hp_hosts :: "string list"
  hp_max_bytes :: int
  hp_timeout :: rat

definition host_char :: "char \<Rightarrow> bool" where "host_char c = (is_lower c \<or> is_digit c \<or> c = CHR ''.'' \<or> c = CHR ''-'')"

definition metadata_host :: "string \<Rightarrow> bool" where
  "metadata_host s = (s \<noteq> [] \<and> s = lower s \<and> list_all host_char s \<and> hd s \<noteq> CHR ''.'' \<and> last s \<noteq> CHR ''.'')"

definition make_http_policy :: "val \<Rightarrow> val \<Rightarrow> val \<Rightarrow> http_policy res" where
  \<comment> \<open>the collection of hosts is given as a list\<close>
  "make_http_policy hosts0 max_bytes0 timeout0 =
     rbind (needed (as_list hosts0)) (\<lambda>hosts.
     rbind (must (hosts \<noteq> [])) (\<lambda>_.
     rbind (collect (\<lambda>x. rbind (needed (as_str x)) (\<lambda>s. rbind (must (metadata_host s)) (\<lambda>_. Inr s))) hosts) (\<lambda>names.
     rbind (needed (as_int max_bytes0)) (\<lambda>max_bytes.
     rbind (must (0 < max_bytes)) (\<lambda>_.
     rbind (must (strict_number timeout0 \<noteq> None)) (\<lambda>_.
     rbind (finite_number timeout0) (\<lambda>x.
     rbind (needed x) (\<lambda>timeout.
     rbind (must (0 < timeout \<and> timeout \<le> 60)) (\<lambda>_.
     Inr \<lparr>hp_hosts = names, hp_max_bytes = max_bytes, hp_timeout = timeout\<rparr>)))))))))"

subsection \<open>The URL\<close>

fun percent_bytes :: "string \<Rightarrow> string" where
  "percent_bytes (c # a # b # cs) =
     (if c = CHR ''%''
      then (case (hex_value a, hex_value b) of (Some i, Some j) \<Rightarrow> char_of (16 * i + j) # percent_bytes cs
            | _ \<Rightarrow> c # percent_bytes (a # b # cs))
      else c # percent_bytes (a # b # cs))"
| "percent_bytes s = s"

function unquote :: "(string \<Rightarrow> string) \<Rightarrow> string \<Rightarrow> string" where
  \<comment> \<open>runs of ASCII characters are decoded, the others are kept\<close>
  "unquote decode s =
     (case s of [] \<Rightarrow> []
      | c # cs \<Rightarrow> if ord c < 128
          then decode (percent_bytes (takeWhile (\<lambda>x. ord x < 128) s)) @ unquote decode (dropWhile (\<lambda>x. ord x < 128) s)
          else c # unquote decode cs)"
  by pat_completeness auto
termination
  by (relation "measure (\<lambda>(d, s). length s)") (auto intro: le_imp_less_Suc length_dropWhile_le)

declare unquote.simps [simp del]

definition query_names :: "(string \<Rightarrow> string) \<Rightarrow> string \<Rightarrow> string list" where
  \<comment> \<open>the names of \<open>parse_qsl\<close> with \<open>keep_blank_values\<close>\<close>
  "query_names decode query =
     map (\<lambda>p. unquote decode (map (\<lambda>c. if c = CHR ''+'' then CHR '' '' else c) (before_char (CHR ''='') p)))
       (filter (\<lambda>p. p \<noteq> []) (split_on (CHR ''&'') query))"

definition url_char :: "char \<Rightarrow> bool" where "url_char c = (\<not> is_space c \<and> 32 \<le> ord c \<and> ord c \<noteq> 127)"

definition https_default :: "url \<Rightarrow> bool res" where
  "https_default u = rbind (url_port u) (\<lambda>port. Inr (port = None \<or> port = Some 443))"

definition check_url :: "(string \<Rightarrow> bool) \<Rightarrow> (string \<Rightarrow> string) \<Rightarrow> http_policy \<Rightarrow> string \<Rightarrow> unit res" where
  \<comment> \<open>\<open>_validate_url\<close>: every refusal is the same \<open>ValueError\<close>\<close>
  "check_url ip_literal decode policy s =
     rbind (must (list_all url_char s)) (\<lambda>_.
     rbind (urlsplit ip_literal s) (\<lambda>u.
     rbind (must (u_scheme u = ''https'' \<and> url_hostname u \<in> Some ` set (hp_hosts policy))) (\<lambda>_.
     rbind (https_default u) (\<lambda>usual.
     rbind (must (usual \<and> \<not> has_user u \<and> CHR ''#'' \<notin> set s)) (\<lambda>_.
     assert_secret_free (VDict (map (\<lambda>k. (k, VNull)) (query_names decode (u_query u)))))))))"

definition validate_url :: "(string \<Rightarrow> bool) \<Rightarrow> (string \<Rightarrow> string) \<Rightarrow> http_policy \<Rightarrow> val \<Rightarrow> string res" where
  "validate_url ip_literal decode policy v =
     rbind (needed (as_str v)) (\<lambda>s.
     case check_url ip_literal decode policy s of Inr _ \<Rightarrow> Inr s | Inl _ \<Rightarrow> invalid)"

subsection \<open>Results\<close>

datatype retry_result = No_Retry | Retry retry_after | Not_Retry

datatype http_body = Bytes string | Not_Bytes

record http_result =
  hr_status :: val
  hr_body :: http_body
  hr_retry :: retry_result

text \<open>A transport answers with an exception, with a result, or with something that is none.\<close>

type_synonym transport = "string \<Rightarrow> rat \<Rightarrow> int \<Rightarrow> http_result option exres"

definition metadata_error :: "string \<Rightarrow> 'a exres" where "metadata_error c = Inl (Other_Error c)"
definition RESPONSE_ERROR :: string where "RESPONSE_ERROR = ''MetadataResponseError''"
definition NETWORK_ERROR :: string where "NETWORK_ERROR = ''MetadataNetworkError''"
definition TIMEOUT_ERROR :: string where "TIMEOUT_ERROR = ''MetadataTimeoutError''"

subsection \<open>The transport over urllib\<close>

record opened_response =
  or_status :: val
  or_headers :: "(string \<Rightarrow> val) option"
  or_read :: "int \<Rightarrow> http_body exres"

definition retry_value :: "retry_after option \<Rightarrow> retry_result" where
  "retry_value r = (case r of None \<Rightarrow> No_Retry | Some x \<Rightarrow> Retry x)"

definition expected_length :: "int \<Rightarrow> val \<Rightarrow> nat option exres" where
  \<comment> \<open>the digits are compared by their number before they are read\<close>
  "expected_length max_bytes v =
     (if v = VNull then Inr None
      else case as_str v of None \<Rightarrow> metadata_error RESPONSE_ERROR
      | Some s \<Rightarrow>
          if \<not> decimal (strip s) then metadata_error RESPONSE_ERROR
          else let d = dropWhile (\<lambda>c. c = CHR ''0'') (strip s); digits = (if d = [] then ''0'' else d) in
               if length (int_str max_bytes) < length digits \<or> max_bytes < int (nat_of_digits digits) then metadata_error RESPONSE_ERROR
               else Inr (Some (nat_of_digits digits)))"

definition read_body :: "opened_response \<Rightarrow> int \<Rightarrow> http_body exres" where
  "read_body response max_bytes =
     xbind (expected_length max_bytes (case or_headers response of None \<Rightarrow> VNull | Some get \<Rightarrow> get ''Content-Length'')) (\<lambda>expected.
     xbind (or_read response (max_bytes + 1)) (\<lambda>body.
     case body of Not_Bytes \<Rightarrow> metadata_error RESPONSE_ERROR
     | Bytes b \<Rightarrow>
         (case expected of None \<Rightarrow> Inr body
          | Some n \<Rightarrow> if length b < n then metadata_error NETWORK_ERROR
                      else if n < length b then metadata_error RESPONSE_ERROR else Inr body)))"

definition urllib_transport :: "(string \<Rightarrow> rat \<Rightarrow> opened_response exres) \<Rightarrow> transport" where
  "urllib_transport opener url timeout max_bytes =
     xbind (opener url timeout) (\<lambda>response.
     let ok = py_eq (or_status response) (VInt 200);
         retry = (case or_headers response of Some get \<Rightarrow> if ok then None else parse_retry_after (get ''Retry-After'') | None \<Rightarrow> None) in
     xbind (if ok then read_body response max_bytes else Inr (Bytes [])) (\<lambda>body.
     Inr (Some \<lparr>hr_status = or_status response, hr_body = body, hr_retry = retry_value retry\<rparr>)))"

subsection \<open>The request\<close>

definition OS_ERRORS :: "string list" where
  \<comment> \<open>the classes of the standard library below \<open>OSError\<close> that are no timeout, and that of this module\<close>
  "OS_ERRORS = [''OSError'', ''BlockingIOError'', ''ChildProcessError'', ''ConnectionError'', ''BrokenPipeError'',
     ''ConnectionAbortedError'', ''ConnectionRefusedError'', ''ConnectionResetError'', ''RemoteDisconnected'', ''FileExistsError'',
     ''FileNotFoundError'', ''InterruptedError'', ''IsADirectoryError'', ''NotADirectoryError'', ''PermissionError'',
     ''ProcessLookupError'', ''gaierror'', ''herror'', ''SSLError'', ''SSLCertVerificationError'', ''MetadataNetworkError'']"

definition valid_status :: "val \<Rightarrow> bool" where
  "valid_status v = (case as_int v of Some i \<Rightarrow> 100 \<le> i \<and> i \<le> 599 | None \<Rightarrow> False)"

definition translate :: "exc \<Rightarrow> exc" where
  \<comment> \<open>the \<open>except\<close> clauses in their order; the body of an error is never read\<close>
  "translate e =
     (case e of
        HTTP_Error code f \<Rightarrow>
          (case retry_after_of f of None \<Rightarrow> Other_Error ''Exception''
           | Some r \<Rightarrow> if valid_status code then HTTP_Error code (Normalized r) else Other_Error NETWORK_ERROR)
      | URL_Error timed_out \<Rightarrow> Other_Error (if timed_out then TIMEOUT_ERROR else NETWORK_ERROR)
      | Other_Error c \<Rightarrow>
          if c = ''IncompleteRead'' then Other_Error NETWORK_ERROR
          else if c \<in> set TIMEOUT_ERRORS then Other_Error TIMEOUT_ERROR
          else if c \<in> set OS_ERRORS then Other_Error NETWORK_ERROR else e
      | _ \<Rightarrow> e)"

definition read_json :: "(string \<Rightarrow> val option) \<Rightarrow> string \<Rightarrow> dict res" where
  "read_json loads body =
     rbind (strict_json_loads loads body) (\<lambda>v. rbind (needed (as_dict v)) copy_dict)"

definition read_result :: "(string \<Rightarrow> val option) \<Rightarrow> http_policy \<Rightarrow> http_result option \<Rightarrow> dict exres" where
  "read_result loads policy result =
     (case result of None \<Rightarrow> metadata_error RESPONSE_ERROR
      | Some r \<Rightarrow>
          if \<not> valid_status (hr_status r) then metadata_error RESPONSE_ERROR
          else if hr_retry r = Not_Retry then metadata_error RESPONSE_ERROR
          else if hr_status r \<noteq> VInt 200
            then Inl (HTTP_Error (hr_status r) (Normalized (case hr_retry r of Retry x \<Rightarrow> Some x | _ \<Rightarrow> None)))
          else (case hr_body r of Not_Bytes \<Rightarrow> metadata_error RESPONSE_ERROR
                | Bytes b \<Rightarrow>
                    if hp_max_bytes policy < int (length b) then metadata_error RESPONSE_ERROR
                    else (case read_json loads b of Inr d \<Rightarrow> Inr d | Inl _ \<Rightarrow> metadata_error RESPONSE_ERROR)))"

definition get_metadata_json ::
  "(string \<Rightarrow> bool) \<Rightarrow> (string \<Rightarrow> string) \<Rightarrow> (string \<Rightarrow> val option) \<Rightarrow> http_policy \<Rightarrow> transport \<Rightarrow> val \<Rightarrow> dict exres" where
  "get_metadata_json ip_literal decode loads policy fetch url =
     xbind (raised (validate_url ip_literal decode policy url)) (\<lambda>s.
     case fetch s (hp_timeout policy) (hp_max_bytes policy) of
       Inl e \<Rightarrow> Inl (translate e)
     | Inr result \<Rightarrow> read_result loads policy result)"

subsection \<open>Repository clients\<close>

definition read_model_repository :: "(string \<Rightarrow> val exres) \<Rightarrow> string \<Rightarrow> dict exres" where
  \<comment> \<open>any failure of the client is one error without its message\<close>
  "read_model_repository client requested_id =
     (case client requested_id of Inl _ \<Rightarrow> metadata_error ''MetadataSDKError''
      | Inr v \<Rightarrow> raised (needed (as_dict v)))"

end
