(* ===== verification/Http_Metadata_Guarantees.thy ===== *)
theory Http_Metadata_Guarantees
  imports Metadata_Http
begin

section \<open>Guarantees of the metadata requests\<close>

subsection \<open>The URL of a request\<close>




subsection \<open>Exceptions\<close>


definition metadata_exc :: "exc \<Rightarrow> bool" where
  "metadata_exc e =
     (case e of HTTP_Error c (Normalized r) \<Rightarrow> valid_status c
      | Other_Error c \<Rightarrow> c = RESPONSE_ERROR \<or> c = NETWORK_ERROR \<or> c = TIMEOUT_ERROR | _ \<Rightarrow> False)"

lemma metadata_exc_simps [simp]:
  "metadata_exc (Other_Error RESPONSE_ERROR)" "metadata_exc (Other_Error NETWORK_ERROR)" "metadata_exc (Other_Error TIMEOUT_ERROR)"
  by (simp_all add: metadata_exc_def)













end
