(* ===== verification/Import_Plan.thy ===== *)
theory Import_Plan
  imports Manual_Run
begin

section \<open>database/poc: reviewed incremental imports and the synthetic envelope\<close>

text \<open>
  \<open>incremental_import_plan.py\<close> turns two validated cache entries into the preconditions of an import that replaces
  the first by the second; \<open>synthetic_output.py\<close> wraps a snapshot of fixtures. Nothing is executed.
\<close>

definition PLAN_FORMAT :: string where "PLAN_FORMAT = ''pepeuch-ai.incremental-import-plan/v1''"

definition entry_kind :: "dict \<Rightarrow> val" where "entry_kind entry = get_or_none (dict_at entry ''provenance'') ''kind''"

definition entry_request :: "dict \<Rightarrow> string \<Rightarrow> val" where "entry_request entry k = get_or_none (dict_at entry ''request'') k"

definition stamped :: "dict \<Rightarrow> dict \<Rightarrow> dict" where
  \<comment> \<open>the record with the snapshot that observed it and the time\<close>
  "stamped snapshot r =
     put_key ''last_seen_at'' (get_or_none snapshot ''captured_at'')
       (put_key ''last_seen_snapshot'' (get_or_none snapshot ''snapshot_id'') r)"

definition expected_state :: "dict \<Rightarrow> dict \<Rightarrow> val" where
  "expected_state previous r =
     VDict [(''payload_sha256'', get_or_none r ''payload_sha256''), (''last_seen_snapshot'', get_or_none previous ''snapshot_id''),
       (''last_seen_at'', get_or_none previous ''captured_at'')]"

definition import_action :: "dict option \<Rightarrow> dict \<Rightarrow> dict \<Rightarrow> dict" where
  \<comment> \<open>the state the database must be in, and the state it is to be in\<close>
  "import_action previous current r =
     [(''operation'', VStr ''upsert_if_expected_or_already_applied''),
      (''expected'', case previous of None \<Rightarrow> VNull
         | Some p \<Rightarrow> (case map_of (records_by_key p) (string_at r ''record_key'') of None \<Rightarrow> VNull | Some old \<Rightarrow> expected_state p old)),
      (''record'', VDict (stamped current r))]"

definition first_changes :: "dict \<Rightarrow> val" where
  "first_changes current =
     VDict [(''added'', VList (map VStr (sort (map fst (records_by_key current))))), (''changed'', VList []), (''not_observed'', VList [])]"

definition same_partition :: "dict \<Rightarrow> dict \<Rightarrow> bool" where
  "same_partition before after =
     list_all (\<lambda>k. py_eq (entry_request before k) (entry_request after k)) [''source'', ''selection'', ''context'']"

definition planned_changes ::
  "hashing \<Rightarrow> clock_reader \<Rightarrow> string \<Rightarrow> dict \<Rightarrow> dict \<Rightarrow> val res" where
  \<comment> \<open>of an earlier entry and a later one of the same partition and origin\<close>
  "planned_changes h clk now before after =
     rbind (must (same_partition before after)) (\<lambda>_.
     rbind (must (entry_kind before = entry_kind after)) (\<lambda>_.
     let previous = dict_at before ''snapshot''; current = dict_at after ''snapshot'' in
     rbind (timestamp clk (get_or_none current ''captured_at'')) (\<lambda>newer.
     rbind (timestamp clk (get_or_none previous ''captured_at'')) (\<lambda>older.
     rbind (must (older \<le> newer)) (\<lambda>_.
     rbind (must (\<not> (newer = older \<and> \<not> py_eq (VDict current) (VDict previous)))) (\<lambda>_.
     rbind (compare_snapshots h clk now (VDict previous) (VDict current)) (\<lambda>c. Inr (comparison_dict c))))))))"

definition plan_dict :: "dict \<Rightarrow> dict option \<Rightarrow> val \<Rightarrow> dict" where
  "plan_dict after previous changes =
     (let current = dict_at after ''snapshot'' in
      [(''format'', VStr PLAN_FORMAT), (''executable'', VBool False), (''data_kind'', entry_kind after),
       (''scope'', get_or_none current ''scope''), (''context'', entry_request after ''context''),
       (''snapshot_id'', get_or_none current ''snapshot_id''), (''changes'', changes),
       (''actions'', VList (map (VDict \<circ> import_action previous current) (record_dicts current))), (''delete_actions'', VList []),
       (''requires'', VList (map VStr [''current_database_state_check'', ''atomic_compare_and_swap_or_staging'',
          ''engine_specific_failure_replay_tests'', ''account_domain_storage_isolation_decision''])),
       (''legacy_generators_guarded'', VBool False)])"

definition optional_cache :: "hashing \<Rightarrow> mac \<Rightarrow> clock_reader \<Rightarrow> string \<Rightarrow> issuers \<Rightarrow> val \<Rightarrow> dict option exres" where
  "optional_cache h mac clk now trusted v =
     (if v = VNull then Inr None else xbind (validate_cache h mac clk now trusted v) (\<lambda>e. Inr (Some e)))"

definition known_origin :: "dict \<Rightarrow> bool" where "known_origin e = (entry_kind e \<noteq> VStr ''historical_unknown'')"

definition plan_import :: "hashing \<Rightarrow> mac \<Rightarrow> clock_reader \<Rightarrow> string \<Rightarrow> issuers \<Rightarrow> val \<Rightarrow> val \<Rightarrow> dict exres" where
  "plan_import h mac clk now trusted before0 after0 =
     xbind (validate_cache h mac clk now trusted after0) (\<lambda>after.
     xbind (optional_cache h mac clk now trusted before0) (\<lambda>before.
     xbind (raised (must (known_origin after \<and> (case before of None \<Rightarrow> True | Some b \<Rightarrow> known_origin b)))) (\<lambda>_.
     xbind (raised (case before of None \<Rightarrow> Inr (first_changes (dict_at after ''snapshot''))
                    | Some b \<Rightarrow> planned_changes h clk now b after)) (\<lambda>changes.
     raised (copy_dict (plan_dict after (map_option (\<lambda>b. dict_at b ''snapshot'') before) changes))))))"

definition protect_fixture_snapshot :: "hashing \<Rightarrow> clock_reader \<Rightarrow> string \<Rightarrow> val \<Rightarrow> dict res" where
  \<comment> \<open>an envelope that the validator of snapshots refuses\<close>
  "protect_fixture_snapshot h clk now snapshot =
     rbind (copy_metadata snapshot) (\<lambda>inner.
     rbind (validate_snapshot h clk now inner) (\<lambda>_.
     Inr [(''format'', VStr ''pepeuch-ai.synthetic-discovery/v1''), (''synthetic'', VBool True),
          (''importable_as_real_observation'', VBool False), (''snapshot'', inner)]))"

end
