(* ===== verification/Import_Plan_Guarantees.thy ===== *)
theory Import_Plan_Guarantees
  imports Import_Plan Cache_Guarantees
begin

section \<open>Guarantees of the incremental imports\<close>

subsection \<open>A database that carries out a plan\<close>

type_synonym cache_rows = "string \<Rightarrow> dict option"

definition agrees :: "val \<Rightarrow> dict option \<Rightarrow> bool" where
  \<comment> \<open>the row is absent, or its fields are the expected ones\<close>
  "agrees expected row =
     (case (expected, row) of
        (VNull, None) \<Rightarrow> True
      | (VDict e, Some r) \<Rightarrow> list_all (\<lambda>(k, v). get_or_none r k = v) e
      | _ \<Rightarrow> False)"

definition apply_action :: "dict \<Rightarrow> cache_rows \<Rightarrow> cache_rows option" where
  \<comment> \<open>\<open>upsert_if_expected_or_already_applied\<close>\<close>
  "apply_action a db =
     (let r = dict_at a ''record''; k = string_at r ''record_key'' in
      if db k = Some r then Some db
      else if agrees (get_or_none a ''expected'') (db k) then Some (db(k \<mapsto> r)) else None)"

fun apply_actions :: "dict list \<Rightarrow> cache_rows \<Rightarrow> cache_rows option" where
  "apply_actions [] db = Some db"
| "apply_actions (a # as) db = (case apply_action a db of None \<Rightarrow> None | Some db' \<Rightarrow> apply_actions as db')"

definition imported :: "dict \<Rightarrow> cache_rows" where
  \<comment> \<open>the rows an import of the snapshot leaves\<close>
  "imported snapshot = map_of (map (\<lambda>(k, r). (k, stamped snapshot r)) (records_by_key snapshot))"

definition imported_before :: "dict option \<Rightarrow> cache_rows" where
  "imported_before p = (case p of None \<Rightarrow> Map.empty | Some s \<Rightarrow> imported s)"

definition ready :: "dict option \<Rightarrow> dict \<Rightarrow> cache_rows \<Rightarrow> bool" where
  \<comment> \<open>the rows under the keys of the new snapshot are those of the old one\<close>
  "ready previous current db \<longleftrightarrow> (\<forall>k \<in> dom (imported current). db k = imported_before previous k)"

definition plan_actions :: "dict \<Rightarrow> dict list" where
  "plan_actions plan = (case get_or_none plan ''actions'' of VList xs \<Rightarrow> concat (map (\<lambda>x. case x of VDict a \<Rightarrow> [a] | _ \<Rightarrow> []) xs) | _ \<Rightarrow> [])"

fun_cases apply_actions_SomeE: "apply_actions (a # as) db = Some db'"

lemma apply_actions_append:
  "apply_actions (as @ bs) db = (case apply_actions as db of None \<Rightarrow> None | Some db' \<Rightarrow> apply_actions bs db')"
  by (induction as arbitrary: db) (auto split: option.split)

text \<open>Rows under other keys are never touched, whether the plan is carried out or refused half way.\<close>

lemma apply_action_frame: "apply_action a db = Some db' \<Longrightarrow> k \<noteq> string_at (dict_at a ''record'') ''record_key'' \<Longrightarrow> db' k = db k"
  by (auto simp: apply_action_def Let_def split: if_splits)

lemma apply_actions_frame:
  "apply_actions as db = Some db' \<Longrightarrow> list_all (\<lambda>a. k \<noteq> string_at (dict_at a ''record'') ''record_key'') as \<Longrightarrow> db' k = db k"
proof (induction as arbitrary: db)
  case (Cons a as)
  from Cons.prems(1) obtain db'' where "apply_action a db = Some db''" "apply_actions as db'' = Some db'"
    by (elim apply_actions_SomeE) (auto split: option.splits)
  then show ?case using Cons.IH [of db''] Cons.prems(2) apply_action_frame [of a db db'' k] by simp
qed simp

subsection \<open>One action\<close>

lemma stamped_fields:
  "get_or_none (stamped s r) ''last_seen_at'' = get_or_none s ''captured_at''"
  "get_or_none (stamped s r) ''last_seen_snapshot'' = get_or_none s ''snapshot_id''"
  "get_or_none (stamped s r) ''payload_sha256'' = get_or_none r ''payload_sha256''"
  "string_at (stamped s r) ''record_key'' = string_at r ''record_key''"
  unfolding string_at_def get_or_none_def stamped_def map_of_put_key by simp_all

lemma expected_state_agrees: "agrees (expected_state s r) (Some (stamped s r))"
  unfolding expected_state_def agrees_def by (simp add: stamped_fields del: get_or_none_eq)

lemma agrees_none: "agrees VNull None" by (simp add: agrees_def)

lemma action_fields:
  "dict_at (import_action p c r) ''record'' = stamped c r"
  "get_or_none (import_action p c r) ''expected'' = (case p of None \<Rightarrow> VNull
     | Some s \<Rightarrow> (case map_of (records_by_key s) (string_at r ''record_key'') of None \<Rightarrow> VNull | Some old \<Rightarrow> expected_state s old))"
  by (simp_all add: import_action_def dict_at_def get_or_none_def)

lemma imported_row: "imported s k = map_option (stamped s) (map_of (records_by_key s) k)"
  unfolding imported_def by (induction "records_by_key s") (auto simp: map_of_map split: option.splits)

lemma action_applies:
  assumes "db (string_at r ''record_key'') = imported_before p (string_at r ''record_key'') \<or> db (string_at r ''record_key'') = Some (stamped c r)"
  shows "apply_action (import_action p c r) db = Some (db(string_at r ''record_key'' \<mapsto> stamped c r))"
proof (cases "db (string_at r ''record_key'') = Some (stamped c r)")
  case True
  then show ?thesis by (simp add: apply_action_def action_fields stamped_fields fun_upd_idem)
next
  case False
  then have "db (string_at r ''record_key'') = imported_before p (string_at r ''record_key'')" using assms by simp
  then have "agrees (get_or_none (import_action p c r) ''expected'') (db (string_at r ''record_key''))"
    by (cases "\<exists>s old. p = Some s \<and> map_of (records_by_key s) (string_at r ''record_key'') = Some old")
      (auto simp: action_fields imported_before_def imported_row expected_state_agrees agrees_none split: option.splits)
  with False show ?thesis by (simp add: apply_action_def action_fields stamped_fields)
qed

subsection \<open>All actions\<close>

definition key_of :: "dict \<Rightarrow> string" where "key_of r = string_at r ''record_key''"

lemma actions_apply:
  assumes "distinct (map key_of rs)"
    and "\<And>r. r \<in> set rs \<Longrightarrow> db (key_of r) = imported_before p (key_of r) \<or> db (key_of r) = Some (stamped c r)"
  shows "apply_actions (map (import_action p c) rs) db = Some (db ++ map_of (map (\<lambda>r. (key_of r, stamped c r)) rs))"
  using assms
proof (induction rs arbitrary: db)
  case (Cons r rs)
  let ?db = "db(key_of r \<mapsto> stamped c r)"
  have "apply_action (import_action p c r) db = Some ?db"
    using action_applies [of db r p c] Cons.prems(2) [of r] by (simp add: key_of_def)
  moreover have "apply_actions (map (import_action p c) rs) ?db = Some (?db ++ map_of (map (\<lambda>r. (key_of r, stamped c r)) rs))"
  proof (rule Cons.IH)
    show "distinct (map key_of rs)" using Cons.prems(1) by simp
    show "?db (key_of x) = imported_before p (key_of x) \<or> ?db (key_of x) = Some (stamped c x)" if "x \<in> set rs" for x
    proof -
      have "key_of x \<in> set (map key_of rs)" using that unfolding set_map by (rule imageI)
      then have "key_of x \<noteq> key_of r" using Cons.prems(1) by fastforce
      then show ?thesis using Cons.prems(2) [of x] that by simp
    qed
  qed
  moreover have "?db ++ map_of (map (\<lambda>r. (key_of r, stamped c r)) rs)
      = db ++ map_of (map (\<lambda>r. (key_of r, stamped c r)) (r # rs))"
  proof -
    have "key_of r \<notin> dom (map_of (map (\<lambda>r. (key_of r, stamped c r)) rs))"
      using Cons.prems(1) by (auto simp: dom_map_of_conv_image_fst image_image)
    then show ?thesis by (simp add: map_add_upd_left)
  qed
  ultimately show ?case unfolding list.map(2) apply_actions.simps by (simp only: option.case)
qed simp

lemma map_add_twice: "(f ++ g) ++ g = f ++ g"
  by (rule ext) (simp add: map_add_def split: option.split)

subsection \<open>Validated records\<close>

lemma keyed_record: "map_of d ''record_key'' = Some (VStr k) \<Longrightarrow> keyed (VDict d) = [(key_of d, d)]"
  by (simp add: keyed_def key_of_def string_at_def get_or_none_def)

lemma keyed_records_all:
  "(\<And>x. x \<in> set rs \<Longrightarrow> \<exists>d k. x = VDict d \<and> map_of d ''record_key'' = Some (VStr k)) \<Longrightarrow>
   concat (map keyed rs) = map (\<lambda>r. (key_of r, r)) (concat (map (\<lambda>r. case r of VDict d \<Rightarrow> [d] | _ \<Rightarrow> []) rs))"
proof (induction rs)
  case (Cons x rs)
  obtain d k where "x = VDict d" "map_of d ''record_key'' = Some (VStr k)" using Cons.prems [of x] by auto
  then show ?case using keyed_record [of d k] Cons.IH Cons.prems by simp
qed simp

lemma validated_record_keys:
  assumes "validate_snapshot h clk now v = Inr data"
  shows "records_by_key data = map (\<lambda>r. (key_of r, r)) (record_dicts data)" "distinct (map key_of (record_dicts data))"
proof -
  obtain rs recovered where rs: "get_or_none data ''records'' = VList rs" "collect (validate_entry h) rs = Inr recovered"
    using assms unfolding validate_snapshot_def by (auto simp del: get_or_none_eq py_eq.simps)
  have "\<exists>d k. x = VDict d \<and> map_of d ''record_key'' = Some (VStr k)" if member: "x \<in> set rs" for x
  proof -
    obtain n where n: "n < length rs" "rs ! n = x" using member by (metis in_set_conv_nth)
    obtain r where "validate_entry h x = Inr r" using collect_Inr_nth [OF rs(2) n(1)] unfolding n(2) by blast
    then obtain d k where "x = VDict d" "map_of d ''record_key'' = Some (VStr k)" by (auto simp: validate_entry_def)
    then show ?thesis by blast
  qed
  then have "concat (map keyed rs) = map (\<lambda>r. (key_of r, r)) (concat (map (\<lambda>r. case r of VDict d \<Rightarrow> [d] | _ \<Rightarrow> []) rs))"
    by (rule keyed_records_all)
  then show keys: "records_by_key data = map (\<lambda>r. (key_of r, r)) (record_dicts data)"
    using records_by_key_keyed [OF rs(1)] rs(1) by (simp add: record_dicts_def del: get_or_none_eq)
  have "map fst (records_by_key data) = map key_of (record_dicts data)" unfolding keys by simp
  then show "distinct (map key_of (record_dicts data))" using validated_keys(3) [OF assms] by simp
qed

lemma cache_snapshot:
  assumes "validate_cache h mac clk now trusted v = Inr entry"
  shows "\<exists>w. validate_snapshot h clk now w = Inr (dict_at entry ''snapshot'')"
proof -
  obtain request0 snapshot provenance validators where
    "make_cache h mac clk now trusted request0 snapshot provenance validators = Inr entry"
    using assms unfolding validate_cache_def xbind_Inr by blast
  then obtain request data p sha vs where "snapshot_copy h clk now (VDict data) = Inr data" "entry = cache_dict request data sha p vs"
    by (rule make_cache_Inr)
  then show ?thesis by (auto simp: snapshot_copy_def cache_dict_def dict_at_def get_or_none_def)
qed

lemma plan_import_Inr:
  assumes "plan_import h mac clk now trusted before0 after0 = Inr plan"
  obtains after before changes where "validate_cache h mac clk now trusted after0 = Inr after"
    "optional_cache h mac clk now trusted before0 = Inr before"
    "plan = plan_dict after (map_option (\<lambda>b. dict_at b ''snapshot'') before) changes"
  using assms that unfolding plan_import_def xbind_Inr raised_Inr copy_dict_Inr by blast

lemma plan_actions_of_plan:
  "plan_actions (plan_dict after p changes) = map (import_action p (dict_at after ''snapshot'')) (record_dicts (dict_at after ''snapshot''))"
proof -
  have "get_or_none (plan_dict after p changes) ''actions''
      = VList (map (VDict \<circ> import_action p (dict_at after ''snapshot'')) (record_dicts (dict_at after ''snapshot'')))"
    by (simp add: plan_dict_def Let_def get_or_none_def)
  moreover have "concat (map (\<lambda>x. case x of VDict a \<Rightarrow> [a] | _ \<Rightarrow> []) (map (VDict \<circ> f) rs)) = map f rs" for f :: "dict \<Rightarrow> dict" and rs
    by (induction rs) simp_all
  ultimately show ?thesis by (simp add: plan_actions_def del: get_or_none_eq)
qed

text \<open>
  C40. A planned import is an atomic step from one snapshot to the next. On any database whose rows under the keys of the
  new snapshot are those an import of the old one has left (none of them, for a first import), every action finds the
  state it expects, and together they leave exactly the rows of the new snapshot under its keys and every other row as
  it was: nothing is deleted. Carried out again on the result, the plan changes nothing.
\<close>

theorem planned_import_replaces_and_repeats:
  assumes "plan_import h mac clk now trusted before0 after0 = Inr plan"
  shows "\<exists>after before. validate_cache h mac clk now trusted after0 = Inr after
    \<and> optional_cache h mac clk now trusted before0 = Inr before
    \<and> get_or_none plan ''delete_actions'' = VList []
    \<and> (ready (map_option (\<lambda>b. dict_at b ''snapshot'') before) (dict_at after ''snapshot'') db
        \<longrightarrow> apply_actions (plan_actions plan) db = Some (db ++ imported (dict_at after ''snapshot''))
          \<and> apply_actions (plan_actions plan) (db ++ imported (dict_at after ''snapshot'')) = Some (db ++ imported (dict_at after ''snapshot'')))"
proof -
  obtain after before changes where valid: "validate_cache h mac clk now trusted after0 = Inr after"
    "optional_cache h mac clk now trusted before0 = Inr before"
    and plan: "plan = plan_dict after (map_option (\<lambda>b. dict_at b ''snapshot'') before) changes"
    using assms by (rule plan_import_Inr)
  let ?c = "dict_at after ''snapshot''" and ?p = "map_option (\<lambda>b. dict_at b ''snapshot'') before"
  obtain w where "validate_snapshot h clk now w = Inr ?c" using cache_snapshot [OF valid(1)] ..
  note keys = validated_record_keys [OF this]
  have rows: "imported ?c = map_of (map (\<lambda>r. (key_of r, stamped ?c r)) (record_dicts ?c))"
    unfolding imported_def keys(1) by (simp add: o_def)
  have row: "imported ?c (key_of r) = Some (stamped ?c r)" if "r \<in> set (record_dicts ?c)" for r
    unfolding rows using keys(2) that by (intro map_of_is_SomeI) (auto simp: o_def)
  have "apply_actions (plan_actions plan) db = Some (db ++ imported ?c)"
    if "\<And>r. r \<in> set (record_dicts ?c) \<Longrightarrow> db (key_of r) = imported_before ?p (key_of r) \<or> db (key_of r) = Some (stamped ?c r)" for db
    unfolding plan plan_actions_of_plan rows by (rule actions_apply [OF keys(2) that])
  note applied = this
  have first: "apply_actions (plan_actions plan) db = Some (db ++ imported ?c)" if "ready ?p ?c db"
  proof (rule applied)
    show "db (key_of r) = imported_before ?p (key_of r) \<or> db (key_of r) = Some (stamped ?c r)" if r: "r \<in> set (record_dicts ?c)" for r
      using \<open>ready ?p ?c db\<close> row [OF r] unfolding ready_def by blast
  qed
  have again: "apply_actions (plan_actions plan) (db ++ imported ?c) = Some (db ++ imported ?c)"
  proof -
    have "(db ++ imported ?c) (key_of r) = Some (stamped ?c r)" if "r \<in> set (record_dicts ?c)" for r
      using row [OF that] by (simp add: map_add_def)
    then show ?thesis using applied [of "db ++ imported ?c"] unfolding map_add_twice by blast
  qed
  have "get_or_none plan ''delete_actions'' = VList []" unfolding plan by (simp add: plan_dict_def Let_def get_or_none_def)
  then show ?thesis using valid first again by blast
qed

text \<open>The first import of a fixture.\<close>

definition sample_cache_entry :: dict where
  "sample_cache_entry = cache_dict sample_request observed_snapshot zeros (sample_manifest ''synthetic'' VNull VNull)
       [(''etag'', VNull), (''last_modified'', VNull)]"

definition sample_plan :: dict where "sample_plan = plan_dict sample_cache_entry None (first_changes observed_snapshot)"

lemma sample_planned:
  "plan_import flat_hashing flat_mac any_clock ''later'' enrolled VNull (VDict sample_cache_entry) = Inr sample_plan"
proof -
  have valid: "validate_cache flat_hashing flat_mac any_clock ''later'' enrolled (VDict sample_cache_entry) = Inr sample_cache_entry"
    unfolding sample_cache_entry_def by (rule own_cache_validates [OF sample_cache])
  have "dict_at sample_cache_entry ''snapshot'' = observed_snapshot"
    by (simp add: sample_cache_entry_def cache_dict_def dict_at_def get_or_none_def)
  moreover have "known_origin sample_cache_entry" by code_simp
  moreover have "copy_dict sample_plan = Inr sample_plan" by code_simp
  ultimately show ?thesis
    using valid by (simp add: plan_import_def optional_cache_def raised_def sample_plan_def del: copy_dict_Inr)
qed

lemma planned_import_replaces_and_repeats_witness:
  "apply_actions (plan_actions sample_plan) Map.empty = Some (imported observed_snapshot) \<and> dom (imported observed_snapshot) \<noteq> {}"
proof -
  have snapshot: "dict_at sample_cache_entry ''snapshot'' = observed_snapshot"
    by (simp add: sample_cache_entry_def cache_dict_def dict_at_def get_or_none_def)
  obtain after before where "validate_cache flat_hashing flat_mac any_clock ''later'' enrolled (VDict sample_cache_entry) = Inr after"
    "optional_cache flat_hashing flat_mac any_clock ''later'' enrolled VNull = Inr before"
    "ready (map_option (\<lambda>b. dict_at b ''snapshot'') before) (dict_at after ''snapshot'') Map.empty
      \<longrightarrow> apply_actions (plan_actions sample_plan) Map.empty = Some (Map.empty ++ imported (dict_at after ''snapshot''))"
    using planned_import_replaces_and_repeats [OF sample_planned] by blast
  moreover have "validate_cache flat_hashing flat_mac any_clock ''later'' enrolled (VDict sample_cache_entry) = Inr sample_cache_entry"
    unfolding sample_cache_entry_def by (rule own_cache_validates [OF sample_cache])
  ultimately have "apply_actions (plan_actions sample_plan) Map.empty = Some (imported observed_snapshot)"
    using snapshot by (simp add: optional_cache_def ready_def imported_before_def)
  moreover have "imported observed_snapshot (''d_'' @ zeros) \<noteq> None" unfolding imported_row by code_simp
  ultimately show ?thesis by auto
qed

end
