(* ===== verification/Storage.thy ===== *)
theory Storage
  imports Backup
begin

section \<open>Store: the private directory of an installation\<close>

text \<open>
  \<open>private_directory\<close>, \<open>read_private\<close>, \<open>write_new\<close>, \<open>migrate_index\<close> and \<open>Store.__init__\<close> of
  \<open>control_plane/storage.py\<close> on a POSIX tree: every path that exists has a node with the attributes the checks
  read. A path is the list of its parts; a path below a symbolic link has no node of its own. What a path resolves to
  (\<open>os.path.realpath\<close>) is the parameter \<open>mc_real\<close>, and so is what SQLite finds in the bytes of the index.
  A file the checks accept can be opened by its owner (\<open>EACCES\<close> and failing writes are not modelled); one read is
  one step. The lock is whether some process holds \<open>backend.lock\<close>.
\<close>

datatype posix_kind = A_Directory | A_File | A_Link | A_Special

record posix_node =
  px_kind :: posix_kind
  px_owner :: nat
  px_mode :: nat \<comment> \<open>the permission bits\<close>
  px_links :: nat
  px_data :: string

type_synonym path = "string list"

record disk =
  dk_tree :: "(path \<times> posix_node) list"
  dk_locked :: bool

datatype schema = No_Tables | Foreign_Tables | With_History index

record machine =
  mc_uid :: nat
  mc_real :: "path \<Rightarrow> path"
  mc_code :: path \<comment> \<open>the resolved directory of the program\<close>
  mc_recent :: bool \<comment> \<open>the version of SQLite is recent enough\<close>
  mc_schema :: "string \<Rightarrow> schema option"
  mc_host :: host
  mc_admin_token :: string
  mc_worker_token :: string
  mc_workspace :: string \<comment> \<open>the next random identifier\<close>
  mc_stamp :: "string res" \<comment> \<open>\<open>timestamp(clock())\<close>\<close>

definition node_at :: "disk \<Rightarrow> path \<Rightarrow> posix_node option" where "node_at s p = map_of (dk_tree s) p"

text \<open>\<open>S_IMODE(mode) & 0o077\<close> is zero: nothing for the group and for others.\<close>

definition owner_only :: "nat \<Rightarrow> bool" where "owner_only mode = (mode mod 64 = 0)"

definition linked :: "disk \<Rightarrow> path \<Rightarrow> bool" where
  "linked s p = list_ex (\<lambda>i. case node_at s (take i p) of Some n \<Rightarrow> px_kind n = A_Link | None \<Rightarrow> False) [1..<Suc (length p)]"

definition private_directory :: "machine \<Rightarrow> disk \<Rightarrow> bool \<times> path \<Rightarrow> path res" where
  "private_directory m s given =
     rbind (ensure (fst given \<and> ''..'' \<notin> set (snd given)) ''unsafe_data_directory'' 400) (\<lambda>_.
     rbind (ensure (\<not> linked s (snd given)) ''unsafe_data_directory'' 400) (\<lambda>_.
     rbind (present (node_at s (snd given)) ''FileNotFoundError'') (\<lambda>n.
     rbind (ensure (px_kind n = A_Directory \<and> px_owner n = mc_uid m \<and> owner_only (px_mode n))
       ''private_data_directory_required'' 400) (\<lambda>_. Inr (snd given)))))"

definition read_private_file :: "machine \<Rightarrow> disk \<Rightarrow> path \<Rightarrow> int \<Rightarrow> string res" where
  "read_private_file m s p limit =
     rbind (present (node_at s p) ''FileNotFoundError'') (\<lambda>n.
     if px_kind n = A_Link then Inl (Raised ''OSError'')
     else rbind (ensure (px_kind n = A_File \<and> px_links n = 1 \<and> px_owner n = mc_uid m \<and> owner_only (px_mode n)
                          \<and> int (length (px_data n)) \<le> limit) ''unsafe_local_file'' 500) (\<lambda>_. Inr (px_data n)))"

text \<open>\<open>mkdir(mode=0o700)\<close> and \<open>write_new\<close>: a new entry in a directory that exists.\<close>

definition new_directory_node :: "machine \<Rightarrow> posix_node" where
  "new_directory_node m = \<lparr>px_kind = A_Directory, px_owner = mc_uid m, px_mode = 448, px_links = 2, px_data = []\<rparr>"

definition new_file_node :: "machine \<Rightarrow> string \<Rightarrow> posix_node" where
  "new_file_node m raw = \<lparr>px_kind = A_File, px_owner = mc_uid m, px_mode = 384, px_links = 1, px_data = raw\<rparr>"

definition new_entry :: "path \<Rightarrow> posix_node \<Rightarrow> (disk, unit) act" where
  "new_entry p n s =
     (if p = [] \<or> node_at s p \<noteq> None then (Inl (Raised ''FileExistsError''), s)
      else case node_at s (butlast p) of
        None \<Rightarrow> (Inl (Raised ''FileNotFoundError''), s)
      | Some parent \<Rightarrow> if px_kind parent = A_Directory then (Inr (), s\<lparr>dk_tree := (p, n) # dk_tree s\<rparr>)
                       else (Inl (Raised ''NotADirectoryError''), s))"

subsection \<open>The first installation\<close>

definition DIRECTORIES :: "string list" where
  "DIRECTORIES = [''app'', ''objects'', ''staging'', ''logs'', ''config'', ''secrets'']"

definition settings_dict :: "settings \<Rightarrow> val" where
  "settings_dict st =
     VDict [(''max_file_bytes'', VInt (max_file_bytes st)), (''quota_bytes'', VInt (quota_bytes st)),
            (''attempt_seconds'', VInt (attempt_seconds st))]"

definition INSTALLATION :: val where
  "INSTALLATION = VDict [(''format'', VStr ''pepeuch.control-plane-installation/v1'')]"

definition marker_of :: "path \<Rightarrow> path" where "marker_of r = r @ [''config'', ''installation.json'']"
definition settings_path :: "path \<Rightarrow> path" where "settings_path r = r @ [''config'', ''settings.json'']"
definition index_of :: "path \<Rightarrow> path" where "index_of r = r @ [''app'', ''index.sqlite3'']"
definition lock_of :: "path \<Rightarrow> path" where "lock_of r = r @ [''app'', ''backend.lock'']"
definition token_of :: "path \<Rightarrow> string \<Rightarrow> path" where "token_of r who = r @ [''secrets'', who @ ''.token'']"

definition install_entries :: "machine \<Rightarrow> path \<Rightarrow> string \<Rightarrow> string \<Rightarrow> (path \<times> posix_node) list" where
  \<comment> \<open>in the order they are created; the marker is the last\<close>
  "install_entries m r settings_text marker_text =
     map (\<lambda>d. (r @ [d], new_directory_node m)) DIRECTORIES
     @ [(settings_path r, new_file_node m (utf8 settings_text)),
        (token_of r ''admin'', new_file_node m (mc_admin_token m @ [CHR 0x0A])),
        (token_of r ''worker'', new_file_node m (mc_worker_token m @ [CHR 0x0A])),
        (marker_of r, new_file_node m (utf8 marker_text))]"

definition create_all :: "(path \<times> posix_node) list \<Rightarrow> (disk, unit) act" where
  "create_all es = foreach (\<lambda>(p, n). new_entry p n) es"

definition occupied_directory :: "disk \<Rightarrow> path \<Rightarrow> bool" where
  \<comment> \<open>\<open>any(root.iterdir())\<close>\<close>
  "occupied_directory s r = list_ex (\<lambda>(p, _). p \<noteq> [] \<and> butlast p = r) (dk_tree s)"

definition install :: "machine \<Rightarrow> path \<Rightarrow> settings option \<Rightarrow> (disk, unit) act" where
  "install m r chosen =
     abind (gets (\<lambda>s. occupied_directory s r)) (\<lambda>occupied.
     abind (require (\<not> occupied) ''refusing_unrecognized_directory'' 400) (\<lambda>_.
     abind (lift (canon (h_frepr (mc_host m)) (settings_dict (case chosen of Some st \<Rightarrow> st | None \<Rightarrow> default_settings)))) (\<lambda>st.
     abind (lift (canon (h_frepr (mc_host m)) INSTALLATION)) (\<lambda>marker.
     create_all (install_entries m r st marker)))))"

definition make_root :: "machine \<Rightarrow> path \<Rightarrow> (disk, unit) act" where
  \<comment> \<open>\<open>if not root.exists(): root.mkdir(mode=0o700)\<close>; the parts above the last one are followed\<close>
  "make_root m r s =
     (if node_at s (mc_real m r) \<noteq> None then (Inr (), s)
      else if r = [] \<or> node_at s r \<noteq> None then (Inl (Raised ''FileExistsError''), s)
      else new_entry (mc_real m (butlast r) @ [last r]) (new_directory_node m) s)"

definition open_directory :: "machine \<Rightarrow> bool \<times> path \<Rightarrow> settings option \<Rightarrow> (disk, settings) act" where
  \<comment> \<open>\<open>Store.__init__\<close> up to the lock\<close>
  "open_directory m given chosen =
     abind (require (mc_recent m) ''sqlite_security_features_required'' 400) (\<lambda>_.
     abind (require (fst given \<and> ''..'' \<notin> set (snd given)
                     \<and> take (length (mc_code m)) (mc_real m (snd given)) \<noteq> mc_code m) ''data_must_be_outside_source'' 400) (\<lambda>_.
     abind (make_root m (snd given)) (\<lambda>_.
     abind (\<lambda>s. (private_directory m s given, s)) (\<lambda>_.
     abind (gets (\<lambda>s. node_at s (mc_real m (marker_of (snd given))))) (\<lambda>marker.
     abind (if marker = None then install m (snd given) chosen else ret ()) (\<lambda>_.
     abind (foreach (\<lambda>d s. case private_directory m s (True, snd given @ [d]) of Inl e \<Rightarrow> (Inl e, s) | Inr _ \<Rightarrow> (Inr (), s)) DIRECTORIES) (\<lambda>_.
     abind (\<lambda>s. (read_private_file m s (marker_of (snd given)) 1024, s)) (\<lambda>raw.
     abind (lift (decode_body (h_loads (mc_host m)) raw)) (\<lambda>v.
     abind (require (py_eq v INSTALLATION) ''unknown_installation'' 400) (\<lambda>_.
     abind (\<lambda>s. (read_private_file m s (settings_path (snd given)) 1024, s)) (\<lambda>raw2.
     abind (lift (rbind (decode_body (h_loads (mc_host m)) raw2) settings_of)) (\<lambda>st.
     abind (require (case chosen of None \<Rightarrow> True | Some c \<Rightarrow> c = st) ''settings_mismatch'' 400) (\<lambda>_. ret st)))))))))))))"

subsection \<open>Migrations\<close>

definition apply_migration :: "machine \<Rightarrow> disk \<Rightarrow> path \<Rightarrow> settings \<Rightarrow> int \<Rightarrow> database \<Rightarrow> database res" where
  \<comment> \<open>the statements of a migration create tables and fill them; what the code adds\<close>
  "apply_migration m s r st number d =
     (if number = 1 then
        Inr (d\<lparr>d_workspaces := d_workspaces d @ [\<lparr>ws_id = mc_workspace m, ws_owner = ''local-admin'', ws_project = ''local-project''\<rparr>]\<rparr>)
      else if number = 2 then
        rbind (read_private_file m s (token_of r ''worker'') 256) (\<lambda>raw.
        rbind (ensure (is_token (strip raw)) ''invalid_local_credential'' 500) (\<lambda>_.
        rbind (mc_stamp m) (\<lambda>stamp. Inr (upgrade_rows st (h_sha (mc_host m) (strip raw)) stamp d))))
      else Inr d)"

fun apply_migrations :: "machine \<Rightarrow> disk \<Rightarrow> path \<Rightarrow> settings \<Rightarrow> (int \<times> string) list \<Rightarrow> database \<Rightarrow> database res" where
  "apply_migrations m s r st [] d = Inr d"
| "apply_migrations m s r st ((number, raw) # rest) d =
     rbind (apply_migration m s r st number d) (apply_migrations m s r st rest)"

definition known_prefix :: "machine \<Rightarrow> schema \<Rightarrow> index res" where
  \<comment> \<open>the index the migrations start from\<close>
  "known_prefix m sch =
     (case sch of
        No_Tables \<Rightarrow> Inr \<lparr>ix_intact = True, ix_history = [], ix_db = empty_db\<rparr>
      | Foreign_Tables \<Rightarrow> Inl (Problem ''refusing_foreign_database'' 500)
      | With_History ix \<Rightarrow>
          rbind (ensure (ix_history ix \<noteq> [] \<and> ix_history ix = known_history (mc_host m) (length (ix_history ix)))
            ''unsupported_storage_version'' 500) (\<lambda>_. Inr ix))"

definition migrated :: "machine \<Rightarrow> disk \<Rightarrow> path \<Rightarrow> settings \<Rightarrow> schema \<Rightarrow> index option res" where
  \<comment> \<open>\<open>None\<close>: nothing to apply, the file is left as it is\<close>
  "migrated m s r st sch =
     rbind (known_prefix m sch) (\<lambda>ix.
     let known = h_known (mc_host m); rest = drop (length (ix_history ix)) known in
     rbind (apply_migrations m s r st rest (ix_db ix)) (\<lambda>d.
     Inr (if rest = [] then None else Some (ix\<lparr>ix_history := known_history (mc_host m) (length known), ix_db := d\<rparr>))))"

definition write_index :: "machine \<Rightarrow> path \<Rightarrow> index \<Rightarrow> disk \<Rightarrow> disk" where
  "write_index m r ix s =
     s\<lparr>dk_tree := map (\<lambda>(p, n). if p = index_of r then (p, n\<lparr>px_data := h_sqlite_file (mc_host m) ix\<rparr>) else (p, n)) (dk_tree s)\<rparr>"

definition migrate_store :: "machine \<Rightarrow> path \<Rightarrow> settings \<Rightarrow> string \<Rightarrow> (disk, unit) act" where
  \<comment> \<open>one transaction: the file changes when it commits\<close>
  "migrate_store m r st raw s =
     (case rbind (present (mc_schema m raw) ''sqlite3.Error'') (migrated m s r st) of
        Inl e \<Rightarrow> (Inl e, s)
      | Inr None \<Rightarrow> (Inr (), s)
      | Inr (Some ix) \<Rightarrow> (Inr (), write_index m r ix s))"

subsection \<open>The lock, and the whole\<close>

definition take_lock :: "machine \<Rightarrow> path \<Rightarrow> (disk, unit) act" where
  \<comment> \<open>\<open>os.open(..., O_RDWR | O_CREAT | O_NOFOLLOW)\<close>, then \<open>flock\<close>\<close>
  "take_lock m r =
     abind (gets (\<lambda>s. node_at s (lock_of r))) (\<lambda>found_node.
     abind (case found_node of
              None \<Rightarrow> new_entry (lock_of r) (new_file_node m [])
            | Some n \<Rightarrow> if px_kind n = A_Link \<or> px_kind n = A_Directory then fail (Raised ''OSError'') else ret ()) (\<lambda>_.
     abind (gets dk_locked) (\<lambda>held.
     abind (require (\<not> held) ''backend_already_running'' 409) (\<lambda>_.
     modify (\<lambda>s. s\<lparr>dk_locked := True\<rparr>)))))"

definition close_store :: "(disk, unit) act" where "close_store = modify (\<lambda>s. s\<lparr>dk_locked := False\<rparr>)"

definition open_index_file :: "machine \<Rightarrow> path \<Rightarrow> settings \<Rightarrow> (disk, unit) act" where
  "open_index_file m r st =
     abind (gets (\<lambda>s. node_at s (mc_real m (index_of r)))) (\<lambda>there.
     abind (if there = None then new_entry (index_of r) (new_file_node m []) else ret ()) (\<lambda>_.
     abind (\<lambda>s. (read_private_file m s (index_of r) 1073741824, s)) (\<lambda>raw.
     migrate_store m r st raw)))"

definition or_close :: "(disk, 'a) act \<Rightarrow> (disk, 'a) act" where
  \<comment> \<open>\<open>except BaseException: self.close(); raise\<close>\<close>
  "or_close body s = (case body s of (Inr x, s') \<Rightarrow> (Inr x, s') | (Inl e, s') \<Rightarrow> (Inl e, snd (close_store s')))"

definition open_store :: "machine \<Rightarrow> bool \<times> path \<Rightarrow> settings option \<Rightarrow> (disk, settings) act" where
  "open_store m given chosen =
     abind (open_directory m given chosen) (\<lambda>st.
     abind (take_lock m (snd given)) (\<lambda>_.
     or_close (abind (open_index_file m (snd given) st) (\<lambda>_. ret st))))"

end
