(* ===== verification/Storage_Guarantees.thy ===== *)
theory Storage_Guarantees
  imports Storage
begin

section \<open>What opening an installation does to the disk\<close>

text \<open>
  \<open>conserved r s0\<close> is kept by every step of \<open>open_store\<close>: what was on the disk stays as it was, except the bytes of
  the index. The other lemmas say which paths are created, who holds the lock, and that the checks that have accepted
  a directory accept it again.
\<close>

subsection \<open>Nodes\<close>

lemma node_at_update [simp]:
  "node_at (s\<lparr>dk_tree := (p, n) # dk_tree s\<rparr>) q = (if q = p then Some n else node_at s q)"
  "node_at (s\<lparr>dk_locked := b\<rparr>) q = node_at s q"
  by (simp_all add: node_at_def)

lemma node_at_write_index:
  "node_at (write_index m r ix s) q =
     (if q = index_of r then map_option (\<lambda>n. n\<lparr>px_data := h_sqlite_file (mc_host m) ix\<rparr>) (node_at s q) else node_at s q)"
proof -
  have "map_of (map (\<lambda>(p, n). if p = a then (p, f n) else (p, n)) xs) q = (if q = a then map_option f (map_of xs q) else map_of xs q)"
    for a f and xs :: "(path \<times> posix_node) list"
    by (induction xs) auto
  then show ?thesis by (simp add: node_at_def write_index_def)
qed

lemma new_entry_cases:
  assumes "new_entry p n s = (r, s')"
  obtains (refused) e where "r = Inl e" "s' = s"
  | (created) parent where "r = Inr ()" "s' = s\<lparr>dk_tree := (p, n) # dk_tree s\<rparr>" "p \<noteq> []" "node_at s p = None"
      "node_at s (butlast p) = Some parent" "px_kind parent = A_Directory"
  using assms by (auto simp: new_entry_def split: if_splits option.splits)

definition conserved :: "path \<Rightarrow> disk \<Rightarrow> disk \<Rightarrow> bool" where
  "conserved r s0 s = (\<forall>p n. node_at s0 p = Some n \<longrightarrow>
     node_at s p = Some n \<or> p = index_of r \<and> (\<exists>raw. node_at s p = Some (n\<lparr>px_data := raw\<rparr>)))"

lemma conserved_refl [simp]: "conserved r s s"
  by (simp add: conserved_def)

lemma conservedD: "conserved r s0 s \<Longrightarrow> node_at s0 p = Some n \<Longrightarrow> p \<noteq> index_of r \<Longrightarrow> node_at s p = Some n"
  unfolding conserved_def by blast

lemma conserved_trans: "conserved r s0 s1 \<Longrightarrow> conserved r s1 s2 \<Longrightarrow> conserved r s0 s2"
  unfolding conserved_def by fastforce

lemma conserved_locked [simp]: "conserved r s0 (s\<lparr>dk_locked := b\<rparr>) = conserved r s0 s"
  by (simp add: conserved_def)

lemma conserved_added:
  assumes "conserved r s0 s" "node_at s p = None"
  shows "conserved r s0 (s\<lparr>dk_tree := (p, n) # dk_tree s\<rparr>)"
proof -
  have "node_at s0 p = None" using assms unfolding conserved_def by (metis option.distinct(1) option.exhaust)
  then show ?thesis using assms(1) by (auto simp: conserved_def)
qed

named_theorems conserving

lemma conserving_entry [conserving]: "keeps (conserved r s0) (new_entry p n)"
proof (rule keepsI)
  fix s x s'
  assume "conserved r s0 s" "new_entry p n s = (x, s')"
  then show "conserved r s0 s'"
    by (elim new_entry_cases) (simp_all add: conserved_added)
qed

lemma conserving_create [conserving]: "keeps (conserved r s0) (create_all es)"
  unfolding create_all_def by (intro keeps_intros) (auto intro: conserving)

lemma conserving_install [conserving]: "keeps (conserved r s0) (install m q chosen)"
  unfolding install_def by (intro keeps_intros conserving)

lemma conserving_root [conserving]: "keeps (conserved r s0) (make_root m q)"
  using conserving_entry by (auto simp: keeps_def make_root_def)

lemma keeps_pure: "keeps P (\<lambda>s. (f s, s))"
  by (simp add: keeps_def)

lemma keeps_checked: "keeps P (\<lambda>s. case f s of Inl e \<Rightarrow> (Inl e, s) | Inr _ \<Rightarrow> (Inr (), s))"
  by (simp add: keeps_def split: sum.split)

lemma conserving_directory [conserving]: "keeps (conserved r s0) (open_directory m given chosen)"
  unfolding open_directory_def by (intro keeps_intros conserving keeps_pure keeps_checked)

lemma conserving_lock [conserving]: "keeps (conserved r s0) (take_lock m q)"
  unfolding take_lock_def
  by (intro keeps_intros keeps_modify conserving)
    (auto split: option.split intro!: keeps_intros conserving)

lemma conserving_migration: "keeps (conserved r s0) (migrate_store m r st raw)"
proof -
  have "conserved r s (write_index m r ix s)" for ix s
    by (auto simp: conserved_def node_at_write_index)
  then show ?thesis
    by (auto simp: keeps_def migrate_store_def split: sum.split option.split intro: conserved_trans)
qed

lemma conserving_index: "keeps (conserved r s0) (open_index_file m r st)"
  unfolding open_index_file_def by (intro keeps_intros conserving keeps_pure conserving_migration)

lemma keeps_or_close:
  assumes "\<And>s b. P s \<Longrightarrow> P (s\<lparr>dk_locked := b\<rparr>)" "keeps P body"
  shows "keeps P (or_close body)"
proof (rule keepsI)
  fix s x s'
  assume "P s" and run: "or_close body s = (x, s')"
  moreover obtain y s1 where body: "body s = (y, s1)" by fastforce
  ultimately have "P s1" using assms(2) by (blast dest: keepsD)
  then show "P s'"
    using run body assms(1) by (auto simp: or_close_def close_store_def modify_def split: sum.splits)
qed

lemma conserving_store: "keeps (conserved (snd given) s0) (open_store m given chosen)"
  unfolding open_store_def by (intro keeps_intros conserving conserving_index keeps_or_close) simp_all

subsection \<open>The lock\<close>

lemma new_entry_lock: "new_entry p n s = (r, s') \<Longrightarrow> dk_locked s' = dk_locked s"
  by (erule new_entry_cases) simp_all

lemma lock_unchanged:
  "keeps (\<lambda>s. dk_locked s = b) (new_entry p n)" "keeps (\<lambda>s. dk_locked s = b) (create_all es)"
  "keeps (\<lambda>s. dk_locked s = b) (install m q chosen)" "keeps (\<lambda>s. dk_locked s = b) (make_root m q)"
  "keeps (\<lambda>s. dk_locked s = b) (open_directory m given chosen)" "keeps (\<lambda>s. dk_locked s = b) (open_index_file m q st)"
proof -
  show entry: "keeps (\<lambda>s. dk_locked s = b) (new_entry p n)" for p n
    by (rule keepsI) (simp add: new_entry_lock)
  then show all: "keeps (\<lambda>s. dk_locked s = b) (create_all es)" for es
    unfolding create_all_def by (intro keeps_intros) (simp add: split_beta)
  show inst: "keeps (\<lambda>s. dk_locked s = b) (install m q chosen)" for q chosen
    unfolding install_def by (intro keeps_intros all)
  show root: "keeps (\<lambda>s. dk_locked s = b) (make_root m q)" for q
    using entry by (auto simp: keeps_def make_root_def)
  show "keeps (\<lambda>s. dk_locked s = b) (open_directory m given chosen)"
    unfolding open_directory_def by (intro keeps_intros inst root keeps_pure keeps_checked)
  have "keeps (\<lambda>s. dk_locked s = b) (migrate_store m q st raw)" for raw
    by (auto simp: keeps_def migrate_store_def write_index_def split: sum.split option.split)
  then show "keeps (\<lambda>s. dk_locked s = b) (open_index_file m q st)"
    unfolding open_index_file_def by (intro keeps_intros entry keeps_pure)
qed

lemma take_lock_outcome:
  assumes "take_lock m r s = (x, s')"
  shows "dk_locked s' = (dk_locked s \<or> is_ok x) \<and> \<not> (dk_locked s \<and> is_ok x)"
proof -
  obtain y s1 where first: "(case node_at s (lock_of r) of None \<Rightarrow> new_entry (lock_of r) (new_file_node m [])
      | Some n \<Rightarrow> if px_kind n = A_Link \<or> px_kind n = A_Directory then fail (Raised ''OSError'') else ret ()) s = (y, s1)" by fastforce
  then have "dk_locked s1 = dk_locked s"
    by (auto simp: act_simps dest: new_entry_lock split: option.splits if_splits)
  with first assms show ?thesis
    by (cases y) (auto simp: take_lock_def abind_def gets_def require_def lift_def modify_def ensure_def split: if_splits)
qed

lemma open_store_lock:
  assumes "open_store m given chosen s = (x, s')"
  shows "dk_locked s' = (dk_locked s \<or> is_ok x) \<and> \<not> (dk_locked s \<and> is_ok x)"
proof -
  obtain y1 s1 where d: "open_directory m given chosen s = (y1, s1)" by fastforce
  have l1: "dk_locked s1 = dk_locked s" using keepsD [OF lock_unchanged(5) refl d] .
  show ?thesis
  proof (cases y1)
    case (Inl e)
    with d assms l1 show ?thesis by (auto simp: open_store_def is_ok_def)
  next
    case (Inr st)
    obtain y2 s2 where l: "take_lock m (snd given) s1 = (y2, s2)" by fastforce
    note l2 = take_lock_outcome [OF l]
    show ?thesis
    proof (cases y2)
      case (Inl e)
      with d l Inr assms l1 l2 show ?thesis by (auto simp: open_store_def is_ok_def)
    next
      case ok: (Inr u)
      let ?body = "abind (open_index_file m (snd given) st) (\<lambda>_. ret st)"
      obtain y3 s3 where b: "?body s2 = (y3, s3)" by fastforce
      have k: "keeps (\<lambda>s. dk_locked s = dk_locked s2) ?body" by (intro keeps_intros lock_unchanged)
      have "dk_locked s3 = dk_locked s2" by (rule keepsD [OF k refl b])
      then have held: "\<not> dk_locked s" "dk_locked s3" using l1 l2 ok by (simp_all add: is_ok_def)
      have "open_store m given chosen s = or_close ?body s2" using d l Inr ok by (simp add: open_store_def)
      then have "(x, s') = or_close ?body s2" using assms by simp
      then have "case y3 of Inr v \<Rightarrow> x = Inr v \<and> s' = s3 | Inl e \<Rightarrow> x = Inl e \<and> s' = s3\<lparr>dk_locked := False\<rparr>"
        unfolding or_close_def b by (cases y3) (simp_all add: close_store_def modify_def)
      with held show ?thesis by (cases y3) (simp_all add: is_ok_def)
    qed
  qed
qed

text \<open>While another process holds the lock, not even the index changes.\<close>

lemma locked_index_kept:
  assumes "open_store m given chosen s = (x, s')" "dk_locked s" "node_at s p = Some n"
  shows "node_at s' p = Some n"
proof -
  let ?r = "p @ p @ [undefined]"
  have "p \<noteq> index_of ?r" by (simp add: index_of_def)
  moreover have "conserved ?r s s'"
  proof -
    obtain y1 s1 where d: "open_directory m given chosen s = (y1, s1)" by fastforce
    have c1: "conserved ?r s s1" by (rule keepsD [OF conserving_directory conserved_refl d])
    show ?thesis
    proof (cases y1)
      case (Inl e)
      with d assms(1) c1 show ?thesis by (simp add: open_store_def)
    next
      case (Inr st)
      obtain y2 s2 where l: "take_lock m (snd given) s1 = (y2, s2)" by fastforce
      have c2: "conserved ?r s s2" by (rule keepsD [OF conserving_lock c1 l])
      have "dk_locked s1" using keepsD [OF lock_unchanged(5) refl d] assms(2) by simp
      then obtain e where "y2 = Inl e" using take_lock_outcome [OF l] by (cases y2) (auto simp: is_ok_def)
      with d l Inr assms(1) c2 show ?thesis by (simp add: open_store_def)
    qed
  qed
  ultimately show ?thesis using assms(3) by (auto simp: conserved_def)
qed

subsection \<open>What is created\<close>

definition inside :: "machine \<Rightarrow> path \<Rightarrow> path \<Rightarrow> bool" where
  "inside m r p = (take (length r) p = r \<or> p = mc_real m (butlast r) @ [last r])"

definition confined :: "machine \<Rightarrow> path \<Rightarrow> disk \<Rightarrow> disk \<Rightarrow> bool" where
  "confined m r s0 s = (\<forall>p. node_at s p \<noteq> None \<longrightarrow> node_at s0 p \<noteq> None \<or> inside m r p)"

lemma confining_entry: "inside m r p \<Longrightarrow> keeps (confined m r s0) (new_entry p n)"
  by (rule keepsI, erule new_entry_cases) (auto simp: confined_def)

lemma inside_paths [simp]:
  "inside m r (r @ q)" "inside m r (marker_of r)" "inside m r (settings_path r)" "inside m r (index_of r)"
  "inside m r (lock_of r)" "inside m r (token_of r who)"
  by (simp_all add: inside_def marker_of_def settings_path_def index_of_def lock_of_def token_of_def)

lemma confining_directory: "keeps (confined m r s0) (open_directory m (b, r) chosen)"
proof -
  have "keeps (confined m r s0) (create_all (install_entries m r t u))" for t u
    unfolding create_all_def by (intro keeps_intros) (auto simp: install_entries_def DIRECTORIES_def intro!: confining_entry)
  then have inst: "keeps (confined m r s0) (install m r chosen)" unfolding install_def by (intro keeps_intros)
  have root: "keeps (confined m r s0) (make_root m r)"
    using confining_entry [of m r "mc_real m (butlast r) @ [last r]" s0] by (auto simp: keeps_def make_root_def inside_def)
  show ?thesis unfolding open_directory_def snd_conv by (intro keeps_intros inst root keeps_pure keeps_checked)
qed

lemma confining_store: "keeps (confined m r s0) (open_store m (b, r) chosen)"
proof -
  have lock: "keeps (confined m r s0) (take_lock m r)"
    unfolding take_lock_def
    by (intro keeps_intros keeps_modify)
      (auto simp: confined_def split: option.split intro!: keeps_intros confining_entry)
  have "keeps (confined m r s0) (migrate_store m r st raw)" for st raw
    by (auto simp: keeps_def migrate_store_def confined_def node_at_write_index split: sum.split option.split if_splits)
  then have "keeps (confined m r s0) (open_index_file m r st)" for st
    unfolding open_index_file_def by (intro keeps_intros keeps_pure confining_entry inside_paths)
  then have "keeps (confined m r s0) (or_close (abind (open_index_file m r st) (\<lambda>_. ret st)))" for st
    by (intro keeps_or_close keeps_intros) (simp add: confined_def)
  then show ?thesis unfolding open_store_def snd_conv by (intro keeps_intros confining_directory lock)
qed

text \<open>
  C8. Opening an installation is conservative and exclusive. However it ends (an unknown directory, a failed check, an
  index SQLite cannot read, a refused migration), every file and directory that was there keeps its attributes and its
  bytes, only the bytes of the index may change and only when no other process holds the lock; nothing is created
  outside the directory of the installation; a second opening is refused while the lock is held, an opening that
  succeeds holds it, and one that fails leaves it as it found it.
\<close>

theorem opening_is_conservative:
  "case open_store m (b, r) chosen s of (x, s') \<Rightarrow>
     (\<forall>p n. node_at s p = Some n \<longrightarrow> node_at s' p = Some n
        \<or> p = index_of r \<and> \<not> dk_locked s \<and> (\<exists>raw. node_at s' p = Some (n\<lparr>px_data := raw\<rparr>)))
     \<and> (\<forall>p. node_at s' p \<noteq> None \<longrightarrow> node_at s p \<noteq> None \<or> inside m r p)
     \<and> dk_locked s' = (dk_locked s \<or> is_ok x) \<and> \<not> (dk_locked s \<and> is_ok x)"
proof -
  obtain x s' where run: "open_store m (b, r) chosen s = (x, s')" by fastforce
  have "conserved r s s'" using keepsD [OF conserving_store conserved_refl run] by simp
  moreover have "confined m r s s'" by (rule keepsD [OF confining_store _ run]) (simp add: confined_def)
  ultimately show ?thesis
    using open_store_lock [OF run] locked_index_kept [OF run]
    unfolding run prod.case conserved_def confined_def by (intro conjI allI impI) (blast | simp)+
qed

subsection \<open>An interrupted installation\<close>

lemma created_tree: "create_all es s = (Inr (), s1) \<Longrightarrow> s1 = s\<lparr>dk_tree := rev es @ dk_tree s\<rparr>"
proof (induction es arbitrary: s)
  case Nil
  then show ?case by (simp add: create_all_def)
next
  case (Cons e es)
  obtain p n where e: "e = (p, n)" by fastforce
  from Cons.prems obtain s2 where first: "new_entry p n s = (Inr (), s2)" and others: "create_all es s2 = (Inr (), s1)"
    by (auto simp: create_all_def e split: prod.splits sum.splits)
  from first have "s2 = s\<lparr>dk_tree := (p, n) # dk_tree s\<rparr>" by (elim new_entry_cases) simp_all
  with Cons.IH [OF others] show ?case by (simp add: e)
qed

lemma unrecognized_refused:
  assumes "mc_recent m" "''..'' \<notin> set r" "take (length (mc_code m)) (mc_real m r) \<noteq> mc_code m"
    and "node_at s (mc_real m r) \<noteq> None" "private_directory m s (True, r) = Inr r"
    and "node_at s (mc_real m (marker_of r)) = None" "occupied_directory s r"
  shows "open_store m (True, r) chosen s = (Inl (Problem ''refusing_unrecognized_directory'' 400), s)"
  using assms by (auto simp: open_store_def open_directory_def make_root_def install_def abind_def act_simps)

theorem interrupted_installation_is_refused:
  assumes "mc_recent m" "''..'' \<notin> set r" "take (length (mc_code m)) r \<noteq> mc_code m" "mc_real m r = r"
      "mc_real m (marker_of r) = marker_of r"
    and "private_directory m s (True, r) = Inr r" "node_at s (marker_of r) = None" "0 < k" "k < 10"
    and "create_all (take k (install_entries m r t u)) s = (Inr (), s1)"
  shows "open_store m (True, r) chosen s1 = (Inl (Problem ''refusing_unrecognized_directory'' 400), s1)"
proof (rule unrecognized_refused)
  let ?es = "take k (install_entries m r t u)"
  have tree: "dk_tree s1 = rev ?es @ dk_tree s" using created_tree [OF assms(10)] by simp
  have deeper: "length r < length p" if "(p, n) \<in> set (install_entries m r t u)" for p n
    using that by (auto simp: install_entries_def DIRECTORIES_def settings_path_def token_of_def marker_of_def)
  have same: "node_at s1 q = node_at s q" if "length q \<le> length r" for q
  proof -
    have "map_of (rev ?es) q = None" using deeper that by (fastforce simp: map_of_eq_None_iff dest: in_set_takeD)
    then show ?thesis by (simp add: node_at_def tree map_add_def)
  qed
  show "private_directory m s1 (True, r) = Inr r" "node_at s1 (mc_real m r) \<noteq> None"
    using assms(4,6) same by (auto simp: private_directory_def linked_def)
  have "set ?es \<subseteq> set (take 9 (install_entries m r t u))" using assms(9) by (intro set_take_subset_set_take) simp
  moreover have "(marker_of r, n) \<notin> set (take 9 (install_entries m r t u))" for n
    by (simp add: install_entries_def DIRECTORIES_def settings_path_def token_of_def marker_of_def)
  ultimately have "map_of (rev ?es) (marker_of r) = None" by (force simp: map_of_eq_None_iff)
  then show "node_at s1 (mc_real m (marker_of r)) = None"
    using assms(5,7) by (simp add: node_at_def tree map_add_def)
  obtain k' where "k = Suc k'" using assms(8) by (cases k) auto
  then have "(r @ [''app''], new_directory_node m) \<in> set ?es" by (simp add: install_entries_def DIRECTORIES_def)
  then show "occupied_directory s1 r"
    unfolding occupied_directory_def tree list_ex_iff by (intro bexI [of _ "(r @ [''app''], new_directory_node m)"]) simp_all
qed (use assms in simp_all)

subsection \<open>Opening again\<close>

lemma private_directory_cong:
  "(\<And>i. i \<le> length p \<Longrightarrow> node_at s (take i p) = node_at t (take i p)) \<Longrightarrow> private_directory m s (b, p) = private_directory m t (b, p)"
proof -
  assume same: "\<And>i. i \<le> length p \<Longrightarrow> node_at s (take i p) = node_at t (take i p)"
  from same [of "length p"] have "node_at s p = node_at t p" by simp
  moreover have "linked s p = linked t p"
    unfolding linked_def
  proof (rule list_ex_cong [OF refl])
    fix i assume "i \<in> set [1..<Suc (length p)]"
    then have "i \<le> length p" by auto
    then show "(case node_at s (take i p) of Some n \<Rightarrow> px_kind n = A_Link | None \<Rightarrow> False)
        = (case node_at t (take i p) of Some n \<Rightarrow> px_kind n = A_Link | None \<Rightarrow> False)" by (simp add: same)
  qed
  ultimately show ?thesis by (simp add: private_directory_def)
qed

lemma private_directory_Inr:
  "private_directory m s (b, p) = Inr q \<longleftrightarrow> q = p \<and> b \<and> ''..'' \<notin> set p \<and> \<not> linked s p
     \<and> (\<exists>n. node_at s p = Some n \<and> px_kind n = A_Directory \<and> px_owner n = mc_uid m \<and> owner_only (px_mode n))"
  by (auto simp: private_directory_def)

lemma read_private_file_Inr:
  "read_private_file m s p limit = Inr raw \<longleftrightarrow> (\<exists>n. node_at s p = Some n \<and> px_kind n = A_File \<and> px_links n = 1
     \<and> px_owner n = mc_uid m \<and> owner_only (px_mode n) \<and> int (length (px_data n)) \<le> limit \<and> raw = px_data n)"
  by (auto simp: read_private_file_def)

lemma checks_Inr:
  "foreach (\<lambda>d s. case f d s of Inl e \<Rightarrow> (Inl e, s) | Inr _ \<Rightarrow> (Inr (), s)) ds s = (Inr u, s') \<longleftrightarrow> s' = s \<and> (\<forall>d\<in>set ds. is_ok (f d s))"
  by (induction ds) (auto simp: is_ok_def split: sum.splits)

lemma linked_prefix: "linked s p \<Longrightarrow> linked s (p @ q)"
  by (force simp: linked_def list_ex_iff)

text \<open>What a directory that has been accepted looks like, read on its nodes.\<close>

definition accepted_directory :: "machine \<Rightarrow> path \<Rightarrow> disk \<Rightarrow> settings \<Rightarrow> bool" where
  "accepted_directory m r s st =
     (mc_recent m \<and> take (length (mc_code m)) (mc_real m r) \<noteq> mc_code m \<and> private_directory m s (True, r) = Inr r
      \<and> (\<forall>d\<in>set DIRECTORIES. is_ok (private_directory m s (True, r @ [d])))
      \<and> (\<exists>raw v. read_private_file m s (marker_of r) 1024 = Inr raw \<and> decode_body (h_loads (mc_host m)) raw = Inr v \<and> py_eq v INSTALLATION)
      \<and> (\<exists>raw. read_private_file m s (settings_path r) 1024 = Inr raw \<and> rbind (decode_body (h_loads (mc_host m)) raw) settings_of = Inr st))"

lemma opened_is_accepted:
  assumes "open_directory m (True, r) chosen s = (Inr st, sa)"
  shows "accepted_directory m r sa st"
proof -
  from assms obtain s1 s2 u u2 raw v raw2 where start: "mc_recent m" "''..'' \<notin> set r" "take (length (mc_code m)) (mc_real m r) \<noteq> mc_code m"
    and p: "private_directory m s1 (True, r) = Inr u"
    and i: "(if node_at s1 (mc_real m (marker_of r)) = None then install m r chosen else ret ()) s1 = (Inr u2, s2)"
    and c: "\<forall>d\<in>set DIRECTORIES. is_ok (private_directory m s2 (True, r @ [d]))"
    and raw: "read_private_file m s2 (marker_of r) 1024 = Inr raw" "decode_body (h_loads (mc_host m)) raw = Inr v" "py_eq v INSTALLATION"
    and raw2: "read_private_file m s2 (settings_path r) 1024 = Inr raw2" "rbind (decode_body (h_loads (mc_host m)) raw2) settings_of = Inr st"
    and sa: "sa = s2"
    unfolding open_directory_def by (auto simp only: abind_Inr act_defs checks_Inr fst_conv snd_conv ensure_Inr prod.inject) (rule that; (assumption | rule refl))
  have "keeps (conserved r s1) (if node_at s1 (mc_real m (marker_of r)) = None then install m r chosen else ret ())"
    by (intro keeps_intros conserving)
  then have "conserved r s1 s2" using i by (blast dest: keepsD intro: conserved_refl)
  moreover have "r \<noteq> index_of r" by (simp add: index_of_def)
  ultimately have same: "node_at s1 r = Some n \<Longrightarrow> node_at s2 r = Some n" for n by (auto simp: conserved_def)
  have "\<not> linked s2 r" using c linked_prefix by (fastforce simp: DIRECTORIES_def is_ok_conv private_directory_Inr)
  then have "private_directory m s2 (True, r) = Inr r" using p same by (auto simp: private_directory_Inr)
  with start c raw raw2 sa show ?thesis unfolding accepted_directory_def by blast
qed

lemma accepted_opens:
  assumes "accepted_directory m r s st" "mc_real m r = r" "mc_real m (marker_of r) = marker_of r"
  shows "open_directory m (True, r) chosen s
    = (if chosen = None \<or> chosen = Some st then (Inr st, s) else (Inl (Problem ''settings_mismatch'' 400), s))"
proof -
  from assms(1) obtain raw v raw2 where a: "mc_recent m" "take (length (mc_code m)) (mc_real m r) \<noteq> mc_code m"
      "private_directory m s (True, r) = Inr r" "\<forall>d\<in>set DIRECTORIES. is_ok (private_directory m s (True, r @ [d]))"
      "read_private_file m s (marker_of r) 1024 = Inr raw" "decode_body (h_loads (mc_host m)) raw = Inr v" "py_eq v INSTALLATION"
      "read_private_file m s (settings_path r) 1024 = Inr raw2" "rbind (decode_body (h_loads (mc_host m)) raw2) settings_of = Inr st"
    unfolding accepted_directory_def by blast
  obtain n1 n2 where there: "node_at s r = Some n1" "node_at s (marker_of r) = Some n2" "''..'' \<notin> set r"
    using a(3,5) by (auto simp: private_directory_Inr read_private_file_Inr)
  have checks: "foreach (\<lambda>d s. case private_directory m s (True, r @ [d]) of Inl e \<Rightarrow> (Inl e, s) | Inr _ \<Rightarrow> (Inr (), s)) DIRECTORIES s
      = (Inr (), s)" using a(4) by (simp only: checks_Inr)
  show ?thesis
    unfolding open_directory_def
    using a(1-3,5-9) there checks assms(2,3)
    by (simp add: abind_def act_defs make_root_def ensure_def del: rbind_Inr split: option.split)
qed

definition agrees :: "path \<Rightarrow> disk \<Rightarrow> disk \<Rightarrow> bool" where
  "agrees r s t = (\<forall>p. p \<noteq> index_of r \<longrightarrow> p \<noteq> lock_of r \<longrightarrow> node_at t p = node_at s p)"

lemma accepted_agrees:
  assumes "accepted_directory m r s st" "agrees r s t"
  shows "accepted_directory m r t st"
proof -
  have same: "node_at t p = node_at s p" if "length p \<le> length r + 1" for p
  proof -
    have "p \<noteq> index_of r" "p \<noteq> lock_of r" using that by (auto simp: index_of_def lock_of_def)
    with assms(2) show ?thesis by (simp add: agrees_def)
  qed
  have "private_directory m t (True, r @ q) = private_directory m s (True, r @ q)" if "length q \<le> 1" for q
    by (rule private_directory_cong) (use that in \<open>simp add: same\<close>)
  from this [of "[]"] this [of "[_]"] have "private_directory m t (True, r) = private_directory m s (True, r)"
    "\<And>d. private_directory m t (True, r @ [d]) = private_directory m s (True, r @ [d])" by simp_all
  moreover have "node_at t (marker_of r) = node_at s (marker_of r)" "node_at t (settings_path r) = node_at s (settings_path r)"
    using assms(2) by (simp_all add: agrees_def marker_of_def settings_path_def index_of_def lock_of_def)
  ultimately show ?thesis using assms(1) unfolding accepted_directory_def read_private_file_def by simp
qed

lemma agreeing_entry: "p = index_of r \<or> p = lock_of r \<Longrightarrow> keeps (agrees r s0) (new_entry p n)"
  by (rule keepsI, erule new_entry_cases) (auto simp: agrees_def)

lemma agreeing_lock: "keeps (agrees r s0) (take_lock m r)"
  unfolding take_lock_def
  by (intro keeps_intros keeps_modify)
    (auto simp: agrees_def split: option.split intro!: keeps_intros agreeing_entry)

lemma agreeing_index: "keeps (agrees r s0) (open_index_file m r st)"
proof -
  have "keeps (agrees r s0) (migrate_store m r st raw)" for raw
    by (auto simp: keeps_def migrate_store_def agrees_def node_at_write_index split: sum.split option.split)
  then show ?thesis unfolding open_index_file_def by (intro keeps_intros keeps_pure agreeing_entry disjI1 refl)
qed

text \<open>The lock file and the index after an opening that succeeded.\<close>

definition lock_ready :: "path \<Rightarrow> disk \<Rightarrow> bool" where
  "lock_ready r s = (\<exists>n. node_at s (lock_of r) = Some n \<and> px_kind n \<noteq> A_Link \<and> px_kind n \<noteq> A_Directory)"

lemma taken_lock_ready: "take_lock m r s = (Inr u, s') \<Longrightarrow> lock_ready r s' \<and> dk_locked s'"
  unfolding take_lock_def
  by (auto simp: abind_Inr act_defs lock_ready_def new_file_node_def split: option.splits if_splits elim!: new_entry_cases)

lemma lock_taken_again: "lock_ready r s \<Longrightarrow> take_lock m r s
    = (if dk_locked s then (Inl (Problem ''backend_already_running'' 409), s) else (Inr (), s\<lparr>dk_locked := True\<rparr>))"
  by (auto simp: lock_ready_def take_lock_def abind_def act_defs)

lemma index_readable:
  assumes "open_index_file m r st s = (Inr u, s')" "node_at s' (index_of r) = Some n"
  shows "px_kind n = A_File \<and> px_links n = 1 \<and> px_owner n = mc_uid m \<and> owner_only (px_mode n)"
proof -
  from assms(1) obtain raw s1 where "read_private_file m s1 (index_of r) 1073741824 = Inr raw" "migrate_store m r st raw s1 = (Inr u, s')"
    unfolding open_index_file_def by (auto simp: abind_Inr gets_def)
  with assms(2) show ?thesis
    by (auto simp: read_private_file_Inr migrate_store_def node_at_write_index split: sum.splits option.splits)
qed

lemma complete_index_kept:
  assumes "node_at s (index_of r) = Some n" "mc_real m (index_of r) = index_of r"
    and "px_kind n = A_File \<and> px_links n = 1 \<and> px_owner n = mc_uid m \<and> owner_only (px_mode n)" "length (px_data n) \<le> 1073741824"
    and "mc_schema m (px_data n) = Some (With_History ix)" "ix_history ix = known_history (mc_host m) (length (h_known (mc_host m)))"
    and "h_known (mc_host m) \<noteq> []"
  shows "open_index_file m r st s = (Inr (), s)"
proof -
  have len: "length (ix_history ix) = length (h_known (mc_host m))" using assms(6) by (simp add: known_history_def)
  then have "known_prefix m (With_History ix) = Inr ix" using assms(6,7) by (auto simp: known_prefix_def)
  then have "migrated m s r st (With_History ix) = Inr None" using len by (simp add: migrated_def)
  then have "migrate_store m r st (px_data n) s = (Inr (), s)" using assms(5) by (simp add: migrate_store_def)
  moreover have "read_private_file m s (index_of r) 1073741824 = Inr (px_data n)" using assms(1,3,4) by (simp add: read_private_file_Inr)
  ultimately show ?thesis using assms(1,2) by (simp add: open_index_file_def abind_def act_defs)
qed

lemma open_store_Inr:
  assumes "open_store m (True, r) chosen s = (Inr st, s')"
  obtains sa sb where "open_directory m (True, r) chosen s = (Inr st, sa)" "take_lock m r sa = (Inr (), sb)"
    "open_index_file m r st sb = (Inr (), s')"
proof -
  from assms obtain st' sa u sb where d: "open_directory m (True, r) chosen s = (Inr st', sa)" "take_lock m r sa = (Inr u, sb)"
    and c: "or_close (abind (open_index_file m r st') (\<lambda>_. ret st')) sb = (Inr st, s')"
    unfolding open_store_def by (auto simp: abind_Inr)
  from c have "abind (open_index_file m r st') (\<lambda>_. ret st') sb = (Inr st, s')"
    by (auto simp: or_close_def split: prod.splits sum.splits)
  with d that show thesis by (auto simp: abind_Inr ret_def)
qed

lemma lock_not_index [simp]: "lock_of r \<noteq> index_of r"
  by (simp add: lock_of_def index_of_def)

text \<open>
  C33. An installation that has been opened can be opened again, and nothing changes any more: whatever directory a first
  opening accepted or created, with or without migrations, once SQLite reads back an index with all the migrations, a
  later opening returns the settings chosen first and leaves the disk as it is but for the lock. While the first one
  holds the lock it is refused with \<open>backend_already_running\<close>, and with other settings it is refused with
  \<open>settings_mismatch\<close>; both refusals change nothing.
\<close>

theorem reopening_is_stable:
  assumes "open_store m (True, r) chosen s = (Inr st, s')"
    and "mc_real m r = r" "mc_real m (marker_of r) = marker_of r" "mc_real m (index_of r) = index_of r"
    and "node_at s' (index_of r) = Some n" "length (px_data n) \<le> 1073741824" "mc_schema m (px_data n) = Some (With_History ix)"
    and "ix_history ix = known_history (mc_host m) (length (h_known (mc_host m)))" "h_known (mc_host m) \<noteq> []"
  shows "open_store m (True, r) chosen2 s' =
      (Inl (if chosen2 = None \<or> chosen2 = Some st then Problem ''backend_already_running'' 409 else Problem ''settings_mismatch'' 400), s')
    \<and> open_store m (True, r) chosen2 (snd (close_store s')) =
      (if chosen2 = None \<or> chosen2 = Some st then (Inr st, s')
       else (Inl (Problem ''settings_mismatch'' 400), snd (close_store s')))"
proof -
  from assms(1) obtain sa sb where d: "open_directory m (True, r) chosen s = (Inr st, sa)"
    and l: "take_lock m r sa = (Inr (), sb)" and i: "open_index_file m r st sb = (Inr (), s')" by (rule open_store_Inr)
  have "agrees r sa sb" by (rule keepsD [OF agreeing_lock _ l]) (simp add: agrees_def)
  then have "agrees r sa s'" by (rule keepsD [OF agreeing_index _ i])
  with opened_is_accepted [OF d] have acc: "accepted_directory m r s' st" by (rule accepted_agrees)
  have "conserved r sb s'" by (rule keepsD [OF conserving_index conserved_refl i])
  then have "node_at sb (lock_of r) = Some k \<Longrightarrow> node_at s' (lock_of r) = Some k" for k by (rule conservedD [OF _ _ lock_not_index])
  then have ready: "lock_ready r s'" "dk_locked s'"
    using taken_lock_ready [OF l] open_store_lock [OF assms(1)] unfolding lock_ready_def is_ok_def by (blast, simp)
  have again: "open_directory m (True, r) chosen2 t
      = (if chosen2 = None \<or> chosen2 = Some st then (Inr st, t) else (Inl (Problem ''settings_mismatch'' 400), t))"
    and lock: "lock_ready r t" if "\<And>p. node_at t p = node_at s' p" for t
  proof -
    have "agrees r s' t" using that by (simp add: agrees_def)
    then show "open_directory m (True, r) chosen2 t
      = (if chosen2 = None \<or> chosen2 = Some st then (Inr st, t) else (Inl (Problem ''settings_mismatch'' 400), t))"
      using accepted_opens [OF accepted_agrees [OF acc] assms(2,3)] by blast
    show "lock_ready r t" using ready(1) that by (simp add: lock_ready_def)
  qed
  have "open_store m (True, r) chosen2 s' =
      (Inl (if chosen2 = None \<or> chosen2 = Some st then Problem ''backend_already_running'' 409 else Problem ''settings_mismatch'' 400), s')"
    using again [of s'] lock_taken_again [OF ready(1)] ready(2) by (simp add: open_store_def abind_def)
  moreover let ?t = "s'\<lparr>dk_locked := False\<rparr>"
  have "open_index_file m r st s' = (Inr (), s')"
    using complete_index_kept [OF assms(5,4) index_readable [OF i assms(5)] assms(6-9)] .
  moreover have "?t\<lparr>dk_locked := True\<rparr> = s'" using ready(2) by (cases s') simp
  ultimately show ?thesis
    using again [of ?t] lock_taken_again [OF lock [of ?t]]
    by (simp add: open_store_def abind_def close_store_def modify_def or_close_def ret_def)
qed

subsection \<open>A first installation\<close>

definition demo_index :: index where
  "demo_index = \<lparr>ix_intact = True, ix_history = [(1, ''h''), (2, ''h'')], ix_db = empty_db\<rparr>"

definition demo_settings :: settings where
  "demo_settings = \<lparr>max_file_bytes = 1, quota_bytes = 2, attempt_seconds = 3\<rparr>"

definition demo_installer :: machine where
  "demo_installer =
     \<lparr>mc_uid = 1000, mc_real = (\<lambda>p. p), mc_code = [''opt''], mc_recent = True,
      mc_schema = (\<lambda>raw. if raw = [] then Some No_Tables else Some (With_History demo_index)),
      mc_host = \<lparr>h_sha = (\<lambda>s. ''h''),
        h_loads = (\<lambda>s. Some (if 53 < length s then settings_dict demo_settings else INSTALLATION)), h_frepr = (\<lambda>x. []),
        h_sqlite = (\<lambda>raw. None), h_sqlite_file = (\<lambda>ix. ''index''), h_known = [(1, ''one''), (2, ''two'')]\<rparr>,
      mc_admin_token = replicate 43 (CHR ''a''), mc_worker_token = replicate 43 (CHR ''w''), mc_workspace = ''w_1'',
      mc_stamp = Inr ''2026-01-01T00:00:00Z''\<rparr>"

definition demo_disk :: disk where
  "demo_disk = \<lparr>dk_tree = [([''srv''], new_directory_node demo_installer)], dk_locked = False\<rparr>"

lemma demo_opened: "fst (open_store demo_installer (True, [''srv'']) (Some demo_settings) demo_disk) = Inr demo_settings"
  by code_simp

lemma demo_index_written:
  "map_option px_data (node_at (snd (open_store demo_installer (True, [''srv'']) (Some demo_settings) demo_disk)) (index_of [''srv''])) = Some ''index''"
  by code_simp

text \<open>Opening it a second time is refused; after it is closed it opens again, with the settings it has.\<close>

lemma reopening_is_stable_witness:
  "\<exists>s'. open_store demo_installer (True, [''srv'']) (Some demo_settings) demo_disk = (Inr demo_settings, s')
     \<and> open_store demo_installer (True, [''srv'']) None s' = (Inl (Problem ''backend_already_running'' 409), s')
     \<and> open_store demo_installer (True, [''srv'']) None (snd (close_store s')) = (Inr demo_settings, s')"
proof -
  obtain s' where run: "open_store demo_installer (True, [''srv'']) (Some demo_settings) demo_disk = (Inr demo_settings, s')"
    using demo_opened by (metis prod.collapse)
  then obtain n where n: "node_at s' (index_of [''srv'']) = Some n" "px_data n = ''index''"
    using demo_index_written by auto
  have m: "mc_real demo_installer p = p" "mc_schema demo_installer ''index'' = Some (With_History demo_index)"
    "ix_history demo_index = known_history (mc_host demo_installer) (length (h_known (mc_host demo_installer)))"
    "h_known (mc_host demo_installer) \<noteq> []" for p
    by (simp_all add: demo_installer_def demo_index_def known_history_def)
  have "length (px_data n) \<le> 1073741824" "mc_schema demo_installer (px_data n) = Some (With_History demo_index)"
    unfolding n(2) m(2) by simp_all
  from reopening_is_stable [OF run m(1) m(1) m(1) n(1) this m(3,4), of None]
  have "open_store demo_installer (True, [''srv'']) None s' = (Inl (Problem ''backend_already_running'' 409), s')"
    "open_store demo_installer (True, [''srv'']) None (snd (close_store s')) = (Inr demo_settings, s')"
    by (simp_all only: simp_thms if_True)
  with run show ?thesis by blast
qed

text \<open>A directory with a file of somebody else is left as it is.\<close>

definition foreign_disk :: disk where
  "foreign_disk = \<lparr>dk_tree = [([''srv'', ''notes''], new_file_node demo_installer ''x''), ([''srv''], new_directory_node demo_installer)],
     dk_locked = False\<rparr>"

lemma opening_is_conservative_witness:
  "\<exists>s'. open_store demo_installer (True, [''srv'']) (Some demo_settings) foreign_disk = (Inl (Problem ''refusing_unrecognized_directory'' 400), s')
     \<and> node_at s' [''srv'', ''notes''] = Some (new_file_node demo_installer ''x'') \<and> \<not> dk_locked s'"
proof -
  have "fst (open_store demo_installer (True, [''srv'']) (Some demo_settings) foreign_disk) = Inl (Problem ''refusing_unrecognized_directory'' 400)"
    by code_simp
  then obtain s' where run: "open_store demo_installer (True, [''srv'']) (Some demo_settings) foreign_disk
      = (Inl (Problem ''refusing_unrecognized_directory'' 400), s')" by (metis prod.collapse)
  have before: "node_at foreign_disk [''srv'', ''notes''] = Some (new_file_node demo_installer ''x'')"
    "[''srv'', ''notes''] \<noteq> index_of [''srv'']" "\<not> dk_locked foreign_disk"
    by (simp_all add: foreign_disk_def node_at_def index_of_def)
  from opening_is_conservative [where m = demo_installer and b = True and r = "[''srv'']"
      and chosen = "Some demo_settings" and s = foreign_disk] before run show ?thesis
    by (auto simp: is_ok_def)
qed

end
