(* ===== verification/Vm_Plan.thy ===== *)
theory Vm_Plan
  imports Metadata "HOL-Library.Word"
begin

unbundle bit_operations_syntax

section \<open>infrastructure/proxmox/vm_plan.py: an offline plan of a virtual machine\<close>

text \<open>
  The validation of an environment into a plan, and the read-only checks of the paths it names. The environment maps
  names to values; the files of the host are a parameter: what \<open>lstat\<close> tells of a path, \<open>None\<close> where it does not exist
  (any other \<open>OSError\<close> of the host ends the check). Modes are 16-bit words.
\<close>

type_synonym environment = "string \<Rightarrow> val option"

definition env_value :: "environment \<Rightarrow> string \<Rightarrow> string \<Rightarrow> string res" where
  "env_value env name fallback =
     rbind (needed (as_str (case env name of Some v \<Rightarrow> v | None \<Rightarrow> VStr fallback))) (\<lambda>raw.
     rbind (must (raw \<noteq> [] \<and> length raw \<le> 2048 \<and> list_all (\<lambda>c. 32 \<le> ord c) raw)) (\<lambda>_. Inr raw))"

definition resource_number :: "string \<Rightarrow> bool" where
  \<comment> \<open>\<open>[1-9][0-9]{0,8}\<close>\<close>
  "resource_number s = (case s of [] \<Rightarrow> False | c # cs \<Rightarrow> is_digit c \<and> c \<noteq> CHR ''0'' \<and> length cs \<le> 8 \<and> list_all is_digit cs)"

definition env_integer :: "environment \<Rightarrow> string \<Rightarrow> string \<Rightarrow> nat \<Rightarrow> nat \<Rightarrow> nat res" where
  "env_integer env name fallback low high =
     rbind (env_value env name fallback) (\<lambda>raw.
     rbind (must (resource_number raw \<and> low \<le> nat_of_digits raw \<and> nat_of_digits raw \<le> high)) (\<lambda>_. Inr (nat_of_digits raw)))"

definition pure_parts :: "string \<Rightarrow> string list" where
  "pure_parts s = filter (\<lambda>p. p \<noteq> [] \<and> p \<noteq> ''.'') (split_on (CHR ''/'') s)"

definition pure_path :: "string \<Rightarrow> string" where
  \<comment> \<open>\<open>str(PurePosixPath(s))\<close> of an absolute path: exactly two leading slashes are kept\<close>
  "pure_path s =
     (if starts_with ''//'' s \<and> \<not> starts_with ''///'' s then ''//'' else ''/'') @ join_with ''/'' (pure_parts s)"

definition env_path :: "environment \<Rightarrow> string \<Rightarrow> string \<Rightarrow> string res" where
  "env_path env name fallback =
     rbind (env_value env name fallback) (\<lambda>raw.
     rbind (must (starts_with ''/'' raw \<and> ''..'' \<notin> set (pure_parts raw) \<and> pure_path raw = raw)) (\<lambda>_. Inr raw))"

subsection \<open>Names\<close>

definition host_name :: "string \<Rightarrow> bool" where
  "host_name s = (case s of [] \<Rightarrow> False
     | c # cs \<Rightarrow> (is_lower c \<or> is_digit c) \<and> length cs \<le> 62 \<and> list_all (\<lambda>x. is_lower x \<or> is_digit x \<or> x = CHR ''-'') cs)"

definition account_name :: "string \<Rightarrow> bool" where
  "account_name s = (case s of [] \<Rightarrow> False
     | c # cs \<Rightarrow> (is_lower c \<or> c = CHR ''_'') \<and> length cs \<le> 31
         \<and> list_all (\<lambda>x. is_lower x \<or> is_digit x \<or> x = CHR ''_'' \<or> x = CHR ''-'') cs)"

definition item_char :: "char \<Rightarrow> bool" where
  "item_char c = (is_letter c \<or> is_digit c \<or> c = CHR ''.'' \<or> c = CHR ''_'' \<or> c = CHR ''-'')"

definition infrastructure_name :: "string \<Rightarrow> bool" where
  "infrastructure_name s = (case s of [] \<Rightarrow> False | c # cs \<Rightarrow> (is_letter c \<or> is_digit c) \<and> length cs \<le> 63 \<and> list_all item_char cs)"

definition release_number :: "string \<Rightarrow> bool" where "release_number s = ((length s = 1 \<or> length s = 2) \<and> list_all is_digit s)"

definition image_url :: "string \<Rightarrow> bool" where
  \<comment> \<open>a host, a slash and a path of plain characters: no credentials, no query\<close>
  "image_url s =
     (starts_with ''https://'' s \<and>
      (let rest = drop 8 s; h = before_char (CHR ''/'') rest; p = after_char (CHR ''/'') rest in
       CHR ''/'' \<in> set rest \<and> h \<noteq> [] \<and> list_all (\<lambda>c. is_letter c \<or> is_digit c \<or> c = CHR ''.'' \<or> c = CHR ''-'') h
       \<and> p \<noteq> [] \<and> list_all (\<lambda>c. item_char c \<or> c = CHR ''/'') p))"

definition expected_checksum :: "environment \<Rightarrow> val res" where
  \<comment> \<open>an empty value is none\<close>
  "expected_checksum env =
     (case env ''IMAGE_SHA256'' of None \<Rightarrow> Inr VNull
      | Some v \<Rightarrow> if \<not> truthy v then Inr VNull
          else rbind (needed (as_str v)) (\<lambda>s. rbind (must (hex_string 64 s)) (\<lambda>_. Inr (VStr s))))"

subsection \<open>The plan\<close>

record vm_plan =
  vp_vmid :: nat
  vp_name :: string
  vp_user :: string
  vp_memory :: nat
  vp_cores :: nat
  vp_disk :: nat
  vp_storage :: string
  vp_snippets :: string
  vp_bridge :: string
  vp_url :: string
  vp_file :: string
  vp_checksum :: val
  vp_snippet :: string
  vp_key_file :: string

definition build_plan :: "environment \<Rightarrow> vm_plan res" where
  "build_plan env =
     rbind (env_integer env ''VMID'' ''9200'' 100 999999999) (\<lambda>vmid.
     rbind (must (vmid \<noteq> 150)) (\<lambda>_.
     rbind (env_value env ''VMNAME'' ''pepeuch-ai'') (\<lambda>name.
     rbind (env_value env ''CI_USER'' ''pepeuch'') (\<lambda>user.
     rbind (must (host_name name \<and> account_name user)) (\<lambda>_.
     rbind (env_value env ''STORAGE'' ''local-lvm'') (\<lambda>storage.
     rbind (env_value env ''SNIPPET_STORAGE'' ''local'') (\<lambda>snippets.
     rbind (env_value env ''BRIDGE'' ''vmbr0'') (\<lambda>bridge.
     rbind (must (list_all infrastructure_name [storage, snippets, bridge])) (\<lambda>_.
     rbind (env_value env ''DEBIAN_RELEASE'' ''13'') (\<lambda>release.
     rbind (must (release_number release)) (\<lambda>_.
     rbind (env_value env ''IMAGE_URL'' ''https://cloud.debian.org/images/cloud/trixie/latest/debian-13-genericcloud-amd64.qcow2'') (\<lambda>url.
     rbind (must (image_url url)) (\<lambda>_.
     rbind (expected_checksum env) (\<lambda>checksum.
     rbind (env_path env ''SNIPPET_DIR'' ''/var/lib/vz/snippets'') (\<lambda>directory.
     rbind (env_integer env ''MEMORY_MB'' ''24576'' 1024 1048576) (\<lambda>memory.
     rbind (env_integer env ''CORES'' ''8'' 1 256) (\<lambda>cores.
     rbind (env_integer env ''DISK_GB'' ''80'' 8 4096) (\<lambda>disk.
     rbind (env_path env ''IMAGE_FILE'' (''/var/lib/vz/template/iso/debian-'' @ release @ ''-genericcloud-amd64.qcow2'')) (\<lambda>file.
     rbind (env_path env ''SSH_KEY_FILE'' ''/root/.ssh/authorized_keys'') (\<lambda>key_file.
     Inr \<lparr>vp_vmid = vmid, vp_name = name, vp_user = user, vp_memory = memory, vp_cores = cores, vp_disk = disk,
          vp_storage = storage, vp_snippets = snippets, vp_bridge = bridge, vp_url = url, vp_file = file,
          vp_checksum = checksum, vp_snippet = directory @ ''/'' @ name @ ''-user-data.yaml'', vp_key_file = key_file\<rparr>))))))))))))))))))))"

definition plan_value :: "vm_plan \<Rightarrow> val" where
  \<comment> \<open>the printed plan\<close>
  "plan_value p =
     VDict [(''schema'', VStr ''pepeuch.infrastructure/vm-plan/v1''), (''status'', VStr ''PARTIAL''), (''executed'', VBool False),
       (''vmid'', VInt (int (vp_vmid p))), (''name'', VStr (vp_name p)), (''protected_vmids'', VList [VInt 150]),
       (''ci_admin_user'', VStr (vp_user p)),
       (''resources'', VDict [(''memory_mb'', VInt (int (vp_memory p))), (''cores'', VInt (int (vp_cores p))), (''disk_gb'', VInt (int (vp_disk p)))]),
       (''storage'', VStr (vp_storage p)), (''snippet_storage'', VStr (vp_snippets p)), (''bridge'', VStr (vp_bridge p)),
       (''image'', VDict [(''url'', VStr (vp_url p)), (''file'', VStr (vp_file p)), (''sha256_expected'', vp_checksum p)]),
       (''snippet'', VStr (vp_snippet p)), (''public_key_file'', VStr (vp_key_file p)),
       (''effects_if_applied'', VList (map VStr [''new_vm_q35_ovmf'', ''cloud_image_import'', ''new_cloudinit_snippet'',
          ''cloudinit_admin_sudo_and_docker'', ''guest_packages_upgrade'', ''guest_docker_install'', ''guest_directories_and_sysctl''])),
       (''not_verified'', VList (map VStr [''hypervisor_access'', ''free_vmid_and_capacity'', ''storage_and_snippets_mapping'',
          ''image_and_guest_boot'', ''guest_network_and_cloudinit'', ''backup_and_restore''])),
       (''gpu_passthrough'', VBool False), (''starts_vm'', VBool False), (''automatic_rollback'', VBool False)]"

subsection \<open>Paths\<close>

record file_info =
  fi_directory :: bool
  fi_regular :: bool
  fi_uid :: nat
  fi_mode :: "16 word"

definition WRITABLE_BY_OTHERS :: "16 word" where "WRITABLE_BY_OTHERS = 18"
definition STICKY :: "16 word" where "STICKY = 512"

definition trusted_directory :: "nat \<Rightarrow> file_info \<Rightarrow> bool" where
  "trusted_directory euid i =
     (fi_directory i \<and> (fi_uid i = 0 \<or> fi_uid i = euid)
      \<and> \<not> (fi_mode i AND WRITABLE_BY_OTHERS \<noteq> 0 \<and> fi_mode i AND STICKY = 0))"

definition trusted_file :: "nat \<Rightarrow> file_info \<Rightarrow> bool" where
  "trusted_file euid i = (fi_regular i \<and> (fi_uid i = 0 \<or> fi_uid i = euid) \<and> fi_mode i AND WRITABLE_BY_OTHERS = 0)"

fun check_parents :: "nat \<Rightarrow> (string list \<Rightarrow> file_info option) \<Rightarrow> string list list \<Rightarrow> unit res" where
  \<comment> \<open>from the root, up to the first that does not exist\<close>
  "check_parents euid lstat [] = Inr ()"
| "check_parents euid lstat (p # ps) =
     (case lstat p of None \<Rightarrow> Inr ()
      | Some i \<Rightarrow> rbind (must (trusted_directory euid i)) (\<lambda>_. check_parents euid lstat ps))"

definition check_target :: "nat \<Rightarrow> (string list \<Rightarrow> file_info option) \<Rightarrow> string \<Rightarrow> unit res" where
  "check_target euid lstat path =
     (let parts = pure_parts path in
      rbind (check_parents euid lstat (map (\<lambda>n. take n parts) [0..<length parts])) (\<lambda>_.
      case lstat parts of None \<Rightarrow> Inr () | Some i \<Rightarrow> must (trusted_file euid i)))"

definition check_paths :: "nat \<Rightarrow> (string list \<Rightarrow> file_info option) \<Rightarrow> vm_plan \<Rightarrow> unit res" where
  "check_paths euid lstat p =
     rbind (check_target euid lstat (vp_file p)) (\<lambda>_. check_target euid lstat (vp_snippet p))"

subsection \<open>What an accepted plan is\<close>

lemma env_integer_bounds: "env_integer env name fallback low high = Inr n \<Longrightarrow> low \<le> n \<and> n \<le> high"
  by (auto simp: env_integer_def)

text \<open>The protected machine is never planned, and the resources are within their limits.\<close>

lemma plan_parts:
  assumes "build_plan env = Inr p"
  shows "env_integer env ''VMID'' ''9200'' 100 999999999 = Inr (vp_vmid p) \<and> vp_vmid p \<noteq> 150
    \<and> env_integer env ''MEMORY_MB'' ''24576'' 1024 1048576 = Inr (vp_memory p) \<and> env_integer env ''CORES'' ''8'' 1 256 = Inr (vp_cores p)
    \<and> env_integer env ''DISK_GB'' ''80'' 8 4096 = Inr (vp_disk p) \<and> host_name (vp_name p) \<and> account_name (vp_user p) \<and> image_url (vp_url p)"
  using assms unfolding build_plan_def rbind_Inr must_Inr by (elim exE conjE) (simp only: sum.inject, hypsubst, simp)

lemma plan_limits:
  assumes "build_plan env = Inr p"
  shows "vp_vmid p \<noteq> 150 \<and> 100 \<le> vp_vmid p \<and> vp_vmid p \<le> 999999999 \<and> 1024 \<le> vp_memory p \<and> vp_memory p \<le> 1048576
    \<and> 1 \<le> vp_cores p \<and> vp_cores p \<le> 256 \<and> 8 \<le> vp_disk p \<and> vp_disk p \<le> 4096"
  using plan_parts [OF assms] by (auto dest!: env_integer_bounds)

lemma canonical_path:
  "env_path env name fallback = Inr s \<Longrightarrow> pure_path s = s \<and> ''..'' \<notin> set (pure_parts s)"
  by (auto simp: env_path_def)

text \<open>A name that passes leaves the snippet below its directory.\<close>

lemma host_name_plain: "host_name s \<Longrightarrow> CHR ''/'' \<notin> set s \<and> s \<noteq> []"
  by (cases s) (auto simp: host_name_def list_all_iff is_lower_def is_digit_def ord_def)

end
