(* ===== verification/Profiled_Plans.thy ===== *)
theory Profiled_Plans
  imports Metadata
begin

section \<open>database/poc/isolated_bench_plans.py: validated execution plans\<close>

text \<open>
  The validators of the plans that the two engines return. The traversal of a plan passes the count of operators; its
  recursion is on the depth that is left, which the source bounds by 64. Durations are exact (the source multiplies
  doubles), and the Greek letter mu, which the model's characters do not hold, is only read as the micro sign.
\<close>

definition metric :: "val \<Rightarrow> val res" where
  \<comment> \<open>\<open>number\<close>; an integer beyond the doubles is an \<open>OverflowError\<close>\<close>
  "metric v = rbind (finite_number v) (\<lambda>x. rbind (needed x) (\<lambda>q. rbind (must (0 \<le> q)) (\<lambda>_. Inr v)))"

definition counter :: "val \<Rightarrow> int res" where
  \<comment> \<open>\<open>integer\<close>\<close>
  "counter v = rbind (needed (as_int v)) (\<lambda>i. rbind (must (0 \<le> i)) (\<lambda>_. Inr i))"

definition duration_unit :: "string \<Rightarrow> rat option" where
  "duration_unit u =
     (if u = ''ns'' then Some (1 / 1000000) else if u = ''us'' \<or> u = [CHR 0xB5, CHR ''s''] then Some (1 / 1000)
      else if u = ''ms'' then Some 1 else if u = ''s'' then Some 1000 else None)"

definition fraction_digits :: "string \<Rightarrow> rat" where
  "fraction_digits s = of_nat (nat_of_digits s) / 10 ^ length s"

definition duration_ms :: "val \<Rightarrow> rat res" where
  "duration_ms v =
     rbind (needed (as_str v)) (\<lambda>s.
     let whole = takeWhile is_digit s; rest = dropWhile is_digit s;
         dotted = (starts_with ''.'' rest \<and> takeWhile is_digit (tl rest) \<noteq> []);
         part = (if dotted then takeWhile is_digit (tl rest) else []);
         unit_name = (if dotted then dropWhile is_digit (tl rest) else rest) in
     rbind (must (whole \<noteq> [])) (\<lambda>_.
     rbind (needed (duration_unit unit_name)) (\<lambda>scale.
     let x = of_nat (nat_of_digits whole) + fraction_digits part in
     rbind (must (x < of_int FLOAT_LIMIT \<and> x * scale < of_int FLOAT_LIMIT)) (\<lambda>_. Inr (x * scale)))))"

fun visit_all :: "('a \<Rightarrow> nat \<Rightarrow> nat res) \<Rightarrow> 'a list \<Rightarrow> nat \<Rightarrow> nat res" where
  "visit_all f [] count = Inr count"
| "visit_all f (x # xs) count = rbind (f x count) (visit_all f xs)"

definition MAX_DEPTH :: nat where "MAX_DEPTH = 64"
definition MAX_OPERATORS :: nat where "MAX_OPERATORS = 10000"

definition field_or :: "dict \<Rightarrow> string \<Rightarrow> val \<Rightarrow> val" where
  "field_or d k fallback = (case map_of d k of Some v \<Rightarrow> v | None \<Rightarrow> fallback)"

subsection \<open>SurrealDB\<close>

definition operator_text :: "dict \<Rightarrow> string \<Rightarrow> bool" where
  "operator_text d k = (case get_or_none d k of VStr s \<Rightarrow> s \<noteq> [] \<and> length s \<le> 4096 | _ \<Rightarrow> False)"

definition expression_ok :: "val \<Rightarrow> bool" where
  "expression_ok v =
     (case v of
        VDict e \<Rightarrow> {''role'', ''sql''} \<subseteq> set (keys e) \<and> as_str (get_or_none e ''role'') \<noteq> None \<and> as_str (get_or_none e ''sql'') \<noteq> None
      | _ \<Rightarrow> False)"

definition METRICS :: "string list" where "METRICS = [''elapsed_ns'', ''output_batches'', ''output_rows'', ''records_fetched'']"

definition check_operator :: "dict \<Rightarrow> unit res" where
  "check_operator d =
     rbind (must ({''operator'', ''context'', ''metrics''} \<subseteq> set (keys d))) (\<lambda>_.
     rbind (must (operator_text d ''operator'' \<and> operator_text d ''context'')) (\<lambda>_.
     rbind (needed (as_dict (get_or_none d ''metrics''))) (\<lambda>metrics.
     rbind (must (set METRICS \<subseteq> set (keys metrics))) (\<lambda>_.
     rbind (collect (\<lambda>k. counter (get_or_none metrics k)) METRICS) (\<lambda>_.
     rbind (must (''attributes'' \<notin> set (keys d) \<or> as_dict (get_or_none d ''attributes'') \<noteq> None)) (\<lambda>_.
     must (''expressions'' \<notin> set (keys d)
           \<or> (case as_list (get_or_none d ''expressions'') of Some es \<Rightarrow> list_all expression_ok es | None \<Rightarrow> False))))))))"

primrec surreal_node :: "nat \<Rightarrow> val \<Rightarrow> nat \<Rightarrow> nat res" where
  "surreal_node 0 = (\<lambda>v count. invalid)"
| "surreal_node (Suc left) = (\<lambda>v count.
     rbind (must (Suc count \<le> MAX_OPERATORS)) (\<lambda>_.
     rbind (needed (as_dict v)) (\<lambda>d.
     rbind (check_operator d) (\<lambda>_.
     rbind (needed (as_list (field_or d ''children'' (VList [])))) (\<lambda>children.
     visit_all (surreal_node left) children (Suc count))))))"

definition surreal_plan :: "val \<Rightarrow> val \<Rightarrow> dict res" where
  "surreal_plan response rows0 =
     rbind (counter rows0) (\<lambda>rows.
     rbind (needed (as_list response)) (\<lambda>envelopes.
     rbind (must (length envelopes = 1)) (\<lambda>_.
     rbind (needed (as_dict (hd envelopes))) (\<lambda>envelope.
     rbind (must ({''result'', ''status'', ''time'', ''type''} \<subseteq> set (keys envelope) \<and> get_or_none envelope ''status'' = VStr ''OK'')) (\<lambda>_.
     rbind (duration_ms (get_or_none envelope ''time'')) (\<lambda>server_ms.
     rbind (needed (as_dict (get_or_none envelope ''result''))) (\<lambda>top.
     rbind (counter (get_or_none top ''total_rows'')) (\<lambda>total.
     rbind (must (total = rows)) (\<lambda>_.
     rbind (surreal_node (Suc MAX_DEPTH) (VDict top) 0) (\<lambda>count.
     Inr [(''format'', VStr ''pepeuch-ai.surreal-explain-334/v1''), (''validated'', VBool True),
          (''scope'', VStr ''separate_profiled_execution''), (''envelope_server_time_raw'', get_or_none envelope ''time''),
          (''envelope_server_time_ms'', VFloat (Fin server_ms)), (''operator_count'', VInt (int count)),
          (''root_operator_elapsed_ns'', case as_dict (get_or_none top ''metrics'') of Some m \<Rightarrow> get_or_none m ''elapsed_ns'' | None \<Rightarrow> VNull),
          (''total_rows'', VInt rows), (''operator_times_aggregated'', VBool False), (''response'', response)]))))))))))"

subsection \<open>PostgreSQL\<close>

primrec postgres_node :: "nat \<Rightarrow> val \<Rightarrow> nat \<Rightarrow> nat res" where
  "postgres_node 0 = (\<lambda>v count. invalid)"
| "postgres_node (Suc left) = (\<lambda>v count.
     rbind (must (Suc count \<le> MAX_OPERATORS)) (\<lambda>_.
     rbind (needed (as_dict v)) (\<lambda>d.
     rbind (must (case get_or_none d ''Node Type'' of VStr s \<Rightarrow> s \<noteq> [] | _ \<Rightarrow> False)) (\<lambda>_.
     rbind (metric (get_or_none d ''Actual Total Time'')) (\<lambda>_.
     rbind (counter (get_or_none d ''Actual Rows'')) (\<lambda>_.
     rbind (needed (as_list (field_or d ''Plans'' (VList [])))) (\<lambda>children.
     visit_all (postgres_node left) children (Suc count))))))))"

definition postgres_plan :: "val \<Rightarrow> val \<Rightarrow> dict res" where
  "postgres_plan response rows0 =
     rbind (needed (as_list response)) (\<lambda>plans.
     rbind (must (length plans = 1)) (\<lambda>_.
     rbind (needed (as_dict (hd plans))) (\<lambda>result.
     rbind (metric (get_or_none result ''Planning Time'')) (\<lambda>planning.
     rbind (metric (get_or_none result ''Execution Time'')) (\<lambda>execution.
     rbind (postgres_node (Suc MAX_DEPTH) (get_or_none result ''Plan'') 0) (\<lambda>count.
     rbind (needed (as_dict (get_or_none result ''Plan''))) (\<lambda>top.
     rbind (counter rows0) (\<lambda>rows.
     rbind (must (get_or_none top ''Actual Rows'' = VInt rows)) (\<lambda>_.
     Inr [(''format'', VStr ''pepeuch-ai.postgresql-explain/v1''), (''validated'', VBool True),
          (''scope'', VStr ''separate_profiled_execution''), (''planning_time_ms'', planning), (''execution_time_ms'', execution),
          (''operator_count'', VInt (int count)), (''operator_times_aggregated'', VBool False), (''response'', response)])))))))))"

subsection \<open>The count\<close>

text \<open>
  Every visited operator is counted, and an accepted plan has at least one and at most the limit.
\<close>

lemma visit_all_count:
  "visit_all f xs count = Inr n \<Longrightarrow> (\<And>x c m. x \<in> set xs \<Longrightarrow> f x c = Inr m \<Longrightarrow> c < m \<and> m \<le> MAX_OPERATORS) \<Longrightarrow>
   count \<le> MAX_OPERATORS \<Longrightarrow> count + length xs \<le> n \<and> n \<le> MAX_OPERATORS"
proof (induction xs arbitrary: count)
  case (Cons x xs)
  then obtain m where m: "f x count = Inr m" "visit_all f xs m = Inr n" by auto
  have "count < m \<and> m \<le> MAX_OPERATORS" by (rule Cons.prems(2) [OF list.set_intros(1) m(1)])
  with Cons.IH [OF m(2)] Cons.prems(2) show ?case by fastforce
qed simp

lemma surreal_count: "surreal_node left v count = Inr n \<Longrightarrow> count < n \<and> n \<le> MAX_OPERATORS"
proof (induction left arbitrary: v count n)
  case (Suc left)
  then obtain children where "Suc count \<le> MAX_OPERATORS" "visit_all (surreal_node left) children (Suc count) = Inr n" by auto
  with visit_all_count [of "surreal_node left" children "Suc count" n] Suc.IH show ?case by fastforce
qed simp

lemma postgres_count: "postgres_node left v count = Inr n \<Longrightarrow> count < n \<and> n \<le> MAX_OPERATORS"
proof (induction left arbitrary: v count n)
  case (Suc left)
  then obtain children where "Suc count \<le> MAX_OPERATORS" "visit_all (postgres_node left) children (Suc count) = Inr n" by auto
  with visit_all_count [of "postgres_node left" children "Suc count" n] Suc.IH show ?case by fastforce
qed simp

end
