(* ===== verification/Measurements.thy ===== *)
theory Measurements
  imports Snapshots
begin

section \<open>database/poc/comparison_workload.py: the acceptance of measured reports\<close>

text \<open>
  The corpus file, the validation of a report against it and the comparison of two reports. Two results are equal when
  their JSON texts are, which are those of \<open>canon\<close> up to white space and escapes. A quantile is a position computed from
  an exact fraction; for the up to 10000 samples of a query the rounding of the source's product of doubles does not
  change it.
\<close>

definition CORPUS_FORMAT :: string where "CORPUS_FORMAT = ''pepeuch-ai.db-comparison-corpus/v1''"

definition load_workload :: "hashing \<Rightarrow> (string \<Rightarrow> val option) \<Rightarrow> string option \<Rightarrow> (dict \<times> string) res" where
  "load_workload h loads content =
     rbind (present content ''OSError'') (\<lambda>raw.
     rbind (must (length raw \<le> 1000000)) (\<lambda>_.
     rbind (strict_json_loads loads raw) (\<lambda>v.
     rbind (needed (as_dict v)) (\<lambda>d.
     rbind (must (get_or_none d ''format'' = VStr CORPUS_FORMAT \<and> get_or_none d ''data_kind'' = VStr ''synthetic'')) (\<lambda>_.
     Inr (d, hs_sha h raw))))))"

definition REPORT_KEYS :: "string list" where
  "REPORT_KEYS = [''format'', ''engine'', ''version'', ''image_digest'', ''corpus_sha256'', ''timing_scope'', ''resources'',
     ''indexes'', ''queries'', ''import_update'', ''backup_restore'']"

definition filled :: "val \<Rightarrow> bool" where "filled v = (case v of VStr s \<Rightarrow> s \<noteq> [] | _ \<Rightarrow> False)"

definition image_digest :: "val \<Rightarrow> bool" where
  "image_digest v = (case v of VStr s \<Rightarrow> starts_with ''sha256:'' s \<and> hex_string 64 (drop 7 s) | _ \<Rightarrow> False)"

definition unhashable :: "val \<Rightarrow> bool" where "unhashable v = (as_list v \<noteq> None \<or> as_dict v \<noteq> None)"

definition member_of :: "val \<Rightarrow> string list \<Rightarrow> bool res" where
  \<comment> \<open>membership in a set: a list or an object is a \<open>TypeError\<close>\<close>
  "member_of v xs = (if unhashable v then Inl (Raised ''TypeError'') else Inr (v \<in> VStr ` set xs))"

definition metric_value :: "val \<Rightarrow> rat res" where
  \<comment> \<open>\<open>number\<close>: \<open>math.isfinite\<close> of an integer beyond the doubles is an \<open>OverflowError\<close>\<close>
  "metric_value v = rbind (finite_number v) (\<lambda>x. rbind (needed x) (\<lambda>q. rbind (must (0 \<le> q)) (\<lambda>_. Inr q)))"

definition engine_identity :: "dict \<Rightarrow> string \<Rightarrow> unit res" where
  "engine_identity r fingerprint =
     rbind (must (get_or_none r ''format'' = VStr ''pepeuch-ai.db-comparison-measurement/v1'')) (\<lambda>_.
     rbind (member_of (get_or_none r ''engine'') [''postgresql'', ''surrealdb'']) (\<lambda>known.
     rbind (must (known \<and> get_or_none r ''corpus_sha256'' = VStr fingerprint)) (\<lambda>_.
     rbind (member_of (get_or_none r ''timing_scope'') [''engine'', ''persistent_client'']) (\<lambda>scoped.
     must (scoped \<and> filled (get_or_none r ''version'') \<and> image_digest (get_or_none r ''image_digest''))))))"

definition RESOURCE_KEYS :: "string list" where
  "RESOURCE_KEYS = [''cpu_limit'', ''memory_limit_bytes'', ''peak_rss_bytes'', ''cpu_seconds'']"

definition check_resources :: "val \<Rightarrow> unit res" where
  "check_resources v =
     rbind (needed (as_dict v)) (\<lambda>d.
     rbind (must (exact_keys d RESOURCE_KEYS)) (\<lambda>_.
     rbind (collect (\<lambda>(k, x). metric_value x) d) (\<lambda>_.
     rbind (metric_value (get_or_none d ''cpu_limit'')) (\<lambda>cpu.
     rbind (metric_value (get_or_none d ''memory_limit_bytes'')) (\<lambda>memory.
     rbind (metric_value (get_or_none d ''peak_rss_bytes'')) (\<lambda>peak.
     rbind (must (0 < cpu \<and> 0 < memory)) (\<lambda>_. must (peak \<le> memory))))))))"

definition same_text :: "hashing \<Rightarrow> val \<Rightarrow> val \<Rightarrow> bool res" where
  "same_text h a b = rbind (canonical_json h a) (\<lambda>s. rbind (canonical_json h b) (\<lambda>t. Inr (s = t)))"

definition check_query :: "hashing \<Rightarrow> dict \<Rightarrow> string \<times> val \<Rightarrow> unit res" where
  "check_query h queries = (\<lambda>(name, wanted).
     rbind (needed (as_dict (get_or_none queries name))) (\<lambda>m.
     rbind (must (exact_keys m [''result'', ''samples_ms'', ''plan'', ''cache_state''])) (\<lambda>_.
     rbind (same_text h (get_or_none m ''result'') wanted) (\<lambda>same.
     rbind (must same) (\<lambda>_.
     rbind (needed (as_list (get_or_none m ''samples_ms''))) (\<lambda>samples.
     rbind (must (10 \<le> length samples \<and> length samples \<le> 10000)) (\<lambda>_.
     rbind (collect metric_value samples) (\<lambda>_.
     rbind (must (filled (get_or_none m ''plan''))) (\<lambda>_.
     rbind (member_of (get_or_none m ''cache_state'') [''cold'', ''warm'']) must)))))))))"

definition check_evidence :: "dict \<Rightarrow> string \<Rightarrow> unit res" where
  "check_evidence r name =
     rbind (needed (as_dict (get_or_none r name))) (\<lambda>d.
     rbind (must (exact_keys d [''verified'', ''evidence''])) (\<lambda>_.
     must (get_or_none d ''verified'' = VBool True \<and> filled (get_or_none d ''evidence''))))"

definition validate_measurement :: "hashing \<Rightarrow> dict \<times> string \<Rightarrow> val \<Rightarrow> dict res" where
  "validate_measurement h corpus report =
     rbind (needed (as_dict report)) (\<lambda>r.
     rbind (must (exact_keys r REPORT_KEYS)) (\<lambda>_.
     rbind (engine_identity r (snd corpus)) (\<lambda>_.
     rbind (check_resources (get_or_none r ''resources'')) (\<lambda>_.
     rbind (needed (as_list (get_or_none r ''indexes''))) (\<lambda>indexes.
     rbind (must (list_all filled indexes)) (\<lambda>_.
     rbind (needed (as_dict (get_or_none r ''queries''))) (\<lambda>queries.
     rbind (item (fst corpus) ''expected'') (\<lambda>expected0.
     rbind (present (as_dict expected0) ''TypeError'') (\<lambda>wanted.
     rbind (must (set (keys queries) = set (keys wanted))) (\<lambda>_.
     rbind (collect (check_query h queries) wanted) (\<lambda>_.
     rbind (collect (check_evidence r) [''import_update'', ''backup_restore'']) (\<lambda>_. Inr r))))))))))))"

subsection \<open>Comparing two reports\<close>

definition dict_field :: "dict \<Rightarrow> string \<Rightarrow> dict" where
  "dict_field d k = (case get_or_none d k of VDict e \<Rightarrow> e | _ \<Rightarrow> [])"

definition matched_profiles :: "dict \<Rightarrow> dict \<Rightarrow> bool" where
  "matched_profiles a b =
     (get_or_none a ''engine'' \<noteq> get_or_none b ''engine'' \<and> get_or_none a ''timing_scope'' = get_or_none b ''timing_scope''
      \<and> list_all (\<lambda>k. py_eq (get_or_none (dict_field a ''resources'') k) (get_or_none (dict_field b ''resources'') k))
          [''cpu_limit'', ''memory_limit_bytes'']
      \<and> list_all (\<lambda>q. get_or_none (dict_field (dict_field a ''queries'') q) ''cache_state''
                     = get_or_none (dict_field (dict_field b ''queries'') q) ''cache_state'') (keys (dict_field a ''queries'')))"

definition sample_value :: "val \<Rightarrow> rat" where
  "sample_value v = (case metric_value v of Inr q \<Rightarrow> q | Inl _ \<Rightarrow> 0)"

definition percentile :: "val list \<Rightarrow> rat \<Rightarrow> val" where
  "percentile samples fraction =
     sort_key sample_value samples ! nat (max 0 (\<lceil>of_nat (length samples) * fraction\<rceil> - 1))"

definition query_summary :: "val \<Rightarrow> val" where
  "query_summary q =
     (let samples = (case as_dict q of Some d \<Rightarrow> (case get_or_none d ''samples_ms'' of VList xs \<Rightarrow> xs | _ \<Rightarrow> []) | None \<Rightarrow> []) in
      VDict [(''p50_ms'', percentile samples (1 / 2)), (''p95_ms'', percentile samples (19 / 20))])"

definition engine_summary :: "dict \<Rightarrow> string \<times> val" where
  "engine_summary r =
     ((case get_or_none r ''engine'' of VStr s \<Rightarrow> s | _ \<Rightarrow> []),
      VDict (map (\<lambda>(k, q). (k, query_summary q)) (dict_field r ''queries'')))"

definition comparison_summary :: "hashing \<Rightarrow> dict \<times> string \<Rightarrow> val \<Rightarrow> val \<Rightarrow> dict res" where
  \<comment> \<open>\<open>comparison\<close>\<close>
  "comparison_summary h corpus left right =
     rbind (validate_measurement h corpus left) (\<lambda>a.
     rbind (validate_measurement h corpus right) (\<lambda>b.
     rbind (must (matched_profiles a b)) (\<lambda>_.
     Inr [(''format'', VStr ''pepeuch-ai.db-comparison-summary/v1''), (''data_kind'', VStr ''synthetic''),
          (''measurement_origin'', VStr ''operator_supplied_not_attested''), (''corpus_sha256'', get_or_none a ''corpus_sha256''),
          (''decision'', VStr ''requires_review''), (''engines'', VDict (map engine_summary [a, b]))])))"

subsection \<open>Quantiles\<close>

text \<open>The position is always within the samples, so the median and the 95th percentile are measured samples.\<close>

lemma percentile_is_sample:
  assumes "samples \<noteq> []" "0 \<le> q" "q \<le> 1"
  shows "percentile samples q \<in> set samples"
proof -
  let ?n = "length samples"
  have "\<lceil>of_nat ?n * q\<rceil> \<le> int ?n"
  proof -
    have "of_nat ?n * q \<le> (of_nat ?n :: rat)" using assms(2,3) by (simp add: mult_left_le)
    then show ?thesis by (simp add: ceiling_le_iff)
  qed
  then have "nat (max 0 (\<lceil>of_nat ?n * q\<rceil> - 1)) < ?n" using assms(1) by (cases samples) auto
  then show ?thesis unfolding percentile_def by (metis length_sort nth_mem set_sort)
qed

text \<open>An integer of more than 308 digits ends the validation with an exception that the command line does not catch.\<close>

lemma metric_overflow: "FLOAT_LIMIT \<le> \<bar>i\<bar> \<Longrightarrow> metric_value (VInt i) = Inl (Raised ''OverflowError'')"
  by (simp add: metric_value_def finite_number_def)

lemma compared_engines_differ:
  assumes "comparison_summary h corpus left right = Inr s"
  shows "\<exists>a b. left = VDict a \<and> right = VDict b \<and> get_or_none a ''engine'' \<noteq> get_or_none b ''engine''
    \<and> get_or_none a ''corpus_sha256'' = VStr (snd corpus) \<and> get_or_none b ''corpus_sha256'' = VStr (snd corpus)"
proof -
  obtain a b where v: "validate_measurement h corpus left = Inr a" "validate_measurement h corpus right = Inr b" "matched_profiles a b"
    using assms unfolding comparison_summary_def rbind_Inr must_Inr by blast
  have known: "w = VDict d \<and> get_or_none d ''corpus_sha256'' = VStr (snd corpus)" if "validate_measurement h corpus w = Inr d" for w d
    using that unfolding validate_measurement_def rbind_Inr must_Inr needed_Inr engine_identity_def
    by (elim exE conjE) (simp del: get_or_none_eq)
  show ?thesis using known [OF v(1)] known [OF v(2)] v(3) unfolding matched_profiles_def by blast
qed

end
