(* ===== verification/Models_Import.thy ===== *)
theory Models_Import
  imports Models_Dev Import_Emission
begin

section \<open>database/poc/import_models_dev.py and import_models_dev_surreal.py: SQL of a models.dev checkout\<close>

text \<open>
  The two imports of the rows of a checkout. The checkout is that of \<open>Models_Dev\<close>; its commit, which git tells, is a
  parameter, and so are SHA-256 and the JSON parser that reads the printed metadata back. A float that is not finite, which
  the source prints as it is into the row and refuses only in the second import, is refused by \<open>make_row\<close> in both here.
\<close>

definition SOURCE_NAME :: string where "SOURCE_NAME = ''models.dev''"

definition COPY_COLUMNS :: "string list" where
  "COPY_COLUMNS = [''source'', ''source_commit'', ''source_path'', ''model_id'', ''display_name'', ''family'', ''open_weights'',
     ''context_tokens'', ''tools_supported'', ''weights_count'', ''benchmarks_count'', ''raw_metadata'']"

definition row_texts :: "model_row \<Rightarrow> string list" where
  \<comment> \<open>the values of a row as the writer prints them\<close>
  "row_texts r =
     [SOURCE_NAME, mr_commit r, mr_path r, mr_model r, mr_name r, mr_family r, mr_open r,
      (case mr_context r of None \<Rightarrow> [] | Some i \<Rightarrow> int_str i), mr_tools r, int_str (int (mr_weights r)),
      int_str (int (mr_benchmarks r)), mr_metadata r]"

definition selected_files :: "nat \<Rightarrow> toml_file list \<Rightarrow> toml_file list" where
  "selected_files limit files = (if limit = 0 then files else take limit files)"

definition model_rows :: "(rat \<Rightarrow> string) \<Rightarrow> (val \<Rightarrow> string) \<Rightarrow> string \<Rightarrow> nat \<Rightarrow> toml_file list \<Rightarrow> model_row list res" where
  "model_rows frepr py_str commit limit files =
     rbind (must (selected_files limit files \<noteq> [])) (\<lambda>_. collect (make_row frepr py_str commit) (selected_files limit files))"

subsection \<open>PostgreSQL\<close>

definition copy_columns :: string where "copy_columns = join_with '', '' COPY_COLUMNS"

definition copy_prologue :: string where
  "copy_prologue = lines_text
     [''BEGIN;'', ''CREATE TEMP TABLE _models_dev_stage (LIKE poc.external_models INCLUDING DEFAULTS) ON COMMIT DROP;'',
      ''COPY _models_dev_stage ('' @ copy_columns @ '') FROM STDIN WITH (FORMAT csv, HEADER true);'']"

definition copy_upsert :: string where
  "copy_upsert = lines_text
     [''INSERT INTO poc.external_models ('' @ copy_columns @ '')'', ''SELECT '' @ copy_columns @ '' FROM _models_dev_stage WHERE true'',
      ''ON CONFLICT (source, source_commit, source_path) DO UPDATE SET'', ''    model_id = EXCLUDED.model_id,'',
      ''    display_name = EXCLUDED.display_name,'', ''    family = EXCLUDED.family,'', ''    open_weights = EXCLUDED.open_weights,'',
      ''    context_tokens = EXCLUDED.context_tokens,'', ''    tools_supported = EXCLUDED.tools_supported,'',
      ''    weights_count = EXCLUDED.weights_count,'', ''    benchmarks_count = EXCLUDED.benchmarks_count,'',
      ''    raw_metadata = EXCLUDED.raw_metadata,'', ''    imported_at = now();'', ''COMMIT;'']"

definition emit_copy :: "model_row list \<Rightarrow> string" where
  "emit_copy rows =
     copy_prologue @ concat (map csv_row (COPY_COLUMNS # map row_texts rows)) @ END_OF_COPY @ LF @ copy_upsert"

subsection \<open>SurrealDB\<close>

definition nullable_bool :: "string \<Rightarrow> val res" where
  "nullable_bool s =
     (if s = ''true'' then Inr (VBool True) else if s = ''false'' then Inr (VBool False) else if s = [] then Inr VNull else invalid)"

definition surreal_dict :: "(string \<Rightarrow> val option) \<Rightarrow> model_row \<Rightarrow> dict res" where
  \<comment> \<open>\<open>make_record\<close>\<close>
  "surreal_dict loads r =
     rbind (nullable_bool (mr_open r)) (\<lambda>opened.
     rbind (nullable_bool (mr_tools r)) (\<lambda>tools.
     rbind (present (loads (mr_metadata r)) ''JSONDecodeError'') (\<lambda>raw.
     Inr [(''source'', VStr SOURCE_NAME), (''source_commit'', VStr (mr_commit r)), (''source_path'', VStr (mr_path r)),
          (''model_id'', VStr (mr_model r)), (''display_name'', VStr (mr_name r)), (''family'', VStr (mr_family r)),
          (''open_weights'', opened), (''context_tokens'', opt_int (mr_context r)), (''tools_supported'', tools),
          (''weights_count'', VInt (int (mr_weights r))), (''benchmarks_count'', VInt (int (mr_benchmarks r))), (''raw_metadata'', raw)])))"

definition record_identifier :: "hashing \<Rightarrow> model_row \<Rightarrow> string" where
  "record_identifier h r =
     ''m_'' @ hs_sha h (utf8 (join_with [CHR 0x00] [SOURCE_NAME, mr_commit r, mr_path r]))"

definition surreal_statement :: "hashing \<Rightarrow> string \<times> dict \<Rightarrow> string res" where
  "surreal_statement h = (\<lambda>(i, d).
     rbind (canonical_json h (VDict d)) (\<lambda>payload.
     Inr (''UPSERT external_models:'' @ i @ '' CONTENT '' @ payload @ '' RETURN NONE;'' @ LF)))"

definition emit_surql :: "hashing \<Rightarrow> (string \<times> dict) list \<Rightarrow> string res" where
  "emit_surql h records =
     rbind (collect (surreal_statement h) records) (\<lambda>ss.
     Inr (lines_text [''OPTION IMPORT;'', ''-- models.dev pinned snapshot; safe to import repeatedly.'',
            ''-- Every record has an ID derived from source, commit and path.''] @ concat ss))"

definition surreal_records :: "hashing \<Rightarrow> (string \<Rightarrow> val option) \<Rightarrow> model_row list \<Rightarrow> (string \<times> dict) list res" where
  "surreal_records h loads rows =
     rbind (collect (surreal_dict loads) rows) (\<lambda>ds.
     let ids = map (record_identifier h) rows in
     rbind (must (distinct ids)) (\<lambda>_. Inr (zip ids ds)))"

subsection \<open>Rows\<close>

text \<open>
  The flags that \<open>make_row\<close> prints are those that the import to SurrealDB reads, so a record is refused only where the
  printed metadata cannot be read back.
\<close>

lemma printed_flag: "nullable_bool (bool_csv b) = Inr (case b of None \<Rightarrow> VNull | Some x \<Rightarrow> VBool x)"
  by (simp add: nullable_bool_def bool_csv_def split: option.split)

lemma row_record:
  assumes "make_row frepr py_str commit f = Inr r"
  shows "mr_commit r = commit" "\<exists>d. loads (mr_metadata r) = Some d \<Longrightarrow> \<not> isl (surreal_dict loads r)"
proof -
  obtain b c where "mr_open r = bool_csv b" "mr_tools r = bool_csv c" "mr_commit r = commit"
    using assms by (auto simp: make_row_def Let_def)
  then show "mr_commit r = commit" "\<exists>d. loads (mr_metadata r) = Some d \<Longrightarrow> \<not> isl (surreal_dict loads r)"
    by (auto simp: surreal_dict_def printed_flag present_def)
qed

text \<open>Imported identifiers are those of the rows, without repetition.\<close>

lemma surreal_records_keys:
  assumes "surreal_records h loads rows = Inr records"
  shows "map fst records = map (record_identifier h) rows" "distinct (map fst records)"
proof -
  obtain ds where ds: "collect (surreal_dict loads) rows = Inr ds" "records = zip (map (record_identifier h) rows) ds"
    "distinct (map (record_identifier h) rows)" using assms by (auto simp: surreal_records_def Let_def)
  then have "length ds = length rows" by (simp add: collect_Inr_length)
  with ds show "map fst records = map (record_identifier h) rows" "distinct (map fst records)" by simp_all
qed

end
