(* ===== verification/Fixture_Tasks.thy ===== *)
theory Fixture_Tasks
  imports Fixture_Registry Manual_Run
begin

section \<open>database/poc/manual_discovery_run.py: tasks over local fixtures\<close>

text \<open>
  \<open>fixture_tasks\<close>: one task for each source, whose operation asks for every resource of the fixture's snapshot, without
  any input, and answers with the snapshot. The manifest is given as bytes, the other files by \<open>Fixture_Registry\<close>.
\<close>

fun fixture_operation :: "resource_ref list \<Rightarrow> dict \<Rightarrow> 'e operation" where
  "fixture_operation [] snapshot = Answered (Observed (VDict snapshot) (VBool True))"
| "fixture_operation (r # rs) snapshot =
     Request r (\<lambda>remaining e. (Inr VNull, e))
       (\<lambda>answer. case answer of Inl x \<Rightarrow> Answered (Threw x) | Inr v \<Rightarrow> fixture_operation rs snapshot)"

definition fixture_refs :: "string \<Rightarrow> dict \<Rightarrow> resource_ref list res" where
  "fixture_refs source snapshot = collect (\<lambda>r. make_ref source (get_or_none r ''source_id'')) (record_dicts snapshot)"

definition fixture_task ::
  "hashing \<Rightarrow> clock_reader \<Rightarrow> string \<Rightarrow> fixture_files \<Rightarrow> string option \<Rightarrow> string \<Rightarrow> 'e source_task res" where
  "fixture_task h clk now fx manifest source =
     rbind (discover_fixtures h clk now fx manifest (Some [source]) VNull) (\<lambda>snapshot.
     rbind (fixture_refs source snapshot) (\<lambda>refs.
     rbind (make_policy (VInt (int (length refs))) (VInt 1) (VInt 10) (VInt 0) (VInt 0) refs [] (VBool False)) (\<lambda>policy.
     rbind (needed (as_dict (get_or_none (dict_at snapshot ''scope'') source))) (\<lambda>selection.
     make_task \<lparr>tk_source = source, tk_selection = selection, tk_resources = refs, tk_policy = policy,
                tk_operation = (\<lambda>e. fixture_operation refs snapshot), tk_idempotent = True, tk_synthetic = True\<rparr>))))"

definition fixture_tasks ::
  "hashing \<Rightarrow> clock_reader \<Rightarrow> string \<Rightarrow> fixture_files \<Rightarrow> string option \<Rightarrow> string list \<Rightarrow> 'e source_task list res" where
  "fixture_tasks h clk now fx manifest sources =
     rbind (must (sources \<noteq> [] \<and> distinct sources \<and> set sources \<subseteq> ss_source ` set SOURCES)) (\<lambda>_.
     collect (fixture_task h clk now fx manifest) sources)"

lemma fixture_task_facts:
  assumes "fixture_task h clk now fx manifest source = Inr t"
  shows "tk_source t = source \<and> tk_synthetic t \<and> tk_idempotent t
    \<and> pl_max_requests (tk_policy t) = int (length (tk_resources t)) \<and> set (pl_resources (tk_policy t)) = set (tk_resources t)"
  using assms by (auto simp: fixture_task_def make_task_def make_policy_def)

text \<open>The tasks are a plan that a run accepts: one for each source, each resource authorised.\<close>

lemma fixture_tasks_planned:
  assumes "fixture_tasks h clk now fx manifest sources = Inr ts"
  shows "map tk_source ts = sources \<and> distinct (map tk_source ts)
    \<and> list_all (\<lambda>t. tk_synthetic t \<and> set (tk_resources t) \<subseteq> set (pl_resources (tk_policy t))) ts"
proof -
  have c: "collect (fixture_task h clk now fx manifest) sources = Inr ts" and d: "distinct sources"
    using assms by (auto simp: fixture_tasks_def)
  have len: "length ts = length sources" using collect_Inr_length [OF c] .
  have each: "tk_source (ts ! i) = sources ! i \<and> tk_synthetic (ts ! i)
      \<and> set (tk_resources (ts ! i)) \<subseteq> set (pl_resources (tk_policy (ts ! i)))" if "i < length sources" for i
    using fixture_task_facts [OF collect_Inr_nth [OF c that]] by simp
  then have "map tk_source ts = sources" using len by (simp add: list_eq_iff_nth_eq)
  with d each len show ?thesis by (simp add: list_all_length)
qed

end
