(* ===== verification/Screening.thy ===== *)
theory Screening
  imports Source_Adapters
begin

section \<open>The screening of a profile is monotone\<close>

text \<open>
  The ways in which a profile may target a GPU, ordered from the strongest evidence to none, and what the screening of
  \<open>source_adapters.py\<close> does when the hardware or the evidence grows. Nothing here is a runtime verification.
\<close>

instantiation targeting :: linorder
begin

primrec weight :: "targeting \<Rightarrow> nat" where
  "weight Direct = 0" | "weight Tested = 1" | "weight Gpu_Agnostic = 2" | "weight Other_Gpu = 3"

definition less_eq_targeting :: "targeting \<Rightarrow> targeting \<Rightarrow> bool" where "less_eq_targeting a b = (weight a \<le> weight b)"
definition less_targeting :: "targeting \<Rightarrow> targeting \<Rightarrow> bool" where "less_targeting a b = (weight a < weight b)"

instance
proof
  fix a b :: targeting
  show "a < b \<longleftrightarrow> a \<le> b \<and> \<not> b \<le> a" by (auto simp: less_eq_targeting_def less_targeting_def)
  show "a \<le> a" by (simp add: less_eq_targeting_def)
  show "a \<le> b \<or> b \<le> a" by (auto simp: less_eq_targeting_def)
  show "a \<le> b \<Longrightarrow> b \<le> a \<Longrightarrow> a = b" by (cases a; cases b) (simp_all add: less_eq_targeting_def)
next
  fix a b c :: targeting
  show "a \<le> b \<Longrightarrow> b \<le> c \<Longrightarrow> a \<le> c" by (simp add: less_eq_targeting_def)
qed

end

lemmas targeting_order = less_eq_targeting_def less_targeting_def

text \<open>More tested devices never weaken a match.\<close>

lemma tested_devices_strengthen:
  "set (np_tested p) \<subseteq> set ds \<Longrightarrow> target_match (p\<lparr>np_tested := ds\<rparr>) target \<le> target_match p target"
  by (auto simp: target_match_def targeting_order)

text \<open>A direct match is the least element, and no match the greatest.\<close>

lemma direct_is_strongest: "target_match p target \<le> Direct \<longleftrightarrow> target \<in> set (or_empty (np_device p))"
  by (simp add: target_match_def targeting_order)

lemma unmatched_is_blocked: "Other_Gpu \<le> target_match p target \<longleftrightarrow> ''target_gpu_not_listed'' \<in> set (blocking_reasons p target vram count)"
  by (cases "target_match p target") (simp_all add: targeting_order blocking_reasons_def split: option.split)

text \<open>More memory and more GPUs never add a reason to exclude a profile.\<close>

lemma hardware_monotone:
  assumes "vram \<le> vram'" "count \<le> count'"
  shows "set (blocking_reasons p target vram' count') \<subseteq> set (blocking_reasons p target vram count)"
proof -
  have "count' < required_gpus p \<Longrightarrow> count < required_gpus p" using assms(2) by simp
  moreover have "vram' < f \<Longrightarrow> vram < f" for f using assms(1) by simp
  ultimately show ?thesis
    unfolding blocking_reasons_def set_append by (intro Un_mono) (auto split: option.split)
qed

end
