(* ===== verification/Spec2Isabelle.thy ===== *)
theory Spec2Isabelle
  imports Control_Guarantees Http_Guarantees Backup_Guarantees Worker_Guarantees Isolation_Guarantees
    Snapshot_Guarantees Discovery_Guarantees Cache_Guarantees Checkpoint_Guarantees Delivery_Guarantees
    Manual_Guarantees Emission_Guarantees Fixture_Guarantees Http_Metadata_Guarantees Import_Plan_Guarantees
    Storage_Guarantees Vm_Plan Profiled_Plans Measurements Models_Import Fixture_Tasks Screening
begin

text \<open>
  Verification of Pepeuch IA Cluster: the control plane, its HTTP interface and backups, its workers and their
  isolation, and the metadata-only discovery tools.

  The program. \<open>src/control_plane\<close> is a private server: an administrator and enrolled workers reach it over HTTP, a
  mission is planned, approved, leased to one worker, executed and its result published as a new version of a file in a
  workspace; all state is one SQLite index and a directory of objects named by their digest. \<open>src/pepeuch_worker\<close> is
  the independent worker: it claims a mission through the same HTTP interface, journals every decision in a private
  folder before acting on it, and asks a verifier running as root for a permit over a Unix socket.
  \<open>src/database/poc\<close> observes public catalogues of models: documents are normalised into records, records become
  deterministic snapshots, a bounded execution asks the sources, and what was observed is bound to a provenance, cached,
  checkpointed, compared and turned into scripts for two databases. \<open>src/infrastructure/proxmox\<close> plans a virtual machine.

  Ground. \<open>Prelude\<close>: exceptions as values (\<open>err\<close>), pure functions that raise (\<open>'a res\<close>) and actions on a state
  (\<open>('s, 'a) act\<close>, the state survives an exception unless a transaction restores it), with the rules the proofs share.
  \<open>PyValue\<close>: JSON values, Python's equality on them, canonical printing (\<open>canonical\<close> of \<open>contracts.py\<close>).
  \<open>Text_Utils\<close>, \<open>Urls\<close>, \<open>Base64\<close>: the string methods, \<open>urlsplit\<close> and the codec of the standard library.

  The control plane (\<open>src/control_plane\<close>), one theory per file or part of a file:
  \<^item> \<open>Contracts\<close>: \<open>contracts.py\<close>, \<open>capabilities.py\<close>, \<open>demo.py\<close> (the coordinators);
  \<^item> \<open>Database\<close>: \<open>migrations/*.sql\<close> and the transaction of \<open>storage.py\<close>; a row is a record, a table a list in rowid
    order, a constraint the error it raises;
  \<^item> \<open>Registry\<close>: \<open>worker_registry.py\<close> and \<open>auth.py\<close>; \<open>Service\<close> and \<open>Missions\<close>: \<open>service.py\<close>; \<open>Workspace\<close>: \<open>workspace.py\<close>;
    \<open>Execution\<close>: \<open>execution.py\<close>;
  \<^item> \<open>Control_Plane\<close>: the public operations as commands; the step relation and the reachable worlds;
  \<^item> \<open>Http_IO\<close>: \<open>http_io.py\<close>; \<open>Http_Api\<close>: \<open>http_api.py\<close>; \<open>Storage\<close>: the directory of an
    installation in \<open>storage.py\<close>; \<open>Backup\<close>: \<open>backup.py\<close>; \<open>Worker_Client\<close>: \<open>worker_client.py\<close>.

  Its lemmas: \<open>Lifecycle\<close> states the coherence of missions, tasks and attempts, \<open>Progress\<close> proves it for every effect,
  \<open>Invariants\<close> for every reachable world (with an instance of it: at most one active attempt); \<open>History\<close> reduces a
  command to the elementary writes it makes, and \<open>Ledger\<close> proves of these what is append-only or never rewritten;
  \<open>Publication\<close> is the content-addressed store, the quota and the version numbers, \<open>Replays\<close> the recorded responses,
  \<open>Credentials\<close> the epochs, \<open>Outcomes\<close> the effect of an accepted result. \<open>Scenario\<close> is the concrete installation on
  which \<open>Control_Guarantees\<close> (C1 to C13, but for C8) instantiates its properties. \<open>Storage_Guarantees\<close> (C8, C33) says what opening an
  installation may change, that a second opening is refused, and that a later one finds it as it was. \<open>Http_Guarantees\<close> (C14 to C16) and
  \<open>Backup_Guarantees\<close> (C17 to C19) are about requests and about backups.

  The independent worker (\<open>src/pepeuch_worker\<close>): \<open>Worker_Policy\<close> (\<open>contracts.py\<close>, \<open>executor.py\<close>), \<open>Private_IO\<close>
  (\<open>private_io.py\<close>), \<open>Worker_Runner\<close> (\<open>runner.py\<close>), \<open>Isolation_Policy\<close> (\<open>verification.py\<close>), \<open>Linux_Observer\<close>
  (\<open>linux_observer.py\<close>), \<open>Verification_Channel\<close> (\<open>verification_channel.py\<close>), \<open>Verifier\<close> (\<open>verifier.py\<close>,
  \<open>isolation.py\<close>). \<open>Worker_Guarantees\<close> (C20 to C23): the journal is atomic, a restart publishes and never recomputes,
  what the executor returns is what the server accepts. \<open>Isolation_Guarantees\<close> (C24 to C26): no permit without a proof
  that the kernel says is written by root, and none at all from the diagnostic controller.

  The discovery tools (\<open>src/database/poc\<close>):
  \<^item> \<open>Metadata\<close> (\<open>metadata_primitives.py\<close>), \<open>Source_Specs\<close> (\<open>source_spec_design.py\<close>), \<open>Source_Adapters\<close>
    (\<open>source_adapters.py\<close>), \<open>Provider_Adapters\<close> (\<open>csghub_adapter.py\<close>, \<open>moark_adapter.py\<close>, \<open>modelscope_adapter.py\<close>),
    \<open>Models_Dev\<close> and \<open>Models_Import\<close> (\<open>import_models_dev.py\<close>, \<open>import_models_dev_surreal.py\<close>,
    \<open>collect_discovery_snapshot.py\<close>), \<open>Fixture_Registry\<close> (\<open>discovery_registry.py\<close>); \<open>Screening\<close> orders the ways a
    profile targets a GPU, and \<open>Fixture_Guarantees\<close> (C38) says what a fixture's records conform to;
  \<^item> \<open>Snapshots\<close> (\<open>discovery_cache.py\<close>), with \<open>Snapshot_Guarantees\<close> (C29 to C31);
  \<^item> \<open>Retry_After\<close> (\<open>retry_after.py\<close>), \<open>Execution_Models\<close> (\<open>execution_models.py\<close>), \<open>Discovery_Execution\<close>
    (\<open>discovery_execution.py\<close>), with \<open>Discovery_Guarantees\<close> (C27, C28), and \<open>Metadata_Http\<close> (\<open>metadata_http.py\<close>,
    \<open>metadata_sdk.py\<close>), with \<open>Http_Metadata_Guarantees\<close> (C39);
  \<^item> \<open>Provenance\<close> (\<open>discovery_provenance.py\<close>), \<open>Validated_Cache\<close> (\<open>validated_discovery_cache.py\<close>), with
    \<open>Cache_Guarantees\<close> (C32); \<open>Checkpoints\<close> (\<open>discovery_checkpoints.py\<close>), with \<open>Checkpoint_Guarantees\<close> (C34);
  \<^item> \<open>Manual_Run\<close> (\<open>manual_discovery_run.py\<close>), which composes the execution, the cache and the checkpoints, with
    \<open>Manual_Guarantees\<close> (C36), and \<open>Fixture_Tasks\<close>, its tasks over the fixtures;
  \<^item> \<open>Import_Emission\<close> (\<open>emit_discovery_import.py\<close>), with \<open>Emission_Guarantees\<close> (C37), and \<open>Import_Plan\<close>
    (\<open>incremental_import_plan.py\<close>, \<open>synthetic_output.py\<close>), with \<open>Import_Plan_Guarantees\<close> (C40);
  \<^item> \<open>Deliveries\<close> (\<open>confirmed_sql_batches.py\<close>, \<open>isolated_bench_ingestion.py\<close>, the batches of
    \<open>isolated_bench_workload.py\<close>), with \<open>Delivery_Guarantees\<close> (C35);
  \<^item> \<open>Measurements\<close> (\<open>comparison_workload.py\<close>), \<open>Profiled_Plans\<close> (\<open>isolated_bench_plans.py\<close>), and \<open>Vm_Plan\<close> for
    \<open>infrastructure/proxmox/vm_plan.py\<close>.
\<close>

text \<open>
  Interfaces. What one component promises another is a locale, interpreted on the model's own definitions:
  \<open>object_files\<close> (a content-addressed store; \<open>Publication\<close>), \<open>idempotent_ledger\<close> (recorded responses; \<open>Replays\<close>),
  \<open>history\<close>, \<open>command_history\<close> and \<open>table_history\<close> (a relation between worlds kept by commands, or by the writes they
  are made of; interpreted in \<open>Invariants\<close> and \<open>Ledger\<close> on each of the relations), and \<open>budget_order\<close> (a relation kept
  by every step of an execution's budget; interpreted twice in \<open>Discovery_Guarantees\<close>).

  Parameters. What is not under \<open>src\<close> is an argument of the definitions: SHA-256, HMAC and the printing of floats
  (\<open>hashing\<close>, \<open>mac\<close>, \<open>sha\<close>), the JSON parser (\<open>loads\<close>), \<open>datetime.fromisoformat\<close> (\<open>clk\<close>), clocks, random
  identifiers and delays, the peers of sockets, the kernel's answers, the files of a checkout or of the host, git,
  \<open>tomllib\<close>, the opener of \<open>urllib\<close> and the engines that receive SQL. What a property relies on of them is a hypothesis
  of its statement, and its witness instantiates them with functions.

  Bounds. No definition runs on fuel that the code does not have: the retry loop of an execution counts down
  \<open>max_attempts\<close>, a positive integer of the task's policy; the traversal of a profiled plan has the 64 levels of its
  source's limit and one more, on which it refuses; the plan of a virtual machine keeps modes as 16-bit words; the
  decoder of percent escapes, the readers of sockets and the sorting of records are total with their measures. Sequence
  numbers, sizes and clocks are Python's unbounded integers. A finite float is the rational it denotes and sums of them
  are exact. A string is a list of code points below 256; where the source reads a character above, it is said in the
  theory.

  Not modelled. \<open>fsync\<close> and failing writes of \<open>storage.py\<close> and \<open>backup.py\<close>, and the checks of directories and
  the lock in \<open>backup.py\<close>; the adapter of a socket (\<open>DeadlineSocket\<close>) and the threads of the
  server: handlers are serialised by the index's write transactions; the creation and synchronisation of the worker's
  folder (\<open>initialize_directory\<close>); command lines, printing and exits (\<open>__main__.py\<close>, \<open>main\<close>); the online collection and
  the probes of providers, which call the network by hand; the read-only benchmark and the isolated runtime with its
  containers (\<open>benchmark_readonly.py\<close>, \<open>isolated_bench_runtime.py\<close>, \<open>isolated_bench_clients.py\<close>,
  \<open>isolated_docker_bench.py\<close>) and the synthetic corpus they load; the health probe of the server; the isolation pilot
  (\<open>src/pilot\<close>), which starts processes under systemd; the web page, the archived prototype and the package markers.
  These call the operating system or a service for nearly every line, and leave nothing to state without it.
\<close>

end
